(* ===== verification/AieBase.thy ===== *)
theory AieBase
  imports Main "HOL-Library.While_Combinator" "HOL-Library.Word"
begin

text \<open>
  Prelude of the development: the return codes and constants of
  services/common/protocol/retcode_inner and services/common/utils/constants, the
  structures of services/common/protocol/struct_definition, the fixed-width signed
  arithmetic of the identifier counters, and the identifier-allocation loop that three
  components of the engine run (sequence ids, client ids, session ids), with the locale
  that holds what is true of every instance of it.
\<close>

named_theorems aie_defs \<open>definitions of the small operations, unfolded by the component proofs\<close>
named_theorems aie_inv \<open>preservation of component invariants by operations\<close>

section \<open>Return codes and constants\<close>

text \<open>Every operation of the engine returns an \<open>int\<close>: plugins may return any value.\<close>

type_synonym retcode = int

abbreviation (input) RETCODE_SUCCESS :: retcode where "RETCODE_SUCCESS \<equiv> 0"
abbreviation (input) RETCODE_FAILURE :: retcode where "RETCODE_FAILURE \<equiv> - 1"
abbreviation (input) RETCODE_OUT_OF_MEMORY :: retcode where "RETCODE_OUT_OF_MEMORY \<equiv> 1001"
abbreviation (input) RETCODE_NULL_PARAM :: retcode where "RETCODE_NULL_PARAM \<equiv> 1002"
abbreviation (input) RETCODE_ALGORITHM_ID_INVALID :: retcode where "RETCODE_ALGORITHM_ID_INVALID \<equiv> 1003"
abbreviation (input) RETCODE_MEMORY_COPY_FAILURE :: retcode where "RETCODE_MEMORY_COPY_FAILURE \<equiv> 1004"
abbreviation (input) RETCODE_SERVER_NOT_INIT :: retcode where "RETCODE_SERVER_NOT_INIT \<equiv> 1005"
abbreviation (input) RETCODE_INVALID_PARAM :: retcode where "RETCODE_INVALID_PARAM \<equiv> 1006"
abbreviation (input) RETCODE_SA_SERVICE_EXCEPTION :: retcode where "RETCODE_SA_SERVICE_EXCEPTION \<equiv> 1100"
abbreviation (input) RETCODE_SA_CLIENT_EXCEPTION :: retcode where "RETCODE_SA_CLIENT_EXCEPTION \<equiv> 1101"
abbreviation (input) RETCODE_SA_ASYNC_HANDLER_NOT_FOUND :: retcode where
  "RETCODE_SA_ASYNC_HANDLER_NOT_FOUND \<equiv> 1102"
abbreviation (input) RETCODE_SO_LACK_SYMBOL :: retcode where "RETCODE_SO_LACK_SYMBOL \<equiv> 1200"
abbreviation (input) RETCODE_PLUGIN_LOAD_FAILED :: retcode where "RETCODE_PLUGIN_LOAD_FAILED \<equiv> 1201"
abbreviation (input) RETCODE_OPEN_SO_FAILED :: retcode where "RETCODE_OPEN_SO_FAILED \<equiv> 1202"
abbreviation (input) RETCODE_NO_LISTENER_FOUND :: retcode where "RETCODE_NO_LISTENER_FOUND \<equiv> 1203"
abbreviation (input) RETCODE_ENGINE_NOT_EXIST :: retcode where "RETCODE_ENGINE_NOT_EXIST \<equiv> 1204"
abbreviation (input) RETCODE_ENGINE_MANAGER_NOT_INIT :: retcode where
  "RETCODE_ENGINE_MANAGER_NOT_INIT \<equiv> 1205"
abbreviation (input) RETCODE_NO_CLIENT_FOUND :: retcode where "RETCODE_NO_CLIENT_FOUND \<equiv> 1206"
abbreviation (input) RETCODE_WRONG_INFER_MODE :: retcode where "RETCODE_WRONG_INFER_MODE \<equiv> 1207"
abbreviation (input) RETCODE_ASYNC_CB_STARTED :: retcode where "RETCODE_ASYNC_CB_STARTED \<equiv> 1208"
abbreviation (input) RETCODE_SYNC_MSG_TIMEOUT :: retcode where "RETCODE_SYNC_MSG_TIMEOUT \<equiv> 1300"
abbreviation (input) RETCODE_ASYNC_MSG_TIMEOUT :: retcode where "RETCODE_ASYNC_MSG_TIMEOUT \<equiv> 1301"
abbreviation (input) RETCODE_START_THREAD_FAILED :: retcode where "RETCODE_START_THREAD_FAILED \<equiv> 1400"
abbreviation (input) RETCODE_QUEUE_FULL :: retcode where "RETCODE_QUEUE_FULL \<equiv> 1500"
abbreviation (input) RETCODE_QUEUE_EMPTY :: retcode where "RETCODE_QUEUE_EMPTY \<equiv> 1501"
abbreviation (input) RETCODE_QUEUE_NODE_INVALID :: retcode where "RETCODE_QUEUE_NODE_INVALID \<equiv> 1502"
abbreviation (input) RETCODE_EMPTY_MAP :: retcode where "RETCODE_EMPTY_MAP \<equiv> 1600"
abbreviation (input) RETCODE_ALGORITHM_PROCESS_ERROR :: retcode where
  "RETCODE_ALGORITHM_PROCESS_ERROR \<equiv> 1700"

abbreviation (input) INVALID_CLIENT_ID :: int where "INVALID_CLIENT_ID \<equiv> - 1"
abbreviation (input) INVALID_SESSION_ID :: int where "INVALID_SESSION_ID \<equiv> - 1"
abbreviation (input) INVALID_REQUEST_ID :: int where "INVALID_REQUEST_ID \<equiv> - 1"
abbreviation (input) INVALID_UID :: int where "INVALID_UID \<equiv> 0"

section \<open>The shared structures\<close>

text \<open>
  \<open>DataInfo\<close> is a pointer to \<open>length\<close> bytes: \<open>di_data\<close> is \<open>None\<close> for the null pointer and
  otherwise the bytes of the block it points to. The reserved \<open>extendMsg\<close> of the other two
  structures is carried the same way, with its \<open>extendLen\<close>.
\<close>

type_synonym byte = "8 word"

record DataInfo =
  di_data :: "byte list option"
  di_length :: int

abbreviation empty_DataInfo :: DataInfo where
  "empty_DataInfo \<equiv> \<lparr>di_data = None, di_length = 0\<rparr>"

record ClientInfo =
  ci_clientVersion :: int
  ci_clientId :: int
  ci_sessionId :: int
  ci_serverUid :: int
  ci_clientUid :: int
  ci_extend :: DataInfo

record AlgorithmInfo =
  ai_clientVersion :: int
  ai_isAsync :: bool
  ai_algorithmType :: int
  ai_algorithmVersion :: int
  ai_isCloud :: bool
  ai_operateId :: int
  ai_requestId :: int
  ai_extend :: DataInfo

section \<open>Bytes of memory\<close>

text \<open>
  Reading and writing a block of memory: outside the block the behaviour is undefined,
  which is \<open>None\<close> of the operation that does it.
\<close>

definition mem_read :: "nat \<Rightarrow> nat \<Rightarrow> byte list \<Rightarrow> byte list option" where
  "mem_read p n m = (if p + n \<le> length m then Some (take n (drop p m)) else None)"

definition mem_write :: "nat \<Rightarrow> byte list \<Rightarrow> byte list \<Rightarrow> byte list option" where
  "mem_write p bs m =
     (if p + length bs \<le> length m then Some (take p m @ bs @ drop (p + length bs) m) else None)"

lemma mem_write_length: "mem_write p bs m = Some m' \<Longrightarrow> length m' = length m"
  by (auto simp: mem_write_def split: if_splits)

lemma mem_write_prefix:
  "mem_write p bs m = Some m' \<Longrightarrow> take (p + length bs) m' = take p m @ bs"
  by (auto simp: mem_write_def split: if_splits)

text \<open>Little-endian object representation of an unsigned value of \<open>k\<close> bytes.\<close>

fun le_bytes :: "nat \<Rightarrow> nat \<Rightarrow> byte list" where
  "le_bytes 0 n = []"
| "le_bytes (Suc k) n = word_of_nat (n mod 256) # le_bytes k (n div 256)"

fun le_val :: "byte list \<Rightarrow> nat" where
  "le_val [] = 0"
| "le_val (b # bs) = unat b + 256 * le_val bs"

lemma length_le_bytes [simp]: "length (le_bytes k n) = k"
  by (induction k arbitrary: n) auto

lemma le_val_le_bytes: "le_val (le_bytes k n) = n mod 256 ^ k"
proof (induction k arbitrary: n)
  case 0
  then show ?case by simp
next
  case (Suc k)
  have "unat (word_of_nat (n mod 256) :: byte) = n mod 256"
    by (simp add: unat_of_nat)
  then have "le_val (le_bytes (Suc k) n) = n mod 256 + 256 * (n div 256 mod 256 ^ k)"
    by (simp add: Suc.IH)
  also have "\<dots> = n mod (256 * 256 ^ k)"
    by (simp add: mod_mult2_eq)
  finally show ?case by simp
qed

lemma le_val_bound: "le_val bs < 256 ^ length bs"
proof (induction bs)
  case (Cons b bs)
  have "unat b < 256" by (rule order_less_le_trans [OF unsigned_less]) simp
  then show ?case using Cons by simp
qed simp

lemma le_bytes_le_val: "le_bytes (length bs) (le_val bs) = bs"
proof (induction bs)
  case (Cons b bs)
  have "unat b < 256" by (rule order_less_le_trans [OF unsigned_less]) simp
  then show ?case using Cons by simp
qed simp

section \<open>Fixed-width unsigned counters\<close>

text \<open>\<open>++\<close> and \<open>--\<close> of a \<open>size_t\<close>, 64 bits wide.\<close>

abbreviation (input) SZ :: nat where "SZ \<equiv> 2 ^ 64"

definition sz_inc :: "nat \<Rightarrow> nat" where "sz_inc n = (n + 1) mod SZ"
definition sz_dec :: "nat \<Rightarrow> nat" where "sz_dec n = (n + (SZ - 1)) mod SZ"

lemma sz_counts: "n < SZ \<Longrightarrow> 0 < n \<Longrightarrow> sz_dec n = n - 1" "n + 1 < SZ \<Longrightarrow> sz_inc n = n + 1"
  by (auto simp: sz_dec_def sz_inc_def mod_if)

section \<open>Fixed-width signed counters\<close>

text \<open>
  \<open>swrap w x\<close> is the two's complement value of \<open>x\<close> in \<open>w\<close> bits: the counters are
  \<open>std::atomic<int>\<close> and \<open>std::atomic<long long>\<close>, whose increment wraps around.
\<close>

definition swrap :: "nat \<Rightarrow> int \<Rightarrow> int" where
  "swrap w x = (x + 2 ^ (w - 1)) mod 2 ^ w - 2 ^ (w - 1)"

lemma swrap_id:
  assumes "0 < w" and "- (2 ^ (w - 1)) \<le> x" and "x < 2 ^ (w - 1)"
  shows "swrap w x = x"
proof -
  have "(2::int) ^ w = 2 * 2 ^ (w - 1)"
    using assms(1) by (cases w) auto
  then have "(x + 2 ^ (w - 1)) mod 2 ^ w = x + 2 ^ (w - 1)"
    using assms(2,3) by (intro mod_pos_pos_trivial) auto
  then show ?thesis by (simp add: swrap_def)
qed

lemma swrap_overflow:
  assumes "0 < w"
  shows "swrap w (2 ^ (w - 1)) = - (2 ^ (w - 1))"
proof -
  have "(2::int) ^ (w - 1) + 2 ^ (w - 1) = 2 ^ w"
    using assms by (cases w) auto
  then show ?thesis by (simp add: swrap_def)
qed

text \<open>One round of the loop body: increment, and restart at \<open>lo\<close> when below it.\<close>

definition bump_id :: "nat \<Rightarrow> int \<Rightarrow> int \<Rightarrow> int" where
  "bump_id w lo x = (let y = swrap w (x + 1) in if y < lo then lo else y)"

text \<open>
  \<open>do { bump } while (the id is in use)\<close>. Whether the loop ends depends on the ids in
  use, so not returning is \<open>None\<close>.
\<close>

definition find_free_id :: "nat \<Rightarrow> int \<Rightarrow> (int \<Rightarrow> bool) \<Rightarrow> int \<Rightarrow> int option" where
  "find_free_id w lo used x = while_option used (bump_id w lo) (bump_id w lo x)"

lemma find_free_id_step:
  "used (bump_id w lo x) \<Longrightarrow> find_free_id w lo used x = find_free_id w lo used (bump_id w lo x)"
  by (simp add: find_free_id_def while_option_unfold [of used "bump_id w lo" "bump_id w lo x"])

lemma find_free_id_stop:
  "\<not> used (bump_id w lo x) \<Longrightarrow> find_free_id w lo used x = Some (bump_id w lo x)"
  by (simp add: find_free_id_def while_option_unfold [of used "bump_id w lo" "bump_id w lo x"])

text \<open>A returned id is never in use.\<close>

lemma find_free_id_fresh: "find_free_id w lo used x = Some y \<Longrightarrow> \<not> used y"
  unfolding find_free_id_def by (rule while_option_stop)

section \<open>The identifier space\<close>

text \<open>
  The ids of one allocator: a width and the smallest valid id. The ids from \<open>lo\<close> to the
  largest value of the width form a cycle under \<open>bump_id\<close>, which is why the loop finds a
  free id as long as there is one.
\<close>

locale id_space =
  fixes w :: nat and lo :: int
  assumes width_pos: "0 < w"
    and lo_nonneg: "0 \<le> lo"
    and lo_small: "lo < 2 ^ (w - 1)"
begin

abbreviation (input) hi :: int where "hi \<equiv> 2 ^ (w - 1) - 1"

lemma bump_below: "- (2 ^ (w - 1)) \<le> x \<Longrightarrow> x < lo \<Longrightarrow> bump_id w lo x = lo"
  using swrap_id [of w "x + 1"] width_pos lo_small by (auto simp: bump_id_def Let_def)

lemma bump_inside: "lo \<le> x \<Longrightarrow> x < hi \<Longrightarrow> bump_id w lo x = x + 1"
  using swrap_id [of w "x + 1"] width_pos lo_nonneg by (auto simp: bump_id_def Let_def)

lemma bump_top: "bump_id w lo hi = lo"
proof -
  have "swrap w (hi + 1) = - (2 ^ (w - 1))"
    using swrap_overflow [OF width_pos] by simp
  moreover have "- (2 ^ (w - 1)) < lo"
    using lo_nonneg zero_less_power [of "2::int" "w - 1"] by linarith
  ultimately show ?thesis by (simp add: bump_id_def Let_def)
qed

lemma bump_range:
  assumes "- (2 ^ (w - 1)) \<le> x" and "x \<le> hi"
  shows "lo \<le> bump_id w lo x \<and> bump_id w lo x \<le> hi"
proof -
  consider "x < lo" | "lo \<le> x" "x < hi" | "x = hi"
    using assms(2) by linarith
  then show ?thesis
  proof cases
    case 1
    then show ?thesis using bump_below assms(1) lo_small by simp
  next
    case 2
    then show ?thesis using bump_inside by simp
  next
    case 3
    then show ?thesis using bump_top lo_small by simp
  qed
qed

text \<open>From \<open>x\<close> the loop reaches \<open>x + 1, x + 2, \<dots>\<close> up to the top as long as they are in use.\<close>

lemma find_upwards:
  assumes "lo \<le> x" and "x + int k \<le> hi" and "\<forall>j. 0 < j \<and> j \<le> int k \<longrightarrow> used (x + j)"
  shows "find_free_id w lo used x = find_free_id w lo used (x + int k)"
  using assms
proof (induction k)
  case 0
  then show ?case by simp
next
  case (Suc k)
  have "find_free_id w lo used x = find_free_id w lo used (x + int k)"
    using Suc.prems by (intro Suc.IH) auto
  also have "\<dots> = find_free_id w lo used (x + int (Suc k))"
  proof -
    have "bump_id w lo (x + int k) = x + int (Suc k)"
      using Suc.prems(1,2) bump_inside [of "x + int k"] by simp
    moreover have "used (x + int (Suc k))"
      using Suc.prems(3) [rule_format, of "int (Suc k)"] by simp
    ultimately show ?thesis using find_free_id_step [of used w lo "x + int k"] by simp
  qed
  finally show ?case .
qed

text \<open>A free id above the start is found, or a smaller one is.\<close>

lemma find_above:
  assumes "lo \<le> x" and "x < f" and "f \<le> hi" and "\<not> used f"
  shows "\<exists>y. find_free_id w lo used x = Some y \<and> x < y \<and> y \<le> f \<and> (\<forall>z. x < z \<and> z < y \<longrightarrow> used z)"
proof -
  define k where "k = (LEAST k. \<not> used (x + int (Suc k)))"
  have ex: "\<not> used (x + int (Suc (nat (f - x - 1))))"
    using assms(2,4) by simp
  have free: "\<not> used (x + int (Suc k))"
    unfolding k_def by (rule LeastI [where P = "\<lambda>k. \<not> used (x + int (Suc k))", OF ex])
  have kle: "k \<le> nat (f - x - 1)"
    unfolding k_def by (rule Least_le [where P = "\<lambda>k. \<not> used (x + int (Suc k))", OF ex])
  have below: "used (x + int (Suc i))" if "i < k" for i
    using not_less_Least [of i "\<lambda>k. \<not> used (x + int (Suc k))"] that unfolding k_def by blast
  have used: "\<forall>j. 0 < j \<and> j \<le> int k \<longrightarrow> used (x + j)"
  proof (intro allI impI)
    fix j :: int
    assume j: "0 < j \<and> j \<le> int k"
    then have "j = int (Suc (nat (j - 1)))" and "nat (j - 1) < k" by auto
    then show "used (x + j)" using below by metis
  qed
  have top: "x + int (Suc k) \<le> f"
    using kle assms(2) by (simp add: nat_diff_distrib)
  have "find_free_id w lo used x = find_free_id w lo used (x + int k)"
    using find_upwards [OF assms(1) _ used] top assms(3) by simp
  also have "\<dots> = Some (x + int (Suc k))"
  proof -
    have "bump_id w lo (x + int k) = x + int (Suc k)"
      using assms(1,3) top bump_inside [of "x + int k"] by simp
    then show ?thesis using free find_free_id_stop [of used w lo "x + int k"] by simp
  qed
  finally have res: "find_free_id w lo used x = Some (x + int (Suc k))" .
  have "\<forall>z. x < z \<and> z < x + int (Suc k) \<longrightarrow> used z"
  proof (intro allI impI)
    fix z
    assume "x < z \<and> z < x + int (Suc k)"
    then have "used (x + (z - x))" using used by (intro used [rule_format]) auto
    then show "used z" by simp
  qed
  then show ?thesis using res top by (intro exI [where x = "x + int (Suc k)"]) auto
qed

text \<open>From the start value \<open>lo - 1\<close> or below, and after a wrap, the search begins at \<open>lo\<close>.\<close>

lemma find_from_lo:
  assumes "bump_id w lo x = lo" and "lo \<le> f" and "f \<le> hi" and "\<not> used f"
  shows "\<exists>y. find_free_id w lo used x = Some y \<and> lo \<le> y \<and> y \<le> hi"
proof (cases "used lo")
  case True
  then have "lo < f" using assms(2,4) by (metis order_less_le)
  then obtain y where "find_free_id w lo used lo = Some y" "lo < y" "y \<le> f"
    using find_above [of lo f used] assms by blast
  then show ?thesis
    using find_free_id_step [of used w lo x] True assms(1,3) by (intro exI [where x = y]) auto
next
  case False
  then show ?thesis
    using find_free_id_stop [of used w lo x] assms lo_small by (intro exI [where x = lo]) auto
qed

lemma find_free_total:
  assumes x: "- (2 ^ (w - 1)) \<le> x" "x \<le> hi" and f: "lo \<le> f" "f \<le> hi" "\<not> used f"
  shows "\<exists>y. find_free_id w lo used x = Some y \<and> lo \<le> y \<and> y \<le> hi"
proof (cases "x < lo \<or> x = hi")
  case True
  then have "bump_id w lo x = lo" using bump_below bump_top x(1) by auto
  then show ?thesis using find_from_lo f by blast
next
  case False
  then have xin: "lo \<le> x" "x < hi" using x(2) by auto
  show ?thesis
  proof (cases "\<exists>g. x < g \<and> g \<le> hi \<and> \<not> used g")
    case True
    then obtain g where "x < g" "g \<le> hi" "\<not> used g" by blast
    then show ?thesis using find_above [of x g used] xin by fastforce
  next
    case all: False
    have "find_free_id w lo used x = find_free_id w lo used (x + int (nat (hi - x)))"
      using all xin by (intro find_upwards) auto
    then have "find_free_id w lo used x = find_free_id w lo used hi" using xin by simp
    moreover have "bump_id w lo hi = lo" by (rule bump_top)
    ultimately show ?thesis using find_from_lo f by metis
  qed
qed

text \<open>The pigeonhole form: fewer ids in use than the space holds.\<close>

lemma find_free_enough:
  assumes "finite {i. used i}" and "int (card {i. used i}) < 2 ^ (w - 1) - lo"
    and "- (2 ^ (w - 1)) \<le> x" and "x \<le> hi"
  shows "\<exists>y. find_free_id w lo used x = Some y \<and> lo \<le> y \<and> y \<le> hi \<and> \<not> used y"
proof -
  have no: "\<not> {lo..hi} \<subseteq> {i. used i}"
  proof
    assume "{lo..hi} \<subseteq> {i. used i}"
    then have "card {lo..hi} \<le> card {i. used i}" by (rule card_mono [OF assms(1)])
    then show False using assms(2) lo_small by simp
  qed
  from no obtain f where "f \<in> {lo..hi}" and nf: "f \<notin> {i. used i}" by blast
  then have "lo \<le> f" "f \<le> hi" "\<not> used f" by auto
  then obtain y where "find_free_id w lo used x = Some y" "lo \<le> y" "y \<le> hi"
    using find_free_total assms(3,4) by blast
  then show ?thesis using find_free_id_fresh by blast
qed

end

end
