(* ===== verification/EncDec.thy ===== *)
theory EncDec
  imports AieBase
begin

text \<open>
  The serialisation of services/common/utils/encdec (DataEncoder, DataDecoder and
  EncdecFacade) with the array parameters of os_wrapper/utils/plugin_helper.cpp: the growing
  encode buffer with its capacity arithmetic, the decoder's bounds checks, and the trailing
  length word. An operation whose behaviour would be undefined (an access outside a block
  or through a null pointer) is \<open>None\<close>; every other result carries the return code.
  \<open>size_t\<close> is 64 bits wide, written as \<open>nat\<close> with the wrap-around at \<open>2 ^ 64\<close>.
\<close>

section \<open>What the code gets from its environment\<close>

text \<open>
  \<open>new_bytes n\<close> is \<open>new (std::nothrow) unsigned char[n]\<close>, \<open>malloc_bytes n\<close> is \<open>malloc(n)\<close>
  (\<open>None\<close> is the null pointer), and \<open>memcpy_eok destMax count\<close> says whether securec's
  \<open>memcpy_s\<close> returns EOK between valid disjoint blocks.
\<close>

record cenv =
  new_bytes :: "nat \<Rightarrow> byte list option"
  malloc_bytes :: "nat \<Rightarrow> byte list option"
  memcpy_eok :: "nat \<Rightarrow> nat \<Rightarrow> bool"

text \<open>An allocator that returns a block returns one of the requested size.\<close>

definition sound_env :: "cenv \<Rightarrow> bool" where
  "sound_env e \<longleftrightarrow> (\<forall>n b. new_bytes e n = Some b \<longrightarrow> length b = n) \<and>
     (\<forall>n b. malloc_bytes e n = Some b \<longrightarrow> length b = n)"

text \<open>Requests of at most \<open>lim\<close> bytes succeed, and so do copies that fit.\<close>

definition roomy_env :: "nat \<Rightarrow> cenv \<Rightarrow> bool" where
  "roomy_env lim e \<longleftrightarrow> (\<forall>n \<le> lim. new_bytes e n \<noteq> None \<and> malloc_bytes e n \<noteq> None) \<and>
     (\<forall>d c. 0 < c \<and> c \<le> d \<and> d \<le> lim \<longrightarrow> memcpy_eok e d c)"

lemma roomy_memcpy: "roomy_env lim e \<Longrightarrow> 0 < c \<Longrightarrow> c \<le> d \<Longrightarrow> d \<le> lim \<Longrightarrow> memcpy_eok e d c"
  by (simp add: roomy_env_def)

abbreviation (input) SIZE_MAX1 :: nat where "SIZE_MAX1 \<equiv> 2 ^ 64"
abbreviation (input) SIZEOF_SIZE_T :: nat where "SIZEOF_SIZE_T \<equiv> 8"
abbreviation (input) SIZEOF_MEMBLOCK :: nat where "SIZEOF_MEMBLOCK \<equiv> 8"
abbreviation (input) INT_MAX :: int where "INT_MAX \<equiv> 2147483647"

section \<open>DataEncoder\<close>

abbreviation CHUNK_SIZE :: nat where "CHUNK_SIZE \<equiv> 1024 * 15"
abbreviation BUFF_EXTENSION_FACTOR :: nat where "BUFF_EXTENSION_FACTOR \<equiv> 2"
abbreviation INIT_BUFFER_SIZE :: nat where "INIT_BUFFER_SIZE \<equiv> 256"

record MemBlock =
  blockSize :: nat
  mb_data :: "byte list"

record DataEncoder =
  de_buffer :: "MemBlock option"
  de_pos :: nat
  de_allocSuccess :: bool

definition DataEncoder_new :: DataEncoder where
  "DataEncoder_new = \<lparr>de_buffer = None, de_pos = 0, de_allocSuccess = False\<rparr>"

text \<open>The header of the block is its \<open>blockSize\<close>; what follows it is \<open>data\<close>.\<close>

definition AllocateMemBlock :: "cenv \<Rightarrow> nat \<Rightarrow> MemBlock option" where
  "AllocateMemBlock e sz =
     (case new_bytes e ((sz + SIZEOF_MEMBLOCK) mod SIZE_MAX1) of
        None \<Rightarrow> None
      | Some bs \<Rightarrow> Some \<lparr>blockSize = sz, mb_data = drop SIZEOF_MEMBLOCK bs\<rparr>)"

definition DataEncoder_Init :: "cenv \<Rightarrow> nat \<Rightarrow> DataEncoder \<Rightarrow> retcode \<times> DataEncoder" where
  "DataEncoder_Init e sz enc =
     (case AllocateMemBlock e sz of
        None \<Rightarrow> (RETCODE_OUT_OF_MEMORY, enc\<lparr>de_buffer := None\<rparr>)
      | Some b \<Rightarrow> (RETCODE_SUCCESS, enc\<lparr>de_buffer := Some b, de_allocSuccess := True\<rparr>))"

text \<open>
  The copying loop of \<open>ReallocBuffer\<close>: \<open>off\<close> is how far \<open>dest\<close> and \<open>src\<close> have moved. The
  Boolean is false when a copy failed.
\<close>

function copy_chunks ::
  "cenv \<Rightarrow> byte list \<Rightarrow> byte list \<Rightarrow> nat \<Rightarrow> nat \<Rightarrow> (bool \<times> byte list \<times> nat \<times> nat) option" where
  "copy_chunks e dest src off leftSize =
     (if leftSize \<ge> CHUNK_SIZE then
        (if memcpy_eok e CHUNK_SIZE CHUNK_SIZE then
           (case mem_read off CHUNK_SIZE src of
              None \<Rightarrow> None
            | Some bs \<Rightarrow>
                (case mem_write off bs dest of
                   None \<Rightarrow> None
                 | Some dest' \<Rightarrow> copy_chunks e dest' src (off + CHUNK_SIZE) (leftSize - CHUNK_SIZE)))
         else Some (False, dest, off, leftSize))
      else Some (True, dest, off, leftSize))"
  by pat_completeness auto
termination
  by (relation "measure (\<lambda>(e, dest, src, off, leftSize). leftSize)") auto

declare copy_chunks.simps [simp del]

definition DataEncoder_ReallocBuffer ::
  "cenv \<Rightarrow> nat \<Rightarrow> DataEncoder \<Rightarrow> (bool \<times> DataEncoder) option" where
  "DataEncoder_ReallocBuffer e newSize enc =
     (if \<not> de_allocSuccess enc then Some (False, enc)
      else case AllocateMemBlock e newSize of
        None \<Rightarrow> Some (False, enc\<lparr>de_allocSuccess := False\<rparr>)
      | Some p \<Rightarrow>
          (case de_buffer enc of
             None \<Rightarrow> None
           | Some b \<Rightarrow>
               (case copy_chunks e (mb_data p) (mb_data b) 0 (de_pos enc) of
                  None \<Rightarrow> None
                | Some (ok, d, off, leftSize) \<Rightarrow>
                    if \<not> ok then Some (False, enc\<lparr>de_allocSuccess := False\<rparr>)
                    else if leftSize > 0 then
                      (if memcpy_eok e leftSize leftSize then
                         (case mem_read off leftSize (mb_data b) of
                            None \<Rightarrow> None
                          | Some bs \<Rightarrow>
                              (case mem_write off bs d of
                                 None \<Rightarrow> None
                               | Some d' \<Rightarrow>
                                   Some (True, enc\<lparr>de_buffer := Some (p\<lparr>mb_data := d'\<rparr>)\<rparr>)))
                       else Some (False, enc\<lparr>de_allocSuccess := False\<rparr>))
                    else Some (True, enc\<lparr>de_buffer := Some (p\<lparr>mb_data := d\<rparr>)\<rparr>))))"

definition DataEncoder_Ensure :: "cenv \<Rightarrow> nat \<Rightarrow> DataEncoder \<Rightarrow> (bool \<times> DataEncoder) option" where
  "DataEncoder_Ensure e incSize enc =
     (case de_buffer enc of
        None \<Rightarrow> None
      | Some b \<Rightarrow>
          if blockSize b \<ge> (de_pos enc + incSize) mod SIZE_MAX1 then Some (True, enc)
          else DataEncoder_ReallocBuffer e
                 ((blockSize b * BUFF_EXTENSION_FACTOR + incSize) mod SIZE_MAX1) enc)"

text \<open>Copying \<open>bs\<close> to \<open>buffer_->data + pos_\<close> and moving \<open>pos_\<close> on, after \<open>Ensure\<close>.\<close>

definition DataEncoder_append ::
  "cenv \<Rightarrow> byte list \<Rightarrow> DataEncoder \<Rightarrow> (retcode \<times> DataEncoder) option" where
  "DataEncoder_append e bs enc =
     (case DataEncoder_Ensure e (length bs) enc of
        None \<Rightarrow> None
      | Some (ok, enc1) \<Rightarrow>
          if \<not> ok then Some (RETCODE_FAILURE, enc1)
          else if \<not> memcpy_eok e (length bs) (length bs) then Some (RETCODE_FAILURE, enc1)
          else (case de_buffer enc1 of
                  None \<Rightarrow> None
                | Some b \<Rightarrow>
                    (case mem_write (de_pos enc1) bs (mb_data b) of
                       None \<Rightarrow> None
                     | Some d \<Rightarrow>
                         Some (RETCODE_SUCCESS,
                           enc1\<lparr>de_buffer := Some (b\<lparr>mb_data := d\<rparr>),
                                de_pos := (de_pos enc1 + length bs) mod SIZE_MAX1\<rparr>))))"

text \<open>\<open>EncodeOneParameter<T>\<close> for a trivially copyable \<open>T\<close>: its object representation.\<close>

definition EncodeOneParameter_T ::
  "cenv \<Rightarrow> byte list \<Rightarrow> DataEncoder \<Rightarrow> (retcode \<times> DataEncoder) option" where
  "EncodeOneParameter_T e bs enc =
     (if \<not> de_allocSuccess enc then Some (RETCODE_FAILURE, enc)
      else if length bs = 0 then Some (RETCODE_FAILURE, enc)
      else DataEncoder_append e bs enc)"

definition EncodeOneParameter_string ::
  "cenv \<Rightarrow> byte list \<Rightarrow> DataEncoder \<Rightarrow> (retcode \<times> DataEncoder) option" where
  "EncodeOneParameter_string e s enc =
     (if \<not> de_allocSuccess enc then Some (RETCODE_FAILURE, enc)
      else if length s = 0 then EncodeOneParameter_T e (le_bytes SIZEOF_SIZE_T (length s)) enc
      else (case EncodeOneParameter_T e (le_bytes SIZEOF_SIZE_T (length s)) enc of
              None \<Rightarrow> None
            | Some (r, enc1) \<Rightarrow>
                if r \<noteq> RETCODE_SUCCESS then Some (RETCODE_FAILURE, enc1)
                else DataEncoder_append e s enc1))"

text \<open>
  \<open>struct Array {T *data; size_t size;}\<close>: the elements' object representations behind
  \<open>data\<close>, and \<open>size\<close>. Reading an element outside the block is undefined.
\<close>

record arr =
  arr_data :: "byte list list option"
  arr_size :: nat

fun EncodeElements ::
  "cenv \<Rightarrow> byte list list \<Rightarrow> nat \<Rightarrow> nat \<Rightarrow> DataEncoder \<Rightarrow> (retcode \<times> DataEncoder) option" where
  "EncodeElements e xs i 0 enc = Some (RETCODE_SUCCESS, enc)"
| "EncodeElements e xs i (Suc k) enc =
     (if length xs \<le> i then None
      else case EncodeOneParameter_T e (xs ! i) enc of
        None \<Rightarrow> None
      | Some (r, enc1) \<Rightarrow>
          if r \<noteq> RETCODE_SUCCESS then Some (RETCODE_FAILURE, enc1)
          else EncodeElements e xs (Suc i) k enc1)"

definition EncodeOneParameter_Array ::
  "cenv \<Rightarrow> arr \<Rightarrow> DataEncoder \<Rightarrow> (retcode \<times> DataEncoder) option" where
  "EncodeOneParameter_Array e v enc =
     (if arr_size v = 0 \<or> arr_data v = None then Some (RETCODE_FAILURE, enc)
      else case EncodeOneParameter_T e (le_bytes SIZEOF_SIZE_T (arr_size v)) enc of
        None \<Rightarrow> None
      | Some (r, enc1) \<Rightarrow>
          if r \<noteq> RETCODE_SUCCESS then Some (RETCODE_FAILURE, enc1)
          else (case arr_data v of
                  None \<Rightarrow> None
                | Some xs \<Rightarrow> EncodeElements e xs 0 (arr_size v) enc1))"

text \<open>The vector of (label, score) pairs: all labels, then all scores.\<close>

definition EncodeOneParameter_Items ::
  "cenv \<Rightarrow> (byte list \<times> byte list) list \<Rightarrow> DataEncoder \<Rightarrow> (retcode \<times> DataEncoder) option" where
  "EncodeOneParameter_Items e its enc =
     (case EncodeOneParameter_T e (le_bytes SIZEOF_SIZE_T ((length its * 2) mod SIZE_MAX1)) enc of
        None \<Rightarrow> None
      | Some (r, enc1) \<Rightarrow>
          if r \<noteq> RETCODE_SUCCESS then Some (RETCODE_FAILURE, enc1)
          else (case EncodeElements e (map fst its) 0 (length its) enc1 of
                  None \<Rightarrow> None
                | Some (r2, enc2) \<Rightarrow>
                    if r2 \<noteq> RETCODE_SUCCESS then Some (RETCODE_FAILURE, enc2)
                    else EncodeElements e (map snd its) 0 (length its) enc2))"

datatype param =
    PVal "byte list"
  | PStr "byte list"
  | PArr arr
  | PItems "(byte list \<times> byte list) list"

fun EncodeOneParameter :: "cenv \<Rightarrow> param \<Rightarrow> DataEncoder \<Rightarrow> (retcode \<times> DataEncoder) option" where
  "EncodeOneParameter e (PVal bs) enc = EncodeOneParameter_T e bs enc"
| "EncodeOneParameter e (PStr s) enc = EncodeOneParameter_string e s enc"
| "EncodeOneParameter e (PArr v) enc = EncodeOneParameter_Array e v enc"
| "EncodeOneParameter e (PItems its) enc = EncodeOneParameter_Items e its enc"

fun RecursiveEncode :: "cenv \<Rightarrow> param list \<Rightarrow> DataEncoder \<Rightarrow> (retcode \<times> DataEncoder) option" where
  "RecursiveEncode e [] enc = Some (RETCODE_SUCCESS, enc)"
| "RecursiveEncode e (p # ps) enc =
     (case EncodeOneParameter e p enc of
        None \<Rightarrow> None
      | Some (r, enc1) \<Rightarrow>
          if r \<noteq> RETCODE_SUCCESS then Some (r, enc1) else RecursiveEncode e ps enc1)"

definition GetSerializedData ::
  "cenv \<Rightarrow> DataInfo \<Rightarrow> DataEncoder \<Rightarrow> (retcode \<times> DataInfo \<times> DataEncoder) option" where
  "GetSerializedData e di enc =
     (case EncodeOneParameter_T e (le_bytes SIZEOF_SIZE_T (de_pos enc)) enc of
        None \<Rightarrow> None
      | Some (r, enc1) \<Rightarrow>
          if r \<noteq> RETCODE_SUCCESS then Some (RETCODE_FAILURE, di, enc1)
          else (case de_buffer enc1 of
                  None \<Rightarrow> Some (RETCODE_FAILURE, di, enc1)
                | Some b \<Rightarrow>
                    if de_pos enc1 = 0 then Some (RETCODE_FAILURE, di, enc1)
                    else if int (de_pos enc1) > INT_MAX then Some (RETCODE_FAILURE, di, enc1)
                    else (case malloc_bytes e (de_pos enc1) of
                            None \<Rightarrow>
                              Some (RETCODE_OUT_OF_MEMORY,
                                di\<lparr>di_length := int (de_pos enc1), di_data := None\<rparr>, enc1)
                          | Some m \<Rightarrow>
                              if \<not> memcpy_eok e (de_pos enc1) (de_pos enc1) then
                                Some (RETCODE_MEMORY_COPY_FAILURE,
                                  di\<lparr>di_length := 0, di_data := None\<rparr>, enc1)
                              else (case mem_read 0 (de_pos enc1) (mb_data b) of
                                      None \<Rightarrow> None
                                    | Some bs \<Rightarrow>
                                        (case mem_write 0 bs m of
                                           None \<Rightarrow> None
                                         | Some m' \<Rightarrow>
                                             Some (RETCODE_SUCCESS,
                                               di\<lparr>di_length := int (de_pos enc1), di_data := Some m'\<rparr>,
                                               \<lparr>de_buffer = None, de_pos = 0,
                                                de_allocSuccess = False\<rparr>))))))"

definition ProcessEncode :: "cenv \<Rightarrow> DataInfo \<Rightarrow> param list \<Rightarrow> (retcode \<times> DataInfo) option" where
  "ProcessEncode e di ps =
     (let (r0, enc0) = DataEncoder_Init e INIT_BUFFER_SIZE DataEncoder_new in
      if r0 \<noteq> RETCODE_SUCCESS then Some (r0, di)
      else (case RecursiveEncode e ps enc0 of
              None \<Rightarrow> None
            | Some (r1, enc1) \<Rightarrow>
                if r1 \<noteq> RETCODE_SUCCESS then Some (r1, di)
                else (case GetSerializedData e di enc1 of
                        None \<Rightarrow> None
                      | Some (r2, di2, enc2) \<Rightarrow>
                          if r2 \<noteq> RETCODE_SUCCESS then Some (r2, di2)
                          else if di_length di2 \<le> 0 \<or> di_data di2 = None
                          then Some (RETCODE_FAILURE, di2)
                          else Some (RETCODE_SUCCESS, di2))))"

section \<open>DataDecoder\<close>

record DataDecoder =
  dd_buffer :: "byte list"
  dd_size :: nat
  dd_pos :: nat

definition DataDecoder_Ensure :: "nat \<Rightarrow> DataDecoder \<Rightarrow> bool" where
  "DataDecoder_Ensure n d \<longleftrightarrow> n \<le> dd_size d \<and> (dd_pos d + n) mod SIZE_MAX1 \<le> dd_size d"

definition DecodeOneParameter_T ::
  "cenv \<Rightarrow> nat \<Rightarrow> DataDecoder \<Rightarrow> (retcode \<times> byte list \<times> DataDecoder) option" where
  "DecodeOneParameter_T e n d =
     (if n = 0 then Some (RETCODE_FAILURE, [], d)
      else if \<not> DataDecoder_Ensure n d then Some (RETCODE_FAILURE, [], d)
      else if \<not> memcpy_eok e n n then Some (RETCODE_FAILURE, [], d)
      else (case mem_read (dd_pos d) n (dd_buffer d) of
              None \<Rightarrow> None
            | Some bs \<Rightarrow>
                Some (RETCODE_SUCCESS, bs, d\<lparr>dd_pos := (dd_pos d + n) mod SIZE_MAX1\<rparr>)))"

definition DecodeOneParameter_string ::
  "cenv \<Rightarrow> DataDecoder \<Rightarrow> (retcode \<times> byte list \<times> DataDecoder) option" where
  "DecodeOneParameter_string e d =
     (case DecodeOneParameter_T e SIZEOF_SIZE_T d of
        None \<Rightarrow> None
      | Some (r, lenb, d1) \<Rightarrow>
          if r \<noteq> RETCODE_SUCCESS then Some (RETCODE_FAILURE, [], d1)
          else (let len = le_val lenb in
                if len = 0 then Some (RETCODE_SUCCESS, [], d1)
                else if \<not> DataDecoder_Ensure len d1 then Some (RETCODE_FAILURE, [], d1)
                else (case mem_read (dd_pos d1) len (dd_buffer d1) of
                        None \<Rightarrow> None
                      | Some s \<Rightarrow>
                          Some (RETCODE_SUCCESS, s, d1\<lparr>dd_pos := (dd_pos d1 + len) mod SIZE_MAX1\<rparr>))))"

text \<open>
  The elements are read one by one into the new block; a failure frees it, and the
  \<open>size\<close> already read stays in the caller's array.
\<close>

fun DecodeElements ::
  "cenv \<Rightarrow> nat \<Rightarrow> nat \<Rightarrow> DataDecoder \<Rightarrow> (retcode \<times> byte list list \<times> DataDecoder) option" where
  "DecodeElements e w 0 d = Some (RETCODE_SUCCESS, [], d)"
| "DecodeElements e w (Suc k) d =
     (case DecodeOneParameter_T e w d of
        None \<Rightarrow> None
      | Some (r, bs, d1) \<Rightarrow>
          if r \<noteq> RETCODE_SUCCESS then Some (RETCODE_FAILURE, [], d1)
          else (case DecodeElements e w k d1 of
                  None \<Rightarrow> None
                | Some (r2, xs, d2) \<Rightarrow> Some (r2, bs # xs, d2)))"

text \<open>\<open>new (std::nothrow) T[n]\<close>: null also when the byte count does not fit \<open>size_t\<close>.\<close>

definition new_array :: "cenv \<Rightarrow> nat \<Rightarrow> nat \<Rightarrow> bool" where
  "new_array e w n \<longleftrightarrow> n * w < SIZE_MAX1 \<and> new_bytes e (n * w) \<noteq> None"

definition DecodeOneParameter_Array ::
  "cenv \<Rightarrow> nat \<Rightarrow> arr \<Rightarrow> DataDecoder \<Rightarrow> (retcode \<times> arr \<times> DataDecoder) option" where
  "DecodeOneParameter_Array e w v d =
     (if arr_size v \<noteq> 0 \<or> arr_data v \<noteq> None then Some (RETCODE_FAILURE, v, d)
      else case DecodeOneParameter_T e SIZEOF_SIZE_T d of
        None \<Rightarrow> None
      | Some (r, szb, d1) \<Rightarrow>
          if r \<noteq> RETCODE_SUCCESS then Some (RETCODE_FAILURE, v, d1)
          else (let n = le_val szb in
                if \<not> new_array e w n then Some (RETCODE_FAILURE, v\<lparr>arr_size := n, arr_data := None\<rparr>, d1)
                else (case DecodeElements e w n d1 of
                        None \<Rightarrow> None
                      | Some (r2, xs, d2) \<Rightarrow>
                          if r2 \<noteq> RETCODE_SUCCESS
                          then Some (RETCODE_FAILURE, v\<lparr>arr_size := n, arr_data := None\<rparr>, d2)
                          else Some (RETCODE_SUCCESS, v\<lparr>arr_size := n, arr_data := Some xs\<rparr>, d2))))"

text \<open>A decode target: a value of \<open>n\<close> bytes, a string, or an array of \<open>w\<close>-byte elements.\<close>

datatype target = TVal nat | TStr | TArr nat arr

fun DecodeOneParameter ::
  "cenv \<Rightarrow> target \<Rightarrow> DataDecoder \<Rightarrow> (retcode \<times> param \<times> DataDecoder) option" where
  "DecodeOneParameter e (TVal n) d =
     map_option (\<lambda>(r, bs, d1). (r, PVal bs, d1)) (DecodeOneParameter_T e n d)"
| "DecodeOneParameter e TStr d =
     map_option (\<lambda>(r, bs, d1). (r, PStr bs, d1)) (DecodeOneParameter_string e d)"
| "DecodeOneParameter e (TArr w v) d =
     map_option (\<lambda>(r, a, d1). (r, PArr a, d1)) (DecodeOneParameter_Array e w v d)"

fun RecursiveDecode ::
  "cenv \<Rightarrow> target list \<Rightarrow> DataDecoder \<Rightarrow> (retcode \<times> param list \<times> DataDecoder) option" where
  "RecursiveDecode e [] d = Some (RETCODE_SUCCESS, [], d)"
| "RecursiveDecode e (t # ts) d =
     (case DecodeOneParameter e t d of
        None \<Rightarrow> None
      | Some (r, p, d1) \<Rightarrow>
          if r \<noteq> RETCODE_SUCCESS then Some (r, [p], d1)
          else (case RecursiveDecode e ts d1 of
                  None \<Rightarrow> None
                | Some (r2, ps, d2) \<Rightarrow> Some (r2, p # ps, d2)))"

definition CheckDataEnd :: "cenv \<Rightarrow> DataDecoder \<Rightarrow> bool option" where
  "CheckDataEnd e d =
     (case DecodeOneParameter_T e SIZEOF_SIZE_T d of
        None \<Rightarrow> None
      | Some (r, bs, d1) \<Rightarrow>
          if r \<noteq> RETCODE_SUCCESS then Some False
          else Some (\<not> (dd_pos d1 \<noteq> dd_size d1 \<or>
                        dd_pos d1 \<noteq> (le_val bs + SIZEOF_SIZE_T) mod SIZE_MAX1)))"

definition ProcessDecode ::
  "cenv \<Rightarrow> DataInfo \<Rightarrow> target list \<Rightarrow> (retcode \<times> param list) option" where
  "ProcessDecode e di ts =
     (case di_data di of
        None \<Rightarrow> Some (RETCODE_FAILURE, [])
      | Some buf \<Rightarrow>
          if di_length di \<le> 0 then Some (RETCODE_FAILURE, [])
          else (case RecursiveDecode e ts \<lparr>dd_buffer = buf, dd_size = nat (di_length di), dd_pos = 0\<rparr> of
                  None \<Rightarrow> None
                | Some (r, ps, d) \<Rightarrow>
                    if r \<noteq> RETCODE_SUCCESS then Some (RETCODE_FAILURE, ps)
                    else (case CheckDataEnd e d of
                            None \<Rightarrow> None
                          | Some ok \<Rightarrow>
                              Some (if ok then RETCODE_SUCCESS else RETCODE_FAILURE, ps))))"

section \<open>The wire format\<close>

text \<open>What each parameter contributes to the message, and the whole message: the parameters
  in order, then the number of bytes before it as a \<open>size_t\<close>.\<close>

definition size_word :: "nat \<Rightarrow> byte list" where
  "size_word n = le_bytes SIZEOF_SIZE_T n"

fun wire :: "param \<Rightarrow> byte list" where
  "wire (PVal bs) = bs"
| "wire (PStr s) = size_word (length s) @ s"
| "wire (PArr v) = size_word (arr_size v) @
     concat (take (arr_size v) (case arr_data v of None \<Rightarrow> [] | Some xs \<Rightarrow> xs))"
| "wire (PItems its) = size_word (length its * 2) @ concat (map fst its) @ concat (map snd its)"

definition payload :: "param list \<Rightarrow> byte list" where
  "payload ps = concat (map wire ps)"

definition message :: "param list \<Rightarrow> byte list" where
  "message ps = payload ps @ size_word (length (payload ps))"

lemma payload_simps [simp]:
  "payload [] = []" "payload (p # ps) = wire p @ payload ps"
  by (simp_all add: payload_def)

lemma length_size_word [simp]: "length (size_word n) = 8"
  by (simp add: size_word_def)

lemma le_val_size_word: "n < 2 ^ 64 \<Longrightarrow> le_val (size_word n) = n"
  by (simp add: size_word_def le_val_le_bytes)

section \<open>The encoder appends\<close>

text \<open>
  The invariant of a live encoder: the buffer is allocated with the capacity it records,
  \<open>pos_\<close> is inside it, and the capacity stays within three times what was written, so
  that the doubling never comes near \<open>SIZE_MAX\<close>.
\<close>

definition enc_inv :: "DataEncoder \<Rightarrow> bool" where
  "enc_inv enc \<longleftrightarrow> de_allocSuccess enc \<and>
     (\<exists>b. de_buffer enc = Some b \<and> de_pos enc \<le> blockSize b \<and>
          length (mb_data b) = blockSize b \<and> blockSize b \<le> 3 * de_pos enc + INIT_BUFFER_SIZE)"

definition content :: "DataEncoder \<Rightarrow> byte list" where
  "content enc = (case de_buffer enc of None \<Rightarrow> [] | Some b \<Rightarrow> take (de_pos enc) (mb_data b))"

lemma enc_inv_content: "enc_inv enc \<Longrightarrow> length (content enc) = de_pos enc"
  by (auto simp: enc_inv_def content_def)

lemma AllocateMemBlock_sound:
  assumes "sound_env e" and "sz + 8 < 2 ^ 64" and "AllocateMemBlock e sz = Some b"
  shows "blockSize b = sz \<and> length (mb_data b) = sz"
  using assms by (auto simp: AllocateMemBlock_def sound_env_def split: option.splits)

lemma AllocateMemBlock_roomy:
  "roomy_env lim e \<Longrightarrow> sz + 8 \<le> lim \<Longrightarrow> sz + 8 < 2 ^ 64 \<Longrightarrow> AllocateMemBlock e sz \<noteq> None"
  by (auto simp: AllocateMemBlock_def roomy_env_def split: option.splits)

lemma copy_chunks_step:
  assumes "off + leftSize \<le> length src" "off + leftSize \<le> length dest"
    and "take off dest = take off src" and "leftSize \<ge> CHUNK_SIZE"
  obtains bs dest' where "mem_read off CHUNK_SIZE src = Some bs"
    and "mem_write off bs dest = Some dest'" and "length dest' = length dest"
    and "take (off + CHUNK_SIZE) dest' = take (off + CHUNK_SIZE) src"
proof -
  define bs where "bs = take CHUNK_SIZE (drop off src)"
  have rd: "mem_read off CHUNK_SIZE src = Some bs" and lbs: "length bs = CHUNK_SIZE"
    using assms(1,4) by (auto simp: mem_read_def bs_def)
  obtain dest' where wr: "mem_write off bs dest = Some dest'"
    using assms(2,4) lbs by (auto simp: mem_write_def)
  have "take (off + CHUNK_SIZE) dest' = take off src @ bs"
    using mem_write_prefix [OF wr] assms(3) lbs by simp
  also have "\<dots> = take (off + CHUNK_SIZE) src"
    by (simp add: bs_def take_add)
  finally show thesis using that rd wr mem_write_length [OF wr] by blast
qed

lemma copy_chunks_copies:
  assumes "off + leftSize \<le> length src" "off + leftSize \<le> length dest" "take off dest = take off src"
  shows "\<exists>ok d off' l'. copy_chunks e dest src off leftSize = Some (ok, d, off', l') \<and>
      length d = length dest \<and>
      (ok \<longrightarrow> off' + l' = off + leftSize \<and> take off' d = take off' src) \<and>
      (memcpy_eok e CHUNK_SIZE CHUNK_SIZE \<longrightarrow> ok)"
  using assms
proof (induction e dest src off leftSize rule: copy_chunks.induct)
  case (1 e dest src off leftSize)
  show ?case
  proof (cases "leftSize \<ge> CHUNK_SIZE \<and> memcpy_eok e CHUNK_SIZE CHUNK_SIZE")
    case False
    then show ?thesis using "1.prems" by (subst copy_chunks.simps) auto
  next
    case True
    obtain bs dest' where st: "mem_read off CHUNK_SIZE src = Some bs"
        "mem_write off bs dest = Some dest'" "length dest' = length dest"
        "take (off + CHUNK_SIZE) dest' = take (off + CHUNK_SIZE) src"
      using copy_chunks_step [OF "1.prems"] True by blast
    have "copy_chunks e dest src off leftSize =
        copy_chunks e dest' src (off + CHUNK_SIZE) (leftSize - CHUNK_SIZE)"
      using True st by (subst copy_chunks.simps) simp
    then show ?thesis
      using "1.IH" [OF _ _ st(1,2)] True st(3,4) "1.prems" by auto
  qed
qed

text \<open>Reallocation keeps what was written and gives exactly the capacity asked for.\<close>

definition same_content :: "DataEncoder \<Rightarrow> DataEncoder \<Rightarrow> nat \<Rightarrow> bool" where
  "same_content enc enc' n \<longleftrightarrow> de_allocSuccess enc' \<and> de_pos enc' = de_pos enc \<and>
     content enc' = content enc \<and>
     (\<exists>b. de_buffer enc' = Some b \<and> blockSize b = n \<and> length (mb_data b) = n)"

lemma ReallocBuffer_keeps:
  assumes inv: "de_allocSuccess enc" "de_buffer enc = Some b" "length (mb_data b) = blockSize b"
      "de_pos enc \<le> blockSize b"
    and e: "sound_env e" and n: "de_pos enc \<le> n" "n + 8 < 2 ^ 64"
  shows "\<exists>ok enc'. DataEncoder_ReallocBuffer e n enc = Some (ok, enc') \<and>
      (ok \<longrightarrow> same_content enc enc' n) \<and>
      (roomy_env lim e \<and> n + 8 \<le> lim \<and> CHUNK_SIZE \<le> lim \<longrightarrow> ok)"
proof (cases "AllocateMemBlock e n")
  case None
  then show ?thesis
    using inv AllocateMemBlock_roomy [of lim e n] n(2) by (auto simp: DataEncoder_ReallocBuffer_def)
next
  case (Some p)
  then have p: "blockSize p = n" "length (mb_data p) = n"
    using AllocateMemBlock_sound [OF e n(2)] by auto
  obtain ok d off l where cc: "copy_chunks e (mb_data p) (mb_data b) 0 (de_pos enc) = Some (ok, d, off, l)"
    and ld: "length d = n" and cok: "ok \<Longrightarrow> off + l = de_pos enc \<and> take off d = take off (mb_data b)"
    and chunk: "memcpy_eok e CHUNK_SIZE CHUNK_SIZE \<Longrightarrow> ok"
    using copy_chunks_copies [of 0 "de_pos enc" "mb_data b" "mb_data p" e] inv n p by auto
  have r1: "roomy_env lim e \<and> CHUNK_SIZE \<le> lim \<Longrightarrow> ok"
    using chunk by (auto simp: roomy_env_def)
  have r2: "memcpy_eok e l l" if "roomy_env lim e" "n + 8 \<le> lim" ok "0 < l"
    using that cok n(1) by (auto simp: roomy_env_def)
  consider "\<not> ok" | "ok" "l = 0" | "ok" "l > 0" "\<not> memcpy_eok e l l"
    | "ok" "l > 0" "memcpy_eok e l l" by blast
  then show ?thesis
  proof cases
    case 4
    then have rd: "mem_read off l (mb_data b) = Some (take l (drop off (mb_data b)))"
      using cok inv by (auto simp: mem_read_def)
    obtain d' where wr: "mem_write off (take l (drop off (mb_data b))) d = Some d'"
      using 4 cok inv n ld by (auto simp: mem_write_def)
    have "length (take l (drop off (mb_data b))) = l"
      using cok [OF 4(1)] inv(3,4) by (auto simp: min_def)
    then have "take (off + l) d' = take off (mb_data b) @ take l (drop off (mb_data b))"
      using mem_write_prefix [OF wr] cok [OF 4(1)] by simp
    then have "take (de_pos enc) d' = take (de_pos enc) (mb_data b)"
      using cok 4(1) by (metis take_add)
    then show ?thesis
      using 4 Some cc inv rd wr mem_write_length [OF wr] ld p
      by (auto simp: DataEncoder_ReallocBuffer_def same_content_def content_def)
  qed (use Some cc inv cok ld p r1 r2 in
        \<open>auto simp: DataEncoder_ReallocBuffer_def same_content_def content_def\<close>)
qed

text \<open>
  What every encoding step does: it returns (no undefined behaviour), with success or
  failure; on success the bytes written are the old ones followed by \<open>bs\<close>; and it does
  succeed when the environment has room.
\<close>

definition room :: "nat \<Rightarrow> nat" where
  "room n = 3 * n + CHUNK_SIZE + 264"

definition appended ::
  "nat \<Rightarrow> cenv \<Rightarrow> DataEncoder \<Rightarrow> byte list \<Rightarrow> (retcode \<times> DataEncoder) option \<Rightarrow> bool" where
  "appended lim e enc bs res \<longleftrightarrow> (\<exists>r enc'. res = Some (r, enc') \<and>
     (r = RETCODE_SUCCESS \<or> r = RETCODE_FAILURE) \<and>
     (r = RETCODE_SUCCESS \<longrightarrow> enc_inv enc' \<and> content enc' = content enc @ bs) \<and>
     (roomy_env lim e \<and> room (de_pos enc + length bs) \<le> lim \<longrightarrow> r = RETCODE_SUCCESS))"

lemma appendedI:
  assumes "res = Some (r, enc')" "r = RETCODE_SUCCESS \<or> r = RETCODE_FAILURE"
    and "r = RETCODE_SUCCESS \<Longrightarrow> enc_inv enc' \<and> content enc' = content enc @ bs"
    and "roomy_env lim e \<Longrightarrow> room (de_pos enc + length bs) \<le> lim \<Longrightarrow> r = RETCODE_SUCCESS"
  shows "appended lim e enc bs res"
  using assms unfolding appended_def by blast

lemma appendedE:
  assumes "appended lim e enc bs res"
  obtains r enc' where "res = Some (r, enc')" "r = RETCODE_SUCCESS \<or> r = RETCODE_FAILURE"
    and "r = RETCODE_SUCCESS \<Longrightarrow> enc_inv enc' \<and> content enc' = content enc @ bs"
    and "roomy_env lim e \<Longrightarrow> room (de_pos enc + length bs) \<le> lim \<Longrightarrow> r = RETCODE_SUCCESS"
  using assms unfolding appended_def by blast

lemma Ensure_ensures:
  assumes inv: "enc_inv enc" and e: "sound_env e" and small: "de_pos enc + n < 2 ^ 60"
  shows "\<exists>ok enc'. DataEncoder_Ensure e n enc = Some (ok, enc') \<and>
      (ok \<longrightarrow> (\<exists>m. same_content enc enc' m \<and> de_pos enc + n \<le> m \<and>
                  m \<le> 3 * (de_pos enc + n) + INIT_BUFFER_SIZE)) \<and>
      (roomy_env lim e \<and> room (de_pos enc + n) \<le> lim \<longrightarrow> ok)"
proof -
  from inv obtain b where b: "de_allocSuccess enc" "de_buffer enc = Some b"
      "de_pos enc \<le> blockSize b" "length (mb_data b) = blockSize b"
      "blockSize b \<le> 3 * de_pos enc + INIT_BUFFER_SIZE"
    by (auto simp: enc_inv_def)
  show ?thesis
  proof (cases "de_pos enc + n \<le> blockSize b")
    case True
    then show ?thesis
      using b small by (auto simp: DataEncoder_Ensure_def same_content_def intro!: exI)
  next
    case False
    define m where "m = blockSize b * 2 + n"
    have m: "m \<le> 3 * (de_pos enc + n)" "de_pos enc + n \<le> m" "m + 8 < 2 ^ 64"
      using False b(3) small by (auto simp: m_def)
    have "DataEncoder_Ensure e n enc = DataEncoder_ReallocBuffer e m enc"
      using False b(2) small m(3) by (simp add: DataEncoder_Ensure_def m_def)
    moreover obtain ok enc' where "DataEncoder_ReallocBuffer e m enc = Some (ok, enc')"
        "ok \<longrightarrow> same_content enc enc' m" "roomy_env lim e \<and> m + 8 \<le> lim \<and> CHUNK_SIZE \<le> lim \<longrightarrow> ok"
      using ReallocBuffer_keeps [OF b(1,2,4,3) e, of m lim] m by auto
    ultimately show ?thesis using m by (auto simp: room_def)
  qed
qed

lemma append_appends:
  assumes inv: "enc_inv enc" and e: "sound_env e" and small: "de_pos enc + length bs < 2 ^ 60"
    and ne: "bs \<noteq> []"
  shows "appended lim e enc bs (DataEncoder_append e bs enc)"
proof -
  obtain ok enc1 where en: "DataEncoder_Ensure e (length bs) enc = Some (ok, enc1)"
    and okD: "ok \<Longrightarrow> \<exists>m. same_content enc enc1 m \<and> de_pos enc + length bs \<le> m \<and>
        m \<le> 3 * (de_pos enc + length bs) + INIT_BUFFER_SIZE"
    and roomy: "roomy_env lim e \<Longrightarrow> room (de_pos enc + length bs) \<le> lim \<Longrightarrow> ok"
    using Ensure_ensures [OF inv e small, of lim] by blast
  show ?thesis
  proof (cases "ok \<and> memcpy_eok e (length bs) (length bs)")
    case False
    have "DataEncoder_append e bs enc = Some (RETCODE_FAILURE, enc1)"
      using False en by (auto simp: DataEncoder_append_def)
    moreover have "\<not> (roomy_env lim e \<and> room (de_pos enc + length bs) \<le> lim)"
      using False roomy ne roomy_memcpy [of lim e "length bs" "length bs"] by (auto simp: room_def)
    ultimately show ?thesis by (intro appendedI) auto
  next
    case True
    then obtain m b where m: "same_content enc enc1 m" "de_pos enc + length bs \<le> m"
        "m \<le> 3 * (de_pos enc + length bs) + INIT_BUFFER_SIZE"
      and b: "de_buffer enc1 = Some b" "blockSize b = m" "length (mb_data b) = m"
      using okD by (auto simp: same_content_def)
    then obtain d where wr: "mem_write (de_pos enc1) bs (mb_data b) = Some d"
      by (auto simp: mem_write_def same_content_def)
    define enc2 where "enc2 = enc1\<lparr>de_buffer := Some (b\<lparr>mb_data := d\<rparr>),
      de_pos := (de_pos enc1 + length bs) mod SIZE_MAX1\<rparr>"
    have res: "DataEncoder_append e bs enc = Some (RETCODE_SUCCESS, enc2)"
      using en True b wr by (simp add: DataEncoder_append_def enc2_def)
    have pos: "de_pos enc2 = de_pos enc + length bs"
      using m(1) small by (simp add: enc2_def same_content_def)
    have "content enc1 = take (de_pos enc1) (mb_data b)"
      by (simp add: content_def b(1))
    moreover have "content enc1 = content enc"
      using m(1) unfolding same_content_def by blast
    ultimately have c1: "content enc = take (de_pos enc1) (mb_data b)" by simp
    have "content enc2 = take (de_pos enc1 + length bs) d"
      using m(1) pos by (simp add: content_def enc2_def same_content_def)
    then have "content enc2 = content enc @ bs"
      using mem_write_prefix [OF wr] c1 by simp
    moreover have "enc_inv enc2"
      using pos m b mem_write_length [OF wr] by (simp add: enc_inv_def enc2_def same_content_def)
    ultimately show ?thesis using res by (intro appendedI) auto
  qed
qed

lemma encode_T_appends:
  assumes "enc_inv enc" "sound_env e" "de_pos enc + length bs < 2 ^ 60" "bs \<noteq> []"
  shows "appended lim e enc bs (EncodeOneParameter_T e bs enc)"
  using append_appends [OF assms] assms(1,4) by (simp add: EncodeOneParameter_T_def enc_inv_def)

text \<open>Steps in sequence append in sequence.\<close>

lemma appended_bind:
  assumes "appended lim e enc bs res" and "enc_inv enc"
    and f: "\<And>enc1. enc_inv enc1 \<Longrightarrow> content enc1 = content enc @ bs \<Longrightarrow>
        de_pos enc1 = de_pos enc + length bs \<Longrightarrow> appended lim e enc1 cs (f enc1)"
    and res: "\<And>enc1. res = Some (RETCODE_SUCCESS, enc1) \<Longrightarrow> res' = f enc1"
      "\<And>enc1. res = Some (RETCODE_FAILURE, enc1) \<Longrightarrow> res' = Some (RETCODE_FAILURE, enc1)"
  shows "appended lim e enc (bs @ cs) res'"
proof (rule appendedE [OF assms(1)])
  fix r enc1
  assume a: "res = Some (r, enc1)" "r = RETCODE_SUCCESS \<or> r = RETCODE_FAILURE"
    "r = RETCODE_SUCCESS \<Longrightarrow> enc_inv enc1 \<and> content enc1 = content enc @ bs"
    "roomy_env lim e \<Longrightarrow> room (de_pos enc + length bs) \<le> lim \<Longrightarrow> r = RETCODE_SUCCESS"
  show ?thesis
  proof (cases "r = RETCODE_SUCCESS")
    case False
    then have "res' = Some (RETCODE_FAILURE, enc1)" using a(1,2) res(2) by auto
    moreover have "\<not> (roomy_env lim e \<and> room (de_pos enc + length (bs @ cs)) \<le> lim)"
      using False a(4) by (auto simp: room_def)
    ultimately show ?thesis by (intro appendedI) auto
  next
    case True
    then have i1: "enc_inv enc1" "content enc1 = content enc @ bs" using a(3) by auto
    then have p1: "de_pos enc1 = de_pos enc + length bs"
      using enc_inv_content [of enc1] enc_inv_content [OF assms(2)] by simp
    have "appended lim e enc1 cs res'" using f [OF i1 p1] res(1) a(1) True by auto
    then show ?thesis
      by (rule appendedE) (use i1 p1 in \<open>auto intro!: appendedI simp: add.assoc\<close>)
  qed
qed

lemma EncodeElements_appends:
  assumes "enc_inv enc" "sound_env e" "i + k \<le> length xs" "[] \<notin> set xs"
    and "de_pos enc + length (concat (take k (drop i xs))) < 2 ^ 60"
  shows "appended lim e enc (concat (take k (drop i xs))) (EncodeElements e xs i k enc)"
  using assms
proof (induction k arbitrary: i enc)
  case 0
  then show ?case by (auto intro!: appendedI)
next
  case (Suc k)
  then have i: "i < length xs" by simp
  then have cc: "concat (take (Suc k) (drop i xs)) = xs ! i @ concat (take k (drop (Suc i) xs))"
    by (simp add: Cons_nth_drop_Suc [symmetric])
  have ne: "xs ! i \<noteq> []" using Suc.prems(4) i by (metis nth_mem)
  have one: "appended lim e enc (xs ! i) (EncodeOneParameter_T e (xs ! i) enc)"
    using Suc.prems(5) ne by (intro encode_T_appends [OF Suc.prems(1,2)]) (auto simp: cc)
  show ?case
    unfolding cc
  proof (rule appended_bind [OF one Suc.prems(1)])
    fix enc1
    assume "enc_inv enc1" "de_pos enc1 = de_pos enc + length (xs ! i)"
    then show "appended lim e enc1 (concat (take k (drop (Suc i) xs))) (EncodeElements e xs (Suc i) k enc1)"
      using Suc.prems by (intro Suc.IH) (auto simp: cc)
  qed (use i in auto)
qed

section \<open>The facade writes the message\<close>

text \<open>
  Which parameters the encoder accepts: no value of size 0, no empty or null array, array
  sizes that agree with the block behind them.
\<close>

fun param_ok :: "param \<Rightarrow> bool" where
  "param_ok (PVal bs) \<longleftrightarrow> bs \<noteq> []"
| "param_ok (PStr s) \<longleftrightarrow> True"
| "param_ok (PArr v) \<longleftrightarrow>
     (case arr_data v of None \<Rightarrow> False
      | Some xs \<Rightarrow> 0 < arr_size v \<and> arr_size v = length xs \<and> [] \<notin> set xs)"
| "param_ok (PItems its) \<longleftrightarrow> [] \<notin> set (map fst its) \<and> [] \<notin> set (map snd its)"

lemma size_word_ne [simp]: "size_word n \<noteq> []"
  by (metis length_size_word list.size(3) zero_neq_numeral)

lemma elements_ge: "[] \<notin> set xs \<Longrightarrow> length xs \<le> length (concat xs)"
proof (induction xs)
  case (Cons a xs)
  then have "0 < length a" and "length xs \<le> length (concat xs)" by auto
  then show ?case unfolding concat.simps list.size(4) length_append by linarith
qed simp

lemma encode_size_word:
  assumes "enc_inv enc" "sound_env e" "de_pos enc + 8 < 2 ^ 60"
  shows "appended lim e enc (size_word n) (EncodeOneParameter_T e (le_bytes SIZEOF_SIZE_T n) enc)"
  using encode_T_appends [OF assms(1,2), of "size_word n" lim] assms(3)
  by (simp add: size_word_def [symmetric])

lemma encode_string_appends:
  assumes "enc_inv enc" "sound_env e" "de_pos enc + length (wire (PStr s)) < 2 ^ 60"
  shows "appended lim e enc (wire (PStr s)) (EncodeOneParameter_string e s enc)"
proof -
  have one: "appended lim e enc (size_word (length s))
      (EncodeOneParameter_T e (le_bytes SIZEOF_SIZE_T (length s)) enc)"
    using encode_size_word [OF assms(1,2)] assms(3) by simp
  have al: "de_allocSuccess enc" using assms(1) by (simp add: enc_inv_def)
  show ?thesis
  proof (cases "s = []")
    case True
    then show ?thesis using one al by (simp add: EncodeOneParameter_string_def)
  next
    case False
    show ?thesis
      unfolding wire.simps
      by (rule appended_bind [OF one assms(1), where f = "DataEncoder_append e s"])
        (use False assms al in \<open>auto simp: EncodeOneParameter_string_def intro!: append_appends\<close>)
  qed
qed

lemma encode_array_appends:
  assumes "enc_inv enc" "sound_env e" "param_ok (PArr v)" "de_pos enc + length (wire (PArr v)) < 2 ^ 60"
  shows "appended lim e enc (wire (PArr v)) (EncodeOneParameter_Array e v enc)"
proof -
  obtain xs where xs: "arr_data v = Some xs" "0 < arr_size v" "arr_size v = length xs" "[] \<notin> set xs"
    using assms(3) by (auto split: option.splits)
  have one: "appended lim e enc (size_word (arr_size v))
      (EncodeOneParameter_T e (le_bytes SIZEOF_SIZE_T (arr_size v)) enc)"
    using encode_size_word [OF assms(1,2)] assms(4) by simp
  show ?thesis
    unfolding wire.simps xs(1) option.case
  proof (rule appended_bind [OF one assms(1), where f = "EncodeElements e xs 0 (arr_size v)"])
    fix enc1
    assume "enc_inv enc1" "de_pos enc1 = de_pos enc + length (size_word (arr_size v))"
    then show "appended lim e enc1 (concat (take (arr_size v) xs)) (EncodeElements e xs 0 (arr_size v) enc1)"
      using EncodeElements_appends [of enc1 e 0 "arr_size v" xs lim] xs assms(2,4) by simp
  qed (use xs in \<open>auto simp: EncodeOneParameter_Array_def\<close>)
qed

lemma encode_items_appends:
  assumes "enc_inv enc" "sound_env e" "param_ok (PItems its)"
    and "de_pos enc + length (wire (PItems its)) < 2 ^ 60"
  shows "appended lim e enc (wire (PItems its)) (EncodeOneParameter_Items e its enc)"
proof -
  have "length its \<le> length (concat (map fst its))"
    using elements_ge [of "map fst its"] assms(3) by simp
  then have sz: "(length its * 2) mod SIZE_MAX1 = length its * 2" using assms(4) by simp
  have one: "appended lim e enc (size_word (length its * 2))
      (EncodeOneParameter_T e (le_bytes SIZEOF_SIZE_T (length its * 2)) enc)"
    using encode_size_word [OF assms(1,2)] assms(4) by simp
  define f where "f = (\<lambda>enc1. case EncodeElements e (map fst its) 0 (length its) enc1 of
      None \<Rightarrow> None
    | Some (r2, enc2) \<Rightarrow> if r2 \<noteq> RETCODE_SUCCESS then Some (RETCODE_FAILURE, enc2)
        else EncodeElements e (map snd its) 0 (length its) enc2)"
  show ?thesis
    unfolding wire.simps
  proof (rule appended_bind [OF one assms(1), where f = f])
    fix enc1
    assume i1: "enc_inv enc1" "de_pos enc1 = de_pos enc + length (size_word (length its * 2))"
    have labels: "appended lim e enc1 (concat (map fst its)) (EncodeElements e (map fst its) 0 (length its) enc1)"
      using EncodeElements_appends [of enc1 e 0 "length its" "map fst its" lim] i1 assms by simp
    show "appended lim e enc1 (concat (map fst its) @ concat (map snd its)) (f enc1)"
    proof (rule appended_bind [OF labels i1(1), where f = "EncodeElements e (map snd its) 0 (length its)"])
      fix enc2
      assume "enc_inv enc2" "de_pos enc2 = de_pos enc1 + length (concat (map fst its))"
      then show "appended lim e enc2 (concat (map snd its)) (EncodeElements e (map snd its) 0 (length its) enc2)"
        using EncodeElements_appends [of enc2 e 0 "length its" "map snd its" lim] i1 assms by simp
    qed (auto simp: f_def)
  qed (use sz in \<open>auto simp: EncodeOneParameter_Items_def f_def split: option.splits prod.splits\<close>)
qed

lemma encode_param_appends:
  assumes "enc_inv enc" "sound_env e" "param_ok p" "de_pos enc + length (wire p) < 2 ^ 60"
  shows "appended lim e enc (wire p) (EncodeOneParameter e p enc)"
proof (cases p)
  case (PVal bs)
  then show ?thesis using encode_T_appends [of enc e bs lim] assms by simp
next
  case (PStr s)
  then show ?thesis using encode_string_appends assms by (metis EncodeOneParameter.simps(2))
next
  case (PArr v)
  then show ?thesis using encode_array_appends assms by (metis EncodeOneParameter.simps(3))
next
  case (PItems its)
  then show ?thesis using encode_items_appends assms by (metis EncodeOneParameter.simps(4))
qed

lemma RecursiveEncode_appends:
  assumes "enc_inv enc" "sound_env e" "list_all param_ok ps" "de_pos enc + length (payload ps) < 2 ^ 60"
  shows "appended lim e enc (payload ps) (RecursiveEncode e ps enc)"
  using assms
proof (induction ps arbitrary: enc)
  case Nil
  then show ?case by (auto intro!: appendedI)
next
  case (Cons p ps)
  have one: "appended lim e enc (wire p) (EncodeOneParameter e p enc)"
    using Cons.prems by (intro encode_param_appends) auto
  show ?case
    unfolding payload_simps
    by (rule appended_bind [OF one Cons.prems(1), where f = "RecursiveEncode e ps"])
      (use Cons.prems in \<open>auto intro!: Cons.IH\<close>)
qed

lemma Init_inv:
  assumes "sound_env e" and "DataEncoder_Init e INIT_BUFFER_SIZE DataEncoder_new = (r, enc)"
  shows "(r = RETCODE_SUCCESS \<longrightarrow> enc_inv enc \<and> content enc = []) \<and>
    (r = RETCODE_SUCCESS \<or> r = RETCODE_OUT_OF_MEMORY) \<and>
    (roomy_env lim e \<and> 264 \<le> lim \<longrightarrow> r = RETCODE_SUCCESS)"
proof (cases "AllocateMemBlock e INIT_BUFFER_SIZE")
  case None
  then show ?thesis
    using assms(2) AllocateMemBlock_roomy [of lim e INIT_BUFFER_SIZE] by (auto simp: DataEncoder_Init_def)
next
  case (Some b)
  then show ?thesis
    using assms(2) AllocateMemBlock_sound [OF assms(1) _ Some]
    by (auto simp: DataEncoder_Init_def DataEncoder_new_def enc_inv_def content_def)
qed

lemma GetSerializedData_message:
  assumes inv: "enc_inv enc" and e: "sound_env e" and small: "de_pos enc + 8 < 2 ^ 60"
  shows "\<exists>r di' enc'. GetSerializedData e di enc = Some (r, di', enc') \<and>
    (r = RETCODE_SUCCESS \<longrightarrow> di_data di' = Some (content enc @ size_word (de_pos enc)) \<and>
        di_length di' = int (de_pos enc + 8) \<and> int (de_pos enc + 8) \<le> INT_MAX) \<and>
    (roomy_env lim e \<and> room (de_pos enc + 8) \<le> lim \<and> int (de_pos enc + 8) \<le> INT_MAX \<longrightarrow>
       r = RETCODE_SUCCESS) \<and>
    r \<in> {RETCODE_SUCCESS, RETCODE_FAILURE, RETCODE_OUT_OF_MEMORY, RETCODE_MEMORY_COPY_FAILURE}"
proof (rule appendedE [OF encode_size_word [OF inv e small, of lim "de_pos enc"]])
  fix r1 enc1
  assume a: "EncodeOneParameter_T e (le_bytes SIZEOF_SIZE_T (de_pos enc)) enc = Some (r1, enc1)"
    "r1 = RETCODE_SUCCESS \<or> r1 = RETCODE_FAILURE"
    "r1 = RETCODE_SUCCESS \<Longrightarrow> enc_inv enc1 \<and> content enc1 = content enc @ size_word (de_pos enc)"
    "roomy_env lim e \<Longrightarrow> room (de_pos enc + length (size_word (de_pos enc))) \<le> lim \<Longrightarrow> r1 = RETCODE_SUCCESS"
  show ?thesis
  proof (cases "r1 = RETCODE_SUCCESS")
    case False
    then show ?thesis using a by (auto simp: GetSerializedData_def)
  next
    case True
    then have i1: "enc_inv enc1" and c1: "content enc1 = content enc @ size_word (de_pos enc)"
      using a(3) by auto
    have p1: "de_pos enc1 = de_pos enc + 8"
      using enc_inv_content [OF i1] enc_inv_content [OF inv] c1 by simp
    obtain b where b: "de_buffer enc1 = Some b" "de_pos enc1 \<le> length (mb_data b)"
      using i1 by (auto simp: enc_inv_def)
    have rd: "mem_read 0 (de_pos enc1) (mb_data b) = Some (content enc @ size_word (de_pos enc))"
      using b c1 by (simp add: mem_read_def content_def)
    have roomy: "malloc_bytes e (de_pos enc1) \<noteq> None \<and> memcpy_eok e (de_pos enc1) (de_pos enc1)"
      if "roomy_env lim e" "room (de_pos enc + 8) \<le> lim"
      using that p1 by (auto simp: roomy_env_def room_def)
    show ?thesis
    proof (cases "int (de_pos enc1) > INT_MAX \<or> malloc_bytes e (de_pos enc1) = None \<or>
        \<not> memcpy_eok e (de_pos enc1) (de_pos enc1)")
      case True
      then show ?thesis using a(1) \<open>r1 = RETCODE_SUCCESS\<close> b(1) p1 roomy
        by (auto simp: GetSerializedData_def split: option.splits)
    next
      case False
      then obtain m where m: "malloc_bytes e (de_pos enc1) = Some m" "length m = de_pos enc1"
        using e by (auto simp: sound_env_def)
      have "length (content enc @ size_word (de_pos enc)) = de_pos enc1"
        using enc_inv_content [OF inv] p1 by simp
      then have wr: "mem_write 0 (content enc @ size_word (de_pos enc)) m =
          Some (content enc @ size_word (de_pos enc))"
        using m(2) by (simp add: mem_write_def)
      show ?thesis
        using a(1) \<open>r1 = RETCODE_SUCCESS\<close> b(1) p1 False m(1) rd wr
        by (simp add: GetSerializedData_def)
    qed
  qed
qed

lemma length_message: "length (message ps) = length (payload ps) + 8"
  by (simp add: message_def)

lemma ProcessEncode_delivers:
  assumes "sound_env e" and "list_all param_ok ps" and "length (payload ps) < 2 ^ 59"
  shows "\<exists>r di'. ProcessEncode e di ps = Some (r, di') \<and>
    (r = RETCODE_SUCCESS \<longrightarrow> di_data di' = Some (message ps) \<and>
        di_length di' = int (length (message ps)) \<and> int (length (message ps)) \<le> INT_MAX) \<and>
    (roomy_env (room (length (message ps))) e \<and> int (length (message ps)) \<le> INT_MAX \<longrightarrow>
       r = RETCODE_SUCCESS)"
proof -
  obtain r0 enc0 where i0: "DataEncoder_Init e INIT_BUFFER_SIZE DataEncoder_new = (r0, enc0)"
    by fastforce
  let ?lim = "room (length (message ps))"
  note init = Init_inv [OF assms(1) i0, of ?lim]
  have lim: "264 \<le> ?lim" "room (length (payload ps)) \<le> ?lim"
    by (simp_all add: room_def length_message)
  show ?thesis
  proof (cases "r0 = RETCODE_SUCCESS")
    case False
    then show ?thesis using i0 init lim by (auto simp: ProcessEncode_def)
  next
    case True
    then have e0: "enc_inv enc0" "content enc0 = []" using init by auto
    then have p0: "de_pos enc0 = 0" using enc_inv_content [of enc0] by simp
    have app: "appended ?lim e enc0 (payload ps) (RecursiveEncode e ps enc0)"
      using RecursiveEncode_appends [OF e0(1) assms(1,2)] assms(3) p0 by simp
    obtain r1 enc1 where enc1: "RecursiveEncode e ps enc0 = Some (r1, enc1)"
        "r1 = RETCODE_SUCCESS \<Longrightarrow> enc_inv enc1 \<and> content enc1 = payload ps"
        "roomy_env ?lim e \<Longrightarrow> r1 = RETCODE_SUCCESS"
      by (rule appendedE [OF app]) (use e0 p0 lim in auto)
    show ?thesis
    proof (cases "r1 = RETCODE_SUCCESS")
      case False
      then show ?thesis using i0 True enc1 by (auto simp: ProcessEncode_def)
    next
      case r1: True
      then have i1: "enc_inv enc1" "content enc1 = payload ps" using enc1(2) by auto
      then have p1: "de_pos enc1 = length (payload ps)" using enc_inv_content [of enc1] by simp
      obtain r2 di2 enc2 where g: "GetSerializedData e di enc1 = Some (r2, di2, enc2)"
          "r2 = RETCODE_SUCCESS \<Longrightarrow> di_data di2 = Some (message ps) \<and>
            di_length di2 = int (length (message ps)) \<and> int (length (message ps)) \<le> INT_MAX"
          "roomy_env ?lim e \<Longrightarrow> int (length (message ps)) \<le> INT_MAX \<Longrightarrow> r2 = RETCODE_SUCCESS"
        using GetSerializedData_message [OF i1(1) assms(1), of di ?lim] i1(2) p1 assms(3)
        by (auto simp: message_def)
      show ?thesis
        using i0 True enc1(1) r1 g by (cases "r2 = RETCODE_SUCCESS") (auto simp: ProcessEncode_def length_message)
    qed
  qed
qed

text \<open>C1. The facade's encoder on any list of acceptable parameters (up to \<open>2 ^ 59\<close> bytes): it
  never accesses memory outside its blocks, whatever allocations and copies fail; when it
  returns success the output block is exactly the message of the parameters, with its length,
  which fits an \<open>int\<close>; and it does return success when the environment has room for three
  times the message (the buffer's growth) and the message fits an \<open>int\<close>.\<close>

theorem ProcessEncode_message:
  assumes "sound_env e" and "list_all param_ok ps" and "length (payload ps) < 2 ^ 59"
  shows "\<exists>r di'. ProcessEncode e di ps = Some (r, di') \<and>
    (r = RETCODE_SUCCESS \<longrightarrow> di_data di' = Some (message ps) \<and>
        di_length di' = int (length (message ps)) \<and> int (length (message ps)) \<le> INT_MAX) \<and>
    (roomy_env (room (length (message ps))) e \<and> int (length (message ps)) \<le> INT_MAX \<longrightarrow>
       r = RETCODE_SUCCESS)"
  using ProcessEncode_delivers [OF assms] .

text \<open>An environment in which every request succeeds, for the witnesses.\<close>

definition total_env :: cenv where
  "total_env = \<lparr>new_bytes = \<lambda>n. Some (replicate n 0), malloc_bytes = \<lambda>n. Some (replicate n 0),
     memcpy_eok = \<lambda>d c. 0 < c \<and> c \<le> d\<rparr>"

lemma total_env_ok [simp]: "sound_env total_env" "roomy_env lim total_env"
  by (simp_all add: total_env_def sound_env_def roomy_env_def)

theorem ProcessEncode_message_witness:
  "\<exists>di'. ProcessEncode total_env empty_DataInfo [PVal [1, 2], PStr [7]] = Some (RETCODE_SUCCESS, di') \<and>
     di_data di' = Some (message [PVal [1, 2], PStr [7]])"
  using ProcessEncode_message [of total_env "[PVal [1, 2], PStr [7]]" empty_DataInfo]
  by (auto simp: length_message)

section \<open>The decoder stays inside the buffer\<close>

text \<open>The decoder's invariant, for any input bytes.\<close>

definition dec_inv :: "DataDecoder \<Rightarrow> bool" where
  "dec_inv d \<longleftrightarrow> dd_size d = length (dd_buffer d) \<and> dd_pos d \<le> dd_size d \<and> dd_size d < 2 ^ 62"

definition rest :: "DataDecoder \<Rightarrow> byte list" where
  "rest d = drop (dd_pos d) (dd_buffer d)"

lemma length_rest: "dec_inv d \<Longrightarrow> length (rest d) = dd_size d - dd_pos d"
  by (simp add: dec_inv_def rest_def)

lemma Ensure_dec:
  "dec_inv d \<Longrightarrow> DataDecoder_Ensure n d \<longleftrightarrow> n \<le> length (rest d)"
  by (auto simp: DataDecoder_Ensure_def dec_inv_def rest_def)

text \<open>
  What every decoding step does on every input: it returns, without moving outside the
  buffer; the size and the buffer stay; and on success the bytes it consumed are \<open>bs\<close>.
\<close>

definition consumed :: "DataDecoder \<Rightarrow> ('a \<Rightarrow> byte list) \<Rightarrow> (retcode \<times> 'a \<times> DataDecoder) option \<Rightarrow> bool" where
  "consumed d wr res \<longleftrightarrow> (\<exists>r x d'. res = Some (r, x, d') \<and>
     (r = RETCODE_SUCCESS \<or> r = RETCODE_FAILURE) \<and>
     dec_inv d' \<and> dd_size d' = dd_size d \<and> dd_buffer d' = dd_buffer d \<and>
     (r = RETCODE_SUCCESS \<longrightarrow> rest d = wr x @ rest d'))"

lemma consumedI:
  assumes "res = Some (r, x, d')" "r = RETCODE_SUCCESS \<or> r = RETCODE_FAILURE"
    and "dec_inv d'" "dd_size d' = dd_size d" "dd_buffer d' = dd_buffer d"
    and "r = RETCODE_SUCCESS \<Longrightarrow> rest d = wr x @ rest d'"
  shows "consumed d wr res"
  using assms unfolding consumed_def by blast

lemma consumedE:
  assumes "consumed d wr res"
  obtains r x d' where "res = Some (r, x, d')" "r = RETCODE_SUCCESS \<or> r = RETCODE_FAILURE"
    and "dec_inv d'" "dd_size d' = dd_size d" "dd_buffer d' = dd_buffer d"
    and "r = RETCODE_SUCCESS \<Longrightarrow> rest d = wr x @ rest d'"
  using assms unfolding consumed_def by blast

lemma advance:
  assumes "dec_inv d" and "n \<le> length (rest d)"
  shows "mem_read (dd_pos d) n (dd_buffer d) = Some (take n (rest d))"
    and "dec_inv (d\<lparr>dd_pos := (dd_pos d + n) mod SIZE_MAX1\<rparr>)"
    and "rest (d\<lparr>dd_pos := (dd_pos d + n) mod SIZE_MAX1\<rparr>) = drop n (rest d)"
  using assms by (auto simp: dec_inv_def rest_def mem_read_def add.commute)

lemma decode_T_consumed:
  assumes "dec_inv d"
  shows "consumed d (\<lambda>bs. bs) (DecodeOneParameter_T e n d)"
proof (cases "n = 0 \<or> \<not> DataDecoder_Ensure n d \<or> \<not> memcpy_eok e n n")
  case True
  then show ?thesis using assms by (intro consumedI) (auto simp: DecodeOneParameter_T_def)
next
  case False
  then have n: "n \<le> length (rest d)" using Ensure_dec [OF assms] by simp
  show ?thesis
    by (rule consumedI [where r = RETCODE_SUCCESS and x = "take n (rest d)"
          and d' = "d\<lparr>dd_pos := (dd_pos d + n) mod SIZE_MAX1\<rparr>"])
      (use False advance [OF assms n] in \<open>auto simp: DecodeOneParameter_T_def\<close>)
qed

lemma decode_T_width:
  "DecodeOneParameter_T e n d = Some (RETCODE_SUCCESS, bs, d') \<Longrightarrow> length bs = n \<and> 0 < n"
  by (auto simp: DecodeOneParameter_T_def mem_read_def split: if_splits)

text \<open>Steps in sequence consume in sequence.\<close>

lemma consumed_bind:
  assumes c: "consumed d wa res"
    and f: "\<And>x d1. res = Some (RETCODE_SUCCESS, x, d1) \<Longrightarrow> dec_inv d1 \<Longrightarrow>
        consumed d1 (wb x) (f x d1) \<and>
        (\<forall>y d2. f x d1 = Some (RETCODE_SUCCESS, y, d2) \<longrightarrow> wr y = wa x @ wb x y)"
    and ok: "\<And>x d1. res = Some (RETCODE_SUCCESS, x, d1) \<Longrightarrow> res' = f x d1"
    and bad: "\<And>x d1. res = Some (RETCODE_FAILURE, x, d1) \<Longrightarrow> \<exists>y. res' = Some (RETCODE_FAILURE, y, d1)"
  shows "consumed d wr res'"
proof (rule consumedE [OF c])
  fix r x d1
  assume a: "res = Some (r, x, d1)" "r = RETCODE_SUCCESS \<or> r = RETCODE_FAILURE" "dec_inv d1"
    "dd_size d1 = dd_size d" "dd_buffer d1 = dd_buffer d"
    "r = RETCODE_SUCCESS \<Longrightarrow> rest d = wa x @ rest d1"
  show ?thesis
  proof (cases "r = RETCODE_SUCCESS")
    case False
    then obtain y where "res' = Some (RETCODE_FAILURE, y, d1)" using a(1,2) bad by auto
    then show ?thesis using a by (intro consumedI [of _ RETCODE_FAILURE y d1]) auto
  next
    case True
    then have c1: "consumed d1 (wb x) (f x d1)"
      and w: "\<forall>y d2. f x d1 = Some (RETCODE_SUCCESS, y, d2) \<longrightarrow> wr y = wa x @ wb x y"
      using f [of x d1] a(1,3) by auto
    show ?thesis
    proof (rule consumedE [OF c1])
      fix r2 y d2
      assume b: "f x d1 = Some (r2, y, d2)" "r2 = RETCODE_SUCCESS \<or> r2 = RETCODE_FAILURE" "dec_inv d2"
        "dd_size d2 = dd_size d1" "dd_buffer d2 = dd_buffer d1"
        "r2 = RETCODE_SUCCESS \<Longrightarrow> rest d1 = wb x y @ rest d2"
      then show ?thesis
        using a True ok w by (intro consumedI [of _ r2 y d2]) auto
    qed
  qed
qed

lemma size_word_le_val: "length bs = 8 \<Longrightarrow> size_word (le_val bs) = bs"
  using le_bytes_le_val [of bs] by (simp add: size_word_def)

lemma decode_string_consumed:
  assumes "dec_inv d"
  shows "consumed d (\<lambda>s. wire (PStr s)) (DecodeOneParameter_string e d)"
proof -
  define f where "f = (\<lambda>lenb d1. let len = le_val lenb in
      if len = 0 then Some (RETCODE_SUCCESS, [], d1)
      else if \<not> DataDecoder_Ensure len d1 then Some (RETCODE_FAILURE, [], d1)
      else (case mem_read (dd_pos d1) len (dd_buffer d1) of None \<Rightarrow> None
            | Some s \<Rightarrow> Some (RETCODE_SUCCESS, s, d1\<lparr>dd_pos := (dd_pos d1 + len) mod SIZE_MAX1\<rparr>)))"
  show ?thesis
  proof (rule consumed_bind [OF decode_T_consumed [OF assms, of e 8], where f = f and wb = "\<lambda>_ s. s"])
    fix lenb d1
    assume d1: "DecodeOneParameter_T e 8 d = Some (RETCODE_SUCCESS, lenb, d1)" "dec_inv d1"
    then have w: "size_word (le_val lenb) = lenb"
      using decode_T_width size_word_le_val by blast
    show "consumed d1 (\<lambda>s. s) (f lenb d1) \<and>
        (\<forall>y d2. f lenb d1 = Some (RETCODE_SUCCESS, y, d2) \<longrightarrow> wire (PStr y) = lenb @ y)"
    proof (cases "le_val lenb \<noteq> 0 \<and> le_val lenb \<le> length (rest d1)")
      case True
      note a = advance [OF d1(2) conjunct2 [OF True]]
      have f: "f lenb d1 = Some (RETCODE_SUCCESS, take (le_val lenb) (rest d1),
          d1\<lparr>dd_pos := (dd_pos d1 + le_val lenb) mod SIZE_MAX1\<rparr>)"
        using True a(1) Ensure_dec [OF d1(2)] by (simp add: f_def Let_def)
      have "consumed d1 (\<lambda>s. s) (f lenb d1)"
        by (rule consumedI [OF f]) (use a in auto)
      then show ?thesis using f True w by auto
    next
      case False
      then have "f lenb d1 = (if le_val lenb = 0 then Some (RETCODE_SUCCESS, [], d1)
          else Some (RETCODE_FAILURE, [], d1))"
        using Ensure_dec [OF d1(2)] by (auto simp: f_def)
      then show ?thesis using d1(2) w by (auto simp: consumed_def)
    qed
  qed (auto simp: DecodeOneParameter_string_def f_def)
qed

lemma DecodeElements_widths:
  "DecodeElements e w k d = Some (RETCODE_SUCCESS, xs, d') \<Longrightarrow>
     length xs = k \<and> (\<forall>x \<in> set xs. length x = w)"
  by (induction k arbitrary: d xs)
    (auto split: option.splits prod.splits if_splits dest: decode_T_width)

lemma DecodeElements_consumed:
  assumes "dec_inv d"
  shows "consumed d concat (DecodeElements e w k d)"
  using assms
proof (induction k arbitrary: d)
  case 0
  then show ?case by (auto simp: consumed_def)
next
  case (Suc k)
  define f where "f = (\<lambda>bs d1. map_option (\<lambda>(r2, xs, d2). (r2, bs # xs, d2)) (DecodeElements e w k d1))"
  show ?case
  proof (rule consumed_bind [OF decode_T_consumed [OF Suc.prems, of e w],
        where f = f and wb = "\<lambda>_ y. concat (tl y)"])
    fix bs d1
    assume "dec_inv d1"
    then show "consumed d1 (\<lambda>y. concat (tl y)) (f bs d1) \<and>
        (\<forall>y d2. f bs d1 = Some (RETCODE_SUCCESS, y, d2) \<longrightarrow> concat y = bs @ concat (tl y))"
      using Suc.IH [of d1] by (auto simp: consumed_def f_def)
  qed (auto simp: f_def split: option.splits)
qed

lemma decode_array_consumed:
  assumes "dec_inv d"
  shows "consumed d (\<lambda>a. wire (PArr a)) (DecodeOneParameter_Array e w v d)"
proof (cases "arr_size v \<noteq> 0 \<or> arr_data v \<noteq> None")
  case True
  then show ?thesis using assms by (auto simp: DecodeOneParameter_Array_def consumed_def)
next
  case False
  define f where "f = (\<lambda>szb d1. let n = le_val szb in
      if \<not> new_array e w n then Some (RETCODE_FAILURE, v\<lparr>arr_size := n, arr_data := None\<rparr>, d1)
      else (case DecodeElements e w n d1 of None \<Rightarrow> None
            | Some (r2, xs, d2) \<Rightarrow>
                if r2 \<noteq> RETCODE_SUCCESS
                then Some (RETCODE_FAILURE, v\<lparr>arr_size := n, arr_data := None\<rparr>, d2)
                else Some (RETCODE_SUCCESS, v\<lparr>arr_size := n, arr_data := Some xs\<rparr>, d2)))"
  show ?thesis
  proof (rule consumed_bind [OF decode_T_consumed [OF assms, of e 8], where f = f
        and wb = "\<lambda>_ a. concat (the (arr_data a))"])
    fix szb d1
    assume d1: "DecodeOneParameter_T e 8 d = Some (RETCODE_SUCCESS, szb, d1)" "dec_inv d1"
    then have w: "size_word (le_val szb) = szb"
      using decode_T_width size_word_le_val by blast
    show "consumed d1 (\<lambda>a. concat (the (arr_data a))) (f szb d1) \<and>
        (\<forall>y d2. f szb d1 = Some (RETCODE_SUCCESS, y, d2) \<longrightarrow> wire (PArr y) = szb @ concat (the (arr_data y)))"
      using w d1(2) DecodeElements_consumed [OF d1(2), of e w "le_val szb"]
        DecodeElements_widths [of e w "le_val szb" d1]
      by (auto simp: f_def Let_def consumed_def split: if_splits)
  qed (use False in \<open>auto simp: DecodeOneParameter_Array_def f_def Let_def\<close>)
qed

lemma consumed_map:
  "consumed d wr' res \<Longrightarrow> (\<And>x. wr (g x) = wr' x) \<Longrightarrow>
     consumed d wr (map_option (\<lambda>(r, x, d1). (r, g x, d1)) res)"
  by (auto simp: consumed_def)

lemma decode_param_consumed: "dec_inv d \<Longrightarrow> consumed d wire (DecodeOneParameter e t d)"
  by (cases t) (auto intro!: consumed_map decode_T_consumed decode_string_consumed
      decode_array_consumed simp del: wire.simps(2,3))

lemma RecursiveDecode_consumed:
  assumes "dec_inv d"
  shows "consumed d payload (RecursiveDecode e ts d)"
  using assms
proof (induction ts arbitrary: d)
  case Nil
  then show ?case by (auto simp: consumed_def)
next
  case (Cons t ts)
  define f where "f = (\<lambda>p d1. map_option (\<lambda>(r2, ps, d2). (r2, p # ps, d2)) (RecursiveDecode e ts d1))"
  show ?case
  proof (rule consumed_bind [OF decode_param_consumed [OF Cons.prems, of e t],
        where f = f and wb = "\<lambda>_ y. payload (tl y)"])
    fix p d1
    assume "dec_inv d1"
    then show "consumed d1 (\<lambda>y. payload (tl y)) (f p d1) \<and>
        (\<forall>y d2. f p d1 = Some (RETCODE_SUCCESS, y, d2) \<longrightarrow> payload y = wire p @ payload (tl y))"
      using Cons.IH [of d1] by (auto simp: consumed_def f_def)
  qed (auto simp: f_def split: option.splits)
qed

lemma CheckDataEnd_sound:
  assumes "dec_inv d"
  shows "\<exists>ok. CheckDataEnd e d = Some ok \<and> (ok \<longrightarrow> rest d = size_word (dd_pos d) \<and> dd_pos d + 8 = dd_size d)"
proof (rule consumedE [OF decode_T_consumed [OF assms, of e 8]])
  fix r bs d1
  assume a: "DecodeOneParameter_T e 8 d = Some (r, bs, d1)" "r = RETCODE_SUCCESS \<or> r = RETCODE_FAILURE"
    "dec_inv d1" "dd_size d1 = dd_size d" "dd_buffer d1 = dd_buffer d"
    "r = RETCODE_SUCCESS \<Longrightarrow> rest d = bs @ rest d1"
  show ?thesis
  proof (cases "r = RETCODE_SUCCESS \<and> dd_pos d1 = dd_size d1 \<and> dd_pos d1 = (le_val bs + 8) mod SIZE_MAX1")
    case False
    then show ?thesis using a(1) by (auto simp: CheckDataEnd_def)
  next
    case True
    then have l: "length bs = 8" "rest d = bs @ rest d1" using a(1,6) decode_T_width by auto
    have "rest d1 = []" using True length_rest [OF a(3)] by simp
    then have p: "dd_size d = dd_pos d + 8" "8 \<le> dd_size d"
      using l length_rest [OF assms] by auto
    have "le_val bs < 2 ^ 64" using le_val_bound [of bs] l(1) by simp
    then have "le_val bs + 8 = dd_size d"
    proof (cases "le_val bs + 8 < 2 ^ 64")
      case False
      then have "(le_val bs + 8) mod 2 ^ 64 = le_val bs + 8 - 2 ^ 64"
        using \<open>le_val bs < 2 ^ 64\<close> by (simp add: le_mod_geq)
      then show ?thesis using True p(2) a(4) \<open>le_val bs < 2 ^ 64\<close> by simp arith
    qed (use True a(4) in simp)
    then have "le_val bs = dd_pos d" using p(1) by simp
    then have "bs = size_word (dd_pos d)" using size_word_le_val [OF l(1)] by simp
    then show ?thesis
      using a(1) True \<open>rest d1 = []\<close> l(2) p(1) by (auto simp: CheckDataEnd_def)
  qed
qed

text \<open>C2. The facade's decoder on an arbitrary input block whose length is the one \<open>DataInfo\<close>
  claims (an \<open>int\<close>), for any list of targets and whatever allocations and copies fail: it
  never reads outside the block, and when it returns success the block is exactly the
  message of the parameters it delivered - nothing is left over, and the size words and the
  trailing length agree with what was read.\<close>

theorem ProcessDecode_canonical:
  assumes "di_data di = Some buf" and "di_length di = int (length buf)"
    and "di_length di \<le> INT_MAX"
  shows "\<exists>r ps. ProcessDecode e di ts = Some (r, ps) \<and> (r = RETCODE_SUCCESS \<longrightarrow> buf = message ps)"
proof (cases "buf = []")
  case True
  then show ?thesis using assms by (simp add: ProcessDecode_def)
next
  case False
  define d0 where "d0 = \<lparr>dd_buffer = buf, dd_size = nat (di_length di), dd_pos = 0\<rparr>"
  have d0: "dec_inv d0" "rest d0 = buf" "dd_pos d0 = 0" "dd_size d0 = length buf"
    using assms by (auto simp: d0_def dec_inv_def rest_def)
  show ?thesis
  proof (rule consumedE [OF RecursiveDecode_consumed [OF d0(1), of e ts]])
    fix r ps d
    assume a: "RecursiveDecode e ts d0 = Some (r, ps, d)" "r = RETCODE_SUCCESS \<or> r = RETCODE_FAILURE"
      "dec_inv d" "dd_size d = dd_size d0" "dd_buffer d = dd_buffer d0"
      "r = RETCODE_SUCCESS \<Longrightarrow> rest d0 = payload ps @ rest d"
    obtain ok where ok: "CheckDataEnd e d = Some ok"
        "ok \<Longrightarrow> rest d = size_word (dd_pos d) \<and> dd_pos d + 8 = dd_size d"
      using CheckDataEnd_sound [OF a(3)] by blast
    have "buf = message ps" if "r = RETCODE_SUCCESS" ok
    proof -
      have b: "buf = payload ps @ size_word (dd_pos d)" "dd_pos d + 8 = length buf"
        using a(4,6) that ok(2) d0 by auto
      then have "dd_pos d = length (payload ps)" by simp
      then show ?thesis using b(1) by (simp add: message_def)
    qed
    then show ?thesis
      using a(1) ok(1) assms False d0_def by (auto simp: ProcessDecode_def)
  qed
qed

theorem ProcessDecode_canonical_witness:
  "\<exists>r ps. ProcessDecode total_env \<lparr>di_data = Some [1, 2, 3], di_length = 3\<rparr> [TStr] = Some (r, ps) \<and>
     (r = RETCODE_SUCCESS \<longrightarrow> [1, 2, 3] = message ps)"
  using ProcessDecode_canonical [of "\<lparr>di_data = Some [1, 2, 3], di_length = 3\<rparr>" "[1, 2, 3]" total_env "[TStr]"]
  by simp

section \<open>Round trip\<close>

text \<open>
  Which target reads which parameter back: the same type on both sides, and a fresh array.
  The vector of (label, score) pairs is read back as one array: the labels, then the scores.
\<close>

abbreviation fresh_arr :: arr where "fresh_arr \<equiv> \<lparr>arr_data = None, arr_size = 0\<rparr>"

definition widths :: "nat \<Rightarrow> byte list list \<Rightarrow> bool" where
  "widths w xs \<longleftrightarrow> (\<forall>x \<in> set xs. length x = w)"

fun fits :: "target \<Rightarrow> param \<Rightarrow> bool" where
  "fits (TVal n) (PVal bs) \<longleftrightarrow> length bs = n"
| "fits TStr (PStr s) \<longleftrightarrow> True"
| "fits (TArr w v) (PArr a) \<longleftrightarrow> v = fresh_arr \<and> (case arr_data a of None \<Rightarrow> False | Some xs \<Rightarrow> widths w xs)"
| "fits (TArr w v) (PItems its) \<longleftrightarrow> v = fresh_arr \<and> widths w (map fst its) \<and> widths w (map snd its)"
| "fits _ _ \<longleftrightarrow> False"

fun decoded :: "param \<Rightarrow> param" where
  "decoded (PItems its) =
     PArr \<lparr>arr_data = Some (map fst its @ map snd its), arr_size = length its * 2\<rparr>"
| "decoded p = p"

definition moved :: "DataDecoder \<Rightarrow> nat \<Rightarrow> DataDecoder" where
  "moved d n = d\<lparr>dd_pos := dd_pos d + n\<rparr>"

lemma moved_moved [simp]: "moved (moved d m) n = moved d (m + n)"
  and moved_0 [simp]: "moved d 0 = d"
  by (simp_all add: moved_def add.assoc)

text \<open>\<open>ahead lim e d bs\<close>: the next bytes are \<open>bs\<close>, and the environment serves the buffer's size.\<close>

definition ahead :: "cenv \<Rightarrow> DataDecoder \<Rightarrow> byte list \<Rightarrow> bool" where
  "ahead e d bs \<longleftrightarrow> dec_inv d \<and> rest d = bs \<and> roomy_env (dd_size d) e"

lemma ahead_moved: "ahead e d (bs @ cs) \<Longrightarrow> ahead e (moved d (length bs)) cs"
  by (auto simp: ahead_def dec_inv_def rest_def moved_def)
    (metis add.commute append_eq_conv_conj drop_drop drop_eq_Nil length_append length_drop le_add1
      ordered_cancel_comm_monoid_diff_class.le_diff_conv2)+

lemma decode_T_reads:
  assumes "ahead e d (bs @ cs)" and "bs \<noteq> []"
  shows "DecodeOneParameter_T e (length bs) d = Some (RETCODE_SUCCESS, bs, moved d (length bs))"
proof -
  have d: "dec_inv d" "rest d = bs @ cs" "roomy_env (dd_size d) e"
    using assms(1) by (auto simp: ahead_def)
  have len: "length bs \<le> length (rest d)" using d(2) by simp
  then have "length bs \<le> dd_size d" and p: "dd_pos d + length bs < 2 ^ 64"
    using d(1) by (auto simp: dec_inv_def rest_def)
  then have "memcpy_eok e (length bs) (length bs)"
    using roomy_memcpy [OF d(3)] assms(2) by simp
  then show ?thesis
    using assms(2) len Ensure_dec [OF d(1)] advance(1) [OF d(1) len] d(2) p
    by (simp add: DecodeOneParameter_T_def moved_def)
qed

lemma decode_size_word_reads:
  "ahead e d (size_word n @ cs) \<Longrightarrow>
     DecodeOneParameter_T e 8 d = Some (RETCODE_SUCCESS, size_word n, moved d 8)"
  using decode_T_reads [of e d "size_word n" cs] by simp

lemma ahead_length: "ahead e d bs \<Longrightarrow> length bs \<le> dd_size d \<and> dd_size d < 2 ^ 62 \<and> dd_pos d \<le> dd_size d"
  by (auto simp: ahead_def dec_inv_def rest_def)

lemma decode_string_reads:
  assumes "ahead e d (wire (PStr s) @ cs)"
  shows "DecodeOneParameter_string e d = Some (RETCODE_SUCCESS, s, moved d (length (wire (PStr s))))"
proof -
  have a: "ahead e d (size_word (length s) @ s @ cs)" using assms by simp
  have a1: "ahead e (moved d 8) (s @ cs)" using ahead_moved [OF a] by simp
  have i1: "dec_inv (moved d 8)" "length s \<le> length (rest (moved d 8))"
    using a1 by (auto simp: ahead_def)
  have v: "le_val (size_word (length s)) = length s"
    using ahead_length [OF a] by (intro le_val_size_word) simp
  have "(dd_pos (moved d 8) + length s) mod SIZE_MAX1 = dd_pos (moved d 8) + length s"
    using ahead_length [OF a1] by simp
  then show ?thesis
    using decode_size_word_reads [OF a] v Ensure_dec [OF i1(1)] advance(1) [OF i1] a1
    by (auto simp: DecodeOneParameter_string_def ahead_def Let_def) (simp_all add: moved_def add.assoc)
qed

lemma DecodeElements_reads:
  assumes "ahead e d (concat xs @ cs)" and "widths w xs" and "[] \<notin> set xs"
  shows "DecodeElements e w (length xs) d = Some (RETCODE_SUCCESS, xs, moved d (length (concat xs)))"
  using assms
proof (induction xs arbitrary: d)
  case Nil
  then show ?case by simp
next
  case (Cons x xs)
  then have a: "ahead e d (x @ concat xs @ cs)" and w: "length x = w" "x \<noteq> []" "widths w xs" "[] \<notin> set xs"
    by (auto simp: widths_def)
  show ?case
    using decode_T_reads [OF a w(2)] Cons.IH [OF ahead_moved [OF a] w(3,4)] w(1) by simp
qed

lemma concat_widths: "widths w xs \<Longrightarrow> length (concat xs) = length xs * w"
  by (induction xs) (auto simp: widths_def)

lemma decode_array_reads:
  assumes "ahead e d (size_word (length xs) @ concat xs @ cs)" and "widths w xs" and "[] \<notin> set xs"
  shows "DecodeOneParameter_Array e w fresh_arr d = Some (RETCODE_SUCCESS,
     \<lparr>arr_data = Some xs, arr_size = length xs\<rparr>, moved d (8 + length (concat xs)))"
proof -
  have a1: "ahead e (moved d 8) (concat xs @ cs)" using ahead_moved [OF assms(1)] by simp
  have l: "length (concat xs) \<le> dd_size d" "dd_size d < 2 ^ 62" using ahead_length [OF assms(1)] by auto
  have "length xs \<le> length (concat xs)" using elements_ge [OF assms(3)] .
  then have v: "le_val (size_word (length xs)) = length xs"
    using l by (intro le_val_size_word) simp
  have "new_array e w (length xs)"
    using l concat_widths [OF assms(2)] assms(1) by (auto simp: new_array_def ahead_def roomy_env_def)
  then show ?thesis
    using decode_size_word_reads [OF assms(1)] v DecodeElements_reads [OF a1 assms(2,3)]
    by (simp add: DecodeOneParameter_Array_def Let_def)
qed

lemma decode_param_reads:
  assumes "ahead e d (wire p @ cs)" and "param_ok p" and "fits t p"
  shows "DecodeOneParameter e t d = Some (RETCODE_SUCCESS, decoded p, moved d (length (wire p)))"
proof (cases p)
  case (PVal bs)
  then show ?thesis using assms decode_T_reads [of e d bs cs] by (cases t) auto
next
  case (PStr s)
  then show ?thesis
    using assms decode_string_reads [of e d s cs] by (cases t) (auto simp del: wire.simps)
next
  case (PArr a)
  then obtain w xs where "t = TArr w fresh_arr" "a = \<lparr>arr_data = Some xs, arr_size = length xs\<rparr>"
      "widths w xs" "[] \<notin> set xs"
    using assms(2,3) by (cases t; cases a) (auto split: option.splits)
  then show ?thesis using assms(1) PArr decode_array_reads [of e d xs cs w] by simp
next
  case (PItems its)
  then obtain w where "t = TArr w fresh_arr" "widths w (map fst its @ map snd its)"
      "[] \<notin> set (map fst its @ map snd its)"
    using assms(2,3) by (cases t) (auto simp: widths_def)
  then show ?thesis
    using assms(1) PItems decode_array_reads [of e d "map fst its @ map snd its" cs w]
    by (simp add: mult_2_right)
qed

lemma RecursiveDecode_reads:
  assumes "ahead e d (payload ps @ cs)" and "list_all param_ok ps" and "list_all2 fits ts ps"
  shows "RecursiveDecode e ts d = Some (RETCODE_SUCCESS, map decoded ps, moved d (length (payload ps)))"
  using assms(3,1,2)
proof (induction ts ps arbitrary: d rule: list_all2_induct)
  case Nil
  then show ?case by simp
next
  case (Cons t ts p ps)
  then have a: "ahead e d (wire p @ payload ps @ cs)" by simp
  have "RecursiveDecode e ts (moved d (length (wire p))) =
      Some (RETCODE_SUCCESS, map decoded ps, moved (moved d (length (wire p))) (length (payload ps)))"
    using Cons.IH [OF ahead_moved [OF a]] Cons.prems(2) by simp
  then show ?case
    using decode_param_reads [OF a] Cons.prems(2) Cons.hyps by simp
qed

lemma CheckDataEnd_accepts:
  assumes "ahead e d (size_word (dd_pos d))"
  shows "CheckDataEnd e d = Some True"
proof -
  have l: "dd_pos d + 8 = dd_size d" "dd_size d < 2 ^ 62"
    using assms length_rest [of d] by (auto simp: ahead_def dec_inv_def)
  have "DecodeOneParameter_T e 8 d = Some (RETCODE_SUCCESS, size_word (dd_pos d), moved d 8)"
    using decode_size_word_reads [of e d "dd_pos d" "[]"] assms by simp
  then show ?thesis
    using l le_val_size_word [of "dd_pos d"] by (simp add: CheckDataEnd_def moved_def)
qed

lemma ProcessDecode_message:
  assumes "list_all param_ok ps" and "list_all2 fits ts ps"
    and "int (length (message ps)) \<le> INT_MAX" and "roomy_env (length (message ps)) e"
    and "di_data di = Some (message ps)" and "di_length di = int (length (message ps))"
  shows "ProcessDecode e di ts = Some (RETCODE_SUCCESS, map decoded ps)"
proof -
  define d0 where "d0 = \<lparr>dd_buffer = message ps, dd_size = nat (di_length di), dd_pos = 0\<rparr>"
  have n: "nat (int k + 8) = k + 8" for k by arith
  have a0: "ahead e d0 (payload ps @ size_word (length (payload ps)))"
    using assms by (simp add: ahead_def dec_inv_def rest_def d0_def message_def n)
  have r: "RecursiveDecode e ts d0 = Some (RETCODE_SUCCESS, map decoded ps, moved d0 (length (payload ps)))"
    using RecursiveDecode_reads [OF a0 assms(1,2)] .
  have "CheckDataEnd e (moved d0 (length (payload ps))) = Some True"
    using CheckDataEnd_accepts [of e "moved d0 (length (payload ps))"] ahead_moved [OF a0]
    by (simp add: moved_def d0_def)
  then show ?thesis
    using r assms(5,6) by (simp add: ProcessDecode_def length_message d0_def n)
qed

text \<open>C3. Round trip through the two facades: whatever the encoder accepted and returned with
  success, the decoder with targets of the same types delivers back - values, strings and
  arrays as they were, a vector of (label, score) pairs as its labels followed by its
  scores - as long as the decoding side's allocations and copies succeed.\<close>

theorem encode_decode_roundtrip:
  assumes "sound_env e" and "list_all param_ok ps" and "length (payload ps) < 2 ^ 59"
    and "ProcessEncode e di ps = Some (RETCODE_SUCCESS, di')"
    and "list_all2 fits ts ps" and "roomy_env (length (message ps)) e2"
  shows "ProcessDecode e2 di' ts = Some (RETCODE_SUCCESS, map decoded ps)"
proof -
  have "di_data di' = Some (message ps) \<and> di_length di' = int (length (message ps)) \<and>
      int (length (message ps)) \<le> INT_MAX"
    using ProcessEncode_delivers [OF assms(1,2,3), of di] assms(4) by auto
  then show ?thesis using ProcessDecode_message [OF assms(2,5) _ assms(6)] by blast
qed

theorem encode_decode_roundtrip_witness:
  "\<exists>di'. ProcessDecode total_env di' [TVal 2, TStr, TArr 1 fresh_arr] =
     Some (RETCODE_SUCCESS, [PVal [1, 2], PStr [7], PArr \<lparr>arr_data = Some [[3], [4]], arr_size = 2\<rparr>])"
proof -
  let ?ps = "[PVal [1, 2], PStr [7], PItems [([3], [4])]]"
  obtain di' where "ProcessEncode total_env empty_DataInfo ?ps = Some (RETCODE_SUCCESS, di')"
    using ProcessEncode_delivers [of total_env ?ps empty_DataInfo] by (auto simp: length_message)
  then have "ProcessDecode total_env di' [TVal 2, TStr, TArr 1 fresh_arr] =
      Some (RETCODE_SUCCESS, map decoded ?ps)"
    by (intro encode_decode_roundtrip [of total_env ?ps empty_DataInfo]) (auto simp: widths_def)
  then show ?thesis by auto
qed

end
