(* ===== verification/Sync.thy ===== *)
theory Sync
  imports AieBase
begin

text \<open>
  The synchronisation primitives: the counting semaphore (semaphore.cpp), the single-slot
  notifier built on it (simple_event_notifier.inl), the event (event.cpp) and the
  reader-writer lock with writer preference (rw_lock.cpp). The critical sections, each under
  its mutex, are functions on the record of the counters; threads that wait on a condition
  variable are states of a transition system, in which a parked thread moves only when it is
  notified (or wakes up spuriously) and then evaluates its condition again.
\<close>

section \<open>Semaphore\<close>

text \<open>\<open>count_\<close> is an \<open>unsigned int\<close>.\<close>

record Semaphore =
  sem_count :: nat

definition Semaphore_MakeShared :: "nat \<Rightarrow> Semaphore" where
  "Semaphore_MakeShared count = \<lparr>sem_count = count mod 2 ^ 32\<rparr>"

definition Semaphore_Signal :: "Semaphore \<Rightarrow> Semaphore" where
  "Semaphore_Signal s = s\<lparr>sem_count := (sem_count s + 1) mod 2 ^ 32\<rparr>"

text \<open>
  One evaluation of the waiting condition, \<open>timed_out\<close> when the deadline has passed: \<open>None\<close>
  means that the thread stays blocked. A non-positive time-out waits for ever.
\<close>

definition Semaphore_Wait :: "Semaphore \<Rightarrow> Semaphore option" where
  "Semaphore_Wait s = (if sem_count s > 0 then Some (s\<lparr>sem_count := sem_count s - 1\<rparr>) else None)"

definition Semaphore_Wait_for :: "bool \<Rightarrow> Semaphore \<Rightarrow> (bool \<times> Semaphore) option" where
  "Semaphore_Wait_for timed_out s =
     (if sem_count s > 0 then Some (True, s\<lparr>sem_count := sem_count s - 1\<rparr>)
      else if timed_out then Some (False, s) else None)"

definition ISemaphore_Wait :: "int \<Rightarrow> bool \<Rightarrow> Semaphore \<Rightarrow> (bool \<times> Semaphore) option" where
  "ISemaphore_Wait milliSeconds timed_out s =
     (if milliSeconds \<le> 0 then map_option (\<lambda>s'. (True, s')) (Semaphore_Wait s)
      else Semaphore_Wait_for timed_out s)"

section \<open>SimpleEventNotifier\<close>

text \<open>\<open>value_\<close> is a pointer to the item, \<open>None\<close> the null pointer.\<close>

record 'a Notifier =
  nt_value :: "'a option"
  nt_producer :: Semaphore

definition Notifier_new :: "'a Notifier" where
  "Notifier_new = \<lparr>nt_value = None, nt_producer = Semaphore_MakeShared 0\<rparr>"

definition AddToBack :: "'a option \<Rightarrow> 'a Notifier \<Rightarrow> 'a Notifier" where
  "AddToBack item n = n\<lparr>nt_value := item, nt_producer := Semaphore_Signal (nt_producer n)\<rparr>"

text \<open>The second component is the item assigned to the output argument, when it was.\<close>

definition GetFromFront ::
  "int \<Rightarrow> bool \<Rightarrow> 'a Notifier \<Rightarrow> (bool \<times> 'a option option \<times> 'a Notifier) option" where
  "GetFromFront timeOut timed_out n =
     (case ISemaphore_Wait timeOut timed_out (nt_producer n) of
        None \<Rightarrow> None
      | Some (ret, p) \<Rightarrow>
          if ret then Some (ret, Some (nt_value n), n\<lparr>nt_value := None, nt_producer := p\<rparr>)
          else Some (ret, None, n\<lparr>nt_producer := p\<rparr>))"

text \<open>What is disposed of with the notifier: the item still in the slot, if there is a destructor.\<close>

definition Notifier_dtor :: "bool \<Rightarrow> 'a Notifier \<Rightarrow> 'a list" where
  "Notifier_dtor has_destruct n =
     (case nt_value n of None \<Rightarrow> [] | Some v \<Rightarrow> if \<not> has_destruct then [] else [v])"

lemma AddToBack_count:
  "sem_count (nt_producer n) + 1 < 2 ^ 32 \<Longrightarrow>
     sem_count (nt_producer (AddToBack item n)) = sem_count (nt_producer n) + 1"
  by (simp add: AddToBack_def Semaphore_Signal_def)

lemma adds_count:
  "sem_count (nt_producer n) + length items < 2 ^ 32 \<Longrightarrow>
     sem_count (nt_producer (fold AddToBack items n)) = sem_count (nt_producer n) + length items"
  by (induction items arbitrary: n) (auto simp: AddToBack_count)

lemma adds_value:
  "items \<noteq> [] \<Longrightarrow> nt_value (fold AddToBack items n) = last items"
  by (induction items rule: rev_induct) (auto simp: AddToBack_def)

lemma get_ready:
  "0 < sem_count (nt_producer n) \<Longrightarrow> GetFromFront t b n =
     Some (True, Some (nt_value n),
       n\<lparr>nt_value := None, nt_producer := \<lparr>sem_count = sem_count (nt_producer n) - 1\<rparr>\<rparr>)"
  by (simp add: GetFromFront_def ISemaphore_Wait_def Semaphore_Wait_def Semaphore_Wait_for_def)

lemma get_blocked:
  "sem_count (nt_producer n) = 0 \<Longrightarrow> t \<le> 0 \<Longrightarrow> GetFromFront t b n = None"
  by (simp add: GetFromFront_def ISemaphore_Wait_def Semaphore_Wait_def)

text \<open>C6. The notifier is a single slot, not a queue: after any non-empty batch of \<open>AddToBack\<close> on a
  fresh notifier, a consumer is let through once for each of them, but the first \<open>GetFromFront\<close>
  receives the last item and, if more than one was added, the second receives a null item -
  every item before the last is lost; and with nothing added, a consumer without time-out
  stays blocked.\<close>

theorem notifier_single_slot:
  assumes "length items < 2 ^ 32"
  shows "(items = [] \<longrightarrow> t \<le> 0 \<longrightarrow> GetFromFront t b (fold AddToBack items Notifier_new) = None) \<and>
    (items \<noteq> [] \<longrightarrow> (\<exists>n1. GetFromFront t b (fold AddToBack items Notifier_new) = Some (True, Some (last items), n1) \<and>
       sem_count (nt_producer n1) = length items - 1 \<and>
       (1 < length items \<longrightarrow> (\<exists>n2. GetFromFront t b n1 = Some (True, Some None, n2)))))"
proof -
  let ?n = "fold AddToBack items (Notifier_new :: 'a Notifier)"
  have c: "sem_count (nt_producer ?n) = length items"
    using adds_count [of "Notifier_new :: 'a Notifier" items] assms
    by (simp add: Notifier_new_def Semaphore_MakeShared_def)
  show ?thesis
    using c get_blocked [of ?n t b] get_ready [of ?n t b] adds_value [of items Notifier_new]
    by (cases "items = []") (auto simp: get_ready)
qed

theorem notifier_single_slot_witness:
  "\<exists>n1 n2. GetFromFront (- 1) False (fold AddToBack [Some 1, Some 2] (Notifier_new :: nat Notifier)) =
      Some (True, Some (Some 2), n1) \<and>
    GetFromFront (- 1) False n1 = Some (True, Some None, n2)"
  using notifier_single_slot [of "[Some 1, Some (2::nat)]" "- 1" False] by auto

section \<open>Event\<close>

record Event =
  ev_flag :: bool

definition Event_MakeShared :: Event where
  "Event_MakeShared = \<lparr>ev_flag = False\<rparr>"

definition Event_Signal :: "Event \<Rightarrow> bool \<times> Event" where
  "Event_Signal ev = (let signalled = ev_flag ev in (\<not> signalled, ev\<lparr>ev_flag := True\<rparr>))"

definition Event_Reset :: "Event \<Rightarrow> bool \<times> Event" where
  "Event_Reset ev = (let signalled = ev_flag ev in (signalled, ev\<lparr>ev_flag := False\<rparr>))"

definition Event_IsSet :: "Event \<Rightarrow> bool" where
  "Event_IsSet ev \<longleftrightarrow> ev_flag ev"

definition Event_Wait :: "int \<Rightarrow> bool \<Rightarrow> Event \<Rightarrow> bool option" where
  "Event_Wait milliSeconds timed_out ev =
     (if ev_flag ev then Some True
      else if milliSeconds \<le> 0 then None
      else if timed_out then Some False else None)"

section \<open>Reader-writer lock\<close>

record RwLock =
  rw_readCnt :: nat
  rw_writeCnt :: nat
  rw_writeFlag :: bool

definition RwLock_new :: RwLock where
  "RwLock_new = \<lparr>rw_readCnt = 0, rw_writeCnt = 0, rw_writeFlag = False\<rparr>"

text \<open>The conditions of the two waits.\<close>

definition can_read :: "RwLock \<Rightarrow> bool" where
  "can_read l \<longleftrightarrow> rw_writeCnt l = 0"

definition can_write :: "RwLock \<Rightarrow> bool" where
  "can_write l \<longleftrightarrow> rw_readCnt l = 0 \<and> \<not> rw_writeFlag l"

text \<open>
  What a thread is doing: outside, parked on a condition variable, woken and about to evaluate
  the condition again, or holding the lock. \<open>N\<close> is the number of threads.
\<close>

datatype tstate = Idle | RParked | RWoken | Reading | WParked | WWoken | Writing

record rwsys =
  sys_lock :: RwLock
  sys_thr :: "nat \<Rightarrow> tstate"

text \<open>From the (re-)evaluation of the condition to the end of \<open>LockRead\<close> or to parking.\<close>

definition LockRead_wait :: "nat \<Rightarrow> rwsys \<Rightarrow> rwsys" where
  "LockRead_wait t s =
     (if can_read (sys_lock s)
      then s\<lparr>sys_lock := (sys_lock s)\<lparr>rw_readCnt := sz_inc (rw_readCnt (sys_lock s))\<rparr>,
             sys_thr := (sys_thr s)(t := Reading)\<rparr>
      else s\<lparr>sys_thr := (sys_thr s)(t := RParked)\<rparr>)"

definition LockRead :: "nat \<Rightarrow> rwsys \<Rightarrow> rwsys" where
  "LockRead t s = LockRead_wait t s"

definition LockWrite_wait :: "nat \<Rightarrow> rwsys \<Rightarrow> rwsys" where
  "LockWrite_wait t s =
     (if can_write (sys_lock s)
      then s\<lparr>sys_lock := (sys_lock s)\<lparr>rw_writeFlag := True\<rparr>, sys_thr := (sys_thr s)(t := Writing)\<rparr>
      else s\<lparr>sys_thr := (sys_thr s)(t := WParked)\<rparr>)"

definition LockWrite :: "nat \<Rightarrow> rwsys \<Rightarrow> rwsys" where
  "LockWrite t s =
     LockWrite_wait t (s\<lparr>sys_lock := (sys_lock s)\<lparr>rw_writeCnt := sz_inc (rw_writeCnt (sys_lock s))\<rparr>\<rparr>)"

text \<open>\<open>notify_one\<close> wakes one parked writer, if any: \<open>w\<close> is the one it picks.\<close>

definition notify_write :: "nat \<Rightarrow> rwsys \<Rightarrow> rwsys" where
  "notify_write w s =
     (if sys_thr s w = WParked then s\<lparr>sys_thr := (sys_thr s)(w := WWoken)\<rparr> else s)"

definition notify_readers :: "rwsys \<Rightarrow> rwsys" where
  "notify_readers s = s\<lparr>sys_thr := (\<lambda>t. if sys_thr s t = RParked then RWoken else sys_thr s t)\<rparr>"

definition UnLockRead :: "nat \<Rightarrow> nat \<Rightarrow> rwsys \<Rightarrow> rwsys" where
  "UnLockRead w t s =
     (let l = (sys_lock s)\<lparr>rw_readCnt := sz_dec (rw_readCnt (sys_lock s))\<rparr>;
          s1 = s\<lparr>sys_lock := l, sys_thr := (sys_thr s)(t := Idle)\<rparr> in
      if rw_readCnt l = 0 \<and> rw_writeCnt l > 0 then notify_write w s1 else s1)"

definition UnLockWrite :: "nat \<Rightarrow> nat \<Rightarrow> rwsys \<Rightarrow> rwsys" where
  "UnLockWrite w t s =
     (let l = (sys_lock s)\<lparr>rw_writeCnt := sz_dec (rw_writeCnt (sys_lock s))\<rparr>;
          s1 = s\<lparr>sys_lock := l, sys_thr := (sys_thr s)(t := Idle)\<rparr>;
          s2 = (if rw_writeCnt l = 0 then notify_readers s1 else notify_write w s1) in
      s2\<lparr>sys_lock := l\<lparr>rw_writeFlag := False\<rparr>\<rparr>)"

text \<open>
  The pick of \<open>notify_one\<close>: a parked writer, unless there is none.
\<close>

definition picks :: "nat \<Rightarrow> rwsys \<Rightarrow> nat \<Rightarrow> bool" where
  "picks N s w \<longleftrightarrow> (\<exists>u < N. sys_thr s u = WParked) \<longrightarrow> w < N \<and> sys_thr s w = WParked"

inductive rw_step :: "nat \<Rightarrow> rwsys \<Rightarrow> rwsys \<Rightarrow> bool" for N where
  lock_read: "t < N \<Longrightarrow> sys_thr s t = Idle \<Longrightarrow> rw_step N s (LockRead t s)"
| retry_read: "t < N \<Longrightarrow> sys_thr s t = RWoken \<Longrightarrow> rw_step N s (LockRead_wait t s)"
| lock_write: "t < N \<Longrightarrow> sys_thr s t = Idle \<Longrightarrow> rw_step N s (LockWrite t s)"
| retry_write: "t < N \<Longrightarrow> sys_thr s t = WWoken \<Longrightarrow> rw_step N s (LockWrite_wait t s)"
| unlock_read: "t < N \<Longrightarrow> sys_thr s t = Reading \<Longrightarrow> picks N s w \<Longrightarrow> rw_step N s (UnLockRead w t s)"
| unlock_write: "t < N \<Longrightarrow> sys_thr s t = Writing \<Longrightarrow> picks N s w \<Longrightarrow> rw_step N s (UnLockWrite w t s)"
| spurious_read: "t < N \<Longrightarrow> sys_thr s t = RParked \<Longrightarrow> rw_step N s (s\<lparr>sys_thr := (sys_thr s)(t := RWoken)\<rparr>)"
| spurious_write: "t < N \<Longrightarrow> sys_thr s t = WParked \<Longrightarrow> rw_step N s (s\<lparr>sys_thr := (sys_thr s)(t := WWoken)\<rparr>)"

definition rw_init :: rwsys where
  "rw_init = \<lparr>sys_lock = RwLock_new, sys_thr = (\<lambda>_. Idle)\<rparr>"

inductive rw_reach :: "nat \<Rightarrow> rwsys \<Rightarrow> bool" for N where
  start: "rw_reach N rw_init"
| step: "rw_reach N s \<Longrightarrow> rw_step N s s' \<Longrightarrow> rw_reach N s'"

subsection \<open>Counting threads\<close>

primrec num :: "nat \<Rightarrow> tstate \<Rightarrow> (nat \<Rightarrow> tstate) \<Rightarrow> nat" where
  "num 0 x f = 0"
| "num (Suc n) x f = num n x f + (if f n = x then 1 else 0)"

lemma num_cong: "(\<And>t. t < N \<Longrightarrow> (f t = x) = (g t = x)) \<Longrightarrow> num N x f = num N x g"
  by (induction N) auto

lemma num_pos: "0 < num N x f \<longleftrightarrow> (\<exists>t < N. f t = x)"
  by (induction N) (auto simp: less_Suc_eq)

lemma num_here: "t < N \<Longrightarrow> 0 < num N (f t) f"
  using num_pos by blast

lemma num_upd:
  assumes "t < N"
  shows "num N x (f(t := y)) = num N x f + (if y = x then 1 else 0) - (if f t = x then 1 else 0)"
  using assms
proof (induction N)
  case (Suc n)
  show ?case
  proof (cases "t = n")
    case True
    have "num n x (f(t := y)) = num n x f" using True by (intro num_cong) auto
    then show ?thesis unfolding num.simps using True by (simp only: fun_upd_same)
  next
    case False
    then have "f t = x \<Longrightarrow> 0 < num n x f" using Suc.prems num_here [of t n f] by auto
    then show ?thesis using False Suc by auto
  qed
qed simp

text \<open>Distinct states partition the threads.\<close>

lemma num_total: "distinct xs \<Longrightarrow> sum_list (map (\<lambda>x. num N x f) xs) \<le> N"
proof (induction N)
  case (Suc n)
  have "sum_list (map (\<lambda>x. num (Suc n) x f) xs) =
      sum_list (map (\<lambda>x. num n x f) xs) + sum_list (map (\<lambda>x. if f n = x then 1 else 0) xs)"
    by (simp add: sum_list_addf)
  moreover have "sum_list (map (\<lambda>x. if f n = x then 1 else 0) xs) \<le> (1::nat)"
    using Suc.prems by (induction xs) (auto simp: sum_list_eq_0_iff)
  ultimately show ?case using Suc by simp
qed simp

text \<open>
  The counters count the threads, the holders exclude each other, and no wake-up is lost: when
  the lock is free for a writer and there are writers, one of them is woken; when there is no
  writer, no reader is parked.
\<close>

definition rw_inv :: "nat \<Rightarrow> rwsys \<Rightarrow> bool" where
  "rw_inv N s \<longleftrightarrow> (let l = sys_lock s; c = (\<lambda>x. num N x (sys_thr s)) in
     rw_readCnt l = c Reading \<and>
     rw_writeCnt l = c WParked + c WWoken + c Writing \<and>
     (rw_writeFlag l \<longleftrightarrow> c Writing = 1) \<and>
     c Writing \<le> 1 \<and>
     (c Writing = 1 \<longrightarrow> c Reading = 0) \<and>
     (c Reading = 0 \<and> c Writing = 0 \<and> 0 < c WParked \<longrightarrow> 0 < c WWoken) \<and>
     (c WParked + c WWoken + c Writing = 0 \<longrightarrow> c RParked = 0))"

lemma num_Idle [simp]: "x \<noteq> Idle \<Longrightarrow> num N x (\<lambda>_. Idle) = 0"
  by (induction N) auto

lemma rw_inv_init: "rw_inv N rw_init"
  by (simp add: rw_inv_def rw_init_def RwLock_new_def Let_def)

lemma rw_inv_LockRead_wait:
  assumes N: "N < SZ" and inv: "rw_inv N s" and t: "t < N" "sys_thr s t = y" "y = Idle \<or> y = RWoken"
  shows "rw_inv N (LockRead_wait t s)"
proof -
  have "num N Reading (sys_thr s) + num N y (sys_thr s) \<le> N"
    using num_total [of "[Reading, y]" N "sys_thr s"] t(3) by auto
  then have inc: "sz_inc (num N Reading (sys_thr s)) = num N Reading (sys_thr s) + 1"
    using N num_here [OF t(1), of "sys_thr s"] t(2) by (intro sz_counts) simp
  note c = num_upd [OF t(1), of _ "sys_thr s", unfolded t(2)]
  show ?thesis
  proof (cases "rw_writeCnt (sys_lock s) = 0")
    case True
    have "LockRead_wait t s = s\<lparr>sys_lock := (sys_lock s)\<lparr>rw_readCnt := num N Reading (sys_thr s) + 1\<rparr>,
        sys_thr := (sys_thr s)(t := Reading)\<rparr>"
      using True inv inc by (simp add: LockRead_wait_def can_read_def rw_inv_def Let_def)
    then show ?thesis
      using inv t(3) True by (elim disjE) (simp_all add: rw_inv_def Let_def c)
  next
    case False
    have "LockRead_wait t s = s\<lparr>sys_thr := (sys_thr s)(t := RParked)\<rparr>"
      using False by (simp add: LockRead_wait_def can_read_def)
    then show ?thesis
      using inv t(3) False by (elim disjE) (simp_all add: rw_inv_def Let_def c)
  qed
qed

text \<open>The second half of \<open>LockWrite\<close>: the thread already counts as a writer (it is woken).\<close>

lemma rw_inv_LockWrite_wait:
  assumes inv: "rw_inv N s" and t: "t < N" "sys_thr s t = WWoken"
  shows "rw_inv N (LockWrite_wait t s)"
proof -
  have "0 < num N WWoken (sys_thr s)" using num_here [OF t(1), of "sys_thr s"] t(2) by simp
  then show ?thesis
    using inv t(2)
    by (auto simp: rw_inv_def LockWrite_wait_def can_write_def Let_def num_upd [OF t(1)])
qed

lemma rw_inv_enter_write:
  assumes N: "N < SZ" and inv: "rw_inv N s" and t: "t < N" "sys_thr s t = Idle"
  shows "rw_inv N (s\<lparr>sys_lock := (sys_lock s)\<lparr>rw_writeCnt := sz_inc (rw_writeCnt (sys_lock s))\<rparr>,
    sys_thr := (sys_thr s)(t := WWoken)\<rparr>)"
proof -
  let ?w = "num N WParked (sys_thr s) + num N WWoken (sys_thr s) + num N Writing (sys_thr s)"
  have "?w + num N Idle (sys_thr s) \<le> N"
    using num_total [of "[WParked, WWoken, Writing, Idle]" N "sys_thr s"] by simp
  then have inc: "sz_inc ?w = ?w + 1"
    using N num_here [OF t(1), of "sys_thr s"] t(2) by (intro sz_counts) simp
  show ?thesis
    using inv t(2) inc by (auto simp: rw_inv_def Let_def num_upd [OF t(1)])
qed

lemma rw_inv_LockWrite:
  assumes N: "N < SZ" and inv: "rw_inv N s" and t: "t < N" "sys_thr s t = Idle"
  shows "rw_inv N (LockWrite t s)"
proof -
  have "LockWrite t s = LockWrite_wait t (s\<lparr>sys_lock := (sys_lock s)\<lparr>rw_writeCnt :=
      sz_inc (rw_writeCnt (sys_lock s))\<rparr>, sys_thr := (sys_thr s)(t := WWoken)\<rparr>)"
    by (simp add: LockWrite_def LockWrite_wait_def)
  then show ?thesis
    using rw_inv_LockWrite_wait [OF rw_inv_enter_write [OF assms] t(1)] by simp
qed

text \<open>Notification after an unlock: the invariant but for the lost wake-ups, then all of it.\<close>

lemma picks_after:
  assumes "picks N s w" and "sys_thr s t = Reading \<or> sys_thr s t = Writing" and "0 < num N WParked (sys_thr s)"
  shows "w < N \<and> sys_thr s w = WParked \<and> w \<noteq> t"
proof -
  have "w < N \<and> sys_thr s w = WParked" using assms(1,3) by (auto simp: picks_def num_pos)
  then show ?thesis using assms(2) by auto
qed

lemma num_notify_readers:
  "num N x (\<lambda>t. if f t = RParked then RWoken else f t) =
    (if x = RParked then 0 else if x = RWoken then num N RParked f + num N RWoken f else num N x f)"
  by (induction N) auto

lemma rw_inv_UnLockRead:
  assumes N: "N < SZ" and inv: "rw_inv N s" and t: "t < N" "sys_thr s t = Reading" and w: "picks N s w"
  shows "rw_inv N (UnLockRead w t s)"
proof -
  let ?f = "sys_thr s"
  have r: "0 < num N Reading ?f" using num_here [OF t(1), of ?f] t(2) by simp
  have "num N Reading ?f \<le> N" using num_total [of "[Reading]" N ?f] by simp
  then have dec: "sz_dec (num N Reading ?f) = num N Reading ?f - 1"
    using N r by (intro sz_counts) simp_all
  define f1 where "f1 = ?f(t := Idle)"
  have c: "num N x f1 = num N x ?f + (if Idle = x then 1 else 0) - (if Reading = x then 1 else 0)" for x
    unfolding f1_def using num_upd [OF t(1)] t(2) by simp
  show ?thesis
  proof (cases "0 < num N WParked ?f")
    case True
    then have w': "w < N" "f1 w = WParked" using picks_after [OF w _ True] t(2) by (auto simp: f1_def)
    have "UnLockRead w t s = s\<lparr>sys_lock := (sys_lock s)\<lparr>rw_readCnt := num N Reading ?f - 1\<rparr>,
        sys_thr := (if num N Reading ?f = 1 then f1(w := WWoken) else f1)\<rparr>"
      using inv dec r w'(2) True by (auto simp: UnLockRead_def notify_write_def rw_inv_def Let_def f1_def)
    then show ?thesis
      using inv r True w' by (auto simp: rw_inv_def Let_def num_upd [OF w'(1)] c)
  next
    case False
    then have "f1 w = WParked \<Longrightarrow> \<not> w < N" using num_here [of w N f1] c [of WParked] by auto
    then have nw: "num N x (f1(w := WWoken)) = num N x f1" if "f1 w = WParked" for x
      using that by (intro num_cong) auto
    have "UnLockRead w t s = s\<lparr>sys_lock := (sys_lock s)\<lparr>rw_readCnt := num N Reading ?f - 1\<rparr>,
        sys_thr := (if num N Reading ?f = 1 \<and> 0 < rw_writeCnt (sys_lock s) \<and> f1 w = WParked then f1(w := WWoken) else f1)\<rparr>"
      using inv dec r by (auto simp: UnLockRead_def notify_write_def rw_inv_def Let_def f1_def)
    then show ?thesis
      using inv r False nw by (auto simp: rw_inv_def Let_def c)
  qed
qed

lemma rw_inv_UnLockWrite:
  assumes N: "N < SZ" and inv: "rw_inv N s" and t: "t < N" "sys_thr s t = Writing" and w: "picks N s w"
  shows "rw_inv N (UnLockWrite w t s)"
proof -
  let ?f = "sys_thr s" and ?l = "sys_lock s"
  let ?k = "num N WParked ?f + num N WWoken ?f"
  have r: "num N Writing ?f = 1" "num N Reading ?f = 0" "rw_writeCnt ?l = ?k + 1" "rw_readCnt ?l = 0"
    using num_here [OF t(1), of ?f] t(2) inv by (auto simp: rw_inv_def Let_def)
  have "?k + 1 \<le> N" using num_total [of "[WParked, WWoken, Writing]" N ?f] r(1) by simp
  then have dec: "sz_dec (?k + 1) = ?k" using N by (subst sz_counts) simp_all
  define f1 where "f1 = ?f(t := Idle)"
  have c: "num N x f1 = num N x ?f + (if Idle = x then 1 else 0) - (if Writing = x then 1 else 0)" for x
    unfolding f1_def using num_upd [OF t(1)] t(2) by simp
  show ?thesis
  proof (cases "?k = 0")
    case True
    have "UnLockWrite w t s = s\<lparr>sys_lock := ?l\<lparr>rw_writeCnt := 0, rw_writeFlag := False\<rparr>,
        sys_thr := (\<lambda>u. if f1 u = RParked then RWoken else f1 u)\<rparr>"
      using r dec True by (simp add: UnLockWrite_def notify_readers_def Let_def f1_def cong: if_cong)
    then show ?thesis
      using r True by (simp add: rw_inv_def Let_def num_notify_readers c)
  next
    case False
    show ?thesis
    proof (cases "0 < num N WParked ?f")
      case True
      then have w': "w < N" "f1 w = WParked" using picks_after [OF w _ True] t(2) by (auto simp: f1_def)
      have "UnLockWrite w t s = s\<lparr>sys_lock := ?l\<lparr>rw_writeCnt := ?k, rw_writeFlag := False\<rparr>,
          sys_thr := f1(w := WWoken)\<rparr>"
        using r dec False w'(2) by (auto simp add: UnLockWrite_def notify_write_def Let_def f1_def)
      then show ?thesis
        using r True w' by (simp add: rw_inv_def Let_def num_upd [OF w'(1)] c)
    next
      case nw: False
      then have "f1 w = WParked \<Longrightarrow> \<not> w < N" using num_here [of w N f1] c [of WParked] by auto
      then have same: "num N x (f1(w := WWoken)) = num N x f1" if "f1 w = WParked" for x
        using that by (intro num_cong) auto
      have "UnLockWrite w t s = s\<lparr>sys_lock := ?l\<lparr>rw_writeCnt := ?k, rw_writeFlag := False\<rparr>,
          sys_thr := (if f1 w = WParked then f1(w := WWoken) else f1)\<rparr>"
        using r dec False by (auto simp add: UnLockWrite_def notify_write_def Let_def f1_def)
      then show ?thesis
        using r False nw same by (simp add: rw_inv_def Let_def c)
    qed
  qed
qed

lemma rw_inv_spurious:
  assumes "rw_inv N s" and "t < N" and "sys_thr s t = RParked \<and> y = RWoken \<or> sys_thr s t = WParked \<and> y = WWoken"
  shows "rw_inv N (s\<lparr>sys_thr := (sys_thr s)(t := y)\<rparr>)"
proof -
  let ?f = "sys_thr s"
  have pos: "0 < num N (?f t) ?f" using num_here [OF assms(2)] .
  note c = num_upd [OF assms(2), of _ ?f]
  show ?thesis
  proof (cases "?f t = RParked")
    case True
    then have y: "y = RWoken" using assms(3) by simp
    have "0 < num N WParked ?f + num N WWoken ?f + num N Writing ?f"
      using assms(1) pos True by (auto simp: rw_inv_def Let_def)
    then show ?thesis using assms(1) y True by (simp add: rw_inv_def Let_def c)
  next
    case False
    then have y: "y = WWoken" "?f t = WParked" using assms(3) by simp_all
    then show ?thesis using assms(1) pos by (simp add: rw_inv_def Let_def c)
  qed
qed

lemma rw_inv_step:
  assumes "N < SZ" and "rw_inv N s" and "rw_step N s s'"
  shows "rw_inv N s'"
  using assms(3)
proof cases
  case (lock_read t)
  then show ?thesis using rw_inv_LockRead_wait [OF assms(1,2)] by (simp add: LockRead_def)
next
  case (retry_read t)
  then show ?thesis using rw_inv_LockRead_wait [OF assms(1,2)] by simp
next
  case (lock_write t)
  then show ?thesis using rw_inv_LockWrite [OF assms(1,2)] by simp
next
  case (retry_write t)
  then show ?thesis using rw_inv_LockWrite_wait [OF assms(2)] by simp
next
  case (unlock_read t w)
  then show ?thesis using rw_inv_UnLockRead [OF assms(1,2)] by simp
next
  case (unlock_write t w)
  then show ?thesis using rw_inv_UnLockWrite [OF assms(1,2)] by simp
next
  case (spurious_read t)
  then show ?thesis using rw_inv_spurious [OF assms(2)] by simp
next
  case (spurious_write t)
  then show ?thesis using rw_inv_spurious [OF assms(2)] by simp
qed

lemma rw_reach_inv: "rw_reach N s \<Longrightarrow> N < SZ \<Longrightarrow> rw_inv N s"
  by (induction rule: rw_reach.induct) (auto intro: rw_inv_init rw_inv_step)

lemma two_same_num:
  assumes "num N x f \<le> 1" and "t < N" "u < N" "f t = x" "f u = x"
  shows "t = u"
proof (rule ccontr)
  assume "t \<noteq> u"
  let ?y = "if x = Idle then Reading else Idle"
  have "num N x (f(t := ?y)) = 0"
    using num_upd [OF assms(2), of x f ?y] assms(1,4) by simp
  moreover have "0 < num N x (f(t := ?y))"
    unfolding num_pos using assms(3,5) \<open>t \<noteq> u\<close> by (intro exI [of _ u]) simp
  ultimately show False by simp
qed

text \<open>C7. Mutual exclusion of the reader-writer lock, for any number of threads, any interleaving of
  the critical sections and any pattern of notification and spurious wake-up: while a thread
  writes no other thread reads or writes, and the reader and writer counters are the numbers
  of threads that read, and that write or wait to.\<close>

theorem rw_exclusion:
  assumes "rw_reach N s" and "N < 2 ^ 64"
  shows "(\<forall>t < N. \<forall>u < N. sys_thr s t = Writing \<longrightarrow> u \<noteq> t \<longrightarrow>
      sys_thr s u \<noteq> Reading \<and> sys_thr s u \<noteq> Writing) \<and>
    rw_readCnt (sys_lock s) = num N Reading (sys_thr s) \<and>
    rw_writeCnt (sys_lock s) = num N WParked (sys_thr s) + num N WWoken (sys_thr s) + num N Writing (sys_thr s)"
proof -
  have inv: "rw_inv N s" using rw_reach_inv assms by simp
  have "sys_thr s u \<noteq> Reading \<and> sys_thr s u \<noteq> Writing"
    if a: "t < N" "u < N" "sys_thr s t = Writing" "u \<noteq> t" for t u
  proof -
    have one: "num N Writing (sys_thr s) \<le> 1" using inv by (simp add: rw_inv_def Let_def)
    then have "num N Writing (sys_thr s) = 1" using num_here [OF a(1), of "sys_thr s"] a(3) by simp
    then have "num N Reading (sys_thr s) = 0" using inv by (simp add: rw_inv_def Let_def)
    then have "sys_thr s u \<noteq> Reading" using num_here [OF a(2), of "sys_thr s"] by auto
    moreover have "sys_thr s u \<noteq> Writing"
      using two_same_num [OF one a(1,2,3)] a(4) by blast
    ultimately show ?thesis by blast
  qed
  moreover have "rw_readCnt (sys_lock s) = num N Reading (sys_thr s) \<and>
    rw_writeCnt (sys_lock s) = num N WParked (sys_thr s) + num N WWoken (sys_thr s) + num N Writing (sys_thr s)"
    using inv by (simp add: rw_inv_def Let_def)
  ultimately show ?thesis by blast
qed

theorem rw_exclusion_witness:
  "sys_thr (LockRead 1 (LockWrite 0 rw_init)) 0 = Writing \<and>
   sys_thr (LockRead 1 (LockWrite 0 rw_init)) 1 \<noteq> Reading"
proof -
  have w: "sys_thr (LockWrite 0 rw_init) 0 = Writing" "sys_thr (LockWrite 0 rw_init) 1 = Idle"
    by (simp_all add: LockWrite_def LockWrite_wait_def rw_init_def RwLock_new_def can_write_def)
  have "rw_reach 2 (LockWrite 0 rw_init)"
    by (rule rw_reach.step [OF rw_reach.start rw_step.lock_write]) (simp_all add: rw_init_def)
  then have "rw_reach 2 (LockRead 1 (LockWrite 0 rw_init))"
    by (rule rw_reach.step [OF _ rw_step.lock_read]) (simp_all add: w(2) [simplified])
  moreover have "sys_thr (LockRead 1 (LockWrite 0 rw_init)) 0 = Writing"
    using w by (simp add: LockRead_def LockRead_wait_def)
  ultimately show ?thesis
    using conjunct1 [OF rw_exclusion [of 2 "LockRead 1 (LockWrite 0 rw_init)"], rule_format, of 0 1] by simp
qed

text \<open>C8. The lock loses no wake-up: in every reachable state in which some thread holds the lock or
  waits for it, some thread can move on - a holder, which can unlock, or a waiter that has
  been woken and whose condition now holds. Parked threads are never all that is left.\<close>

theorem rw_no_lost_wakeup:
  assumes "rw_reach N s" and "N < 2 ^ 64" and "t < N" and "sys_thr s t \<noteq> Idle"
  shows "\<exists>u < N. sys_thr s u = Reading \<or> sys_thr s u = Writing \<or>
    sys_thr s u = RWoken \<and> can_read (sys_lock s) \<or> sys_thr s u = WWoken \<and> can_write (sys_lock s)"
proof (rule ccontr)
  assume no: "\<not> ?thesis"
  let ?c = "\<lambda>x. num N x (sys_thr s)"
  have inv: "rw_inv N s" using rw_reach_inv assms(1,2) by simp
  have "\<not> 0 < ?c Reading" "\<not> 0 < ?c Writing" unfolding num_pos using no by blast+
  then have rw: "?c Reading = 0" "?c Writing = 0" by simp_all
  then have cw: "can_write (sys_lock s)" using inv by (simp add: rw_inv_def can_write_def Let_def)
  then have "\<not> 0 < ?c WWoken" unfolding num_pos using no by blast
  then have "?c WWoken = 0" by simp
  moreover from this have "?c WParked = 0" using inv rw by (simp add: rw_inv_def Let_def)
  ultimately have cr: "can_read (sys_lock s)" "?c RParked = 0"
    using inv rw by (simp_all add: rw_inv_def can_read_def Let_def)
  then have "\<not> 0 < ?c RWoken" unfolding num_pos using no by blast
  then have "?c RWoken = 0" by simp
  then show False
    using num_here [OF assms(3), of "sys_thr s"] assms(4) rw cr(2) \<open>?c WWoken = 0\<close> \<open>?c WParked = 0\<close>
    by (cases "sys_thr s t") simp_all
qed

theorem rw_no_lost_wakeup_witness:
  "\<exists>u < 2. sys_thr (LockWrite 0 rw_init) u = Reading \<or> sys_thr (LockWrite 0 rw_init) u = Writing \<or>
    sys_thr (LockWrite 0 rw_init) u = RWoken \<and> can_read (sys_lock (LockWrite 0 rw_init)) \<or>
    sys_thr (LockWrite 0 rw_init) u = WWoken \<and> can_write (sys_lock (LockWrite 0 rw_init))"
proof (rule rw_no_lost_wakeup [of 2 _ 0])
  show "rw_reach 2 (LockWrite 0 rw_init)"
    by (rule rw_reach.step [OF rw_reach.start rw_step.lock_write]) (simp_all add: rw_init_def)
qed (simp_all add: LockWrite_def LockWrite_wait_def rw_init_def RwLock_new_def can_write_def)

end
