(* ===== verification/LendingPool.thy ===== *)
theory LendingPool
  imports AieBase
begin

text \<open>
  The contract the two pools of the platform layer share: \<open>Pop\<close> lends an object - one from the
  free list, or a new one - and \<open>Push\<close> takes one back. A holder that gives back only what it
  holds gets exclusive use of it. The locale is interpreted on the queue pool and on the
  thread pool.
\<close>

locale lending_pool =
  fixes take_one :: "'e \<Rightarrow> 'p \<Rightarrow> nat option \<times> 'p"
    and give_back :: "'g \<Rightarrow> nat \<Rightarrow> 'p \<Rightarrow> 'p option"
    and free :: "'p \<Rightarrow> nat list" and next_addr :: "'p \<Rightarrow> nat"
  assumes take_none: "take_one e p = (None, p') \<Longrightarrow> free p' = free p \<and> next_addr p' = next_addr p"
    and take_some: "take_one e p = (Some a, p') \<Longrightarrow>
      (free p = a # free p' \<and> next_addr p' = next_addr p) \<or>
      (a = next_addr p \<and> free p' = free p \<and> next_addr p' = Suc (next_addr p))"
    and give: "give_back g a p = Some p' \<Longrightarrow>
      (free p' = free p @ [a] \<or> free p' = free p) \<and> next_addr p' = next_addr p"
begin

text \<open>What is lent and what is free are disjoint, and both were allocated.\<close>

definition lend_inv :: "nat set \<Rightarrow> 'p \<Rightarrow> bool" where
  "lend_inv L p \<longleftrightarrow> distinct (free p) \<and> L \<inter> set (free p) = {} \<and>
     (\<forall>a \<in> L \<union> set (free p). a < next_addr p)"

lemma lend_inv_none: "lend_inv L p \<Longrightarrow> take_one e p = (None, p') \<Longrightarrow> lend_inv L p'"
  using take_none [of e p p'] by (simp add: lend_inv_def)

lemma lend_inv_some:
  assumes "lend_inv L p" and "take_one e p = (Some a, p')"
  shows "a \<notin> L \<and> lend_inv (insert a L) p'"
  using take_some [OF assms(2)] assms(1) by (auto simp: lend_inv_def less_Suc_eq)

lemma lend_inv_give:
  assumes "lend_inv L p" and "a \<in> L" and "give_back g a p = Some p'"
  shows "lend_inv (L - {a}) p'"
  using give [OF assms(3)] assms(1,2) by (auto simp: lend_inv_def)

lemma lend_inv_cong:
  "free p' = free p \<Longrightarrow> next_addr p' = next_addr p \<Longrightarrow> lend_inv L p' = lend_inv L p"
  by (simp add: lend_inv_def)

text \<open>
  Giving an object back twice breaks it: the object is in the free list twice, and the pool
  lends it to two holders.
\<close>

lemma give_twice:
  assumes "give_back g a p = Some p1" and "free p1 = free p @ [a]"
    and "give_back g a p1 = Some p2" and "free p2 = free p1 @ [a]"
  shows "\<not> lend_inv L p2"
  using assms by (simp add: lend_inv_def)

end

end
