(* ===== verification/QueuePool.thy ===== *)
theory QueuePool
  imports LendingPool
begin

text \<open>
  The message queues of services/common/platform/queuepool: the ring buffer \<open>Queue\<close>
  (queue.h, queue.inl) and the pool of shared queues \<open>QueuePool\<close> (queue_pool.h,
  queue_pool.inl). The interface of a bounded FIFO queue is the locale \<open>fifo_queue\<close>,
  interpreted on the ring buffer: every sequence of operations on it behaves as the
  abstract queue, also after the 64-bit positions have wrapped around, when the capacity divides
  \<open>2 ^ 64\<close>. The pool is a state with the heap of the queues it shares, so that the aliasing of two
  holders of the same queue can be stated; its operations are composed of their accesses to the
  pool, which \<open>PoolThreads\<close> interleaves.
\<close>

section \<open>The ring buffer\<close>

record 'a QueueNode =
  qn_empty :: bool
  qn_node :: "'a option"

text \<open>\<open>q_queue\<close> is \<open>None\<close> when the allocation of the nodes failed. The positions and counts are
  \<open>size_t\<close>: they wrap around at \<open>2 ^ 64\<close>.\<close>

record 'a Queue =
  q_pushPos :: nat
  q_popPos :: nat
  q_totalNum :: nat
  q_writeAbleCount :: nat
  q_readAbleCount :: nat
  q_queue :: "'a QueueNode list option"

definition Queue_new :: "bool \<Rightarrow> nat \<Rightarrow> 'a Queue" where
  "Queue_new alloc maxQueueSize =
     \<lparr>q_pushPos = 0, q_popPos = 0, q_totalNum = maxQueueSize, q_writeAbleCount = maxQueueSize,
      q_readAbleCount = 0,
      q_queue = (if alloc then Some (replicate maxQueueSize \<lparr>qn_empty = True, qn_node = None\<rparr>)
                 else None)\<rparr>"

definition Queue_IsEmpty :: "'a Queue \<Rightarrow> bool" where
  "Queue_IsEmpty q \<longleftrightarrow> q_readAbleCount q = 0"

definition Queue_IsFull :: "'a Queue \<Rightarrow> bool" where
  "Queue_IsFull q \<longleftrightarrow> q_totalNum q = q_readAbleCount q"

definition Queue_Count :: "'a Queue \<Rightarrow> nat" where
  "Queue_Count q = q_readAbleCount q"

text \<open>\<open>None\<close>: undefined behaviour (division by zero, null or outside the node array).\<close>

definition PushBack :: "'a \<Rightarrow> 'a Queue \<Rightarrow> (retcode \<times> 'a Queue) option" where
  "PushBack msgBlock q =
     (if q_writeAbleCount q = 0 then Some (RETCODE_QUEUE_FULL, q)
      else if q_totalNum q = 0 then None
      else case q_queue q of
        None \<Rightarrow> None
      | Some nodes \<Rightarrow>
          (let pushPos = q_pushPos q mod q_totalNum q in
           if length nodes \<le> pushPos then None
           else Some (RETCODE_SUCCESS,
             q\<lparr>q_writeAbleCount := sz_dec (q_writeAbleCount q),
               q_pushPos := sz_inc (q_pushPos q),
               q_queue := Some (nodes[pushPos := \<lparr>qn_empty = False, qn_node = Some msgBlock\<rparr>]),
               q_readAbleCount := sz_inc (q_readAbleCount q)\<rparr>)))"

text \<open>The middle component is the message assigned to the output argument, if any.\<close>

definition PopFront :: "'a Queue \<Rightarrow> (retcode \<times> 'a option \<times> 'a Queue) option" where
  "PopFront q =
     (if q_readAbleCount q = 0 then Some (RETCODE_QUEUE_EMPTY, None, q)
      else if q_totalNum q = 0 then None
      else case q_queue q of
        None \<Rightarrow> None
      | Some nodes \<Rightarrow>
          (let popPos = q_popPos q mod q_totalNum q in
           if length nodes \<le> popPos then None
           else if qn_empty (nodes ! popPos) then
             Some (RETCODE_QUEUE_NODE_INVALID, None,
               q\<lparr>q_readAbleCount := sz_inc (sz_dec (q_readAbleCount q))\<rparr>)
           else Some (RETCODE_SUCCESS, qn_node (nodes ! popPos),
             q\<lparr>q_readAbleCount := sz_dec (q_readAbleCount q),
               q_popPos := sz_inc (q_popPos q),
               q_queue := Some (nodes[popPos := (nodes ! popPos)\<lparr>qn_empty := True\<rparr>]),
               q_writeAbleCount := sz_inc (q_writeAbleCount q)\<rparr>)))"

definition Queue_Reset :: "'a Queue \<Rightarrow> 'a Queue option" where
  "Queue_Reset q =
     (case q_queue q of
        None \<Rightarrow> if q_totalNum q = 0 then
            Some (q\<lparr>q_pushPos := 0, q_popPos := 0, q_writeAbleCount := 0, q_readAbleCount := 0\<rparr>)
          else None
      | Some nodes \<Rightarrow>
          if length nodes < q_totalNum q then None
          else Some (q\<lparr>q_pushPos := 0, q_popPos := 0, q_writeAbleCount := q_totalNum q,
                 q_readAbleCount := 0,
                 q_queue := Some (map (\<lambda>n. n\<lparr>qn_empty := True\<rparr>) (take (q_totalNum q) nodes)
                                  @ drop (q_totalNum q) nodes)\<rparr>))"

section \<open>The interface of a bounded FIFO queue\<close>

datatype 'a qop = QPush 'a | QPop

text \<open>What an operation answers: its return code and the message it delivered.\<close>

type_synonym 'a qout = "retcode \<times> 'a option"

fun run_ops ::
  "('a \<Rightarrow> 'q \<Rightarrow> (retcode \<times> 'q) option) \<Rightarrow> ('q \<Rightarrow> (retcode \<times> 'a option \<times> 'q) option) \<Rightarrow>
   'a qop list \<Rightarrow> 'q \<Rightarrow> ('a qout list \<times> 'q) option" where
  "run_ops push pop [] q = Some ([], q)"
| "run_ops push pop (QPush x # ops) q =
     (case push x q of
        None \<Rightarrow> None
      | Some (r, q') \<Rightarrow> map_option (\<lambda>(os, q''). ((r, None) # os, q'')) (run_ops push pop ops q'))"
| "run_ops push pop (QPop # ops) q =
     (case pop q of
        None \<Rightarrow> None
      | Some (r, m, q') \<Rightarrow> map_option (\<lambda>(os, q''). ((r, m) # os, q'')) (run_ops push pop ops q'))"

text \<open>The abstract queue: a list of at most \<open>n\<close> messages.\<close>

fun fifo_ops :: "nat \<Rightarrow> 'a qop list \<Rightarrow> 'a list \<Rightarrow> 'a qout list \<times> 'a list" where
  "fifo_ops n [] xs = ([], xs)"
| "fifo_ops n (QPush x # ops) xs =
     (if length xs < n
      then (let (os, ys) = fifo_ops n ops (xs @ [x]) in ((RETCODE_SUCCESS, None) # os, ys))
      else (let (os, ys) = fifo_ops n ops xs in ((RETCODE_QUEUE_FULL, None) # os, ys)))"
| "fifo_ops n (QPop # ops) [] =
     (let (os, ys) = fifo_ops n ops [] in ((RETCODE_QUEUE_EMPTY, None) # os, ys))"
| "fifo_ops n (QPop # ops) (x # xs) =
     (let (os, ys) = fifo_ops n ops xs in ((RETCODE_SUCCESS, Some x) # os, ys))"

text \<open>The messages accepted and the messages delivered in a run.\<close>

fun accepted :: "'a qop list \<Rightarrow> 'a qout list \<Rightarrow> 'a list" where
  "accepted (QPush x # ops) ((r, m) # os) = (if r = RETCODE_SUCCESS then [x] else []) @ accepted ops os"
| "accepted (QPop # ops) (o1 # os) = accepted ops os"
| "accepted _ _ = []"

definition delivered :: "'a qout list \<Rightarrow> 'a list" where
  "delivered os = List.map_filter snd os"

lemma delivered_simps [simp]:
  "delivered [] = []"
  "delivered ((r, None) # os) = delivered os"
  "delivered ((r, Some x) # os) = x # delivered os"
  by (simp_all add: delivered_def map_filter_simps)

lemma fifo_ops_order:
  "fifo_ops n ops xs = (os, ys) \<Longrightarrow> xs @ accepted ops os = delivered os @ ys"
  by (induction n ops xs arbitrary: os ys rule: fifo_ops.induct)
    (auto split: prod.splits if_splits)

lemma fifo_ops_bound:
  "fifo_ops n ops xs = (os, ys) \<Longrightarrow> length xs \<le> n \<Longrightarrow> length ys \<le> n"
  by (induction n ops xs arbitrary: os ys rule: fifo_ops.induct)
    (auto split: prod.splits if_splits)

locale fifo_queue =
  fixes push :: "'a \<Rightarrow> 'q \<Rightarrow> (retcode \<times> 'q) option"
    and pop :: "'q \<Rightarrow> (retcode \<times> 'a option \<times> 'q) option"
    and inv :: "'q \<Rightarrow> bool" and abs :: "'q \<Rightarrow> 'a list" and cap :: "'q \<Rightarrow> nat"
  assumes push_room: "inv q \<Longrightarrow> length (abs q) < cap q \<Longrightarrow>
      \<exists>q'. push x q = Some (RETCODE_SUCCESS, q') \<and> inv q' \<and> abs q' = abs q @ [x] \<and> cap q' = cap q"
    and push_full: "inv q \<Longrightarrow> length (abs q) = cap q \<Longrightarrow> push x q = Some (RETCODE_QUEUE_FULL, q)"
    and pop_some: "inv q \<Longrightarrow> abs q = x # xs \<Longrightarrow>
      \<exists>q'. pop q = Some (RETCODE_SUCCESS, Some x, q') \<and> inv q' \<and> abs q' = xs \<and> cap q' = cap q"
    and pop_empty: "inv q \<Longrightarrow> abs q = [] \<Longrightarrow> pop q = Some (RETCODE_QUEUE_EMPTY, None, q)"
    and bounded: "inv q \<Longrightarrow> length (abs q) \<le> cap q"
begin

text \<open>Every run of operations is a run of the abstract queue.\<close>

lemma run_refines:
  "inv q \<Longrightarrow> \<exists>os q'. run_ops push pop ops q = Some (os, q') \<and> inv q' \<and> cap q' = cap q \<and>
     fifo_ops (cap q) ops (abs q) = (os, abs q')"
proof (induction ops arbitrary: q)
  case Nil
  then show ?case by simp
next
  case (Cons a ops)
  show ?case
  proof (cases a)
    case (QPush x)
    show ?thesis
    proof (cases "length (abs q) < cap q")
      case True
      then obtain q1 where q1: "push x q = Some (RETCODE_SUCCESS, q1)" "inv q1" "abs q1 = abs q @ [x]"
          "cap q1 = cap q"
        using push_room Cons.prems by blast
      then show ?thesis using Cons.IH [OF q1(2)] QPush True by auto
    next
      case False
      then have "push x q = Some (RETCODE_QUEUE_FULL, q)"
        using push_full bounded Cons.prems by (metis le_neq_implies_less)
      then show ?thesis using Cons.IH [OF Cons.prems] QPush False by auto
    qed
  next
    case QPop
    show ?thesis
    proof (cases "abs q")
      case Nil
      then show ?thesis using pop_empty [OF Cons.prems] Cons.IH [OF Cons.prems] QPop by auto
    next
      case (Cons x xs)
      then obtain q1 where q1: "pop q = Some (RETCODE_SUCCESS, Some x, q1)" "inv q1" "abs q1 = xs"
          "cap q1 = cap q"
        using pop_some Cons.prems by blast
      then show ?thesis using Cons.IH [OF q1(2)] QPop Cons by auto
    qed
  qed
qed

text \<open>Nothing is lost, invented, duplicated or reordered, and the bound is kept.\<close>

lemma run_fifo:
  assumes "inv q" and "run_ops push pop ops q = Some (os, q')"
  shows "abs q @ accepted ops os = delivered os @ abs q' \<and> length (abs q') \<le> cap q"
  using run_refines [OF assms(1), of ops] assms(2) fifo_ops_order bounded by fastforce

end

section \<open>The ring buffer is a bounded FIFO queue\<close>

text \<open>
  The readable slots are the \<open>readAbleCount\<close> ones from \<open>popPos\<close> on. The capacity divides
  \<open>2 ^ 64\<close> (the engine manager asks for 64, the default is 1024), so the slot of a position does not change when the position
  wraps around.
\<close>

definition slot :: "'a Queue \<Rightarrow> nat \<Rightarrow> nat" where
  "slot q i = (q_popPos q + i) mod q_totalNum q"

definition ring_inv :: "'a Queue \<Rightarrow> bool" where
  "ring_inv q \<longleftrightarrow> q_totalNum q dvd SZ \<and> q_totalNum q < SZ \<and>
     q_readAbleCount q \<le> q_totalNum q \<and>
     q_writeAbleCount q = q_totalNum q - q_readAbleCount q \<and>
     q_pushPos q = (q_popPos q + q_readAbleCount q) mod SZ \<and>
     (case q_queue q of None \<Rightarrow> False
      | Some nodes \<Rightarrow> length nodes = q_totalNum q \<and>
          (\<forall>i < q_totalNum q. qn_empty (nodes ! slot q i) \<longleftrightarrow> q_readAbleCount q \<le> i) \<and>
          (\<forall>i < q_readAbleCount q. qn_node (nodes ! slot q i) \<noteq> None))"

definition ring_abs :: "'a Queue \<Rightarrow> 'a list" where
  "ring_abs q = (case q_queue q of None \<Rightarrow> []
     | Some nodes \<Rightarrow> map (\<lambda>i. the (qn_node (nodes ! slot q i))) [0..<q_readAbleCount q])"

lemma length_ring_abs: "ring_inv q \<Longrightarrow> length (ring_abs q) = q_readAbleCount q"
  by (auto simp: ring_inv_def ring_abs_def split: option.splits)

lemma slot_inj_le:
  assumes "(p + i) mod n = (p + j) mod n" and "i \<le> j" and "j < n"
  shows "i = (j::nat)"
proof -
  have "n dvd (p + j) - (p + i)"
    using assms(1,2) mod_eq_dvd_iff_nat [of "p + i" "p + j" n] by simp
  then have "n dvd j - i" by simp
  then show ?thesis using assms(2,3) by (auto dest: dvd_imp_le)
qed

lemma slot_inj:
  "slot q i = slot q j \<Longrightarrow> i < q_totalNum q \<Longrightarrow> j < q_totalNum q \<Longrightarrow> i = j"
  unfolding slot_def by (cases "i \<le> j") (metis slot_inj_le nat_le_linear)+

lemma ring_invE:
  assumes "ring_inv q"
  obtains nodes where "q_queue q = Some nodes" "length nodes = q_totalNum q"
    "\<And>i. i < q_totalNum q \<Longrightarrow> qn_empty (nodes ! slot q i) \<longleftrightarrow> q_readAbleCount q \<le> i"
    "\<And>i. i < q_readAbleCount q \<Longrightarrow> \<exists>x. qn_node (nodes ! slot q i) = Some x"
    "q_totalNum q dvd SZ" "0 < q_totalNum q" "q_totalNum q < SZ" "q_readAbleCount q \<le> q_totalNum q"
    "q_writeAbleCount q = q_totalNum q - q_readAbleCount q"
    "q_pushPos q = (q_popPos q + q_readAbleCount q) mod SZ"
proof -
  have "0 < q_totalNum q"
    using assms by (auto simp: ring_inv_def intro: gr0I)
  then show thesis using that assms by (auto simp: ring_inv_def split: option.splits)
qed

lemma push_slot: "ring_inv q \<Longrightarrow> q_pushPos q mod q_totalNum q = slot q (q_readAbleCount q)"
  by (auto simp: ring_inv_def slot_def mod_mod_cancel)

lemma slot_less: "0 < q_totalNum q \<Longrightarrow> slot q i < q_totalNum q"
  by (simp add: slot_def)

lemma PushBack_ring:
  assumes inv: "ring_inv q" and room: "q_readAbleCount q < q_totalNum q"
  shows "\<exists>q'. PushBack x q = Some (RETCODE_SUCCESS, q') \<and> ring_inv q' \<and>
    ring_abs q' = ring_abs q @ [x] \<and> q_totalNum q' = q_totalNum q"
proof (rule ring_invE [OF inv])
  fix nodes
  assume q: "q_queue q = Some nodes" "length nodes = q_totalNum q"
    "\<And>i. i < q_totalNum q \<Longrightarrow> qn_empty (nodes ! slot q i) \<longleftrightarrow> q_readAbleCount q \<le> i"
    "\<And>i. i < q_readAbleCount q \<Longrightarrow> \<exists>x. qn_node (nodes ! slot q i) = Some x"
    "q_totalNum q dvd SZ" "0 < q_totalNum q" "q_totalNum q < SZ" "q_readAbleCount q \<le> q_totalNum q"
    "q_writeAbleCount q = q_totalNum q - q_readAbleCount q"
    "q_pushPos q = (q_popPos q + q_readAbleCount q) mod SZ"
  let ?r = "q_readAbleCount q"
  define nodes' where "nodes' = nodes[slot q ?r := \<lparr>qn_empty = False, qn_node = Some x\<rparr>]"
  define q' where "q' = q\<lparr>q_writeAbleCount := q_totalNum q - Suc ?r, q_pushPos := sz_inc (q_pushPos q),
    q_queue := Some nodes', q_readAbleCount := Suc ?r\<rparr>"
  have res: "PushBack x q = Some (RETCODE_SUCCESS, q')"
    using q room slot_less [of q ?r] push_slot [OF inv]
    by (simp add: PushBack_def q'_def nodes'_def Let_def sz_counts)
  have sl: "slot q' i = slot q i" for i by (simp add: slot_def q'_def)
  have nth: "nodes' ! slot q i = (if i = ?r then \<lparr>qn_empty = False, qn_node = Some x\<rparr> else nodes ! slot q i)"
    if "i < q_totalNum q" for i
    using that slot_inj [of q ?r i] room q(2) slot_less [OF q(6), of ?r]
    by (auto simp: nodes'_def nth_list_update)
  have "sz_inc (q_pushPos q) = (q_popPos q + Suc ?r) mod SZ"
    using q(10) by (simp add: sz_inc_def mod_Suc_eq)
  then have "ring_inv q'"
    using q room nth unfolding ring_inv_def sl by (auto simp: q'_def nodes'_def less_Suc_eq)
  moreover have "ring_abs q' = ring_abs q @ [x]"
  proof -
    have "map (\<lambda>i. the (qn_node (nodes' ! slot q i))) [0..<?r] = map (\<lambda>i. the (qn_node (nodes ! slot q i))) [0..<?r]"
      using nth room by simp
    then show ?thesis
      using q(1) nth [of ?r] room unfolding ring_abs_def sl by (simp add: q'_def)
  qed
  ultimately show ?thesis using res by (auto simp: q'_def)
qed

lemma PopFront_ring:
  assumes inv: "ring_inv q" and ne: "0 < q_readAbleCount q"
  shows "\<exists>x q'. PopFront q = Some (RETCODE_SUCCESS, Some x, q') \<and> ring_inv q' \<and>
    ring_abs q = x # ring_abs q' \<and> q_totalNum q' = q_totalNum q"
proof (rule ring_invE [OF inv])
  fix nodes
  assume q: "q_queue q = Some nodes" "length nodes = q_totalNum q"
    "\<And>i. i < q_totalNum q \<Longrightarrow> qn_empty (nodes ! slot q i) \<longleftrightarrow> q_readAbleCount q \<le> i"
    "\<And>i. i < q_readAbleCount q \<Longrightarrow> \<exists>x. qn_node (nodes ! slot q i) = Some x"
    "q_totalNum q dvd SZ" "0 < q_totalNum q" "q_totalNum q < SZ" "q_readAbleCount q \<le> q_totalNum q"
    "q_writeAbleCount q = q_totalNum q - q_readAbleCount q"
    "q_pushPos q = (q_popPos q + q_readAbleCount q) mod SZ"
  let ?r = "q_readAbleCount q" and ?n = "q_totalNum q"
  obtain x where x: "qn_node (nodes ! slot q 0) = Some x" using q(4) ne by blast
  define nodes' where "nodes' = nodes[slot q 0 := (nodes ! slot q 0)\<lparr>qn_empty := True\<rparr>]"
  define q' where "q' = q\<lparr>q_readAbleCount := ?r - 1, q_popPos := sz_inc (q_popPos q),
    q_queue := Some nodes', q_writeAbleCount := ?n - (?r - 1)\<rparr>"
  have p0: "q_popPos q mod ?n = slot q 0" by (simp add: slot_def)
  have "sz_inc (?n - ?r) = ?n - (?r - 1)"
    using q(7,8) ne by (subst sz_counts) auto
  then have res: "PopFront q = Some (RETCODE_SUCCESS, Some x, q')"
    using q x ne slot_less [OF q(6), of 0] p0
    by (simp add: PopFront_def q'_def nodes'_def Let_def sz_counts)
  have sl: "slot q' i = slot q (Suc i)" for i
  proof -
    have "sz_inc (q_popPos q) mod ?n = (q_popPos q + 1) mod ?n"
      using q(5) by (simp add: sz_inc_def mod_mod_cancel)
    then show ?thesis
      unfolding slot_def q'_def by simp (metis add_Suc_right add_Suc mod_add_left_eq)
  qed
  have wrap: "slot q ?n = slot q 0" by (simp add: slot_def)
  have nth: "nodes' ! slot q i = (if i = 0 then (nodes ! slot q 0)\<lparr>qn_empty := True\<rparr> else nodes ! slot q i)"
    if "i < ?n" for i
    using that slot_inj [of q 0 i] q(2,6) slot_less [OF q(6), of 0]
    by (auto simp: nodes'_def nth_list_update)
  have e: "qn_empty (nodes' ! slot q (Suc i)) \<longleftrightarrow> ?r - 1 \<le> i" if "i < ?n" for i
  proof (cases "Suc i = ?n")
    case True
    then show ?thesis using wrap nth [of 0] q(6,8) by auto
  next
    case False
    then show ?thesis using that nth [of "Suc i"] q(3) [of "Suc i"] by auto
  qed
  have pos: "q_pushPos q = (sz_inc (q_popPos q) + (?r - 1)) mod SZ"
  proof -
    have "(sz_inc (q_popPos q) + (?r - 1)) mod SZ = (q_popPos q + 1 + (?r - 1)) mod SZ"
      unfolding sz_inc_def by (rule mod_add_left_eq)
    then show ?thesis using q(10) ne by simp
  qed
  have v: "\<exists>y. qn_node (nodes' ! slot q (Suc i)) = Some y" if "i < ?r - 1" for i
    using that nth [of "Suc i"] q(4,8) by auto
  have "ring_inv q'"
    using q ne e v pos unfolding ring_inv_def sl by (auto simp: q'_def nodes'_def)
  moreover have "ring_abs q = x # ring_abs q'"
  proof -
    have "map (\<lambda>i. the (qn_node (nodes' ! slot q (Suc i)))) [0..<?r - 1] =
        map (\<lambda>i. the (qn_node (nodes ! slot q (Suc i)))) [0..<?r - 1]"
      using nth q(8) by auto
    moreover have "[0..<?r] = 0 # map Suc [0..<?r - 1]"
      using ne by (simp add: upt_conv_Cons map_Suc_upt)
    ultimately show ?thesis
      using q(1) x unfolding ring_abs_def sl by (simp add: q'_def)
  qed
  ultimately show ?thesis using res by (auto simp: q'_def)
qed

interpretation ring: fifo_queue PushBack PopFront ring_inv ring_abs q_totalNum
proof unfold_locales
  fix q :: "'a Queue" and x
  assume "ring_inv q" "length (ring_abs q) < q_totalNum q"
  then show "\<exists>q'. PushBack x q = Some (RETCODE_SUCCESS, q') \<and> ring_inv q' \<and>
      ring_abs q' = ring_abs q @ [x] \<and> q_totalNum q' = q_totalNum q"
    using PushBack_ring length_ring_abs by metis
next
  fix q :: "'a Queue" and x
  assume "ring_inv q" "length (ring_abs q) = q_totalNum q"
  then show "PushBack x q = Some (RETCODE_QUEUE_FULL, q)"
    using length_ring_abs [of q] by (auto simp: PushBack_def ring_inv_def)
next
  fix q :: "'a Queue" and x xs
  assume a: "ring_inv q" "ring_abs q = x # xs"
  then show "\<exists>q'. PopFront q = Some (RETCODE_SUCCESS, Some x, q') \<and> ring_inv q' \<and>
      ring_abs q' = xs \<and> q_totalNum q' = q_totalNum q"
    using PopFront_ring [OF a(1)] length_ring_abs [OF a(1)] by auto
next
  fix q :: "'a Queue"
  assume "ring_inv q" "ring_abs q = []"
  then show "PopFront q = Some (RETCODE_QUEUE_EMPTY, None, q)"
    using length_ring_abs [of q] by (auto simp: PopFront_def)
next
  fix q :: "'a Queue"
  assume "ring_inv q"
  then show "length (ring_abs q) \<le> q_totalNum q"
    using length_ring_abs [of q] by (simp add: ring_inv_def)
qed

lemma Queue_new_ring:
  "n dvd SZ \<Longrightarrow> n < SZ \<Longrightarrow> ring_inv (Queue_new True n :: 'a Queue) \<and> ring_abs (Queue_new True n :: 'a Queue) = []"
  by (cases "n = 0") (auto simp: ring_inv_def ring_abs_def Queue_new_def slot_def)

text \<open>C4. The ring buffer is a bounded FIFO queue: from any state that satisfies the ring invariant -
  which asks for a capacity that divides \<open>2 ^ 64\<close>, as the program's 64 does, and holds of a new
  queue of such a capacity as well as of one whose positions are about to wrap around - every
  sequence of \<open>PushBack\<close> and \<open>PopFront\<close> runs without undefined behaviour and returns the codes and
  messages of the abstract queue of that capacity; what it delivers followed by what is left is
  what was there followed by what was accepted. A full queue answers \<open>RETCODE_QUEUE_FULL\<close>, an empty
  one \<open>RETCODE_QUEUE_EMPTY\<close>: these are 1500 and 1501, where the comments of queue.h say 1011 and
  1012.\<close>

theorem queue_refines_fifo:
  assumes "ring_inv q"
  shows "\<exists>os q'. run_ops PushBack PopFront ops q = Some (os, q') \<and> ring_inv q' \<and>
    fifo_ops (q_totalNum q) ops (ring_abs q) = (os, ring_abs q') \<and>
    ring_abs q @ accepted ops os = delivered os @ ring_abs q' \<and>
    length (ring_abs q') \<le> q_totalNum q"
  using ring.run_refines [OF assms, of ops] ring.run_fifo [OF assms] by blast

theorem queue_refines_fifo_witness:
  "\<exists>os q'. run_ops PushBack PopFront [QPush (1::int), QPush 2, QPush 3, QPop, QPop]
       ((Queue_new True 2)\<lparr>q_pushPos := 2 ^ 64 - 1, q_popPos := 2 ^ 64 - 1\<rparr>) = Some (os, q') \<and>
     delivered os @ ring_abs q' = accepted [QPush (1::int), QPush 2, QPush 3, QPop, QPop] os"
proof -
  let ?q = "(Queue_new True 2)\<lparr>q_pushPos := 2 ^ 64 - 1, q_popPos := 2 ^ 64 - 1\<rparr> :: int Queue"
  have "ring_inv ?q" "ring_abs ?q = []"
    by (auto simp: ring_inv_def ring_abs_def Queue_new_def slot_def less_2_cases_iff)
  then show ?thesis
    using queue_refines_fifo [of ?q "[QPush (1::int), QPush 2, QPush 3, QPop, QPop]"] by auto
qed

lemma Queue_Reset_ring:
  assumes "ring_inv q"
  shows "\<exists>q'. Queue_Reset q = Some q' \<and> ring_inv q' \<and> ring_abs q' = [] \<and> q_totalNum q' = q_totalNum q"
proof (rule ring_invE [OF assms])
  fix nodes
  assume q: "q_queue q = Some nodes" "length nodes = q_totalNum q" "q_totalNum q dvd SZ"
    "0 < q_totalNum q" "q_totalNum q < SZ"
  define q' where "q' = q\<lparr>q_pushPos := 0, q_popPos := 0, q_writeAbleCount := q_totalNum q,
    q_readAbleCount := 0, q_queue := Some (map (\<lambda>n. n\<lparr>qn_empty := True\<rparr>) nodes)\<rparr>"
  have "Queue_Reset q = Some q'"
    using q by (simp add: Queue_Reset_def q'_def)
  moreover have "ring_inv q' \<and> ring_abs q' = []"
    using q by (simp add: ring_inv_def ring_abs_def q'_def slot_def)
  ultimately show ?thesis by (auto simp: q'_def)
qed

lemma Queue_new_total [simp]: "q_totalNum (Queue_new b n) = n"
  by (simp add: Queue_new_def)

section \<open>The pool\<close>

abbreviation MAX_QUEUE_LENGTH :: nat where "MAX_QUEUE_LENGTH \<equiv> 1024"
abbreviation MAX_QUEUE_COUNT :: nat where "MAX_QUEUE_COUNT \<equiv> 10"

text \<open>
  Queues are shared pointers: the pool holds addresses, \<open>qp_heap\<close> the objects, \<open>qp_next\<close> the
  next fresh address.
\<close>

record 'a QueuePool =
  qp_queues :: "nat list"
  qp_busyQueueNum :: nat
  qp_singleQueueCapacity :: nat
  qp_heap :: "nat \<Rightarrow> 'a Queue option"
  qp_next :: nat

definition QueuePool_new :: "nat \<Rightarrow> 'a QueuePool" where
  "QueuePool_new cap0 = \<lparr>qp_queues = [], qp_busyQueueNum = 0, qp_singleQueueCapacity = cap0,
     qp_heap = (\<lambda>_. None), qp_next = 0\<rparr>"

definition QueuePool_GetInstance :: "bool \<Rightarrow> nat \<Rightarrow> 'a QueuePool option \<Rightarrow> 'a QueuePool option" where
  "QueuePool_GetInstance alloc singleQueueCapacity instance0 =
     (case instance0 of
        Some p \<Rightarrow> Some p
      | None \<Rightarrow> if alloc then Some (QueuePool_new singleQueueCapacity) else None)"

definition QueuePool_ReleaseInstance :: "'a QueuePool option \<Rightarrow> 'a QueuePool option" where
  "QueuePool_ReleaseInstance instance0 = None"

text \<open>
  \<open>Pop\<close> by its accesses to the pool: the test of the count and its increment are two of them, the
  list is looked at without the mutex, and only taking the first queue is under it. \<open>alloc\<close> and
  \<open>nodes\<close>: whether the allocation of a new queue and of its nodes succeeds - the constructor does
  not tell when the nodes are missing. \<open>None\<close> in \<open>Pop_take\<close>: \<open>front\<close> of an empty list.
\<close>

definition Pop_busy :: "'a QueuePool \<Rightarrow> bool" where "Pop_busy p \<longleftrightarrow> qp_busyQueueNum p \<ge> MAX_QUEUE_COUNT"

definition Pop_count :: "'a QueuePool \<Rightarrow> 'a QueuePool" where
  "Pop_count p = p\<lparr>qp_busyQueueNum := sz_inc (qp_busyQueueNum p)\<rparr>"

definition Pop_empty :: "'a QueuePool \<Rightarrow> bool" where "Pop_empty p \<longleftrightarrow> qp_queues p = []"

definition Pop_make :: "bool \<Rightarrow> bool \<Rightarrow> 'a QueuePool \<Rightarrow> nat option \<times> 'a QueuePool" where
  "Pop_make alloc nodes p =
     (if \<not> alloc then (None, p)
      else (Some (qp_next p),
        p\<lparr>qp_heap := (qp_heap p)(qp_next p \<mapsto> Queue_new nodes (qp_singleQueueCapacity p)), qp_next := Suc (qp_next p)\<rparr>))"

definition Pop_take :: "'a QueuePool \<Rightarrow> (nat \<times> 'a QueuePool) option" where
  "Pop_take p = (case qp_queues p of [] \<Rightarrow> None | a # as \<Rightarrow> Some (a, p\<lparr>qp_queues := as\<rparr>))"

text \<open>A call without interference; the list that was not empty is not empty then.\<close>

definition QueuePool_Pop :: "bool \<Rightarrow> bool \<Rightarrow> 'a QueuePool \<Rightarrow> nat option \<times> 'a QueuePool" where
  "QueuePool_Pop alloc nodes p =
     (if Pop_busy p then (None, p)
      else (let p1 = Pop_count p in
            if Pop_empty p1 then Pop_make alloc nodes p1
            else (case Pop_take p1 of None \<Rightarrow> (None, p1) | Some (a, p2) \<Rightarrow> (Some a, p2))))"

text \<open>
  \<open>Push\<close> likewise: the test of the count, its decrement, and giving the queue back under the mutex.
  \<open>None\<close>: a null or dangling queue, or one without nodes.
\<close>

definition Push_idle :: "'a QueuePool \<Rightarrow> bool" where "Push_idle p \<longleftrightarrow> qp_busyQueueNum p \<le> 0"

definition Push_count :: "'a QueuePool \<Rightarrow> 'a QueuePool" where
  "Push_count p = p\<lparr>qp_busyQueueNum := sz_dec (qp_busyQueueNum p)\<rparr>"

definition Push_give :: "nat option \<Rightarrow> 'a QueuePool \<Rightarrow> 'a QueuePool option" where
  "Push_give queue p =
     (case queue of
        None \<Rightarrow> None
      | Some a \<Rightarrow>
          (case qp_heap p a of
             None \<Rightarrow> None
           | Some q \<Rightarrow>
               (case Queue_Reset q of
                  None \<Rightarrow> None
                | Some q' \<Rightarrow> Some (p\<lparr>qp_heap := (qp_heap p)(a \<mapsto> q'), qp_queues := qp_queues p @ [a]\<rparr>))))"

definition QueuePool_Push :: "nat option \<Rightarrow> 'a QueuePool \<Rightarrow> 'a QueuePool option" where
  "QueuePool_Push queue p = (if Push_idle p then Some p else Push_give queue (Push_count p))"

definition QueuePool_BusyQueueNum :: "'a QueuePool \<Rightarrow> nat" where
  "QueuePool_BusyQueueNum p = qp_busyQueueNum p"

lemmas QueuePool_Pop_steps = QueuePool_Pop_def Pop_busy_def Pop_count_def Pop_empty_def Pop_make_def Pop_take_def
lemmas QueuePool_Push_steps = QueuePool_Push_def Push_idle_def Push_count_def Push_give_def

definition good_queue :: "nat \<Rightarrow> 'a Queue option \<Rightarrow> bool" where
  "good_queue n q0 \<longleftrightarrow> (\<exists>q. q0 = Some q \<and> ring_inv q \<and> q_totalNum q = n)"

text \<open>
  Two failures of allocation: a \<open>Pop\<close> that gets no queue has been counted, and nothing will take
  it back; and a queue without nodes is handed out, to be written through a null pointer.
\<close>

lemma failed_Pop_counted:
  assumes "qp_queues p = []" and "qp_busyQueueNum p < MAX_QUEUE_COUNT"
  shows "\<exists>p'. QueuePool_Pop False nodes p = (None, p') \<and> QueuePool_BusyQueueNum p' = Suc (QueuePool_BusyQueueNum p)"
  using assms by (simp add: QueuePool_Pop_steps QueuePool_BusyQueueNum_def sz_counts)

lemma queue_without_nodes:
  assumes "qp_queues p = []" and "qp_busyQueueNum p < MAX_QUEUE_COUNT" and "0 < qp_singleQueueCapacity p"
  shows "\<exists>a p' q. QueuePool_Pop True False p = (Some a, p') \<and> qp_heap p' a = Some q \<and> PushBack x q = None \<and>
    QueuePool_Push (Some a) p' = None"
  using assms by (simp add: QueuePool_Pop_steps QueuePool_Push_steps sz_counts Queue_new_def PushBack_def Queue_Reset_def)

end
