(* ===== verification/Threads.thy ===== *)
theory Threads
  imports LendingPool
begin

text \<open>
  Worker threads and their pool (services/common/platform/threadpool: thread.cpp,
  thread_pool.cpp, aie_thread_unix.cpp). A thread object and a worker object are records in
  stores; a POSIX thread is its handle, 0 when there is none. What the operating system
  answers (creation, liveness, the end of the thread's body, time) is an argument.
\<close>

section \<open>Threads and workers\<close>

datatype WorkerStatus = IDLE | BUSY
datatype ThreadStatus = PREPARED | RUNNING | STOPPED

abbreviation THREAD_MIN_STACK_SIZE :: nat where "THREAD_MIN_STACK_SIZE \<equiv> 1024 * 64"
abbreviation THREAD_MAX_STACK_SIZE :: nat where "THREAD_MAX_STACK_SIZE \<equiv> 1024 * 1024 * 64"
abbreviation (input) THREAD_DEFAULT_STACK_SIZE :: nat where "THREAD_DEFAULT_STACK_SIZE \<equiv> 0"

text \<open>The virtual methods of the worker are parameters of the operations that call them.\<close>

record IWorker =
  wk_counter :: int
  wk_thread :: "nat option"
  wk_status :: WorkerStatus
  wk_stackSize :: nat

definition IWorker_new :: IWorker where
  "IWorker_new = \<lparr>wk_counter = 0, wk_thread = None, wk_status = IDLE,
     wk_stackSize = THREAD_DEFAULT_STACK_SIZE\<rparr>"

record Thread =
  th_running :: bool
  th_status :: ThreadStatus
  th_stackSize :: nat
  th_handle :: nat
  th_worker :: "nat option"

definition Thread_new :: Thread where
  "Thread_new = \<lparr>th_running = False, th_status = STOPPED, th_stackSize = THREAD_DEFAULT_STACK_SIZE,
     th_handle = 0, th_worker = None\<rparr>"

definition Thread_SetStackSize :: "nat \<Rightarrow> Thread \<Rightarrow> Thread" where
  "Thread_SetStackSize size0 t = t\<lparr>th_stackSize := size0\<rparr>"

definition GetThreadId :: "Thread \<Rightarrow> nat" where
  "GetThreadId t = th_handle t"

text \<open>\<open>alive h\<close>: \<open>pthread_kill (h, 0)\<close> does not answer \<open>ESRCH\<close>.\<close>

definition IsActive :: "(nat \<Rightarrow> bool) \<Rightarrow> Thread \<Rightarrow> bool" where
  "IsActive alive t \<longleftrightarrow> th_status t = RUNNING \<and> alive (GetThreadId t)"

definition WaitThread :: "Thread \<Rightarrow> Thread" where
  "WaitThread t = (if th_handle t = 0 then t else t\<lparr>th_handle := 0\<rparr>)"

record tsys =
  ts_threads :: "nat \<Rightarrow> Thread option"
  ts_workers :: "nat \<Rightarrow> IWorker option"

definition upd_thread :: "nat \<Rightarrow> (Thread \<Rightarrow> Thread) \<Rightarrow> tsys \<Rightarrow> tsys" where
  "upd_thread a f s = s\<lparr>ts_threads := (ts_threads s)(a := map_option f (ts_threads s a))\<rparr>"

definition upd_worker :: "nat \<Rightarrow> (IWorker \<Rightarrow> IWorker) \<Rightarrow> tsys \<Rightarrow> tsys" where
  "upd_worker w f s = s\<lparr>ts_workers := (ts_workers s)(w := map_option f (ts_workers s w))\<rparr>"

definition SetThread :: "nat option \<Rightarrow> nat \<Rightarrow> tsys \<Rightarrow> tsys" where
  "SetThread t w s = upd_worker w (\<lambda>x. x\<lparr>wk_thread := t\<rparr>) s"

text \<open>\<open>None\<close>: a null or dangling pointer is used.\<close>

definition IWorker_GetThreadId :: "nat \<Rightarrow> tsys \<Rightarrow> int option" where
  "IWorker_GetThreadId w s =
     (case ts_workers s w of
        None \<Rightarrow> None
      | Some x \<Rightarrow> (case wk_thread x of
            None \<Rightarrow> Some (RETCODE_FAILURE mod 2 ^ 64)
          | Some a \<Rightarrow> map_option (\<lambda>t. int (GetThreadId t)) (ts_threads s a)))"

definition Thread_SetWorker :: "nat \<Rightarrow> nat option \<Rightarrow> tsys \<Rightarrow> tsys option" where
  "Thread_SetWorker a pWorker s =
     (case ts_threads s a of
        None \<Rightarrow> None
      | Some t \<Rightarrow>
          (let s1 = (case th_worker t of None \<Rightarrow> s | Some w \<Rightarrow> SetThread None w s);
               s2 = upd_thread a (\<lambda>t. t\<lparr>th_worker := pWorker\<rparr>) s1 in
           Some (case pWorker of None \<Rightarrow> s2 | Some w \<Rightarrow> SetThread (Some a) w s2)))"

text \<open>The thread object ends: its worker forgets it.\<close>

definition Thread_dtor :: "nat \<Rightarrow> tsys \<Rightarrow> tsys option" where
  "Thread_dtor a s =
     (case ts_threads s a of
        None \<Rightarrow> None
      | Some t \<Rightarrow>
          (let s1 = (case th_worker t of None \<Rightarrow> s | Some w \<Rightarrow> SetThread None w s) in
           Some (s1\<lparr>ts_threads := (ts_threads s1)(a := None)\<rparr>)))"

text \<open>
  The stack size passed to \<open>pthread_create\<close>: \<open>None\<close> is the default attribute.
\<close>

definition thread_attr :: "nat \<Rightarrow> IWorker option \<Rightarrow> nat option" where
  "thread_attr stackSize0 w =
     (let stackSize = (case w of None \<Rightarrow> stackSize0
                       | Some x \<Rightarrow> if wk_stackSize x > 0 then wk_stackSize x else stackSize0) in
      if stackSize \<ge> THREAD_MIN_STACK_SIZE \<and> stackSize < THREAD_MAX_STACK_SIZE
      then Some stackSize else None)"

text \<open>
  \<open>create attr\<close> is \<open>CreateOneThread\<close>: an error number, or 0 with the handle. The spinning
  wait of \<open>StartThread\<close> ends when the body has executed the first two assignments of
  \<open>Execute\<close>; the body itself is \<open>Thread_body\<close> below.
\<close>

definition Thread_StartThread0 ::
  "(nat option \<Rightarrow> int \<times> nat) \<Rightarrow> nat \<Rightarrow> tsys \<Rightarrow> (bool \<times> tsys) option" where
  "Thread_StartThread0 create a s =
     (case ts_threads s a of
        None \<Rightarrow> None
      | Some t \<Rightarrow>
          if th_status t = RUNNING then Some (False, s)
          else (let w = (case th_worker t of None \<Rightarrow> None | Some w \<Rightarrow> ts_workers s w);
                    (retCode, h) = create (thread_attr (th_stackSize t) w) in
                if retCode \<noteq> 0 then Some (False, upd_thread a (\<lambda>t. t\<lparr>th_status := STOPPED\<rparr>) s)
                else Some (True, upd_thread a (\<lambda>t. t\<lparr>th_handle := h, th_running := True,
                                                    th_status := RUNNING\<rparr>) s)))"

definition Thread_StartThread ::
  "(nat option \<Rightarrow> int \<times> nat) \<Rightarrow> nat \<Rightarrow> nat option \<Rightarrow> tsys \<Rightarrow> (bool \<times> tsys) option" where
  "Thread_StartThread create a pWorker s =
     (case ts_threads s a of
        None \<Rightarrow> None
      | Some t \<Rightarrow>
          if th_status t = RUNNING then Some (False, s)
          else (case pWorker of
                  None \<Rightarrow> Some (False, s)
                | Some w \<Rightarrow>
                    Thread_StartThread0 create a
                      (SetThread (Some a) w (upd_thread a (\<lambda>t. t\<lparr>th_worker := Some w\<rparr>) s))))"

text \<open>
  The body: \<open>acts\<close> gives, for each round, whether \<open>running_\<close> is still set when it is read and
  what \<open>OneAction\<close> returns. The list ending first means the body is still running.
\<close>

fun Run_loop :: "(bool \<times> bool) list \<Rightarrow> nat \<Rightarrow> tsys \<Rightarrow> bool \<times> tsys" where
  "Run_loop [] w s = (False, s)"
| "Run_loop ((run, ok) # acts) w s =
     (if \<not> run then (True, s)
      else if \<not> ok then (True, s)
      else Run_loop acts w (upd_worker w (\<lambda>x. x\<lparr>wk_counter := wk_counter x + 1\<rparr>) s))"

text \<open>The first result: whether the body has ended; the second: whether \<open>Uninitialize\<close> was called.\<close>

definition Thread_body ::
  "bool \<Rightarrow> (bool \<times> bool) list \<Rightarrow> nat \<Rightarrow> tsys \<Rightarrow> (bool \<times> bool \<times> tsys) option" where
  "Thread_body initialize acts a s =
     (case ts_threads s a of
        None \<Rightarrow> None
      | Some t \<Rightarrow>
          (case th_worker t of
             None \<Rightarrow> Some (True, False, upd_thread a (\<lambda>t. t\<lparr>th_status := STOPPED\<rparr>) s)
           | Some w \<Rightarrow>
               if \<not> initialize then Some (True, True, upd_thread a (\<lambda>t. t\<lparr>th_status := STOPPED\<rparr>) s)
               else (let (ended, s1) = Run_loop acts w s in
                     if ended then Some (True, True, upd_thread a (\<lambda>t. t\<lparr>th_status := STOPPED\<rparr>) s1)
                     else Some (False, False, s1))))"

text \<open>
  Stopping waits for the body, which may never see the flag: \<open>ends\<close> says whether it does
  (\<open>None\<close> in the result when the caller waits for ever).
\<close>

definition Thread_StopThread :: "(nat \<Rightarrow> bool) \<Rightarrow> bool \<Rightarrow> Thread \<Rightarrow> Thread option" where
  "Thread_StopThread alive ends t =
     (if \<not> IsActive alive t then Some t
      else if \<not> ends then None
      else Some (WaitThread (t\<lparr>th_running := False, th_status := STOPPED\<rparr>)))"

definition Thread_StopThread_timeout ::
  "(nat \<Rightarrow> bool) \<Rightarrow> bool \<Rightarrow> int \<Rightarrow> Thread \<Rightarrow> bool \<times> Thread" where
  "Thread_StopThread_timeout alive ends_in_time timeOut t =
     (if \<not> IsActive alive t then (True, t)
      else (let t1 = t\<lparr>th_running := False\<rparr> in
            if timeOut = 0 then (True, t1)
            else if \<not> ends_in_time then (False, t1)
            else (True, WaitThread (t1\<lparr>th_status := STOPPED\<rparr>))))"

section \<open>The pool\<close>

record ThreadPool =
  tp_stackSize :: nat
  tp_busyThreads :: "nat list"
  tp_idleThreads :: "nat list"
  tp_heap :: "nat \<Rightarrow> Thread option"
  tp_next :: nat

definition ThreadPool_new :: ThreadPool where
  "ThreadPool_new = \<lparr>tp_stackSize = THREAD_DEFAULT_STACK_SIZE, tp_busyThreads = [], tp_idleThreads = [],
     tp_heap = (\<lambda>_. None), tp_next = 0\<rparr>"

definition ThreadPool_GetInstance :: "bool \<Rightarrow> ThreadPool option \<Rightarrow> ThreadPool option" where
  "ThreadPool_GetInstance alloc instance0 =
     (case instance0 of Some p \<Rightarrow> Some p | None \<Rightarrow> if alloc then Some ThreadPool_new else None)"

definition ThreadPool_SetStackSize :: "nat \<Rightarrow> ThreadPool \<Rightarrow> ThreadPool" where
  "ThreadPool_SetStackSize size0 p = p\<lparr>tp_stackSize := size0\<rparr>"

definition ThreadPool_getStackSize :: "ThreadPool \<Rightarrow> nat" where
  "ThreadPool_getStackSize p = tp_stackSize p"

definition ThreadPool_Pop :: "bool \<Rightarrow> ThreadPool \<Rightarrow> nat option \<times> ThreadPool" where
  "ThreadPool_Pop alloc p =
     (case tp_idleThreads p of
        [] \<Rightarrow>
          if \<not> alloc then (None, p)
          else (let a = tp_next p in
                (Some a, p\<lparr>tp_heap := (tp_heap p)(a \<mapsto> Thread_SetStackSize (tp_stackSize p) Thread_new),
                           tp_next := Suc a,
                           tp_busyThreads := tp_busyThreads p @ [a]\<rparr>))
      | a # as \<Rightarrow> (Some a, p\<lparr>tp_idleThreads := as, tp_busyThreads := tp_busyThreads p @ [a]\<rparr>))"

text \<open>The thread's id in the heap; a thread that is not there cannot be in a list.\<close>

definition tid_of :: "(nat \<Rightarrow> Thread option) \<Rightarrow> nat \<Rightarrow> nat" where
  "tid_of h a = (case h a of None \<Rightarrow> 0 | Some t \<Rightarrow> GetThreadId t)"

text \<open>The loop erases the first busy thread with the same id.\<close>

fun erase_tid :: "(nat \<Rightarrow> Thread option) \<Rightarrow> nat \<Rightarrow> nat list \<Rightarrow> nat list" where
  "erase_tid h tid [] = []"
| "erase_tid h tid (b # bs) = (if tid_of h b = tid then bs else b # erase_tid h tid bs)"

definition ThreadPool_Push :: "(nat \<Rightarrow> bool) \<times> bool \<Rightarrow> nat \<Rightarrow> ThreadPool \<Rightarrow> ThreadPool option" where
  "ThreadPool_Push os a p =
     (case tp_heap p a of
        None \<Rightarrow> None
      | Some t \<Rightarrow>
          (case Thread_StopThread (fst os) (snd os) t of
             None \<Rightarrow> None
           | Some t1 \<Rightarrow>
               (let h = (tp_heap p)(a \<mapsto> t1) in
                Some (p\<lparr>tp_heap := h,
                        tp_busyThreads := erase_tid h (GetThreadId t1) (tp_busyThreads p),
                        tp_idleThreads := tp_idleThreads p @ [a]\<rparr>))))"

text \<open>
  Stopping all busy threads. Each round of the loop observes the elapsed time, which handles
  are alive and which workers are hung; the list ending first means that it is still waiting.
\<close>

fun StopThreads_rounds ::
  "(int \<times> (nat \<Rightarrow> bool) \<times> (nat \<Rightarrow> bool)) list \<Rightarrow> int \<Rightarrow> ThreadPool \<Rightarrow> bool option" where
  "StopThreads_rounds [] timeOut p = None"
| "StopThreads_rounds ((elapsed, alive, hung) # obs) timeOut p =
     (if elapsed > timeOut then Some False
      else (let active = filter (\<lambda>a. case tp_heap p a of None \<Rightarrow> False | Some t \<Rightarrow> IsActive alive t)
                           (tp_busyThreads p) in
            if (\<exists>a \<in> set active. hung a) then Some False
            else if active = [] then Some True
            else StopThreads_rounds obs timeOut p))"

definition set_running_false :: "nat list \<Rightarrow> ThreadPool \<Rightarrow> ThreadPool" where
  "set_running_false as p = p\<lparr>tp_heap := (\<lambda>a. if a \<in> set as
     then map_option (\<lambda>t. t\<lparr>th_running := False\<rparr>) (tp_heap p a) else tp_heap p a)\<rparr>"

definition ThreadPool_StopThreads ::
  "(int \<times> (nat \<Rightarrow> bool) \<times> (nat \<Rightarrow> bool)) list \<Rightarrow> int \<Rightarrow> ThreadPool \<Rightarrow> (bool \<times> ThreadPool) option" where
  "ThreadPool_StopThreads obs timeOut p =
     (let p1 = set_running_false (tp_busyThreads p) p in
      case StopThreads_rounds obs timeOut p1 of
        None \<Rightarrow> None
      | Some ok \<Rightarrow>
          if \<not> ok then Some (False, p1)
          else Some (True, p1\<lparr>tp_heap := (\<lambda>a. if a \<in> set (tp_busyThreads p1)
                               then map_option WaitThread (tp_heap p1 a) else tp_heap p1 a),
                              tp_idleThreads := tp_idleThreads p1 @ tp_busyThreads p1,
                              tp_busyThreads := []\<rparr>))"

interpretation threads: lending_pool ThreadPool_Pop ThreadPool_Push tp_idleThreads tp_next
  by unfold_locales
    (auto simp: ThreadPool_Pop_def ThreadPool_Push_def Let_def split: list.splits if_splits option.splits)

section \<open>The pool used with discipline\<close>

text \<open>
  Holders start and run their own thread (any change of it), and give back only threads they
  hold; a running thread has a live handle.
\<close>

inductive tpool_step :: "nat set \<times> ThreadPool \<Rightarrow> nat set \<times> ThreadPool \<Rightarrow> bool" where
  pop_none: "ThreadPool_Pop alloc p = (None, p') \<Longrightarrow> tpool_step (L, p) (L, p')"
| pop_some: "ThreadPool_Pop alloc p = (Some a, p') \<Longrightarrow> tpool_step (L, p) (insert a L, p')"
| push: "a \<in> L \<Longrightarrow> ThreadPool_Push (alive, ends) a p = Some p' \<Longrightarrow>
    (\<And>t. tp_heap p a = Some t \<Longrightarrow> th_status t = RUNNING \<Longrightarrow> alive (th_handle t)) \<Longrightarrow>
    tpool_step (L, p) (L - {a}, p')"
| work: "a \<in> L \<Longrightarrow> tpool_step (L, p) (L, p\<lparr>tp_heap := (tp_heap p)(a \<mapsto> t)\<rparr>)"

inductive tpool_reach :: "nat set \<times> ThreadPool \<Rightarrow> bool" where
  start: "tpool_reach ({}, ThreadPool_new)"
| step: "tpool_reach s \<Longrightarrow> tpool_step s s' \<Longrightarrow> tpool_reach s'"

definition ready_thread :: "Thread option \<Rightarrow> bool" where
  "ready_thread t0 \<longleftrightarrow> (\<exists>t. t0 = Some t \<and> th_status t \<noteq> RUNNING)"

definition tpool_inv :: "nat set \<times> ThreadPool \<Rightarrow> bool" where
  "tpool_inv s \<longleftrightarrow> (case s of (L, p) \<Rightarrow> threads.lend_inv L p \<and>
     (\<forall>a \<in> L. tp_heap p a \<noteq> None) \<and>
     (\<forall>a \<in> set (tp_idleThreads p). ready_thread (tp_heap p a)))"

lemma StopThread_stops:
  "Thread_StopThread alive ends t = Some t' \<Longrightarrow> (th_status t = RUNNING \<Longrightarrow> alive (th_handle t)) \<Longrightarrow>
     th_status t' \<noteq> RUNNING"
  by (auto simp: Thread_StopThread_def IsActive_def GetThreadId_def WaitThread_def split: if_splits)

lemma tpool_pop:
  assumes inv: "tpool_inv (L, p)" and pop: "ThreadPool_Pop alloc p = (Some a, p')"
  shows "a \<notin> L \<and> tpool_inv (insert a L, p') \<and> ready_thread (tp_heap p' a)"
proof -
  have "a \<notin> L \<and> threads.lend_inv (insert a L) p'"
    using threads.lend_inv_some [OF _ pop] inv by (simp add: tpool_inv_def)
  moreover have "ready_thread (tp_heap p' a) \<and> (\<forall>b \<in> L. tp_heap p' b \<noteq> None) \<and>
      (\<forall>b \<in> set (tp_idleThreads p'). ready_thread (tp_heap p' b))"
    using pop inv
    by (auto simp: ThreadPool_Pop_def tpool_inv_def Let_def ready_thread_def Thread_new_def
        Thread_SetStackSize_def split: list.splits if_splits)
  ultimately show ?thesis by (auto simp: tpool_inv_def ready_thread_def)
qed

lemma tpool_inv_step: "tpool_step s s' \<Longrightarrow> tpool_inv s \<Longrightarrow> tpool_inv s'"
proof (induction rule: tpool_step.induct)
  case (pop_none alloc p p' L)
  then have "p' = p" by (auto simp: ThreadPool_Pop_def Let_def split: list.splits if_splits)
  then show ?case using pop_none by simp
next
  case (pop_some alloc p a p' L)
  then show ?case using tpool_pop by blast
next
  case (push a L alive ends p p')
  have "threads.lend_inv (L - {a}) p'"
    using threads.lend_inv_give [OF _ push(1,2)] push(4) by (simp add: tpool_inv_def)
  moreover obtain t t1 where t: "tp_heap p a = Some t" "Thread_StopThread alive ends t = Some t1"
      "tp_heap p' = (tp_heap p)(a \<mapsto> t1)" "tp_idleThreads p' = tp_idleThreads p @ [a]"
    using push(2) by (auto simp: ThreadPool_Push_def Let_def split: option.splits)
  moreover have "th_status t1 \<noteq> RUNNING" using StopThread_stops [OF t(2) push(3) [OF t(1)]] .
  ultimately show ?case using push(4) by (simp add: tpool_inv_def ready_thread_def)
next
  case (work a L p t)
  then show ?case by (auto simp: tpool_inv_def threads.lend_inv_def)
qed

lemma tpool_inv_start: "tpool_inv ({}, ThreadPool_new)"
  by (simp add: tpool_inv_def ThreadPool_new_def threads.lend_inv_def)

lemma tpool_reach_inv: "tpool_reach s \<Longrightarrow> tpool_inv s"
  by (induction rule: tpool_reach.induct) (auto intro: tpool_inv_start tpool_inv_step)

text \<open>C9. The thread pool lends a thread to one holder at a time: with holders that give back only
  threads they hold, \<open>Pop\<close> returns a thread nobody holds and whose body is not running, so that
  \<open>StartThread\<close> with a worker accepts it whenever the thread can be created, and then runs
  that worker.\<close>

theorem thread_pool_exclusive:
  assumes "tpool_reach (L, p)" and "ThreadPool_Pop alloc p = (Some a, p')"
    and "fst (create (thread_attr (th_stackSize (the (tp_heap p' a))) (ws w))) = 0"
  shows "a \<notin> L \<and> (\<exists>s' t. Thread_StartThread create a (Some w)
      \<lparr>ts_threads = tp_heap p', ts_workers = ws\<rparr> =
        Some (True, s') \<and> ts_threads s' a = Some t \<and> th_status t = RUNNING \<and> th_worker t = Some w)"
proof -
  have r: "a \<notin> L" "ready_thread (tp_heap p' a)"
    using tpool_pop [OF tpool_reach_inv [OF assms(1)] assms(2)] by simp_all
  then obtain t where t: "tp_heap p' a = Some t" "th_status t \<noteq> RUNNING"
    by (auto simp: ready_thread_def)
  have attr: "thread_attr n (map_option (\<lambda>x. x\<lparr>wk_thread := Some a\<rparr>) y) = thread_attr n y" for n y
    by (cases y) (simp_all add: thread_attr_def)
  obtain h where h: "create (thread_attr (th_stackSize t) (ws w)) = (0, h)"
    using assms(3) t(1) by (cases "create (thread_attr (th_stackSize t) (ws w))") auto
  show ?thesis
    using r(1) t h attr
    by (simp add: Thread_StartThread_def Thread_StartThread0_def SetThread_def upd_thread_def
        upd_worker_def Let_def option.map_comp comp_def)
qed

theorem thread_pool_exclusive_witness:
  "\<exists>p a p'. tpool_reach ({0}, p) \<and> ThreadPool_Pop True p = (Some a, p') \<and> a \<notin> {0} \<and>
     (\<exists>s' t. Thread_StartThread (\<lambda>_. (0, 7)) a (Some 3)
        \<lparr>ts_threads = tp_heap p', ts_workers = (\<lambda>w. Some IWorker_new)\<rparr> = Some (True, s') \<and>
        ts_threads s' a = Some t \<and> th_status t = RUNNING)"
proof -
  let ?p = "snd (ThreadPool_Pop True ThreadPool_new)"
  have "ThreadPool_Pop True ThreadPool_new = (Some 0, ?p)"
    by (simp add: ThreadPool_Pop_def ThreadPool_new_def Let_def)
  then have r: "tpool_reach ({0}, ?p)"
    using tpool_reach.step [OF tpool_reach.start] tpool_step.pop_some by blast
  obtain a p' where p': "ThreadPool_Pop True ?p = (Some a, p')"
    by (cases "ThreadPool_Pop True ?p") (auto simp: ThreadPool_Pop_def Let_def split: list.splits)
  show ?thesis
    using thread_pool_exclusive [OF r p', of "\<lambda>_. (0, 7)" "\<lambda>w. Some IWorker_new" 3] r p' by auto
qed

text \<open>C10. What the identifier comparison of \<open>Push\<close> does to the busy list: giving back a thread
  that was started and is joined by \<open>Push\<close> - so that its id is 0 - removes another thread from
  the busy list when that one, popped before it, was never started (id 0 as well). The other
  thread is lost to \<open>StopThreads\<close>, and the returned one is idle and busy at the same time.\<close>

theorem push_erases_unstarted_thread:
  assumes "tp_busyThreads p = [b, a]" and "a \<noteq> b"
    and "tp_heap p b = Some tb" and "th_handle tb = 0"
    and "tp_heap p a = Some ta" and "th_status ta = RUNNING" and "alive (th_handle ta)"
  shows "\<exists>p'. ThreadPool_Push (alive, True) a p = Some p' \<and> tp_busyThreads p' = [a] \<and>
    tp_idleThreads p' = tp_idleThreads p @ [a]"
  using assms
  by (simp add: ThreadPool_Push_def Thread_StopThread_def IsActive_def GetThreadId_def WaitThread_def
      tid_of_def Let_def)

theorem push_erases_unstarted_thread_witness:
  "\<exists>p'. ThreadPool_Push (\<lambda>_. True, True) 1
      (ThreadPool_new\<lparr>tp_busyThreads := [0, 1], tp_next := 2,
         tp_heap := [0 \<mapsto> Thread_new, 1 \<mapsto> Thread_new\<lparr>th_status := RUNNING, th_handle := 9\<rparr>]\<rparr>) = Some p' \<and>
    tp_busyThreads p' = [1]"
  using push_erases_unstarted_thread
    [of "ThreadPool_new\<lparr>tp_busyThreads := [0, 1], tp_next := 2,
         tp_heap := [0 \<mapsto> Thread_new, 1 \<mapsto> Thread_new\<lparr>th_status := RUNNING, th_handle := 9\<rparr>]\<rparr>"
      0 1 Thread_new "Thread_new\<lparr>th_status := RUNNING, th_handle := 9\<rparr>" "\<lambda>_. True"]
  by (auto simp: Thread_new_def)

end
