(* ===== verification/StdMap.thy ===== *)
theory StdMap
  imports AieBase
begin

text \<open>
  The ordered dictionaries of the code (\<open>std::map\<close>): association lists in ascending key
  order, which is also the order of iteration. The interface (find, insert or assign, erase)
  is the locale \<open>dictionary\<close>, interpreted on these lists; the components use its laws.
\<close>

fun sm_find :: "('k::linorder \<times> 'v) list \<Rightarrow> 'k \<Rightarrow> 'v option" where
  "sm_find [] k = None"
| "sm_find ((a, v) # m) k = (if k = a then Some v else sm_find m k)"

fun sm_put :: "'k::linorder \<Rightarrow> 'v \<Rightarrow> ('k \<times> 'v) list \<Rightarrow> ('k \<times> 'v) list" where
  "sm_put k x [] = [(k, x)]"
| "sm_put k x ((a, v) # m) =
     (if k = a then (k, x) # m else if k < a then (k, x) # (a, v) # m else (a, v) # sm_put k x m)"

fun sm_erase :: "'k::linorder \<Rightarrow> ('k \<times> 'v) list \<Rightarrow> ('k \<times> 'v) list" where
  "sm_erase k [] = []"
| "sm_erase k ((a, v) # m) = (if k = a then m else (a, v) # sm_erase k m)"

definition sm_ok :: "('k::linorder \<times> 'v) list \<Rightarrow> bool" where
  "sm_ok m \<longleftrightarrow> sorted_wrt (<) (map fst m)"

lemma sm_ok_simps [simp]:
  "sm_ok []"
  "sm_ok ((a, v) # m) \<longleftrightarrow> (\<forall>k \<in> fst ` set m. a < k) \<and> sm_ok m"
  by (auto simp: sm_ok_def)

lemma sm_put_keys: "fst ` set (sm_put k x m) = insert k (fst ` set m)"
  by (induction k x m rule: sm_put.induct) auto

lemma sm_erase_keys: "sm_ok m \<Longrightarrow> fst ` set (sm_erase k m) = fst ` set m - {k}"
  by (induction k m rule: sm_erase.induct) auto

lemma sm_put_ok: "sm_ok m \<Longrightarrow> sm_ok (sm_put k x m)"
  by (induction k x m rule: sm_put.induct) (auto simp: sm_put_keys dest: order.strict_trans)

lemma sm_erase_ok: "sm_ok m \<Longrightarrow> sm_ok (sm_erase k m)"
  by (induction k m rule: sm_erase.induct) (auto simp: sm_erase_keys)

lemma sm_find_put: "sm_find (sm_put k x m) k' = (if k' = k then Some x else sm_find m k')"
  by (induction k x m rule: sm_put.induct) auto

lemma sm_find_none: "sm_find m k = None \<longleftrightarrow> k \<notin> fst ` set m"
  by (induction m k rule: sm_find.induct) auto

lemma sm_find_erase: "sm_ok m \<Longrightarrow> sm_find (sm_erase k m) k' = (if k' = k then None else sm_find m k')"
proof (induction k m rule: sm_erase.induct)
  case (2 k a v m)
  then have "sm_find m a = None" by (auto simp: sm_find_none)
  then show ?case using 2 by auto
qed simp

lemma sm_find_filter:
  "sm_ok m \<Longrightarrow> sm_find (filter (\<lambda>p. P (fst p)) m) k = (if P k then sm_find m k else None)"
  by (induction m k rule: sm_find.induct) (auto simp: sm_find_none)

lemma sm_filter_ok: "sm_ok m \<Longrightarrow> sm_ok (filter P m)"
  by (induction m) auto

lemma sm_find_in: "sm_ok m \<Longrightarrow> sm_find m k = Some v \<longleftrightarrow> (k, v) \<in> set m"
  by (induction m k rule: sm_find.induct) (auto simp: image_iff)

lemma sm_put_length:
  "length (sm_put k x m) = length m + (if sm_find m k = None then 1 else 0)" if "sm_ok m"
  using that
proof (induction k x m rule: sm_put.induct)
  case (2 k x a v m)
  show ?case
  proof (cases "k < a")
    case True
    then have "sm_find m k = None" using 2 by (auto simp: sm_find_none)
    then show ?thesis using True by auto
  qed (use 2 in auto)
qed simp

lemma sm_erase_length:
  "length (sm_erase k m) + (if sm_find m k = None then 0 else 1) = length m"
  by (induction k m rule: sm_erase.induct) auto

lemma sm_erase_id: "sm_find m k = None \<Longrightarrow> sm_erase k m = m"
  by (induction k m rule: sm_erase.induct) (auto split: if_splits)

lemma sm_keys_card: "sm_ok m \<Longrightarrow> card (fst ` set m) = length m"
  by (induction m) (fastforce simp: card_insert_if)+

locale dictionary =
  fixes find :: "'m \<Rightarrow> 'k \<Rightarrow> 'v option" and put :: "'k \<Rightarrow> 'v \<Rightarrow> 'm \<Rightarrow> 'm"
    and erase :: "'k \<Rightarrow> 'm \<Rightarrow> 'm" and ok :: "'m \<Rightarrow> bool" and empty :: 'm and size_of :: "'m \<Rightarrow> nat"
  assumes find_empty: "find empty k = None"
    and ok_empty: "ok empty"
    and find_put: "ok m \<Longrightarrow> find (put k v m) k' = (if k' = k then Some v else find m k')"
    and ok_put: "ok m \<Longrightarrow> ok (put k v m)"
    and find_erase: "ok m \<Longrightarrow> find (erase k m) k' = (if k' = k then None else find m k')"
    and ok_erase: "ok m \<Longrightarrow> ok (erase k m)"
    and size_empty: "size_of empty = 0"
    and size_put: "ok m \<Longrightarrow> size_of (put k v m) = size_of m + (if find m k = None then 1 else 0)"
    and size_erase: "ok m \<Longrightarrow> size_of (erase k m) + (if find m k = None then 0 else 1) = size_of m"
begin

lemma put_same: "ok m \<Longrightarrow> find (put k v m) k = Some v"
  by (simp add: find_put)

lemma put_other: "ok m \<Longrightarrow> k' \<noteq> k \<Longrightarrow> find (put k v m) k' = find m k'"
  by (simp add: find_put)

text \<open>Entering a fresh key and erasing it again changes nothing that can be observed.\<close>

lemma put_erase:
  assumes "ok m" and "find m k = None"
  shows "find (erase k (put k v m)) k' = find m k' \<and> size_of (erase k (put k v m)) = size_of m"
  using assms size_erase [OF ok_put [OF assms(1)], of k k v] size_put [OF assms(1), of k v]
  by (auto simp: find_erase ok_put find_put)

lemma dom_put: "ok m \<Longrightarrow> {k'. find (put k v m) k' \<noteq> None} = insert k {k'. find m k' \<noteq> None}"
  by (auto simp: find_put)

lemma dom_erase: "ok m \<Longrightarrow> {k'. find (erase k m) k' \<noteq> None} = {k'. find m k' \<noteq> None} - {k}"
  by (auto simp: find_erase)

end

interpretation sm: dictionary sm_find sm_put sm_erase sm_ok "[]" List.length
  by unfold_locales
    (auto simp only: sm_find.simps list.size sm_ok_simps sm_find_put sm_put_ok sm_find_erase sm_erase_ok
      sm_put_length sm_erase_length)

end
