(* ===== verification/PluginManager.thy ===== *)
theory PluginManager
  imports StdMap "HOL-Library.List_Lexorder" "HOL-Library.Char_ord"
begin

text \<open>
  The plugin side of the server (services/server/plugin_manager): the algorithm table
  (aie_plugin_info), the label lookup of library paths (plugin_label.cpp), loading one plugin
  library (plugin.cpp over aie_dl_operation.cpp) and the manager's cache (plugin_manager.cpp).
  The dynamic loader and the file system are parameters; a library handle and a plugin object
  are numbers.
\<close>

section \<open>Algorithm types\<close>

abbreviation ALGORITHM_ID_SAMPLE_1 :: string where "ALGORITHM_ID_SAMPLE_1 \<equiv> ''sample_plugin_1''"
abbreviation ALGORITHM_ID_SAMPLE_2 :: string where "ALGORITHM_ID_SAMPLE_2 \<equiv> ''sample_plugin_2''"
abbreviation ALGORITHM_ID_KWS :: string where "ALGORITHM_ID_KWS \<equiv> ''asr_keyword_spotting''"
abbreviation ALGORITHM_ID_IC :: string where "ALGORITHM_ID_IC \<equiv> ''cv_image_classification''"
abbreviation ALGORITHM_ID_RC :: string where "ALGORITHM_ID_RC \<equiv> ''cv_card_rectification''"
abbreviation ALGORITHM_ID_INVALID :: string where "ALGORITHM_ID_INVALID \<equiv> ''invalid algorithm id''"

definition ALGORITHM_TYPE_ID_LIST :: "string list" where
  "ALGORITHM_TYPE_ID_LIST =
     [ALGORITHM_ID_SAMPLE_1, ALGORITHM_ID_SAMPLE_2, ALGORITHM_ID_KWS, ALGORITHM_ID_IC, ALGORITHM_ID_RC]"

definition GetAlgorithmIdByType :: "int \<Rightarrow> string" where
  "GetAlgorithmIdByType type0 =
     (let algorithmTypeNum = int (length ALGORITHM_TYPE_ID_LIST) in
      if type0 \<ge> algorithmTypeNum \<or> type0 < 0 then ALGORITHM_ID_INVALID
      else ALGORITHM_TYPE_ID_LIST ! nat type0)"

section \<open>Library paths\<close>

text \<open>\<open>std::to_string (long long)\<close>.\<close>

definition digit :: "nat \<Rightarrow> char" where
  "digit d = char_of (48 + d)"

fun nat_digits :: "nat \<Rightarrow> string" where
  "nat_digits n = (if n < 10 then [digit n] else nat_digits (n div 10) @ [digit (n mod 10)])"

declare nat_digits.simps [simp del]

definition to_string :: "int \<Rightarrow> string" where
  "to_string v = (if v < 0 then CHR ''-'' # nat_digits (nat (- v)) else nat_digits (nat v))"

text \<open>The path is the output argument, also when the query fails.\<close>

definition GetLibPath :: "string \<Rightarrow> int \<Rightarrow> retcode \<times> string" where
  "GetLibPath aid version =
     (let label = aid @ ''+'' @ to_string version;
          libPath =
            (if label = ''cv_card_rectification+20001001'' then ''/usr/lib/libcv_card_rectification.so''
             else if label = ''sample_plugin_1+1'' then ''/usr/lib/libsample_plugin_1.so''
             else if label = ''sample_plugin_2+1'' then ''/usr/lib/libsample_plugin_2.so''
             else if label = ''asr_keyword_spotting+20001002'' then ''/usr/lib/libasr_keyword_spotting.so''
             else if label = ''cv_image_classification+20001001'' then ''/usr/lib/libcv_image_classification.so''
             else '''') in
      if libPath = [] then (RETCODE_FAILURE, libPath) else (RETCODE_SUCCESS, libPath))"

section \<open>The dynamic loader\<close>

text \<open>
  \<open>le_realpath\<close>, \<open>le_dlopen\<close> and \<open>le_dlsym\<close> are the C library's; \<open>le_factory\<close> is the exported
  function of the library, which returns a new plugin object or null.
\<close>

record ldenv =
  le_realpath :: "string \<Rightarrow> string option"
  le_dlopen :: "string \<Rightarrow> nat option"
  le_dlsym :: "nat \<Rightarrow> string \<Rightarrow> nat option"
  le_factory :: "nat \<Rightarrow> nat option"

abbreviation LIB_PATH :: string where "LIB_PATH \<equiv> ''/usr/''"

definition AieDlopen :: "ldenv \<Rightarrow> string option \<Rightarrow> nat option" where
  "AieDlopen e libName0 =
     (case libName0 of
        None \<Rightarrow> None
      | Some libName \<Rightarrow>
          if length libName < length LIB_PATH then None
          else (case le_realpath e libName of
                  None \<Rightarrow> None
                | Some realLibPath \<Rightarrow>
                    if take (length LIB_PATH) realLibPath \<noteq> LIB_PATH then None
                    else le_dlopen e realLibPath))"

abbreviation PLUGIN_INTERFACE_NAME :: string where "PLUGIN_INTERFACE_NAME \<equiv> ''PLUGIN_INTERFACE''"

section \<open>One plugin\<close>

record Plugin =
  pl_pluginAlgorithm :: "nat option"
  pl_aid :: string
  pl_version :: int
  pl_handle :: "nat option"

definition Plugin_new :: "string \<Rightarrow> int \<Rightarrow> Plugin" where
  "Plugin_new aid version =
     \<lparr>pl_pluginAlgorithm = None, pl_aid = aid, pl_version = version, pl_handle = None\<rparr>"

text \<open>
  Loading: \<open>label_ok\<close> is whether the \<open>PluginLabel\<close> singleton could be created. The last
  component lists the handles closed on the way (the guard closes the library on an error).
\<close>

definition LoadPluginAlgorithm :: "ldenv \<Rightarrow> bool \<Rightarrow> Plugin \<Rightarrow> retcode \<times> Plugin \<times> nat list" where
  "LoadPluginAlgorithm e label_ok p =
     (if \<not> label_ok then (RETCODE_FAILURE, p, [])
      else (let (retCode, libPath) = GetLibPath (pl_aid p) (pl_version p) in
            if retCode \<noteq> RETCODE_SUCCESS then (retCode, p, [])
            else (case AieDlopen e (Some libPath) of
                    None \<Rightarrow> (RETCODE_OPEN_SO_FAILED, p, [])
                  | Some handle \<Rightarrow>
                      (case le_dlsym e handle PLUGIN_INTERFACE_NAME of
                         None \<Rightarrow> (RETCODE_SO_LACK_SYMBOL, p, [handle])
                       | Some fp \<Rightarrow>
                           (case le_factory e fp of
                              None \<Rightarrow> (RETCODE_NULL_PARAM, p, [handle])
                            | Some alg \<Rightarrow>
                                (RETCODE_SUCCESS,
                                 p\<lparr>pl_pluginAlgorithm := Some alg, pl_handle := Some handle\<rparr>, []))))))"

text \<open>The plugin object deleted and the handle closed.\<close>

definition UnloadPluginAlgorithm :: "Plugin \<Rightarrow> nat list \<times> nat list \<times> Plugin" where
  "UnloadPluginAlgorithm p =
     ((case pl_pluginAlgorithm p of None \<Rightarrow> [] | Some a \<Rightarrow> [a]),
      (case pl_handle p of None \<Rightarrow> [] | Some h \<Rightarrow> [h]),
      p\<lparr>pl_pluginAlgorithm := None, pl_handle := None\<rparr>)"

text \<open>
  The destructor: the algorithm and the handle go, and the label's instance, which holds no state, is
  released.
\<close>

definition Plugin_dtor :: "Plugin \<Rightarrow> nat list \<times> nat list" where
  "Plugin_dtor p = (let (destroyed, closed, _) = UnloadPluginAlgorithm p in (destroyed, closed))"

definition GetPluginAlgorithm :: "Plugin \<Rightarrow> nat option" where
  "GetPluginAlgorithm p = pl_pluginAlgorithm p"

definition SetPluginAlgorithm :: "nat option \<Rightarrow> Plugin \<Rightarrow> Plugin" where
  "SetPluginAlgorithm a p = p\<lparr>pl_pluginAlgorithm := a\<rparr>"

definition Plugin_GetVersion :: "Plugin \<Rightarrow> int" where "Plugin_GetVersion p = pl_version p"
definition Plugin_GetAid :: "Plugin \<Rightarrow> string" where "Plugin_GetAid p = pl_aid p"

section \<open>The manager\<close>

datatype PluginKey = PluginKey (pk_aid: string) (pk_version: int)

text \<open>The comparison of the source makes the keys a linear order, as \<open>std::map\<close> needs.\<close>

definition PluginKey_less :: "PluginKey \<Rightarrow> PluginKey \<Rightarrow> bool" where
  "PluginKey_less a another \<longleftrightarrow>
     (if pk_aid a < pk_aid another then True
      else if pk_aid a = pk_aid another \<and> pk_version a < pk_version another then True
      else False)"

instantiation PluginKey :: linorder
begin

definition less_PluginKey :: "PluginKey \<Rightarrow> PluginKey \<Rightarrow> bool" where
  "less_PluginKey a another \<longleftrightarrow> PluginKey_less a another"

definition less_eq_PluginKey :: "PluginKey \<Rightarrow> PluginKey \<Rightarrow> bool" where
  "less_eq_PluginKey a b \<longleftrightarrow> a < b \<or> a = b"

instance
proof
  fix a b c :: PluginKey
  show "a < b \<longleftrightarrow> a \<le> b \<and> \<not> b \<le> a"
    by (auto simp: less_eq_PluginKey_def less_PluginKey_def PluginKey_less_def split: if_splits)
  show "a \<le> a" by (simp add: less_eq_PluginKey_def)
  show "a \<le> b \<Longrightarrow> b \<le> c \<Longrightarrow> a \<le> c"
    by (auto simp: less_eq_PluginKey_def less_PluginKey_def PluginKey_less_def split: if_splits)
  show "a \<le> b \<Longrightarrow> b \<le> a \<Longrightarrow> a = b"
    by (auto simp: less_eq_PluginKey_def less_PluginKey_def PluginKey_less_def split: if_splits)
  show "a \<le> b \<or> b \<le> a"
    by (cases a; cases b) (auto simp: less_eq_PluginKey_def less_PluginKey_def PluginKey_less_def split: if_splits)
qed

end

text \<open>The shared pointers to plugins are their addresses in \<open>pm_heap\<close>.\<close>

record PluginManager =
  pm_pluginMap :: "(PluginKey \<times> nat) list"
  pm_heap :: "nat \<Rightarrow> Plugin option"
  pm_next :: nat

definition PluginManager_new :: PluginManager where
  "PluginManager_new = \<lparr>pm_pluginMap = [], pm_heap = (\<lambda>_. None), pm_next = 0\<rparr>"

definition FindPlugin :: "PluginKey \<Rightarrow> PluginManager \<Rightarrow> nat option" where
  "FindPlugin k m = sm_find (pm_pluginMap m) k"

definition AddPlugin :: "PluginKey \<Rightarrow> nat \<Rightarrow> PluginManager \<Rightarrow> PluginManager" where
  "AddPlugin k a m = m\<lparr>pm_pluginMap := sm_put k a (pm_pluginMap m)\<rparr>"

definition DelPlugin :: "PluginKey \<Rightarrow> PluginManager \<Rightarrow> PluginManager" where
  "DelPlugin k m = m\<lparr>pm_pluginMap := sm_erase k (pm_pluginMap m)\<rparr>"

fun erase_aid :: "string \<Rightarrow> (PluginKey \<times> nat) list \<Rightarrow> (PluginKey \<times> nat) list" where
  "erase_aid aid [] = []"
| "erase_aid aid ((k, a) # m) = (if aid = pk_aid k then erase_aid aid m else (k, a) # erase_aid aid m)"

definition DelPluginByAID :: "string \<Rightarrow> PluginManager \<Rightarrow> PluginManager" where
  "DelPluginByAID aid m = m\<lparr>pm_pluginMap := erase_aid aid (pm_pluginMap m)\<rparr>"

definition LoadPlugin ::
  "ldenv \<Rightarrow> bool \<Rightarrow> string \<Rightarrow> int \<Rightarrow> PluginManager \<Rightarrow> retcode \<times> nat option \<times> PluginManager" where
  "LoadPlugin e label_ok aid version m =
     (let (ret, p, closed) = LoadPluginAlgorithm e label_ok (Plugin_new aid version) in
      if ret \<noteq> RETCODE_SUCCESS then (ret, None, m)
      else (let a = pm_next m;
                m1 = m\<lparr>pm_heap := (pm_heap m)(a \<mapsto> p), pm_next := Suc a\<rparr> in
            (RETCODE_SUCCESS, Some a, AddPlugin (PluginKey aid version) a m1)))"

definition GetPlugin ::
  "ldenv \<Rightarrow> bool \<Rightarrow> string \<Rightarrow> int \<Rightarrow> PluginManager \<Rightarrow> retcode \<times> nat option \<times> PluginManager" where
  "GetPlugin e label_ok aid version m =
     (case FindPlugin (PluginKey aid version) m of
        Some a \<Rightarrow> (RETCODE_SUCCESS, Some a, m)
      | None \<Rightarrow>
          (case FindPlugin (PluginKey aid version) m of
             Some a \<Rightarrow> (RETCODE_SUCCESS, Some a, m)
           | None \<Rightarrow> LoadPlugin e label_ok aid version m))"

definition UnloadPlugin :: "string \<Rightarrow> int \<Rightarrow> PluginManager \<Rightarrow> PluginManager" where
  "UnloadPlugin aid version m =
     (case FindPlugin (PluginKey aid version) m of
        Some a \<Rightarrow> DelPlugin (PluginKey aid version) m
      | None \<Rightarrow> m)"

definition PluginManager_Destroy :: "PluginManager \<Rightarrow> PluginManager option" where
  "PluginManager_Destroy m = None"

section \<open>The table of libraries\<close>

fun digits_val :: "string \<Rightarrow> nat" where
  "digits_val cs = foldl (\<lambda>n c. 10 * n + (of_char c - 48)) 0 cs"

lemma of_char_digit: "d < 10 \<Longrightarrow> (of_char (digit d) :: nat) = 48 + d"
  by (simp add: digit_def)

lemma digits_val_nat_digits: "digits_val (nat_digits n) = n"
proof (induction n rule: nat_digits.induct)
  case (1 n)
  show ?case
  proof (cases "n < 10")
    case True
    then show ?thesis by (subst nat_digits.simps) (simp add: of_char_digit)
  next
    case False
    then have "digits_val (nat_digits n) = 10 * (n div 10) + (48 + n mod 10 - 48)"
      using "1.IH" by (subst nat_digits.simps) (simp add: of_char_digit)
    then show ?thesis by simp
  qed
qed

lemma nat_digits_chars: "c \<in> set (nat_digits n) \<Longrightarrow> \<exists>d < 10. c = digit d"
proof (induction n rule: nat_digits.induct)
  case (1 n)
  show ?case
  proof (cases "n < 10")
    case True
    then show ?thesis using 1 by (subst (asm) (2) nat_digits.simps) auto
  next
    case False
    then have "c \<in> set (nat_digits (n div 10)) \<or> c = digit (n mod 10)"
      using 1(2) by (subst (asm) nat_digits.simps) auto
    moreover have "n mod 10 < 10" by simp
    ultimately show ?thesis using 1(1) False by blast
  qed
qed

lemma digit_inj: "d < 10 \<Longrightarrow> d' < 10 \<Longrightarrow> digit d = digit d' \<Longrightarrow> d = d'"
  by (metis add_left_cancel of_char_digit)

lemma to_string_inj: "to_string v = to_string w \<Longrightarrow> v = w"
proof -
  assume e: "to_string v = to_string w"
  have minus: "nat_digits n \<noteq> CHR ''-'' # xs" for n xs
  proof
    assume "nat_digits n = CHR ''-'' # xs"
    then obtain d where "d < 10" "CHR ''-'' = digit d" using nat_digits_chars [of "CHR ''-''" n] by auto
    moreover have "(of_char (CHR ''-'') :: nat) = 45" by simp
    ultimately show False using of_char_digit [of d] by simp
  qed
  have inj: "a = b" if "nat_digits a = nat_digits b" for a b
    using arg_cong [OF that, of digits_val] unfolding digits_val_nat_digits .
  consider "v < 0" "w < 0" | "v < 0" "0 \<le> w" | "0 \<le> v" "w < 0" | "0 \<le> v" "0 \<le> w" by linarith
  then show ?thesis
  proof cases
    case 1
    then have "nat (- v) = nat (- w)" using e inj by (simp add: to_string_def)
    then show ?thesis using 1 by simp
  next
    case 2
    then show ?thesis using e minus [of "nat w" "nat_digits (nat (- v))"] by (simp add: to_string_def)
  next
    case 3
    then show ?thesis using e minus [of "nat v" "nat_digits (nat (- w))"] by (simp add: to_string_def)
  next
    case 4
    then have "nat v = nat w" using e inj by (simp add: to_string_def)
    then show ?thesis using 4 by simp
  qed
qed

lemma some_digits: "digit 0 = CHR ''0''" "digit (Suc 0) = CHR ''1''" "digit 2 = CHR ''2''"
  by code_simp+

lemma version_strings:
  "to_string v = ''1'' \<longleftrightarrow> v = 1"
  "to_string v = ''20001001'' \<longleftrightarrow> v = 20001001"
  "to_string v = ''20001002'' \<longleftrightarrow> v = 20001002"
proof -
  have "to_string 1 = ''1''" "to_string 20001001 = ''20001001''" "to_string 20001002 = ''20001002''"
    by (simp_all add: to_string_def nat_digits.simps some_digits)
  then show "to_string v = ''1'' \<longleftrightarrow> v = 1" "to_string v = ''20001001'' \<longleftrightarrow> v = 20001001"
    "to_string v = ''20001002'' \<longleftrightarrow> v = 20001002"
    using to_string_inj [of v 1] to_string_inj [of v 20001001] to_string_inj [of v 20001002] by auto
qed

text \<open>The algorithms that can be loaded: for every \<open>int\<close> type and every version, the library
  path of the type's algorithm is found exactly for the five pairs of the table, and it then
  starts with the directory the loader insists on; every other pair is refused.\<close>

lemma GetLibPath_table:
  "(fst (GetLibPath (GetAlgorithmIdByType type0) version) = RETCODE_SUCCESS \<longleftrightarrow>
      (type0, version) \<in> {(0, 1), (1, 1), (2, 20001002), (3, 20001001), (4, 20001001)}) \<and>
   (fst (GetLibPath (GetAlgorithmIdByType type0) version) = RETCODE_SUCCESS \<or>
    GetLibPath (GetAlgorithmIdByType type0) version = (RETCODE_FAILURE, []))"
proof -
  consider "type0 < 0 \<or> 5 \<le> type0" | "type0 = 0" | "type0 = 1" | "type0 = 2" | "type0 = 3" | "type0 = 4"
    by linarith
  then show ?thesis
    by cases (auto simp: GetAlgorithmIdByType_def ALGORITHM_TYPE_ID_LIST_def GetLibPath_def Let_def
        version_strings)
qed

section \<open>The loader and the cache\<close>

text \<open>\<open>AieDlopen\<close> opens a library only if the canonical path of what it is asked for starts with
  \<open>/usr/\<close>, and then it opens that canonical path - whatever links or relative parts the name has.\<close>

lemma AieDlopen_confined:
  "AieDlopen e name = Some h \<longleftrightarrow> (\<exists>n rp. name = Some n \<and> 5 \<le> length n \<and> le_realpath e n = Some rp \<and>
     take 5 rp = ''/usr/'' \<and> le_dlopen e rp = Some h)"
  by (auto simp: AieDlopen_def eval_nat_numeral split: option.splits)

text \<open>
  The cache invariant: the map is ordered, and every entry leads to a loaded plugin of that
  very key, with its handle.
\<close>

definition pm_inv :: "PluginManager \<Rightarrow> bool" where
  "pm_inv m \<longleftrightarrow> sm_ok (pm_pluginMap m) \<and>
     (\<forall>k a. sm_find (pm_pluginMap m) k = Some a \<longrightarrow> a < pm_next m \<and>
        (\<exists>p. pm_heap m a = Some p \<and> PluginKey (pl_aid p) (pl_version p) = k \<and>
           pl_pluginAlgorithm p \<noteq> None \<and> pl_handle p \<noteq> None))"

lemma pm_inv_new: "pm_inv PluginManager_new"
  by (simp add: pm_inv_def PluginManager_new_def)

lemma LoadPluginAlgorithm_success:
  assumes "LoadPluginAlgorithm e ok (Plugin_new aid version) = (RETCODE_SUCCESS, p, closed)"
  shows "pl_aid p = aid \<and> pl_version p = version \<and> pl_pluginAlgorithm p \<noteq> None \<and> pl_handle p \<noteq> None \<and>
    closed = []"
  using assms
  by (auto simp: LoadPluginAlgorithm_def Plugin_new_def Let_def split: if_splits option.splits prod.splits)

lemma pm_inv_GetPlugin:
  assumes inv: "pm_inv m" and g: "GetPlugin e ok aid version m = (r, a0, m')"
  shows "pm_inv m'"
proof (cases "sm_find (pm_pluginMap m) (PluginKey aid version)")
  case (Some a)
  then show ?thesis using g inv by (auto simp: GetPlugin_def FindPlugin_def)
next
  case None
  obtain ret p closed where l: "LoadPluginAlgorithm e ok (Plugin_new aid version) = (ret, p, closed)"
    by (cases "LoadPluginAlgorithm e ok (Plugin_new aid version)") auto
  show ?thesis
  proof (cases "ret = RETCODE_SUCCESS")
    case False
    then show ?thesis using g inv l None by (auto simp: GetPlugin_def FindPlugin_def LoadPlugin_def)
  next
    case True
    then have p: "pl_aid p = aid" "pl_version p = version" "pl_pluginAlgorithm p \<noteq> None" "pl_handle p \<noteq> None"
      using LoadPluginAlgorithm_success l by blast+
    have m': "m' = m\<lparr>pm_heap := (pm_heap m)(pm_next m \<mapsto> p), pm_next := Suc (pm_next m),
        pm_pluginMap := sm_put (PluginKey aid version) (pm_next m) (pm_pluginMap m)\<rparr>"
      using g l True None by (simp add: GetPlugin_def FindPlugin_def LoadPlugin_def AddPlugin_def Let_def)
    show ?thesis
      using inv p unfolding m' by (fastforce simp: pm_inv_def sm_find_put sm_put_ok less_Suc_eq)
  qed
qed

lemma pm_inv_UnloadPlugin: "pm_inv m \<Longrightarrow> pm_inv (UnloadPlugin aid version m)"
  by (auto simp: pm_inv_def UnloadPlugin_def DelPlugin_def sm_find_erase sm_erase_ok split: option.splits)

lemma erase_aid_filter: "erase_aid aid m = filter (\<lambda>p. aid \<noteq> pk_aid (fst p)) m"
  by (induction aid m rule: erase_aid.induct) auto

lemma pm_inv_DelPluginByAID: "pm_inv m \<Longrightarrow> pm_inv (DelPluginByAID aid m)"
  by (auto simp: pm_inv_def DelPluginByAID_def erase_aid_filter sm_filter_ok
      sm_find_filter [where P = "\<lambda>k. aid \<noteq> pk_aid k"] split: if_splits)

text \<open>C13. The plugin cache: from any state that satisfies the cache invariant (kept by all
  operations), \<open>GetPlugin\<close> either fails and changes nothing, or returns a plugin object loaded
  for exactly the algorithm id and version asked for; asking again then returns the same object
  without loading, whatever the loader would answer; the other entries stay; and unloading
  makes the next request load again.\<close>

theorem GetPlugin_caches:
  assumes "pm_inv m" and "GetPlugin e ok aid version m = (r, a0, m')"
  shows "pm_inv m' \<and>
    (r \<noteq> RETCODE_SUCCESS \<longrightarrow> m' = m \<and> a0 = None) \<and>
    (r = RETCODE_SUCCESS \<longrightarrow> (\<exists>a p. a0 = Some a \<and> pm_heap m' a = Some p \<and> pl_aid p = aid \<and>
        pl_version p = version \<and> pl_pluginAlgorithm p \<noteq> None \<and>
        (\<forall>e2 ok2. GetPlugin e2 ok2 aid version m' = (RETCODE_SUCCESS, Some a, m')) \<and>
        (\<forall>k. k \<noteq> PluginKey aid version \<longrightarrow> FindPlugin k m' = FindPlugin k m) \<and>
        FindPlugin (PluginKey aid version) (UnloadPlugin aid version m') = None))"
proof -
  have inv': "pm_inv m'" using pm_inv_GetPlugin [OF assms] .
  have fail: "r \<noteq> RETCODE_SUCCESS \<longrightarrow> m' = m \<and> a0 = None"
    using assms(2)
    by (auto simp: GetPlugin_def LoadPlugin_def Let_def split: option.splits if_splits prod.splits)
  have "\<exists>a. a0 = Some a \<and> FindPlugin (PluginKey aid version) m' = Some a \<and>
      (\<forall>k. k \<noteq> PluginKey aid version \<longrightarrow> FindPlugin k m' = FindPlugin k m)"
    if r: "r = RETCODE_SUCCESS"
  proof (cases "FindPlugin (PluginKey aid version) m")
    case (Some a)
    then have "a0 = Some a" "m' = m" using assms(2) by (simp_all add: GetPlugin_def)
    then show ?thesis using Some by blast
  next
    case None
    then show ?thesis
      using assms(2) r
      by (auto simp: GetPlugin_def LoadPlugin_def Let_def FindPlugin_def AddPlugin_def sm_find_put
          split: if_splits prod.splits)
  qed
  moreover have "FindPlugin (PluginKey aid version) (UnloadPlugin aid version m') = None"
    using inv' by (auto simp: UnloadPlugin_def FindPlugin_def DelPlugin_def sm_find_erase pm_inv_def
        split: option.splits)
  moreover have "GetPlugin e2 ok2 aid version m' = (RETCODE_SUCCESS, Some a, m')"
    if "FindPlugin (PluginKey aid version) m' = Some a" for a e2 ok2
    using that by (simp add: GetPlugin_def)
  ultimately show ?thesis
    using inv' fail by (fastforce simp: pm_inv_def FindPlugin_def)
qed

theorem GetPlugin_caches_witness:
  "\<exists>a p m'. GetPlugin \<lparr>le_realpath = Some, le_dlopen = \<lambda>_. Some 5, le_dlsym = \<lambda>_ _. Some 6, le_factory = \<lambda>_. Some 7\<rparr>
       True ALGORITHM_ID_KWS 20001002 PluginManager_new = (RETCODE_SUCCESS, Some a, m') \<and>
     pm_heap m' a = Some p \<and> pl_aid p = ALGORITHM_ID_KWS"
proof -
  let ?e = "\<lparr>le_realpath = Some, le_dlopen = \<lambda>_. Some 5, le_dlsym = \<lambda>_ _. Some 6, le_factory = \<lambda>_. Some 7\<rparr>"
  obtain r a0 m' where g: "GetPlugin ?e True ALGORITHM_ID_KWS 20001002 PluginManager_new = (r, a0, m')"
    by (cases "GetPlugin ?e True ALGORITHM_ID_KWS 20001002 PluginManager_new") auto
  moreover have "to_string 20001002 = ''20001002''" using version_strings(3) by simp
  ultimately have "r = RETCODE_SUCCESS"
    by (auto simp: GetPlugin_def FindPlugin_def PluginManager_new_def LoadPlugin_def
        LoadPluginAlgorithm_def Plugin_new_def GetLibPath_def AieDlopen_def Let_def)
  then show ?thesis using GetPlugin_caches [OF pm_inv_new g] g by auto
qed

end
