(* ===== verification/DataChannel.thy ===== *)
theory DataChannel
  imports AieBase
begin

text \<open>
  The messages between the server's parts (services/common/protocol/data_channel): \<open>Request\<close> and
  \<open>Response\<close> with their accessors. A pointer to one is an option, \<open>None\<close> the null pointer;
  \<open>IRequest\<close> and \<open>IResponse\<close> are casts to these classes.
\<close>

section \<open>Requests\<close>

record Request =
  rq_innerSequenceId :: int
  rq_requestId :: int
  rq_operationId :: int
  rq_clientUid :: int
  rq_transactionId :: int
  rq_algoPluginType :: int
  rq_msg :: DataInfo

definition Request_new :: Request where
  "Request_new = \<lparr>rq_innerSequenceId = 0, rq_requestId = 0, rq_operationId = 0, rq_clientUid = 0,
     rq_transactionId = 0, rq_algoPluginType = 0, rq_msg = empty_DataInfo\<rparr>"

text \<open>What the destructor frees: the message's block.\<close>

definition Request_dtor :: "Request \<Rightarrow> byte list option" where
  "Request_dtor r = di_data (rq_msg r)"

definition Request_GetInnerSequenceId :: "Request \<Rightarrow> int" where [simp]: "Request_GetInnerSequenceId r = rq_innerSequenceId r"
definition Request_GetRequestId :: "Request \<Rightarrow> int" where [simp]: "Request_GetRequestId r = rq_requestId r"
definition Request_GetOperationId :: "Request \<Rightarrow> int" where [simp]: "Request_GetOperationId r = rq_operationId r"
definition Request_GetClientUid :: "Request \<Rightarrow> int" where [simp]: "Request_GetClientUid r = rq_clientUid r"
definition Request_GetTransactionId :: "Request \<Rightarrow> int" where [simp]: "Request_GetTransactionId r = rq_transactionId r"
definition Request_GetAlgoPluginType :: "Request \<Rightarrow> int" where [simp]: "Request_GetAlgoPluginType r = rq_algoPluginType r"
definition Request_GetMsg :: "Request \<Rightarrow> DataInfo" where [simp]: "Request_GetMsg r = rq_msg r"

definition Request_SetInnerSequenceId :: "int \<Rightarrow> Request \<Rightarrow> Request" where
  [simp]: "Request_SetInnerSequenceId x r = r\<lparr>rq_innerSequenceId := x\<rparr>"
definition Request_SetRequestId :: "int \<Rightarrow> Request \<Rightarrow> Request" where
  [simp]: "Request_SetRequestId x r = r\<lparr>rq_requestId := x\<rparr>"
definition Request_SetOperationId :: "int \<Rightarrow> Request \<Rightarrow> Request" where
  [simp]: "Request_SetOperationId x r = r\<lparr>rq_operationId := x\<rparr>"
definition Request_SetClientUid :: "int \<Rightarrow> Request \<Rightarrow> Request" where
  [simp]: "Request_SetClientUid x r = r\<lparr>rq_clientUid := x\<rparr>"
definition Request_SetTransactionId :: "int \<Rightarrow> Request \<Rightarrow> Request" where
  [simp]: "Request_SetTransactionId x r = r\<lparr>rq_transactionId := x\<rparr>"
definition Request_SetAlgoPluginType :: "int \<Rightarrow> Request \<Rightarrow> Request" where
  [simp]: "Request_SetAlgoPluginType x r = r\<lparr>rq_algoPluginType := x\<rparr>"
definition Request_SetMsg :: "DataInfo \<Rightarrow> Request \<Rightarrow> Request" where
  [simp]: "Request_SetMsg x r = r\<lparr>rq_msg := x\<rparr>"

section \<open>Responses\<close>

abbreviation INVALID_ALGO_PLUGIN_TYPE :: int where "INVALID_ALGO_PLUGIN_TYPE \<equiv> - 1"

record Response =
  rs_requestId :: int
  rs_innerSequenceId :: int
  rs_transactionId :: int
  rs_retCode :: retcode
  rs_clientUid :: int
  rs_retDesc :: string
  rs_algoPluginType :: int
  rs_result :: DataInfo

definition Response_new :: "Request option \<Rightarrow> Response" where
  "Response_new request =
     (let r = \<lparr>rs_requestId = 0, rs_innerSequenceId = 0, rs_transactionId = 0, rs_retCode = RETCODE_SUCCESS,
                rs_clientUid = 0, rs_retDesc = [], rs_algoPluginType = INVALID_ALGO_PLUGIN_TYPE,
                rs_result = empty_DataInfo\<rparr> in
      case request of
        None \<Rightarrow> r
      | Some q \<Rightarrow> r\<lparr>rs_requestId := Request_GetRequestId q,
                   rs_innerSequenceId := Request_GetInnerSequenceId q,
                   rs_transactionId := Request_GetTransactionId q,
                   rs_algoPluginType := Request_GetAlgoPluginType q,
                   rs_clientUid := Request_GetClientUid q\<rparr>)"

definition Response_dtor :: "Response \<Rightarrow> byte list option" where
  "Response_dtor r = di_data (rs_result r)"

definition Response_GetRequestId :: "Response \<Rightarrow> int" where [simp]: "Response_GetRequestId r = rs_requestId r"
definition Response_GetInnerSequenceId :: "Response \<Rightarrow> int" where [simp]: "Response_GetInnerSequenceId r = rs_innerSequenceId r"
definition Response_GetTransactionId :: "Response \<Rightarrow> int" where [simp]: "Response_GetTransactionId r = rs_transactionId r"
definition Response_GetRetCode :: "Response \<Rightarrow> retcode" where [simp]: "Response_GetRetCode r = rs_retCode r"
definition Response_GetClientUid :: "Response \<Rightarrow> int" where [simp]: "Response_GetClientUid r = rs_clientUid r"
definition Response_GetRetDesc :: "Response \<Rightarrow> string" where [simp]: "Response_GetRetDesc r = rs_retDesc r"
definition Response_GetAlgoPluginType :: "Response \<Rightarrow> int" where [simp]: "Response_GetAlgoPluginType r = rs_algoPluginType r"
definition Response_GetResult :: "Response \<Rightarrow> DataInfo" where [simp]: "Response_GetResult r = rs_result r"

definition Response_SetInnerSequenceId :: "int \<Rightarrow> Response \<Rightarrow> Response" where
  [simp]: "Response_SetInnerSequenceId x r = r\<lparr>rs_innerSequenceId := x\<rparr>"
definition Response_SetTransactionId :: "int \<Rightarrow> Response \<Rightarrow> Response" where
  [simp]: "Response_SetTransactionId x r = r\<lparr>rs_transactionId := x\<rparr>"
definition Response_SetRetCode :: "retcode \<Rightarrow> Response \<Rightarrow> Response" where
  [simp]: "Response_SetRetCode x r = r\<lparr>rs_retCode := x\<rparr>"
definition Response_SetClientUid :: "int \<Rightarrow> Response \<Rightarrow> Response" where
  [simp]: "Response_SetClientUid x r = r\<lparr>rs_clientUid := x\<rparr>"
definition Response_SetRetDesc :: "string \<Rightarrow> Response \<Rightarrow> Response" where
  [simp]: "Response_SetRetDesc x r = r\<lparr>rs_retDesc := x\<rparr>"
definition Response_SetAlgoPluginType :: "int \<Rightarrow> Response \<Rightarrow> Response" where
  [simp]: "Response_SetAlgoPluginType x r = r\<lparr>rs_algoPluginType := x\<rparr>"
definition Response_SetResult :: "DataInfo \<Rightarrow> Response \<Rightarrow> Response" where
  [simp]: "Response_SetResult x r = r\<lparr>rs_result := x\<rparr>"

text \<open>The result's block is given up without being freed.\<close>

definition Response_Detach :: "Response \<Rightarrow> Response" where
  "Response_Detach r = r\<lparr>rs_result := (rs_result r)\<lparr>di_data := None\<rparr>\<rparr>"

end
