(* ===== verification/Futures.thy ===== *)
theory Futures
  imports StdMap DataChannel Sync
begin

text \<open>
  Futures of asynchronous requests (services/server/server_executor: future.cpp,
  future_factory.cpp): each accepted request gets a sequence id no other pending future has,
  the plugin's response is matched to its future by that id, and the listener of the
  response's transaction is told. The two dictionaries are ordered maps; a listener is a
  number, and what it is told is an output of the operation.
\<close>

section \<open>Futures\<close>

datatype PluginEvent = ON_PLUGIN_SUCCEED | ON_PLUGIN_FAIL
datatype FutureStatus = FUTURE_OK | FUTURE_ERROR

text \<open>\<open>fu_request\<close> is the request the future was made for, as it was then.\<close>

record Future =
  fu_sequenceId :: int
  fu_transactionId :: int
  fu_createTime :: int
  fu_request :: "Request option"
  fu_response :: "Response option"
  fu_status :: FutureStatus
  fu_semaphore :: Semaphore

definition Future_new :: "int \<Rightarrow> Request option \<Rightarrow> int \<Rightarrow> int \<Rightarrow> Future" where
  "Future_new now request sequenceId transactionId =
     \<lparr>fu_sequenceId = sequenceId, fu_transactionId = transactionId, fu_createTime = now,
      fu_request = request, fu_response = None, fu_status = FUTURE_OK,
      fu_semaphore = Semaphore_MakeShared 0\<rparr>"

text \<open>What the destructor destroys: the response still attached.\<close>

definition Future_dtor :: "Future \<Rightarrow> Response list" where
  "Future_dtor f = (case fu_response f of None \<Rightarrow> [] | Some r \<Rightarrow> [r])"

text \<open>The result of the wait is ignored: a time-out returns the response as it is.\<close>

definition Future_GetResponse :: "int \<Rightarrow> bool \<Rightarrow> Future \<Rightarrow> (Response option \<times> Future) option" where
  "Future_GetResponse timeOut timed_out f =
     (case ISemaphore_Wait timeOut timed_out (fu_semaphore f) of
        None \<Rightarrow> None
      | Some (ok, s) \<Rightarrow> Some (fu_response f, f\<lparr>fu_semaphore := s\<rparr>))"

definition ConvertPluginStatus :: "PluginEvent \<Rightarrow> FutureStatus" where
  "ConvertPluginStatus event = (if event = ON_PLUGIN_SUCCEED then FUTURE_OK else FUTURE_ERROR)"

definition DetachResponse :: "Future \<Rightarrow> Future" where
  "DetachResponse f = f\<lparr>fu_response := None\<rparr>"

text \<open>The first component: the earlier response, destroyed.\<close>

definition Future_SetResponse :: "FutureStatus \<Rightarrow> Response option \<Rightarrow> Future \<Rightarrow> Response list \<times> Future" where
  "Future_SetResponse status response f =
     ((case fu_response f of None \<Rightarrow> [] | Some r \<Rightarrow> [r]),
      f\<lparr>fu_status := status, fu_response := response,
        fu_semaphore := Semaphore_Signal (fu_semaphore f)\<rparr>)"

definition Future_Status :: "Future \<Rightarrow> FutureStatus" where "Future_Status f = fu_status f"
definition Future_GetRequest :: "Future \<Rightarrow> Request option" where "Future_GetRequest f = fu_request f"
definition Future_GetTransactionId :: "Future \<Rightarrow> int" where "Future_GetTransactionId f = fu_transactionId f"
definition Future_GetSequenceId :: "Future \<Rightarrow> int" where "Future_GetSequenceId f = fu_sequenceId f"
definition Future_GetCreateTime :: "Future \<Rightarrow> int" where "Future_GetCreateTime f = fu_createTime f"

section \<open>The factory\<close>

abbreviation MAX_NUM_FUTURES :: nat where "MAX_NUM_FUTURES \<equiv> 1024"
abbreviation (input) INVALID_SEQUENCE_ID :: int where "INVALID_SEQUENCE_ID \<equiv> - 1"
abbreviation (input) MIN_SEQUENCE_ID :: int where "MIN_SEQUENCE_ID \<equiv> 1"

record FutureFactory =
  ff_futures :: "(int \<times> Future) list"
  ff_sequenceId :: int
  ff_listeners :: "(int \<times> nat) list"

definition FutureFactory_new :: FutureFactory where
  "FutureFactory_new = \<lparr>ff_futures = [], ff_sequenceId = 0, ff_listeners = []\<rparr>"

text \<open>What the destructor deletes: listeners and futures.\<close>

definition FutureFactory_dtor :: "FutureFactory \<Rightarrow> nat list \<times> Future list" where
  "FutureFactory_dtor ff = (map snd (ff_listeners ff), map snd (ff_futures ff))"

definition FutureFactory_GetInstance :: "bool \<Rightarrow> FutureFactory option \<Rightarrow> FutureFactory option" where
  "FutureFactory_GetInstance alloc instance0 =
     (case instance0 of Some f \<Rightarrow> Some f | None \<Rightarrow> if alloc then Some FutureFactory_new else None)"

definition FutureFactory_ReleaseInstance :: "FutureFactory option \<Rightarrow> FutureFactory option" where
  "FutureFactory_ReleaseInstance instance0 = None"

text \<open>\<open>None\<close>: the loop does not end.\<close>

definition FindSequenceId :: "FutureFactory \<Rightarrow> (int \<times> FutureFactory) option" where
  "FindSequenceId ff =
     (if length (ff_futures ff) > MAX_NUM_FUTURES then Some (INVALID_SEQUENCE_ID, ff)
      else map_option (\<lambda>i. (i, ff\<lparr>ff_sequenceId := i\<rparr>))
             (find_free_id 64 MIN_SEQUENCE_ID (\<lambda>i. sm_find (ff_futures ff) i \<noteq> None) (ff_sequenceId ff)))"

definition AddFuture :: "int \<Rightarrow> Future \<Rightarrow> FutureFactory \<Rightarrow> FutureFactory" where
  "AddFuture sequenceId future ff = ff\<lparr>ff_futures := sm_put sequenceId future (ff_futures ff)\<rparr>"

text \<open>The request is changed in place: its new value is the second component.\<close>

definition CreateFuture ::
  "int \<Rightarrow> bool \<Rightarrow> Request option \<Rightarrow> FutureFactory \<Rightarrow> (retcode \<times> Request option \<times> FutureFactory) option" where
  "CreateFuture now alloc request ff =
     (case FindSequenceId ff of
        None \<Rightarrow> None
      | Some (sequenceId, ff1) \<Rightarrow>
          if sequenceId = INVALID_SEQUENCE_ID then Some (RETCODE_NULL_PARAM, request, ff1)
          else (case request of
                  None \<Rightarrow> Some (RETCODE_NULL_PARAM, request, ff1)
                | Some req \<Rightarrow>
                    (let req1 = Request_SetInnerSequenceId sequenceId req in
                     if \<not> alloc then Some (RETCODE_OUT_OF_MEMORY, Some req1, ff1)
                     else Some (RETCODE_SUCCESS, Some req1,
                            AddFuture sequenceId
                              (Future_new now (Some req1) sequenceId (Request_GetTransactionId req1)) ff1))))"

definition DeleteFuture :: "int \<Rightarrow> FutureFactory \<Rightarrow> FutureFactory" where
  "DeleteFuture sequenceId ff =
     (case sm_find (ff_futures ff) sequenceId of
        None \<Rightarrow> ff
      | Some f \<Rightarrow> ff\<lparr>ff_futures := sm_erase sequenceId (ff_futures ff)\<rparr>)"

definition FutureFactory_Release :: "int \<Rightarrow> FutureFactory \<Rightarrow> FutureFactory" where
  "FutureFactory_Release sequenceId ff = DeleteFuture sequenceId ff"

text \<open>A future gives itself up: \<open>None\<close> is a process without the factory.\<close>

definition Future_Release :: "FutureFactory option \<Rightarrow> Future \<Rightarrow> FutureFactory option" where
  "Future_Release instance0 f = map_option (FutureFactory_Release (fu_sequenceId f)) instance0"

definition FF_RegisterListener :: "nat \<Rightarrow> int \<Rightarrow> FutureFactory \<Rightarrow> FutureFactory" where
  "FF_RegisterListener listener transactionId ff =
     ff\<lparr>ff_listeners := sm_put transactionId listener (ff_listeners ff)\<rparr>"

text \<open>The first component: the listener deleted.\<close>

definition FF_UnregisterListener :: "int \<Rightarrow> FutureFactory \<Rightarrow> nat option \<times> FutureFactory" where
  "FF_UnregisterListener transactionId ff =
     (case sm_find (ff_listeners ff) transactionId of
        None \<Rightarrow> (None, ff)
      | Some l \<Rightarrow> (Some l, ff\<lparr>ff_listeners := sm_erase transactionId (ff_listeners ff)\<rparr>))"

definition FetchFuture :: "Response \<Rightarrow> FutureFactory \<Rightarrow> Future option" where
  "FetchFuture response ff = sm_find (ff_futures ff) (Response_GetInnerSequenceId response)"

definition FindListener :: "int \<Rightarrow> FutureFactory \<Rightarrow> nat option" where
  "FindListener transactionId ff = sm_find (ff_listeners ff) transactionId"

text \<open>
  The last component is the call \<open>OnReply\<close>: the listener and the future it is given. The
  future's fields are stored back, for it is an object in the map.
\<close>

definition ProcessResponse ::
  "PluginEvent \<Rightarrow> Response option \<Rightarrow> FutureFactory \<Rightarrow> retcode \<times> FutureFactory \<times> (nat \<times> Future) option" where
  "ProcessResponse event response ff =
     (case response of
        None \<Rightarrow> (RETCODE_NULL_PARAM, ff, None)
      | Some res \<Rightarrow>
          (case FetchFuture res ff of
             None \<Rightarrow> (RETCODE_NULL_PARAM, ff, None)
           | Some future \<Rightarrow>
               (let status = ConvertPluginStatus event;
                    (old, future1) = Future_SetResponse status (Some res) future;
                    ff1 = ff\<lparr>ff_futures := sm_put (Response_GetInnerSequenceId res) future1 (ff_futures ff)\<rparr> in
                case FindListener (Response_GetTransactionId res) ff1 of
                  None \<Rightarrow> (RETCODE_NO_LISTENER_FOUND, ff1, None)
                | Some listener \<Rightarrow>
                    (let future2 = DetachResponse future1;
                         ff2 = ff1\<lparr>ff_futures := sm_put (Response_GetInnerSequenceId res) future2 (ff_futures ff1)\<rparr> in
                     (RETCODE_SUCCESS, DeleteFuture (Future_GetSequenceId future2) ff2,
                      Some (listener, future1))))))"

section \<open>Sequence ids\<close>

interpretation sequence_ids: id_space 64 1
  by unfold_locales auto

text \<open>
  The invariant: ordered maps, ids between 1 and the largest \<open>long long\<close>, each future stored
  under its own id, at most one more than the limit, and the counter in range.
\<close>

definition ff_inv :: "FutureFactory \<Rightarrow> bool" where
  "ff_inv ff \<longleftrightarrow> sm_ok (ff_futures ff) \<and> sm_ok (ff_listeners ff) \<and>
     (\<forall>i f. sm_find (ff_futures ff) i = Some f \<longrightarrow> 1 \<le> i \<and> fu_sequenceId f = i) \<and>
     length (ff_futures ff) \<le> MAX_NUM_FUTURES + 1 \<and>
     0 \<le> ff_sequenceId ff \<and> ff_sequenceId ff < 2 ^ 63"

lemma ff_inv_new: "ff_inv FutureFactory_new"
  by (simp add: ff_inv_def FutureFactory_new_def)

lemma used_ids: "sm_ok m \<Longrightarrow> {i. sm_find m i \<noteq> None} = fst ` set m"
  by (auto simp: sm_find_none)

lemma FindSequenceId_free:
  assumes inv: "ff_inv ff" and room: "length (ff_futures ff) \<le> MAX_NUM_FUTURES"
  shows "\<exists>i. FindSequenceId ff = Some (i, ff\<lparr>ff_sequenceId := i\<rparr>) \<and> 1 \<le> i \<and> i < 2 ^ 63 \<and>
    sm_find (ff_futures ff) i = None"
proof -
  let ?used = "\<lambda>i. sm_find (ff_futures ff) i \<noteq> None"
  have ok: "sm_ok (ff_futures ff)" using inv by (simp add: ff_inv_def)
  have "{i. ?used i} = fst ` set (ff_futures ff)" using used_ids [OF ok] .
  then have "finite {i. ?used i}" "card {i. ?used i} = length (ff_futures ff)"
    using sm_keys_card [OF ok] by simp_all
  then obtain i where "find_free_id 64 1 ?used (ff_sequenceId ff) = Some i" "1 \<le> i" "i \<le> 2 ^ 63 - 1" "\<not> ?used i"
    using sequence_ids.find_free_enough [of ?used "ff_sequenceId ff"] inv room by (auto simp: ff_inv_def)
  then show ?thesis using room by (auto simp: FindSequenceId_def)
qed

text \<open>C14. Creating a future always returns (the search for an id ends) and keeps the invariant. It
  succeeds exactly when there are at most 1024 pending futures, the request is there and the
  allocation succeeds; then the request carries a new id, at least 1 and in use by no other
  pending future, its future is stored under that id, and every other future is untouched.\<close>

theorem CreateFuture_fresh:
  assumes "ff_inv ff"
  shows "\<exists>r req' ff'. CreateFuture now alloc request ff = Some (r, req', ff') \<and> ff_inv ff' \<and>
    (r = RETCODE_SUCCESS \<longleftrightarrow> length (ff_futures ff) \<le> MAX_NUM_FUTURES \<and> request \<noteq> None \<and> alloc) \<and>
    (r = RETCODE_SUCCESS \<longrightarrow> (\<exists>i req f. request = Some req \<and> 1 \<le> i \<and>
        req' = Some (req\<lparr>rq_innerSequenceId := i\<rparr>) \<and> sm_find (ff_futures ff) i = None \<and>
        sm_find (ff_futures ff') i = Some f \<and> fu_request f = req' \<and>
        fu_transactionId f = rq_transactionId req \<and>
        (\<forall>j. j \<noteq> i \<longrightarrow> sm_find (ff_futures ff') j = sm_find (ff_futures ff) j))) \<and>
    (r \<noteq> RETCODE_SUCCESS \<longrightarrow> ff_futures ff' = ff_futures ff)"
proof (cases "length (ff_futures ff) \<le> MAX_NUM_FUTURES")
  case False
  then show ?thesis using assms by (auto simp: CreateFuture_def FindSequenceId_def)
next
  case True
  obtain i where i: "FindSequenceId ff = Some (i, ff\<lparr>ff_sequenceId := i\<rparr>)" "1 \<le> i" "i < 2 ^ 63"
      "sm_find (ff_futures ff) i = None"
    using FindSequenceId_free [OF assms True] by blast
  have ok: "sm_ok (ff_futures ff)" using assms by (simp add: ff_inv_def)
  have inv1: "ff_inv (ff\<lparr>ff_sequenceId := i\<rparr>)" using assms i(2,3) by (simp add: ff_inv_def)
  show ?thesis
  proof (cases "request = None \<or> \<not> alloc")
    case True
    then show ?thesis using i inv1 by (cases request) (auto simp: CreateFuture_def)
  next
    case False
    then obtain req where req: "request = Some req" and al: alloc by auto
    define req' where "req' = req\<lparr>rq_innerSequenceId := i\<rparr>"
    define f where "f = Future_new now (Some req') i (rq_transactionId req)"
    define ff' where "ff' = AddFuture i f (ff\<lparr>ff_sequenceId := i\<rparr>)"
    have res: "CreateFuture now alloc request ff = Some (RETCODE_SUCCESS, Some req', ff')"
      using i req al by (simp add: CreateFuture_def ff'_def f_def req'_def Let_def)
    have "ff_inv ff'"
      using inv1 i True ok
      by (auto simp: ff_inv_def ff'_def AddFuture_def f_def Future_new_def sm_put_ok sm_put_length
          sm_find_put)
    moreover have "fu_request f = Some req' \<and> fu_transactionId f = rq_transactionId req"
      by (simp add: f_def Future_new_def)
    ultimately show ?thesis
      using res req al True i(2,4) by (auto simp: ff'_def AddFuture_def sm_find_put req'_def)
  qed
qed

theorem CreateFuture_fresh_witness:
  "\<exists>i req' ff'. CreateFuture 0 True (Some Request_new) FutureFactory_new = Some (RETCODE_SUCCESS, req', ff') \<and>
     1 \<le> i \<and> sm_find (ff_futures ff') i \<noteq> None"
  using CreateFuture_fresh [OF ff_inv_new, of 0 True "Some Request_new"]
  by (fastforce simp: FutureFactory_new_def)

section \<open>Matching responses\<close>

lemma ff_inv_put:
  assumes "ff_inv ff" and "sm_find (ff_futures ff) i = Some f" and "fu_sequenceId g = i"
  shows "ff_inv (ff\<lparr>ff_futures := sm_put i g (ff_futures ff)\<rparr>)"
  using assms by (auto simp: ff_inv_def sm_put_ok sm_put_length sm_find_put)

lemma ff_inv_DeleteFuture: "ff_inv ff \<Longrightarrow> ff_inv (DeleteFuture i ff)"
proof -
  assume "ff_inv ff"
  moreover have "length (sm_erase i (ff_futures ff)) \<le> length (ff_futures ff)"
    using sm_erase_length [of i "ff_futures ff"] by (auto split: if_splits)
  ultimately show ?thesis
    by (auto simp: ff_inv_def DeleteFuture_def sm_erase_ok sm_find_erase split: option.splits)
qed

text \<open>C15. A response made from a request that has a pending future reaches that future: if the
  transaction has a listener, the listener is called once, with the future of the very
  request, holding the response and the status of the event; the future is then gone, the
  others are untouched, and the same response processed again is refused. Without a listener
  the call fails with its own code and the future stays pending.\<close>

theorem ProcessResponse_matches:
  assumes "ff_inv ff" and "sm_find (ff_futures ff) (rq_innerSequenceId req) = Some f"
    and "res = (Response_new (Some req))\<lparr>rs_retCode := rc, rs_result := data\<rparr>"
  shows "case sm_find (ff_listeners ff) (rq_transactionId req) of
      Some l \<Rightarrow> (\<exists>ff' g. ProcessResponse event (Some res) ff = (RETCODE_SUCCESS, ff', Some (l, g)) \<and>
          fu_request g = fu_request f \<and> fu_response g = Some res \<and> fu_status g = ConvertPluginStatus event \<and>
          ff_inv ff' \<and> sm_find (ff_futures ff') (rq_innerSequenceId req) = None \<and>
          (\<forall>j. j \<noteq> rq_innerSequenceId req \<longrightarrow> sm_find (ff_futures ff') j = sm_find (ff_futures ff) j) \<and>
          ProcessResponse event (Some res) ff' = (RETCODE_NULL_PARAM, ff', None))
    | None \<Rightarrow> (\<exists>ff'. ProcessResponse event (Some res) ff = (RETCODE_NO_LISTENER_FOUND, ff', None) \<and>
          ff_inv ff' \<and> sm_find (ff_futures ff') (rq_innerSequenceId req) \<noteq> None)"
proof -
  let ?i = "rq_innerSequenceId req"
  have res: "rs_innerSequenceId res = ?i" "rs_transactionId res = rq_transactionId req"
    using assms(3) by (simp_all add: Response_new_def Let_def)
  have ok: "sm_ok (ff_futures ff)" and seq: "fu_sequenceId f = ?i"
    using assms(1,2) by (auto simp: ff_inv_def)
  define g where "g = f\<lparr>fu_status := ConvertPluginStatus event, fu_response := Some res,
    fu_semaphore := Semaphore_Signal (fu_semaphore f)\<rparr>"
  define ff1 where "ff1 = ff\<lparr>ff_futures := sm_put ?i g (ff_futures ff)\<rparr>"
  have inv1: "ff_inv ff1"
    unfolding ff1_def by (rule ff_inv_put [OF assms(1,2)]) (simp add: g_def seq)
  show ?thesis
  proof (cases "sm_find (ff_listeners ff) (rq_transactionId req)")
    case None
    then have "ProcessResponse event (Some res) ff = (RETCODE_NO_LISTENER_FOUND, ff1, None)"
      using assms(2) res
      by (simp add: ProcessResponse_def FetchFuture_def FindListener_def Future_SetResponse_def g_def ff1_def)
    then show ?thesis using None inv1 by (simp add: ff1_def sm_find_put)
  next
    case (Some l)
    define ff2 where "ff2 = ff1\<lparr>ff_futures := sm_put ?i (DetachResponse g) (ff_futures ff1)\<rparr>"
    define ff3 where "ff3 = DeleteFuture ?i ff2"
    have inv2: "ff_inv ff2"
      unfolding ff2_def
      by (rule ff_inv_put [OF inv1, of _ g]) (simp_all add: ff1_def sm_find_put DetachResponse_def g_def seq)
    have inv3: "ff_inv ff3" unfolding ff3_def by (rule ff_inv_DeleteFuture [OF inv2])
    have ok2: "sm_ok (ff_futures ff2)" using inv2 by (simp add: ff_inv_def)
    have run: "ProcessResponse event (Some res) ff = (RETCODE_SUCCESS, ff3, Some (l, g))"
      using assms(2) res Some seq
      by (simp add: ProcessResponse_def FetchFuture_def FindListener_def Future_SetResponse_def g_def ff1_def
          ff2_def ff3_def Future_GetSequenceId_def DetachResponse_def Let_def)
    have find3: "sm_find (ff_futures ff3) j = (if j = ?i then None else sm_find (ff_futures ff) j)" for j
      using ok2 by (auto simp: ff3_def DeleteFuture_def sm_find_erase split: option.splits)
        (simp_all add: ff2_def ff1_def sm_find_put)
    have again: "ProcessResponse event (Some res) ff3 = (RETCODE_NULL_PARAM, ff3, None)"
      using find3 res by (simp add: ProcessResponse_def FetchFuture_def)
    show ?thesis using Some run inv3 find3 again by (auto simp: g_def)
  qed
qed

theorem ProcessResponse_matches_witness:
  "\<exists>req res ff ff' g. ProcessResponse ON_PLUGIN_SUCCEED (Some res) ff = (0, ff', Some (9, g)) \<and>
     fu_request g = Some req \<and> fu_response g = Some res"
proof -
  let ?req = "Request_new\<lparr>rq_innerSequenceId := 1, rq_transactionId := 5\<rparr>"
  let ?f = "Future_new 0 (Some ?req) 1 5"
  let ?ff = "\<lparr>ff_futures = [(1, ?f)], ff_sequenceId = 1, ff_listeners = [(5, 9)]\<rparr>"
  have inv: "ff_inv ?ff" by (auto simp: ff_inv_def Future_new_def split: if_splits)
  have fnd: "sm_find (ff_futures ?ff) (rq_innerSequenceId ?req) = Some ?f" by simp
  have fr: "fu_request ?f = Some ?req" by (simp add: Future_new_def)
  have ls: "sm_find (ff_listeners ?ff) (rq_transactionId ?req) = Some 9" by simp
  show ?thesis
    using ProcessResponse_matches
      [OF inv fnd refl, where event = ON_PLUGIN_SUCCEED and rc = 0 and data = empty_DataInfo]
    unfolding ls option.case fr by blast
qed

end
