(* ===== verification/ServerExecutor.thy ===== *)
theory ServerExecutor
  imports QueuePool Threads PluginManager Futures "HOL-Library.Monad_Syntax"
begin

text \<open>
  The server executor (services/server/server_executor): tasks, the synchronous and the
  asynchronous message handler, the worker that serves an engine's queue, the engine and the
  engine manager with its reference counts. The state \<open>exec\<close> holds the stores of the objects
  these share by pointer; an operation that would use a null or dangling pointer, or call a
  method on an object of the wrong class, is \<open>None\<close>. Allocation, pthreads and the dynamic
  loader are the environment \<open>xenv\<close>; the virtual methods of a plugin are the record
  \<open>plug_ops\<close>, over the plugin's own state.
\<close>

section \<open>State\<close>

record Task =
  tk_handler :: "nat option"
  tk_request :: "Request option"
  tk_notifier :: "nat option"

definition Task_new :: Task where
  "Task_new = \<lparr>tk_handler = None, tk_request = None, tk_notifier = None\<rparr>"

text \<open>A handler keeps its queue and the plugin algorithm.\<close>

datatype handler =
    SyncMsgHandler (h_queue: nat) (h_alg: "nat option")
  | AsyncMsgHandler (h_queue: nat) (h_alg: "nat option")

record Engine =
  en_refCount :: int
  en_plugin :: "nat option"
  en_thread :: "nat option"
  en_queue :: "nat option"
  en_msgHandler :: "nat option"
  en_worker :: nat

datatype EngineKey = EngineKey (ek_aid: string) (ek_version: int)

definition EngineKey_less :: "EngineKey \<Rightarrow> EngineKey \<Rightarrow> bool" where
  "EngineKey_less a another \<longleftrightarrow>
     (if ek_aid a < ek_aid another then True
      else if ek_aid a = ek_aid another \<and> ek_version a < ek_version another then True
      else False)"

instantiation EngineKey :: linorder
begin

definition less_EngineKey :: "EngineKey \<Rightarrow> EngineKey \<Rightarrow> bool" where
  "less_EngineKey a another \<longleftrightarrow> EngineKey_less a another"

definition less_eq_EngineKey :: "EngineKey \<Rightarrow> EngineKey \<Rightarrow> bool" where
  "less_eq_EngineKey a b \<longleftrightarrow> a < b \<or> a = b"

instance
proof
  fix a b c :: EngineKey
  show "a < b \<longleftrightarrow> a \<le> b \<and> \<not> b \<le> a"
    by (auto simp: less_eq_EngineKey_def less_EngineKey_def EngineKey_less_def split: if_splits)
  show "a \<le> a" by (simp add: less_eq_EngineKey_def)
  show "a \<le> b \<Longrightarrow> b \<le> c \<Longrightarrow> a \<le> c"
    by (auto simp: less_eq_EngineKey_def less_EngineKey_def EngineKey_less_def split: if_splits)
  show "a \<le> b \<Longrightarrow> b \<le> a \<Longrightarrow> a = b"
    by (auto simp: less_eq_EngineKey_def less_EngineKey_def EngineKey_less_def split: if_splits)
  show "a \<le> b \<or> b \<le> a"
    by (cases a; cases b) (auto simp: less_eq_EngineKey_def less_EngineKey_def EngineKey_less_def split: if_splits)
qed

end

text \<open>The virtual methods of \<open>IPlugin\<close>; an asynchronous plugin reports events to its callback.\<close>

record 'p plug_ops =
  po_InferMode :: "'p \<Rightarrow> string option"
  po_SyncProcess :: "Request \<Rightarrow> 'p \<Rightarrow> retcode \<times> Response option \<times> 'p"
  po_AsyncProcess :: "Request \<Rightarrow> 'p \<Rightarrow> retcode \<times> (PluginEvent \<times> Response option) list \<times> 'p"
  po_Prepare :: "int \<Rightarrow> DataInfo \<Rightarrow> DataInfo \<Rightarrow> 'p \<Rightarrow> retcode \<times> DataInfo \<times> 'p"
  po_Release :: "bool \<Rightarrow> int \<Rightarrow> DataInfo \<Rightarrow> 'p \<Rightarrow> retcode \<times> 'p"
  po_SetOption :: "int \<Rightarrow> DataInfo \<Rightarrow> 'p \<Rightarrow> retcode \<times> 'p"
  po_GetOption :: "int \<Rightarrow> DataInfo \<Rightarrow> DataInfo \<Rightarrow> 'p \<Rightarrow> retcode \<times> DataInfo \<times> 'p"

text \<open>
  The pools, the stores, the future factory, the log of \<open>OnReply\<close> calls and the two maps of
  the engine manager. \<open>ex_next\<close> is the next fresh address of engines, handlers, workers and
  notifiers. \<open>ex_waiting\<close> has, for each caller blocked in \<open>SyncExecute\<close>, its notifier and the
  engine its local shared pointer holds. The singletons are created by their first
  \<open>GetInstance\<close>: \<open>ex_pm_made\<close> and so on say which of them exist.
\<close>

record 'p exec =
  ex_pm :: PluginManager
  ex_tp :: ThreadPool
  ex_qp :: "Task QueuePool"
  ex_workers :: "nat \<Rightarrow> IWorker option"
  ex_handlers :: "nat \<Rightarrow> handler option"
  ex_objs :: "nat \<Rightarrow> Engine option"
  ex_notifiers :: "nat \<Rightarrow> Response Notifier option"
  ex_next :: nat
  ex_ff :: FutureFactory
  ex_replies :: "(nat \<times> Future) list"
  ex_algs :: "nat \<Rightarrow> 'p"
  em_engines :: "(EngineKey \<times> nat) list"
  em_clientEngines :: "(int \<times> nat) list"
  ex_waiting :: "(nat \<times> nat) list"
  ex_pm_made :: bool
  ex_tp_made :: bool
  ex_qp_made :: bool
  ex_ff_made :: bool

record xenv =
  xe_ld :: ldenv
  xe_label :: bool
  xe_new_thread :: bool
  xe_new_queue :: bool
  xe_new_nodes :: bool
  xe_new_engine :: bool
  xe_new_handler :: bool
  xe_new_response :: bool
  xe_new_future :: bool
  xe_new_pm :: bool
  xe_new_tp :: bool
  xe_new_qp :: bool
  xe_new_ff :: bool
  xe_create :: "nat option \<Rightarrow> int \<times> nat"
  xe_alive :: "nat \<Rightarrow> bool"
  xe_ends :: bool
  xe_now :: int

abbreviation MAX_SYNC_MSG_NUM :: nat where "MAX_SYNC_MSG_NUM \<equiv> 64"
abbreviation MAX_ASYNC_MSG_NUM :: nat where "MAX_ASYNC_MSG_NUM \<equiv> 64"
abbreviation (input) SYNC_MSG_TIMEOUT :: int where "SYNC_MSG_TIMEOUT \<equiv> - 1"
abbreviation PLUGIN_SYNC_INFER :: string where "PLUGIN_SYNC_INFER \<equiv> ''SYNC''"
abbreviation (input) PLUGIN_NUM_FOR_UNLOAD :: int where "PLUGIN_NUM_FOR_UNLOAD \<equiv> 1"

definition queue_at :: "nat \<Rightarrow> 'p exec \<Rightarrow> Task Queue option" where
  "queue_at a st = qp_heap (ex_qp st) a"

definition set_queue :: "nat \<Rightarrow> Task Queue \<Rightarrow> 'p exec \<Rightarrow> 'p exec" where
  "set_queue a q st = st\<lparr>ex_qp := (ex_qp st)\<lparr>qp_heap := (qp_heap (ex_qp st))(a \<mapsto> q)\<rparr>\<rparr>"

definition set_alg :: "nat \<Rightarrow> 'p \<Rightarrow> 'p exec \<Rightarrow> 'p exec" where
  "set_alg a x st = st\<lparr>ex_algs := (ex_algs st)(a := x)\<rparr>"

definition set_obj :: "nat \<Rightarrow> Engine \<Rightarrow> 'p exec \<Rightarrow> 'p exec" where
  "set_obj a e st = st\<lparr>ex_objs := (ex_objs st)(a \<mapsto> e)\<rparr>"

section \<open>The singletons\<close>

text \<open>
  Each \<open>GetInstance\<close> delivers the instance there is, or tries to allocate one: the first result
  is whether the pointer is not null.
\<close>

definition PM_GetInstance :: "xenv \<Rightarrow> 'p exec \<Rightarrow> bool \<times> 'p exec" where
  "PM_GetInstance e st =
     (if ex_pm_made st then (True, st) else (xe_new_pm e, st\<lparr>ex_pm_made := xe_new_pm e\<rparr>))"

definition TP_GetInstance :: "xenv \<Rightarrow> 'p exec \<Rightarrow> bool \<times> 'p exec" where
  "TP_GetInstance e st =
     (if ex_tp_made st then (True, st) else (xe_new_tp e, st\<lparr>ex_tp_made := xe_new_tp e\<rparr>))"

definition QP_GetInstance :: "xenv \<Rightarrow> 'p exec \<Rightarrow> bool \<times> 'p exec" where
  "QP_GetInstance e st =
     (if ex_qp_made st then (True, st) else (xe_new_qp e, st\<lparr>ex_qp_made := xe_new_qp e\<rparr>))"

definition FF_GetInstance :: "xenv \<Rightarrow> 'p exec \<Rightarrow> bool \<times> 'p exec" where
  "FF_GetInstance e st =
     (if ex_ff_made st then (True, st) else (xe_new_ff e, st\<lparr>ex_ff_made := xe_new_ff e\<rparr>))"

lemma GetInstance_made [simp]:
  "ex_pm_made st \<Longrightarrow> PM_GetInstance e st = (True, st)"
  "ex_tp_made st \<Longrightarrow> TP_GetInstance e st = (True, st)"
  "ex_qp_made st \<Longrightarrow> QP_GetInstance e st = (True, st)"
  "ex_ff_made st \<Longrightarrow> FF_GetInstance e st = (True, st)"
  by (simp_all add: PM_GetInstance_def TP_GetInstance_def QP_GetInstance_def FF_GetInstance_def)

text \<open>\<open>singletons_ok\<close>: what an engine needs exists or can be created.\<close>

definition singletons_ok :: "xenv \<Rightarrow> 'p exec \<Rightarrow> bool" where
  "singletons_ok e st \<longleftrightarrow> (ex_pm_made st \<or> xe_new_pm e) \<and> (ex_tp_made st \<or> xe_new_tp e) \<and>
     (ex_qp_made st \<or> xe_new_qp e)"

lemma GetInstance_ok:
  "ex_pm_made st \<or> xe_new_pm e \<Longrightarrow> PM_GetInstance e st = (True, st\<lparr>ex_pm_made := True\<rparr>)"
  "ex_tp_made st \<or> xe_new_tp e \<Longrightarrow> TP_GetInstance e st = (True, st\<lparr>ex_tp_made := True\<rparr>)"
  "ex_qp_made st \<or> xe_new_qp e \<Longrightarrow> QP_GetInstance e st = (True, st\<lparr>ex_qp_made := True\<rparr>)"
  "ex_ff_made st \<or> xe_new_ff e \<Longrightarrow> FF_GetInstance e st = (True, st\<lparr>ex_ff_made := True\<rparr>)"
  by (auto simp: PM_GetInstance_def TP_GetInstance_def QP_GetInstance_def FF_GetInstance_def)

section \<open>Message handlers\<close>

text \<open>The capacities, and changing the plugin of a handler.\<close>

definition GetSynMsgQueueCapacity :: nat where "GetSynMsgQueueCapacity = MAX_SYNC_MSG_NUM"
definition GetAsyncMsgQueueCapacity :: nat where "GetAsyncMsgQueueCapacity = MAX_ASYNC_MSG_NUM"

fun handler_SetPluginAlgorithm :: "nat option \<Rightarrow> handler \<Rightarrow> handler" where
  "handler_SetPluginAlgorithm alg (SyncMsgHandler q old) = SyncMsgHandler q alg"
| "handler_SetPluginAlgorithm alg (AsyncMsgHandler q old) = AsyncMsgHandler q alg"

text \<open>\<open>SyncMsgHandler::Process\<close>: the response goes to the task's notifier, or is destroyed.\<close>

definition SyncMsgHandler_Process ::
  "'p plug_ops \<Rightarrow> bool \<Rightarrow> nat option \<Rightarrow> Task \<Rightarrow> 'p exec \<Rightarrow> (retcode \<times> 'p exec) option" where
  "SyncMsgHandler_Process ops new_response alg task st =
     (case alg of
        None \<Rightarrow> Some (RETCODE_PLUGIN_LOAD_FAILED, st)
      | Some pa \<Rightarrow>
          (case tk_request task of
             None \<Rightarrow> Some (RETCODE_NULL_PARAM, st)
           | Some request \<Rightarrow>
               (let (processRetCode, response, p') = po_SyncProcess ops request (ex_algs st pa);
                    st1 = set_alg pa p' st in
                if response = None \<and> \<not> new_response then Some (RETCODE_OUT_OF_MEMORY, st1)
                else (let response1 = (case response of None \<Rightarrow> Response_new (Some request) | Some r \<Rightarrow> r);
                          response2 = Response_SetRetCode
                            (if processRetCode \<noteq> RETCODE_SUCCESS then RETCODE_ALGORITHM_PROCESS_ERROR
                             else RETCODE_SUCCESS) response1 in
                      case tk_notifier task of
                        None \<Rightarrow> Some (processRetCode, st1)
                      | Some n \<Rightarrow>
                          (case ex_notifiers st1 n of
                             None \<Rightarrow> None
                           | Some nt \<Rightarrow>
                               Some (processRetCode,
                                 st1\<lparr>ex_notifiers := (ex_notifiers st1)(n \<mapsto> AddToBack (Some response2) nt)\<rparr>))))))"

text \<open>
  \<open>AsyncMsgHandler::OnEvent\<close>, and the events of one call in order. A task reaches the handler
  only after the factory made its future, so the factory exists here.
\<close>

definition AsyncMsgHandler_OnEvent :: "PluginEvent \<Rightarrow> Response option \<Rightarrow> 'p exec \<Rightarrow> retcode \<times> 'p exec" where
  "AsyncMsgHandler_OnEvent event response st =
     (case response of
        None \<Rightarrow> (RETCODE_NULL_PARAM, st)
      | Some res \<Rightarrow>
          (let (r, ff', reply) = ProcessResponse event (Some res) (ex_ff st) in
           (r, st\<lparr>ex_ff := ff',
                  ex_replies := ex_replies st @ (case reply of None \<Rightarrow> [] | Some x \<Rightarrow> [x])\<rparr>)))"

fun on_events :: "(PluginEvent \<times> Response option) list \<Rightarrow> 'p exec \<Rightarrow> 'p exec" where
  "on_events [] st = st"
| "on_events ((ev, r) # es) st = on_events es (snd (AsyncMsgHandler_OnEvent ev r st))"

definition AsyncMsgHandler_Process ::
  "'p plug_ops \<Rightarrow> nat option \<Rightarrow> Task \<Rightarrow> 'p exec \<Rightarrow> (retcode \<times> 'p exec) option" where
  "AsyncMsgHandler_Process ops alg task st =
     (case alg of
        None \<Rightarrow> Some (RETCODE_PLUGIN_LOAD_FAILED, st)
      | Some pa \<Rightarrow>
          (case tk_request task of
             None \<Rightarrow> Some (RETCODE_NULL_PARAM, st)
           | Some request \<Rightarrow>
               (let (r, events, p') = po_AsyncProcess ops request (ex_algs st pa) in
                Some (r, on_events events (set_alg pa p' st)))))"

text \<open>The virtual call through a task's handler.\<close>

definition handler_Process ::
  "'p plug_ops \<Rightarrow> bool \<Rightarrow> nat \<Rightarrow> Task \<Rightarrow> 'p exec \<Rightarrow> (retcode \<times> 'p exec) option" where
  "handler_Process ops new_response h task st =
     (case ex_handlers st h of
        None \<Rightarrow> None
      | Some (SyncMsgHandler q alg) \<Rightarrow> SyncMsgHandler_Process ops new_response alg task st
      | Some (AsyncMsgHandler q alg) \<Rightarrow> AsyncMsgHandler_Process ops alg task st)"

definition SyncMsgHandler_SendRequest ::
  "nat \<Rightarrow> Request option \<Rightarrow> nat \<Rightarrow> 'p exec \<Rightarrow> (retcode \<times> 'p exec) option" where
  "SyncMsgHandler_SendRequest h request notifier st =
     (case ex_handlers st h of
        Some (SyncMsgHandler qa alg) \<Rightarrow>
          (if request = None then Some (RETCODE_NULL_PARAM, st)
           else do {
             q \<leftarrow> queue_at qa st;
             if Queue_Count q \<ge> GetSynMsgQueueCapacity then Some (RETCODE_QUEUE_FULL, st)
             else do {
               (r, q') \<leftarrow> PushBack \<lparr>tk_handler = Some h, tk_request = request, tk_notifier = Some notifier\<rparr> q;
               Some (r, set_queue qa q' st)
             }
           })
      | _ \<Rightarrow> None)"

text \<open>The time-out of the engine is \<open>-1\<close>: the caller waits for ever, \<open>None\<close> while it is blocked.\<close>

definition SyncMsgHandler_ReceiveResponse ::
  "int \<Rightarrow> bool \<Rightarrow> nat \<Rightarrow> 'p exec \<Rightarrow> (retcode \<times> Response option \<times> 'p exec) option" where
  "SyncMsgHandler_ReceiveResponse timeOut timed_out n st =
     do {
       nt \<leftarrow> ex_notifiers st n;
       (ok, item, nt') \<leftarrow> GetFromFront timeOut timed_out nt;
       let st' = st\<lparr>ex_notifiers := (ex_notifiers st)(n \<mapsto> nt')\<rparr>;
       if \<not> ok then Some (RETCODE_SYNC_MSG_TIMEOUT, None, st')
       else Some (RETCODE_SUCCESS, case item of None \<Rightarrow> None | Some x \<Rightarrow> x, st')
     }"

definition AsyncMsgHandler_SendRequest ::
  "xenv \<Rightarrow> nat \<Rightarrow> Request option \<Rightarrow> 'p exec \<Rightarrow> (retcode \<times> 'p exec) option" where
  "AsyncMsgHandler_SendRequest e h request st =
     (case ex_handlers st h of
        Some (AsyncMsgHandler qa alg) \<Rightarrow>
          (if request = None then Some (RETCODE_NULL_PARAM, st)
           else do {
             q \<leftarrow> queue_at qa st;
             if Queue_Count q \<ge> GetAsyncMsgQueueCapacity then Some (RETCODE_QUEUE_FULL, st)
             else do {
               let (ok, st0) = FF_GetInstance e st;
               if \<not> ok then Some (RETCODE_NULL_PARAM, st0)
               else do {
                 (r, request1, ff') \<leftarrow> CreateFuture (xe_now e) (xe_new_future e) request (ex_ff st0);
                 let st1 = st0\<lparr>ex_ff := ff'\<rparr>;
                 if r \<noteq> RETCODE_SUCCESS then Some (r, st1)
                 else do {
                   (r2, q') \<leftarrow> PushBack \<lparr>tk_handler = Some h, tk_request = request1, tk_notifier = None\<rparr> q;
                   Some (r2, set_queue qa q' st1)
                 }
               }
             }
           })
      | _ \<Rightarrow> None)"

section \<open>The worker of an engine\<close>

fun ClearQueue_loop :: "nat \<Rightarrow> Task Queue \<Rightarrow> (Request option list \<times> Task Queue) option" where
  "ClearQueue_loop 0 q = Some ([], q)"
| "ClearQueue_loop (Suc k) q =
     (case PopFront q of
        None \<Rightarrow> None
      | Some (r, t, q') \<Rightarrow>
          if r \<noteq> RETCODE_SUCCESS then Some ([], q')
          else map_option (\<lambda>(rs, q''). ((case t of None \<Rightarrow> None | Some x \<Rightarrow> tk_request x) # rs, q''))
                 (ClearQueue_loop k q'))"

text \<open>The requests destroyed, and the queue.\<close>

definition ClearQueue :: "Task Queue \<Rightarrow> (Request option list \<times> Task Queue) option" where
  "ClearQueue q = ClearQueue_loop (Queue_Count q) q"

definition EngineWorker_OneAction ::
  "'p plug_ops \<Rightarrow> bool \<Rightarrow> nat \<Rightarrow> 'p exec \<Rightarrow> (bool \<times> 'p exec) option" where
  "EngineWorker_OneAction ops new_response qa st =
     do {
       q \<leftarrow> queue_at qa st;
       if Queue_IsEmpty q then Some (True, st)
       else do {
         (r, t, q') \<leftarrow> PopFront q;
         let st1 = set_queue qa q' st;
         if r \<noteq> RETCODE_SUCCESS then Some (True, st1)
         else case t of
             None \<Rightarrow> Some (True, st1)
           | Some task \<Rightarrow>
               (case tk_handler task of
                  None \<Rightarrow> Some (True, st1)
                | Some h \<Rightarrow> map_option (\<lambda>(r, st2). (True, st2)) (handler_Process ops new_response h task st1))
       }
     }"

fun worker_actions :: "'p plug_ops \<Rightarrow> bool \<Rightarrow> nat \<Rightarrow> nat \<Rightarrow> 'p exec \<Rightarrow> 'p exec option" where
  "worker_actions ops nr qa 0 st = Some st"
| "worker_actions ops nr qa (Suc k) st =
     (case EngineWorker_OneAction ops nr qa st of
        None \<Rightarrow> None
      | Some (go_on, st1) \<Rightarrow> if \<not> go_on then Some st1 else worker_actions ops nr qa k st1)"

section \<open>The engine\<close>

definition plugin_at :: "nat option \<Rightarrow> 'p exec \<Rightarrow> Plugin option" where
  "plugin_at a st = (case a of None \<Rightarrow> None | Some x \<Rightarrow> pm_heap (ex_pm st) x)"

definition IsSyncMode :: "'p plug_ops \<Rightarrow> nat \<Rightarrow> 'p exec \<Rightarrow> bool" where
  "IsSyncMode ops pa st \<longleftrightarrow>
     (case po_InferMode ops (ex_algs st pa) of None \<Rightarrow> False | Some m \<Rightarrow> m = PLUGIN_SYNC_INFER)"

text \<open>
  A new engine: its handler comes with \<open>Initialize\<close>, its worker is a member of the object (it
  gets an address of its own here).
\<close>

definition Engine_new :: "nat option \<Rightarrow> nat option \<Rightarrow> nat option \<Rightarrow> nat \<Rightarrow> Engine" where
  "Engine_new plugin thread queue worker =
     \<lparr>en_refCount = 0, en_plugin = plugin, en_thread = thread, en_queue = queue,
      en_msgHandler = None, en_worker = worker\<rparr>"

text \<open>The count is a \<open>std::atomic<int>\<close>, whose arithmetic wraps.\<close>

definition GetEngineReference :: "Engine \<Rightarrow> int" where
  "GetEngineReference e = en_refCount e"

definition AddEngineReference :: "Engine \<Rightarrow> Engine" where
  "AddEngineReference e = e\<lparr>en_refCount := swrap 32 (en_refCount e + 1)\<rparr>"

definition DelEngineReference :: "Engine \<Rightarrow> Engine" where
  "DelEngineReference e = e\<lparr>en_refCount := swrap 32 (en_refCount e - 1)\<rparr>"

definition Engine_Initialize ::
  "'p plug_ops \<Rightarrow> xenv \<Rightarrow> nat \<Rightarrow> 'p exec \<Rightarrow> (retcode \<times> 'p exec) option" where
  "Engine_Initialize ops e a st =
     do {
       en \<leftarrow> ex_objs st a;
       p \<leftarrow> plugin_at (en_plugin en) st;
       case GetPluginAlgorithm p of
         None \<Rightarrow> Some (RETCODE_NULL_PARAM, st)
       | Some pa \<Rightarrow>
           if \<not> xe_new_handler e then Some (RETCODE_OUT_OF_MEMORY, st)
           else do {
             qa \<leftarrow> en_queue en;
             ta \<leftarrow> en_thread en;
             let h = ex_next st;
             let hd = (if IsSyncMode ops pa st then SyncMsgHandler qa (Some pa) else AsyncMsgHandler qa (Some pa));
             (isStarted, s) \<leftarrow> Thread_StartThread (xe_create e) ta (Some (en_worker en))
                               \<lparr>ts_threads = tp_heap (ex_tp st), ts_workers = ex_workers st\<rparr>;
             let st1 = st\<lparr>ex_tp := (ex_tp st)\<lparr>tp_heap := ts_threads s\<rparr>, ex_workers := ts_workers s,
                         ex_next := Suc h\<rparr>;
             if \<not> isStarted then Some (RETCODE_START_THREAD_FAILED, st1)
             else Some (RETCODE_SUCCESS,
               set_obj a (en\<lparr>en_msgHandler := Some h\<rparr>) (st1\<lparr>ex_handlers := (ex_handlers st1)(h \<mapsto> hd)\<rparr>))
           }
     }"

text \<open>
  Stopping the engine's thread: when its body is running, it ends with the worker's
  \<open>Uninitialize\<close>, which clears the queue, before the join returns.
\<close>

definition Engine_StopThread :: "xenv \<Rightarrow> nat \<Rightarrow> nat option \<Rightarrow> 'p exec \<Rightarrow> 'p exec option" where
  "Engine_StopThread e ta qa0 st =
     do {
       t \<leftarrow> tp_heap (ex_tp st) ta;
       t1 \<leftarrow> Thread_StopThread (xe_alive e) (xe_ends e) t;
       let st1 = st\<lparr>ex_tp := (ex_tp st)\<lparr>tp_heap := (tp_heap (ex_tp st))(ta \<mapsto> t1)\<rparr>\<rparr>;
       if IsActive (xe_alive e) t then
         do { qa \<leftarrow> qa0; q \<leftarrow> queue_at qa st1; (rs, q') \<leftarrow> ClearQueue q; Some (set_queue qa q' st1) }
       else Some st1
     }"

text \<open>
  \<open>Uninitialize\<close> in its three stages, for the thread, the queue and the handler. A pool that is
  null ends it early, which the first result of the first two stages says.
\<close>

definition Uninitialize_thread :: "xenv \<Rightarrow> Engine \<Rightarrow> 'p exec \<Rightarrow> (bool \<times> 'p exec) option" where
  "Uninitialize_thread e en st =
     (case en_thread en of
        None \<Rightarrow> Some (True, st)
      | Some ta \<Rightarrow> do {
          st' \<leftarrow> Engine_StopThread e ta (en_queue en) st;
          let (ok, st1) = TP_GetInstance e st';
          if \<not> ok then Some (False, st1)
          else do { tp' \<leftarrow> ThreadPool_Push (xe_alive e, xe_ends e) ta (ex_tp st1);
                    Some (True, st1\<lparr>ex_tp := tp'\<rparr>) }
        })"

definition Uninitialize_queue :: "xenv \<Rightarrow> Engine \<Rightarrow> 'p exec \<Rightarrow> (bool \<times> 'p exec) option" where
  "Uninitialize_queue e en st =
     (case en_queue en of
        None \<Rightarrow> Some (True, st)
      | Some qa \<Rightarrow>
          (let (ok, st1) = QP_GetInstance e st in
           if \<not> ok then Some (False, st1)
           else do { qp' \<leftarrow> QueuePool_Push (Some qa) (ex_qp st1);
                     Some (True, st1\<lparr>ex_qp := qp'\<rparr>) }))"

definition Engine_Uninitialize :: "xenv \<Rightarrow> nat \<Rightarrow> 'p exec \<Rightarrow> 'p exec option" where
  "Engine_Uninitialize e a st =
     do {
       en \<leftarrow> ex_objs st a;
       (ok1, st1) \<leftarrow> Uninitialize_thread e en st;
       if \<not> ok1 then Some st1
       else do {
         let en1 = en\<lparr>en_thread := None\<rparr>;
         (ok2, st2) \<leftarrow> Uninitialize_queue e en st1;
         if \<not> ok2 then Some (set_obj a en1 st2)
         else Some (set_obj a (en1\<lparr>en_msgHandler := None\<rparr>)
                (st2\<lparr>ex_handlers := (case en_msgHandler en of
                    None \<Rightarrow> ex_handlers st2 | Some h \<Rightarrow> (ex_handlers st2)(h := None))\<rparr>))
       }
     }"

text \<open>The destructor, after which the object is gone.\<close>

definition Engine_dtor :: "xenv \<Rightarrow> nat \<Rightarrow> 'p exec \<Rightarrow> 'p exec option" where
  "Engine_dtor e a st =
     do { st1 \<leftarrow> Engine_Uninitialize e a st; Some (st1\<lparr>ex_objs := (ex_objs st1)(a := None)\<rparr>) }"

text \<open>
  \<open>SyncExecute\<close> up to the wait, and from the wait on. The notifier lives on the caller's stack;
  the first component of the result of sending is \<open>Inl\<close> the return code, or \<open>Inr\<close> the notifier
  to wait on.
\<close>

definition Engine_SyncExecute_send ::
  "nat \<Rightarrow> Request option \<Rightarrow> 'p exec \<Rightarrow> ((retcode + nat) \<times> 'p exec) option" where
  "Engine_SyncExecute_send a request st =
     do {
       en \<leftarrow> ex_objs st a;
       if en_plugin en = None then Some (Inl RETCODE_PLUGIN_LOAD_FAILED, st)
       else case en_msgHandler en of
           None \<Rightarrow> Some (Inl RETCODE_NULL_PARAM, st)
         | Some h \<Rightarrow>
             if request = None then Some (Inl RETCODE_NULL_PARAM, st)
             else do {
               let n = ex_next st;
               let st1 = st\<lparr>ex_notifiers := (ex_notifiers st)(n \<mapsto> Notifier_new), ex_next := Suc n\<rparr>;
               (r, st2) \<leftarrow> SyncMsgHandler_SendRequest h request n st1;
               if r \<noteq> RETCODE_SUCCESS
               then Some (Inl r, st2\<lparr>ex_notifiers := (ex_notifiers st2)(n := None)\<rparr>)
               else Some (Inr n, st2)
             }
     }"

definition Engine_SyncExecute_receive ::
  "nat \<Rightarrow> 'p exec \<Rightarrow> (retcode \<times> Response option \<times> 'p exec) option" where
  "Engine_SyncExecute_receive n st =
     do {
       (r, response, st1) \<leftarrow> SyncMsgHandler_ReceiveResponse SYNC_MSG_TIMEOUT False n st;
       let st2 = st1\<lparr>ex_notifiers := (ex_notifiers st1)(n := None)\<rparr>;
       if r \<noteq> RETCODE_SUCCESS then Some (r, response, st2)
       else do { res \<leftarrow> response; Some (Response_GetRetCode res, response, st2) }
     }"

definition Engine_AsyncExecute ::
  "xenv \<Rightarrow> nat \<Rightarrow> Request option \<Rightarrow> 'p exec \<Rightarrow> (retcode \<times> 'p exec) option" where
  "Engine_AsyncExecute e a request st =
     do {
       en \<leftarrow> ex_objs st a;
       if en_plugin en = None then Some (RETCODE_PLUGIN_LOAD_FAILED, st)
       else case en_msgHandler en of
           None \<Rightarrow> Some (RETCODE_NULL_PARAM, st)
         | Some h \<Rightarrow> AsyncMsgHandler_SendRequest e h request st
     }"

section \<open>The engine manager\<close>

definition FindEngine_client :: "int \<Rightarrow> 'p exec \<Rightarrow> nat option" where
  "FindEngine_client transactionId st = sm_find (em_clientEngines st) transactionId"

definition FindEngine_key :: "EngineKey \<Rightarrow> 'p exec \<Rightarrow> nat option" where
  "FindEngine_key k st = sm_find (em_engines st) k"

definition RecordClient :: "int \<Rightarrow> nat \<Rightarrow> 'p exec \<Rightarrow> 'p exec" where
  "RecordClient transactionId a st =
     st\<lparr>em_clientEngines := sm_put transactionId a (em_clientEngines st)\<rparr>"

definition UnRecordClient :: "int \<Rightarrow> 'p exec \<Rightarrow> 'p exec" where
  "UnRecordClient transactionId st =
     st\<lparr>em_clientEngines := sm_erase transactionId (em_clientEngines st)\<rparr>"

definition DelEngine :: "EngineKey \<Rightarrow> 'p exec \<Rightarrow> 'p exec" where
  "DelEngine k st = st\<lparr>em_engines := sm_erase k (em_engines st)\<rparr>"

text \<open>
  Shared pointers to an engine are in the two maps and in the local variables of the callers
  that wait in \<open>SyncExecute\<close>. \<open>drop_engine\<close> is the end of the life of a local variable, and
  destroys the engine if nothing else holds it.
\<close>

definition engine_held :: "nat \<Rightarrow> 'p exec \<Rightarrow> bool" where
  "engine_held a st \<longleftrightarrow> a \<in> snd ` set (em_engines st) \<or> a \<in> snd ` set (em_clientEngines st) \<or>
     a \<in> snd ` set (ex_waiting st)"

definition drop_engine :: "xenv \<Rightarrow> nat \<Rightarrow> 'p exec \<Rightarrow> 'p exec option" where
  "drop_engine e a st = (if engine_held a st then Some st else Engine_dtor e a st)"

text \<open>
  \<open>CreateEngine\<close>, from its last stage to its first: the engine it delivers is in the second
  component - also when \<open>Initialize\<close> failed, for the output argument has been reset by then.
  A null queue pool ends it with the thread still taken.
\<close>

definition CreateEngine_object ::
  "'p plug_ops \<Rightarrow> xenv \<Rightarrow> nat option \<Rightarrow> nat \<Rightarrow> nat \<Rightarrow> 'p exec \<Rightarrow> (retcode \<times> nat option \<times> 'p exec) option" where
  "CreateEngine_object ops e plugin ta qa st =
     (if \<not> xe_new_engine e then
        do { qp2 \<leftarrow> QueuePool_Push (Some qa) (ex_qp st);
             tp2 \<leftarrow> ThreadPool_Push (xe_alive e, xe_ends e) ta (ex_tp st);
             Some (RETCODE_ENGINE_NOT_EXIST, None, st\<lparr>ex_qp := qp2, ex_tp := tp2\<rparr>) }
      else do {
        let a = ex_next st;
        let w = Suc a;
        let st3 = set_obj a (Engine_new plugin (Some ta) (Some qa) w)
          (st\<lparr>ex_workers := (ex_workers st)(w \<mapsto> IWorker_new), ex_next := Suc w\<rparr>);
        (ret, st4) \<leftarrow> Engine_Initialize ops e a st3;
        if ret \<noteq> RETCODE_SUCCESS then
          do { qp2 \<leftarrow> QueuePool_Push (Some qa) (ex_qp st4);
               tp2 \<leftarrow> ThreadPool_Push (xe_alive e, xe_ends e) ta (ex_tp st4);
               Some (ret, Some a, st4\<lparr>ex_qp := qp2, ex_tp := tp2\<rparr>) }
        else Some (RETCODE_SUCCESS, Some a, st4)
      })"

definition CreateEngine_queue ::
  "'p plug_ops \<Rightarrow> xenv \<Rightarrow> nat option \<Rightarrow> nat \<Rightarrow> 'p exec \<Rightarrow> (retcode \<times> nat option \<times> 'p exec) option" where
  "CreateEngine_queue ops e plugin ta st0 =
     (let (ok, st) = QP_GetInstance e st0 in
      if \<not> ok then Some (RETCODE_OUT_OF_MEMORY, None, st)
      else case QueuePool_Pop (xe_new_queue e) (xe_new_nodes e) (ex_qp st) of
             (None, qp') \<Rightarrow>
               do { tp2 \<leftarrow> ThreadPool_Push (xe_alive e, xe_ends e) ta (ex_tp st);
                    Some (RETCODE_OUT_OF_MEMORY, None, st\<lparr>ex_qp := qp', ex_tp := tp2\<rparr>) }
           | (Some qa, qp') \<Rightarrow> CreateEngine_object ops e plugin ta qa (st\<lparr>ex_qp := qp'\<rparr>))"

definition CreateEngine_thread ::
  "'p plug_ops \<Rightarrow> xenv \<Rightarrow> nat option \<Rightarrow> 'p exec \<Rightarrow> (retcode \<times> nat option \<times> 'p exec) option" where
  "CreateEngine_thread ops e plugin st0 =
     (let (ok, st) = TP_GetInstance e st0 in
      if \<not> ok then Some (RETCODE_OUT_OF_MEMORY, None, st)
      else case ThreadPool_Pop (xe_new_thread e) (ex_tp st) of
             (None, tp') \<Rightarrow> Some (RETCODE_OUT_OF_MEMORY, None, st\<lparr>ex_tp := tp'\<rparr>)
           | (Some ta, tp') \<Rightarrow> CreateEngine_queue ops e plugin ta (st\<lparr>ex_tp := tp'\<rparr>))"

definition CreateEngine ::
  "'p plug_ops \<Rightarrow> xenv \<Rightarrow> EngineKey \<Rightarrow> 'p exec \<Rightarrow> (retcode \<times> nat option \<times> 'p exec) option" where
  "CreateEngine ops e k st0 =
     (let (ok, st) = PM_GetInstance e st0 in
      if \<not> ok then Some (RETCODE_NULL_PARAM, None, st)
      else let (r, plugin, pm') = GetPlugin (xe_ld e) (xe_label e) (ek_aid k) (ek_version k) (ex_pm st);
               st1 = st\<lparr>ex_pm := pm'\<rparr> in
           if r \<noteq> RETCODE_SUCCESS then Some (r, None, st1)
           else CreateEngine_thread ops e plugin st1)"

definition CreateEngineWithCheck ::
  "'p plug_ops \<Rightarrow> xenv \<Rightarrow> EngineKey \<Rightarrow> 'p exec \<Rightarrow> (retcode \<times> nat option \<times> 'p exec) option" where
  "CreateEngineWithCheck ops e k st =
     (case sm_find (em_engines st) k of
        Some a \<Rightarrow> Some (RETCODE_SUCCESS, Some a, st)
      | None \<Rightarrow>
          do {
            (retCode, engine, st1) \<leftarrow> CreateEngine ops e k st;
            if retCode \<noteq> RETCODE_SUCCESS then Some (retCode, engine, st1)
            else do { a \<leftarrow> engine;
                      Some (RETCODE_SUCCESS, engine, st1\<lparr>em_engines := sm_put k a (em_engines st1)\<rparr>) }
          })"

text \<open>The plugin's algorithm object, dereferenced without a check.\<close>

definition algorithm_of :: "Engine \<Rightarrow> 'p exec \<Rightarrow> nat option" where
  "algorithm_of en st = do { p \<leftarrow> plugin_at (en_plugin en) st; GetPluginAlgorithm p }"

definition StartEngine ::
  "'p plug_ops \<Rightarrow> xenv \<Rightarrow> int \<Rightarrow> AlgorithmInfo \<Rightarrow> DataInfo \<Rightarrow> DataInfo \<Rightarrow> 'p exec \<Rightarrow>
   (retcode \<times> DataInfo \<times> 'p exec) option" where
  "StartEngine ops e transactionId algoInfo inputInfo outputInfo st =
     (let aid = GetAlgorithmIdByType (ai_algorithmType algoInfo) in
      if aid = ALGORITHM_ID_INVALID then Some (RETCODE_ALGORITHM_ID_INVALID, outputInfo, st)
      else do {
        let k = EngineKey aid (ai_algorithmVersion algoInfo);
        (retCode, engine, st1) \<leftarrow> (case FindEngine_key k st of
                                    Some a \<Rightarrow> Some (RETCODE_SUCCESS, Some a, st)
                                  | None \<Rightarrow> CreateEngineWithCheck ops e k st);
        if retCode \<noteq> RETCODE_SUCCESS then
          (case engine of
             None \<Rightarrow> Some (retCode, outputInfo, st1)
           | Some a \<Rightarrow> do { st2 \<leftarrow> drop_engine e a st1; Some (retCode, outputInfo, st2) })
        else do {
          a \<leftarrow> engine;
          en \<leftarrow> ex_objs st1 a;
          if en_plugin en = None then Some (RETCODE_FAILURE, outputInfo, st1)
          else do {
            pa \<leftarrow> algorithm_of en st1;
            let (r2, out2, p') = po_Prepare ops transactionId inputInfo outputInfo (ex_algs st1 pa);
            let st2 = set_alg pa p' st1;
            if r2 \<noteq> RETCODE_SUCCESS then Some (r2, out2, st2)
            else Some (RETCODE_SUCCESS, out2,
                   RecordClient transactionId a (set_obj a (AddEngineReference en) st2))
          }
        }
      })"

definition StopEngine ::
  "'p plug_ops \<Rightarrow> xenv \<Rightarrow> int \<Rightarrow> DataInfo \<Rightarrow> 'p exec \<Rightarrow> (retcode \<times> 'p exec) option" where
  "StopEngine ops e transactionId inputInfo st =
     (case FindEngine_client transactionId st of
        None \<Rightarrow> Some (RETCODE_SA_SERVICE_EXCEPTION, st)
      | Some a \<Rightarrow>
          do {
            en \<leftarrow> ex_objs st a;
            if en_plugin en = None then Some (RETCODE_SA_SERVICE_EXCEPTION, st)
            else do {
              pa \<leftarrow> algorithm_of en st;
              p \<leftarrow> plugin_at (en_plugin en) st;
              let isFullUnload = (GetEngineReference en = PLUGIN_NUM_FOR_UNLOAD);
              let (r, p') = po_Release ops isFullUnload transactionId inputInfo (ex_algs st pa);
              let st1 = set_alg pa p' st;
              if r \<noteq> RETCODE_SUCCESS then Some (r, st1)
              else do {
                let en1 = DelEngineReference en;
                let st2 = set_obj a en1 st1;
                let unused = (GetEngineReference en1 = 0);
                let (ok, st3) = (if unused then PM_GetInstance e st2 else (True, st2));
                if \<not> ok then Some (RETCODE_NULL_PARAM, st3)
                else do {
                  let st4 = (if unused
                             then DelEngine (EngineKey (Plugin_GetAid p) (Plugin_GetVersion p))
                                    (st3\<lparr>ex_pm := UnloadPlugin (Plugin_GetAid p) (Plugin_GetVersion p) (ex_pm st3)\<rparr>)
                             else st3);
                  st5 \<leftarrow> drop_engine e a (UnRecordClient transactionId st4);
                  Some (RETCODE_SUCCESS, st5)
                }
              }
            }
          })"

definition EM_SetOption ::
  "'p plug_ops \<Rightarrow> int \<Rightarrow> int \<Rightarrow> DataInfo \<Rightarrow> 'p exec \<Rightarrow> (retcode \<times> 'p exec) option" where
  "EM_SetOption ops transactionId optionType inputInfo st =
     (case FindEngine_client transactionId st of
        None \<Rightarrow> Some (RETCODE_SA_SERVICE_EXCEPTION, st)
      | Some a \<Rightarrow>
          do {
            en \<leftarrow> ex_objs st a;
            if en_plugin en = None then Some (RETCODE_SA_SERVICE_EXCEPTION, st)
            else do {
              pa \<leftarrow> algorithm_of en st;
              let (r, p') = po_SetOption ops optionType inputInfo (ex_algs st pa);
              Some (r, set_alg pa p' st)
            }
          })"

definition EM_GetOption ::
  "'p plug_ops \<Rightarrow> int \<Rightarrow> int \<Rightarrow> DataInfo \<Rightarrow> DataInfo \<Rightarrow> 'p exec \<Rightarrow> (retcode \<times> DataInfo \<times> 'p exec) option" where
  "EM_GetOption ops transactionId optionType inputInfo outputInfo st =
     (case FindEngine_client transactionId st of
        None \<Rightarrow> Some (RETCODE_SA_SERVICE_EXCEPTION, outputInfo, st)
      | Some a \<Rightarrow>
          do {
            en \<leftarrow> ex_objs st a;
            if en_plugin en = None then Some (RETCODE_SA_SERVICE_EXCEPTION, outputInfo, st)
            else do {
              pa \<leftarrow> algorithm_of en st;
              let (r, out', p') = po_GetOption ops optionType inputInfo outputInfo (ex_algs st pa);
              Some (r, out', set_alg pa p' st)
            }
          })"

text \<open>The manager's end: the maps are cleared and the plugin manager is destroyed.\<close>

definition exec_init :: "(nat \<Rightarrow> 'p) \<Rightarrow> 'p exec" where
  "exec_init algs = \<lparr>ex_pm = PluginManager_new, ex_tp = ThreadPool_new, ex_qp = QueuePool_new MAX_SYNC_MSG_NUM,
     ex_workers = (\<lambda>_. None), ex_handlers = (\<lambda>_. None), ex_objs = (\<lambda>_. None), ex_notifiers = (\<lambda>_. None),
     ex_next = 0, ex_ff = FutureFactory_new, ex_replies = [], ex_algs = algs,
     em_engines = [], em_clientEngines = [], ex_waiting = [],
     ex_pm_made = False, ex_tp_made = False, ex_qp_made = False, ex_ff_made = False\<rparr>"

fun drop_engines :: "xenv \<Rightarrow> nat list \<Rightarrow> 'p exec \<Rightarrow> 'p exec option" where
  "drop_engines e [] st = Some st"
| "drop_engines e (a # as) st =
     (if ex_objs st a = None then drop_engines e as st
      else do { st1 \<leftarrow> drop_engine e a st; drop_engines e as st1 })"

definition EngineManager_Uninitialize :: "xenv \<Rightarrow> 'p exec \<Rightarrow> 'p exec option" where
  "EngineManager_Uninitialize e st =
     do {
       st1 \<leftarrow> drop_engines e (map snd (em_engines st)) (st\<lparr>em_engines := []\<rparr>);
       st2 \<leftarrow> drop_engines e (map snd (em_clientEngines st1)) (st1\<lparr>em_clientEngines := []\<rparr>);
       let (ok, st3) = PM_GetInstance e st2;
       Some (if ok then st3\<lparr>ex_pm := (ex_pm st3)\<lparr>pm_pluginMap := []\<rparr>, ex_pm_made := False\<rparr> else st3)
     }"

section \<open>The server executor\<close>

definition EngineManager_Initialize :: retcode where "EngineManager_Initialize = RETCODE_SUCCESS"

text \<open>The first result is the return code, the second whether the manager exists afterwards.\<close>

definition ServerExecutor_Initialize :: "bool \<Rightarrow> retcode \<times> bool" where
  "ServerExecutor_Initialize new_manager =
     (if \<not> new_manager then (RETCODE_OUT_OF_MEMORY, False)
      else let retCode = EngineManager_Initialize in
           if retCode \<noteq> RETCODE_SUCCESS then (retCode, False) else (retCode, True))"

text \<open>The instance is whether its manager exists.\<close>

definition ServerExecutor_GetInstance :: "bool \<Rightarrow> bool \<Rightarrow> bool option \<Rightarrow> bool option" where
  "ServerExecutor_GetInstance new_executor new_manager instance0 =
     (case instance0 of
        Some x \<Rightarrow> Some x
      | None \<Rightarrow> if \<not> new_executor then None
                else (let (r, mgr) = ServerExecutor_Initialize new_manager in
                      if r \<noteq> RETCODE_SUCCESS then None else Some mgr))"

definition ServerExecutor_Uninitialize :: "xenv \<Rightarrow> bool \<Rightarrow> 'p exec \<Rightarrow> 'p exec option" where
  "ServerExecutor_Uninitialize e mgr st =
     do { st1 \<leftarrow> (if mgr then EngineManager_Uninitialize e st else Some st);
          Some (st1\<lparr>ex_ff := FutureFactory_new, ex_ff_made := False\<rparr>) }"

text \<open>\<open>mgr\<close>: whether the engine manager was created. Synchronous execution is split at the wait.\<close>

definition SE_StartEngine ::
  "'p plug_ops \<Rightarrow> xenv \<Rightarrow> bool \<Rightarrow> int \<Rightarrow> AlgorithmInfo \<Rightarrow> DataInfo \<Rightarrow> DataInfo \<Rightarrow> 'p exec \<Rightarrow>
   (retcode \<times> DataInfo \<times> 'p exec) option" where
  "SE_StartEngine ops e mgr transactionId algoInfo inputInfo outputInfo st =
     (if \<not> mgr then Some (RETCODE_ENGINE_MANAGER_NOT_INIT, outputInfo, st)
      else StartEngine ops e transactionId algoInfo inputInfo outputInfo st)"

definition SE_StopEngine ::
  "'p plug_ops \<Rightarrow> xenv \<Rightarrow> bool \<Rightarrow> int \<Rightarrow> DataInfo \<Rightarrow> 'p exec \<Rightarrow> (retcode \<times> 'p exec) option" where
  "SE_StopEngine ops e mgr transactionId inputInfo st =
     (if \<not> mgr then Some (RETCODE_ENGINE_MANAGER_NOT_INIT, st)
      else StopEngine ops e transactionId inputInfo st)"

definition SE_SetOption ::
  "'p plug_ops \<Rightarrow> bool \<Rightarrow> int \<Rightarrow> int \<Rightarrow> DataInfo \<Rightarrow> 'p exec \<Rightarrow> (retcode \<times> 'p exec) option" where
  "SE_SetOption ops mgr transactionId optionType inputInfo st =
     (if \<not> mgr then Some (RETCODE_ENGINE_MANAGER_NOT_INIT, st)
      else EM_SetOption ops transactionId optionType inputInfo st)"

definition SE_GetOption ::
  "'p plug_ops \<Rightarrow> bool \<Rightarrow> int \<Rightarrow> int \<Rightarrow> DataInfo \<Rightarrow> DataInfo \<Rightarrow> 'p exec \<Rightarrow> (retcode \<times> DataInfo \<times> 'p exec) option" where
  "SE_GetOption ops mgr transactionId optionType inputInfo outputInfo st =
     (if \<not> mgr then Some (RETCODE_ENGINE_MANAGER_NOT_INIT, outputInfo, st)
      else EM_GetOption ops transactionId optionType inputInfo outputInfo st)"

definition SE_SyncExecute_send ::
  "bool \<Rightarrow> Request option \<Rightarrow> 'p exec \<Rightarrow> ((retcode + nat) \<times> 'p exec) option" where
  "SE_SyncExecute_send mgr request st =
     (if \<not> mgr then Some (Inl RETCODE_ENGINE_MANAGER_NOT_INIT, st)
      else case request of
          None \<Rightarrow> Some (Inl RETCODE_NULL_PARAM, st)
        | Some req \<Rightarrow>
            (case FindEngine_client (Request_GetTransactionId req) st of
               None \<Rightarrow> Some (Inl RETCODE_ENGINE_NOT_EXIST, st)
             | Some a \<Rightarrow>
                 do {
                   (x, st1) \<leftarrow> Engine_SyncExecute_send a (Some req) st;
                   Some (x, case x of Inl r \<Rightarrow> st1 | Inr n \<Rightarrow> st1\<lparr>ex_waiting := (n, a) # ex_waiting st1\<rparr>)
                 }))"

text \<open>
  The waiting caller goes on: it takes its response, and with its return its shared pointer to
  the engine ends.
\<close>

definition SE_SyncExecute_receive ::
  "xenv \<Rightarrow> nat \<Rightarrow> 'p exec \<Rightarrow> (retcode \<times> Response option \<times> 'p exec) option" where
  "SE_SyncExecute_receive e n st =
     do {
       a \<leftarrow> map_of (ex_waiting st) n;
       (r, response, st1) \<leftarrow> Engine_SyncExecute_receive n st;
       st2 \<leftarrow> drop_engine e a (st1\<lparr>ex_waiting := filter (\<lambda>p. fst p \<noteq> n) (ex_waiting st1)\<rparr>);
       Some (r, response, st2)
     }"

definition SE_AsyncExecute :: "xenv \<Rightarrow> bool \<Rightarrow> Request option \<Rightarrow> 'p exec \<Rightarrow> (retcode \<times> 'p exec) option" where
  "SE_AsyncExecute e mgr request st =
     (if \<not> mgr then Some (RETCODE_ENGINE_MANAGER_NOT_INIT, st)
      else case request of
          None \<Rightarrow> Some (RETCODE_NULL_PARAM, st)
        | Some req \<Rightarrow>
            (case FindEngine_client (Request_GetTransactionId req) st of
               None \<Rightarrow> Some (RETCODE_ENGINE_NOT_EXIST, st)
             | Some a \<Rightarrow> Engine_AsyncExecute e a (Some req) st))"

definition SE_RegisterListener :: "xenv \<Rightarrow> nat \<Rightarrow> int \<Rightarrow> 'p exec \<Rightarrow> retcode \<times> 'p exec" where
  "SE_RegisterListener e listener transactionId st0 =
     (let (ok, st) = FF_GetInstance e st0 in
      if \<not> ok then (RETCODE_NULL_PARAM, st)
      else (RETCODE_SUCCESS, st\<lparr>ex_ff := FF_RegisterListener listener transactionId (ex_ff st)\<rparr>))"

definition SE_UnRegisterListener :: "xenv \<Rightarrow> int \<Rightarrow> 'p exec \<Rightarrow> retcode \<times> nat option \<times> 'p exec" where
  "SE_UnRegisterListener e transactionId st0 =
     (let (ok, st) = FF_GetInstance e st0 in
      if \<not> ok then (RETCODE_NULL_PARAM, None, st)
      else let (l, ff') = FF_UnregisterListener transactionId (ex_ff st) in
           (RETCODE_SUCCESS, l, st\<lparr>ex_ff := ff'\<rparr>))"

end
