(* ===== verification/EngineProofs.thy ===== *)
theory EngineProofs
  imports ServerExecutor
begin

text \<open>
  What the server executor guarantees of an engine in service: a synchronous request gets its
  own response, whatever is ahead of it in the queue, and an idle engine stays as it is.
\<close>

lemma dvd_sz [simp]: "64 dvd (2::nat) ^ 64"
  by (simp add: dvd_eq_mod_eq_0)

lemma sm_find_value: "sm_find m k = Some a \<Longrightarrow> a \<in> snd ` set m"
  by (induction m k rule: sm_find.induct) (auto split: if_splits)

section \<open>Synchronous execution\<close>

lemma set_queue_simps [simp]:
  "queue_at qa (set_queue qa q st) = Some q"
  "ex_objs (set_queue qa q st) = ex_objs st"
  "ex_handlers (set_queue qa q st) = ex_handlers st"
  "ex_notifiers (set_queue qa q st) = ex_notifiers st"
  "ex_algs (set_queue qa q st) = ex_algs st"
  "ex_next (set_queue qa q st) = ex_next st"
  by (simp_all add: set_queue_def queue_at_def)

lemma set_alg_simps [simp]:
  "queue_at qa (set_alg pa p st) = queue_at qa st"
  "ex_objs (set_alg pa p st) = ex_objs st"
  "ex_handlers (set_alg pa p st) = ex_handlers st"
  "ex_notifiers (set_alg pa p st) = ex_notifiers st"
  "ex_algs (set_alg pa p st) = (ex_algs st)(pa := p)"
  "ex_next (set_alg pa p st) = ex_next st"
  by (simp_all add: set_alg_def queue_at_def)

text \<open>An engine in service: its parts, and its queue with the pending tasks.\<close>

definition sync_engine :: "nat \<Rightarrow> nat \<Rightarrow> nat \<Rightarrow> nat \<Rightarrow> Task list \<Rightarrow> 'p exec \<Rightarrow> bool" where
  "sync_engine a h qa pa ts st \<longleftrightarrow> (\<exists>en q. ex_objs st a = Some en \<and> en_plugin en \<noteq> None \<and>
     en_msgHandler en = Some h \<and> ex_handlers st h = Some (SyncMsgHandler qa (Some pa)) \<and>
     queue_at qa st = Some q \<and> ring_inv q \<and> ring_abs q = ts \<and> q_totalNum q = MAX_SYNC_MSG_NUM)"

lemma Queue_Count_ring: "ring_inv q \<Longrightarrow> Queue_Count q = length (ring_abs q)"
  by (simp add: Queue_Count_def length_ring_abs)

lemma Queue_IsEmpty_ring: "ring_inv q \<Longrightarrow> Queue_IsEmpty q \<longleftrightarrow> ring_abs q = []"
  using length_ring_abs [of q] by (auto simp: Queue_IsEmpty_def)

lemma send_sync:
  assumes "sync_engine a h qa pa ts st" and "length ts < MAX_SYNC_MSG_NUM"
  shows "\<exists>st1. Engine_SyncExecute_send a (Some req) st = Some (Inr (ex_next st), st1) \<and>
    sync_engine a h qa pa (ts @ [\<lparr>tk_handler = Some h, tk_request = Some req, tk_notifier = Some (ex_next st)\<rparr>]) st1 \<and>
    ex_notifiers st1 = (ex_notifiers st)(ex_next st \<mapsto> Notifier_new) \<and> ex_algs st1 = ex_algs st \<and>
    ex_next st1 = Suc (ex_next st)"
proof -
  obtain en q where s: "ex_objs st a = Some en" "en_plugin en \<noteq> None" "en_msgHandler en = Some h"
      "ex_handlers st h = Some (SyncMsgHandler qa (Some pa))" "queue_at qa st = Some q" "ring_inv q"
      "ring_abs q = ts" "q_totalNum q = MAX_SYNC_MSG_NUM"
    using assms(1) by (auto simp: sync_engine_def)
  let ?t = "\<lparr>tk_handler = Some h, tk_request = Some req, tk_notifier = Some (ex_next st)\<rparr>"
  obtain q' where q': "PushBack ?t q = Some (0, q')" "ring_inv q'" "ring_abs q' = ts @ [?t]"
      "q_totalNum q' = MAX_SYNC_MSG_NUM"
    using ring.push_room [of q ?t] s assms(2) by auto
  have "\<not> MAX_SYNC_MSG_NUM \<le> Queue_Count q" using Queue_Count_ring [OF s(6)] s(7) assms(2) by simp
  then show ?thesis
    using s q' by (auto simp: Engine_SyncExecute_send_def SyncMsgHandler_SendRequest_def GetSynMsgQueueCapacity_def queue_at_def
        sync_engine_def set_queue_def Let_def)
qed

text \<open>The response the handler makes of what the plugin returned.\<close>

definition answer :: "Request \<Rightarrow> retcode \<Rightarrow> Response option \<Rightarrow> Response" where
  "answer req rc resp = Response_SetRetCode
     (if rc \<noteq> RETCODE_SUCCESS then RETCODE_ALGORITHM_PROCESS_ERROR else RETCODE_SUCCESS)
     (case resp of None \<Rightarrow> Response_new (Some req) | Some r \<Rightarrow> r)"

lemma worker_serves:
  assumes "sync_engine a h qa pa (t # ts) st" and "tk_handler t = Some h" and "tk_request t = Some req"
    and "tk_notifier t = Some n" and "ex_notifiers st n = Some nt"
    and "po_SyncProcess ops req (ex_algs st pa) = (rc, resp, p')" and "resp \<noteq> None \<or> nr"
  shows "\<exists>st1. EngineWorker_OneAction ops nr qa st = Some (True, st1) \<and> sync_engine a h qa pa ts st1 \<and>
    ex_notifiers st1 = (ex_notifiers st)(n \<mapsto> AddToBack (Some (answer req rc resp)) nt) \<and>
    ex_algs st1 = (ex_algs st)(pa := p')"
proof -
  obtain en q where s: "ex_objs st a = Some en" "en_plugin en \<noteq> None" "en_msgHandler en = Some h"
      "ex_handlers st h = Some (SyncMsgHandler qa (Some pa))" "queue_at qa st = Some q" "ring_inv q"
      "ring_abs q = t # ts" "q_totalNum q = MAX_SYNC_MSG_NUM"
    using assms(1) by (auto simp: sync_engine_def)
  obtain q' where q': "PopFront q = Some (0, Some t, q')" "ring_inv q'" "ring_abs q' = ts"
      "q_totalNum q' = MAX_SYNC_MSG_NUM"
    using ring.pop_some [OF s(6,7)] s(8) by auto
  have ne: "\<not> Queue_IsEmpty q" using Queue_IsEmpty_ring [OF s(6)] s(7) by simp
  define st1 where "st1 = (set_alg pa p' (set_queue qa q' st))\<lparr>ex_notifiers :=
    (ex_notifiers st)(n \<mapsto> AddToBack (Some (answer req rc resp)) nt)\<rparr>"
  have "SyncMsgHandler_Process ops nr (Some pa) t (set_queue qa q' st) = Some (rc, st1)"
    using assms(3-7) by (auto simp: SyncMsgHandler_Process_def st1_def answer_def Let_def)
  then have "EngineWorker_OneAction ops nr qa st = Some (True, st1)"
    using s q'(1) ne assms(2) by (simp add: EngineWorker_OneAction_def handler_Process_def Let_def)
  moreover have "sync_engine a h qa pa ts st1"
    using s(1-4) q'(2-4) by (simp add: sync_engine_def st1_def) (simp add: queue_at_def set_queue_def set_alg_def)
  ultimately show ?thesis by (simp add: st1_def)
qed

lemma receive_answer:
  assumes "ex_notifiers st n = Some (AddToBack (Some res) Notifier_new)"
  shows "Engine_SyncExecute_receive n st =
    Some (rs_retCode res, Some res, st\<lparr>ex_notifiers := (ex_notifiers st)(n := None)\<rparr>)"
  using assms get_ready [of "AddToBack (Some res) Notifier_new" "- 1" False]
  by (simp add: Engine_SyncExecute_receive_def SyncMsgHandler_ReceiveResponse_def AddToBack_def
      Notifier_new_def Semaphore_MakeShared_def Semaphore_Signal_def Let_def)

lemma receive_blocked:
  "ex_notifiers st n = Some Notifier_new \<Longrightarrow> Engine_SyncExecute_receive n st = None"
  by (simp add: Engine_SyncExecute_receive_def SyncMsgHandler_ReceiveResponse_def GetFromFront_def
      Notifier_new_def Semaphore_MakeShared_def ISemaphore_Wait_def Semaphore_Wait_def)

text \<open>
  The tasks ahead of a request: they go to the same handler, have a request each, and their
  callers wait on notifiers of their own.
\<close>

definition pending_ok :: "nat \<Rightarrow> nat \<Rightarrow> Task list \<Rightarrow> 'p exec \<Rightarrow> bool" where
  "pending_ok h n ts st \<longleftrightarrow> (\<forall>t \<in> set ts. tk_handler t = Some h \<and> tk_request t \<noteq> None \<and>
     (\<exists>m. tk_notifier t = Some m \<and> m \<noteq> n \<and> ex_notifiers st m \<noteq> None))"

lemma pending_ok_mono:
  "pending_ok h n ts st \<Longrightarrow> (\<And>m. ex_notifiers st m \<noteq> None \<Longrightarrow> ex_notifiers st1 m \<noteq> None) \<Longrightarrow>
     pending_ok h n ts st1"
  unfolding pending_ok_def by blast

lemma worker_serves_ahead:
  assumes "sync_engine a h qa pa (ts @ [t]) st" and "pending_ok h n ts st" and "ex_notifiers st n = x"
  shows "\<exists>st1. worker_actions ops True qa (length ts) st = Some st1 \<and> sync_engine a h qa pa [t] st1 \<and>
    ex_notifiers st1 n = x"
  using assms
proof (induction ts arbitrary: st)
  case Nil
  then show ?case by simp
next
  case (Cons u ts)
  then obtain req m nt where u: "tk_handler u = Some h" "tk_request u = Some req" "tk_notifier u = Some m"
      "m \<noteq> n" "ex_notifiers st m = Some nt"
    unfolding pending_ok_def by fastforce
  obtain rc resp p' where p: "po_SyncProcess ops req (ex_algs st pa) = (rc, resp, p')"
    by (cases "po_SyncProcess ops req (ex_algs st pa)") auto
  have se: "sync_engine a h qa pa (u # ts @ [t]) st" using Cons.prems(1) by simp
  obtain st1 where st1: "EngineWorker_OneAction ops True qa st = Some (True, st1)"
      "sync_engine a h qa pa (ts @ [t]) st1"
      "ex_notifiers st1 = (ex_notifiers st)(m \<mapsto> AddToBack (Some (answer req rc resp)) nt)"
    using worker_serves [OF se u(1-3,5) p disjI2, where nr = True] by blast
  have "pending_ok h n ts st" using Cons.prems(2) by (simp add: pending_ok_def)
  then have "pending_ok h n ts st1" by (rule pending_ok_mono) (simp add: st1(3))
  moreover have "ex_notifiers st1 n = x" using Cons.prems(3) st1(3) u(4) by simp
  ultimately show ?case using Cons.IH [OF st1(2)] st1(1) by simp
qed

text \<open>C16. A synchronous request is answered with its own response: submitted to an engine in
  service with any number of tasks ahead of it (fewer than the queue's 64), the caller is
  blocked until the worker has served the tasks ahead and the request; then it receives the
  plugin's response to this request - or, if the plugin made none, a fresh response to it -
  with return code 0 when the plugin succeeded and \<open>RETCODE_ALGORITHM_PROCESS_ERROR\<close> otherwise,
  and the queue is empty again.\<close>

theorem SyncExecute_answers:
  assumes "sync_engine a h qa pa ts st" and "length ts < MAX_SYNC_MSG_NUM"
    and "pending_ok h (ex_next st) ts st"
  shows "\<exists>n st1 st2. Engine_SyncExecute_send a (Some req) st = Some (Inr n, st1) \<and>
    Engine_SyncExecute_receive n st1 = None \<and>
    worker_actions ops True qa (length ts) st1 = Some st2 \<and>
    Engine_SyncExecute_receive n st2 = None \<and>
    (\<forall>rc resp p'. po_SyncProcess ops req (ex_algs st2 pa) = (rc, resp, p') \<longrightarrow>
       (\<exists>st3 st4. EngineWorker_OneAction ops True qa st2 = Some (True, st3) \<and>
          Engine_SyncExecute_receive n st3 =
            Some (if rc = RETCODE_SUCCESS then RETCODE_SUCCESS else RETCODE_ALGORITHM_PROCESS_ERROR,
                  Some (answer req rc resp), st4) \<and>
          sync_engine a h qa pa [] st4))"
proof -
  let ?n = "ex_next st"
  let ?t = "\<lparr>tk_handler = Some h, tk_request = Some req, tk_notifier = Some ?n\<rparr>"
  obtain st1 where st1: "Engine_SyncExecute_send a (Some req) st = Some (Inr ?n, st1)"
      "sync_engine a h qa pa (ts @ [?t]) st1" "ex_notifiers st1 = (ex_notifiers st)(?n \<mapsto> Notifier_new)"
    using send_sync [OF assms(1,2)] by blast
  have pend: "pending_ok h ?n ts st1"
    by (rule pending_ok_mono [OF assms(3)]) (simp add: st1(3))
  have n1: "ex_notifiers st1 ?n = Some Notifier_new" using st1(3) by simp
  obtain st2 where st2: "worker_actions ops True qa (length ts) st1 = Some st2"
      "sync_engine a h qa pa [?t] st2" "ex_notifiers st2 ?n = Some Notifier_new"
    using worker_serves_ahead [OF st1(2) pend n1] by blast
  have last: "\<exists>st3 st4. EngineWorker_OneAction ops True qa st2 = Some (True, st3) \<and>
      Engine_SyncExecute_receive ?n st3 =
        Some (if rc = RETCODE_SUCCESS then RETCODE_SUCCESS else RETCODE_ALGORITHM_PROCESS_ERROR,
              Some (answer req rc resp), st4) \<and> sync_engine a h qa pa [] st4"
    if p: "po_SyncProcess ops req (ex_algs st2 pa) = (rc, resp, p')" for rc resp p'
  proof -
    obtain st3 where st3: "EngineWorker_OneAction ops True qa st2 = Some (True, st3)"
        "sync_engine a h qa pa [] st3"
        "ex_notifiers st3 = (ex_notifiers st2)(?n \<mapsto> AddToBack (Some (answer req rc resp)) Notifier_new)"
      using worker_serves [OF st2(2) _ _ _ st2(3) p, where nr = True] by auto
    have "sync_engine a h qa pa [] (st3\<lparr>ex_notifiers := (ex_notifiers st3)(?n := None)\<rparr>)"
      using st3(2) by (simp add: sync_engine_def queue_at_def)
    then show ?thesis
      using st3(1) receive_answer [of st3 ?n "answer req rc resp"] st3(3) by (simp add: answer_def)
  qed
  then show ?thesis
    using st1(1) receive_blocked n1 st2(1,3) by blast
qed

text \<open>A small executor for the witnesses: one engine in service, nothing pending.\<close>

definition demo_ops :: "nat plug_ops" where
  "demo_ops = \<lparr>po_InferMode = \<lambda>_. Some PLUGIN_SYNC_INFER, po_SyncProcess = \<lambda>r p. (0, None, p + 1),
     po_AsyncProcess = \<lambda>r p. (0, [], p), po_Prepare = \<lambda>t i out p. (0, out, p), po_Release = \<lambda>b t i p. (0, p),
     po_SetOption = \<lambda>ty i p. (0, p), po_GetOption = \<lambda>ty i out p. (0, out, p)\<rparr>"

definition demo_env :: xenv where
  "demo_env = \<lparr>xe_ld = \<lparr>le_realpath = Some, le_dlopen = \<lambda>_. Some 5, le_dlsym = \<lambda>_ _. Some 6, le_factory = \<lambda>_. Some 7\<rparr>,
     xe_label = True, xe_new_thread = True, xe_new_queue = True, xe_new_nodes = True, xe_new_engine = True,
     xe_new_handler = True, xe_new_response = True, xe_new_future = True, xe_new_pm = True, xe_new_tp = True,
     xe_new_qp = True, xe_new_ff = True, xe_create = \<lambda>_. (0, 7), xe_alive = \<lambda>_. True,
     xe_ends = True, xe_now = 0\<rparr>"

definition demo_sync :: "nat exec" where
  "demo_sync = (exec_init (\<lambda>_. 0))\<lparr>
     ex_objs := [0 \<mapsto> \<lparr>en_refCount = 1, en_plugin = Some 0, en_thread = Some 0, en_queue = Some 0,
                      en_msgHandler = Some 1, en_worker = 2\<rparr>],
     ex_handlers := [1 \<mapsto> SyncMsgHandler 0 (Some 7)], ex_next := 3,
     ex_tp := ThreadPool_new\<lparr>tp_heap := [0 \<mapsto> \<lparr>th_running = True, th_status = RUNNING, th_stackSize = 0,
        th_handle = 9, th_worker = Some 2\<rparr>], tp_busyThreads := [0], tp_next := 1\<rparr>,
     ex_qp := (QueuePool_new 64)\<lparr>qp_heap := [0 \<mapsto> Queue_new True 64], qp_busyQueueNum := 1, qp_next := 1\<rparr>\<rparr>"

lemma demo_sync_engine: "sync_engine 0 1 0 7 [] demo_sync"
  using Queue_new_ring [of 64]
  by (simp add: sync_engine_def demo_sync_def queue_at_def)

theorem SyncExecute_answers_witness:
  "\<exists>n st1 st2 st3 st4. Engine_SyncExecute_send 0 (Some Request_new) demo_sync = Some (Inr n, st1) \<and>
     worker_actions demo_ops True 0 0 st1 = Some st2 \<and>
     EngineWorker_OneAction demo_ops True 0 st2 = Some (True, st3) \<and>
     Engine_SyncExecute_receive n st3 = Some (0, Some (answer Request_new 0 None), st4)"
proof -
  have "pending_ok 1 (ex_next demo_sync) [] demo_sync" by (simp add: pending_ok_def)
  from SyncExecute_answers [OF demo_sync_engine _ this, of Request_new demo_ops] obtain n st1 st2
    where st: "Engine_SyncExecute_send 0 (Some Request_new) demo_sync = Some (Inr n, st1)"
      "worker_actions demo_ops True 0 0 st1 = Some st2"
      "\<forall>rc resp p'. po_SyncProcess demo_ops Request_new (ex_algs st2 7) = (rc, resp, p') \<longrightarrow>
       (\<exists>st3 st4. EngineWorker_OneAction demo_ops True 0 st2 = Some (True, st3) \<and>
          Engine_SyncExecute_receive n st3 =
            Some (if rc = 0 then 0 else 1700, Some (answer Request_new rc resp), st4) \<and>
          sync_engine 0 1 0 7 [] st4)"
    by auto
  have "po_SyncProcess demo_ops Request_new (ex_algs st2 7) = (0, None, ex_algs st2 7 + 1)"
    by (simp add: demo_ops_def)
  from st(3) [rule_format, OF this] show ?thesis using st(1,2) by auto
qed

section \<open>Clearing the queue, and an idle engine\<close>

lemma ClearQueue_loop_ring:
  "ring_inv q \<Longrightarrow> \<exists>q'. ClearQueue_loop (length (ring_abs q)) q = Some (map tk_request (ring_abs q), q') \<and>
     ring_inv q' \<and> ring_abs q' = [] \<and> q_totalNum q' = q_totalNum q"
proof (induction "ring_abs q" arbitrary: q)
  case Nil
  then show ?case by (metis ClearQueue_loop.simps(1) list.simps(8) list.size(3))
next
  case (Cons t ts)
  then obtain q1 where q1: "PopFront q = Some (0, Some t, q1)" "ring_inv q1" "ring_abs q1 = ts"
      "q_totalNum q1 = q_totalNum q"
    using ring.pop_some [of q t ts] by auto
  have e: "ring_abs q = t # ts" using Cons.hyps(2) by simp
  show ?case
    using Cons.hyps(1) [of q1] q1 unfolding e by auto
qed

lemma ClearQueue_ring:
  "ring_inv q \<Longrightarrow> \<exists>q'. ClearQueue q = Some (map tk_request (ring_abs q), q') \<and>
     ring_inv q' \<and> ring_abs q' = [] \<and> q_totalNum q' = q_totalNum q"
  using ClearQueue_loop_ring [of q] by (simp add: ClearQueue_def Queue_Count_ring)

lemma worker_idle:
  "sync_engine a h qa pa [] st \<Longrightarrow> worker_actions ops nr qa k st = Some st"
  by (induction k) (auto simp: sync_engine_def EngineWorker_OneAction_def Queue_IsEmpty_ring)

end
