(* ===== verification/EngineRefs.thy ===== *)
theory EngineRefs
  imports EngineProofs
begin

text \<open>
  The reference counts of the engine manager: as long as no recorded transaction is started
  again, the count of an engine is the number of transactions recorded for it, every recorded
  engine is the one of its plugin's key, and the plugin goes with the last transaction - the
  engine too, unless a caller still waits for a response of it: it then serves the caller first.
  And what \<open>StartEngine\<close> does when the engine's thread cannot be created, or when a transaction
  is started twice.
\<close>

section \<open>What the operations leave alone\<close>

text \<open>\<open>same_maps\<close>: the manager's maps, the plugins and the other engines are as before.\<close>

definition same_maps :: "nat \<Rightarrow> 'p exec \<Rightarrow> 'p exec \<Rightarrow> bool" where
  "same_maps a st st' \<longleftrightarrow> em_engines st' = em_engines st \<and> em_clientEngines st' = em_clientEngines st \<and>
     ex_pm st' = ex_pm st \<and> ex_pm_made st' = ex_pm_made st \<and> ex_waiting st' = ex_waiting st \<and>
     ex_next st' = ex_next st \<and> (\<forall>b. b \<noteq> a \<longrightarrow> ex_objs st' b = ex_objs st b)"

lemma same_maps_refl: "same_maps a st st"
  by (simp add: same_maps_def)

lemma same_maps_trans: "same_maps a st1 st2 \<Longrightarrow> same_maps a st2 st3 \<Longrightarrow> same_maps a st1 st3"
  by (simp add: same_maps_def)

lemma StopThread_same: "Engine_StopThread e ta qa0 st = Some st' \<Longrightarrow> same_maps a st st'"
  by (auto simp: Engine_StopThread_def same_maps_def Let_def set_queue_def
      split: Option.bind_splits if_splits)

lemma GetInstance_same:
  "TP_GetInstance e st = (ok, st') \<Longrightarrow> same_maps a st st'"
  "QP_GetInstance e st = (ok, st') \<Longrightarrow> same_maps a st st'"
  by (auto simp: TP_GetInstance_def QP_GetInstance_def same_maps_def split: if_splits)

lemma Uninitialize_thread_same: "Uninitialize_thread e en st = Some (ok, st') \<Longrightarrow> same_maps a st st'"
  by (auto simp: Uninitialize_thread_def same_maps_def
      dest!: StopThread_same [where a = a] GetInstance_same(1) [where a = a]
      split: option.splits Option.bind_splits prod.splits if_splits)

lemma Uninitialize_queue_same: "Uninitialize_queue e en st = Some (ok, st') \<Longrightarrow> same_maps a st st'"
  by (auto simp: Uninitialize_queue_def same_maps_def dest!: GetInstance_same(2) [where a = a]
      split: option.splits Option.bind_splits prod.splits if_splits)

lemma Uninitialize_same: "Engine_Uninitialize e a st = Some st' \<Longrightarrow> same_maps a st st'"
  by (auto simp: Engine_Uninitialize_def same_maps_def set_obj_def Let_def
      dest!: Uninitialize_thread_same [where a = a] Uninitialize_queue_same [where a = a]
      split: Option.bind_splits prod.splits if_splits)

lemma Engine_dtor_same: "Engine_dtor e a st = Some st' \<Longrightarrow> same_maps a st st' \<and> ex_objs st' a = None"
  by (auto simp: Engine_dtor_def same_maps_def dest!: Uninitialize_same split: Option.bind_splits)

lemma drop_engine_held: "engine_held a st \<Longrightarrow> drop_engine e a st = Some st"
  by (simp add: drop_engine_def)

lemma drop_engine_last:
  "\<not> engine_held a st \<Longrightarrow> drop_engine e a st = Some st' \<Longrightarrow> same_maps a st st' \<and> ex_objs st' a = None"
  by (simp add: drop_engine_def Engine_dtor_same)

lemma drop_engine_same: "drop_engine e a st = Some st' \<Longrightarrow> same_maps a st st'"
  by (auto simp: drop_engine_def same_maps_refl dest: Engine_dtor_same split: if_splits)

text \<open>An engine being initialised keeps its plugin and its count.\<close>

lemma Initialize_same:
  assumes "Engine_Initialize ops e a st = Some (r, st')" and "ex_objs st a = Some en"
  shows "em_engines st' = em_engines st \<and> em_clientEngines st' = em_clientEngines st \<and>
    ex_waiting st' = ex_waiting st \<and> ex_pm_made st' = ex_pm_made st \<and>
    ex_pm st' = ex_pm st \<and> ex_next st \<le> ex_next st' \<and> (\<forall>b. b \<noteq> a \<longrightarrow> ex_objs st' b = ex_objs st b) \<and>
    (\<exists>en'. ex_objs st' a = Some en' \<and> en_plugin en' = en_plugin en \<and> en_refCount en' = en_refCount en)"
  using assms
  by (auto simp: Engine_Initialize_def Let_def set_obj_def
      split: Option.bind_splits option.splits if_splits prod.splits)

section \<open>Plugins\<close>

lemma GetPlugin_result:
  assumes inv: "pm_inv m" and g: "GetPlugin e ok aid version m = (r, a0, m')"
  shows "pm_next m \<le> pm_next m' \<and> (\<forall>b < pm_next m. pm_heap m' b = pm_heap m b) \<and>
    (r = RETCODE_SUCCESS \<longrightarrow> (\<exists>a p. a0 = Some a \<and> a < pm_next m' \<and> pm_heap m' a = Some p \<and>
       pl_aid p = aid \<and> pl_version p = version \<and> pl_pluginAlgorithm p \<noteq> None))"
proof (cases "sm_find (pm_pluginMap m) (PluginKey aid version)")
  case (Some a)
  then obtain p where p: "a < pm_next m" "pm_heap m a = Some p" "PluginKey (pl_aid p) (pl_version p) = PluginKey aid version"
      "pl_pluginAlgorithm p \<noteq> None"
    using inv unfolding pm_inv_def by blast
  moreover have "a0 = Some a" "m' = m" using Some g by (simp_all add: GetPlugin_def FindPlugin_def)
  ultimately show ?thesis by simp
next
  case None
  obtain ret p closed where l: "LoadPluginAlgorithm e ok (Plugin_new aid version) = (ret, p, closed)"
    by (cases "LoadPluginAlgorithm e ok (Plugin_new aid version)") auto
  show ?thesis
  proof (cases "ret = RETCODE_SUCCESS")
    case False
    then show ?thesis using g l None by (auto simp: GetPlugin_def FindPlugin_def LoadPlugin_def)
  next
    case True
    then have "pl_aid p = aid" "pl_version p = version" "pl_pluginAlgorithm p \<noteq> None"
      using LoadPluginAlgorithm_success l by blast+
    then show ?thesis
      using g l None True by (auto simp: GetPlugin_def FindPlugin_def LoadPlugin_def AddPlugin_def Let_def)
  qed
qed

lemma UnloadPlugin_heap [simp]:
  "pm_heap (UnloadPlugin aid version m) = pm_heap m" "pm_next (UnloadPlugin aid version m) = pm_next m"
  by (simp_all add: UnloadPlugin_def DelPlugin_def split: option.splits)

section \<open>The invariant\<close>

definition clients :: "nat \<Rightarrow> (int \<times> nat) list \<Rightarrow> nat" where
  "clients a m = length (filter (\<lambda>p. snd p = a) m)"

lemma clients_put:
  "sm_ok m \<Longrightarrow> sm_find m t = None \<Longrightarrow> clients b (sm_put t a m) = clients b m + (if a = b then 1 else 0)"
  by (induction t a m rule: sm_put.induct) (auto simp: clients_def split: if_splits)

lemma clients_erase:
  "clients b (sm_erase t m) + (if sm_find m t = Some b then 1 else 0) = clients b m"
  by (induction t m rule: sm_erase.induct) (auto simp: clients_def)

lemma clients_pos: "sm_find m t = Some a \<Longrightarrow> 0 < clients a m"
  by (induction m t rule: sm_find.induct) (auto simp: clients_def split: if_splits)

lemma clients_none: "clients a m = 0 \<longleftrightarrow> a \<notin> snd ` set m"
  by (induction m) (auto simp: clients_def)

text \<open>An engine that is recorded: alive, with its plugin loaded for the very key.\<close>

definition engine_of :: "EngineKey \<Rightarrow> nat \<Rightarrow> 'p exec \<Rightarrow> bool" where
  "engine_of k a st \<longleftrightarrow> a < ex_next st \<and> (\<exists>en x p. ex_objs st a = Some en \<and> en_plugin en = Some x \<and>
     x < pm_next (ex_pm st) \<and> pm_heap (ex_pm st) x = Some p \<and>
     EngineKey (pl_aid p) (pl_version p) = k \<and> pl_pluginAlgorithm p \<noteq> None \<and>
     en_refCount en = swrap 32 (int (clients a (em_clientEngines st))))"

definition em_inv :: "'p exec \<Rightarrow> bool" where
  "em_inv st \<longleftrightarrow> pm_inv (ex_pm st) \<and> sm_ok (em_engines st) \<and> sm_ok (em_clientEngines st) \<and>
     (\<forall>k a. sm_find (em_engines st) k = Some a \<longrightarrow> engine_of k a st) \<and>
     (\<forall>t a. sm_find (em_clientEngines st) t = Some a \<longrightarrow> (\<exists>k. sm_find (em_engines st) k = Some a)) \<and>
     (\<forall>p \<in> set (ex_waiting st). fst p < ex_next st \<and> snd p < ex_next st)"

text \<open>What a stop needs besides: a count that has not wrapped, and the plugin manager.\<close>

definition em_good :: "'p exec \<Rightarrow> bool" where
  "em_good st \<longleftrightarrow> em_inv st \<and> length (em_clientEngines st) < 2 ^ 31 \<and> (em_engines st \<noteq> [] \<longrightarrow> ex_pm_made st)"

lemma swrap_step [simp]:
  "swrap 32 (swrap 32 x + 1) = swrap 32 (x + 1)" "swrap 32 (swrap 32 x - 1) = swrap 32 (x - 1)"
  "swrap 32 (1 + swrap 32 x) = swrap 32 (1 + x)" "swrap 32 0 = 0" "swrap 32 1 = 1" "swrap 32 2 = 2"
  unfolding swrap_def by (simp_all add: mod_simps algebra_simps)

lemma clients_le: "clients a m \<le> length m"
  by (simp add: clients_def)

lemma clients_small: "length m < 2 ^ 31 \<Longrightarrow> swrap 32 (int (clients a m)) = int (clients a m)"
  using clients_le [of a m] by (intro swrap_id) auto

lemma em_inv_init: "em_inv (exec_init algs)"
  by (simp add: em_inv_def exec_init_def pm_inv_new)

lemma engine_of_inj: "engine_of k a st \<Longrightarrow> engine_of k' a st \<Longrightarrow> k = k'"
  by (auto simp: engine_of_def)

lemma sm_values: "sm_ok m \<Longrightarrow> a \<in> snd ` set m \<longleftrightarrow> (\<exists>k. sm_find m k = Some a)"
  by (force simp: sm_find_in)

lemma held_iff:
  "em_inv st \<Longrightarrow> engine_held a st \<longleftrightarrow> (\<exists>k. sm_find (em_engines st) k = Some a) \<or> a \<in> snd ` set (ex_waiting st)"
  unfolding engine_held_def em_inv_def using sm_values by metis

lemma held_old: "em_inv st \<Longrightarrow> engine_held a st \<Longrightarrow> a < ex_next st"
  using held_iff [of st a] unfolding em_inv_def engine_of_def by blast

text \<open>The invariant looks at a part of the state only.\<close>

lemma engine_of_frame:
  assumes "engine_of k a st" and "em_clientEngines st' = em_clientEngines st" and "ex_next st \<le> ex_next st'"
    and "ex_objs st' a = ex_objs st a" and "pm_next (ex_pm st) \<le> pm_next (ex_pm st')"
    and "\<forall>b < pm_next (ex_pm st). pm_heap (ex_pm st') b = pm_heap (ex_pm st) b"
  shows "engine_of k a st'"
proof -
  obtain en x p where "ex_objs st a = Some en" "en_plugin en = Some x" "x < pm_next (ex_pm st)"
      "pm_heap (ex_pm st) x = Some p" "EngineKey (pl_aid p) (pl_version p) = k" "pl_pluginAlgorithm p \<noteq> None"
      "en_refCount en = swrap 32 (int (clients a (em_clientEngines st)))" "a < ex_next st"
    using assms(1) by (auto simp: engine_of_def)
  then show ?thesis
    using assms(2-6) unfolding engine_of_def by (intro conjI exI) auto
qed

lemma em_inv_frame:
  assumes "em_inv st" and "em_engines st' = em_engines st" and "em_clientEngines st' = em_clientEngines st"
    and "ex_next st \<le> ex_next st'" and "\<forall>a < ex_next st. engine_held a st \<longrightarrow> ex_objs st' a = ex_objs st a"
    and "pm_next (ex_pm st) \<le> pm_next (ex_pm st')"
    and "\<forall>b < pm_next (ex_pm st). pm_heap (ex_pm st') b = pm_heap (ex_pm st) b" and "pm_inv (ex_pm st')"
    and "\<forall>p \<in> set (ex_waiting st'). fst p < ex_next st' \<and> snd p < ex_next st'"
  shows "em_inv st'"
proof -
  have "engine_of k a st'" if "sm_find (em_engines st) k = Some a" for k a
  proof -
    have e: "engine_of k a st" using assms(1) that by (simp add: em_inv_def)
    then have "a < ex_next st" by (simp add: engine_of_def)
    moreover have "engine_held a st" using held_iff [OF assms(1)] that by blast
    ultimately show ?thesis using engine_of_frame [OF e assms(3,4) _ assms(6,7)] assms(5) by blast
  qed
  then show ?thesis using assms(1-3,8,9) by (simp add: em_inv_def)
qed

section \<open>Creating an engine\<close>

text \<open>\<open>same_core\<close>: all that the counts are about is as before; \<open>engine_allocated\<close>: but for a new engine.\<close>

definition same_core :: "'p exec \<Rightarrow> 'p exec \<Rightarrow> bool" where
  "same_core st st' \<longleftrightarrow> em_engines st' = em_engines st \<and> em_clientEngines st' = em_clientEngines st \<and>
     ex_waiting st' = ex_waiting st \<and> ex_pm_made st' = ex_pm_made st \<and> ex_pm st' = ex_pm st \<and>
     ex_next st' = ex_next st \<and> ex_objs st' = ex_objs st"

definition engine_allocated :: "nat option \<Rightarrow> 'p exec \<Rightarrow> 'p exec \<Rightarrow> bool" where
  "engine_allocated plugin st st' \<longleftrightarrow> em_engines st' = em_engines st \<and> em_clientEngines st' = em_clientEngines st \<and>
     ex_waiting st' = ex_waiting st \<and> ex_pm_made st' = ex_pm_made st \<and> ex_pm st' = ex_pm st \<and>
     ex_next st' = Suc (Suc (ex_next st)) \<and> (\<exists>ta qa. ex_objs st' =
       (ex_objs st)(ex_next st \<mapsto> Engine_new plugin (Some ta) (Some qa) (Suc (ex_next st))))"

text \<open>The outcome of creating: nothing, or a new engine on which \<open>Initialize\<close> answered.\<close>

definition create_outcome ::
  "'p plug_ops \<Rightarrow> xenv \<Rightarrow> nat option \<Rightarrow> 'p exec \<Rightarrow> retcode \<Rightarrow> nat option \<Rightarrow> 'p exec \<Rightarrow> bool" where
  "create_outcome ops e plugin st r ao st' \<longleftrightarrow> same_core st st' \<and> ao = None \<and> r \<noteq> RETCODE_SUCCESS \<or>
     (ao = Some (ex_next st) \<and> (\<exists>st3 st4. engine_allocated plugin st st3 \<and>
        Engine_Initialize ops e (ex_next st) st3 = Some (r, st4) \<and> same_core st4 st'))"

lemma create_outcome_core:
  "create_outcome ops e plugin st1 r ao st' \<Longrightarrow> same_core st st1 \<Longrightarrow> create_outcome ops e plugin st r ao st'"
  by (simp add: create_outcome_def same_core_def engine_allocated_def)

lemma create_outcome_none:
  "same_core st st' \<Longrightarrow> r \<noteq> RETCODE_SUCCESS \<Longrightarrow> create_outcome ops e plugin st r None st'"
  by (simp add: create_outcome_def)

lemma same_core_pools [simp]:
  "same_core st (st\<lparr>ex_qp := q\<rparr>)" "same_core st (st\<lparr>ex_tp := p\<rparr>)" "same_core st (st\<lparr>ex_qp := q, ex_tp := p\<rparr>)"
  "same_core st (st\<lparr>ex_tp_made := b\<rparr>)" "same_core st (st\<lparr>ex_qp_made := b\<rparr>)"
  "same_core st (st\<lparr>ex_tp_made := b, ex_tp := p\<rparr>)" "same_core st (st\<lparr>ex_qp_made := b, ex_qp := q\<rparr>)"
  "same_core st (st\<lparr>ex_qp_made := b, ex_qp := q, ex_tp := p\<rparr>)" "same_core st st"
  by (simp_all add: same_core_def)

lemma CreateEngine_object_outcome:
  assumes "CreateEngine_object ops e plugin ta qa st = Some (r, ao, st')"
  shows "create_outcome ops e plugin st r ao st'"
proof (cases "xe_new_engine e")
  case False
  then show ?thesis
    using assms by (auto simp: CreateEngine_object_def create_outcome_none split: Option.bind_splits)
next
  case True
  define st3 where "st3 = set_obj (ex_next st) (Engine_new plugin (Some ta) (Some qa) (Suc (ex_next st)))
    (st\<lparr>ex_workers := (ex_workers st)(Suc (ex_next st) \<mapsto> IWorker_new), ex_next := Suc (Suc (ex_next st))\<rparr>)"
  have "CreateEngine_object ops e plugin ta qa st = do {
      (ret, st4) \<leftarrow> Engine_Initialize ops e (ex_next st) st3;
      if ret \<noteq> RETCODE_SUCCESS then
        do { qp2 \<leftarrow> QueuePool_Push (Some qa) (ex_qp st4);
             tp2 \<leftarrow> ThreadPool_Push (xe_alive e, xe_ends e) ta (ex_tp st4);
             Some (ret, Some (ex_next st), st4\<lparr>ex_qp := qp2, ex_tp := tp2\<rparr>) }
      else Some (RETCODE_SUCCESS, Some (ex_next st), st4) }"
    using True by (simp add: CreateEngine_object_def Let_def st3_def cong: if_cong)
  with assms obtain st4 where "Engine_Initialize ops e (ex_next st) st3 = Some (r, st4)" "ao = Some (ex_next st)"
      "same_core st4 st'"
    by (auto split: Option.bind_splits if_splits)
  moreover have "engine_allocated plugin st st3" by (auto simp: engine_allocated_def st3_def set_obj_def)
  ultimately show ?thesis unfolding create_outcome_def by blast
qed

lemma CreateEngine_queue_outcome:
  "CreateEngine_queue ops e plugin ta st = Some (r, ao, st') \<Longrightarrow> create_outcome ops e plugin st r ao st'"
  by (auto simp: CreateEngine_queue_def QP_GetInstance_def create_outcome_none
      split: if_splits prod.splits option.splits Option.bind_splits
      dest!: CreateEngine_object_outcome elim!: create_outcome_core)

lemma CreateEngine_thread_outcome:
  "CreateEngine_thread ops e plugin st = Some (r, ao, st') \<Longrightarrow> create_outcome ops e plugin st r ao st'"
  by (auto simp: CreateEngine_thread_def TP_GetInstance_def create_outcome_none
      split: if_splits prod.splits option.splits Option.bind_splits
      dest!: CreateEngine_queue_outcome elim!: create_outcome_core)

lemma CreateEngine_result:
  assumes inv: "pm_inv (ex_pm st)" and c: "CreateEngine ops e k st = Some (r, ao, st')"
  shows "em_engines st' = em_engines st \<and> em_clientEngines st' = em_clientEngines st \<and>
    ex_waiting st' = ex_waiting st \<and> (ex_pm_made st \<longrightarrow> ex_pm_made st') \<and> (r = RETCODE_SUCCESS \<longrightarrow> ex_pm_made st') \<and>
    ex_next st \<le> ex_next st' \<and> (\<forall>b < ex_next st. ex_objs st' b = ex_objs st b) \<and>
    pm_inv (ex_pm st') \<and> pm_next (ex_pm st) \<le> pm_next (ex_pm st') \<and>
    (\<forall>b < pm_next (ex_pm st). pm_heap (ex_pm st') b = pm_heap (ex_pm st) b) \<and>
    (\<forall>a. ao = Some a \<longrightarrow> ex_next st \<le> a) \<and>
    (r = RETCODE_SUCCESS \<longrightarrow> (\<exists>a en x p. ao = Some a \<and> a < ex_next st' \<and>
       ex_objs st' a = Some en \<and> en_refCount en = 0 \<and> en_plugin en = Some x \<and> x < pm_next (ex_pm st') \<and>
       pm_heap (ex_pm st') x = Some p \<and> EngineKey (pl_aid p) (pl_version p) = k \<and> pl_pluginAlgorithm p \<noteq> None))"
proof -
  obtain r0 plugin pm' where g: "GetPlugin (xe_ld e) (xe_label e) (ek_aid k) (ek_version k) (ex_pm st) = (r0, plugin, pm')"
    by (cases "GetPlugin (xe_ld e) (xe_label e) (ek_aid k) (ek_version k) (ex_pm st)") auto
  note gi = pm_inv_GetPlugin [OF inv g] and gr = GetPlugin_result [OF inv g]
  let ?st1 = "st\<lparr>ex_pm_made := True, ex_pm := pm'\<rparr>"
  consider (null) "\<not> ex_pm_made st" "st' = st\<lparr>ex_pm_made := False\<rparr>" "ao = None" "r \<noteq> RETCODE_SUCCESS"
    | (plugin) "r0 \<noteq> RETCODE_SUCCESS" "r = r0" "ao = None" "st' = ?st1"
    | (rest) "r0 = RETCODE_SUCCESS" "create_outcome ops e plugin ?st1 r ao st'"
  proof (cases "ex_pm_made st \<or> xe_new_pm e")
    case False
    then show ?thesis using c null by (auto simp: CreateEngine_def PM_GetInstance_def)
  next
    case True
    then show ?thesis
      using c g plugin rest
      by (auto simp: CreateEngine_def GetInstance_ok Let_def split: if_splits dest!: CreateEngine_thread_outcome)
  qed
  then show ?thesis
  proof cases
    case null
    then show ?thesis using inv by simp
  next
    case plugin
    then show ?thesis using gi gr by simp
  next
    case rest
    show ?thesis
    proof (cases "same_core ?st1 st' \<and> ao = None \<and> r \<noteq> RETCODE_SUCCESS")
      case True
      then show ?thesis using gi gr by (simp add: same_core_def)
    next
      case False
      then obtain st3 st4 where ao: "ao = Some (ex_next st)" and st3: "engine_allocated plugin ?st1 st3"
          and in4: "Engine_Initialize ops e (ex_next st) st3 = Some (r, st4)" and st4: "same_core st4 st'"
        using rest(2) unfolding create_outcome_def by auto
      obtain ta qa where ob: "ex_objs st3 = (ex_objs st)(ex_next st \<mapsto> Engine_new plugin (Some ta) (Some qa) (Suc (ex_next st)))"
        using st3 by (auto simp: engine_allocated_def)
      then have "ex_objs st3 (ex_next st) = Some (Engine_new plugin (Some ta) (Some qa) (Suc (ex_next st)))" by simp
      note i = Initialize_same [OF in4 this]
      obtain en' where en': "ex_objs st4 (ex_next st) = Some en'" "en_plugin en' = plugin" "en_refCount en' = 0"
        using i by (auto simp: Engine_new_def)
      obtain x p where x: "plugin = Some x" "x < pm_next pm'" "pm_heap pm' x = Some p" "pl_aid p = ek_aid k"
          "pl_version p = ek_version k" "pl_pluginAlgorithm p \<noteq> None"
        using gr rest(1) by auto
      have o: "ex_objs st' b = ex_objs st b" if "b < ex_next st" for b
        using i ob st4 that by (auto simp: same_core_def)
      have "ex_pm st' = pm'" "Suc (Suc (ex_next st)) \<le> ex_next st'"
        using i st3 st4 by (simp_all add: same_core_def engine_allocated_def)
      then show ?thesis
        using i st3 st4 ao en' x gi gr o by (simp add: same_core_def engine_allocated_def)
    qed
  qed
qed

section \<open>Starting and stopping keep the counts\<close>

lemma CreateEngineWithCheck_inv:
  assumes inv: "em_inv st" and n: "sm_find (em_engines st) k = None"
    and c: "CreateEngineWithCheck ops e k st = Some (r, ao, st')"
  shows "em_inv st' \<and> em_clientEngines st' = em_clientEngines st \<and> (ex_pm_made st \<longrightarrow> ex_pm_made st') \<and>
    (r = RETCODE_SUCCESS \<longrightarrow> ex_pm_made st' \<and> (\<exists>a. ao = Some a \<and> sm_find (em_engines st') k = Some a)) \<and>
    (r \<noteq> RETCODE_SUCCESS \<longrightarrow> em_engines st' = em_engines st \<and> (\<forall>a. ao = Some a \<longrightarrow> \<not> engine_held a st'))"
proof -
  obtain st1 where ce: "CreateEngine ops e k st = Some (r, ao, st1)"
      and st': "if r = RETCODE_SUCCESS then \<exists>a. ao = Some a \<and> st' = st1\<lparr>em_engines := sm_put k a (em_engines st1)\<rparr>
           else st' = st1"
    using c n by (auto simp: CreateEngineWithCheck_def split: Option.bind_splits if_splits)
  have "pm_inv (ex_pm st)" using inv by (simp add: em_inv_def)
  note cr = CreateEngine_result [OF this ce]
  have "\<forall>p \<in> set (ex_waiting st1). fst p < ex_next st1 \<and> snd p < ex_next st1"
    using cr inv unfolding em_inv_def by fastforce
  then have inv1: "em_inv st1"
    using cr by (intro em_inv_frame [OF inv]) auto
  note old = held_old [OF inv]
  have held1: "engine_held a st1 = engine_held a st" for a using cr by (simp add: engine_held_def)
  show ?thesis
  proof (cases "r = RETCODE_SUCCESS")
    case False
    have "\<not> engine_held a st1" if ao: "ao = Some a" for a
    proof
      assume "engine_held a st1"
      then have "a < ex_next st" using old held1 by blast
      moreover have "ex_next st \<le> a" using cr ao by blast
      ultimately show False by simp
    qed
    then show ?thesis using False st' inv1 cr by simp
  next
    case True
    then obtain a en x p where a: "ao = Some a" "ex_next st \<le> a" "a < ex_next st1" "ex_objs st1 a = Some en"
        "en_refCount en = 0" "en_plugin en = Some x" "x < pm_next (ex_pm st1)" "pm_heap (ex_pm st1) x = Some p"
        "EngineKey (pl_aid p) (pl_version p) = k" "pl_pluginAlgorithm p \<noteq> None"
      using cr by blast
    have st1': "st' = st1\<lparr>em_engines := sm_put k a (em_engines st1)\<rparr>" using st' True a(1) by simp
    have "\<not> engine_held a st1" using old [of a] a(2) held1 [of a] by auto
    then have "clients a (em_clientEngines st1) = 0" by (simp add: clients_none engine_held_def)
    then have new: "engine_of k a st'"
      using a unfolding engine_of_def st1' by (simp add: swrap_id)
    have "engine_of k' b st'" if "sm_find (em_engines st1) k' = Some b" for k' b
      using inv1 that unfolding em_inv_def engine_of_def st1' by simp
    then have "\<forall>k' b. sm_find (em_engines st') k' = Some b \<longrightarrow> engine_of k' b st'"
      using new by (simp add: st1' sm_find_put)
    moreover have "\<exists>k'. sm_find (em_engines st') k' = Some b" if tb: "sm_find (em_clientEngines st1) t = Some b" for t b
    proof -
      obtain k' where k': "sm_find (em_engines st1) k' = Some b" using inv1 tb unfolding em_inv_def by blast
      then have "k' \<noteq> k" using cr n by auto
      then show ?thesis using k' by (auto simp: st1' sm_find_put)
    qed
    ultimately have "em_inv st'" using inv1 by (simp add: em_inv_def st1' sm_put_ok)
    then show ?thesis using True a(1) cr by (simp add: st1' sm_find_put)
  qed
qed

lemma drop_inv:
  assumes "em_inv st" and "\<not> engine_held a st" and "same_maps a st st'"
  shows "em_inv st' \<and> em_clientEngines st' = em_clientEngines st \<and> em_engines st' = em_engines st \<and>
    ex_pm_made st' = ex_pm_made st"
proof -
  have o: "ex_objs st' b = ex_objs st b" if "engine_held b st" for b
    using assms(2,3) that unfolding same_maps_def by metis
  have "em_inv st'"
    by (rule em_inv_frame [OF assms(1)]) (use assms(1,3) o in \<open>simp_all add: same_maps_def em_inv_def\<close>)
  then show ?thesis using assms(3) by (simp add: same_maps_def)
qed

lemma set_alg_inv: "em_inv st \<Longrightarrow> em_inv (set_alg pa p st)"
  by (rule em_inv_frame) (auto simp: set_alg_def em_inv_def)

lemma set_alg_good: "em_good st \<Longrightarrow> em_good (set_alg pa p st)"
  by (simp add: em_good_def set_alg_inv) (simp add: set_alg_def)

text \<open>Recording a new transaction for a recorded engine, and counting it.\<close>

lemma record_inv:
  assumes inv: "em_inv st" and k: "sm_find (em_engines st) k = Some a" and en: "ex_objs st a = Some en"
    and t: "sm_find (em_clientEngines st) t = None"
  shows "em_inv (RecordClient t a (set_obj a (AddEngineReference en) st))"
proof -
  let ?st = "RecordClient t a (set_obj a (AddEngineReference en) st)"
  have ok: "sm_ok (em_clientEngines st)" using inv by (simp add: em_inv_def)
  have "engine_of k' b ?st" if kb: "sm_find (em_engines st) k' = Some b" for k' b
  proof -
    have "engine_of k' b st" using inv kb by (simp add: em_inv_def)
    then obtain en' x p where "ex_objs st b = Some en'" "en_plugin en' = Some x" "x < pm_next (ex_pm st)"
      "pm_heap (ex_pm st) x = Some p" "EngineKey (pl_aid p) (pl_version p) = k'" "pl_pluginAlgorithm p \<noteq> None"
      "en_refCount en' = swrap 32 (int (clients b (em_clientEngines st)))" "b < ex_next st"
      unfolding engine_of_def by blast
    then show ?thesis
      using en clients_put [OF ok t, of b a]
      by (cases "a = b") (simp_all add: engine_of_def RecordClient_def set_obj_def AddEngineReference_def add.commute)
  qed
  moreover have "\<exists>k'. sm_find (em_engines st) k' = Some b"
    if "sm_find (em_clientEngines ?st) t' = Some b" for t' b
    using that inv k by (cases "t' = t") (auto simp: RecordClient_def set_obj_def sm_find_put em_inv_def)
  ultimately show ?thesis
    using inv by (simp add: em_inv_def RecordClient_def set_obj_def sm_put_ok)
qed

lemma StartEngine_inv:
  assumes inv: "em_inv st" and t: "sm_find (em_clientEngines st) t = None"
    and s: "StartEngine ops e t algo inp out0 st = Some (r, out1, st')"
  shows "em_inv st' \<and> (\<forall>t'. t' \<noteq> t \<longrightarrow> sm_find (em_clientEngines st') t' = sm_find (em_clientEngines st) t') \<and>
    (sm_find (em_clientEngines st') t \<noteq> None \<longleftrightarrow> r = RETCODE_SUCCESS) \<and>
    length (em_clientEngines st') \<le> Suc (length (em_clientEngines st)) \<and>
    ((em_engines st \<noteq> [] \<longrightarrow> ex_pm_made st) \<longrightarrow> (em_engines st' \<noteq> [] \<longrightarrow> ex_pm_made st'))"
proof (cases "GetAlgorithmIdByType (ai_algorithmType algo) = ALGORITHM_ID_INVALID")
  case True
  then show ?thesis using s inv t by (simp add: StartEngine_def)
next
  case False
  let ?k = "EngineKey (GetAlgorithmIdByType (ai_algorithmType algo)) (ai_algorithmVersion algo)"
  obtain rc engine st1 where c: "(case FindEngine_key ?k st of Some a \<Rightarrow> Some (RETCODE_SUCCESS, Some a, st)
      | None \<Rightarrow> CreateEngineWithCheck ops e ?k st) = Some (rc, engine, st1)"
    using s False by (auto simp: StartEngine_def Let_def split: Option.bind_splits)
  have c1: "em_inv st1 \<and> em_clientEngines st1 = em_clientEngines st \<and>
    ((em_engines st \<noteq> [] \<longrightarrow> ex_pm_made st) \<longrightarrow> (em_engines st1 \<noteq> [] \<longrightarrow> ex_pm_made st1)) \<and>
    (rc = RETCODE_SUCCESS \<longrightarrow> (\<exists>a. engine = Some a \<and> sm_find (em_engines st1) ?k = Some a)) \<and>
    (rc \<noteq> RETCODE_SUCCESS \<longrightarrow> (\<forall>a. engine = Some a \<longrightarrow> \<not> engine_held a st1))"
  proof (cases "sm_find (em_engines st) ?k")
    case None
    then show ?thesis
      using c CreateEngineWithCheck_inv [OF inv None, of ops e rc engine st1] by (auto simp: FindEngine_key_def)
  next
    case (Some a)
    then have "rc = RETCODE_SUCCESS" "engine = Some a" "st1 = st" using c by (simp_all add: FindEngine_key_def)
    then show ?thesis using inv Some by simp
  qed
  show ?thesis
  proof (cases "rc = RETCODE_SUCCESS")
    case rc: False
    have "\<exists>st2. (st2 = st1 \<or> (\<exists>a. engine = Some a \<and> drop_engine e a st1 = Some st2)) \<and> st' = st2 \<and> r = rc"
      using s False c rc by (auto simp: StartEngine_def Let_def split: Option.bind_splits option.splits)
    then obtain "r = rc" and st2: "st' = st1 \<or> (\<exists>a. engine = Some a \<and> drop_engine e a st1 = Some st')" by blast
    have "em_inv st' \<and> em_clientEngines st' = em_clientEngines st1 \<and> em_engines st' = em_engines st1 \<and>
        ex_pm_made st' = ex_pm_made st1"
      using st2
    proof
      assume "\<exists>a. engine = Some a \<and> drop_engine e a st1 = Some st'"
      then obtain a where a: "engine = Some a" "drop_engine e a st1 = Some st'" by blast
      have n: "\<not> engine_held a st1" using c1 rc a(1) by blast
      then show ?thesis using drop_inv [OF _ n drop_engine_same [OF a(2)]] c1 by blast
    qed (use c1 in simp)
    then show ?thesis using c1 rc \<open>r = rc\<close> t by simp
  next
    case rc: True
    then obtain a where a: "engine = Some a" "sm_find (em_engines st1) ?k = Some a" using c1 by blast
    then have "engine_of ?k a st1" using c1 by (auto simp: em_inv_def)
    then obtain en x where en: "ex_objs st1 a = Some en" "en_plugin en = Some x" by (auto simp: engine_of_def)
    have se: "(do {
        pa \<leftarrow> algorithm_of en st1;
        let (r2, out2, p') = po_Prepare ops t inp out0 (ex_algs st1 pa);
        let st2 = set_alg pa p' st1;
        if r2 \<noteq> RETCODE_SUCCESS then Some (r2, out2, st2)
        else Some (RETCODE_SUCCESS, out2, RecordClient t a (set_obj a (AddEngineReference en) st2)) }) =
      Some (r, out1, st')"
      using s unfolding StartEngine_def Let_def if_not_P [OF False] c by (simp add: rc a(1) en)
    then obtain pa where pa: "algorithm_of en st1 = Some pa" by (cases "algorithm_of en st1") auto
    obtain r2 out2 p' where p: "po_Prepare ops t inp out0 (ex_algs st1 pa) = (r2, out2, p')"
      by (cases "po_Prepare ops t inp out0 (ex_algs st1 pa)") auto
    have o: "r = r2" "st' = (if r2 \<noteq> RETCODE_SUCCESS then set_alg pa p' st1
        else RecordClient t a (set_obj a (AddEngineReference en) (set_alg pa p' st1)))"
      using se pa p by (simp_all add: Let_def split: if_splits)
    have inv2: "em_inv (set_alg pa p' st1)" using c1 by (simp add: set_alg_inv)
    have "em_inv (RecordClient t a (set_obj a (AddEngineReference en) (set_alg pa p' st1)))"
      by (rule record_inv [OF inv2]) (use a(2) en(1) c1 t in \<open>auto simp: set_alg_def\<close>)
    then show ?thesis
      using o inv2 c1 t sm_put_length [of "em_clientEngines st" t a] inv
      by (auto simp: set_alg_def RecordClient_def set_obj_def sm_find_put em_inv_def)
  qed
qed

text \<open>The state after a successful release, before the local variable ends.\<close>

definition after_stop :: "int \<Rightarrow> nat \<Rightarrow> Engine \<Rightarrow> Plugin \<Rightarrow> 'p exec \<Rightarrow> 'p exec" where
  "after_stop t a en p st = UnRecordClient t
     (let st2 = set_obj a (DelEngineReference en) st in
      if GetEngineReference (DelEngineReference en) = 0
      then DelEngine (EngineKey (Plugin_GetAid p) (Plugin_GetVersion p))
             (st2\<lparr>ex_pm := UnloadPlugin (Plugin_GetAid p) (Plugin_GetVersion p) (ex_pm st2)\<rparr>)
      else st2)"

lemma last_reference:
  assumes "en_refCount en = swrap 32 (int (clients a m))" and "length m < 2 ^ 31"
  shows "GetEngineReference (DelEngineReference en) = 0 \<longleftrightarrow> clients a m = 1"
proof -
  have "en_refCount (DelEngineReference en) = int (clients a m) - 1"
    using assms clients_le [of a m] clients_small [OF assms(2), of a]
    by (simp add: DelEngineReference_def) (rule swrap_id, auto)
  then show ?thesis by (auto simp: GetEngineReference_def)
qed

lemma after_stop_engines:
  assumes good: "em_good st" and t: "sm_find (em_clientEngines st) t = Some a" and k: "sm_find (em_engines st) k = Some a"
    and en: "ex_objs st a = Some en" "plugin_at (en_plugin en) st = Some p"
  shows "em_engines (after_stop t a en p st) =
      (if clients a (em_clientEngines st) = 1 then sm_erase k (em_engines st) else em_engines st)"
    and "ex_pm (after_stop t a en p st) =
      (if clients a (em_clientEngines st) = 1 then UnloadPlugin (ek_aid k) (ek_version k) (ex_pm st) else ex_pm st)"
    and "em_clientEngines (after_stop t a en p st) = sm_erase t (em_clientEngines st)"
    and "ex_objs (after_stop t a en p st) = (ex_objs st)(a \<mapsto> DelEngineReference en)"
    and "ex_next (after_stop t a en p st) = ex_next st"
    and "ex_waiting (after_stop t a en p st) = ex_waiting st" and "ex_pm_made (after_stop t a en p st) = ex_pm_made st"
proof -
  have "engine_of k a st" using good k by (simp add: em_good_def em_inv_def)
  then have "en_refCount en = swrap 32 (int (clients a (em_clientEngines st)))" "EngineKey (pl_aid p) (pl_version p) = k"
    using en by (auto simp: engine_of_def plugin_at_def)
  moreover from this(1) have "GetEngineReference (DelEngineReference en) = 0 \<longleftrightarrow> clients a (em_clientEngines st) = 1"
    using good unfolding em_good_def by (intro last_reference) auto
  moreover from calculation(2) have "pl_aid p = ek_aid k" "pl_version p = ek_version k" by auto
  ultimately show "em_engines (after_stop t a en p st) =
      (if clients a (em_clientEngines st) = 1 then sm_erase k (em_engines st) else em_engines st)"
    and "ex_pm (after_stop t a en p st) =
      (if clients a (em_clientEngines st) = 1 then UnloadPlugin (ek_aid k) (ek_version k) (ex_pm st) else ex_pm st)"
    and "em_clientEngines (after_stop t a en p st) = sm_erase t (em_clientEngines st)"
    and "ex_objs (after_stop t a en p st) = (ex_objs st)(a \<mapsto> DelEngineReference en)"
    and "ex_next (after_stop t a en p st) = ex_next st"
    and "ex_waiting (after_stop t a en p st) = ex_waiting st" and "ex_pm_made (after_stop t a en p st) = ex_pm_made st"
    by (simp_all add: after_stop_def UnRecordClient_def DelEngine_def set_obj_def
        Plugin_GetAid_def Plugin_GetVersion_def Let_def)
qed

lemma after_stop_inv:
  assumes good: "em_good st" and t: "sm_find (em_clientEngines st) t = Some a" and k: "sm_find (em_engines st) k = Some a"
    and en: "ex_objs st a = Some en" "plugin_at (en_plugin en) st = Some p"
  shows "em_inv (after_stop t a en p st)"
    and "engine_held a (after_stop t a en p st) \<longleftrightarrow>
      clients a (em_clientEngines st) \<noteq> 1 \<or> a \<in> snd ` set (ex_waiting st)"
proof -
  have inv: "em_inv st" using good by (simp add: em_good_def)
  let ?n = "clients a (em_clientEngines st)" and ?st = "after_stop t a en p st"
  note f = after_stop_engines [OF assms]
  have ok: "sm_ok (em_engines st)" "sm_ok (em_clientEngines st)" using inv by (simp_all add: em_inv_def)
  have cl: "clients b (em_clientEngines ?st) + (if a = b then 1 else 0) = clients b (em_clientEngines st)" for b
    using clients_erase [of b t "em_clientEngines st"] t f(3) by simp
  have other: "k' = k" if "sm_find (em_engines st) k' = Some a" for k'
    using inv that k engine_of_inj [of k' a st k] by (simp add: em_inv_def)
  have find: "sm_find (em_engines ?st) k' = (if ?n = 1 \<and> k' = k then None else sm_find (em_engines st) k')" for k'
    using ok(1) f(1) by (simp add: sm_find_erase)
  have "engine_of k' b ?st" if kb: "sm_find (em_engines ?st) k' = Some b" for k' b
  proof -
    have "engine_of k' b st" using inv kb find [of k'] by (auto simp: em_inv_def split: if_splits)
    then obtain en' x q where q: "ex_objs st b = Some en'" "en_plugin en' = Some x" "x < pm_next (ex_pm st)"
      "pm_heap (ex_pm st) x = Some q" "EngineKey (pl_aid q) (pl_version q) = k'" "pl_pluginAlgorithm q \<noteq> None"
      "en_refCount en' = swrap 32 (int (clients b (em_clientEngines st)))" "b < ex_next st"
      unfolding engine_of_def by blast
    have pm: "pm_heap (ex_pm ?st) = pm_heap (ex_pm st)" "pm_next (ex_pm ?st) = pm_next (ex_pm st)"
      using f(2) by simp_all
    show ?thesis
    proof (cases "a = b")
      case True
      then have "int (clients b (em_clientEngines ?st)) = int (clients b (em_clientEngines st)) - 1"
        using cl [of b] by simp
      then show ?thesis
        using q en(1) pm f(4,5) True by (simp add: engine_of_def DelEngineReference_def)
    next
      case False
      then show ?thesis using q cl [of b] pm f(4,5) by (simp add: engine_of_def)
    qed
  qed
  moreover have "\<exists>k'. sm_find (em_engines ?st) k' = Some b" if tb: "sm_find (em_clientEngines ?st) t' = Some b" for t' b
  proof -
    have "sm_find (em_clientEngines st) t' = Some b"
      using tb f(3) sm_find_erase [OF ok(2)] by (auto split: if_splits)
    then obtain k' where k': "sm_find (em_engines st) k' = Some b" using inv unfolding em_inv_def by blast
    have "?n \<noteq> 1 \<or> k' \<noteq> k" using clients_pos [OF tb] cl [of b] k' k by auto
    then show ?thesis using k' find [of k'] by auto
  qed
  moreover have "pm_inv (ex_pm ?st)" using inv f(2) by (simp add: em_inv_def pm_inv_UnloadPlugin)
  moreover have "\<forall>p \<in> set (ex_waiting ?st). fst p < ex_next ?st \<and> snd p < ex_next ?st" using inv f(5,6) by (simp add: em_inv_def)
  ultimately show i: "em_inv ?st" using ok f(1,3) by (simp add: em_inv_def sm_erase_ok)
  show "engine_held a ?st \<longleftrightarrow> ?n \<noteq> 1 \<or> a \<in> snd ` set (ex_waiting st)"
  proof (cases "?n = 1")
    case True
    then have "sm_find (em_engines ?st) k' \<noteq> Some a" for k' using find [of k'] other [of k'] by auto
    then show ?thesis using held_iff [OF i, of a] True f(6) by simp
  next
    case False
    then have "sm_find (em_engines ?st) k = Some a" using find [of k] k by simp
    then show ?thesis using held_iff [OF i, of a] False by blast
  qed
qed

lemma StopEngine_eq:
  assumes good: "em_good st" and t: "sm_find (em_clientEngines st) t = Some a"
  obtains k en p pa where "sm_find (em_engines st) k = Some a" "ex_objs st a = Some en"
    "plugin_at (en_plugin en) st = Some p" "GetPluginAlgorithm p = Some pa" "algorithm_of en st = Some pa"
    "StopEngine ops e t inp st =
       (let (r, p') = po_Release ops (clients a (em_clientEngines st) = 1) t inp (ex_algs st pa) in
        if r \<noteq> RETCODE_SUCCESS then Some (r, set_alg pa p' st)
        else do { st' \<leftarrow> drop_engine e a (after_stop t a en p (set_alg pa p' st)); Some (RETCODE_SUCCESS, st') })"
proof -
  have inv: "em_inv st" and few: "length (em_clientEngines st) < 2 ^ 31" using good by (simp_all add: em_good_def)
  obtain k where k: "sm_find (em_engines st) k = Some a" using inv t unfolding em_inv_def by blast
  then have pm: "ex_pm_made st" using good by (auto simp: em_good_def)
  have "engine_of k a st" using inv k by (simp add: em_inv_def)
  then obtain en x p pa where en: "ex_objs st a = Some en" "en_plugin en = Some x" "pm_heap (ex_pm st) x = Some p"
      "pl_pluginAlgorithm p = Some pa" "en_refCount en = swrap 32 (int (clients a (em_clientEngines st)))"
    by (auto simp: engine_of_def)
  have full: "GetEngineReference en = 1 \<longleftrightarrow> clients a (em_clientEngines st) = 1"
    using en(5) clients_small [OF few, of a] by (simp add: GetEngineReference_def)
  have pm2: "PM_GetInstance e (set_obj a en1 (set_alg pa p' st)) = (True, set_obj a en1 (set_alg pa p' st))" for en1 p'
    using pm by (intro GetInstance_made(1)) (simp add: set_obj_def set_alg_def)
  have p: "plugin_at (en_plugin en) st = Some p" "GetPluginAlgorithm p = Some pa" "algorithm_of en st = Some pa"
    using en by (simp_all add: plugin_at_def GetPluginAlgorithm_def algorithm_of_def)
  have "StopEngine ops e t inp st =
       (let (r, p') = po_Release ops (clients a (em_clientEngines st) = 1) t inp (ex_algs st pa) in
        if r \<noteq> RETCODE_SUCCESS then Some (r, set_alg pa p' st)
        else do { st' \<leftarrow> drop_engine e a (after_stop t a en p (set_alg pa p' st)); Some (RETCODE_SUCCESS, st') })"
    using t en p full pm2
    by (cases "po_Release ops (clients a (em_clientEngines st) = 1) t inp (ex_algs st pa)",
        cases "GetEngineReference (DelEngineReference en) = 0")
      (simp_all add: StopEngine_def FindEngine_client_def after_stop_def Let_def)
  then show ?thesis using that k en(1) p by blast
qed

lemma StopEngine_cases:
  assumes good: "em_good st" and t: "sm_find (em_clientEngines st) t = Some a"
    and s: "StopEngine ops e t inp st = Some (r, st')"
  obtains k en p pa p' where "sm_find (em_engines st) k = Some a" "ex_objs st a = Some en"
    "plugin_at (en_plugin en) st = Some p" "GetPluginAlgorithm p = Some pa"
    "po_Release ops (clients a (em_clientEngines st) = 1) t inp (ex_algs st pa) = (r, p')"
    "if r \<noteq> RETCODE_SUCCESS then st' = set_alg pa p' st
     else drop_engine e a (after_stop t a en p (set_alg pa p' st)) = Some st'"
proof (rule StopEngine_eq [OF good t, of ops e inp])
  fix k en p pa
  assume k: "sm_find (em_engines st) k = Some a" "ex_objs st a = Some en" "plugin_at (en_plugin en) st = Some p"
    "GetPluginAlgorithm p = Some pa"
    and eq: "StopEngine ops e t inp st =
       (let (r, p') = po_Release ops (clients a (em_clientEngines st) = 1) t inp (ex_algs st pa) in
        if r \<noteq> RETCODE_SUCCESS then Some (r, set_alg pa p' st)
        else do { st' \<leftarrow> drop_engine e a (after_stop t a en p (set_alg pa p' st)); Some (RETCODE_SUCCESS, st') })"
  obtain r' p' where r': "po_Release ops (clients a (em_clientEngines st) = 1) t inp (ex_algs st pa) = (r', p')"
    by (cases "po_Release ops (clients a (em_clientEngines st) = 1) t inp (ex_algs st pa)") auto
  have "r' = r \<and> (if r \<noteq> RETCODE_SUCCESS then st' = set_alg pa p' st
     else drop_engine e a (after_stop t a en p (set_alg pa p' st)) = Some st')"
    using s eq r' by (auto split: if_splits Option.bind_splits)
  then show ?thesis using that k r' by blast
qed

lemma StopEngine_result:
  assumes good: "em_good st" and s: "StopEngine ops e t inp st = Some (r, st')"
  shows "em_good st' \<and> (\<forall>t'. t' \<noteq> t \<longrightarrow> sm_find (em_clientEngines st') t' = sm_find (em_clientEngines st) t') \<and>
    (r \<noteq> RETCODE_SUCCESS \<longrightarrow> em_clientEngines st' = em_clientEngines st \<and> em_engines st' = em_engines st) \<and>
    (r = RETCODE_SUCCESS \<longrightarrow> sm_find (em_clientEngines st') t = None \<and>
       (\<exists>a k. sm_find (em_clientEngines st) t = Some a \<and> sm_find (em_engines st) k = Some a \<and>
         (if clients a (em_clientEngines st) = 1
          then (ex_objs st' a = None \<longleftrightarrow> a \<notin> snd ` set (ex_waiting st)) \<and> sm_find (em_engines st') k = None \<and>
               FindPlugin (PluginKey (ek_aid k) (ek_version k)) (ex_pm st') = None
          else sm_find (em_engines st') k = Some a \<and> ex_pm st' = ex_pm st)))"
proof (cases "sm_find (em_clientEngines st) t")
  case None
  then show ?thesis using s good by (simp add: StopEngine_def FindEngine_client_def)
next
  case (Some a)
  have inv: "em_inv st" using good by (simp add: em_good_def)
  from good Some s show ?thesis
  proof (cases rule: StopEngine_cases)
    case (1 k en p pa p')
    let ?s1 = "set_alg pa p' st" and ?st = "after_stop t a en p (set_alg pa p' st)"
    have i1: "em_good ?s1" using good by (rule set_alg_good)
    have same: "em_clientEngines ?s1 = em_clientEngines st" "em_engines ?s1 = em_engines st" "ex_pm ?s1 = ex_pm st"
      "ex_waiting ?s1 = ex_waiting st" "ex_pm_made ?s1 = ex_pm_made st"
      by (simp_all add: set_alg_def)
    show ?thesis
    proof (cases "r = RETCODE_SUCCESS")
      case False
      then show ?thesis using 1(6) i1 same by simp
    next
      case True
      have pre: "sm_find (em_clientEngines ?s1) t = Some a" "sm_find (em_engines ?s1) k = Some a"
        "ex_objs ?s1 a = Some en" "plugin_at (en_plugin en) ?s1 = Some p"
        using Some 1(1-3) same by (simp_all add: plugin_at_def cong: option.case_cong)
      note f = after_stop_engines [OF i1 pre] and ai = after_stop_inv [OF i1 pre]
      have ok: "sm_ok (em_engines st)" "sm_ok (em_clientEngines st)" "sm_ok (pm_pluginMap (ex_pm st))"
        using inv by (simp_all add: em_inv_def pm_inv_def)
      have d: "drop_engine e a ?st = Some st'" using True 1(6) by simp
      have pmm: "em_engines ?s1 \<noteq> [] \<longrightarrow> ex_pm_made st" using good same by (simp add: em_good_def)
      have "sm_erase k m \<noteq> [] \<Longrightarrow> m \<noteq> []" for m :: "(EngineKey \<times> nat) list" by auto
      then have "em_engines ?st \<noteq> [] \<longrightarrow> ex_pm_made ?st" using f(1,7) pmm same(5) by (auto split: if_splits)
      moreover have "length (em_clientEngines ?st) < 2 ^ 31"
        using good f(3) same(1) sm_erase_length [of t "em_clientEngines st"] by (simp add: em_good_def)
      ultimately have g: "em_good ?st" using ai(1) by (simp add: em_good_def)
      have unload: "FindPlugin (PluginKey (ek_aid k) (ek_version k)) (UnloadPlugin (ek_aid k) (ek_version k) (ex_pm st)) = None"
        using ok(3) by (auto simp: UnloadPlugin_def FindPlugin_def DelPlugin_def sm_find_erase split: option.splits)
      show ?thesis
      proof (cases "engine_held a ?st")
        case held: True
        then have "st' = ?st" using d drop_engine_held by (metis option.inject)
        then show ?thesis
          using g f True Some 1(1) ok same held ai(2) unload
          by (cases "clients a (em_clientEngines st) = 1") (auto simp: sm_find_erase)
      next
        case n: False
        note dl = drop_engine_last [OF n d]
        have "em_good st'" using drop_inv [OF ai(1) n] dl g by (auto simp: em_good_def)
        then show ?thesis
          using dl f n ai(2) True Some 1(1) ok same unload by (auto simp: same_maps_def sm_find_erase)
      qed
    qed
  qed
qed

section \<open>The counts in every reachable state\<close>

text \<open>What executing and the options do not touch.\<close>

definition same_view :: "'p exec \<Rightarrow> 'p exec \<Rightarrow> bool" where
  "same_view st st' \<longleftrightarrow> em_engines st' = em_engines st \<and> em_clientEngines st' = em_clientEngines st \<and>
     ex_waiting st' = ex_waiting st \<and> ex_pm_made st' = ex_pm_made st \<and> ex_tp_made st' = ex_tp_made st \<and>
     ex_qp_made st' = ex_qp_made st \<and> ex_tp st' = ex_tp st \<and>
     ex_pm st' = ex_pm st \<and> ex_objs st' = ex_objs st \<and> ex_next st \<le> ex_next st'"

lemma same_view_refl: "same_view st st" by (simp add: same_view_def)

lemma same_view_trans: "same_view st1 st2 \<Longrightarrow> same_view st2 st3 \<Longrightarrow> same_view st1 st3"
  by (simp add: same_view_def)

lemma same_view_set [simp]: "same_view st (set_queue qa q st)" "same_view st (set_alg pa p st)"
  by (simp_all add: same_view_def set_queue_def set_alg_def)

lemma same_view_good: "em_good st \<Longrightarrow> same_view st st' \<Longrightarrow> em_good st'"
proof -
  assume g: "em_good st" and v: "same_view st st'"
  have i: "em_inv st" and p: "pm_inv (ex_pm st)" and w: "\<forall>p \<in> set (ex_waiting st). fst p < ex_next st \<and> snd p < ex_next st"
    using g by (simp_all add: em_good_def em_inv_def)
  have "\<forall>p \<in> set (ex_waiting st'). fst p < ex_next st' \<and> snd p < ex_next st'"
    using w v less_le_trans unfolding same_view_def by metis
  then have "em_inv st'"
    using v p by (intro em_inv_frame [OF i]) (simp_all add: same_view_def)
  then show ?thesis using g v by (simp add: em_good_def same_view_def)
qed

lemma waiting_good:
  "em_good st \<Longrightarrow> \<forall>p \<in> set w. fst p < ex_next st \<and> snd p < ex_next st \<Longrightarrow> em_good (st\<lparr>ex_waiting := w\<rparr>)"
proof -
  assume g: "em_good st" and w: "\<forall>p \<in> set w. fst p < ex_next st \<and> snd p < ex_next st"
  have i: "em_inv st" and p: "pm_inv (ex_pm st)" using g by (simp_all add: em_good_def em_inv_def)
  have "em_inv (st\<lparr>ex_waiting := w\<rparr>)"
    using w p by (intro em_inv_frame [OF i]) simp_all
  then show ?thesis using g by (simp add: em_good_def)
qed

lemma drop_good: "em_good st \<Longrightarrow> drop_engine e a st = Some st' \<Longrightarrow> em_good st'"
proof -
  assume g: "em_good st" and d: "drop_engine e a st = Some st'"
  show "em_good st'"
  proof (cases "engine_held a st")
    case True
    then show ?thesis using g d drop_engine_held by (metis option.inject)
  next
    case False
    then show ?thesis using g drop_inv [OF _ False drop_engine_same [OF d]] by (auto simp: em_good_def)
  qed
qed

lemma on_events_view: "same_view st (on_events es st)"
proof (induction es arbitrary: st)
  case Nil
  then show ?case by (simp add: same_view_refl)
next
  case (Cons x es)
  obtain ev r where x: "x = (ev, r)" by (cases x)
  have "same_view st (snd (AsyncMsgHandler_OnEvent ev r st))"
    by (auto simp: AsyncMsgHandler_OnEvent_def same_view_def Let_def split: option.splits prod.splits)
  then show ?case using Cons.IH same_view_trans x by (metis on_events.simps(2))
qed

lemma handler_Process_view: "handler_Process ops nr h task st = Some (r, st') \<Longrightarrow> same_view st st'"
proof -
  assume p: "handler_Process ops nr h task st = Some (r, st')"
  have "same_view st st1" if "SyncMsgHandler_Process ops nr alg task st = Some (r, st1)" for alg st1
    using that by (auto simp: SyncMsgHandler_Process_def Let_def same_view_def set_alg_def
        split: option.splits if_splits prod.splits)
  moreover have "same_view st st1" if "AsyncMsgHandler_Process ops alg task st = Some (r, st1)" for alg st1
    using that
    by (auto simp: AsyncMsgHandler_Process_def Let_def same_view_refl split: option.splits prod.splits
        intro: same_view_trans [OF same_view_set(2) on_events_view])
  ultimately show ?thesis using p by (auto simp: handler_Process_def split: option.splits handler.splits)
qed

lemma OneAction_view: "EngineWorker_OneAction ops nr qa st = Some (b, st') \<Longrightarrow> same_view st st'"
  by (auto simp: EngineWorker_OneAction_def Let_def same_view_refl
      split: Option.bind_splits if_splits option.splits
      intro: same_view_trans [OF same_view_set(1) handler_Process_view])

lemma send_view: "Engine_SyncExecute_send a req st = Some (x, st') \<Longrightarrow> same_view st st'"
  by (auto simp: Engine_SyncExecute_send_def SyncMsgHandler_SendRequest_def Let_def
      same_view_def set_queue_def split: Option.bind_splits if_splits option.splits handler.splits)

lemma send_notifier: "Engine_SyncExecute_send a req st = Some (Inr n, st') \<Longrightarrow> n < ex_next st'"
  by (auto simp: Engine_SyncExecute_send_def SyncMsgHandler_SendRequest_def Let_def
      set_queue_def split: Option.bind_splits if_splits option.splits handler.splits)

lemma SyncExecute_cases:
  assumes s: "SE_SyncExecute_send mgr req st = Some (x, st')"
  obtains "same_view st st'"
  | t a n st1 where "FindEngine_client t st = Some a" "same_view st st1" "n < ex_next st1"
      "st' = st1\<lparr>ex_waiting := (n, a) # ex_waiting st1\<rparr>"
proof (cases "same_view st st'")
  case False
  then obtain r a st1 where f: "FindEngine_client (Request_GetTransactionId r) st = Some a"
      "Engine_SyncExecute_send a (Some r) st = Some (x, st1)"
      "st' = (case x of Inl c \<Rightarrow> st1 | Inr n \<Rightarrow> st1\<lparr>ex_waiting := (n, a) # ex_waiting st1\<rparr>)"
    using s by (auto simp: SE_SyncExecute_send_def same_view_refl split: if_splits option.splits Option.bind_splits)
  have v: "same_view st st1" using f(2) by (rule send_view)
  then obtain n where n: "x = Inr n" using f(3) False by (cases x) auto
  then have "n < ex_next st1" using f(2) send_notifier by blast
  then show ?thesis using that(2) [OF f(1) v] f(3) n by simp
qed (use that in blast)

lemma receive_view: "Engine_SyncExecute_receive n st = Some (r, resp, st') \<Longrightarrow> same_view st st'"
  by (auto simp: Engine_SyncExecute_receive_def SyncMsgHandler_ReceiveResponse_def Let_def
      same_view_def split: Option.bind_splits if_splits option.splits)

lemma AsyncExecute_view: "SE_AsyncExecute e mgr req st = Some (r, st') \<Longrightarrow> same_view st st'"
  by (auto simp: SE_AsyncExecute_def Engine_AsyncExecute_def AsyncMsgHandler_SendRequest_def Let_def
      FF_GetInstance_def same_view_def set_queue_def split: Option.bind_splits if_splits option.splits handler.splits)

lemma SetOption_view: "SE_SetOption ops mgr t ty inp st = Some (r, st') \<Longrightarrow> same_view st st'"
  by (auto simp: SE_SetOption_def EM_SetOption_def Let_def same_view_refl
      split: Option.bind_splits if_splits option.splits prod.splits)

lemma GetOption_view: "SE_GetOption ops mgr t ty inp out st = Some (r, out', st') \<Longrightarrow> same_view st st'"
  by (auto simp: SE_GetOption_def EM_GetOption_def Let_def same_view_refl
      split: Option.bind_splits if_splits option.splits prod.splits)

lemma SyncExecute_good:
  assumes g: "em_good st" and s: "SE_SyncExecute_send mgr req st = Some (x, st')"
  shows "em_good st'"
  using s
proof (cases rule: SyncExecute_cases)
  case 1
  then show ?thesis using g same_view_good by blast
next
  case (2 t a n st1)
  have g1: "em_good st1" using g 2(2) by (rule same_view_good)
  have "engine_held a st1"
    using 2(1,2) g sm_values [of "em_clientEngines st" a]
    by (auto simp: engine_held_def same_view_def FindEngine_client_def em_good_def em_inv_def)
  then have "a < ex_next st1" using g1 held_old by (auto simp: em_good_def)
  moreover note 2(3)
  moreover have "\<forall>p \<in> set (ex_waiting st1). fst p < ex_next st1 \<and> snd p < ex_next st1" using g1 by (simp add: em_good_def em_inv_def)
  ultimately show ?thesis unfolding 2(4) by (intro waiting_good [OF g1]) auto
qed

lemma SE_receive_good:
  assumes g: "em_good st" and s: "SE_SyncExecute_receive e n st = Some (r, resp, st')"
  shows "em_good st'"
proof -
  obtain a st1 where st1: "Engine_SyncExecute_receive n st = Some (r, resp, st1)"
    and d: "drop_engine e a (st1\<lparr>ex_waiting := filter (\<lambda>p. fst p \<noteq> n) (ex_waiting st1)\<rparr>) = Some st'"
    using s by (auto simp: SE_SyncExecute_receive_def split: Option.bind_splits)
  have g1: "em_good st1" using g receive_view [OF st1] by (rule same_view_good)
  then have "em_good (st1\<lparr>ex_waiting := filter (\<lambda>p. fst p \<noteq> n) (ex_waiting st1)\<rparr>)"
    by (intro waiting_good) (auto simp: em_good_def em_inv_def)
  then show ?thesis using d drop_good by blast
qed

text \<open>
  The operations in any order, one after another; a transaction that is recorded is not started
  again, and fewer than \<open>2 ^ 31\<close> are recorded.
\<close>

inductive em_step :: "'p exec \<Rightarrow> 'p exec \<Rightarrow> bool" where
  start_engine: "FindEngine_client t st = None \<Longrightarrow> Suc (length (em_clientEngines st)) < 2 ^ 31 \<Longrightarrow>
    SE_StartEngine ops e mgr t algo inp out st = Some (r, out', st') \<Longrightarrow> em_step st st'"
| stop_engine: "SE_StopEngine ops e mgr t inp st = Some (r, st') \<Longrightarrow> em_step st st'"
| set_option: "SE_SetOption ops mgr t ty inp st = Some (r, st') \<Longrightarrow> em_step st st'"
| get_option: "SE_GetOption ops mgr t ty inp out st = Some (r, out', st') \<Longrightarrow> em_step st st'"
| sync_send: "SE_SyncExecute_send mgr req st = Some (x, st') \<Longrightarrow> em_step st st'"
| sync_receive: "SE_SyncExecute_receive e n st = Some (r, resp, st') \<Longrightarrow> em_step st st'"
| async: "SE_AsyncExecute e mgr req st = Some (r, st') \<Longrightarrow> em_step st st'"
| work: "EngineWorker_OneAction ops nr qa st = Some (b, st') \<Longrightarrow> em_step st st'"

inductive em_reach :: "'p exec \<Rightarrow> bool" where
  init: "em_reach (exec_init algs)"
| step: "em_reach st \<Longrightarrow> em_step st st' \<Longrightarrow> em_reach st'"

lemma em_step_good: "em_step st st' \<Longrightarrow> em_good st \<Longrightarrow> em_good st'"
proof (induction rule: em_step.induct)
  case (start_engine t st ops e mgr algo inp out r out' st')
  then show ?case
    using StartEngine_inv [of st t ops e algo inp out r out' st']
    by (auto simp: SE_StartEngine_def FindEngine_client_def em_good_def split: if_splits)
next
  case (stop_engine ops e mgr t inp st r st')
  then show ?case using StopEngine_result [of st ops e t inp r st'] by (auto simp: SE_StopEngine_def split: if_splits)
qed (blast intro: same_view_good SetOption_view GetOption_view SyncExecute_good SE_receive_good AsyncExecute_view
      OneAction_view)+

lemma em_good_init: "em_good (exec_init algs)"
  using em_inv_init [of algs] by (simp add: em_good_def exec_init_def)

lemma em_reach_good: "em_reach st \<Longrightarrow> em_good st"
  by (induction rule: em_reach.induct) (auto intro: em_good_init em_step_good)

lemma em_reach_inv: "em_reach st \<Longrightarrow> em_inv st"
  using em_reach_good by (auto simp: em_good_def)

lemma clients_card: "sm_ok m \<Longrightarrow> clients a m = card {t. sm_find m t = Some a}"
proof (induction m)
  case Nil
  then show ?case by (simp add: clients_def)
next
  case (Cons x m)
  obtain k b where x: "x = (k, b)" by (cases x)
  have n: "sm_find m k = None" and ok: "sm_ok m" using Cons.prems x by (auto simp: sm_find_none)
  have fin: "finite {t. sm_find m t = Some a}"
    by (rule finite_subset [of _ "fst ` set m"]) (auto simp: sm_find_in [OF ok] image_iff, force)
  have "{t. sm_find (x # m) t = Some a} = (if b = a then insert k {t. sm_find m t = Some a} else {t. sm_find m t = Some a})"
    using x n by (auto split: if_splits)
  then show ?case using Cons.IH [OF ok] x n fin by (simp add: clients_def)
qed

text \<open>C18. The reference counts are right as long as no recorded transaction is started again
  and fewer than \<open>2 ^ 31\<close> transactions are recorded: in every state the operations lead to, taken
  one after another under these two conditions - engines started for transactions not recorded
  and stopped, options set and read, requests sent, received and worked off, in any order and
  with any answer of the environment - the count of a recorded engine is the number of
  transactions recorded for it, the engine is the one of its plugin's algorithm and version, and
  its plugin is loaded. A successful stop of a transaction forgets it, and exactly if it was the
  last one of the engine it takes the engine from the manager and unloads the plugin - the
  engine itself is destroyed unless a caller of \<open>SyncExecute\<close> waits with a shared pointer to it;
  an unsuccessful stop keeps both maps.\<close>

theorem engine_reference_counts:
  assumes "em_reach st"
  shows "(\<forall>t a. FindEngine_client t st = Some a \<longrightarrow> (\<exists>en k. ex_objs st a = Some en \<and>
        GetEngineReference en = int (card {t. FindEngine_client t st = Some a}) \<and> 0 < GetEngineReference en \<and>
        FindEngine_key k st = Some a \<and> (\<exists>p. plugin_at (en_plugin en) st = Some p \<and>
          EngineKey (Plugin_GetAid p) (Plugin_GetVersion p) = k \<and> GetPluginAlgorithm p \<noteq> None))) \<and>
    (\<forall>ops e t inp r st'. StopEngine ops e t inp st = Some (r, st') \<longrightarrow>
        (r = RETCODE_SUCCESS \<longrightarrow> FindEngine_client t st' = None \<and>
           (\<exists>a k. FindEngine_client t st = Some a \<and> FindEngine_key k st = Some a \<and>
              (if {t. FindEngine_client t st = Some a} = {t}
               then (ex_objs st' a = None \<longleftrightarrow> a \<notin> snd ` set (ex_waiting st)) \<and> FindEngine_key k st' = None \<and>
                    FindPlugin (PluginKey (ek_aid k) (ek_version k)) (ex_pm st') = None
               else FindEngine_key k st' = Some a \<and> ex_pm st' = ex_pm st))) \<and>
        (r \<noteq> RETCODE_SUCCESS \<longrightarrow> em_clientEngines st' = em_clientEngines st \<and> em_engines st' = em_engines st))"
proof -
  have good: "em_good st" using assms by (rule em_reach_good)
  have inv: "em_inv st" using assms by (rule em_reach_inv)
  then have ok: "sm_ok (em_clientEngines st)" by (simp add: em_inv_def)
  have card: "clients a (em_clientEngines st) = card {t. FindEngine_client t st = Some a}" for a
    using clients_card [OF ok] by (simp add: FindEngine_client_def)
  have one: "{t. FindEngine_client t st = Some a} = {t} \<longleftrightarrow> clients a (em_clientEngines st) = 1"
    if "sm_find (em_clientEngines st) t = Some a" for t a
  proof -
    have "card S = 1 \<longleftrightarrow> (\<exists>x. S = {x})" for S :: "int set" by (simp add: card_1_singleton_iff)
    moreover have "t \<in> {t. FindEngine_client t st = Some a}" using that by (simp add: FindEngine_client_def)
    ultimately show ?thesis unfolding card by (metis singletonD)
  qed
  have "\<exists>en k. ex_objs st a = Some en \<and>
        GetEngineReference en = int (card {t. FindEngine_client t st = Some a}) \<and> 0 < GetEngineReference en \<and>
        FindEngine_key k st = Some a \<and> (\<exists>p. plugin_at (en_plugin en) st = Some p \<and>
          EngineKey (Plugin_GetAid p) (Plugin_GetVersion p) = k \<and> GetPluginAlgorithm p \<noteq> None)"
    if t: "FindEngine_client t st = Some a" for t a
  proof -
    obtain k where k: "sm_find (em_engines st) k = Some a"
      using inv t unfolding em_inv_def FindEngine_client_def by blast
    then have "engine_of k a st" using inv by (simp add: em_inv_def)
    moreover have "0 < clients a (em_clientEngines st)" using t clients_pos by (simp add: FindEngine_client_def)
    ultimately show ?thesis
      using k card [of a] clients_small [of "em_clientEngines st" a] good
      by (fastforce simp: engine_of_def em_good_def plugin_at_def GetEngineReference_def FindEngine_key_def
          Plugin_GetAid_def Plugin_GetVersion_def GetPluginAlgorithm_def)
  qed
  moreover have "(r = RETCODE_SUCCESS \<longrightarrow> FindEngine_client t st' = None \<and>
           (\<exists>a k. FindEngine_client t st = Some a \<and> FindEngine_key k st = Some a \<and>
              (if {t. FindEngine_client t st = Some a} = {t}
               then (ex_objs st' a = None \<longleftrightarrow> a \<notin> snd ` set (ex_waiting st)) \<and> FindEngine_key k st' = None \<and>
                    FindPlugin (PluginKey (ek_aid k) (ek_version k)) (ex_pm st') = None
               else FindEngine_key k st' = Some a \<and> ex_pm st' = ex_pm st))) \<and>
        (r \<noteq> RETCODE_SUCCESS \<longrightarrow> em_clientEngines st' = em_clientEngines st \<and> em_engines st' = em_engines st)"
    if "StopEngine ops e t inp st = Some (r, st')" for ops :: "'a plug_ops" and e t inp r st'
    using StopEngine_result [OF good that] one [of t] unfolding FindEngine_client_def FindEngine_key_def by metis
  ultimately show ?thesis by blast
qed

text \<open>The witnesses run in a service where everything succeeds.\<close>

definition demo_algo :: AlgorithmInfo where
  "demo_algo = \<lparr>ai_clientVersion = 0, ai_isAsync = False, ai_algorithmType = 2, ai_algorithmVersion = 20001002,
     ai_isCloud = False, ai_operateId = 0, ai_requestId = 0, ai_extend = empty_DataInfo\<rparr>"

lemma demo_key: "GetAlgorithmIdByType (ai_algorithmType demo_algo) = ALGORITHM_ID_KWS"
  "ai_algorithmVersion demo_algo = 20001002"
  by (simp_all add: demo_algo_def GetAlgorithmIdByType_def ALGORITHM_TYPE_ID_LIST_def)

definition demo_plug :: Plugin where
  "demo_plug = \<lparr>pl_pluginAlgorithm = Some 7, pl_aid = ALGORITHM_ID_KWS, pl_version = 20001002, pl_handle = Some 5\<rparr>"

lemma demo_plugin:
  "GetPlugin (xe_ld demo_env) True ALGORITHM_ID_KWS 20001002 PluginManager_new =
     (0, Some 0, \<lparr>pm_pluginMap = [(PluginKey ALGORITHM_ID_KWS 20001002, 0)], pm_heap = [0 \<mapsto> demo_plug], pm_next = 1\<rparr>)"
  using version_strings(3) [of 20001002]
  by (simp add: GetPlugin_def FindPlugin_def PluginManager_new_def LoadPlugin_def demo_env_def AddPlugin_def
      LoadPluginAlgorithm_def Plugin_new_def GetLibPath_def AieDlopen_def Let_def demo_plug_def)

lemma demo_start:
  "\<exists>st. StartEngine demo_ops demo_env 1 demo_algo empty_DataInfo empty_DataInfo (exec_init (\<lambda>_. 0)) =
      Some (RETCODE_SUCCESS, empty_DataInfo, st) \<and>
    em_clientEngines st = [(1, 0)] \<and> em_engines st = [(EngineKey ALGORITHM_ID_KWS 20001002, 0)] \<and>
    (\<exists>en. ex_objs st 0 = Some en \<and> en_plugin en = Some 0) \<and> pm_heap (ex_pm st) 0 = Some demo_plug \<and>
    ex_waiting st = []"
proof -
  have e: "xe_label demo_env" "xe_new_thread demo_env" "xe_new_queue demo_env" "xe_new_engine demo_env"
      "xe_new_handler demo_env" "xe_new_nodes demo_env" "xe_new_pm demo_env" "xe_new_tp demo_env" "xe_new_qp demo_env"
      "xe_create demo_env = (\<lambda>_. (0, 7))"
    by (simp_all add: demo_env_def)
  show ?thesis
    using demo_plugin e
    by (simp add: demo_plug_def StartEngine_def demo_key FindEngine_key_def CreateEngineWithCheck_def CreateEngine_def
        CreateEngine_thread_def CreateEngine_queue_def CreateEngine_object_def PM_GetInstance_def TP_GetInstance_def
        QP_GetInstance_def exec_init_def Let_def ThreadPool_Pop_def ThreadPool_new_def QueuePool_Pop_steps
        QueuePool_new_def sz_counts
        Engine_Initialize_def set_obj_def Engine_new_def plugin_at_def GetPluginAlgorithm_def
        Thread_StartThread_def Thread_StartThread0_def SetThread_def upd_thread_def upd_worker_def
        Thread_SetStackSize_def Thread_new_def algorithm_of_def demo_ops_def RecordClient_def AddEngineReference_def set_alg_def cong: if_cong)
qed

theorem engine_reference_counts_witness:
  "\<exists>st a en. em_reach (st :: nat exec) \<and> FindEngine_client 1 st = Some a \<and> ex_objs st a = Some en \<and>
     GetEngineReference en = 1 \<and>
     (\<forall>ops e inp st'. StopEngine ops e 1 inp st = Some (RETCODE_SUCCESS, st') \<longrightarrow> ex_objs st' a = None)"
proof -
  obtain st where st: "StartEngine demo_ops demo_env 1 demo_algo empty_DataInfo empty_DataInfo (exec_init (\<lambda>_. 0)) =
      Some (RETCODE_SUCCESS, empty_DataInfo, st)" and w: "ex_waiting st = []"
    using demo_start by blast
  have n: "FindEngine_client 1 (exec_init (\<lambda>_. 0::nat)) = None" by (simp add: FindEngine_client_def exec_init_def)
  have "em_step (exec_init (\<lambda>_. 0)) st"
    using em_step.start_engine [OF n, of demo_ops demo_env True demo_algo] st
    by (simp add: SE_StartEngine_def exec_init_def)
  then have r: "em_reach st" using em_reach.init em_reach.step by blast
  have c: "sm_find (em_clientEngines st) 1 \<noteq> None"
    "\<forall>t'. t' \<noteq> 1 \<longrightarrow> sm_find (em_clientEngines st) t' = None"
    using StartEngine_inv [OF em_inv_init _ st] by (simp_all add: exec_init_def)
  then obtain a where a: "FindEngine_client 1 st = Some a" by (auto simp: FindEngine_client_def)
  then have one: "{t. FindEngine_client t st = Some a} = {1}"
    using c(2) by (auto simp: FindEngine_client_def intro: ccontr)
  note counts = engine_reference_counts [OF r]
  obtain en where en: "ex_objs st a = Some en" "GetEngineReference en = 1"
    using counts [THEN conjunct1, rule_format, OF a] one by fastforce
  have "ex_objs st' a = None" if so: "StopEngine ops e 1 inp st = Some (RETCODE_SUCCESS, st')"
    for ops :: "nat plug_ops" and e inp st'
  proof -
    obtain b k where b: "FindEngine_client 1 st = Some b"
        "if {t. FindEngine_client t st = Some b} = {1}
               then (ex_objs st' b = None \<longleftrightarrow> b \<notin> snd ` set (ex_waiting st)) \<and> FindEngine_key k st' = None \<and>
                    FindPlugin (PluginKey (ek_aid k) (ek_version k)) (ex_pm st') = None
               else FindEngine_key k st' = Some b \<and> ex_pm st' = ex_pm st"
      using counts [THEN conjunct2, rule_format, OF so, THEN conjunct1, THEN mp, OF refl, THEN conjunct2] by blast
    then show ?thesis using a one w by simp
  qed
  then show ?thesis using r a en by blast
qed

section \<open>A stop while a caller waits\<close>

lemma QPush_good:
  "good_queue n (qp_heap qp qa) \<Longrightarrow> \<exists>qp'. QueuePool_Push (Some qa) qp = Some qp' \<and> good_queue n (qp_heap qp' qa)"
proof -
  assume "good_queue n (qp_heap qp qa)"
  then obtain q where q: "qp_heap qp qa = Some q" "ring_inv q" "q_totalNum q = n" by (auto simp: good_queue_def)
  moreover obtain q' where "Queue_Reset q = Some q'" "ring_inv q'" "q_totalNum q' = q_totalNum q"
    using Queue_Reset_ring [OF q(2)] by blast
  ultimately show ?thesis by (simp add: QueuePool_Push_steps good_queue_def Let_def)
qed

lemma worker_actions_view: "worker_actions ops nr qa k st = Some st' \<Longrightarrow> same_view st st'"
proof (induction k arbitrary: st)
  case 0
  then show ?case by (simp add: same_view_refl)
next
  case (Suc k)
  then obtain b st1 where s1: "EngineWorker_OneAction ops nr qa st = Some (b, st1)"
      "if \<not> b then st' = st1 else worker_actions ops nr qa k st1 = Some st'"
    by (auto split: option.splits if_splits)
  have v: "same_view st st1" using s1(1) by (rule OneAction_view)
  show ?case
  proof (cases b)
    case True
    then show ?thesis using s1(2) Suc.IH same_view_trans [OF v] by simp
  qed (use s1(2) v in simp)
qed

text \<open>The destructor of an engine in service with an empty queue runs to its end.\<close>

lemma dtor_serving:
  assumes "sync_engine a h qa pa [] st" and "ex_objs st a = Some en" and "en_thread en = Some ta"
    and "en_queue en = Some qa" and "tp_heap (ex_tp st) ta = Some t" and "xe_ends e" and "ex_tp_made st" and "ex_qp_made st"
  shows "\<exists>st'. Engine_dtor e a st = Some st'"
proof -
  obtain q where q: "queue_at qa st = Some q" "ring_inv q" "q_totalNum q = MAX_SYNC_MSG_NUM"
    using assms(1) by (auto simp: sync_engine_def)
  obtain rs q' where q': "ClearQueue q = Some (rs, q')" "ring_inv q'" "q_totalNum q' = MAX_SYNC_MSG_NUM"
    using ClearQueue_ring [OF q(2)] q(3) by auto
  obtain t1 where t1: "Thread_StopThread (xe_alive e) (xe_ends e) t = Some t1"
    using assms(6) by (cases "IsActive (xe_alive e) t") (simp_all add: Thread_StopThread_def)
  have "\<exists>st1. Engine_StopThread e ta (Some qa) st = Some st1 \<and> tp_heap (ex_tp st1) ta = Some t1 \<and>
      ex_tp_made st1 \<and> ex_qp_made st1 \<and> good_queue MAX_SYNC_MSG_NUM (qp_heap (ex_qp st1) qa)"
    using assms(5,7,8) t1 q q'
    by (auto simp: Engine_StopThread_def Let_def queue_at_def set_queue_def good_queue_def)
  then obtain st1 where st1: "Engine_StopThread e ta (Some qa) st = Some st1" "tp_heap (ex_tp st1) ta = Some t1"
      "ex_tp_made st1" "ex_qp_made st1" "good_queue MAX_SYNC_MSG_NUM (qp_heap (ex_qp st1) qa)" by blast
  obtain tp' where tp': "ThreadPool_Push (xe_alive e, xe_ends e) ta (ex_tp st1) = Some tp'"
    using st1(2) assms(6)
    by (cases "IsActive (xe_alive e) t1") (simp_all add: ThreadPool_Push_def Thread_StopThread_def Let_def)
  obtain qp' where "QueuePool_Push (Some qa) (ex_qp st1) = Some qp'" using QPush_good [OF st1(5)] by blast
  then show ?thesis
    using assms(2-4) st1(1,3,4) tp'
    by (simp add: Engine_dtor_def Engine_Uninitialize_def Uninitialize_thread_def Uninitialize_queue_def
        set_obj_def Let_def)
qed

lemma sync_engine_waiting [simp]: "sync_engine a h qa pa ts (st\<lparr>ex_waiting := w\<rparr>) = sync_engine a h qa pa ts st"
  by (simp add: sync_engine_def queue_at_def)

lemma sync_engine_after_stop:
  "sync_engine a h qa pa ts st \<Longrightarrow> ex_objs st a = Some en \<Longrightarrow> sync_engine a h qa pa ts (after_stop t a en p st)"
  by (auto simp: sync_engine_def after_stop_def UnRecordClient_def DelEngine_def DelEngineReference_def set_obj_def
      queue_at_def Let_def)

lemma after_stop_frame [simp]:
  "ex_notifiers (after_stop t a en p st) = ex_notifiers st" "ex_tp (after_stop t a en p st) = ex_tp st"
  "ex_tp_made (after_stop t a en p st) = ex_tp_made st" "ex_qp_made (after_stop t a en p st) = ex_qp_made st"
  by (simp_all add: after_stop_def UnRecordClient_def DelEngine_def set_obj_def Let_def)

lemma sync_engine_set_alg: "sync_engine a h qa pa ts st \<Longrightarrow> sync_engine a h qa pa ts (set_alg x p st)"
  by (simp add: sync_engine_def)

text \<open>Stopping the only transaction of an engine that a caller holds.\<close>

lemma stop_while_waiting:
  assumes good: "em_good st" and t: "FindEngine_client t st = Some a" and one: "clients a (em_clientEngines st) = 1"
    and w: "a \<in> snd ` set (ex_waiting st)" and en: "ex_objs st a = Some en" "algorithm_of en st = Some pa"
    and rel: "po_Release ops True t inp (ex_algs st pa) = (RETCODE_SUCCESS, px)"
    and se: "sync_engine a h qa pa ts st"
  obtains st2 where "StopEngine ops e t inp st = Some (RETCODE_SUCCESS, st2)" "FindEngine_client t st2 = None"
    "a \<notin> snd ` set (em_engines st2)" "a \<notin> snd ` set (em_clientEngines st2)" "sync_engine a h qa pa ts st2"
    "ex_objs st2 a = Some (DelEngineReference en)" "ex_waiting st2 = ex_waiting st" "ex_notifiers st2 = ex_notifiers st"
    "ex_tp st2 = ex_tp st" "ex_tp_made st2 = ex_tp_made st" "ex_qp_made st2 = ex_qp_made st"
proof -
  have tf: "sm_find (em_clientEngines st) t = Some a" using t by (simp add: FindEngine_client_def)
  obtain k p where k: "sm_find (em_engines st) k = Some a" "plugin_at (en_plugin en) st = Some p"
    and stop: "StopEngine ops e t inp st = do {
        st' \<leftarrow> drop_engine e a (after_stop t a en p (set_alg pa px st)); Some (RETCODE_SUCCESS, st') }"
    by (rule StopEngine_eq [OF good tf, of ops e inp]) (use en one rel in \<open>auto simp: Let_def\<close>)
  define s1 where "s1 = set_alg pa px st"
  have g1: "em_good s1" using set_alg_good [OF good] by (simp add: s1_def)
  have f1: "sm_find (em_clientEngines s1) t = Some a" "sm_find (em_engines s1) k = Some a" "ex_objs s1 a = Some en"
      "plugin_at (en_plugin en) s1 = Some p"
    using tf k en(1) by (simp_all add: s1_def plugin_at_def set_alg_def cong: option.case_cong)
  have same: "em_clientEngines s1 = em_clientEngines st" "ex_waiting s1 = ex_waiting st" "ex_notifiers s1 = ex_notifiers st"
      "ex_tp s1 = ex_tp st" "ex_tp_made s1 = ex_tp_made st" "ex_qp_made s1 = ex_qp_made st"
    by (simp_all add: s1_def set_alg_def)
  let ?st2 = "after_stop t a en p s1"
  note as = after_stop_engines [OF g1 f1] and ai = after_stop_inv [OF g1 f1]
  have oks: "sm_ok (em_engines s1)" "sm_ok (em_clientEngines s1)" using g1 by (simp_all add: em_good_def em_inv_def)
  have "clients a (em_clientEngines ?st2) = 0"
    using clients_erase [of a t "em_clientEngines st"] tf one as(3) same(1) by simp
  then have nc: "a \<notin> snd ` set (em_clientEngines ?st2)" by (simp add: clients_none)
  have "sm_find (em_engines ?st2) k' \<noteq> Some a" for k'
  proof
    assume a: "sm_find (em_engines ?st2) k' = Some a"
    then have "sm_find (em_engines s1) k' = Some a" "k' \<noteq> k"
      using as(1) one same(1) oks(1) by (auto simp: sm_find_erase split: if_splits)
    then show False
      using g1 f1(2) engine_of_inj [of k' a s1 k] by (simp add: em_good_def em_inv_def)
  qed
  then have ne: "a \<notin> snd ` set (em_engines ?st2)" using sm_values ai(1) by (metis em_inv_def)
  have "engine_held a ?st2" using ai(2) w same(2) by simp
  then have "StopEngine ops e t inp st = Some (RETCODE_SUCCESS, ?st2)"
    using stop by (simp add: drop_engine_held s1_def)
  moreover have "FindEngine_client t ?st2 = None" using as(3) oks(2) by (simp add: FindEngine_client_def sm_find_erase)
  moreover have "sync_engine a h qa pa ts ?st2"
    using se f1(3) by (intro sync_engine_after_stop) (simp_all add: s1_def sync_engine_set_alg)
  ultimately show ?thesis using that [of ?st2] nc ne as(4,6) same by simp
qed

text \<open>The last caller takes its response and lets go of the engine.\<close>

lemma receive_lets_go:
  assumes ans: "ex_notifiers st n = Some (AddToBack (Some res) Notifier_new)"
    and w: "ex_waiting st = (n, a) # ws" "\<forall>p \<in> set ws. fst p \<noteq> n"
    and gone: "a \<notin> snd ` set (em_engines st)" "a \<notin> snd ` set (em_clientEngines st)"
    and se: "sync_engine a h qa pa [] st" and en: "ex_objs st a = Some en" "en_thread en = Some ta" "en_queue en = Some qa"
    and ok: "tp_heap (ex_tp st) ta \<noteq> None" "xe_ends e" "ex_tp_made st" "ex_qp_made st"
  shows "\<exists>st'. SE_SyncExecute_receive e n st = Some (rs_retCode res, Some res, st') \<and>
    (ex_objs st' a = None \<longleftrightarrow> a \<notin> snd ` set ws)"
proof -
  let ?s = "st\<lparr>ex_notifiers := (ex_notifiers st)(n := None), ex_waiting := ws\<rparr>"
  have f: "filter (\<lambda>p. fst p \<noteq> n) (ex_waiting st) = ws" using w by (auto intro: filter_True)
  have r: "SE_SyncExecute_receive e n st = do { st' \<leftarrow> drop_engine e a ?s; Some (rs_retCode res, Some res, st') }"
    using receive_answer [OF ans] w(1) f by (simp add: SE_SyncExecute_receive_def)
  show ?thesis
  proof (cases "a \<in> snd ` set ws")
    case True
    then have "engine_held a ?s" by (simp add: engine_held_def)
    then show ?thesis using r drop_engine_held [of a ?s e] True en(1) by auto
  next
    case False
    then have n: "\<not> engine_held a ?s" using gone by (simp add: engine_held_def)
    obtain t where "tp_heap (ex_tp st) ta = Some t" using ok(1) by blast
    moreover have "sync_engine a h qa pa [] ?s" using se by (simp add: sync_engine_def queue_at_def)
    ultimately obtain st' where "Engine_dtor e a ?s = Some st'"
      using dtor_serving [of a h qa pa ?s en ta t e] en ok by auto
    then show ?thesis using r n False Engine_dtor_same [of e a ?s st'] by (simp add: drop_engine_def)
  qed
qed

text \<open>C17. A caller that waits keeps its engine: when, in any state the operations lead to, a
  synchronous request is sent to an engine in service and its transaction - the engine's only
  one - is stopped before the worker has come to it, the manager has forgotten the engine and the
  transaction, but the caller's shared pointer keeps the engine and its queue: the worker serves
  the tasks ahead, the caller waiting, and then the request; the caller takes the response to its
  own request, and with its return the engine is destroyed, unless another caller waits for it.\<close>

theorem waiting_caller_keeps_engine:
  fixes ops :: "'p plug_ops"
  assumes reach: "em_reach st" and only: "{u. FindEngine_client u st = Some a} = {Request_GetTransactionId req}"
    and se: "sync_engine a h qa pa ts st" and room: "length ts < MAX_SYNC_MSG_NUM"
    and pend: "pending_ok h (ex_next st) ts st"
    and parts: "ex_objs st a = Some en" "en_thread en = Some ta" "en_queue en = Some qa"
      "tp_heap (ex_tp st) ta \<noteq> None" "ex_tp_made st" "ex_qp_made st" "xe_ends e" "algorithm_of en st = Some pa"
    and rel: "po_Release ops True (Request_GetTransactionId req) inp (ex_algs st pa) = (RETCODE_SUCCESS, px)"
  shows "\<exists>n st1 st2 st3. SE_SyncExecute_send True (Some req) st = Some (Inr n, st1) \<and>
    StopEngine ops e (Request_GetTransactionId req) inp st1 = Some (RETCODE_SUCCESS, st2) \<and>
    FindEngine_client (Request_GetTransactionId req) st2 = None \<and> (\<forall>k. FindEngine_key k st2 \<noteq> Some a) \<and>
    worker_actions ops True qa (length ts) st2 = Some st3 \<and> SE_SyncExecute_receive e n st3 = None \<and>
    ex_objs st3 a \<noteq> None \<and>
    (\<forall>rc resp p'. po_SyncProcess ops req (ex_algs st3 pa) = (rc, resp, p') \<longrightarrow>
       (\<exists>st4 st5. EngineWorker_OneAction ops True qa st3 = Some (True, st4) \<and>
          SE_SyncExecute_receive e n st4 =
            Some (if rc = RETCODE_SUCCESS then RETCODE_SUCCESS else RETCODE_ALGORITHM_PROCESS_ERROR,
                  Some (answer req rc resp), st5) \<and>
          (ex_objs st5 a = None \<longleftrightarrow> a \<notin> snd ` set (ex_waiting st))))"
proof -
  let ?t = "Request_GetTransactionId req" and ?n = "ex_next st"
  let ?task = "\<lparr>tk_handler = Some h, tk_request = Some req, tk_notifier = Some ?n\<rparr>"
  have good: "em_good st" using reach by (rule em_reach_good)
  have ta: "FindEngine_client ?t st = Some a" using only by auto
  obtain s1 where s1: "Engine_SyncExecute_send a (Some req) st = Some (Inr ?n, s1)"
      "sync_engine a h qa pa (ts @ [?task]) s1" "ex_notifiers s1 = (ex_notifiers st)(?n \<mapsto> Notifier_new)"
      "ex_algs s1 = ex_algs st"
    using send_sync [OF se room] by blast
  define st1 where "st1 = s1\<lparr>ex_waiting := (?n, a) # ex_waiting s1\<rparr>"
  have send: "SE_SyncExecute_send True (Some req) st = Some (Inr ?n, st1)"
    using ta s1(1) by (simp add: SE_SyncExecute_send_def st1_def)
  have f1: "ex_objs st1 a = Some en" "em_clientEngines st1 = em_clientEngines st" "ex_pm st1 = ex_pm st"
      "ex_waiting st1 = (?n, a) # ex_waiting st" "ex_tp st1 = ex_tp st" "ex_tp_made st1" "ex_qp_made st1"
      "ex_algs st1 = ex_algs st" "ex_notifiers st1 = (ex_notifiers st)(?n \<mapsto> Notifier_new)"
    using send_view [OF s1(1)] parts(1,5,6) s1(3,4) by (simp_all add: st1_def same_view_def)
  have t1: "FindEngine_client ?t st1 = Some a" using ta f1(2) by (simp add: FindEngine_client_def)
  have one: "clients a (em_clientEngines st1) = 1"
    using clients_card [of "em_clientEngines st" a] good only f1(2)
    by (simp add: em_good_def em_inv_def FindEngine_client_def)
  have alg: "algorithm_of en st1 = Some pa"
    using parts(8) f1(3) by (cases "en_plugin en") (simp_all add: algorithm_of_def plugin_at_def)
  obtain st2 where st2: "StopEngine ops e ?t inp st1 = Some (RETCODE_SUCCESS, st2)" "FindEngine_client ?t st2 = None"
    "a \<notin> snd ` set (em_engines st2)" "a \<notin> snd ` set (em_clientEngines st2)" "sync_engine a h qa pa (ts @ [?task]) st2"
    "ex_objs st2 a = Some (DelEngineReference en)" "ex_waiting st2 = ex_waiting st1" "ex_notifiers st2 = ex_notifiers st1"
    "ex_tp st2 = ex_tp st1" "ex_tp_made st2 = ex_tp_made st1" "ex_qp_made st2 = ex_qp_made st1"
    by (rule stop_while_waiting [OF SyncExecute_good [OF good send] t1 one _ f1(1) alg, of ops inp px h qa "ts @ [?task]" e])
      (use f1(4,8) rel s1(2) in \<open>simp_all add: st1_def\<close>)
  have nokey: "\<forall>k. FindEngine_key k st2 \<noteq> Some a" using st2(3) unfolding FindEngine_key_def by (blast dest: sm_find_value)
  have "pending_ok h ?n ts st2" by (rule pending_ok_mono [OF pend]) (simp add: st2(8) f1(9))
  then obtain st3 where st3: "worker_actions ops True qa (length ts) st2 = Some st3" "sync_engine a h qa pa [?task] st3"
      "ex_notifiers st3 ?n = Some Notifier_new"
    using worker_serves_ahead [OF st2(5)] f1(9) st2(8) by (metis fun_upd_same)
  note v3 = worker_actions_view [OF st3(1)]
  have blocked: "SE_SyncExecute_receive e ?n st3 = None"
    using receive_blocked [OF st3(3)] by (simp add: SE_SyncExecute_receive_def)
  have fresh: "\<forall>p \<in> set (ex_waiting st). fst p \<noteq> ?n" using good by (auto simp: em_good_def em_inv_def)
  have last: "\<exists>st4 st5. EngineWorker_OneAction ops True qa st3 = Some (True, st4) \<and>
      SE_SyncExecute_receive e ?n st4 =
        Some (if rc = RETCODE_SUCCESS then RETCODE_SUCCESS else RETCODE_ALGORITHM_PROCESS_ERROR,
              Some (answer req rc resp), st5) \<and> (ex_objs st5 a = None \<longleftrightarrow> a \<notin> snd ` set (ex_waiting st))"
    if p: "po_SyncProcess ops req (ex_algs st3 pa) = (rc, resp, p')" for rc resp p'
  proof -
    obtain st4 where st4: "EngineWorker_OneAction ops True qa st3 = Some (True, st4)" "sync_engine a h qa pa [] st4"
        "ex_notifiers st4 = (ex_notifiers st3)(?n \<mapsto> AddToBack (Some (answer req rc resp)) Notifier_new)"
      using worker_serves [OF st3(2) _ _ _ st3(3) p, where nr = True] by auto
    have "same_view st2 st4" using same_view_trans [OF v3 OneAction_view [OF st4(1)]] .
    then have "\<exists>st'. SE_SyncExecute_receive e ?n st4 = Some (rs_retCode (answer req rc resp), Some (answer req rc resp), st') \<and>
      (ex_objs st' a = None \<longleftrightarrow> a \<notin> snd ` set (ex_waiting st))"
      by (intro receive_lets_go [where en = "DelEngineReference en" and ta = ta and h = h and qa = qa and pa = pa])
        (use st2 st4 f1 parts fresh in \<open>simp_all add: same_view_def DelEngineReference_def\<close>)
    then show ?thesis using st4(1) by (cases "rc = RETCODE_SUCCESS") (simp_all add: answer_def)
  qed
  have "ex_objs st3 a \<noteq> None" using v3 st2(6) by (simp add: same_view_def)
  then show ?thesis using send st2(1,2) nokey st3(1) blocked last by blast
qed

lemma demo_start_parts:
  "\<exists>st en t. StartEngine demo_ops demo_env 1 demo_algo empty_DataInfo empty_DataInfo (exec_init (\<lambda>_. 0)) =
      Some (RETCODE_SUCCESS, empty_DataInfo, st) \<and> em_clientEngines st = [(1, 0)] \<and> ex_waiting st = [] \<and>
    ex_tp_made st \<and> ex_qp_made st \<and> ex_objs st 0 = Some en \<and> en_thread en = Some 0 \<and> en_queue en = Some 0 \<and>
    en_plugin en = Some 0 \<and> en_msgHandler en = Some 2 \<and> ex_handlers st 2 = Some (SyncMsgHandler 0 (Some 7)) \<and>
    queue_at 0 st = Some (Queue_new True 64) \<and> tp_heap (ex_tp st) 0 = Some t \<and> pm_heap (ex_pm st) 0 = Some demo_plug"
proof -
  have e: "xe_label demo_env" "xe_new_thread demo_env" "xe_new_queue demo_env" "xe_new_engine demo_env"
      "xe_new_handler demo_env" "xe_new_nodes demo_env" "xe_new_pm demo_env" "xe_new_tp demo_env" "xe_new_qp demo_env"
      "xe_create demo_env = (\<lambda>_. (0, 7))"
    by (simp_all add: demo_env_def)
  show ?thesis
    using demo_plugin e
    by (simp add: demo_plug_def StartEngine_def demo_key FindEngine_key_def CreateEngineWithCheck_def CreateEngine_def
        CreateEngine_thread_def CreateEngine_queue_def CreateEngine_object_def PM_GetInstance_def TP_GetInstance_def
        QP_GetInstance_def exec_init_def Let_def ThreadPool_Pop_def ThreadPool_new_def QueuePool_Pop_steps
        QueuePool_new_def sz_counts queue_at_def IsSyncMode_def
        Engine_Initialize_def set_obj_def Engine_new_def plugin_at_def GetPluginAlgorithm_def
        Thread_StartThread_def Thread_StartThread0_def SetThread_def upd_thread_def upd_worker_def
        Thread_SetStackSize_def Thread_new_def algorithm_of_def demo_ops_def RecordClient_def AddEngineReference_def set_alg_def cong: if_cong)
qed

theorem waiting_caller_keeps_engine_witness:
  "\<exists>(st :: nat exec) n st1 st2 st4 st5. em_reach st \<and>
    SE_SyncExecute_send True (Some (Request_new\<lparr>rq_transactionId := 1\<rparr>)) st = Some (Inr n, st1) \<and>
    StopEngine demo_ops demo_env 1 empty_DataInfo st1 = Some (RETCODE_SUCCESS, st2) \<and>
    EngineWorker_OneAction demo_ops True 0 st2 = Some (True, st4) \<and>
    SE_SyncExecute_receive demo_env n st4 = Some (0, Some (answer (Request_new\<lparr>rq_transactionId := 1\<rparr>) 0 None), st5) \<and>
    ex_objs st2 0 \<noteq> None \<and> ex_objs st5 0 = None"
proof -
  let ?req = "Request_new\<lparr>rq_transactionId := 1\<rparr>"
  obtain st :: "nat exec" and en t where st: "StartEngine demo_ops demo_env 1 demo_algo empty_DataInfo empty_DataInfo (exec_init (\<lambda>_. 0)) =
      Some (RETCODE_SUCCESS, empty_DataInfo, st)" "em_clientEngines st = [(1, 0)]" "ex_waiting st = []" "ex_tp_made st" "ex_qp_made st"
    and en: "ex_objs st 0 = Some en" "en_thread en = Some 0" "en_queue en = Some 0" "en_plugin en = Some 0"
      "en_msgHandler en = Some 2" "ex_handlers st 2 = Some (SyncMsgHandler 0 (Some 7))"
    and q: "queue_at 0 st = Some (Queue_new True 64)" "tp_heap (ex_tp st) 0 = Some t" "pm_heap (ex_pm st) 0 = Some demo_plug"
    using demo_start_parts by blast
  have "em_step (exec_init (\<lambda>_. 0)) st"
    using em_step.start_engine [of 1 "exec_init (\<lambda>_. 0)" demo_ops demo_env True demo_algo] st(1)
    by (simp add: SE_StartEngine_def exec_init_def FindEngine_client_def)
  then have r: "em_reach st" using em_reach.init em_reach.step by blast
  have t: "Request_GetTransactionId ?req = 1" by simp
  have only: "{u. FindEngine_client u st = Some 0} = {Request_GetTransactionId ?req}"
    using st(2) by (auto simp: FindEngine_client_def split: if_splits)
  have se: "sync_engine 0 2 0 7 [] st"
    using en q(1) Queue_new_ring [where 'a = Task, of 64] by (simp add: sync_engine_def)
  have pend: "pending_ok 2 (ex_next st) [] st" by (simp add: pending_ok_def)
  have parts: "tp_heap (ex_tp st) 0 \<noteq> None" "xe_ends demo_env" "algorithm_of en st = Some 7"
    using en(4) q(2,3) by (simp_all add: demo_env_def algorithm_of_def plugin_at_def GetPluginAlgorithm_def demo_plug_def)
  have rel: "po_Release demo_ops True (Request_GetTransactionId ?req) empty_DataInfo (ex_algs st 7) = (0, ex_algs st 7)"
    by (simp add: demo_ops_def)
  obtain n st1 st2 st3 where s: "SE_SyncExecute_send True (Some ?req) st = Some (Inr n, st1)"
    "StopEngine demo_ops demo_env (Request_GetTransactionId ?req) empty_DataInfo st1 = Some (RETCODE_SUCCESS, st2)"
    "worker_actions demo_ops True 0 (length []) st2 = Some st3" "ex_objs st3 0 \<noteq> None"
    "\<forall>rc resp p'. po_SyncProcess demo_ops ?req (ex_algs st3 7) = (rc, resp, p') \<longrightarrow>
       (\<exists>st4 st5. EngineWorker_OneAction demo_ops True 0 st3 = Some (True, st4) \<and>
          SE_SyncExecute_receive demo_env n st4 =
            Some (if rc = 0 then 0 else RETCODE_ALGORITHM_PROCESS_ERROR, Some (answer ?req rc resp), st5) \<and>
          (ex_objs st5 0 = None \<longleftrightarrow> 0 \<notin> snd ` set (ex_waiting st)))"
    using waiting_caller_keeps_engine [OF r only se _ pend en(1-3) parts(1) st(4,5) parts(2,3) rel] by auto
  have "po_SyncProcess demo_ops ?req (ex_algs st3 7) = (0, None, ex_algs st3 7 + 1)" by (simp add: demo_ops_def)
  from s(5) [rule_format, OF this] obtain st4 st5 where "EngineWorker_OneAction demo_ops True 0 st3 = Some (True, st4)"
      "SE_SyncExecute_receive demo_env n st4 = Some (0, Some (answer ?req 0 None), st5)" "ex_objs st5 0 = None"
    using st(3) by auto
  then show ?thesis using r s(1-4) t by auto
qed

section \<open>A thread that cannot be created\<close>

lemma Push_idle:
  "tp_heap tp ta = Some t \<Longrightarrow> th_status t \<noteq> RUNNING \<Longrightarrow>
     \<exists>tp'. ThreadPool_Push os ta tp = Some tp' \<and> tp_idleThreads tp' = tp_idleThreads tp @ [ta] \<and>
       tp_heap tp' = tp_heap tp"
  by (auto simp: ThreadPool_Push_def Thread_StopThread_def IsActive_def Let_def)

lemma Initialize_no_thread:
  assumes "ex_objs st a = Some (Engine_new (Some x) (Some ta) (Some qa) w)" and "pm_heap (ex_pm st) x = Some p"
    and "GetPluginAlgorithm p = Some pa" and "xe_new_handler e" and "tp_heap (ex_tp st) ta = Some t"
    and "th_status t \<noteq> RUNNING" and "\<And>attr. fst (xe_create e attr) \<noteq> 0"
  shows "\<exists>st' t'. Engine_Initialize ops e a st = Some (RETCODE_START_THREAD_FAILED, st') \<and>
    ex_objs st' = ex_objs st \<and> ex_qp st' = ex_qp st \<and> tp_idleThreads (ex_tp st') = tp_idleThreads (ex_tp st) \<and>
    tp_heap (ex_tp st') ta = Some t' \<and> th_status t' = STOPPED \<and> em_engines st' = em_engines st \<and>
    em_clientEngines st' = em_clientEngines st \<and> ex_waiting st' = ex_waiting st \<and>
    ex_tp_made st' = ex_tp_made st \<and> ex_qp_made st' = ex_qp_made st"
proof -
  let ?s = "SetThread (Some ta) w (upd_thread ta (\<lambda>t. t\<lparr>th_worker := Some w\<rparr>)
    \<lparr>ts_threads = tp_heap (ex_tp st), ts_workers = ex_workers st\<rparr>)"
  have t1: "ts_threads ?s ta = Some (t\<lparr>th_worker := Some w\<rparr>)"
    using assms(5) by (simp add: SetThread_def upd_worker_def upd_thread_def)
  obtain rc h where cr: "xe_create e (thread_attr (th_stackSize t) (ts_workers ?s w)) = (rc, h)" "rc \<noteq> 0"
    using assms(7) by (metis prod.collapse)
  have "Thread_StartThread (xe_create e) ta (Some w) \<lparr>ts_threads = tp_heap (ex_tp st), ts_workers = ex_workers st\<rparr> =
      Some (False, upd_thread ta (\<lambda>t. t\<lparr>th_status := STOPPED\<rparr>) ?s)"
    using assms(5,6) t1 cr by (simp add: Thread_StartThread_def Thread_StartThread0_def Let_def)
  then show ?thesis
    using assms(1-4) t1
    by (simp add: Engine_Initialize_def plugin_at_def Engine_new_def Let_def)
      (simp add: upd_thread_def)
qed

lemma dtor_idle:
  assumes "ex_objs st a = Some (Engine_new x (Some ta) (Some qa) w)" and "tp_heap (ex_tp st) ta = Some t"
    and "th_status t \<noteq> RUNNING" and "good_queue n (qp_heap (ex_qp st) qa)" and "ex_tp_made st" and "ex_qp_made st"
  shows "\<exists>st'. Engine_dtor e a st = Some st' \<and> tp_idleThreads (ex_tp st') = tp_idleThreads (ex_tp st) @ [ta]"
proof -
  have "Engine_StopThread e ta (Some qa) st = Some st"
    using assms(2,3) by (simp add: Engine_StopThread_def Thread_StopThread_def IsActive_def Let_def fun_upd_idem)
  moreover obtain tp' where "ThreadPool_Push (xe_alive e, xe_ends e) ta (ex_tp st) = Some tp'"
      "tp_idleThreads tp' = tp_idleThreads (ex_tp st) @ [ta]"
    using Push_idle [OF assms(2,3)] by blast
  moreover obtain qp' where "QueuePool_Push (Some qa) (ex_qp st) = Some qp'" using QPush_good [OF assms(4)] by blast
  ultimately show ?thesis
    using assms(1,5,6)
    by (simp add: Engine_dtor_def Engine_Uninitialize_def Uninitialize_thread_def Uninitialize_queue_def
        Engine_new_def set_obj_def Let_def)
qed

text \<open>C19. What happens when the system cannot create the thread of a new engine (everything else
  succeeding): \<open>StartEngine\<close> answers \<open>RETCODE_START_THREAD_FAILED\<close>, but it has given its thread
  object back to the pool twice - once itself, once in the engine's destructor - so that the
  pool, if nothing else is idle, hands the same thread object to its next two users.\<close>

theorem failed_start_returns_thread_twice:
  assumes "em_inv st" and "GetAlgorithmIdByType (ai_algorithmType algo) \<noteq> ALGORITHM_ID_INVALID"
    and "FindEngine_key (EngineKey (GetAlgorithmIdByType (ai_algorithmType algo)) (ai_algorithmVersion algo)) st = None"
    and "GetPlugin (xe_ld e) (xe_label e) (GetAlgorithmIdByType (ai_algorithmType algo))
      (ai_algorithmVersion algo) (ex_pm st) = (RETCODE_SUCCESS, Some x, pm')"
    and "xe_new_handler e" and "xe_new_engine e" and "\<forall>attr. fst (xe_create e attr) \<noteq> 0"
    and "ThreadPool_Pop (xe_new_thread e) (ex_tp st) = (Some ta, tp')" and "ready_thread (tp_heap tp' ta)"
    and "QueuePool_Pop (xe_new_queue e) (xe_new_nodes e) (ex_qp st) = (Some qa, qp')"
    and "good_queue n (qp_heap qp' qa)" and "singletons_ok e st"
  shows "\<exists>st'. StartEngine ops e t algo inp out0 st = Some (RETCODE_START_THREAD_FAILED, out0, st') \<and>
    tp_idleThreads (ex_tp st') = tp_idleThreads tp' @ [ta, ta] \<and>
    (tp_idleThreads tp' = [] \<longrightarrow> (\<exists>p1 p2. ThreadPool_Pop True (ex_tp st') = (Some ta, p1) \<and>
       ThreadPool_Pop True p1 = (Some ta, p2)))"
proof -
  let ?k = "EngineKey (GetAlgorithmIdByType (ai_algorithmType algo)) (ai_algorithmVersion algo)"
  let ?a = "ex_next st"
  have pm: "pm_inv (ex_pm st)" using assms(1) by (simp add: em_inv_def)
  obtain p pa where p: "pm_heap pm' x = Some p" "GetPluginAlgorithm p = Some pa"
    using GetPlugin_result [OF pm assms(4)] by (auto simp: GetPluginAlgorithm_def)
  obtain th where th: "tp_heap tp' ta = Some th" "th_status th \<noteq> RUNNING"
    using assms(9) by (auto simp: ready_thread_def)
  define st3 where "st3 = set_obj ?a (Engine_new (Some x) (Some ta) (Some qa) (Suc ?a))
        (st\<lparr>ex_pm_made := True, ex_pm := pm', ex_tp_made := True, ex_tp := tp', ex_qp_made := True, ex_qp := qp',
            ex_workers := (ex_workers st)(Suc ?a \<mapsto> IWorker_new), ex_next := Suc (Suc ?a)\<rparr>)"
  have st3: "ex_objs st3 ?a = Some (Engine_new (Some x) (Some ta) (Some qa) (Suc ?a))" "ex_pm st3 = pm'"
    "ex_tp st3 = tp'" "ex_qp st3 = qp'" "em_engines st3 = em_engines st" "em_clientEngines st3 = em_clientEngines st"
    "ex_waiting st3 = ex_waiting st" "ex_tp_made st3" "ex_qp_made st3"
    by (simp_all add: st3_def set_obj_def)
  have "\<exists>st4 t'. Engine_Initialize ops e ?a st3 = Some (RETCODE_START_THREAD_FAILED, st4) \<and>
    ex_objs st4 = ex_objs st3 \<and> ex_qp st4 = ex_qp st3 \<and> tp_idleThreads (ex_tp st4) = tp_idleThreads (ex_tp st3) \<and>
    tp_heap (ex_tp st4) ta = Some t' \<and> th_status t' = STOPPED \<and> em_engines st4 = em_engines st3 \<and>
    em_clientEngines st4 = em_clientEngines st3 \<and> ex_waiting st4 = ex_waiting st3 \<and>
    ex_tp_made st4 = ex_tp_made st3 \<and> ex_qp_made st4 = ex_qp_made st3"
    by (rule Initialize_no_thread) (use st3 p th assms(5,7) in simp_all)
  then obtain st4 t' where i: "Engine_Initialize ops e ?a st3 = Some (RETCODE_START_THREAD_FAILED, st4)"
    "ex_objs st4 ?a = Some (Engine_new (Some x) (Some ta) (Some qa) (Suc ?a))" "ex_qp st4 = qp'"
    "tp_idleThreads (ex_tp st4) = tp_idleThreads tp'" "tp_heap (ex_tp st4) ta = Some t'" "th_status t' \<noteq> RUNNING"
    "em_engines st4 = em_engines st" "em_clientEngines st4 = em_clientEngines st" "ex_waiting st4 = ex_waiting st"
    "ex_tp_made st4" "ex_qp_made st4"
    using st3 by auto
  obtain qp2 where q2: "QueuePool_Push (Some qa) qp' = Some qp2" "good_queue n (qp_heap qp2 qa)"
    using QPush_good [OF assms(11)] by blast
  obtain tp2 where t2: "ThreadPool_Push (xe_alive e, xe_ends e) ta (ex_tp st4) = Some tp2"
      "tp_idleThreads tp2 = tp_idleThreads tp' @ [ta]" "tp_heap tp2 ta = Some t'"
    using Push_idle [OF i(5,6), of "(xe_alive e, xe_ends e)"] i(4,5) by metis
  let ?st5 = "st4\<lparr>ex_qp := qp2, ex_tp := tp2\<rparr>"
  have ce: "CreateEngine ops e ?k st = Some (RETCODE_START_THREAD_FAILED, Some ?a, ?st5)"
    using assms(4,6,8,10,12) i(1,3) q2(1) t2(1)
    by (simp add: CreateEngine_def CreateEngine_thread_def CreateEngine_queue_def CreateEngine_object_def
        singletons_ok_def GetInstance_ok Let_def st3_def cong: if_cong)
  have "\<not> engine_held ?a st" using held_old [OF assms(1), of ?a] by auto
  then have nh: "\<not> engine_held ?a ?st5" using i(7-9) by (simp add: engine_held_def)
  have "\<exists>st'. Engine_dtor e ?a ?st5 = Some st' \<and> tp_idleThreads (ex_tp st') = tp_idleThreads (ex_tp ?st5) @ [ta]"
    by (rule dtor_idle) (use i(2,6,10,11) t2(3) q2(2) in simp_all)
  then obtain st' where d: "Engine_dtor e ?a ?st5 = Some st'" "tp_idleThreads (ex_tp st') = tp_idleThreads tp' @ [ta, ta]"
    using t2(2) by auto
  have "StartEngine ops e t algo inp out0 st = Some (RETCODE_START_THREAD_FAILED, out0, st')"
    using assms(2,3) ce d(1) nh
    by (simp add: StartEngine_def Let_def CreateEngineWithCheck_def FindEngine_key_def drop_engine_def)
  moreover have "\<exists>p1 p2. ThreadPool_Pop True (ex_tp st') = (Some ta, p1) \<and> ThreadPool_Pop True p1 = (Some ta, p2)"
    if "tp_idleThreads tp' = []"
    using d(2) that by (simp add: ThreadPool_Pop_def)
  ultimately show ?thesis using d(2) by blast
qed

theorem failed_start_returns_thread_twice_witness:
  "\<exists>st' ta p1 p2. StartEngine demo_ops (demo_env\<lparr>xe_create := \<lambda>_. (11, 0)\<rparr>) 1 demo_algo empty_DataInfo empty_DataInfo
      (exec_init (\<lambda>_. 0)) = Some (RETCODE_START_THREAD_FAILED, empty_DataInfo, st') \<and>
    ThreadPool_Pop True (ex_tp st') = (Some ta, p1) \<and> ThreadPool_Pop True p1 = (Some ta, p2)"
proof -
  let ?e = "demo_env\<lparr>xe_create := \<lambda>_. (11, 0)\<rparr>" and ?st = "exec_init (\<lambda>_. 0) :: nat exec"
  let ?tp = "snd (ThreadPool_Pop True ThreadPool_new)" and ?qp = "snd (QueuePool_Pop True True (QueuePool_new 64 :: Task QueuePool))"
  have e: "xe_new_handler ?e" "xe_new_engine ?e" "\<forall>attr. fst (xe_create ?e attr) \<noteq> 0" by (simp_all add: demo_env_def)
  have "GetPlugin (xe_ld ?e) (xe_label ?e) ALGORITHM_ID_KWS 20001002 (ex_pm ?st) =
     (0, Some 0, \<lparr>pm_pluginMap = [(PluginKey ALGORITHM_ID_KWS 20001002, 0)], pm_heap = [0 \<mapsto> demo_plug], pm_next = 1\<rparr>)"
    using demo_plugin by (simp add: exec_init_def demo_env_def)
  moreover have "ThreadPool_Pop (xe_new_thread ?e) (ex_tp ?st) = (Some 0, ?tp)" "ready_thread (tp_heap ?tp 0)"
    "tp_idleThreads ?tp = []"
    by (simp_all add: exec_init_def demo_env_def ThreadPool_Pop_def ThreadPool_new_def Let_def ready_thread_def
        Thread_SetStackSize_def Thread_new_def)
  moreover have "QueuePool_Pop (xe_new_queue ?e) (xe_new_nodes ?e) (ex_qp ?st) = (Some 0, ?qp)" "good_queue 64 (qp_heap ?qp 0)"
    using Queue_new_ring [where 'a = Task, of 64]
    by (simp_all add: exec_init_def demo_env_def QueuePool_Pop_steps QueuePool_new_def Let_def good_queue_def)
  moreover have "FindEngine_key (EngineKey ALGORITHM_ID_KWS 20001002) ?st = None" "singletons_ok ?e ?st"
    by (simp_all add: FindEngine_key_def exec_init_def singletons_ok_def demo_env_def)
  ultimately show ?thesis
    using failed_start_returns_thread_twice [of ?st demo_algo ?e 0 _ 0 ?tp 0 ?qp 64 demo_ops 1 empty_DataInfo empty_DataInfo]
      em_inv_init e demo_key by fastforce
qed

section \<open>A transaction started twice\<close>

text \<open>C20. The manager does not look whether a transaction is recorded already: when the only
  transaction of an engine is started a second time and then stopped, each with success, no
  transaction is left for the engine, but it stays in the manager with a count of 1, its plugin
  stays loaded, and stopping the transaction again is refused - nothing can release it.\<close>

theorem second_start_leaks_engine:
  assumes "em_inv st" and "FindEngine_client t st = Some a" and "{t. FindEngine_client t st = Some a} = {t}"
    and "FindEngine_key (EngineKey (GetAlgorithmIdByType (ai_algorithmType algo)) (ai_algorithmVersion algo)) st = Some a"
    and "GetAlgorithmIdByType (ai_algorithmType algo) \<noteq> ALGORITHM_ID_INVALID"
    and "StartEngine ops e t algo inp out0 st = Some (RETCODE_SUCCESS, out1, st1)"
    and "StopEngine ops e t inp2 st1 = Some (RETCODE_SUCCESS, st2)"
  shows "(\<forall>t. FindEngine_client t st2 \<noteq> Some a) \<and> em_engines st2 = em_engines st \<and> ex_pm st2 = ex_pm st \<and>
    (\<exists>en. ex_objs st2 a = Some en \<and> GetEngineReference en = 1) \<and>
    StopEngine ops e t inp2 st2 = Some (RETCODE_SA_SERVICE_EXCEPTION, st2)"
proof -
  let ?k = "EngineKey (GetAlgorithmIdByType (ai_algorithmType algo)) (ai_algorithmVersion algo)"
  have ok: "sm_ok (em_engines st)" "sm_ok (em_clientEngines st)" using assms(1) by (simp_all add: em_inv_def)
  have k: "sm_find (em_engines st) ?k = Some a" using assms(4) by (simp add: FindEngine_key_def)
  then have "engine_of ?k a st" using assms(1) unfolding em_inv_def by blast
  moreover have "clients a (em_clientEngines st) = 1"
    using assms(3) clients_card [OF ok(2), of a] by (simp add: FindEngine_client_def)
  ultimately obtain en x p pa where en: "ex_objs st a = Some en" "en_plugin en = Some x" "pm_heap (ex_pm st) x = Some p"
      "pl_pluginAlgorithm p = Some pa" "en_refCount en = 1"
    unfolding engine_of_def by auto
  have alg: "algorithm_of en st = Some pa"
    using en by (simp add: algorithm_of_def plugin_at_def GetPluginAlgorithm_def)
  obtain p1 where st1: "st1 = RecordClient t a (set_obj a (AddEngineReference en) (set_alg pa p1 st))"
    using assms(4-6) en alg by (auto simp: StartEngine_def Let_def split: prod.splits if_splits)
  let ?en = "AddEngineReference en"
  have s1: "FindEngine_client t st1 = Some a" "ex_objs st1 a = Some ?en" "en_plugin ?en = Some x"
    "algorithm_of ?en st1 = Some pa" "plugin_at (Some x) st1 = Some p" "GetEngineReference ?en = 2"
    "em_engines st1 = em_engines st" "ex_pm st1 = ex_pm st"
    "em_clientEngines st1 = sm_put t a (em_clientEngines st)"
    using en alg
    by (simp_all add: st1 FindEngine_client_def RecordClient_def set_obj_def set_alg_def sm_find_put
        AddEngineReference_def algorithm_of_def plugin_at_def GetPluginAlgorithm_def GetEngineReference_def)
  obtain p2 where "drop_engine e a (UnRecordClient t (set_obj a (DelEngineReference ?en) (set_alg pa p2 st1))) = Some st2"
    using assms(7) s1(1-6)
    by (auto simp: StopEngine_def Let_def GetEngineReference_def DelEngineReference_def
        split: prod.splits if_splits Option.bind_splits)
  moreover have "engine_held a (UnRecordClient t (set_obj a (DelEngineReference ?en) (set_alg pa p2 st1)))"
    using k ok s1(7) sm_values [OF ok(1)]
    by (auto simp: engine_held_def UnRecordClient_def set_obj_def set_alg_def)
  ultimately have st2: "st2 = UnRecordClient t (set_obj a (DelEngineReference ?en) (set_alg pa p2 st1))"
    using drop_engine_held by (metis option.inject)
  have cl: "FindEngine_client u st2 = (if u = t then None else FindEngine_client u st)" for u
    using ok(2) s1(9)
    by (simp add: st2 FindEngine_client_def UnRecordClient_def set_obj_def set_alg_def sm_find_erase sm_put_ok sm_find_put)
  then have "\<forall>u. FindEngine_client u st2 \<noteq> Some a" using assms(3) by auto
  moreover have "em_engines st2 = em_engines st" "ex_pm st2 = ex_pm st"
    "ex_objs st2 a = Some (DelEngineReference ?en)" "GetEngineReference (DelEngineReference ?en) = 1"
    using s1 by (simp_all add: st2 UnRecordClient_def set_obj_def set_alg_def GetEngineReference_def DelEngineReference_def)
  ultimately show ?thesis using cl [of t] by (auto simp: StopEngine_def)
qed

theorem second_start_leaks_engine_witness:
  "\<exists>(st :: nat exec) (st2 :: nat exec) a. (\<forall>t. FindEngine_client t st2 \<noteq> Some a) \<and> em_engines st2 = em_engines st \<and>
     (\<exists>en. ex_objs st2 a = Some en \<and> GetEngineReference en = 1)"
proof -
  let ?k = "EngineKey ALGORITHM_ID_KWS 20001002"
  obtain st :: "nat exec" and en where st: "StartEngine demo_ops demo_env 1 demo_algo empty_DataInfo empty_DataInfo (exec_init (\<lambda>_. 0)) =
      Some (RETCODE_SUCCESS, empty_DataInfo, st)" and m: "em_clientEngines st = [(1, 0)]" "em_engines st = [(?k, 0)]"
    and en: "ex_objs st 0 = Some en" "en_plugin en = Some 0" "pm_heap (ex_pm st) 0 = Some demo_plug"
    using demo_start by blast
  have inv: "em_inv st" using StartEngine_inv [OF em_inv_init _ st] by (simp add: exec_init_def)
  have f: "FindEngine_client 1 st = Some 0" "{t. FindEngine_client t st = Some 0} = {1}"
    using m by (auto simp: FindEngine_client_def split: if_splits)
  have k: "FindEngine_key (EngineKey (GetAlgorithmIdByType (ai_algorithmType demo_algo)) (ai_algorithmVersion demo_algo)) st = Some 0"
    using m by (simp add: FindEngine_key_def demo_key)
  have alg: "algorithm_of en st = Some 7"
    using en by (simp add: algorithm_of_def plugin_at_def GetPluginAlgorithm_def demo_plug_def)
  obtain st1 where st1: "StartEngine demo_ops demo_env 1 demo_algo empty_DataInfo empty_DataInfo st =
      Some (RETCODE_SUCCESS, empty_DataInfo, st1)" "em_clientEngines st1 = [(1, 0)]" "em_engines st1 = [(?k, 0)]"
      "ex_objs st1 0 = Some (AddEngineReference en)" "pm_heap (ex_pm st1) 0 = Some demo_plug"
    using m en alg demo_key
    by (simp add: StartEngine_def FindEngine_key_def Let_def demo_ops_def RecordClient_def set_obj_def set_alg_def)
  have "sm_find (em_engines st) ?k = Some 0" using m by simp
  then have "engine_of ?k 0 st" using inv unfolding em_inv_def by blast
  then have "en_refCount en = 1" using en m by (simp add: engine_of_def clients_def)
  then have "\<exists>st2. StopEngine demo_ops demo_env 1 empty_DataInfo st1 = Some (RETCODE_SUCCESS, st2)"
    using st1 en
    by (simp add: StopEngine_def FindEngine_client_def AddEngineReference_def algorithm_of_def plugin_at_def
        GetPluginAlgorithm_def demo_plug_def demo_ops_def GetEngineReference_def DelEngineReference_def Let_def
        UnRecordClient_def set_obj_def set_alg_def drop_engine_def engine_held_def)
  then obtain st2 where st2: "StopEngine demo_ops demo_env 1 empty_DataInfo st1 = Some (RETCODE_SUCCESS, st2)" by blast
  have "GetAlgorithmIdByType (ai_algorithmType demo_algo) \<noteq> ALGORITHM_ID_INVALID" by (simp add: demo_key)
  from second_start_leaks_engine [OF inv f k this st1(1) st2]
  show ?thesis by (intro exI [of _ st] exI [of _ st2] exI [of _ "0::nat"]) simp
qed

end
