(* ===== verification/Ipc.thy ===== *)
theory Ipc
  imports StdMap "HOL-Library.Monad_Syntax"
begin

text \<open>
  Parcels (services/common/platform/os_wrapper/ipc, and the parcelling functions of
  sa_client_proxy.cpp and sa_server.c): a block of data goes into the message itself when it
  is short and into a System V shared memory segment otherwise. The message library
  (\<open>IpcIo\<close>) is the record \<open>ipc_ops\<close>; the segments are the state \<open>shmsys\<close>; which system calls
  succeed is the environment \<open>shmenv\<close>. An operation that uses an uninitialised variable,
  reads outside a block or frees a block twice is \<open>None\<close>.
\<close>

section \<open>The message library\<close>

text \<open>A read that fails gives \<open>None\<close> and leaves the caller's variable as it was.\<close>

record 'io ipc_ops =
  io_WriteInt32 :: "int \<Rightarrow> 'io \<Rightarrow> 'io"
  io_WriteUint32 :: "int \<Rightarrow> 'io \<Rightarrow> 'io"
  io_WriteInt64 :: "int \<Rightarrow> 'io \<Rightarrow> 'io"
  io_WriteBool :: "bool \<Rightarrow> 'io \<Rightarrow> 'io"
  io_WriteBuffer :: "byte list \<Rightarrow> 'io \<Rightarrow> 'io"
  io_WriteString :: "string \<Rightarrow> 'io \<Rightarrow> 'io"
  io_WriteRemote :: "nat \<Rightarrow> 'io \<Rightarrow> bool \<times> 'io"
  io_ReadInt32 :: "'io \<Rightarrow> int option \<times> 'io"
  io_ReadUint32 :: "'io \<Rightarrow> int option \<times> 'io"
  io_ReadInt64 :: "'io \<Rightarrow> int option \<times> 'io"
  io_ReadBool :: "'io \<Rightarrow> bool option \<times> 'io"
  io_ReadBuffer :: "int \<Rightarrow> 'io \<Rightarrow> byte list option \<times> 'io"
  io_ReadString :: "'io \<Rightarrow> string option \<times> 'io"
  io_ReadRemote :: "'io \<Rightarrow> nat option \<times> 'io"

definition or_old :: "'a option \<Rightarrow> 'a \<Rightarrow> 'a" where
  "or_old v old = (case v of None \<Rightarrow> old | Some x \<Rightarrow> x)"

lemma or_old_simps [simp]: "or_old None x = x" "or_old (Some y) x = y"
  by (simp_all add: or_old_def)

text \<open>
  What is documented of the library: a message is a sequence of items with room for more; a
  write appends its item when there is room, a read takes the item of its type from the front.
\<close>

datatype io_item = Int32 int | Uint32 int | Int64 int | Bool bool | Buffer "byte list"

definition write_law ::
  "('io \<Rightarrow> io_item list) \<Rightarrow> ('io \<Rightarrow> nat) \<Rightarrow> (io_item \<Rightarrow> nat) \<Rightarrow> ('a \<Rightarrow> 'io \<Rightarrow> 'io) \<Rightarrow> ('a \<Rightarrow> io_item) \<Rightarrow> bool" where
  "write_law items room size0 w mk \<longleftrightarrow> (\<forall>x io. size0 (mk x) \<le> room io \<longrightarrow>
     items (w x io) = items io @ [mk x] \<and> room (w x io) = room io - size0 (mk x))"

definition read_law ::
  "('io \<Rightarrow> io_item list) \<Rightarrow> ('io \<Rightarrow> 'a option \<times> 'io) \<Rightarrow> ('a \<Rightarrow> io_item) \<Rightarrow> bool" where
  "read_law items r mk \<longleftrightarrow> (\<forall>x io rest. items io = mk x # rest \<longrightarrow>
     (\<exists>io'. r io = (Some x, io') \<and> items io' = rest))"

definition ipc_laws ::
  "'io ipc_ops \<Rightarrow> ('io \<Rightarrow> io_item list) \<Rightarrow> ('io \<Rightarrow> nat) \<Rightarrow> (io_item \<Rightarrow> nat) \<Rightarrow> bool" where
  "ipc_laws ops items room size0 \<longleftrightarrow>
     write_law items room size0 (io_WriteInt32 ops) Int32 \<and> write_law items room size0 (io_WriteUint32 ops) Uint32 \<and>
     write_law items room size0 (io_WriteInt64 ops) Int64 \<and> write_law items room size0 (io_WriteBool ops) Bool \<and>
     write_law items room size0 (io_WriteBuffer ops) Buffer \<and>
     read_law items (io_ReadInt32 ops) Int32 \<and> read_law items (io_ReadUint32 ops) Uint32 \<and>
     read_law items (io_ReadInt64 ops) Int64 \<and> read_law items (io_ReadBool ops) Bool \<and>
     (\<forall>bs io rest. items io = Buffer bs # rest \<longrightarrow>
        (\<exists>io'. io_ReadBuffer ops (int (length bs)) io = (Some bs, io') \<and> items io' = rest))"

section \<open>Shared memory\<close>

abbreviation (input) IPC_MAX_TRANS_CAPACITY :: int where "IPC_MAX_TRANS_CAPACITY \<equiv> 200"
abbreviation (input) SHM_KEY_START :: int where "SHM_KEY_START \<equiv> 200000"
abbreviation (input) SHM_KEY_END :: int where "SHM_KEY_END \<equiv> 300000"
abbreviation (input) MAX_SHM_DATA_SIZE :: int where "MAX_SHM_DATA_SIZE \<equiv> 1024 * 1024"

record shmseg =
  sg_key :: int
  sg_bytes :: "byte list"
  sg_uid :: int

text \<open>The key counter of the process, the segments of the system by id, the next fresh id.\<close>

record shmsys =
  sh_key :: int
  sh_segs :: "(int \<times> shmseg) list"
  sh_next :: int

text \<open>Whether each call succeeds (\<open>shmget\<close>: but for keys in use).\<close>

record shmenv =
  she_get :: bool
  she_at :: bool
  she_dt :: bool
  she_stat :: bool
  she_set :: bool
  she_rmid :: bool
  she_malloc :: bool
  she_uid :: int

definition key_used :: "int \<Rightarrow> shmsys \<Rightarrow> bool" where
  "key_used k s \<longleftrightarrow> list_ex (\<lambda>p. sg_key (snd p) = k) (sh_segs s)"

definition next_key :: "shmsys \<Rightarrow> shmsys" where
  "next_key s = (let s1 = s\<lparr>sh_key := sh_key s + 1\<rparr> in
     if sh_key s1 \<ge> SHM_KEY_END then s1\<lparr>sh_key := SHM_KEY_START\<rparr> else s1)"

definition ReleaseShmId :: "shmenv \<Rightarrow> int \<Rightarrow> shmsys \<Rightarrow> shmsys" where
  "ReleaseShmId e shmId s =
     (if shmId = - 1 then s
      else if \<not> she_rmid e then s
      else s\<lparr>sh_segs := sm_erase shmId (sh_segs s)\<rparr>)"

primrec acquire_loop :: "shmenv \<Rightarrow> int \<Rightarrow> nat \<Rightarrow> shmsys \<Rightarrow> int \<times> shmsys" where
  "acquire_loop e size0 0 s = (- 1, s)"
| "acquire_loop e size0 (Suc n) s =
     (if key_used (sh_key s) s then
        (let s1 = next_key s in if n = 0 then (- 1, s1) else acquire_loop e size0 n s1)
      else if \<not> she_get e then (- 1, s)
      else (sh_next s,
        next_key (s\<lparr>sh_segs := sm_put (sh_next s)
             \<lparr>sg_key = sh_key s, sg_bytes = replicate (nat size0) 0, sg_uid = she_uid e\<rparr> (sh_segs s),
           sh_next := sh_next s + 1\<rparr>)))"

definition AcquireShmSegment :: "shmenv \<Rightarrow> int \<Rightarrow> shmsys \<Rightarrow> int \<times> shmsys" where
  "AcquireShmSegment e size0 s = acquire_loop e size0 (nat (SHM_KEY_END - SHM_KEY_START)) s"

definition set_seg :: "int \<Rightarrow> (shmseg \<Rightarrow> shmseg) \<Rightarrow> shmsys \<Rightarrow> shmsys" where
  "set_seg i f s = (case sm_find (sh_segs s) i of
     None \<Rightarrow> s | Some g \<Rightarrow> s\<lparr>sh_segs := sm_put i (f g) (sh_segs s)\<rparr>)"

section \<open>Data blocks\<close>

text \<open>\<open>memcpy_s\<close> from a null block fails; from a block that is too short it is undefined.\<close>

definition IpcIoPushSharedMemory ::
  "'io ipc_ops \<Rightarrow> shmenv \<Rightarrow> DataInfo \<Rightarrow> int \<Rightarrow> 'io \<Rightarrow> shmsys \<Rightarrow> ('io \<times> shmsys) option" where
  "IpcIoPushSharedMemory ops e d receiverUid request s =
     (let (shmId, s1) = AcquireShmSegment e (di_length d) s in
      if shmId < 0 then Some (request, s1)
      else if \<not> she_at e then Some (request, ReleaseShmId e shmId s1)
      else (case di_data d of
              None \<Rightarrow> Some (request, ReleaseShmId e shmId s1)
            | Some bs \<Rightarrow> do {
                content \<leftarrow> mem_read 0 (nat (di_length d)) bs;
                let s2 = set_seg shmId (\<lambda>g. g\<lparr>sg_bytes := content\<rparr>) s1;
                if \<not> she_dt e then Some (request, ReleaseShmId e shmId s2)
                else if \<not> she_stat e then Some (request, ReleaseShmId e shmId s2)
                else if \<not> she_set e then Some (request, ReleaseShmId e shmId s2)
                else Some (io_WriteInt32 ops (di_length d) (io_WriteInt32 ops shmId request),
                       set_seg shmId (\<lambda>g. g\<lparr>sg_uid := receiverUid\<rparr>) s2)
              }))"

definition ParcelDataInfo ::
  "'io ipc_ops \<Rightarrow> shmenv \<Rightarrow> DataInfo option \<Rightarrow> int \<Rightarrow> 'io option \<Rightarrow> shmsys \<Rightarrow> ('io option \<times> shmsys) option" where
  "ParcelDataInfo ops e dataInfo receiverUid request0 s =
     (case dataInfo of
        None \<Rightarrow> Some (request0, s)
      | Some d \<Rightarrow>
          (case request0 of
             None \<Rightarrow> Some (request0, s)
           | Some request \<Rightarrow>
               if di_data d \<noteq> None \<and> di_length d \<le> 0 then Some (request0, s)
               else if di_data d = None \<and> di_length d \<noteq> 0 then Some (request0, s)
               else (let r1 = io_WriteInt32 ops (di_length d) request in
                     if di_data d = None \<and> di_length d = 0 then Some (Some r1, s)
                     else if di_length d < IPC_MAX_TRANS_CAPACITY then do {
                       bs \<leftarrow> di_data d;
                       content \<leftarrow> mem_read 0 (nat (di_length d)) bs;
                       Some (Some (io_WriteBuffer ops content (io_WriteUint32 ops (di_length d mod 2 ^ 32) r1)), s)
                     }
                     else map_option (\<lambda>(r, s'). (Some r, s')) (IpcIoPushSharedMemory ops e d receiverUid r1 s))))"

text \<open>
  What a pointer to a block is after an operation: the block, or - \<open>True\<close> - a block that was
  freed already.
\<close>

type_synonym info_ptr = "DataInfo \<times> bool"

definition IpcIoPopSharedMemory ::
  "'io ipc_ops \<Rightarrow> shmenv \<Rightarrow> DataInfo \<Rightarrow> 'io \<Rightarrow> shmsys \<Rightarrow> (retcode \<times> info_ptr \<times> 'io \<times> shmsys) option" where
  "IpcIoPopSharedMemory ops e d request s =
     (let (i0, r1) = io_ReadInt32 ops request;
          (l0, r2) = io_ReadInt32 ops r1;
          len = or_old l0 (di_length d);
          d1 = d\<lparr>di_length := len\<rparr> in
      case i0 of
        None \<Rightarrow> None
      | Some shmId \<Rightarrow>
          if shmId = - 1 then Some (RETCODE_FAILURE, (d1, False), r2, s)
          else if len \<le> 0 \<or> len > MAX_SHM_DATA_SIZE then
            Some (RETCODE_FAILURE, (d1, False), r2, ReleaseShmId e shmId s)
          else (case (if she_at e then sm_find (sh_segs s) shmId else None) of
                  None \<Rightarrow> Some (RETCODE_FAILURE, (d1, False), r2, ReleaseShmId e shmId s)
                | Some g \<Rightarrow>
                    if \<not> she_malloc e then
                      Some (RETCODE_OUT_OF_MEMORY, (d1\<lparr>di_data := None\<rparr>, False), r2, ReleaseShmId e shmId s)
                    else do {
                      content \<leftarrow> mem_read 0 (nat len) (sg_bytes g);
                      let d2 = d1\<lparr>di_data := Some content\<rparr>;
                      if \<not> she_dt e then Some (RETCODE_FAILURE, (d2, True), r2, ReleaseShmId e shmId s)
                      else Some (RETCODE_SUCCESS, (d2, False), r2, ReleaseShmId e shmId s)
                    }))"

definition IpcIoPopMemory ::
  "'io ipc_ops \<Rightarrow> shmenv \<Rightarrow> DataInfo \<Rightarrow> 'io \<Rightarrow> retcode \<times> info_ptr \<times> 'io" where
  "IpcIoPopMemory ops e d request =
     (let (n0, r1) = io_ReadUint32 ops request;
          dataBufSize = or_old n0 0;
          (buf, r2) = io_ReadBuffer ops dataBufSize r1 in
      case buf of
        None \<Rightarrow> (RETCODE_NULL_PARAM, (d, False), r2)
      | Some bs \<Rightarrow>
          if swrap 32 dataBufSize \<noteq> di_length d then (RETCODE_NULL_PARAM, (d, False), r2)
          else if \<not> she_malloc e then (RETCODE_OUT_OF_MEMORY, (d\<lparr>di_data := None\<rparr>, False), r2)
          else (RETCODE_SUCCESS, (d\<lparr>di_data := Some bs\<rparr>, False), r2))"

definition UnParcelDataInfo ::
  "'io ipc_ops \<Rightarrow> shmenv \<Rightarrow> 'io option \<Rightarrow> DataInfo option \<Rightarrow> shmsys \<Rightarrow>
   (retcode \<times> info_ptr option \<times> 'io option \<times> shmsys) option" where
  "UnParcelDataInfo ops e request0 dataInfo s =
     (case request0 of
        None \<Rightarrow> Some (RETCODE_FAILURE, map_option (\<lambda>d. (d, False)) dataInfo, None, s)
      | Some request \<Rightarrow>
          (case dataInfo of
             None \<Rightarrow> Some (RETCODE_FAILURE, None, Some request, s)
           | Some d \<Rightarrow>
               (let (l0, r1) = io_ReadInt32 ops request;
                    d1 = d\<lparr>di_length := or_old l0 (di_length d)\<rparr> in
                if di_length d1 < 0 then Some (RETCODE_FAILURE, Some (d1, False), Some r1, s)
                else if di_length d1 = 0 then
                  Some (RETCODE_SUCCESS, Some (d1\<lparr>di_data := None\<rparr>, False), Some r1, s)
                else if di_length d1 < IPC_MAX_TRANS_CAPACITY then
                  (let (ret, p, r2) = IpcIoPopMemory ops e d1 r1 in Some (ret, Some p, Some r2, s))
                else map_option (\<lambda>(ret, p, r2, s'). (ret, Some p, Some r2, s'))
                       (IpcIoPopSharedMemory ops e d1 r1 s))))"

text \<open>\<open>None\<close>: a block is freed for the second time.\<close>

definition FreeDataInfo :: "info_ptr option \<Rightarrow> info_ptr option option" where
  "FreeDataInfo dataInfo =
     (case dataInfo of
        None \<Rightarrow> Some None
      | Some (d, freed) \<Rightarrow>
          if di_data d = None then Some (Some (d, freed))
          else if freed then None
          else Some (Some (empty_DataInfo, False)))"

section \<open>The search for a free key\<close>

abbreviation (input) SHM_KEYS :: int where "SHM_KEYS \<equiv> 100000"

text \<open>The key after \<open>j\<close> steps of the cyclic counter.\<close>

definition cyc :: "int \<Rightarrow> int \<Rightarrow> int" where
  "cyc k j = SHM_KEY_START + (k - SHM_KEY_START + j) mod SHM_KEYS"

definition key_ok :: "int \<Rightarrow> bool" where
  "key_ok k \<longleftrightarrow> SHM_KEY_START \<le> k \<and> k < SHM_KEY_END"

lemma cyc_ok: "key_ok (cyc k j)"
  by (simp add: key_ok_def cyc_def)

lemma cyc_0: "key_ok k \<Longrightarrow> cyc k 0 = k"
  by (simp add: cyc_def key_ok_def)

lemma cyc_cyc: "cyc (cyc k i) j = cyc k (i + j)"
  by (simp add: cyc_def mod_simps add.assoc)

lemma next_key_cyc:
  assumes "key_ok (sh_key s)"
  shows "next_key s = s\<lparr>sh_key := cyc (sh_key s) 1\<rparr>"
proof (cases "sh_key s = SHM_KEY_END - 1")
  case True
  then show ?thesis by (simp add: next_key_def cyc_def Let_def)
next
  case False
  then have "(sh_key s - SHM_KEY_START + 1) mod SHM_KEYS = sh_key s - SHM_KEY_START + 1"
    using assms by (simp add: key_ok_def)
  then show ?thesis using False assms by (simp add: next_key_def cyc_def key_ok_def Let_def)
qed

lemma key_used_key [simp]: "key_used k (s\<lparr>sh_key := x\<rparr>) = key_used k s"
  by (simp add: key_used_def)

text \<open>The state after a segment with key \<open>k\<close> was made.\<close>

definition new_seg :: "shmenv \<Rightarrow> int \<Rightarrow> int \<Rightarrow> shmsys \<Rightarrow> shmsys" where
  "new_seg e size0 k s = s\<lparr>sh_key := cyc k 1, sh_next := sh_next s + 1,
     sh_segs := sm_put (sh_next s) \<lparr>sg_key = k, sg_bytes = replicate (nat size0) 0, sg_uid = she_uid e\<rparr> (sh_segs s)\<rparr>"

lemma acquire_loop_finds:
  assumes "key_ok (sh_key s)" and "she_get e" and "\<not> key_used (cyc (sh_key s) (int j)) s" and "j \<le> n"
  shows "\<exists>k. key_ok k \<and> \<not> key_used k s \<and> acquire_loop e size0 (Suc n) s = (sh_next s, new_seg e size0 k s)"
  using assms
proof (induction n arbitrary: s j)
  case 0
  then show ?case
    by (auto simp: new_seg_def cyc_0 next_key_cyc intro!: exI [of _ "sh_key s"])
next
  case (Suc n)
  show ?case
  proof (cases "key_used (sh_key s) s")
    case False
    then show ?thesis
      using Suc.prems by (auto simp: new_seg_def next_key_cyc intro!: exI [of _ "sh_key s"])
  next
    case True
    let ?s = "s\<lparr>sh_key := cyc (sh_key s) 1\<rparr>"
    have j: "j \<noteq> 0"
    proof
      assume "j = 0"
      then show False using True Suc.prems(3) cyc_0 [OF Suc.prems(1)] by simp
    qed
    have "cyc (sh_key ?s) (int (j - 1)) = cyc (sh_key s) (int j)" using j by (simp add: cyc_cyc)
    then have "\<exists>k. key_ok k \<and> \<not> key_used k ?s \<and> acquire_loop e size0 (Suc n) ?s = (sh_next ?s, new_seg e size0 k ?s)"
      using Suc.prems by (intro Suc.IH [of ?s "j - 1"]) (simp_all add: cyc_ok)
    moreover have "acquire_loop e size0 (Suc (Suc n)) s = acquire_loop e size0 (Suc n) ?s"
      using True next_key_cyc [OF Suc.prems(1)] by (simp add: Let_def)
    ultimately show ?thesis by (auto simp: new_seg_def)
  qed
qed

lemma acquire_loop_fails:
  assumes "key_ok (sh_key s)" and "\<forall>k. key_ok k \<longrightarrow> key_used k s"
  shows "\<exists>k. key_ok k \<and> acquire_loop e size0 (Suc n) s = (- 1, s\<lparr>sh_key := k\<rparr>)"
  using assms
proof (induction n arbitrary: s)
  case 0
  then show ?case using cyc_ok by (auto simp: next_key_cyc Let_def)
next
  case (Suc n)
  let ?s = "s\<lparr>sh_key := cyc (sh_key s) 1\<rparr>"
  have "acquire_loop e size0 (Suc (Suc n)) s = acquire_loop e size0 (Suc n) ?s"
    using Suc.prems next_key_cyc [OF Suc.prems(1)] by (simp add: Let_def)
  then show ?case using Suc.IH [of ?s] Suc.prems(2) by (simp add: cyc_ok)
qed

lemma Acquire_steps: "AcquireShmSegment e size0 s = acquire_loop e size0 (Suc 99999) s"
  by (simp add: AcquireShmSegment_def)

lemma cyc_reaches:
  assumes "key_ok k" and "key_ok f"
  shows "\<exists>j. j \<le> 99999 \<and> cyc k (int j) = f"
proof -
  let ?j = "nat ((f - k) mod SHM_KEYS)"
  have b: "0 \<le> (f - k) mod SHM_KEYS" "(f - k) mod SHM_KEYS < SHM_KEYS" by simp_all
  have "(k - SHM_KEY_START + (f - k) mod SHM_KEYS) mod SHM_KEYS = (f - SHM_KEY_START) mod SHM_KEYS"
    by (simp add: mod_simps)
  also have "\<dots> = f - SHM_KEY_START" using assms(2) by (simp add: key_ok_def)
  finally have "cyc k (int ?j) = f" using b by (simp add: cyc_def)
  moreover have "?j \<le> 99999" using b by linarith
  ultimately show ?thesis by blast
qed

lemma Acquire_finds:
  assumes "key_ok (sh_key s)" and "she_get e" and "key_ok f" and "\<not> key_used f s"
  shows "\<exists>k. key_ok k \<and> \<not> key_used k s \<and> AcquireShmSegment e size0 s = (sh_next s, new_seg e size0 k s)"
proof -
  obtain j where "j \<le> 99999" "cyc (sh_key s) (int j) = f" using cyc_reaches [OF assms(1,3)] by blast
  then show ?thesis using acquire_loop_finds [OF assms(1,2), of j 99999] assms(4) unfolding Acquire_steps by simp
qed

text \<open>C21. A segment is found whenever there is one to be had: the search starts at the process's key
  counter and goes once round the 100000 keys, so that - \<open>shmget\<close> failing only for keys in use -
  it returns a new segment under an unused key of the range whenever any key of the range is
  unused, and otherwise fails and makes no segment; the counter stays in the range.\<close>

theorem AcquireShmSegment_complete:
  assumes "key_ok (sh_key s)" and "she_get e"
  shows "((\<exists>f. key_ok f \<and> \<not> key_used f s) \<longrightarrow> (\<exists>k s'. AcquireShmSegment e size0 s = (sh_next s, s') \<and>
        key_ok k \<and> \<not> key_used k s \<and> sh_next s' = sh_next s + 1 \<and>
        sh_segs s' = sm_put (sh_next s) \<lparr>sg_key = k, sg_bytes = replicate (nat size0) 0, sg_uid = she_uid e\<rparr> (sh_segs s))) \<and>
    ((\<forall>f. key_ok f \<longrightarrow> key_used f s) \<longrightarrow> (\<exists>s'. AcquireShmSegment e size0 s = (- 1, s') \<and>
        sh_segs s' = sh_segs s)) \<and>
    key_ok (sh_key (snd (AcquireShmSegment e size0 s)))"
proof (cases "\<exists>f. key_ok f \<and> \<not> key_used f s")
  case True
  then obtain k where "key_ok k" "\<not> key_used k s" "AcquireShmSegment e size0 s = (sh_next s, new_seg e size0 k s)"
    using Acquire_finds [OF assms] by blast
  then show ?thesis using True by (auto simp: new_seg_def cyc_ok)
next
  case False
  then obtain k where "key_ok k" "AcquireShmSegment e size0 s = (- 1, s\<lparr>sh_key := k\<rparr>)"
    using acquire_loop_fails [OF assms(1), of e size0 99999] unfolding Acquire_steps by blast
  then show ?thesis using False by auto
qed

definition shm_start :: shmsys where "shm_start = \<lparr>sh_key = SHM_KEY_START, sh_segs = [], sh_next = 0\<rparr>"

definition shm_good :: shmenv where
  "shm_good = \<lparr>she_get = True, she_at = True, she_dt = True, she_stat = True, she_set = True, she_rmid = True,
     she_malloc = True, she_uid = 0\<rparr>"

theorem AcquireShmSegment_complete_witness:
  "\<exists>s'. AcquireShmSegment shm_good 300 (shm_start\<lparr>sh_key := 299999\<rparr>) = (0, s') \<and> key_ok (sh_key s')"
proof -
  let ?s = "shm_start\<lparr>sh_key := 299999\<rparr>"
  have "key_ok (sh_key ?s)" "she_get shm_good" "key_ok 200000 \<and> \<not> key_used 200000 ?s" "sh_next ?s = 0"
    by (simp_all add: key_ok_def shm_good_def key_used_def shm_start_def)
  with AcquireShmSegment_complete [of ?s shm_good 300] show ?thesis by fastforce
qed

section \<open>What a block becomes in a message\<close>

text \<open>A block that can be sent: empty and null, or as long as it says and not too long.\<close>

definition data_ok :: "DataInfo \<Rightarrow> bool" where
  "data_ok d \<longleftrightarrow> d = empty_DataInfo \<or> (\<exists>bs. di_data d = Some bs \<and> bs \<noteq> [] \<and> di_length d = int (length bs) \<and>
     di_length d \<le> MAX_SHM_DATA_SIZE)"

definition by_shm :: "DataInfo \<Rightarrow> bool" where
  "by_shm d \<longleftrightarrow> IPC_MAX_TRANS_CAPACITY \<le> di_length d"

definition parcel_items :: "int \<Rightarrow> DataInfo \<Rightarrow> io_item list" where
  "parcel_items i d = Int32 (di_length d) #
     (case di_data d of
        None \<Rightarrow> []
      | Some bs \<Rightarrow> if by_shm d then [Int32 i, Int32 (di_length d)] else [Uint32 (di_length d), Buffer bs])"

fun put_item :: "'io ipc_ops \<Rightarrow> io_item \<Rightarrow> 'io \<Rightarrow> 'io" where
  "put_item ops (Int32 x) = io_WriteInt32 ops x"
| "put_item ops (Uint32 x) = io_WriteUint32 ops x"
| "put_item ops (Int64 x) = io_WriteInt64 ops x"
| "put_item ops (Bool x) = io_WriteBool ops x"
| "put_item ops (Buffer x) = io_WriteBuffer ops x"

fun puts :: "'io ipc_ops \<Rightarrow> io_item list \<Rightarrow> 'io \<Rightarrow> 'io" where
  "puts ops [] io = io"
| "puts ops (x # xs) io = puts ops xs (put_item ops x io)"

lemma puts_append: "puts ops (xs @ ys) io = puts ops ys (puts ops xs io)"
  by (induction xs arbitrary: io) auto

lemma put_item_law:
  assumes "ipc_laws ops items room size0" and "size0 x \<le> room io"
  shows "items (put_item ops x io) = items io @ [x] \<and> room (put_item ops x io) = room io - size0 x"
  using assms by (cases x) (simp_all add: ipc_laws_def write_law_def)

lemma puts_items:
  assumes "ipc_laws ops items room size0" and "sum_list (map size0 xs) \<le> room io"
  shows "items (puts ops xs io) = items io @ xs \<and> room (puts ops xs io) = room io - sum_list (map size0 xs)"
  using assms(2)
proof (induction xs arbitrary: io)
  case (Cons x xs)
  then show ?case using put_item_law [OF assms(1), of x io] by simp
qed simp

lemma reads:
  assumes "ipc_laws ops items room size0"
  shows "items io = Int32 x # rest \<Longrightarrow> \<exists>io'. io_ReadInt32 ops io = (Some x, io') \<and> items io' = rest"
    and "items io = Uint32 x # rest \<Longrightarrow> \<exists>io'. io_ReadUint32 ops io = (Some x, io') \<and> items io' = rest"
    and "items io = Int64 x # rest \<Longrightarrow> \<exists>io'. io_ReadInt64 ops io = (Some x, io') \<and> items io' = rest"
    and "items io = Bool b # rest \<Longrightarrow> \<exists>io'. io_ReadBool ops io = (Some b, io') \<and> items io' = rest"
    and "items io = Buffer bs # rest \<Longrightarrow> \<exists>io'. io_ReadBuffer ops (int (length bs)) io = (Some bs, io') \<and> items io' = rest"
  using assms by (simp_all add: ipc_laws_def read_law_def)

text \<open>Segments by ids below the next one, and keys for \<open>m\<close> more.\<close>

definition shm_ok :: "nat \<Rightarrow> shmsys \<Rightarrow> bool" where
  "shm_ok m s \<longleftrightarrow> sm_ok (sh_segs s) \<and> key_ok (sh_key s) \<and> 0 \<le> sh_next s \<and>
     (\<forall>i \<in> fst ` set (sh_segs s). i < sh_next s) \<and> length (sh_segs s) + m \<le> 100000"

definition shm_all :: "shmenv \<Rightarrow> bool" where
  "shm_all e \<longleftrightarrow> she_get e \<and> she_at e \<and> she_dt e \<and> she_stat e \<and> she_set e \<and> she_rmid e \<and> she_malloc e"

lemma shm_ok_free: "shm_ok (Suc m) s \<Longrightarrow> \<exists>f. key_ok f \<and> \<not> key_used f s"
proof (rule ccontr)
  assume ok: "shm_ok (Suc m) s" and "\<not> (\<exists>f. key_ok f \<and> \<not> key_used f s)"
  then have "{SHM_KEY_START..<SHM_KEY_END} \<subseteq> set (map (\<lambda>p. sg_key (snd p)) (sh_segs s))"
    by (auto simp: key_ok_def key_used_def list_ex_iff image_iff)
  then have "card {SHM_KEY_START..<SHM_KEY_END} \<le> card (set (map (\<lambda>p. sg_key (snd p)) (sh_segs s)))"
    by (intro card_mono) auto
  also have "\<dots> \<le> length (sh_segs s)"
    using card_length [of "map (\<lambda>p. sg_key (snd p)) (sh_segs s)"] by simp
  finally show False using ok by (simp add: shm_ok_def)
qed

text \<open>
  The effect on the segments: a long block takes the next id, and its segment holds the bytes
  and belongs to the receiver.
\<close>

definition shm_added :: "DataInfo \<Rightarrow> int \<Rightarrow> shmsys \<Rightarrow> shmsys \<Rightarrow> bool" where
  "shm_added d uid s s' \<longleftrightarrow>
     (if by_shm d then \<exists>g. sh_segs s' = sm_put (sh_next s) g (sh_segs s) \<and> di_data d = Some (sg_bytes g) \<and>
        sg_uid g = uid \<and> sh_next s' = sh_next s + 1 \<and> key_ok (sh_key s')
      else s' = s)"

lemma sm_put_put: "sm_put k x (sm_put k y m) = sm_put k x m"
  by (induction k y m rule: sm_put.induct) auto

lemma shm_next_free: "shm_ok m s \<Longrightarrow> sm_find (sh_segs s) (sh_next s) = None"
  by (auto simp: shm_ok_def sm_find_none)

lemma shm_added_ok:
  assumes "shm_ok (Suc m) s" and "shm_added d uid s s'"
  shows "shm_ok m s'"
proof (cases "by_shm d")
  case True
  have "length (sm_put (sh_next s) g (sh_segs s)) = Suc (length (sh_segs s))" for g
    using sm_put_length [of "sh_segs s" "sh_next s" g] shm_next_free [OF assms(1)] assms(1) by (simp add: shm_ok_def)
  moreover obtain g where g: "sh_segs s' = sm_put (sh_next s) g (sh_segs s)" "sh_next s' = sh_next s + 1" "key_ok (sh_key s')"
    using assms(2) True by (auto simp: shm_added_def)
  moreover have "\<forall>i \<in> fst ` set (sh_segs s'). i < sh_next s'"
    unfolding g(1,2) sm_put_keys using assms(1) by (auto simp: shm_ok_def)
  ultimately show ?thesis using assms(1) by (simp add: shm_ok_def sm_put_ok)
next
  case False
  then show ?thesis using assms by (simp add: shm_added_def shm_ok_def)
qed

lemma mem_read_all: "mem_read 0 (length bs) bs = Some bs"
  by (simp add: mem_read_def)

lemma PushSharedMemory_added:
  assumes "shm_ok (Suc m) s" and "shm_all e" and "di_data d = Some bs" "bs \<noteq> []" "di_length d = int (length bs)"
    and "by_shm d"
  shows "\<exists>s'. IpcIoPushSharedMemory ops e d uid io s =
      Some (puts ops [Int32 (sh_next s), Int32 (di_length d)] io, s') \<and> shm_added d uid s s'"
proof -
  have e: "she_get e" "she_at e" "she_dt e" "she_stat e" "she_set e" using assms(2) by (simp_all add: shm_all_def)
  obtain f where "key_ok f" "\<not> key_used f s" using shm_ok_free [OF assms(1)] by blast
  then obtain k where k: "AcquireShmSegment e (di_length d) s = (sh_next s, new_seg e (di_length d) k s)"
    using Acquire_finds [OF _ e(1), of s f] assms(1) by (auto simp: shm_ok_def)
  define s1 where "s1 = new_seg e (di_length d) k s"
  have f1: "sm_find (sh_segs s1) (sh_next s) = Some \<lparr>sg_key = k, sg_bytes = replicate (length bs) 0, sg_uid = she_uid e\<rparr>"
    using assms(5) by (simp add: s1_def new_seg_def sm_find_put)
  have n: "\<not> sh_next s < 0" using assms(1) by (simp add: shm_ok_def)
  define s2 where "s2 = set_seg (sh_next s) (\<lambda>g. g\<lparr>sg_uid := uid\<rparr>) (set_seg (sh_next s) (\<lambda>g. g\<lparr>sg_bytes := bs\<rparr>) s1)"
  have "IpcIoPushSharedMemory ops e d uid io s = Some (puts ops [Int32 (sh_next s), Int32 (di_length d)] io, s2)"
    using e assms(3,5) k n by (simp add: IpcIoPushSharedMemory_def mem_read_all Let_def s2_def s1_def)
  moreover have "shm_added d uid s s2"
    using f1 assms(3,6)
    by (simp add: s2_def set_seg_def shm_added_def sm_find_put sm_put_put)
      (auto simp: s1_def new_seg_def sm_put_put cyc_ok)
  ultimately show ?thesis by blast
qed

lemma ParcelDataInfo_puts:
  assumes "shm_ok (Suc m) s" and "shm_all e" and "data_ok d"
  shows "\<exists>s'. ParcelDataInfo ops e (Some d) uid (Some io) s =
      Some (Some (puts ops (parcel_items (sh_next s) d) io), s') \<and> shm_added d uid s s'"
proof (cases "d = empty_DataInfo")
  case True
  then show ?thesis by (simp add: ParcelDataInfo_def parcel_items_def shm_added_def by_shm_def)
next
  case False
  then obtain bs where d: "di_data d = Some bs" "bs \<noteq> []" "di_length d = int (length bs)"
    using assms(3) by (auto simp: data_ok_def)
  show ?thesis
  proof (cases "by_shm d")
    case True
    obtain s' where "IpcIoPushSharedMemory ops e d uid (io_WriteInt32 ops (di_length d) io) s =
        Some (puts ops [Int32 (sh_next s), Int32 (di_length d)] (io_WriteInt32 ops (di_length d) io), s')"
        "shm_added d uid s s'"
      using PushSharedMemory_added [OF assms(1,2) d True, of ops uid "io_WriteInt32 ops (di_length d) io"] by blast
    then show ?thesis using d True by (simp add: ParcelDataInfo_def parcel_items_def by_shm_def)
  next
    case False
    moreover have "di_length d mod 2 ^ 32 = di_length d" using False d(3) by (simp add: by_shm_def)
    ultimately show ?thesis
      using d by (simp add: ParcelDataInfo_def parcel_items_def by_shm_def shm_added_def mem_read_all)
  qed
qed

text \<open>The receiving side.\<close>

definition holds_block :: "DataInfo \<Rightarrow> int \<Rightarrow> shmsys \<Rightarrow> bool" where
  "holds_block d i s \<longleftrightarrow> (by_shm d \<longrightarrow> 0 \<le> i \<and> (\<exists>g. sm_find (sh_segs s) i = Some g \<and> di_data d = Some (sg_bytes g)))"

definition shm_taken :: "DataInfo \<Rightarrow> int \<Rightarrow> shmsys \<Rightarrow> shmsys" where
  "shm_taken d i s = (if by_shm d then s\<lparr>sh_segs := sm_erase i (sh_segs s)\<rparr> else s)"

lemma UnParcelDataInfo_gets:
  assumes laws: "ipc_laws ops items room size0" and e: "shm_all e" and d: "data_ok d" and h: "holds_block d i s"
    and it: "items io = parcel_items i d @ rest"
  shows "\<exists>io'. UnParcelDataInfo ops e (Some io) (Some empty_DataInfo) s =
      Some (RETCODE_SUCCESS, Some (d, False), Some io', shm_taken d i s) \<and> items io' = rest"
proof -
  note rd = reads [OF laws]
  obtain io1 where io1: "io_ReadInt32 ops io = (Some (di_length d), io1)"
      "items io1 = tl (parcel_items i d) @ rest"
    using rd(1) [of io "di_length d"] it by (auto simp: parcel_items_def)
  show ?thesis
  proof (cases "d = empty_DataInfo")
    case True
    then show ?thesis
      using io1 by (simp add: UnParcelDataInfo_def parcel_items_def shm_taken_def by_shm_def)
  next
    case False
    then obtain bs where bs: "di_data d = Some bs" "bs \<noteq> []" "di_length d = int (length bs)"
        "di_length d \<le> MAX_SHM_DATA_SIZE"
      using d by (auto simp: data_ok_def)
    have d0: "empty_DataInfo\<lparr>di_length := di_length d\<rparr>\<lparr>di_data := Some bs\<rparr> = d"
      using bs by simp
    show ?thesis
    proof (cases "by_shm d")
      case False
      then have small: "di_length d < IPC_MAX_TRANS_CAPACITY" by (simp add: by_shm_def)
      have "items io1 = Uint32 (di_length d) # Buffer bs # rest"
        using io1(2) bs(1) False by (simp add: parcel_items_def)
      then obtain io2 where io2: "io_ReadUint32 ops io1 = (Some (di_length d), io2)" "items io2 = Buffer bs # rest"
        using rd(2) by blast
      then obtain io3 where io3: "io_ReadBuffer ops (int (length bs)) io2 = (Some bs, io3)" "items io3 = rest"
        using rd(5) by blast
      have "swrap 32 (di_length d) = di_length d" using swrap_id [of 32 "di_length d"] small bs(3) by simp
      then have "IpcIoPopMemory ops e (empty_DataInfo\<lparr>di_length := di_length d\<rparr>) io1 = (RETCODE_SUCCESS, (d, False), io3)"
        using io2(1) io3(1) bs e d0 by (simp add: IpcIoPopMemory_def shm_all_def)
      then show ?thesis
        using io1(1) io3(2) bs small False by (simp add: UnParcelDataInfo_def shm_taken_def)
    next
      case True
      then have large: "\<not> di_length d < IPC_MAX_TRANS_CAPACITY" by (simp add: by_shm_def)
      have "items io1 = Int32 i # Int32 (di_length d) # rest"
        using io1(2) bs(1) True by (simp add: parcel_items_def)
      then obtain io2 where io2: "io_ReadInt32 ops io1 = (Some i, io2)" "items io2 = Int32 (di_length d) # rest"
        using rd(1) by blast
      then obtain io3 where io3: "io_ReadInt32 ops io2 = (Some (di_length d), io3)" "items io3 = rest"
        using rd(1) by blast
      obtain g where g: "sm_find (sh_segs s) i = Some g" "sg_bytes g = bs" "0 \<le> i"
        using h True bs(1) by (auto simp: holds_block_def)
      have "IpcIoPopSharedMemory ops e (empty_DataInfo\<lparr>di_length := di_length d\<rparr>) io1 s =
          Some (RETCODE_SUCCESS, (d, False), io3, shm_taken d i s)"
        using io2(1) io3(1) bs g e d0 True
        by (simp add: IpcIoPopSharedMemory_def shm_all_def mem_read_all ReleaseShmId_def shm_taken_def Let_def)
      then show ?thesis
        using io1(1) io3(2) bs large by (simp add: UnParcelDataInfo_def)
    qed
  qed
qed

section \<open>Client and algorithm information\<close>

definition ParcelClientInfo ::
  "'io ipc_ops \<Rightarrow> shmenv \<Rightarrow> ClientInfo \<Rightarrow> 'io \<Rightarrow> shmsys \<Rightarrow> ('io option \<times> shmsys) option" where
  "ParcelClientInfo ops e ci request s =
     ParcelDataInfo ops e (Some (ci_extend ci)) (ci_serverUid ci)
       (Some (io_WriteUint32 ops (ci_clientUid ci) (io_WriteUint32 ops (ci_serverUid ci)
         (io_WriteInt32 ops (ci_sessionId ci) (io_WriteInt32 ops (ci_clientId ci)
           (io_WriteInt64 ops (ci_clientVersion ci) request)))))) s"

definition ParcelAlgorithmInfo ::
  "'io ipc_ops \<Rightarrow> shmenv \<Rightarrow> AlgorithmInfo \<Rightarrow> int \<Rightarrow> 'io \<Rightarrow> shmsys \<Rightarrow> ('io option \<times> shmsys) option" where
  "ParcelAlgorithmInfo ops e ai serverUid request s =
     ParcelDataInfo ops e (Some (ai_extend ai)) serverUid
       (Some (io_WriteInt32 ops (ai_requestId ai) (io_WriteInt32 ops (ai_operateId ai)
         (io_WriteBool ops (ai_isCloud ai) (io_WriteInt64 ops (ai_algorithmVersion ai)
           (io_WriteInt32 ops (ai_algorithmType ai) (io_WriteBool ops (ai_isAsync ai)
             (io_WriteInt64 ops (ai_clientVersion ai) request)))))))) s"

text \<open>\<open>None\<close> for a pointer is the null pointer; a variable that cannot be read keeps its value.\<close>

definition UnParcelClientInfo ::
  "'io ipc_ops \<Rightarrow> shmenv \<Rightarrow> 'io option \<Rightarrow> ClientInfo option \<Rightarrow> shmsys \<Rightarrow>
   (retcode \<times> ClientInfo option \<times> 'io option \<times> shmsys) option" where
  "UnParcelClientInfo ops e request0 clientInfo s =
     (case request0 of
        None \<Rightarrow> Some (RETCODE_FAILURE, clientInfo, None, s)
      | Some io \<Rightarrow>
          (case clientInfo of
             None \<Rightarrow> Some (RETCODE_FAILURE, None, Some io, s)
           | Some ci \<Rightarrow>
               (let (v, io1) = io_ReadInt64 ops io;
                    (c, io2) = io_ReadInt32 ops io1;
                    (ss, io3) = io_ReadInt32 ops io2;
                    (su, io4) = io_ReadUint32 ops io3;
                    (cu, io5) = io_ReadUint32 ops io4;
                    ci1 = ci\<lparr>ci_clientVersion := or_old v (ci_clientVersion ci),
                             ci_clientId := or_old c (ci_clientId ci),
                             ci_sessionId := or_old ss (ci_sessionId ci),
                             ci_serverUid := or_old su (ci_serverUid ci),
                             ci_clientUid := or_old cu (ci_clientUid ci)\<rparr> in
                do {
                  (retCode, p, io6, s1) \<leftarrow> UnParcelDataInfo ops e (Some io5) (Some empty_DataInfo) s;
                  if retCode = RETCODE_SUCCESS
                  then do { (d, freed) \<leftarrow> p; Some (retCode, Some (ci1\<lparr>ci_extend := d\<rparr>), io6, s1) }
                  else Some (retCode, Some (ci1\<lparr>ci_extend := empty_DataInfo\<rparr>), io6, s1)
                })))"

definition UnParcelAlgorithmInfo ::
  "'io ipc_ops \<Rightarrow> shmenv \<Rightarrow> 'io option \<Rightarrow> AlgorithmInfo option \<Rightarrow> shmsys \<Rightarrow>
   (retcode \<times> AlgorithmInfo option \<times> 'io option \<times> shmsys) option" where
  "UnParcelAlgorithmInfo ops e request0 algorithmInfo s =
     (case request0 of
        None \<Rightarrow> Some (RETCODE_FAILURE, algorithmInfo, None, s)
      | Some io \<Rightarrow>
          (case algorithmInfo of
             None \<Rightarrow> Some (RETCODE_FAILURE, None, Some io, s)
           | Some ai \<Rightarrow>
               (let (v, io1) = io_ReadInt64 ops io;
                    (as, io2) = io_ReadBool ops io1;
                    (ty, io3) = io_ReadInt32 ops io2;
                    (av, io4) = io_ReadInt64 ops io3;
                    (cl, io5) = io_ReadBool ops io4;
                    (op, io6) = io_ReadInt32 ops io5;
                    (rq, io7) = io_ReadInt32 ops io6;
                    ai1 = ai\<lparr>ai_clientVersion := or_old v (ai_clientVersion ai),
                             ai_isAsync := or_old as (ai_isAsync ai),
                             ai_algorithmType := or_old ty (ai_algorithmType ai),
                             ai_algorithmVersion := or_old av (ai_algorithmVersion ai),
                             ai_isCloud := or_old cl (ai_isCloud ai),
                             ai_operateId := or_old op (ai_operateId ai),
                             ai_requestId := or_old rq (ai_requestId ai)\<rparr> in
                do {
                  (retCode, p, io8, s1) \<leftarrow> UnParcelDataInfo ops e (Some io7) (Some empty_DataInfo) s;
                  if retCode = RETCODE_SUCCESS
                  then do { (d, freed) \<leftarrow> p; Some (retCode, Some (ai1\<lparr>ai_extend := d\<rparr>), io8, s1) }
                  else Some (retCode, Some (ai1\<lparr>ai_extend := empty_DataInfo\<rparr>), io8, s1)
                })))"

definition FreeClientInfo :: "ClientInfo option \<Rightarrow> ClientInfo option" where
  "FreeClientInfo clientInfo =
     (case clientInfo of
        None \<Rightarrow> None
      | Some ci \<Rightarrow> if di_data (ci_extend ci) \<noteq> None then Some (ci\<lparr>ci_extend := empty_DataInfo\<rparr>) else Some ci)"

definition FreeAlgorithmInfo :: "AlgorithmInfo option \<Rightarrow> AlgorithmInfo option" where
  "FreeAlgorithmInfo algorithmInfo =
     (case algorithmInfo of
        None \<Rightarrow> None
      | Some ai \<Rightarrow> if di_data (ai_extend ai) \<noteq> None then Some (ai\<lparr>ai_extend := empty_DataInfo\<rparr>) else Some ai)"

definition UnParcelInfo ::
  "'io ipc_ops \<Rightarrow> shmenv \<Rightarrow> 'io option \<Rightarrow> ClientInfo option \<Rightarrow> AlgorithmInfo option \<Rightarrow> DataInfo option \<Rightarrow> shmsys \<Rightarrow>
   (retcode \<times> ClientInfo option \<times> AlgorithmInfo option \<times> info_ptr option \<times> 'io option \<times> shmsys) option" where
  "UnParcelInfo ops e req clientInfo algorithmInfo dataInfo s =
     do {
       (r1, ci, io1, s1) \<leftarrow> UnParcelClientInfo ops e req clientInfo s;
       if r1 \<noteq> RETCODE_SUCCESS then Some (r1, ci, algorithmInfo, map_option (\<lambda>d. (d, False)) dataInfo, io1, s1)
       else do {
         (r2, ai, io2, s2) \<leftarrow> UnParcelAlgorithmInfo ops e io1 algorithmInfo s1;
         if r2 \<noteq> RETCODE_SUCCESS then
           Some (r2, FreeClientInfo ci, ai, map_option (\<lambda>d. (d, False)) dataInfo, io2, s2)
         else do {
           (r3, p, io3, s3) \<leftarrow> UnParcelDataInfo ops e io2 dataInfo s2;
           if r3 \<noteq> RETCODE_SUCCESS then Some (r3, FreeClientInfo ci, FreeAlgorithmInfo ai, p, io3, s3)
           else Some (r3, ci, ai, p, io3, s3)
         }
       }
     }"

text \<open>The message of a request, and the round trip.\<close>

definition client_items :: "ClientInfo \<Rightarrow> io_item list" where
  "client_items ci = [Int64 (ci_clientVersion ci), Int32 (ci_clientId ci), Int32 (ci_sessionId ci),
     Uint32 (ci_serverUid ci), Uint32 (ci_clientUid ci)]"

definition algorithm_items :: "AlgorithmInfo \<Rightarrow> io_item list" where
  "algorithm_items ai = [Int64 (ai_clientVersion ai), Bool (ai_isAsync ai), Int32 (ai_algorithmType ai),
     Int64 (ai_algorithmVersion ai), Bool (ai_isCloud ai), Int32 (ai_operateId ai), Int32 (ai_requestId ai)]"

lemma ParcelClientInfo_puts:
  assumes "shm_ok (Suc m) s" and "shm_all e" and "data_ok (ci_extend ci)"
  shows "\<exists>s'. ParcelClientInfo ops e ci io s =
      Some (Some (puts ops (client_items ci @ parcel_items (sh_next s) (ci_extend ci)) io), s') \<and>
    shm_added (ci_extend ci) (ci_serverUid ci) s s'"
  using ParcelDataInfo_puts [OF assms, where uid = "ci_serverUid ci" and io = "puts ops (client_items ci) io" and ops = ops]
  by (simp add: ParcelClientInfo_def client_items_def)

lemma ParcelAlgorithmInfo_puts:
  assumes "shm_ok (Suc m) s" and "shm_all e" and "data_ok (ai_extend ai)"
  shows "\<exists>s'. ParcelAlgorithmInfo ops e ai uid io s =
      Some (Some (puts ops (algorithm_items ai @ parcel_items (sh_next s) (ai_extend ai)) io), s') \<and>
    shm_added (ai_extend ai) uid s s'"
  using ParcelDataInfo_puts [OF assms, where uid = uid and io = "puts ops (algorithm_items ai) io" and ops = ops]
  by (simp add: ParcelAlgorithmInfo_def algorithm_items_def)

lemma UnParcelClientInfo_gets:
  assumes laws: "ipc_laws ops items room size0" and "shm_all e" and "data_ok (ci_extend ci)"
    and "holds_block (ci_extend ci) i s" and it: "items io = client_items ci @ parcel_items i (ci_extend ci) @ rest"
  shows "\<exists>io'. UnParcelClientInfo ops e (Some io) (Some ci0) s =
      Some (RETCODE_SUCCESS, Some ci, Some io', shm_taken (ci_extend ci) i s) \<and> items io' = rest"
proof -
  note rd = reads [OF laws]
  obtain io1 io2 io3 io4 io5 where
    "io_ReadInt64 ops io = (Some (ci_clientVersion ci), io1)" "io_ReadInt32 ops io1 = (Some (ci_clientId ci), io2)"
    "io_ReadInt32 ops io2 = (Some (ci_sessionId ci), io3)" "io_ReadUint32 ops io3 = (Some (ci_serverUid ci), io4)"
    "io_ReadUint32 ops io4 = (Some (ci_clientUid ci), io5)" "items io5 = parcel_items i (ci_extend ci) @ rest"
    using it rd(1-3) unfolding client_items_def by (metis append_Cons append_Nil)
  moreover from UnParcelDataInfo_gets [OF assms(1-4) this(6)] obtain io6 where
    "UnParcelDataInfo ops e (Some io5) (Some empty_DataInfo) s =
      Some (RETCODE_SUCCESS, Some (ci_extend ci, False), Some io6, shm_taken (ci_extend ci) i s)" "items io6 = rest"
    by blast
  ultimately show ?thesis by (simp add: UnParcelClientInfo_def Let_def)
qed

lemma UnParcelAlgorithmInfo_gets:
  assumes laws: "ipc_laws ops items room size0" and "shm_all e" and "data_ok (ai_extend ai)"
    and "holds_block (ai_extend ai) i s" and it: "items io = algorithm_items ai @ parcel_items i (ai_extend ai) @ rest"
  shows "\<exists>io'. UnParcelAlgorithmInfo ops e (Some io) (Some ai0) s =
      Some (RETCODE_SUCCESS, Some ai, Some io', shm_taken (ai_extend ai) i s) \<and> items io' = rest"
proof -
  note rd = reads [OF laws]
  obtain io1 io2 io3 io4 io5 io6 io7 where
    "io_ReadInt64 ops io = (Some (ai_clientVersion ai), io1)" "io_ReadBool ops io1 = (Some (ai_isAsync ai), io2)"
    "io_ReadInt32 ops io2 = (Some (ai_algorithmType ai), io3)" "io_ReadInt64 ops io3 = (Some (ai_algorithmVersion ai), io4)"
    "io_ReadBool ops io4 = (Some (ai_isCloud ai), io5)" "io_ReadInt32 ops io5 = (Some (ai_operateId ai), io6)"
    "io_ReadInt32 ops io6 = (Some (ai_requestId ai), io7)" "items io7 = parcel_items i (ai_extend ai) @ rest"
    using it rd(1,3,4) unfolding algorithm_items_def by (metis append_Cons append_Nil)
  moreover from UnParcelDataInfo_gets [OF assms(1-4) this(8)] obtain io8 where
    "UnParcelDataInfo ops e (Some io7) (Some empty_DataInfo) s =
      Some (RETCODE_SUCCESS, Some (ai_extend ai, False), Some io8, shm_taken (ai_extend ai) i s)" "items io8 = rest"
    by blast
  ultimately show ?thesis by (simp add: UnParcelAlgorithmInfo_def Let_def)
qed

section \<open>The round trip of a request\<close>

definition shm_ids :: "DataInfo \<Rightarrow> int" where
  "shm_ids d = (if by_shm d then 1 else 0)"

lemma shm_added_next: "shm_added d uid s s' \<Longrightarrow> sh_next s' = sh_next s + shm_ids d"
  by (auto simp: shm_added_def shm_ids_def split: if_splits)

lemma shm_added_find:
  "shm_added d uid s s' \<Longrightarrow> i \<noteq> sh_next s \<or> \<not> by_shm d \<Longrightarrow> sm_find (sh_segs s') i = sm_find (sh_segs s) i"
  by (auto simp: shm_added_def sm_find_put split: if_splits)

lemma shm_added_holds: "shm_added d uid s s' \<Longrightarrow> shm_ok m s \<Longrightarrow> holds_block d (sh_next s) s'"
  by (auto simp: shm_added_def holds_block_def shm_ok_def sm_find_put)

lemma holds_added:
  "holds_block d i s \<Longrightarrow> i < sh_next s \<or> \<not> by_shm d \<Longrightarrow> shm_added d2 uid s s' \<Longrightarrow> holds_block d i s'"
  using shm_added_find [of d2 uid s s' i] by (auto simp: holds_block_def)

lemma shm_taken_find:
  "sm_ok (sh_segs s) \<Longrightarrow> sm_find (sh_segs (shm_taken d i s)) j = (if by_shm d \<and> j = i then None else sm_find (sh_segs s) j)"
  by (simp add: shm_taken_def sm_find_erase)

lemma shm_taken_ok: "sm_ok (sh_segs s) \<Longrightarrow> sm_ok (sh_segs (shm_taken d i s))"
  by (simp add: shm_taken_def sm_erase_ok)

lemma holds_taken:
  "holds_block d i s \<Longrightarrow> sm_ok (sh_segs s) \<Longrightarrow> by_shm d \<Longrightarrow> by_shm d2 \<Longrightarrow> i \<noteq> j \<Longrightarrow> holds_block d i (shm_taken d2 j s)"
  by (simp add: holds_block_def shm_taken_find)

lemma holds_taken':
  "holds_block d i s \<Longrightarrow> sm_ok (sh_segs s) \<Longrightarrow> i = j + shm_ids d2 + k \<Longrightarrow> 0 \<le> k \<Longrightarrow>
     holds_block d i (shm_taken d2 j s)"
  by (auto simp: holds_block_def shm_taken_find shm_ids_def)

definition message_items :: "int \<Rightarrow> ClientInfo \<Rightarrow> AlgorithmInfo \<Rightarrow> DataInfo \<Rightarrow> io_item list" where
  "message_items n ci ai d =
     (let n1 = n + shm_ids (ci_extend ci); n2 = n1 + shm_ids (ai_extend ai) in
      (client_items ci @ parcel_items n (ci_extend ci)) @ (algorithm_items ai @ parcel_items n1 (ai_extend ai)) @
        parcel_items n2 d)"

text \<open>A system of segments with the same segments has room for as many more.\<close>

lemma shm_ok_same:
  assumes "shm_ok m s" and "sm_ok (sh_segs s')" and "key_ok (sh_key s')" and "sh_next s \<le> sh_next s'"
    and "\<forall>i. sm_find (sh_segs s') i = sm_find (sh_segs s) i"
  shows "shm_ok m s'"
proof -
  have "x \<in> fst ` set (sh_segs s') \<longleftrightarrow> x \<in> fst ` set (sh_segs s)" for x
    using assms(5) sm_find_none [of "sh_segs s'" x] sm_find_none [of "sh_segs s" x] by simp
  then have "fst ` set (sh_segs s') = fst ` set (sh_segs s)" by blast
  moreover from this have "length (sh_segs s') = length (sh_segs s)"
    using sm_keys_card assms(1,2) unfolding shm_ok_def by metis
  ultimately show ?thesis using assms(1-4) by (auto simp: shm_ok_def)
qed

lemma request_transfer:
  assumes laws: "ipc_laws ops items room size0" and ok: "shm_ok 3 s" and e: "shm_all e"
    and d: "data_ok (ci_extend ci)" "data_ok (ai_extend ai)" "data_ok d"
    and fits: "sum_list (map size0 (message_items (sh_next s) ci ai d)) \<le> room io" and "items io = []"
  shows "\<exists>io1 s1 io2 s2 io3 s3 io' s'. ParcelClientInfo ops e ci io s = Some (Some io1, s1) \<and>
    ParcelAlgorithmInfo ops e ai (ci_serverUid ci) io1 s1 = Some (Some io2, s2) \<and>
    ParcelDataInfo ops e (Some d) (ci_serverUid ci) (Some io2) s2 = Some (Some io3, s3) \<and>
    UnParcelInfo ops e (Some io3) (Some ci0) (Some ai0) (Some empty_DataInfo) s3 =
      Some (RETCODE_SUCCESS, Some ci, Some ai, Some (d, False), Some io', s') \<and>
    items io' = [] \<and> (\<forall>i. sm_find (sh_segs s') i = sm_find (sh_segs s) i) \<and>
    sm_ok (sh_segs s') \<and> key_ok (sh_key s') \<and> sh_next s \<le> sh_next s'"
proof -
  let ?x = "ci_extend ci" and ?y = "ai_extend ai"
  let ?n = "sh_next s" let ?n1 = "?n + shm_ids ?x" let ?n2 = "?n1 + shm_ids ?y"
  have ok3: "shm_ok (Suc (Suc (Suc 0))) s" using ok by (simp add: eval_nat_numeral)
  obtain s1 where s1: "ParcelClientInfo ops e ci io s = Some (Some (puts ops (client_items ci @ parcel_items ?n ?x) io), s1)"
      "shm_added ?x (ci_serverUid ci) s s1"
    using ParcelClientInfo_puts [OF ok3 e d(1), of ops io] by blast
  have ok2: "shm_ok (Suc (Suc 0)) s1" and n1: "sh_next s1 = ?n1"
    using shm_added_ok [OF ok3 s1(2)] shm_added_next [OF s1(2)] by simp_all
  define io1 where "io1 = puts ops (client_items ci @ parcel_items ?n ?x) io"
  obtain s2 where s2: "ParcelAlgorithmInfo ops e ai (ci_serverUid ci) io1 s1 =
        Some (Some (puts ops (algorithm_items ai @ parcel_items ?n1 ?y) io1), s2)"
      "shm_added ?y (ci_serverUid ci) s1 s2"
    using ParcelAlgorithmInfo_puts [OF ok2 e d(2), of ops "ci_serverUid ci" io1] n1 by auto
  have ok1: "shm_ok (Suc 0) s2" and n2: "sh_next s2 = ?n2"
    using shm_added_ok [OF ok2 s2(2)] shm_added_next [OF s2(2)] n1 by simp_all
  define io2 where "io2 = puts ops (algorithm_items ai @ parcel_items ?n1 ?y) io1"
  obtain s3 where s3: "ParcelDataInfo ops e (Some d) (ci_serverUid ci) (Some io2) s2 =
        Some (Some (puts ops (parcel_items ?n2 d) io2), s3)" "shm_added d (ci_serverUid ci) s2 s3"
    using ParcelDataInfo_puts [OF ok1 e d(3), of ops "ci_serverUid ci" io2] n2 by auto
  define io3 where "io3 = puts ops (parcel_items ?n2 d) io2"
  have "io3 = puts ops (message_items ?n ci ai d) io"
    by (simp add: io3_def io2_def io1_def puts_append message_items_def Let_def)
  then have it: "items io3 = client_items ci @ parcel_items ?n ?x @ algorithm_items ai @ parcel_items ?n1 ?y @
      parcel_items ?n2 d @ []"
    using puts_items [OF laws fits] assms(8) by (simp add: message_items_def Let_def)
  have ids: "0 \<le> shm_ids u" for u by (simp add: shm_ids_def)
  have sok: "sm_ok (sh_segs s3)" using shm_added_ok [OF ok1 s3(2)] by (simp add: shm_ok_def)
  have hx: "holds_block ?x ?n s3"
  proof -
    have "holds_block ?x ?n s1" using shm_added_holds [OF s1(2) ok3] .
    then have "holds_block ?x ?n s2"
      by (rule holds_added [OF _ _ s2(2)]) (auto simp: n1 shm_ids_def)
    then show ?thesis by (rule holds_added [OF _ _ s3(2)]) (auto simp: n2 shm_ids_def)
  qed
  have hy: "holds_block ?y ?n1 s3"
  proof -
    have "holds_block ?y ?n1 s2" using shm_added_holds [OF s2(2) ok2] n1 by simp
    then show ?thesis by (rule holds_added [OF _ _ s3(2)]) (auto simp: n2 shm_ids_def)
  qed
  have hz: "holds_block d ?n2 s3" using shm_added_holds [OF s3(2) ok1] n2 by simp
  define t1 where "t1 = shm_taken ?x ?n s3"
  define t2 where "t2 = shm_taken ?y ?n1 t1"
  have sok1: "sm_ok (sh_segs t1)" using shm_taken_ok [OF sok] by (simp add: t1_def)
  have sok2: "sm_ok (sh_segs t2)" using shm_taken_ok [OF sok1] by (simp add: t2_def)
  have hy1: "holds_block ?y ?n1 t1"
    unfolding t1_def by (rule holds_taken' [OF hy sok, where k = 0]) simp_all
  have hz2: "holds_block d ?n2 t2"
  proof -
    have "holds_block d ?n2 t1"
      unfolding t1_def by (rule holds_taken' [OF hz sok, where k = "shm_ids ?y"]) (simp_all add: ids)
    then show ?thesis unfolding t2_def by (rule holds_taken' [OF _ sok1, where k = 0]) simp_all
  qed
  obtain ja where ja: "UnParcelClientInfo ops e (Some io3) (Some ci0) s3 = Some (RETCODE_SUCCESS, Some ci, Some ja, t1)"
      "items ja = algorithm_items ai @ parcel_items ?n1 ?y @ parcel_items ?n2 d @ []"
    using UnParcelClientInfo_gets [OF laws e d(1) hx it] t1_def by blast
  obtain jb where jb: "UnParcelAlgorithmInfo ops e (Some ja) (Some ai0) t1 = Some (RETCODE_SUCCESS, Some ai, Some jb, t2)"
      "items jb = parcel_items ?n2 d @ []"
    using UnParcelAlgorithmInfo_gets [OF laws e d(2) hy1 ja(2)] t2_def by blast
  obtain jc where jc: "UnParcelDataInfo ops e (Some jb) (Some empty_DataInfo) t2 =
      Some (RETCODE_SUCCESS, Some (d, False), Some jc, shm_taken d ?n2 t2)" "items jc = []"
    using UnParcelDataInfo_gets [OF laws e d(3) hz2 jb(2)] by blast
  have "UnParcelInfo ops e (Some io3) (Some ci0) (Some ai0) (Some empty_DataInfo) s3 =
      Some (RETCODE_SUCCESS, Some ci, Some ai, Some (d, False), Some jc, shm_taken d ?n2 t2)"
    using ja(1) jb(1) jc(1) by (simp add: UnParcelInfo_def)
  moreover have "sm_find (sh_segs (shm_taken d ?n2 t2)) i = sm_find (sh_segs s) i" for i
  proof -
    have f: "sm_find (sh_segs (shm_taken d ?n2 t2)) i =
        (if by_shm d \<and> i = ?n2 \<or> by_shm ?y \<and> i = ?n1 \<or> by_shm ?x \<and> i = ?n then None else sm_find (sh_segs s3) i)"
      using sok sok1 sok2 by (simp add: t1_def t2_def shm_taken_find)
    have none: "sm_find (sh_segs s) j = None" if "?n \<le> j" for j
      using ok that by (auto simp: shm_ok_def sm_find_none)
    show ?thesis
    proof (cases "by_shm d \<and> i = ?n2 \<or> by_shm ?y \<and> i = ?n1 \<or> by_shm ?x \<and> i = ?n")
      case True
      then have "?n \<le> i" using ids [of ?x] ids [of ?y] by auto
      then show ?thesis using f True none by simp
    next
      case False
      show ?thesis
      proof -
        have "sm_find (sh_segs s3) i = sm_find (sh_segs s2) i" using shm_added_find [OF s3(2), of i] False n2 by metis
        moreover have "sm_find (sh_segs s2) i = sm_find (sh_segs s1) i" using shm_added_find [OF s2(2), of i] False n1 by metis
        moreover have "sm_find (sh_segs s1) i = sm_find (sh_segs s) i" using shm_added_find [OF s1(2), of i] False by metis
        ultimately show ?thesis using f False by argo
      qed
    qed
  qed
  moreover have "ParcelClientInfo ops e ci io s = Some (Some io1, s1)"
    "ParcelAlgorithmInfo ops e ai (ci_serverUid ci) io1 s1 = Some (Some io2, s2)"
    "ParcelDataInfo ops e (Some d) (ci_serverUid ci) (Some io2) s2 = Some (Some io3, s3)"
    using s1(1) s2(1) s3(1) unfolding io1_def [symmetric] io2_def [symmetric] io3_def [symmetric] .
  moreover have "sm_ok (sh_segs (shm_taken d ?n2 t2))" using shm_taken_ok [OF sok2] .
  moreover have "key_ok (sh_key (shm_taken d ?n2 t2))" "sh_next s \<le> sh_next (shm_taken d ?n2 t2)"
    using shm_added_ok [of 0 s2 d _ s3] ok1 s3(2) shm_added_next [OF s3(2)] n2 ids [of ?x] ids [of ?y] ids [of d]
    by (auto simp: shm_taken_def t1_def t2_def shm_ok_def)
  ultimately show ?thesis using jc(2) by (intro exI conjI allI) assumption+
qed

text \<open>C22. Requests survive the parcelling: what the client's proxy writes for a request - client
  information, algorithm information and input data, each block in the message when it is
  shorter than 200 bytes and in a shared memory segment of the receiver otherwise - the
  server's \<open>UnParcelInfo\<close> reads back as the same three structures, with nothing left in the
  message and all segments of the request released; provided the message library behaves as
  documented and has room, keys are free and the system calls succeed.\<close>

theorem request_roundtrip:
  assumes laws: "ipc_laws ops items room size0" and ok: "shm_ok 3 s" and e: "shm_all e"
    and d: "data_ok (ci_extend ci)" "data_ok (ai_extend ai)" "data_ok d"
    and fits: "sum_list (map size0 (message_items (sh_next s) ci ai d)) \<le> room io" and "items io = []"
  shows "\<exists>io1 s1 io2 s2 io3 s3 io' s'. ParcelClientInfo ops e ci io s = Some (Some io1, s1) \<and>
    ParcelAlgorithmInfo ops e ai (ci_serverUid ci) io1 s1 = Some (Some io2, s2) \<and>
    ParcelDataInfo ops e (Some d) (ci_serverUid ci) (Some io2) s2 = Some (Some io3, s3) \<and>
    UnParcelInfo ops e (Some io3) (Some ci0) (Some ai0) (Some empty_DataInfo) s3 =
      Some (RETCODE_SUCCESS, Some ci, Some ai, Some (d, False), Some io', s') \<and>
    items io' = [] \<and> (\<forall>i. sm_find (sh_segs s') i = sm_find (sh_segs s) i)"
  using request_transfer [OF assms, of ci0 ai0] by blast

text \<open>A message library that behaves as documented: a list of items, up to 100 of them.\<close>

definition list_ipc :: "io_item list ipc_ops" where
  "list_ipc = \<lparr>io_WriteInt32 = \<lambda>x io. io @ [Int32 x], io_WriteUint32 = \<lambda>x io. io @ [Uint32 x],
     io_WriteInt64 = \<lambda>x io. io @ [Int64 x], io_WriteBool = \<lambda>x io. io @ [Bool x],
     io_WriteBuffer = \<lambda>x io. io @ [Buffer x], io_WriteString = \<lambda>x io. io, io_WriteRemote = \<lambda>x io. (True, io),
     io_ReadInt32 = \<lambda>io. (case io of Int32 x # r \<Rightarrow> (Some x, r) | _ \<Rightarrow> (None, io)),
     io_ReadUint32 = \<lambda>io. (case io of Uint32 x # r \<Rightarrow> (Some x, r) | _ \<Rightarrow> (None, io)),
     io_ReadInt64 = \<lambda>io. (case io of Int64 x # r \<Rightarrow> (Some x, r) | _ \<Rightarrow> (None, io)),
     io_ReadBool = \<lambda>io. (case io of Bool x # r \<Rightarrow> (Some x, r) | _ \<Rightarrow> (None, io)),
     io_ReadBuffer = \<lambda>n io. (case io of Buffer x # r \<Rightarrow> if int (length x) = n then (Some x, r) else (None, io) | _ \<Rightarrow> (None, io)),
     io_ReadString = \<lambda>io. (None, io), io_ReadRemote = \<lambda>io. (Some 0, io)\<rparr>"

lemma list_ipc_laws: "ipc_laws list_ipc (\<lambda>io. io) (\<lambda>io. 100 - length io) (\<lambda>_. 1)"
  by (auto simp: ipc_laws_def write_law_def read_law_def list_ipc_def)

definition demo_client :: ClientInfo where
  "demo_client = \<lparr>ci_clientVersion = 1, ci_clientId = 3, ci_sessionId = 4, ci_serverUid = 1000, ci_clientUid = 2000,
     ci_extend = empty_DataInfo\<rparr>"

definition demo_algorithm :: AlgorithmInfo where
  "demo_algorithm = \<lparr>ai_clientVersion = 1, ai_isAsync = True, ai_algorithmType = 3, ai_algorithmVersion = 20001001,
     ai_isCloud = False, ai_operateId = 7, ai_requestId = 8, ai_extend = \<lparr>di_data = Some [1, 2], di_length = 2\<rparr>\<rparr>"

definition demo_block :: DataInfo where
  "demo_block = \<lparr>di_data = Some (replicate 300 5), di_length = 300\<rparr>"

lemma shm_start_ok: "shm_ok 3 shm_start" "shm_all shm_good"
  by (simp_all add: shm_ok_def shm_start_def key_ok_def shm_all_def shm_good_def)

theorem request_roundtrip_witness:
  "\<exists>io3 s3 io' s'. UnParcelInfo list_ipc shm_good (Some io3) (Some demo_client) (Some demo_algorithm) (Some empty_DataInfo) s3 =
      Some (RETCODE_SUCCESS, Some demo_client, Some demo_algorithm, Some (demo_block, False), Some io', s') \<and> io' = []"
proof -
  have d: "data_ok (ci_extend demo_client)" "data_ok (ai_extend demo_algorithm)" "data_ok demo_block"
    by (simp_all add: data_ok_def demo_client_def demo_algorithm_def demo_block_def)
  have f: "sum_list (map (\<lambda>_. 1) (message_items (sh_next shm_start) demo_client demo_algorithm demo_block)) \<le> 100 - length ([] :: io_item list)"
    by (simp add: message_items_def client_items_def algorithm_items_def parcel_items_def demo_client_def
        demo_algorithm_def demo_block_def Let_def by_shm_def)
  show ?thesis
    using request_roundtrip [OF list_ipc_laws shm_start_ok d, of "[]" demo_client demo_algorithm] f by blast
qed

section \<open>Blocks that are not sent as they are\<close>

text \<open>C23. Where the two sides disagree. A block longer than 1 MB is accepted by the sender, and the
  receiver refuses it - although its segment holds it - and releases the segment.\<close>

theorem long_block_refused:
  assumes laws: "ipc_laws ops items room size0" and ok: "shm_ok 3 s" and e: "shm_all e"
    and d: "di_data d = Some bs" "di_length d = int (length bs)" "di_length d > MAX_SHM_DATA_SIZE"
    and fits: "sum_list (map size0 (parcel_items (sh_next s) d)) \<le> room io" and "items io = []"
  shows "\<exists>io1 s1 io2 s2. ParcelDataInfo ops e (Some d) uid (Some io) s = Some (Some io1, s1) \<and>
    (\<exists>g. sm_find (sh_segs s1) (sh_next s) = Some g \<and> sg_bytes g = bs) \<and>
    UnParcelDataInfo ops e (Some io1) (Some empty_DataInfo) s1 =
      Some (RETCODE_FAILURE, Some (\<lparr>di_data = None, di_length = di_length d\<rparr>, False), Some io2, s2) \<and>
    sm_find (sh_segs s2) (sh_next s) = None"
proof -
  have bs: "bs \<noteq> []" and sh: "by_shm d" using d by (auto simp: by_shm_def)
  have ok1: "shm_ok (Suc 2) s" using ok by (simp add: eval_nat_numeral)
  obtain s1 where s1: "IpcIoPushSharedMemory ops e d uid (io_WriteInt32 ops (di_length d) io) s =
      Some (puts ops [Int32 (sh_next s), Int32 (di_length d)] (io_WriteInt32 ops (di_length d) io), s1)"
      "shm_added d uid s s1"
    using PushSharedMemory_added [OF ok1 e d(1) bs d(2) sh, of ops uid "io_WriteInt32 ops (di_length d) io"] by blast
  define io1 where "io1 = puts ops (parcel_items (sh_next s) d) io"
  have p: "ParcelDataInfo ops e (Some d) uid (Some io) s = Some (Some io1, s1)"
    using s1(1) d bs sh by (simp add: ParcelDataInfo_def by_shm_def io1_def parcel_items_def)
  obtain g where g: "sm_find (sh_segs s1) (sh_next s) = Some g" "sg_bytes g = bs"
    using s1(2) sh d(1) by (auto simp: shm_added_def sm_find_put)
  have sok: "sm_ok (sh_segs s1)" using shm_added_ok [OF ok1 s1(2)] by (simp add: shm_ok_def)
  have "items io1 = [Int32 (di_length d), Int32 (sh_next s), Int32 (di_length d)]"
    using puts_items [OF laws fits] assms(8) d(1) sh by (simp add: io1_def parcel_items_def)
  then obtain ja where ja: "io_ReadInt32 ops io1 = (Some (di_length d), ja)"
      "items ja = [Int32 (sh_next s), Int32 (di_length d)]"
    using reads(1) [OF laws] by blast
  then obtain jb where jb: "io_ReadInt32 ops ja = (Some (sh_next s), jb)" "items jb = [Int32 (di_length d)]"
    using reads(1) [OF laws] by blast
  then obtain jc where jc: "io_ReadInt32 ops jb = (Some (di_length d), jc)" using reads(1) [OF laws] by blast
  have n: "0 \<le> sh_next s" using ok by (simp add: shm_ok_def)
  have "IpcIoPopSharedMemory ops e \<lparr>di_data = None, di_length = di_length d\<rparr> ja s1 =
      Some (RETCODE_FAILURE, (\<lparr>di_data = None, di_length = di_length d\<rparr>, False), jc, ReleaseShmId e (sh_next s) s1)"
    using jb(1) jc d(3) n by (simp add: IpcIoPopSharedMemory_def)
  then have "UnParcelDataInfo ops e (Some io1) (Some empty_DataInfo) s1 =
      Some (RETCODE_FAILURE, Some (\<lparr>di_data = None, di_length = di_length d\<rparr>, False), Some jc, ReleaseShmId e (sh_next s) s1)"
    using ja(1) d(3) by (simp add: UnParcelDataInfo_def)
  moreover have "sm_find (sh_segs (ReleaseShmId e (sh_next s) s1)) (sh_next s) = None"
    using e n sok by (simp add: ReleaseShmId_def shm_all_def sm_find_erase)
  ultimately show ?thesis using p g by blast
qed

theorem long_block_refused_witness:
  "\<exists>io1 s1 io2 s2. UnParcelDataInfo list_ipc shm_good (Some io1) (Some empty_DataInfo) s1 =
      Some (RETCODE_FAILURE, Some (\<lparr>di_data = None, di_length = 1048577\<rparr>, False), Some io2, s2)"
proof -
  let ?bs = "replicate 1048577 (0 :: byte)"
  let ?d = "\<lparr>di_data = Some ?bs, di_length = 1048577\<rparr>"
  have d: "di_data ?d = Some ?bs" "di_length ?d = int (length ?bs)" "di_length ?d > MAX_SHM_DATA_SIZE" by simp_all
  have f: "sum_list (map (\<lambda>_. 1) (parcel_items (sh_next shm_start) ?d)) \<le> 100 - length ([] :: io_item list)"
    by (simp add: parcel_items_def by_shm_def)
  from long_block_refused [OF list_ipc_laws shm_start_ok d, of "[]" 0] f show ?thesis by fastforce
qed

end
