(* ===== verification/ServerAdapter.thy ===== *)
theory ServerAdapter
  imports ServerExecutor Ipc
begin

text \<open>
  The server's side of the communication (services/server/communication_adapter): the adapter
  of a client with its transactions (sa_server_adapter.cpp), the table of clients and the
  wrappers behind the service functions (adapter_wrapper.cpp), and the delivery of
  asynchronous responses (sa_async_handler.cpp, client_listener_handler.cpp,
  future_listener.cpp). Adapters, listener handlers, workers and listeners are objects in
  stores; using one that was deleted is \<open>None\<close>. The server executor's state is a part of the
  state; what is allocated successfully is the environment \<open>senv\<close>.
\<close>

section \<open>State\<close>

text \<open>A \<open>SvcIdentity\<close> is a number; 0 is the empty one. A set is an ordered map to \<open>()\<close>. The count is
  an atomic \<open>int\<close> of the code, which wraps.\<close>

record SaServerAdapter =
  ad_adapterId :: int
  ad_refCount :: "32 word"
  ad_svcIdentity :: nat
  ad_transactionIds :: "(int \<times> unit) list"

definition SaServerAdapter_new :: "int \<Rightarrow> SaServerAdapter" where
  "SaServerAdapter_new adapterId =
     \<lparr>ad_adapterId = adapterId, ad_refCount = 0, ad_svcIdentity = 0, ad_transactionIds = []\<rparr>"

record ClientListenerHandler =
  cl_event :: Event
  cl_responses :: "Response list"
  cl_thread :: "nat option"
  cl_worker :: "nat option"

definition ClientListenerHandler_new :: ClientListenerHandler where
  "ClientListenerHandler_new =
     \<lparr>cl_event = Event_MakeShared, cl_responses = [], cl_thread = None, cl_worker = None\<rparr>"

text \<open>What the destructor destroys.\<close>

definition ClientListenerHandler_dtor :: "ClientListenerHandler \<Rightarrow> Response list" where
  "ClientListenerHandler_dtor h = cl_responses h"

record AsyncProcessWorker =
  aw_handler :: nat
  aw_clientId :: int
  aw_adapter :: nat

text \<open>\<open>fl_handler\<close>: whether the listener still has its \<open>SaAsyncHandler\<close>.\<close>

record FutureListener =
  fl_handler :: bool
  fl_clientId :: int

definition FutureListener_new :: "int \<Rightarrow> FutureListener" where
  "FutureListener_new clientId = \<lparr>fl_handler = True, fl_clientId = clientId\<rparr>"

text \<open>
  \<open>sv_executor\<close> is the executor's instance (whether its manager exists), \<open>sv_async\<close> whether the
  \<open>SaAsyncHandler\<close> exists; the next two groups are the globals of adapter_wrapper.cpp and the
  members of \<open>SaAsyncHandler\<close>.
\<close>

record 'p server =
  sv_exec :: "'p exec"
  sv_executor :: "bool option"
  sv_saServerAdapters :: "(int \<times> nat) list"
  sv_clientIdAtomic :: int
  sv_async :: bool
  sv_clients :: "(int \<times> nat) list"
  sv_transactions :: "(int \<times> unit) list"
  sv_adapters :: "nat \<Rightarrow> SaServerAdapter option"
  sv_handlers :: "nat \<Rightarrow> ClientListenerHandler option"
  sv_workers :: "nat \<Rightarrow> AsyncProcessWorker option"
  sv_listeners :: "nat \<Rightarrow> FutureListener option"
  sv_next :: nat

definition server_init :: "(nat \<Rightarrow> 'p) \<Rightarrow> 'p server" where
  "server_init algs = \<lparr>sv_exec = exec_init algs, sv_executor = None, sv_saServerAdapters = [],
     sv_clientIdAtomic = 0, sv_async = False, sv_clients = [], sv_transactions = [], sv_adapters = (\<lambda>_. None),
     sv_handlers = (\<lambda>_. None), sv_workers = (\<lambda>_. None), sv_listeners = (\<lambda>_. None), sv_next = 0\<rparr>"

record senv =
  sn_x :: xenv
  sn_pool :: bool
  sn_executor :: bool
  sn_manager :: bool
  sn_adapter :: bool
  sn_async :: bool
  sn_handler :: bool
  sn_listener :: bool
  sn_worker :: bool
  sn_request :: bool

definition upd_exec :: "'p exec \<Rightarrow> 'p server \<Rightarrow> 'p server" where
  "upd_exec x st = st\<lparr>sv_exec := x\<rparr>"

text \<open>\<open>GetEngineManager\<close>, \<open>GetSyncTaskManager\<close> and \<open>GetAsyncTaskManager\<close> are the executor's instance.\<close>

definition GetEngineManager :: "senv \<Rightarrow> 'p server \<Rightarrow> bool option \<times> 'p server" where
  "GetEngineManager e st =
     (let i = ServerExecutor_GetInstance (sn_executor e) (sn_manager e) (sv_executor st) in
      (i, st\<lparr>sv_executor := i\<rparr>))"

section \<open>The adapter of a client\<close>

abbreviation (input) TRANS_ID_MASK1 :: int where "TRANS_ID_MASK1 \<equiv> 2 ^ 32"
abbreviation (input) ADAPT_ID_BIT :: nat where "ADAPT_ID_BIT \<equiv> 32"

text \<open>The mask keeps the low 32 bits.\<close>

definition GetSessionId :: "int \<Rightarrow> int" where
  "GetSessionId transactionId = swrap 32 ((transactionId mod 2 ^ 64) mod TRANS_ID_MASK1)"

definition GetAdapterId :: "SaServerAdapter \<Rightarrow> int" where
  "GetAdapterId ad = ad_adapterId ad"

definition IncRef :: "SaServerAdapter \<Rightarrow> SaServerAdapter" where
  "IncRef ad = ad\<lparr>ad_refCount := ad_refCount ad + 1\<rparr>"

definition DecRef :: "SaServerAdapter \<Rightarrow> SaServerAdapter" where
  "DecRef ad = ad\<lparr>ad_refCount := ad_refCount ad - 1\<rparr>"

definition GetRefCount :: "SaServerAdapter \<Rightarrow> int" where
  "GetRefCount ad = sint (ad_refCount ad)"

definition GetTransactionId :: "int \<Rightarrow> SaServerAdapter \<Rightarrow> int" where
  "GetTransactionId sessionId ad =
     swrap 64 ((ad_adapterId ad mod 2 ^ 64) * 2 ^ ADAPT_ID_BIT mod 2 ^ 64) + sessionId"

definition SaveEngineListener :: "nat \<Rightarrow> SaServerAdapter \<Rightarrow> SaServerAdapter" where
  "SaveEngineListener svcIdentity ad = ad\<lparr>ad_svcIdentity := svcIdentity\<rparr>"

text \<open>\<open>ReleaseSvc\<close> tells the IPC library; the member keeps its value.\<close>

definition ClearEngineListener :: "SaServerAdapter \<Rightarrow> SaServerAdapter" where
  "ClearEngineListener ad = ad"

definition GetEngineListener :: "SaServerAdapter \<Rightarrow> nat" where
  "GetEngineListener ad = ad_svcIdentity ad"

definition SaveTransaction :: "int \<Rightarrow> SaServerAdapter \<Rightarrow> SaServerAdapter" where
  "SaveTransaction transactionId ad = ad\<lparr>ad_transactionIds := sm_put transactionId () (ad_transactionIds ad)\<rparr>"

definition RemoveTransaction :: "int \<Rightarrow> SaServerAdapter \<Rightarrow> SaServerAdapter" where
  "RemoveTransaction transactionId ad = ad\<lparr>ad_transactionIds := sm_erase transactionId (ad_transactionIds ad)\<rparr>"

definition upd_adapter :: "nat \<Rightarrow> (SaServerAdapter \<Rightarrow> SaServerAdapter) \<Rightarrow> 'p server \<Rightarrow> 'p server option" where
  "upd_adapter a f st =
     (case sv_adapters st a of
        None \<Rightarrow> None
      | Some ad \<Rightarrow> Some (st\<lparr>sv_adapters := (sv_adapters st)(a \<mapsto> f ad)\<rparr>))"

fun stop_engines :: "'p plug_ops \<Rightarrow> xenv \<Rightarrow> bool \<Rightarrow> int list \<Rightarrow> 'p exec \<Rightarrow> 'p exec option" where
  "stop_engines ops e mgr [] x = Some x"
| "stop_engines ops e mgr (t # ts) x =
     do { (r, x1) \<leftarrow> SE_StopEngine ops e mgr t empty_DataInfo x; stop_engines ops e mgr ts x1 }"

definition SaServerAdapter_Uninitialize :: "'p plug_ops \<Rightarrow> senv \<Rightarrow> nat \<Rightarrow> 'p server \<Rightarrow> 'p server option" where
  "SaServerAdapter_Uninitialize ops e a st =
     (case GetEngineManager e st of
        (None, st1) \<Rightarrow> Some st1
      | (Some mgr, st1) \<Rightarrow>
          do {
            ad \<leftarrow> sv_adapters st1 a;
            x \<leftarrow> stop_engines ops (sn_x e) mgr (map fst (ad_transactionIds ad)) (sv_exec st1);
            upd_adapter a (\<lambda>ad. ad\<lparr>ad_transactionIds := []\<rparr>) (upd_exec x st1)
          })"

text \<open>The destructor, after which the object is gone.\<close>

definition SaServerAdapter_dtor :: "'p plug_ops \<Rightarrow> senv \<Rightarrow> nat \<Rightarrow> 'p server \<Rightarrow> 'p server option" where
  "SaServerAdapter_dtor ops e a st =
     do { st1 \<leftarrow> SaServerAdapter_Uninitialize ops e a st;
          Some (st1\<lparr>sv_adapters := (sv_adapters st1)(a := None)\<rparr>) }"

definition ConvertToRequest ::
  "bool \<Rightarrow> SaServerAdapter \<Rightarrow> ClientInfo \<Rightarrow> AlgorithmInfo \<Rightarrow> DataInfo \<Rightarrow> Request option" where
  "ConvertToRequest alloc ad clientInfo algoInfo inputInfo =
     (if \<not> alloc then None
      else Some (Request_SetClientUid (ci_clientUid clientInfo)
             (Request_SetMsg inputInfo
               (Request_SetAlgoPluginType (ai_algorithmType algoInfo)
                 (Request_SetTransactionId (GetTransactionId (ci_sessionId clientInfo) ad)
                   (Request_SetOperationId (ai_operateId algoInfo)
                     (Request_SetRequestId (ai_requestId algoInfo) Request_new)))))))"

definition SA_AsyncExecute ::
  "senv \<Rightarrow> nat \<Rightarrow> ClientInfo \<Rightarrow> AlgorithmInfo \<Rightarrow> DataInfo \<Rightarrow> 'p server \<Rightarrow> (retcode \<times> 'p server) option" where
  "SA_AsyncExecute e a clientInfo algoInfo inputInfo st =
     do {
       ad \<leftarrow> sv_adapters st a;
       let request = ConvertToRequest (sn_request e) ad clientInfo algoInfo inputInfo;
       case GetEngineManager e st of
         (None, st1) \<Rightarrow> Some (RETCODE_OUT_OF_MEMORY, st1)
       | (Some mgr, st1) \<Rightarrow>
           do { (ret, x) \<leftarrow> SE_AsyncExecute (sn_x e) mgr request (sv_exec st1); Some (ret, upd_exec x st1) }
     }"

definition SA_LoadAlgorithm ::
  "'p plug_ops \<Rightarrow> senv \<Rightarrow> nat \<Rightarrow> int \<Rightarrow> AlgorithmInfo \<Rightarrow> DataInfo \<Rightarrow> DataInfo \<Rightarrow> 'p server \<Rightarrow>
   (retcode \<times> DataInfo \<times> 'p server) option" where
  "SA_LoadAlgorithm ops e a transactionId algoInfo inputInfo outputInfo st =
     (case GetEngineManager e st of
        (None, st1) \<Rightarrow> Some (RETCODE_OUT_OF_MEMORY, outputInfo, st1)
      | (Some mgr, st1) \<Rightarrow>
          do {
            (retCode, out, x) \<leftarrow> SE_StartEngine ops (sn_x e) mgr transactionId algoInfo inputInfo outputInfo (sv_exec st1);
            let st2 = upd_exec x st1;
            if retCode \<noteq> RETCODE_SUCCESS then Some (retCode, out, st2)
            else do { st3 \<leftarrow> upd_adapter a (SaveTransaction transactionId) st2; Some (RETCODE_SUCCESS, out, st3) }
          })"

definition SA_SetOption ::
  "'p plug_ops \<Rightarrow> senv \<Rightarrow> int \<Rightarrow> int \<Rightarrow> DataInfo \<Rightarrow> 'p server \<Rightarrow> (retcode \<times> 'p server) option" where
  "SA_SetOption ops e transactionId optionType dataInfo st =
     (case GetEngineManager e st of
        (None, st1) \<Rightarrow> Some (RETCODE_OUT_OF_MEMORY, st1)
      | (Some mgr, st1) \<Rightarrow>
          do { (r, x) \<leftarrow> SE_SetOption ops mgr transactionId optionType dataInfo (sv_exec st1); Some (r, upd_exec x st1) })"

definition SA_GetOption ::
  "'p plug_ops \<Rightarrow> senv \<Rightarrow> int \<Rightarrow> int \<Rightarrow> DataInfo \<Rightarrow> DataInfo \<Rightarrow> 'p server \<Rightarrow>
   (retcode \<times> DataInfo \<times> 'p server) option" where
  "SA_GetOption ops e transactionId optionType dataInfo outputInfo st =
     (case GetEngineManager e st of
        (None, st1) \<Rightarrow> Some (RETCODE_OUT_OF_MEMORY, outputInfo, st1)
      | (Some mgr, st1) \<Rightarrow>
          do { (r, out, x) \<leftarrow> SE_GetOption ops mgr transactionId optionType dataInfo outputInfo (sv_exec st1);
               Some (r, out, upd_exec x st1) })"

definition SA_UnloadAlgorithm ::
  "'p plug_ops \<Rightarrow> senv \<Rightarrow> nat \<Rightarrow> int \<Rightarrow> DataInfo \<Rightarrow> 'p server \<Rightarrow> (retcode \<times> 'p server) option" where
  "SA_UnloadAlgorithm ops e a transactionId inputInfo st =
     (case GetEngineManager e st of
        (None, st1) \<Rightarrow> Some (RETCODE_OUT_OF_MEMORY, st1)
      | (Some mgr, st1) \<Rightarrow>
          do {
            (retCode, x) \<leftarrow> SE_StopEngine ops (sn_x e) mgr transactionId inputInfo (sv_exec st1);
            let st2 = upd_exec x st1;
            if retCode \<noteq> RETCODE_SUCCESS then Some (retCode, st2)
            else do { st3 \<leftarrow> upd_adapter a (RemoveTransaction transactionId) st2; Some (RETCODE_SUCCESS, st3) }
          })"

text \<open>
  Synchronous execution up to the wait (\<open>Inl\<close>: it returned, \<open>Inr\<close>: the notifier it waits on)
  and from the wait on; the output starts null.
\<close>

definition SA_SyncExecute_send ::
  "senv \<Rightarrow> nat \<Rightarrow> ClientInfo \<Rightarrow> AlgorithmInfo \<Rightarrow> DataInfo \<Rightarrow> 'p server \<Rightarrow>
   ((retcode + nat) \<times> 'p server) option" where
  "SA_SyncExecute_send e a clientInfo algoInfo inputInfo st =
     do {
       ad \<leftarrow> sv_adapters st a;
       case ConvertToRequest (sn_request e) ad clientInfo algoInfo inputInfo of
         None \<Rightarrow> Some (Inl RETCODE_OUT_OF_MEMORY, st)
       | Some request \<Rightarrow>
           (case GetEngineManager e st of
              (None, st1) \<Rightarrow> Some (Inl RETCODE_OUT_OF_MEMORY, st1)
            | (Some mgr, st1) \<Rightarrow>
                do { (r, x) \<leftarrow> SE_SyncExecute_send mgr (Some request) (sv_exec st1); Some (r, upd_exec x st1) })
     }"

definition SA_SyncExecute_receive :: "senv \<Rightarrow> nat \<Rightarrow> 'p server \<Rightarrow> (retcode \<times> DataInfo \<times> 'p server) option" where
  "SA_SyncExecute_receive e n st =
     do {
       (retCode, response, x) \<leftarrow> SE_SyncExecute_receive (sn_x e) n (sv_exec st);
       let st1 = upd_exec x st;
       case response of
         None \<Rightarrow> Some (retCode, empty_DataInfo, st1)
       | Some res \<Rightarrow>
           if retCode \<noteq> RETCODE_SUCCESS then Some (retCode, empty_DataInfo, st1)
           else Some (RETCODE_SUCCESS, Response_GetResult res, st1)
     }"

section \<open>Records of responses to deliver\<close>

abbreviation (input) EVENT_WAIT_TIME_MS :: int where "EVENT_WAIT_TIME_MS \<equiv> 1000"

definition AddCallbackRecord :: "Response \<Rightarrow> ClientListenerHandler \<Rightarrow> ClientListenerHandler" where
  "AddCallbackRecord response h =
     (let empty = (cl_responses h = []);
          h1 = h\<lparr>cl_responses := cl_responses h @ [response]\<rparr> in
      if \<not> empty then h1 else h1\<lparr>cl_event := snd (Event_Signal (cl_event h1))\<rparr>)"

text \<open>Taking the first record, and blocking again when it was the last.\<close>

definition pop_record :: "ClientListenerHandler \<Rightarrow> Response option \<times> ClientListenerHandler" where
  "pop_record h =
     (case cl_responses h of
        [] \<Rightarrow> (None, h)
      | r # rs \<Rightarrow>
          (let h1 = h\<lparr>cl_responses := rs\<rparr> in
           (Some r, if rs = [] then h1\<lparr>cl_event := snd (Event_Reset (cl_event h1))\<rparr> else h1)))"

text \<open>
  \<open>added\<close> are the records added while the call waits; \<open>None\<close>: it still waits (nothing came and
  the time is not over).
\<close>

definition FetchCallbackRecord ::
  "bool \<Rightarrow> Response list \<Rightarrow> ClientListenerHandler \<Rightarrow> (Response option \<times> ClientListenerHandler) option" where
  "FetchCallbackRecord timed_out added h =
     (if cl_responses h \<noteq> [] then Some (pop_record h)
      else (let h1 = fold AddCallbackRecord added h in
            case Event_Wait EVENT_WAIT_TIME_MS timed_out (cl_event h1) of
              None \<Rightarrow> None
            | Some ok \<Rightarrow>
                if ok \<and> cl_responses h1 \<noteq> [] then Some (pop_record h1) else Some (None, h1)))"

section \<open>Listener threads\<close>

definition upd_handler ::
  "nat \<Rightarrow> (ClientListenerHandler \<Rightarrow> ClientListenerHandler) \<Rightarrow> 'p server \<Rightarrow> 'p server option" where
  "upd_handler h f st =
     (case sv_handlers st h of
        None \<Rightarrow> None
      | Some x \<Rightarrow> Some (st\<lparr>sv_handlers := (sv_handlers st)(h \<mapsto> f x)\<rparr>))"

definition set_tsys :: "tsys \<Rightarrow> 'p server \<Rightarrow> 'p server" where
  "set_tsys s st = upd_exec ((sv_exec st)\<lparr>ex_tp := (ex_tp (sv_exec st))\<lparr>tp_heap := ts_threads s\<rparr>,
     ex_workers := ts_workers s\<rparr>) st"

definition stop_thread :: "xenv \<Rightarrow> nat \<Rightarrow> 'p exec \<Rightarrow> 'p exec option" where
  "stop_thread e ta x =
     do {
       t \<leftarrow> tp_heap (ex_tp x) ta;
       t1 \<leftarrow> Thread_StopThread (xe_alive e) (xe_ends e) t;
       Some (x\<lparr>ex_tp := (ex_tp x)\<lparr>tp_heap := (tp_heap (ex_tp x))(ta \<mapsto> t1)\<rparr>\<rparr>)
     }"

definition delete_worker :: "nat \<Rightarrow> 'p server \<Rightarrow> 'p server" where
  "delete_worker w st =
     upd_exec ((sv_exec st)\<lparr>ex_workers := (ex_workers (sv_exec st))(w := None)\<rparr>)
       (st\<lparr>sv_workers := (sv_workers st)(w := None)\<rparr>)"

definition StartAsyncProcessThread ::
  "senv \<Rightarrow> nat \<Rightarrow> int \<Rightarrow> nat \<Rightarrow> 'p server \<Rightarrow> (retcode \<times> 'p server) option" where
  "StartAsyncProcessThread e h clientId adapter st =
     do {
       hd \<leftarrow> sv_handlers st h;
       if \<not> sn_pool e then Some (RETCODE_OUT_OF_MEMORY, st)
       else if cl_thread hd \<noteq> None then Some (RETCODE_ASYNC_CB_STARTED, st)
       else if cl_worker hd \<noteq> None then Some (RETCODE_ASYNC_CB_STARTED, st)
       else (let (tao, tp') = ThreadPool_Pop (xe_new_thread (sn_x e)) (ex_tp (sv_exec st));
                 st1 = upd_exec ((sv_exec st)\<lparr>ex_tp := tp'\<rparr>) st in
             case tao of
               None \<Rightarrow> Some (RETCODE_OUT_OF_MEMORY, st1)
             | Some ta \<Rightarrow>
                 if \<not> sn_worker e then
                   do { tp2 \<leftarrow> ThreadPool_Push (xe_alive (sn_x e), xe_ends (sn_x e)) ta tp';
                        Some (RETCODE_OUT_OF_MEMORY, upd_exec ((sv_exec st1)\<lparr>ex_tp := tp2\<rparr>) st1) }
                 else do {
                   let w = ex_next (sv_exec st1);
                   let st2 = upd_exec ((sv_exec st1)\<lparr>ex_workers := (ex_workers (sv_exec st1))(w \<mapsto> IWorker_new),
                                                    ex_next := Suc w\<rparr>) st1;
                   let st3 = st2\<lparr>sv_workers := (sv_workers st2)
                       (w \<mapsto> \<lparr>aw_handler = h, aw_clientId = clientId, aw_adapter = adapter\<rparr>)\<rparr>;
                   (ok, s) \<leftarrow> Thread_StartThread (xe_create (sn_x e)) ta (Some w)
                      \<lparr>ts_threads = tp_heap (ex_tp (sv_exec st3)), ts_workers = ex_workers (sv_exec st3)\<rparr>;
                   let st4 = set_tsys s st3;
                   if \<not> ok then
                     do { tp2 \<leftarrow> ThreadPool_Push (xe_alive (sn_x e), xe_ends (sn_x e)) ta (ex_tp (sv_exec st4));
                          Some (RETCODE_START_THREAD_FAILED,
                            delete_worker w (upd_exec ((sv_exec st4)\<lparr>ex_tp := tp2\<rparr>) st4)) }
                   else do {
                     st5 \<leftarrow> upd_handler h (\<lambda>x. x\<lparr>cl_thread := Some ta, cl_worker := Some w\<rparr>) st4;
                     Some (RETCODE_SUCCESS, st5)
                   }
                 })
     }"

text \<open>Without the pool it returns before the worker is deleted.\<close>

definition StopAsyncProcessThread :: "senv \<Rightarrow> nat \<Rightarrow> 'p server \<Rightarrow> 'p server option" where
  "StopAsyncProcessThread e h st =
     do {
       hd \<leftarrow> sv_handlers st h;
       (returned, st1) \<leftarrow> (case cl_thread hd of
           None \<Rightarrow> Some (False, st)
         | Some ta \<Rightarrow> do {
             x \<leftarrow> stop_thread (sn_x e) ta (sv_exec st);
             if \<not> sn_pool e then Some (True, upd_exec x st)
             else do {
               tp' \<leftarrow> ThreadPool_Push (xe_alive (sn_x e), xe_ends (sn_x e)) ta (ex_tp x);
               st' \<leftarrow> upd_handler h (\<lambda>x. x\<lparr>cl_thread := None\<rparr>) (upd_exec (x\<lparr>ex_tp := tp'\<rparr>) st);
               Some (False, st')
             }
           });
       if returned then Some st1
       else case cl_worker hd of
           None \<Rightarrow> Some st1
         | Some w \<Rightarrow> upd_handler h (\<lambda>x. x\<lparr>cl_worker := None\<rparr>) (delete_worker w st1)
     }"

section \<open>Transaction ids\<close>

definition int32 :: "int \<Rightarrow> bool" where
  "int32 x \<longleftrightarrow> - (2 ^ 31) \<le> x \<and> x < 2 ^ 31"

text \<open>The ids the server gives to its clients.\<close>

definition client_id_ok :: "int \<Rightarrow> bool" where
  "client_id_ok i \<longleftrightarrow> 1 \<le> i \<and> i < 2 ^ 31"

lemma GetTransactionId_sum:
  assumes "client_id_ok (ad_adapterId ad)"
  shows "GetTransactionId s ad = ad_adapterId ad * 2 ^ 32 + s"
  using assms by (simp add: GetTransactionId_def client_id_ok_def swrap_def)

lemma transaction_session:
  assumes "client_id_ok (ad_adapterId ad)" and "int32 s"
  shows "GetSessionId (GetTransactionId s ad) = s"
proof -
  have "(ad_adapterId ad * 2 ^ 32 + s) mod 2 ^ 64 mod 2 ^ 32 = s mod 2 ^ 32"
    by (simp add: mod_mod_cancel)
  moreover have "swrap 32 (s mod 2 ^ 32) = s"
    using assms(2) by (simp add: swrap_def int32_def mod_simps)
  ultimately show ?thesis using GetTransactionId_sum [OF assms(1)] by (simp add: GetSessionId_def)
qed

text \<open>C24. Transaction ids, for the ids the server gives out and all 32-bit session ids, also
  negative ones: a transaction id is a 64-bit number, the session id is read back from it,
  and two transactions have the same id only if client and session are the same.\<close>

theorem transaction_ids_unique:
  assumes "client_id_ok (ad_adapterId ad)" and "client_id_ok (ad_adapterId ad')"
    and "int32 s" and "int32 s'"
  shows "- (2 ^ 63) \<le> GetTransactionId s ad \<and> GetTransactionId s ad < 2 ^ 63 \<and>
    GetSessionId (GetTransactionId s ad) = s \<and>
    (GetTransactionId s ad = GetTransactionId s' ad' \<longleftrightarrow> ad_adapterId ad = ad_adapterId ad' \<and> s = s')"
proof -
  let ?a = "ad_adapterId ad" and ?b = "ad_adapterId ad'"
  have eq: "GetTransactionId s ad = ?a * 2 ^ 32 + s" "GetTransactionId s' ad' = ?b * 2 ^ 32 + s'"
    using GetTransactionId_sum assms(1,2) by blast+
  have r: "1 \<le> ?a" "?a < 2 ^ 31" "- (2 ^ 31) \<le> s" "s < 2 ^ 31" "- (2 ^ 31) \<le> s'" "s' < 2 ^ 31"
    using assms by (simp_all add: client_id_ok_def int32_def)
  have session: "GetSessionId (GetTransactionId s ad) = s" using transaction_session assms(1,3) .
  have "?a = ?b \<and> s = s'" if "?a * 2 ^ 32 + s = ?b * 2 ^ 32 + s'"
  proof -
    have "?a = ?b" using that r by simp
    then show ?thesis using that by simp
  qed
  then show ?thesis using eq session r by auto
qed

theorem transaction_ids_unique_witness:
  "GetTransactionId (- 1) (SaServerAdapter_new 7) = 30064771071 \<and> GetSessionId 30064771071 = - 1"
  using transaction_ids_unique [of "SaServerAdapter_new 7" "SaServerAdapter_new 7" "- 1" "- 1"]
  by (simp add: SaServerAdapter_new_def client_id_ok_def int32_def GetTransactionId_def swrap_def)

section \<open>The records are a queue\<close>

text \<open>One use of a handler's records: a record is added, or the listener thread fetches one.\<close>

datatype record_use = Add Response | Fetch bool "Response list"

primrec run_records ::
  "record_use list \<Rightarrow> ClientListenerHandler \<Rightarrow> (Response option list \<times> ClientListenerHandler) option" where
  "run_records [] h = Some ([], h)"
| "run_records (u # us) h =
     (case u of
        Add r \<Rightarrow> run_records us (AddCallbackRecord r h)
      | Fetch timed_out added \<Rightarrow> do {
          (r, h1) \<leftarrow> FetchCallbackRecord timed_out added h;
          (rs, h2) \<leftarrow> run_records us h1;
          Some (r # rs, h2)
        })"

text \<open>The specification: a first-in first-out queue, whose reader waits when it is empty.\<close>

definition fifo_fetch :: "bool \<Rightarrow> 'r list \<Rightarrow> 'r list \<Rightarrow> ('r option \<times> 'r list) option" where
  "fifo_fetch timed_out added q =
     (let q1 = (if q = [] then added else q) in
      if q1 \<noteq> [] then Some (Some (hd q1), tl q1)
      else if timed_out then Some (None, []) else None)"

primrec run_fifo :: "record_use list \<Rightarrow> Response list \<Rightarrow> (Response option list \<times> Response list) option" where
  "run_fifo [] q = Some ([], q)"
| "run_fifo (u # us) q =
     (case u of
        Add r \<Rightarrow> run_fifo us (q @ [r])
      | Fetch timed_out added \<Rightarrow> do {
          (r, q1) \<leftarrow> fifo_fetch timed_out added q;
          (rs, q2) \<leftarrow> run_fifo us q1;
          Some (r # rs, q2)
        })"

text \<open>The event is set exactly while there are records.\<close>

definition records_ok :: "ClientListenerHandler \<Rightarrow> bool" where
  "records_ok h \<longleftrightarrow> ev_flag (cl_event h) = (cl_responses h \<noteq> [])"

lemma add_record:
  "records_ok h \<Longrightarrow> records_ok (AddCallbackRecord r h) \<and> cl_responses (AddCallbackRecord r h) = cl_responses h @ [r]"
  by (auto simp: records_ok_def AddCallbackRecord_def Event_Signal_def Let_def)

lemma add_records:
  "records_ok h \<Longrightarrow> records_ok (fold AddCallbackRecord rs h) \<and>
     cl_responses (fold AddCallbackRecord rs h) = cl_responses h @ rs"
  by (induction rs arbitrary: h) (simp_all add: add_record)

lemma pop_record_ok:
  assumes "records_ok h" and "cl_responses h \<noteq> []"
  shows "\<exists>h'. pop_record h = (Some (hd (cl_responses h)), h') \<and> records_ok h' \<and>
    cl_responses h' = tl (cl_responses h)"
  using assms by (cases "cl_responses h") (auto simp: pop_record_def records_ok_def Event_Reset_def Let_def)

lemma fetch_record:
  assumes "records_ok h"
  shows "case fifo_fetch timed_out added (cl_responses h) of
      None \<Rightarrow> FetchCallbackRecord timed_out added h = None
    | Some (r, q) \<Rightarrow> (\<exists>h'. FetchCallbackRecord timed_out added h = Some (r, h') \<and> records_ok h' \<and> cl_responses h' = q)"
proof (cases "cl_responses h = []")
  case False
  then show ?thesis
    using pop_record_ok [OF assms False] by (auto simp: fifo_fetch_def FetchCallbackRecord_def Let_def)
next
  case True
  define h1 where "h1 = fold AddCallbackRecord added h"
  have h1: "records_ok h1" "cl_responses h1 = added"
    using add_records [OF assms] True by (simp_all add: h1_def)
  have run: "FetchCallbackRecord timed_out added h =
      (case Event_Wait 1000 timed_out (cl_event h1) of
         None \<Rightarrow> None
       | Some ok \<Rightarrow> if ok \<and> cl_responses h1 \<noteq> [] then Some (pop_record h1) else Some (None, h1))"
    using True unfolding FetchCallbackRecord_def h1_def Let_def by simp
  show ?thesis
  proof (cases "added = []")
    case True
    then show ?thesis
      using run h1 \<open>cl_responses h = []\<close> by (auto simp: fifo_fetch_def Event_Wait_def records_ok_def)
  next
    case False
    then have "Event_Wait 1000 timed_out (cl_event h1) = Some True"
      using h1 by (simp add: Event_Wait_def records_ok_def)
    then show ?thesis
      using run False pop_record_ok [OF h1(1)] h1(2) True by (auto simp: fifo_fetch_def Let_def)
  qed
qed

lemma run_records_fifo:
  assumes "records_ok h"
  shows "map_option (\<lambda>(rs, h'). (rs, cl_responses h', ev_flag (cl_event h'))) (run_records us h) =
    map_option (\<lambda>(rs, q). (rs, q, q \<noteq> [])) (run_fifo us (cl_responses h))"
  using assms
proof (induction us arbitrary: h)
  case Nil
  then show ?case by (simp add: records_ok_def)
next
  case (Cons u us)
  show ?case
  proof (cases u)
    case (Add r)
    then show ?thesis using Cons.IH add_record [OF Cons.prems] by simp
  next
    case (Fetch timed_out added)
    show ?thesis
    proof (cases "fifo_fetch timed_out added (cl_responses h)")
      case None
      then show ?thesis using fetch_record [OF Cons.prems, of timed_out added] Fetch by simp
    next
      case (Some p)
      then obtain r q where q: "fifo_fetch timed_out added (cl_responses h) = Some (r, q)" by (cases p) auto
      then obtain h' where h': "FetchCallbackRecord timed_out added h = Some (r, h')" "records_ok h'" "cl_responses h' = q"
        using fetch_record [OF Cons.prems, of timed_out added] by auto
      have "map_option (\<lambda>(rs, h'). (rs, cl_responses h', ev_flag (cl_event h'))) (run_records us h') =
          map_option (\<lambda>(rs, q). (rs, q, q \<noteq> [])) (run_fifo us q)"
        using Cons.IH [OF h'(2)] h'(3) by simp
      then show ?thesis
        using q h'(1) Fetch by (cases "run_records us h'"; cases "run_fifo us q") auto
    qed
  qed
qed

text \<open>C25. The records of a client are a queue: any sequence of adding records and fetching them -
  with records arriving or the time running out while a fetch waits - gives the same results
  and leaves the same records as a first-in first-out queue, the fetch that has nothing to
  return and has not timed out being the only one that waits; the event is set exactly when
  records are left.\<close>

theorem records_refine_fifo:
  "map_option (\<lambda>(rs, h). (rs, cl_responses h, ev_flag (cl_event h))) (run_records us ClientListenerHandler_new) =
   map_option (\<lambda>(rs, q). (rs, q, q \<noteq> [])) (run_fifo us [])"
  using run_records_fifo [of ClientListenerHandler_new us]
  by (simp add: records_ok_def ClientListenerHandler_new_def Event_MakeShared_def)

end
