(* ===== verification/ServerAsync.thy ===== *)
theory ServerAsync
  imports ServerAdapter
begin

text \<open>
  The asynchronous side of the server (sa_async_handler.cpp, future_listener.cpp and the worker
  of client_listener_handler.cpp): which client a transaction's responses go to, how a response
  travels from the executor's \<open>OnReply\<close> to the records of its client's handler, and the message
  the listener thread sends. A listener handler, a worker, an adapter or a listener that was
  deleted is missing from its store.
\<close>

section \<open>The handler of asynchronous responses\<close>

definition SaAsyncHandler_GetInstance :: "senv \<Rightarrow> 'p server \<Rightarrow> bool \<times> 'p server" where
  "SaAsyncHandler_GetInstance e st =
     (if sv_async st then (True, st) else (sn_async e, st\<lparr>sv_async := sn_async e\<rparr>))"

definition delete_handler :: "nat \<Rightarrow> 'p server \<Rightarrow> 'p server option" where
  "delete_handler h st =
     (case sv_handlers st h of
        None \<Rightarrow> None
      | Some x \<Rightarrow> Some (st\<lparr>sv_handlers := (sv_handlers st)(h := None)\<rparr>))"

fun delete_handlers :: "nat list \<Rightarrow> 'p server \<Rightarrow> 'p server option" where
  "delete_handlers [] st = Some st"
| "delete_handlers (h # hs) st = do { st1 \<leftarrow> delete_handler h st; delete_handlers hs st1 }"

definition SaAsyncHandler_dtor :: "'p server \<Rightarrow> 'p server option" where
  "SaAsyncHandler_dtor st =
     do { st1 \<leftarrow> delete_handlers (map snd (sv_clients st)) st;
          Some (st1\<lparr>sv_async := False, sv_clients := [], sv_transactions := []\<rparr>) }"

definition FindClientListenerHandler :: "int \<Rightarrow> 'p server \<Rightarrow> nat option" where
  "FindClientListenerHandler clientId st = sm_find (sv_clients st) clientId"

definition StopClientListenerHandler :: "senv \<Rightarrow> int \<Rightarrow> 'p server \<Rightarrow> 'p server option" where
  "StopClientListenerHandler e clientId st =
     (case sm_find (sv_clients st) clientId of
        None \<Rightarrow> Some st
      | Some h \<Rightarrow> StopAsyncProcessThread e h st)"

definition RemoveClientListenerHandler :: "int \<Rightarrow> 'p server \<Rightarrow> 'p server option" where
  "RemoveClientListenerHandler clientId st =
     (case sm_find (sv_clients st) clientId of
        None \<Rightarrow> Some st
      | Some h \<Rightarrow> do { st1 \<leftarrow> delete_handler h st;
                      Some (st1\<lparr>sv_clients := sm_erase clientId (sv_clients st1)\<rparr>) })"

definition AddClientListenerHandler :: "senv \<Rightarrow> int \<Rightarrow> 'p server \<Rightarrow> nat option \<times> 'p server" where
  "AddClientListenerHandler e clientId st =
     (if \<not> sn_handler e then (None, st)
      else (let h = sv_next st in
            (Some h, st\<lparr>sv_handlers := (sv_handlers st)(h \<mapsto> ClientListenerHandler_new), sv_next := Suc h,
                     sv_clients := sm_put clientId h (sv_clients st)\<rparr>)))"

definition SaAsyncHandler_RemoveTransaction :: "int \<Rightarrow> 'p server \<Rightarrow> 'p server" where
  "SaAsyncHandler_RemoveTransaction transactionId st =
     st\<lparr>sv_transactions := sm_erase transactionId (sv_transactions st)\<rparr>"

definition IsExistTransaction :: "int \<Rightarrow> 'p server \<Rightarrow> bool" where
  "IsExistTransaction transactionId st \<longleftrightarrow> sm_find (sv_transactions st) transactionId \<noteq> None"

definition SaAsyncHandler_SaveTransaction :: "int \<Rightarrow> 'p server \<Rightarrow> 'p server" where
  "SaAsyncHandler_SaveTransaction transactionId st =
     st\<lparr>sv_transactions := sm_put transactionId () (sv_transactions st)\<rparr>"

text \<open>Without a handler of the client the response is lost.\<close>

definition PushAsyncResponse :: "int \<Rightarrow> Response \<Rightarrow> 'p server \<Rightarrow> 'p server option" where
  "PushAsyncResponse clientId response st =
     (case FindClientListenerHandler clientId st of
        None \<Rightarrow> Some st
      | Some h \<Rightarrow> upd_handler h (AddCallbackRecord response) st)"

definition RegisterAsyncHandler :: "senv \<Rightarrow> int \<Rightarrow> 'p server \<Rightarrow> retcode \<times> 'p server" where
  "RegisterAsyncHandler e clientId st =
     (if FindClientListenerHandler clientId st \<noteq> None then (RETCODE_SUCCESS, st)
      else (RETCODE_SUCCESS, snd (AddClientListenerHandler e clientId st)))"

definition StartAsyncProcess :: "senv \<Rightarrow> int \<Rightarrow> nat \<Rightarrow> 'p server \<Rightarrow> (retcode \<times> 'p server) option" where
  "StartAsyncProcess e clientId adapter st =
     (case sm_find (sv_clients st) clientId of
        None \<Rightarrow> Some (RETCODE_SA_ASYNC_HANDLER_NOT_FOUND, st)
      | Some h \<Rightarrow> StartAsyncProcessThread e h clientId adapter st)"

definition StopAsyncProcess :: "senv \<Rightarrow> int \<Rightarrow> 'p server \<Rightarrow> 'p server option" where
  "StopAsyncProcess e clientId st =
     do { st1 \<leftarrow> StopClientListenerHandler e clientId st; RemoveClientListenerHandler clientId st1 }"

definition StartAsyncTransaction :: "senv \<Rightarrow> int \<Rightarrow> int \<Rightarrow> 'p server \<Rightarrow> retcode \<times> 'p server" where
  "StartAsyncTransaction e transactionId clientId st =
     (if IsExistTransaction transactionId st then (RETCODE_SUCCESS, st)
      else if \<not> sn_listener e then (RETCODE_OUT_OF_MEMORY, st)
      else (let l = sv_next st;
                st1 = st\<lparr>sv_listeners := (sv_listeners st)(l \<mapsto> FutureListener_new clientId), sv_next := Suc l\<rparr> in
            case GetEngineManager e st1 of
              (None, st2) \<Rightarrow> (RETCODE_OUT_OF_MEMORY, st2\<lparr>sv_listeners := (sv_listeners st2)(l := None)\<rparr>)
            | (Some mgr, st2) \<Rightarrow>
                (RETCODE_SUCCESS, SaAsyncHandler_SaveTransaction transactionId
                   (upd_exec (snd (SE_RegisterListener (sn_x e) l transactionId (sv_exec st2))) st2))))"

definition StopAsyncTransaction :: "senv \<Rightarrow> int \<Rightarrow> 'p server \<Rightarrow> 'p server" where
  "StopAsyncTransaction e transactionId st =
     (if \<not> IsExistTransaction transactionId st then st
      else case GetEngineManager e st of
             (None, st1) \<Rightarrow> st1
           | (Some mgr, st1) \<Rightarrow>
               (let (r, deleted, x) = SE_UnRegisterListener (sn_x e) transactionId (sv_exec st1);
                    st2 = upd_exec x st1;
                    st3 = (case deleted of None \<Rightarrow> st2
                           | Some l \<Rightarrow> st2\<lparr>sv_listeners := (sv_listeners st2)(l := None)\<rparr>) in
                SaAsyncHandler_RemoveTransaction transactionId st3))"

section \<open>From the executor to the handler\<close>

definition FutureListener_OnReply :: "nat \<Rightarrow> Future option \<Rightarrow> 'p server \<Rightarrow> 'p server option" where
  "FutureListener_OnReply l future st =
     do {
       fl \<leftarrow> sv_listeners st l;
       if \<not> fl_handler fl then Some st
       else case future of
           None \<Rightarrow> Some st
         | Some f \<Rightarrow> do {
             (response, f') \<leftarrow> Future_GetResponse 0 False f;
             case response of
               None \<Rightarrow> Some st
             | Some r \<Rightarrow> PushAsyncResponse (fl_clientId fl) r st
           }
     }"

text \<open>The calls the executor made since the last time, in their order.\<close>

fun on_replies :: "(nat \<times> Future) list \<Rightarrow> 'p server \<Rightarrow> 'p server option" where
  "on_replies [] st = Some st"
| "on_replies ((l, f) # rs) st = do { st1 \<leftarrow> FutureListener_OnReply l (Some f) st; on_replies rs st1 }"

definition deliver_replies :: "'p server \<Rightarrow> 'p server option" where
  "deliver_replies st =
     on_replies (ex_replies (sv_exec st)) (upd_exec ((sv_exec st)\<lparr>ex_replies := []\<rparr>) st)"

section \<open>The listener thread\<close>

text \<open>The message starts as the empty one, \<open>io0\<close>.\<close>

definition IpcIoResponse ::
  "'io ipc_ops \<Rightarrow> shmenv \<Rightarrow> SaServerAdapter option \<Rightarrow> Response option \<Rightarrow> 'io \<Rightarrow> 'io \<Rightarrow> shmsys \<Rightarrow>
   ('io \<times> shmsys) option" where
  "IpcIoResponse ops e adapter response io0 io s =
     (case response of
        None \<Rightarrow> Some (io, s)
      | Some res \<Rightarrow> do {
          let io1 = io_WriteInt32 ops (Response_GetRetCode res) io0;
          let io2 = io_WriteInt32 ops (Response_GetRequestId res) io1;
          ad \<leftarrow> adapter;
          let io3 = io_WriteInt32 ops (GetSessionId (Response_GetTransactionId res)) io2;
          (io4, s1) \<leftarrow> ParcelDataInfo ops e (Some (Response_GetResult res)) (Response_GetClientUid res) (Some io3) s;
          io5 \<leftarrow> io4;
          Some (io5, s1)
        })"

text \<open>
  \<open>send\<close>: whether the IPC library accepts the message for the client's service identity. The
  second result is the message sent, the response is destroyed.
\<close>

definition AsyncProcessWorker_OneAction ::
  "'io ipc_ops \<Rightarrow> shmenv \<Rightarrow> (nat \<Rightarrow> 'io \<Rightarrow> bool) \<Rightarrow> 'io \<Rightarrow> bool \<Rightarrow> Response list \<Rightarrow> nat \<Rightarrow> 'p server \<Rightarrow> shmsys \<Rightarrow>
   (bool \<times> (nat \<times> 'io) option \<times> 'p server \<times> shmsys) option" where
  "AsyncProcessWorker_OneAction ops e send io0 timed_out added w st s =
     do {
       wk \<leftarrow> sv_workers st w;
       hd \<leftarrow> sv_handlers st (aw_handler wk);
       (response, hd') \<leftarrow> FetchCallbackRecord timed_out added hd;
       st1 \<leftarrow> upd_handler (aw_handler wk) (\<lambda>_. hd') st;
       case response of
         None \<Rightarrow> Some (True, None, st1, s)
       | Some res \<Rightarrow> do {
           (io, s1) \<leftarrow> IpcIoResponse ops e (sv_adapters st1 (aw_adapter wk)) (Some res) io0 io0 s;
           ad \<leftarrow> sv_adapters st1 (aw_adapter wk);
           let svcIdentity = GetEngineListener ad;
           Some (send svcIdentity io, Some (svcIdentity, io), st1, s1)
         }
     }"

end
