(* ===== verification/AdapterWrapper.thy ===== *)
theory AdapterWrapper
  imports ServerAsync
begin

text \<open>
  The table of clients and the functions the service calls (adapter_wrapper.cpp): a client gets
  an id no other client has, and each function finds the client's adapter, holds it with a
  reference while it works, and calls it. A synchronous execution is split at its wait, for
  other calls happen while it waits.
\<close>

abbreviation (input) STARTING_CLIENT_ID :: int where "STARTING_CLIENT_ID \<equiv> 1"
abbreviation MAX_NUM_CLIENTS :: nat where "MAX_NUM_CLIENTS \<equiv> 1024"

section \<open>Clients\<close>

text \<open>\<open>None\<close>: the loop does not end.\<close>

definition FindValidClientId :: "'p server \<Rightarrow> (int \<times> 'p server) option" where
  "FindValidClientId st =
     (if length (sv_saServerAdapters st) > MAX_NUM_CLIENTS then Some (INVALID_CLIENT_ID, st)
      else map_option (\<lambda>i. (i, st\<lparr>sv_clientIdAtomic := i\<rparr>))
             (find_free_id 32 STARTING_CLIENT_ID (\<lambda>i. sm_find (sv_saServerAdapters st) i \<noteq> None)
               (sv_clientIdAtomic st)))"

definition AllocateClientAdapter :: "senv \<Rightarrow> 'p server \<Rightarrow> int \<times> 'p server" where
  "AllocateClientAdapter e st =
     (if \<not> sn_adapter e then (INVALID_CLIENT_ID, st)
      else (let a = sv_next st;
                ad = SaServerAdapter_new (sv_clientIdAtomic st);
                clientId = GetAdapterId ad in
            (clientId, st\<lparr>sv_adapters := (sv_adapters st)(a \<mapsto> ad), sv_next := Suc a,
                          sv_saServerAdapters := sm_put clientId a (sv_saServerAdapters st)\<rparr>)))"

definition FindAdapter :: "int \<Rightarrow> 'p server \<Rightarrow> nat option" where
  "FindAdapter clientId st = sm_find (sv_saServerAdapters st) clientId"

definition GenerateClient :: "senv \<Rightarrow> 'p server \<Rightarrow> (int \<times> 'p server) option" where
  "GenerateClient e st =
     do {
       (clientId, st1) \<leftarrow> FindValidClientId st;
       if clientId = INVALID_CLIENT_ID then Some (INVALID_CLIENT_ID, st1)
       else Some (AllocateClientAdapter e st1)
     }"

section \<open>The wrappers\<close>

text \<open>The guard: a reference is taken when it is made and given back at the end of its block.\<close>

definition AdapterGuard :: "nat \<Rightarrow> 'p server \<Rightarrow> 'p server option" where
  "AdapterGuard a st = upd_adapter a IncRef st"

definition AdapterGuard_dtor :: "nat \<Rightarrow> 'p server \<Rightarrow> 'p server option" where
  "AdapterGuard_dtor a st = upd_adapter a DecRef st"

text \<open>\<open>Inl\<close>: it returned, \<open>Inr\<close>: it waits, with the adapter held and the notifier it waits on.\<close>

definition SyncExecAlgoWrapper_send ::
  "senv \<Rightarrow> ClientInfo option \<Rightarrow> AlgorithmInfo option \<Rightarrow> DataInfo \<Rightarrow> 'p server \<Rightarrow>
   ((retcode + nat \<times> nat) \<times> 'p server) option" where
  "SyncExecAlgoWrapper_send e clientInfo algoInfo inputInfo st =
     (case (clientInfo, algoInfo) of
        (Some ci, Some ai) \<Rightarrow>
          (if ai_isAsync ai then Some (Inl RETCODE_WRONG_INFER_MODE, st)
           else case FindAdapter (ci_clientId ci) st of
               None \<Rightarrow> Some (Inl RETCODE_NO_CLIENT_FOUND, st)
             | Some a \<Rightarrow> do {
                 st1 \<leftarrow> AdapterGuard a st;
                 (r, st2) \<leftarrow> SA_SyncExecute_send e a ci ai inputInfo st1;
                 case r of
                   Inl ret \<Rightarrow> do { st3 \<leftarrow> AdapterGuard_dtor a st2; Some (Inl ret, st3) }
                 | Inr n \<Rightarrow> Some (Inr (a, n), st2)
               })
      | _ \<Rightarrow> Some (Inl RETCODE_NULL_PARAM, st))"

definition SyncExecAlgoWrapper_receive :: "senv \<Rightarrow> nat \<Rightarrow> nat \<Rightarrow> 'p server \<Rightarrow> (retcode \<times> DataInfo \<times> 'p server) option" where
  "SyncExecAlgoWrapper_receive e a n st =
     do {
       (ret, out, st1) \<leftarrow> SA_SyncExecute_receive e n st;
       st2 \<leftarrow> AdapterGuard_dtor a st1;
       Some (ret, out, st2)
     }"

definition AsyncExecAlgoWrapper ::
  "senv \<Rightarrow> ClientInfo option \<Rightarrow> AlgorithmInfo option \<Rightarrow> DataInfo \<Rightarrow> 'p server \<Rightarrow> (retcode \<times> 'p server) option" where
  "AsyncExecAlgoWrapper e clientInfo algoInfo inputInfo st =
     (case (clientInfo, algoInfo) of
        (Some ci, Some ai) \<Rightarrow>
          (if \<not> ai_isAsync ai then Some (RETCODE_WRONG_INFER_MODE, st)
           else case FindAdapter (ci_clientId ci) st of
               None \<Rightarrow> Some (RETCODE_NO_CLIENT_FOUND, st)
             | Some a \<Rightarrow> do {
                 st1 \<leftarrow> AdapterGuard a st;
                 (ret, st2) \<leftarrow> SA_AsyncExecute e a ci ai inputInfo st1;
                 st3 \<leftarrow> AdapterGuard_dtor a st2;
                 Some (ret, st3)
               })
      | _ \<Rightarrow> Some (RETCODE_NULL_PARAM, st))"

definition LoadAlgoWrapper ::
  "'p plug_ops \<Rightarrow> senv \<Rightarrow> ClientInfo option \<Rightarrow> AlgorithmInfo option \<Rightarrow> DataInfo \<Rightarrow> DataInfo \<Rightarrow> 'p server \<Rightarrow>
   (retcode \<times> DataInfo \<times> 'p server) option" where
  "LoadAlgoWrapper ops e clientInfo algoInfo inputInfo outputInfo st =
     (case (clientInfo, algoInfo) of
        (Some ci, Some ai) \<Rightarrow>
          (case FindAdapter (ci_clientId ci) st of
             None \<Rightarrow> Some (RETCODE_NO_CLIENT_FOUND, outputInfo, st)
           | Some a \<Rightarrow> do {
               st1 \<leftarrow> AdapterGuard a st;
               ad \<leftarrow> sv_adapters st1 a;
               let transactionId = GetTransactionId (ci_sessionId ci) ad;
               (ret, out, st2) \<leftarrow> SA_LoadAlgorithm ops e a transactionId ai inputInfo outputInfo st1;
               let (ret', st3) =
                 (if ret \<noteq> RETCODE_SUCCESS then (ret, st2)
                  else if ai_isAsync ai then
                    (let (ok, st') = SaAsyncHandler_GetInstance e st2 in
                     if \<not> ok then (RETCODE_NULL_PARAM, st')
                     else StartAsyncTransaction e transactionId (ci_clientId ci) st')
                  else (ret, st2));
               st4 \<leftarrow> AdapterGuard_dtor a st3;
               Some (ret', out, st4)
             })
      | _ \<Rightarrow> Some (RETCODE_NULL_PARAM, outputInfo, st))"

definition UnloadAlgoWrapper ::
  "'p plug_ops \<Rightarrow> senv \<Rightarrow> ClientInfo option \<Rightarrow> AlgorithmInfo option \<Rightarrow> DataInfo \<Rightarrow> 'p server \<Rightarrow>
   (retcode \<times> 'p server) option" where
  "UnloadAlgoWrapper ops e clientInfo algoInfo inputInfo st =
     do {
       ci \<leftarrow> clientInfo;
       case FindAdapter (ci_clientId ci) st of
         None \<Rightarrow> Some (RETCODE_NO_CLIENT_FOUND, st)
       | Some a \<Rightarrow> do {
           st1 \<leftarrow> AdapterGuard a st;
           ad \<leftarrow> sv_adapters st1 a;
           let transactionId = GetTransactionId (ci_sessionId ci) ad;
           case algoInfo of
             None \<Rightarrow> do { st2 \<leftarrow> AdapterGuard_dtor a st1; Some (RETCODE_NULL_PARAM, st2) }
           | Some ai \<Rightarrow> do {
               let st2 = (if ai_isAsync ai then
                            (let (ok, st') = SaAsyncHandler_GetInstance e st1 in
                             if ok then StopAsyncTransaction e transactionId st' else st')
                          else st1);
               (ret, st3) \<leftarrow> SA_UnloadAlgorithm ops e a transactionId inputInfo st2;
               st4 \<leftarrow> AdapterGuard_dtor a st3;
               Some (ret, st4)
             }
         }
     }"

text \<open>The adapter is deleted whoever holds a reference.\<close>

definition RemoveAdapterWrapper ::
  "'p plug_ops \<Rightarrow> senv \<Rightarrow> ClientInfo option \<Rightarrow> 'p server \<Rightarrow> (retcode \<times> 'p server) option" where
  "RemoveAdapterWrapper ops e clientInfo st =
     do {
       ci \<leftarrow> clientInfo;
       case sm_find (sv_saServerAdapters st) (ci_clientId ci) of
         None \<Rightarrow> Some (RETCODE_FAILURE, st)
       | Some a \<Rightarrow> do {
           st1 \<leftarrow> SaServerAdapter_dtor ops e a st;
           Some (RETCODE_SUCCESS, st1\<lparr>sv_saServerAdapters := sm_erase (ci_clientId ci) (sv_saServerAdapters st1)\<rparr>)
         }
     }"

definition SetOptionWrapper ::
  "'p plug_ops \<Rightarrow> senv \<Rightarrow> ClientInfo option \<Rightarrow> int \<Rightarrow> DataInfo \<Rightarrow> 'p server \<Rightarrow> (retcode \<times> 'p server) option" where
  "SetOptionWrapper ops e clientInfo optionType inputInfo st =
     do {
       ci \<leftarrow> clientInfo;
       case FindAdapter (ci_clientId ci) st of
         None \<Rightarrow> Some (RETCODE_NO_CLIENT_FOUND, st)
       | Some a \<Rightarrow> do {
           st1 \<leftarrow> AdapterGuard a st;
           ad \<leftarrow> sv_adapters st1 a;
           let transactionId = GetTransactionId (ci_sessionId ci) ad;
           (ret, st2) \<leftarrow> SA_SetOption ops e transactionId optionType inputInfo st1;
           st3 \<leftarrow> AdapterGuard_dtor a st2;
           Some (ret, st3)
         }
     }"

definition GetOptionWrapper ::
  "'p plug_ops \<Rightarrow> senv \<Rightarrow> ClientInfo option \<Rightarrow> int \<Rightarrow> DataInfo \<Rightarrow> DataInfo \<Rightarrow> 'p server \<Rightarrow>
   (retcode \<times> DataInfo \<times> 'p server) option" where
  "GetOptionWrapper ops e clientInfo optionType inputInfo outputInfo st =
     (case clientInfo of
        None \<Rightarrow> Some (RETCODE_NULL_PARAM, outputInfo, st)
      | Some ci \<Rightarrow>
          (case FindAdapter (ci_clientId ci) st of
             None \<Rightarrow> Some (RETCODE_NO_CLIENT_FOUND, outputInfo, st)
           | Some a \<Rightarrow> do {
               st1 \<leftarrow> AdapterGuard a st;
               ad \<leftarrow> sv_adapters st1 a;
               let transactionId = GetTransactionId (ci_sessionId ci) ad;
               (ret, out, st2) \<leftarrow> SA_GetOption ops e transactionId optionType inputInfo outputInfo st1;
               st3 \<leftarrow> AdapterGuard_dtor a st2;
               Some (ret, out, st3)
             }))"

definition RegisterCallbackWrapper ::
  "senv \<Rightarrow> ClientInfo option \<Rightarrow> nat \<Rightarrow> 'p server \<Rightarrow> (retcode \<times> 'p server) option" where
  "RegisterCallbackWrapper e clientInfo sid st =
     do {
       ci \<leftarrow> clientInfo;
       case FindAdapter (ci_clientId ci) st of
         None \<Rightarrow> Some (RETCODE_NO_CLIENT_FOUND, st)
       | Some a \<Rightarrow> do {
           st1 \<leftarrow> AdapterGuard a st;
           st2 \<leftarrow> upd_adapter a (SaveEngineListener sid) st1;
           (ret, st5) \<leftarrow>
             (let (ok, st3) = SaAsyncHandler_GetInstance e st2 in
              if \<not> ok then Some (RETCODE_NULL_PARAM, st3)
              else (let (retCode, st4) = RegisterAsyncHandler e (ci_clientId ci) st3 in
                    if retCode \<noteq> RETCODE_SUCCESS then Some (retCode, st4)
                    else StartAsyncProcess e (ci_clientId ci) a st4));
           st6 \<leftarrow> AdapterGuard_dtor a st5;
           Some (ret, st6)
         }
     }"

definition UnregisterCallbackWrapper ::
  "senv \<Rightarrow> ClientInfo option \<Rightarrow> 'p server \<Rightarrow> (retcode \<times> 'p server) option" where
  "UnregisterCallbackWrapper e clientInfo st =
     do {
       ci \<leftarrow> clientInfo;
       case FindAdapter (ci_clientId ci) st of
         None \<Rightarrow> Some (RETCODE_NO_CLIENT_FOUND, st)
       | Some a \<Rightarrow> do {
           st1 \<leftarrow> AdapterGuard a st;
           (ret, st4) \<leftarrow>
             (let (ok, st2) = SaAsyncHandler_GetInstance e st1 in
              if \<not> ok then Some (RETCODE_NULL_PARAM, st2)
              else do {
                st3 \<leftarrow> StopAsyncProcess e (ci_clientId ci) st2;
                st' \<leftarrow> upd_adapter a ClearEngineListener st3;
                Some (RETCODE_SUCCESS, st')
              });
           st5 \<leftarrow> AdapterGuard_dtor a st4;
           Some (ret, st5)
         }
     }"

section \<open>Client ids\<close>

interpretation client_ids: id_space 32 1
  by unfold_locales auto

text \<open>
  The table of clients: an ordered map of ids in range, each to a live adapter that carries that
  id (so that two clients never share one); at most one client more than the limit; the
  counter in range; addresses from \<open>sv_next\<close> on unused.
\<close>

definition clients_ok :: "'p server \<Rightarrow> bool" where
  "clients_ok st \<longleftrightarrow> sm_ok (sv_saServerAdapters st) \<and> length (sv_saServerAdapters st) \<le> MAX_NUM_CLIENTS + 1 \<and>
     0 \<le> sv_clientIdAtomic st \<and> sv_clientIdAtomic st < 2 ^ 31 \<and>
     (\<forall>i a. sm_find (sv_saServerAdapters st) i = Some a \<longrightarrow> client_id_ok i \<and>
        (\<exists>ad. sv_adapters st a = Some ad \<and> ad_adapterId ad = i)) \<and>
     (\<forall>a. sv_next st \<le> a \<longrightarrow> sv_adapters st a = None)"

lemma clients_okD:
  assumes "clients_ok st" and "FindAdapter i st = Some a"
  shows "client_id_ok i" and "\<exists>ad. sv_adapters st a = Some ad \<and> ad_adapterId ad = i" and "a < sv_next st"
proof -
  have f: "client_id_ok i \<and> (\<exists>ad. sv_adapters st a = Some ad \<and> ad_adapterId ad = i)"
    using assms by (simp add: clients_ok_def FindAdapter_def)
  then show "client_id_ok i" "\<exists>ad. sv_adapters st a = Some ad \<and> ad_adapterId ad = i" by blast+
  have "\<forall>a. sv_next st \<le> a \<longrightarrow> sv_adapters st a = None" using assms(1) by (simp add: clients_ok_def)
  then show "a < sv_next st" using f by (metis not_le option.distinct(1))
qed

lemma clients_ok_inj:
  assumes "clients_ok st" and "FindAdapter i st = Some a" and "FindAdapter j st = Some a"
  shows "i = j"
  using clients_okD(2) [OF assms(1,2)] clients_okD(2) [OF assms(1,3)] by auto

lemma server_init_ok: "clients_ok (server_init algs)"
  by (simp add: clients_ok_def server_init_def)

lemma FindValidClientId_free:
  assumes ok: "clients_ok st" and room: "length (sv_saServerAdapters st) \<le> MAX_NUM_CLIENTS"
  shows "\<exists>i. FindValidClientId st = Some (i, st\<lparr>sv_clientIdAtomic := i\<rparr>) \<and> client_id_ok i \<and> FindAdapter i st = None"
proof -
  let ?used = "\<lambda>i. sm_find (sv_saServerAdapters st) i \<noteq> None"
  have sok: "sm_ok (sv_saServerAdapters st)" using ok by (simp add: clients_ok_def)
  have "finite {i. ?used i}" "card {i. ?used i} = length (sv_saServerAdapters st)"
    using used_ids [OF sok] sm_keys_card [OF sok] by simp_all
  then obtain i where "find_free_id 32 1 ?used (sv_clientIdAtomic st) = Some i" "1 \<le> i" "i \<le> 2 ^ 31 - 1" "\<not> ?used i"
    using client_ids.find_free_enough [of ?used "sv_clientIdAtomic st"] ok room by (auto simp: clients_ok_def)
  then show ?thesis using room by (auto simp: FindValidClientId_def client_id_ok_def FindAdapter_def)
qed

lemma clients_ok_add:
  assumes ok: "clients_ok st" and room: "length (sv_saServerAdapters st) \<le> MAX_NUM_CLIENTS"
    and i: "client_id_ok i" "FindAdapter i st = None"
  shows "clients_ok (st\<lparr>sv_clientIdAtomic := i, sv_adapters := (sv_adapters st)(sv_next st \<mapsto> SaServerAdapter_new i),
    sv_next := Suc (sv_next st), sv_saServerAdapters := sm_put i (sv_next st) (sv_saServerAdapters st)\<rparr>)"
proof -
  have live: "a < sv_next st" if "sm_find (sv_saServerAdapters st) j = Some a" for j a
    using clients_okD(3) [OF ok] that by (simp add: FindAdapter_def)
  show ?thesis
    using ok room i live unfolding clients_ok_def
    by (auto simp: sm_put_ok sm_put_length sm_find_put client_id_ok_def FindAdapter_def SaServerAdapter_new_def
        dest: less_imp_neq)
qed

lemma GenerateClient_result:
  assumes ok: "clients_ok st"
  shows "\<exists>i st'. GenerateClient e st = Some (i, st') \<and> clients_ok st' \<and>
    (if length (sv_saServerAdapters st) \<le> MAX_NUM_CLIENTS \<and> sn_adapter e
     then client_id_ok i \<and> FindAdapter i st = None \<and>
       (\<exists>a. FindAdapter i st' = Some a \<and> sv_adapters st' a = Some (SaServerAdapter_new i) \<and>
          (\<forall>j. j \<noteq> i \<longrightarrow> FindAdapter j st' = FindAdapter j st) \<and>
          (\<forall>b. b \<noteq> a \<longrightarrow> sv_adapters st' b = sv_adapters st b))
     else i = INVALID_CLIENT_ID \<and> sv_saServerAdapters st' = sv_saServerAdapters st \<and>
       sv_adapters st' = sv_adapters st)"
proof (cases "length (sv_saServerAdapters st) \<le> MAX_NUM_CLIENTS")
  case False
  then show ?thesis using ok by (simp add: GenerateClient_def FindValidClientId_def)
next
  case True
  obtain i where i: "FindValidClientId st = Some (i, st\<lparr>sv_clientIdAtomic := i\<rparr>)" "client_id_ok i" "FindAdapter i st = None"
    using FindValidClientId_free [OF ok True] by blast
  have ni: "i \<noteq> - 1" using i(2) by (simp add: client_id_ok_def)
  show ?thesis
  proof (cases "sn_adapter e")
    case False
    then have "GenerateClient e st = Some (- 1, st\<lparr>sv_clientIdAtomic := i\<rparr>)"
      using i ni by (simp add: GenerateClient_def AllocateClientAdapter_def)
    then show ?thesis using ok i(2) False by (simp add: clients_ok_def client_id_ok_def)
  next
    case al: True
    have "GenerateClient e st = Some (i, st\<lparr>sv_clientIdAtomic := i,
        sv_adapters := (sv_adapters st)(sv_next st \<mapsto> SaServerAdapter_new i),
        sv_next := Suc (sv_next st), sv_saServerAdapters := sm_put i (sv_next st) (sv_saServerAdapters st)\<rparr>)"
      using i ni al
      by (simp add: GenerateClient_def AllocateClientAdapter_def Let_def GetAdapterId_def SaServerAdapter_new_def)
    then show ?thesis
      using clients_ok_add [OF ok True i(2,3)] i True al by (simp add: FindAdapter_def sm_find_put)
  qed
qed

text \<open>C26. A client connects: the search for an id always ends, also when the counter wraps around.
  With at most 1024 clients and memory for an adapter the new client gets an id between 1 and
  the largest \<open>int\<close> that no connected client has, with a new adapter that carries the id and no
  references; the other clients keep theirs. Otherwise the id is \<open>INVALID_CLIENT_ID\<close> and no
  client is added. The table of clients stays well-formed.\<close>

theorem GenerateClient_fresh:
  assumes ok: "clients_ok st"
  shows "\<exists>i st'. GenerateClient e st = Some (i, st') \<and> clients_ok st' \<and>
    (if length (sv_saServerAdapters st) \<le> MAX_NUM_CLIENTS \<and> sn_adapter e
     then client_id_ok i \<and> FindAdapter i st = None \<and>
       (\<exists>a. FindAdapter i st' = Some a \<and> sv_adapters st' a = Some (SaServerAdapter_new i) \<and>
          (\<forall>j. j \<noteq> i \<longrightarrow> FindAdapter j st' = FindAdapter j st) \<and>
          (\<forall>b. b \<noteq> a \<longrightarrow> sv_adapters st' b = sv_adapters st b))
     else i = INVALID_CLIENT_ID \<and> sv_saServerAdapters st' = sv_saServerAdapters st \<and>
       sv_adapters st' = sv_adapters st)"
  by (rule GenerateClient_result [OF ok])

definition senv_good :: "xenv \<Rightarrow> senv" where
  "senv_good x = \<lparr>sn_x = x, sn_pool = True, sn_executor = True, sn_manager = True, sn_adapter = True, sn_async = True,
     sn_handler = True, sn_listener = True, sn_worker = True, sn_request = True\<rparr>"

text \<open>A server with one client, of id 3.\<close>

definition demo_server :: "nat server" where
  "demo_server = (server_init (\<lambda>_. 0))\<lparr>sv_saServerAdapters := [(3, 0)],
     sv_adapters := (\<lambda>_. None)(0 := Some (SaServerAdapter_new 3)), sv_next := 1\<rparr>"

theorem GenerateClient_fresh_witness:
  "\<forall>x. \<exists>i st'. GenerateClient (senv_good x) (server_init (\<lambda>_. 0 :: nat)) = Some (i, st') \<and> 1 \<le> i \<and>
     FindAdapter i st' \<noteq> None"
proof
  fix x
  show "\<exists>i st'. GenerateClient (senv_good x) (server_init (\<lambda>_. 0 :: nat)) = Some (i, st') \<and> 1 \<le> i \<and>
      FindAdapter i st' \<noteq> None"
    using GenerateClient_fresh [OF server_init_ok, of "senv_good x" "\<lambda>_. 0 :: nat"]
    by (auto simp: server_init_def senv_good_def client_id_ok_def)
qed

end
