(* ===== verification/ServerProofs.thy ===== *)
theory ServerProofs
  imports AdapterWrapper
begin

text \<open>
  What the operations of the service keep: each leaves the tables it does not own as they are
  (\<open>same_both\<close>), and those that change them keep every connected client with its own live
  adapter and every registered handler with its own client (\<open>server_ok\<close>). The invariant over all
  runs is in \<open>ServerReach\<close>.
\<close>

section \<open>What the operations leave alone\<close>

text \<open>Same table of clients, same live adapters with the same ids; addresses only grow.\<close>

definition same_clients :: "'p server \<Rightarrow> 'p server \<Rightarrow> bool" where
  "same_clients st st' \<longleftrightarrow> sv_saServerAdapters st' = sv_saServerAdapters st \<and>
     sv_clientIdAtomic st' = sv_clientIdAtomic st \<and>
     (\<forall>a. map_option ad_adapterId (sv_adapters st' a) = map_option ad_adapterId (sv_adapters st a)) \<and>
     sv_next st \<le> sv_next st'"

text \<open>Same table of listener handlers, and the same ones live.\<close>

definition same_handlers :: "'p server \<Rightarrow> 'p server \<Rightarrow> bool" where
  "same_handlers st st' \<longleftrightarrow> sv_clients st' = sv_clients st \<and>
     (\<forall>h. (sv_handlers st' h = None) = (sv_handlers st h = None)) \<and> sv_next st \<le> sv_next st'"

named_theorems frame

lemma same_refl [simp]: "same_clients st st" "same_handlers st st"
  by (simp_all add: same_clients_def same_handlers_def)

lemma same_trans:
  "same_clients a b \<Longrightarrow> same_clients b c \<Longrightarrow> same_clients a c"
  "same_handlers a b \<Longrightarrow> same_handlers b c \<Longrightarrow> same_handlers a c"
  by (auto simp: same_clients_def same_handlers_def)

lemma same_upd_exec [frame]: "same_clients st (upd_exec x st)" "same_handlers st (upd_exec x st)"
  by (simp_all add: upd_exec_def same_clients_def same_handlers_def)

lemma same_upd_exec_iff [simp]:
  "same_clients st (upd_exec x st') = same_clients st st'" "same_handlers st (upd_exec x st') = same_handlers st st'"
  by (simp_all add: upd_exec_def same_clients_def same_handlers_def)

lemma GetEngineManager_same: "GetEngineManager e st = (r, st') \<Longrightarrow> same_clients st st' \<and> same_handlers st st'"
  by (auto simp: GetEngineManager_def same_clients_def same_handlers_def Let_def)

lemma SaAsyncHandler_GetInstance_same:
  "SaAsyncHandler_GetInstance e st = (r, st') \<Longrightarrow> same_clients st st' \<and> same_handlers st st'"
  by (auto simp: SaAsyncHandler_GetInstance_def same_clients_def same_handlers_def split: if_splits)

lemma upd_adapter_same:
  assumes "upd_adapter a f st = Some st'" and "\<And>ad. ad_adapterId (f ad) = ad_adapterId ad"
  shows "same_clients st st'" and "same_handlers st st'"
  using assms by (auto simp: upd_adapter_def same_clients_def same_handlers_def split: option.splits)

lemma adapter_ids [simp]:
  "ad_adapterId (IncRef ad) = ad_adapterId ad" "ad_adapterId (DecRef ad) = ad_adapterId ad"
  "ad_adapterId (SaveEngineListener s ad) = ad_adapterId ad" "ad_adapterId (ClearEngineListener ad) = ad_adapterId ad"
  "ad_adapterId (SaveTransaction t ad) = ad_adapterId ad" "ad_adapterId (RemoveTransaction t ad) = ad_adapterId ad"
  by (simp_all add: IncRef_def DecRef_def SaveEngineListener_def ClearEngineListener_def SaveTransaction_def RemoveTransaction_def)

lemma guard_same:
  "AdapterGuard a st = Some st' \<Longrightarrow> same_clients st st' \<and> same_handlers st st'"
  "AdapterGuard_dtor a st = Some st' \<Longrightarrow> same_clients st st' \<and> same_handlers st st'"
  by (auto simp: AdapterGuard_def AdapterGuard_dtor_def intro: upd_adapter_same)

section \<open>The adapters' operations\<close>

definition same_both :: "'p server \<Rightarrow> 'p server \<Rightarrow> bool" where
  "same_both st st' \<longleftrightarrow> same_clients st st' \<and> same_handlers st st'"

lemma same_both_refl [simp]: "same_both st st" "same_both st (upd_exec x st') = same_both st st'"
  by (simp_all add: same_both_def)

lemma same_both_trans: "same_both a b \<Longrightarrow> same_both b c \<Longrightarrow> same_both a c"
  by (auto simp: same_both_def intro: same_trans)

lemma same_both_steps:
  "GetEngineManager e st = (r, st1) \<Longrightarrow> same_both st st1"
  "SaAsyncHandler_GetInstance e st = (b, st1) \<Longrightarrow> same_both st st1"
  "AdapterGuard a st = Some st1 \<Longrightarrow> same_both st st1"
  "AdapterGuard_dtor a st = Some st1 \<Longrightarrow> same_both st st1"
  "upd_adapter a (SaveTransaction t) st = Some st1 \<Longrightarrow> same_both st st1"
  "upd_adapter a (RemoveTransaction t) st = Some st1 \<Longrightarrow> same_both st st1"
  "upd_adapter a (SaveEngineListener s) st = Some st1 \<Longrightarrow> same_both st st1"
  "upd_adapter a ClearEngineListener st = Some st1 \<Longrightarrow> same_both st st1"
  unfolding same_both_def
  by (blast dest: GetEngineManager_same SaAsyncHandler_GetInstance_same guard_same
      intro: upd_adapter_same adapter_ids)+

lemma same_both_snd [simp]:
  "same_both st0 (snd (GetEngineManager e st)) = same_both st0 st"
  "same_both st0 (snd (SaAsyncHandler_GetInstance e st)) = same_both st0 st"
  "same_both (snd (SaAsyncHandler_GetInstance e st)) st0 = same_both st st0"
  by (simp_all add: GetEngineManager_def SaAsyncHandler_GetInstance_def Let_def same_both_def same_clients_def
      same_handlers_def)

lemmas binds = Option.bind_eq_Some_conv Let_def split_def

lemma SA_same:
  "SA_AsyncExecute e a ci ai inp st = Some (r, st') \<Longrightarrow> same_both st st'"
  "SA_LoadAlgorithm ops e a t ai inp out0 st = Some (r, out, st') \<Longrightarrow> same_both st st'"
  "SA_UnloadAlgorithm ops e a t inp st = Some (r, st') \<Longrightarrow> same_both st st'"
  "SA_SetOption ops e t opt inp st = Some (r, st') \<Longrightarrow> same_both st st'"
  "SA_GetOption ops e t opt inp out0 st = Some (r, out, st') \<Longrightarrow> same_both st st'"
  "SA_SyncExecute_send e a ci ai inp st = Some (s, st') \<Longrightarrow> same_both st st'"
  "SA_SyncExecute_receive e n st = Some (r, out, st') \<Longrightarrow> same_both st st'"
proof -
  show "SA_AsyncExecute e a ci ai inp st = Some (r, st') \<Longrightarrow> same_both st st'"
    by (auto simp: SA_AsyncExecute_def binds split: option.splits)
  show "SA_LoadAlgorithm ops e a t ai inp out0 st = Some (r, out, st') \<Longrightarrow> same_both st st'"
    by (auto simp: SA_LoadAlgorithm_def binds split: option.splits if_splits dest!: same_both_steps(5) elim: same_both_trans [rotated])
  show "SA_UnloadAlgorithm ops e a t inp st = Some (r, st') \<Longrightarrow> same_both st st'"
    by (auto simp: SA_UnloadAlgorithm_def binds split: option.splits if_splits dest!: same_both_steps(6) elim: same_both_trans [rotated])
  show "SA_SetOption ops e t opt inp st = Some (r, st') \<Longrightarrow> same_both st st'"
    by (auto simp: SA_SetOption_def binds split: option.splits)
  show "SA_GetOption ops e t opt inp out0 st = Some (r, out, st') \<Longrightarrow> same_both st st'"
    by (auto simp: SA_GetOption_def binds split: option.splits)
  show "SA_SyncExecute_send e a ci ai inp st = Some (s, st') \<Longrightarrow> same_both st st'"
    by (cases "fst (GetEngineManager e st)")
      (auto simp: SA_SyncExecute_send_def binds split: option.splits)
  show "SA_SyncExecute_receive e n st = Some (r, out, st') \<Longrightarrow> same_both st st'"
    by (auto simp: SA_SyncExecute_receive_def binds split: option.splits if_splits)
qed

lemma StartAsyncTransaction_same [simp]: "same_both st0 st \<Longrightarrow> same_both st0 (snd (StartAsyncTransaction e t c st))"
  by (auto simp: StartAsyncTransaction_def SaAsyncHandler_SaveTransaction_def GetEngineManager_def upd_exec_def
      SE_RegisterListener_def same_both_def same_clients_def same_handlers_def Let_def split: option.splits)

lemma StopAsyncTransaction_same [simp]:
  "same_both st0 (StopAsyncTransaction e t st) = same_both st0 st"
  "same_both (StopAsyncTransaction e t st) st0 = same_both st st0"
  by (auto simp: StopAsyncTransaction_def SaAsyncHandler_RemoveTransaction_def GetEngineManager_def upd_exec_def
      same_both_def same_clients_def same_handlers_def Let_def split: option.splits prod.splits)

text \<open>A wrapper's work between taking and giving back the guard.\<close>

lemma guarded_same:
  assumes "AdapterGuard a st = Some st1" and "AdapterGuard_dtor a st2 = Some st3" and "same_both st1 st2"
  shows "same_both st st3"
  using same_both_steps(3) [OF assms(1)] assms(3) same_both_steps(4) [OF assms(2)] same_both_trans by blast

lemma case_sum_Some:
  "(case r of Inl x \<Rightarrow> f x | Inr y \<Rightarrow> g y) = Some z \<longleftrightarrow>
     (\<exists>x. r = Inl x \<and> f x = Some z) \<or> (\<exists>y. r = Inr y \<and> g y = Some z)"
  by (auto split: sum.splits)

lemma case_option_Some:
  "(case r of None \<Rightarrow> f | Some y \<Rightarrow> g y) = Some z \<longleftrightarrow>
     (r = None \<and> f = Some z) \<or> (\<exists>y. r = Some y \<and> g y = Some z)"
  by (auto split: option.splits)

lemma wrappers_same:
  "SyncExecAlgoWrapper_send e ci ai inp st = Some (s, st') \<Longrightarrow> same_both st st'"
  "SyncExecAlgoWrapper_receive e a n st = Some (r, out, st') \<Longrightarrow> same_both st st'"
  "AsyncExecAlgoWrapper e ci ai inp st = Some (r, st') \<Longrightarrow> same_both st st'"
  "SetOptionWrapper ops e ci opt inp st = Some (r, st') \<Longrightarrow> same_both st st'"
  "GetOptionWrapper ops e ci opt inp out0 st = Some (r, out, st') \<Longrightarrow> same_both st st'"
proof -
  show "SyncExecAlgoWrapper_send e ci ai inp st = Some (s, st') \<Longrightarrow> same_both st st'"
    by (auto simp: SyncExecAlgoWrapper_send_def binds case_sum_Some split: option.splits if_splits
        dest!: SA_same(6) intro: guarded_same same_both_trans [OF same_both_steps(3)])
  show "SyncExecAlgoWrapper_receive e a n st = Some (r, out, st') \<Longrightarrow> same_both st st'"
    by (auto simp: SyncExecAlgoWrapper_receive_def binds dest!: SA_same(7) same_both_steps(4) intro: same_both_trans)
  show "AsyncExecAlgoWrapper e ci ai inp st = Some (r, st') \<Longrightarrow> same_both st st'"
    by (auto simp: AsyncExecAlgoWrapper_def binds split: option.splits if_splits dest!: SA_same(1) intro: guarded_same)
  show "SetOptionWrapper ops e ci opt inp st = Some (r, st') \<Longrightarrow> same_both st st'"
    by (auto simp: SetOptionWrapper_def binds split: option.splits dest!: SA_same(4) intro: guarded_same)
  show "GetOptionWrapper ops e ci opt inp out0 st = Some (r, out, st') \<Longrightarrow> same_both st st'"
    by (auto simp: GetOptionWrapper_def binds split: option.splits dest!: SA_same(5) intro: guarded_same)
qed

lemma load_unload_same:
  "LoadAlgoWrapper ops e ci ai inp out0 st = Some (r, out, st') \<Longrightarrow> same_both st st'"
  "UnloadAlgoWrapper ops e ci ai inp st = Some (r, st') \<Longrightarrow> same_both st st'"
proof -
  assume run: "LoadAlgoWrapper ops e ci ai inp out0 st = Some (r, out, st')"
  show "same_both st st'"
    using run by (auto simp: LoadAlgoWrapper_def binds split: option.splits if_splits dest!: SA_same(2)
        intro: guarded_same)
next
  assume "UnloadAlgoWrapper ops e ci ai inp st = Some (r, st')"
  then show "same_both st st'"
    by (auto simp: UnloadAlgoWrapper_def binds case_option_Some split: if_splits dest!: SA_same(3)
        intro: guarded_same)
qed

section \<open>Well-formed tables\<close>

text \<open>Every handler in the table is live, no two clients share one, and addresses from \<open>sv_next\<close> on are unused.\<close>

definition handlers_ok :: "'p server \<Rightarrow> bool" where
  "handlers_ok st \<longleftrightarrow> sm_ok (sv_clients st) \<and>
     (\<forall>c h. sm_find (sv_clients st) c = Some h \<longrightarrow> sv_handlers st h \<noteq> None) \<and>
     (\<forall>c d h. sm_find (sv_clients st) c = Some h \<longrightarrow> sm_find (sv_clients st) d = Some h \<longrightarrow> c = d) \<and>
     (\<forall>h. sv_next st \<le> h \<longrightarrow> sv_handlers st h = None)"

lemma same_clients_ok: "same_clients st st' \<Longrightarrow> clients_ok st \<Longrightarrow> clients_ok st'"
  unfolding same_clients_def clients_ok_def
  by (smt (verit) le_trans map_option_eq_Some map_option_is_None)

lemma same_handlers_ok: "same_handlers st st' \<Longrightarrow> handlers_ok st \<Longrightarrow> handlers_ok st'"
  unfolding same_handlers_def handlers_ok_def by (metis le_trans)

definition server_ok :: "'p server \<Rightarrow> bool" where
  "server_ok st \<longleftrightarrow> clients_ok st \<and> handlers_ok st"

lemma same_both_ok: "same_both st st' \<Longrightarrow> server_ok st \<Longrightarrow> server_ok st'"
  using same_clients_ok same_handlers_ok by (auto simp: same_both_def server_ok_def)

section \<open>Callbacks and removal\<close>

lemma same_both_simps [simp]:
  "same_both st0 (delete_worker w st) = same_both st0 st"
  "same_both st0 (set_tsys s st) = same_both st0 st"
  "same_both st0 (st\<lparr>sv_workers := m\<rparr>) = same_both st0 st"
  by (simp_all add: delete_worker_def set_tsys_def upd_exec_def same_both_def same_clients_def same_handlers_def)

lemma upd_handler_same: "upd_handler h f st = Some st' \<Longrightarrow> same_both st0 st \<Longrightarrow> same_both st0 st'"
proof -
  assume run: "upd_handler h f st = Some st'" and "same_both st0 st"
  obtain x where x: "sv_handlers st h = Some x" "st' = st\<lparr>sv_handlers := (sv_handlers st)(h \<mapsto> f x)\<rparr>"
    using run by (auto simp: upd_handler_def split: option.splits)
  have "same_both st st'" using x by (auto simp: same_both_def same_clients_def same_handlers_def)
  then show ?thesis using \<open>same_both st0 st\<close> same_both_trans by blast
qed

lemma StartAsyncProcessThread_same: "StartAsyncProcessThread e h c a st = Some (r, st') \<Longrightarrow> same_both st st'"
  unfolding StartAsyncProcessThread_def
  by (auto simp: binds case_option_Some split: if_splits elim!: upd_handler_same)

lemma StopAsyncProcessThread_same: "StopAsyncProcessThread e h st = Some st' \<Longrightarrow> same_both st st'"
  unfolding StopAsyncProcessThread_def
  by (auto simp: binds case_option_Some split: if_splits elim!: upd_handler_same)

lemma RegisterAsyncHandler_ok:
  assumes ok: "server_ok st"
  shows "server_ok (snd (RegisterAsyncHandler e c st))"
proof (cases "sm_find (sv_clients st) c = None \<and> sn_handler e")
  case False
  then show ?thesis
    using ok by (auto simp: RegisterAsyncHandler_def FindClientListenerHandler_def AddClientListenerHandler_def)
next
  case True
  let ?st = "st\<lparr>sv_handlers := (sv_handlers st)(sv_next st \<mapsto> ClientListenerHandler_new), sv_next := Suc (sv_next st),
    sv_clients := sm_put c (sv_next st) (sv_clients st)\<rparr>"
  have eq: "snd (RegisterAsyncHandler e c st) = ?st"
    using True by (simp add: RegisterAsyncHandler_def FindClientListenerHandler_def AddClientListenerHandler_def Let_def)
  have h: "handlers_ok st" using ok by (simp add: server_ok_def)
  have live: "sm_find (sv_clients st) d \<noteq> Some (sv_next st)" for d
    using h unfolding handlers_ok_def by (metis order_refl)
  have "handlers_ok ?st"
    using h live unfolding handlers_ok_def by (auto simp: sm_put_ok sm_find_put split: if_splits)
  moreover have "same_clients st ?st" by (simp add: same_clients_def)
  ultimately show ?thesis using ok same_clients_ok unfolding eq server_ok_def by blast
qed

lemma RemoveClientListenerHandler_ok:
  assumes ok: "server_ok st" and run: "RemoveClientListenerHandler c st = Some st'"
  shows "server_ok st'"
proof (cases "sm_find (sv_clients st) c")
  case None
  then show ?thesis using ok run by (simp add: RemoveClientListenerHandler_def)
next
  case (Some h)
  have st': "st' = st\<lparr>sv_handlers := (sv_handlers st)(h := None), sv_clients := sm_erase c (sv_clients st)\<rparr>"
    using run Some by (auto simp: RemoveClientListenerHandler_def delete_handler_def binds case_option_Some)
  have "handlers_ok st'"
    using ok Some unfolding st' server_ok_def handlers_ok_def by (auto simp: sm_erase_ok sm_find_erase)
  moreover have "same_clients st st'" by (simp add: same_clients_def st')
  ultimately show ?thesis using ok same_clients_ok unfolding server_ok_def by blast
qed

lemma server_ok_snd [simp]: "server_ok (snd (SaAsyncHandler_GetInstance e st)) = server_ok st"
  by (simp add: SaAsyncHandler_GetInstance_def server_ok_def clients_ok_def handlers_ok_def)

lemma server_ok_steps:
  "AdapterGuard a st = Some st' \<Longrightarrow> server_ok st \<Longrightarrow> server_ok st'"
  "AdapterGuard_dtor a st = Some st' \<Longrightarrow> server_ok st \<Longrightarrow> server_ok st'"
  "upd_adapter a (SaveEngineListener sid) st = Some st' \<Longrightarrow> server_ok st \<Longrightarrow> server_ok st'"
  "upd_adapter a ClearEngineListener st = Some st' \<Longrightarrow> server_ok st \<Longrightarrow> server_ok st'"
  "StartAsyncProcessThread e h c a st = Some (r, st') \<Longrightarrow> server_ok st \<Longrightarrow> server_ok st'"
  "StopAsyncProcessThread e h st = Some st' \<Longrightarrow> server_ok st \<Longrightarrow> server_ok st'"
  "upd_handler h f st = Some st' \<Longrightarrow> server_ok st \<Longrightarrow> server_ok st'"
  by (erule same_both_ok [rotated], erule same_both_steps StartAsyncProcessThread_same StopAsyncProcessThread_same
      upd_handler_same [OF _ same_both_refl(1)])+

lemma RegisterAsyncHandler_step: "RegisterAsyncHandler e c st = (r, st') \<Longrightarrow> server_ok st \<Longrightarrow> server_ok st'"
  using RegisterAsyncHandler_ok [of st e c] by simp

lemma register_ok:
  assumes "server_ok st" and "RegisterCallbackWrapper e ci sid st = Some (r, st')"
  shows "server_ok st'"
  using assms unfolding RegisterCallbackWrapper_def StartAsyncProcess_def
  by (auto simp: binds case_option_Some split: if_splits
      intro!: RegisterAsyncHandler_ok elim!: server_ok_steps RegisterAsyncHandler_step)

lemma unregister_ok:
  assumes "server_ok st" and "UnregisterCallbackWrapper e ci st = Some (r, st')"
  shows "server_ok st'"
  using assms unfolding UnregisterCallbackWrapper_def StopAsyncProcess_def StopClientListenerHandler_def
  by (auto simp: binds case_option_Some split: if_splits
      elim!: server_ok_steps RemoveClientListenerHandler_ok [rotated])

lemma remove_ok:
  assumes ok: "server_ok st" and run: "RemoveAdapterWrapper ops e ci st = Some (r, st')"
  shows "server_ok st'"
proof -
  obtain c where c: "ci = Some c" using run by (cases ci) (auto simp: RemoveAdapterWrapper_def)
  show ?thesis
  proof (cases "FindAdapter (ci_clientId c) st")
    case None
    then show ?thesis using run ok c by (simp add: RemoveAdapterWrapper_def FindAdapter_def)
  next
    case (Some a)
    obtain st1 where st1: "SaServerAdapter_Uninitialize ops e a st = Some st1" and
      st': "st' = st1\<lparr>sv_adapters := (sv_adapters st1)(a := None),
        sv_saServerAdapters := sm_erase (ci_clientId c) (sv_saServerAdapters st1)\<rparr>"
      using run c Some by (auto simp: RemoveAdapterWrapper_def FindAdapter_def SaServerAdapter_dtor_def binds)
    have clear: "same_both s s2" if "upd_adapter a (\<lambda>ad. ad\<lparr>ad_transactionIds := []\<rparr>) s1 = Some s2" "same_both s s1" for s s1 s2
      using upd_adapter_same [OF that(1)] that(2) same_trans unfolding same_both_def by fastforce
    have "same_both st st1"
      using st1 unfolding SaServerAdapter_Uninitialize_def
      by (auto simp: binds case_option_Some split: option.splits elim!: clear)
    then have ok1: "server_ok st1" using same_both_ok ok by blast
    have a: "FindAdapter (ci_clientId c) st1 = Some a"
      using Some \<open>same_both st st1\<close> by (simp add: FindAdapter_def same_both_def same_clients_def)
    have inj: "\<And>j. FindAdapter j st1 = Some a \<Longrightarrow> j = ci_clientId c"
      using clients_ok_inj ok1 a unfolding server_ok_def by blast
    have len: "length (sm_erase (ci_clientId c) (sv_saServerAdapters st1)) \<le> length (sv_saServerAdapters st1)"
      using sm_erase_length [of "ci_clientId c" "sv_saServerAdapters st1"] by (auto split: if_splits)
    have "clients_ok st'"
      using ok1 inj len unfolding st' server_ok_def clients_ok_def FindAdapter_def
      by (auto simp: sm_erase_ok sm_find_erase)
    moreover have "handlers_ok st'" using ok1 by (simp add: server_ok_def handlers_ok_def st')
    ultimately show ?thesis by (simp add: server_ok_def)
  qed
qed

end
