(* ===== verification/ServerReach.thy ===== *)
theory ServerReach
  imports ServerProofs
begin

text \<open>
  The states the service reaches: any sequence of the calls its clients make - each call in
  its own environment of successes and failures - with the engines' threads, the delivery of
  responses and the listener threads running in between.
\<close>

section \<open>Steps of the service\<close>

text \<open>
  The engines' threads change the executor's state only (\<open>sr_engines\<close>); a synchronous execution
  is two steps.
\<close>

inductive server_step :: "'io ipc_ops \<Rightarrow> 'p plug_ops \<Rightarrow> 'p server \<Rightarrow> 'p server \<Rightarrow> bool" for io_ops ops where
  sr_connect: "GenerateClient e st = Some (i, st') \<Longrightarrow> server_step io_ops ops st st'"
| sr_load: "LoadAlgoWrapper ops e ci ai inp out0 st = Some (r, out, st') \<Longrightarrow> server_step io_ops ops st st'"
| sr_unload: "UnloadAlgoWrapper ops e ci ai inp st = Some (r, st') \<Longrightarrow> server_step io_ops ops st st'"
| sr_sync: "SyncExecAlgoWrapper_send e ci ai inp st = Some (s, st') \<Longrightarrow> server_step io_ops ops st st'"
| sr_answer: "SyncExecAlgoWrapper_receive e a n st = Some (r, out, st') \<Longrightarrow> server_step io_ops ops st st'"
| sr_async: "AsyncExecAlgoWrapper e ci ai inp st = Some (r, st') \<Longrightarrow> server_step io_ops ops st st'"
| sr_set: "SetOptionWrapper ops e ci opt inp st = Some (r, st') \<Longrightarrow> server_step io_ops ops st st'"
| sr_get: "GetOptionWrapper ops e ci opt inp out0 st = Some (r, out, st') \<Longrightarrow> server_step io_ops ops st st'"
| sr_register: "RegisterCallbackWrapper e ci sid st = Some (r, st') \<Longrightarrow> server_step io_ops ops st st'"
| sr_unregister: "UnregisterCallbackWrapper e ci st = Some (r, st') \<Longrightarrow> server_step io_ops ops st st'"
| sr_remove: "RemoveAdapterWrapper ops e ci st = Some (r, st') \<Longrightarrow> server_step io_ops ops st st'"
| sr_engines: "server_step io_ops ops st (upd_exec x st)"
| sr_deliver: "deliver_replies st = Some st' \<Longrightarrow> server_step io_ops ops st st'"
| sr_listener: "AsyncProcessWorker_OneAction io_ops e send io0 timed_out added w st s = Some (b, m, st', s') \<Longrightarrow>
    server_step io_ops ops st st'"

inductive server_reach :: "'io ipc_ops \<Rightarrow> 'p plug_ops \<Rightarrow> (nat \<Rightarrow> 'p) \<Rightarrow> 'p server \<Rightarrow> bool" for io_ops ops algs where
  start: "server_reach io_ops ops algs (server_init algs)"
| step: "server_reach io_ops ops algs st \<Longrightarrow> server_step io_ops ops st st' \<Longrightarrow> server_reach io_ops ops algs st'"

lemma deliver_ok:
  assumes "server_ok st" and "on_replies rs st = Some st'"
  shows "server_ok st'"
  using assms
proof (induction rs st rule: on_replies.induct)
  case (2 l f rs st)
  then obtain s where s: "FutureListener_OnReply l (Some f) st = Some s" "on_replies rs s = Some st'"
    by (auto simp: binds)
  have "server_ok s"
    using s(1) 2(2) unfolding FutureListener_OnReply_def PushAsyncResponse_def
    by (auto simp: binds case_option_Some split: if_splits elim!: server_ok_steps)
  then show ?case using 2(1) s by blast
qed simp

lemma upd_exec_ok [simp]: "server_ok (upd_exec x st) = server_ok st"
  by (simp add: upd_exec_def server_ok_def clients_ok_def handlers_ok_def)

lemma OneAction_ok:
  assumes "server_ok st" and "AsyncProcessWorker_OneAction io_ops e send io0 timed_out added w st s = Some (b, m, st', s')"
  shows "server_ok st'"
  using assms unfolding AsyncProcessWorker_OneAction_def
  by (auto simp: binds case_option_Some elim!: server_ok_steps)

lemma server_step_ok: "server_step io_ops ops st st' \<Longrightarrow> server_ok st \<Longrightarrow> server_ok st'"
proof (induction rule: server_step.induct)
  case (sr_connect e st i st')
  have "clients_ok st" and h: "handlers_ok st" using sr_connect(2) by (simp_all add: server_ok_def)
  then have "clients_ok st'" using GenerateClient_result [of st e] sr_connect(1) by auto
  moreover have "same_handlers st st'"
    using sr_connect(1) by (auto simp: GenerateClient_def FindValidClientId_def AllocateClientAdapter_def binds
        same_handlers_def split: if_splits)
  ultimately show ?case using same_handlers_ok h by (auto simp: server_ok_def)
next
  case (sr_deliver st st')
  then show ?case using deliver_ok [of "upd_exec ((sv_exec st)\<lparr>ex_replies := []\<rparr>) st"] by (simp add: deliver_replies_def)
qed (simp | erule (1) load_unload_same [THEN same_both_ok] wrappers_same [THEN same_both_ok]
    register_ok [rotated] unregister_ok [rotated] remove_ok [rotated] OneAction_ok [rotated])+

lemma server_reach_ok: "server_reach io_ops ops algs st \<Longrightarrow> server_ok st"
proof (induction rule: server_reach.induct)
  case start
  show ?case using server_init_ok by (simp add: server_ok_def handlers_ok_def server_init_def)
qed (rule server_step_ok)

text \<open>C27. In every state the service reaches - whatever clients connect, load, execute, register
  callbacks and leave in whatever order, and whatever fails - the tables are well-typed: every
  connected client has an id in range and a live adapter carrying that id, every handler in
  the table of callbacks is live, and no two clients share an adapter or a handler.\<close>

theorem server_tables_typed:
  assumes "server_reach io_ops ops algs st"
  shows "(FindAdapter i st = Some a \<longrightarrow> client_id_ok i \<and> (\<exists>ad. sv_adapters st a = Some ad \<and> GetAdapterId ad = i) \<and>
      (FindAdapter j st = Some a \<longrightarrow> i = j)) \<and>
    (FindClientListenerHandler i st = Some h \<longrightarrow> sv_handlers st h \<noteq> None \<and>
      (FindClientListenerHandler j st = Some h \<longrightarrow> i = j))"
proof -
  have ok: "clients_ok st" "handlers_ok st" using server_reach_ok [OF assms] by (simp_all add: server_ok_def)
  then show ?thesis
    using clients_okD clients_ok_inj unfolding FindClientListenerHandler_def GetAdapterId_def handlers_ok_def by blast
qed

theorem server_tables_typed_witness:
  "\<forall>x io_ops ops. \<exists>i st a. GenerateClient (senv_good x) (server_init (\<lambda>_. 0 :: nat)) = Some (i, st) \<and>
     server_reach io_ops ops (\<lambda>_. 0) st \<and> FindAdapter i st = Some a \<and> client_id_ok i"
proof (intro allI)
  fix x io_ops ops
  let ?st = "server_init (\<lambda>_. 0 :: nat)"
  have good: "sn_adapter (senv_good x)" "length (sv_saServerAdapters ?st) \<le> MAX_NUM_CLIENTS"
    by (simp_all add: senv_good_def server_init_def)
  obtain i st where st: "GenerateClient (senv_good x) ?st = Some (i, st)" "FindAdapter i st \<noteq> None"
    using GenerateClient_result [OF server_init_ok [of "\<lambda>_. 0 :: nat"], of "senv_good x"] by (auto simp: good split: if_splits)
  have r: "server_reach io_ops ops (\<lambda>_. 0 :: nat) st"
    by (rule server_reach.step [OF server_reach.start server_step.sr_connect [OF st(1)]])
  from st(2) obtain a where "FindAdapter i st = Some a" by auto
  then show "\<exists>i st a. GenerateClient (senv_good x) ?st = Some (i, st) \<and>
     server_reach io_ops ops (\<lambda>_. 0) st \<and> FindAdapter i st = Some a \<and> client_id_ok i"
    using server_tables_typed [OF r, of i a] r st(1) by blast
qed

end
