(* ===== verification/AsyncDelivery.thy ===== *)
theory AsyncDelivery
  imports ServerReach EngineProofs
begin

text \<open>
  Two properties of the listener threads: what is left of a client's thread when the client is
  removed without unregistering its callback, and the way of a response from the plugin's
  event to the message sent to the client.
\<close>

section \<open>A removed client's listener thread\<close>

lemma StartAsyncProcessThread_success:
  assumes "StartAsyncProcessThread e h c a st = Some (RETCODE_SUCCESS, st')"
  shows "\<exists>w lh lh'. sv_handlers st h = Some lh \<and> sv_handlers st' h = Some lh' \<and>
    cl_worker lh' = Some w \<and> cl_responses lh' = cl_responses lh \<and>
    sv_workers st' w = Some \<lparr>aw_handler = h, aw_clientId = c, aw_adapter = a\<rparr> \<and>
    sv_clients st' = sv_clients st \<and> sv_saServerAdapters st' = sv_saServerAdapters st \<and>
    sv_adapters st' = sv_adapters st"
  using assms unfolding StartAsyncProcessThread_def
  by (auto simp: binds case_option_Some upd_exec_def set_tsys_def upd_handler_def split: if_splits
      intro!: exI [of _ "ex_next (sv_exec st)"])

text \<open>The listener thread of a client whose adapter is gone: its next response is its end.\<close>

lemma OneAction_dangling:
  assumes w: "sv_workers st w = Some \<lparr>aw_handler = h, aw_clientId = c, aw_adapter = a\<rparr>"
    and h: "sv_handlers st h = Some lh" "cl_responses lh \<noteq> []" and a: "sv_adapters st a = None"
  shows "AsyncProcessWorker_OneAction io_ops e send io0 timed_out added w st s = None"
proof -
  obtain r lh' where "FetchCallbackRecord timed_out added lh = Some (Some r, lh')"
    using h(2) by (cases "cl_responses lh") (auto simp: FetchCallbackRecord_def pop_record_def Let_def)
  then show ?thesis using w h(1) a by (simp add: AsyncProcessWorker_OneAction_def upd_handler_def IpcIoResponse_def Let_def)
qed

lemma Uninitialize_keeps:
  assumes "SaServerAdapter_Uninitialize ops e a st = Some st'"
  shows "sv_workers st' = sv_workers st \<and> sv_handlers st' = sv_handlers st \<and> sv_clients st' = sv_clients st"
  using assms unfolding SaServerAdapter_Uninitialize_def
  by (auto simp: binds case_option_Some upd_adapter_def upd_exec_def GetEngineManager_def split: option.splits)

lemma push_record:
  assumes "FindClientListenerHandler c st = Some h" and "sv_handlers st h = Some lh"
  shows "PushAsyncResponse c r st = Some (st\<lparr>sv_handlers := (sv_handlers st)(h \<mapsto> AddCallbackRecord r lh)\<rparr>)"
  using assms by (simp add: PushAsyncResponse_def upd_handler_def)

text \<open>C28. A client that registered a callback and is then removed - without unregistering it - leaves
  its listener thread behind: the worker is still there, for the same client and with the
  pointer to the adapter, which was deleted; and as soon as one more response arrives for the
  client (none needs to have been lost: its handler still takes it), the thread's next action
  uses the deleted adapter. This holds whatever the reference count of the adapter was.\<close>

theorem removed_client_dangling_listener:
  assumes reg: "RegisterCallbackWrapper e (Some ci) sid st = Some (RETCODE_SUCCESS, st1)"
    and rem: "RemoveAdapterWrapper ops e' (Some ci) st1 = Some (RETCODE_SUCCESS, st2)"
  shows "\<exists>w h a. sv_workers st2 w = Some \<lparr>aw_handler = h, aw_clientId = ci_clientId ci, aw_adapter = a\<rparr> \<and>
    FindAdapter (ci_clientId ci) st1 = Some a \<and> sv_adapters st2 a = None \<and>
    FindClientListenerHandler (ci_clientId ci) st2 = Some h \<and>
    (\<forall>r. \<exists>st3. PushAsyncResponse (ci_clientId ci) r st2 = Some st3 \<and>
       AsyncProcessWorker_OneAction io_ops se send io0 timed_out added w st3 s = None)"
proof -
  let ?c = "ci_clientId ci"
  obtain a st0 s1 where a: "FindAdapter ?c st = Some a" and s1: "sv_saServerAdapters s1 = sv_saServerAdapters st"
    and start: "StartAsyncProcess e ?c a s1 = Some (RETCODE_SUCCESS, st0)" and dt: "AdapterGuard_dtor a st0 = Some st1"
  proof -
    obtain a g1 g2 where g: "FindAdapter ?c st = Some a" "AdapterGuard a st = Some g1"
        "upd_adapter a (SaveEngineListener sid) g1 = Some g2"
      using reg by (auto simp: RegisterCallbackWrapper_def binds case_option_Some)
    let ?s1 = "snd (RegisterAsyncHandler e ?c (snd (SaAsyncHandler_GetInstance e g2)))"
    have "same_both st g2" using same_both_trans [OF same_both_steps(3) [OF g(2)] same_both_steps(7) [OF g(3)]] .
    then have "sv_saServerAdapters ?s1 = sv_saServerAdapters st"
      by (auto simp: RegisterAsyncHandler_def AddClientListenerHandler_def SaAsyncHandler_GetInstance_def
          same_both_def same_clients_def Let_def)
    moreover obtain st0 where "StartAsyncProcess e ?c a ?s1 = Some (RETCODE_SUCCESS, st0)" "AdapterGuard_dtor a st0 = Some st1"
      using reg g by (auto simp: RegisterCallbackWrapper_def binds case_option_Some RegisterAsyncHandler_def split: if_splits)
    ultimately show thesis using that g(1) by blast
  qed
  obtain h where h: "sm_find (sv_clients s1) ?c = Some h" "StartAsyncProcessThread e h ?c a s1 = Some (RETCODE_SUCCESS, st0)"
    using start by (auto simp: StartAsyncProcess_def case_option_Some)
  obtain w lh where w: "sv_workers st0 w = Some \<lparr>aw_handler = h, aw_clientId = ?c, aw_adapter = a\<rparr>"
      "sv_handlers st0 h = Some lh" "sv_clients st0 = sv_clients s1" "sv_saServerAdapters st0 = sv_saServerAdapters s1"
    using StartAsyncProcessThread_success [OF h(2)] by blast
  have keep: "sv_workers st1 = sv_workers st0" "sv_handlers st1 = sv_handlers st0" "sv_clients st1 = sv_clients st0"
      "sv_saServerAdapters st1 = sv_saServerAdapters st0"
    using dt by (auto simp: AdapterGuard_dtor_def upd_adapter_def split: option.splits)
  have a1: "FindAdapter ?c st1 = Some a" using a s1 w(4) keep(4) by (simp add: FindAdapter_def)
  obtain u where u: "SaServerAdapter_Uninitialize ops e' a st1 = Some u" and
      st2: "st2 = u\<lparr>sv_adapters := (sv_adapters u)(a := None),
        sv_saServerAdapters := sm_erase ?c (sv_saServerAdapters u)\<rparr>"
    using rem a1 by (auto simp: RemoveAdapterWrapper_def FindAdapter_def SaServerAdapter_dtor_def binds)
  have facts: "sv_workers st2 w = Some \<lparr>aw_handler = h, aw_clientId = ?c, aw_adapter = a\<rparr>" "sv_handlers st2 h = Some lh"
      "FindClientListenerHandler ?c st2 = Some h" "sv_adapters st2 a = None"
    using Uninitialize_keeps [OF u] keep w h(1) by (simp_all add: st2 FindClientListenerHandler_def)
  have "\<exists>st3. PushAsyncResponse ?c r st2 = Some st3 \<and>
      AsyncProcessWorker_OneAction io_ops se send io0 timed_out added w st3 s = None" for r
  proof (intro exI conjI)
    let ?st3 = "st2\<lparr>sv_handlers := (sv_handlers st2)(h \<mapsto> AddCallbackRecord r lh)\<rparr>"
    show "PushAsyncResponse ?c r st2 = Some ?st3" using push_record facts by blast
    show "AsyncProcessWorker_OneAction io_ops se send io0 timed_out added w ?st3 s = None"
      using facts by (intro OneAction_dangling [of _ _ h ?c a "AddCallbackRecord r lh"])
        (auto simp: AddCallbackRecord_def Let_def)
  qed
  then show ?thesis using facts a1 by blast
qed

lemma demo_callback:
  "\<exists>st1 st2. RegisterCallbackWrapper (senv_good demo_env) (Some demo_client) 9 demo_server = Some (0, st1) \<and>
     RemoveAdapterWrapper demo_ops (senv_good demo_env) (Some demo_client) st1 = Some (0, st2)"
  by (simp add: RegisterCallbackWrapper_def RemoveAdapterWrapper_def FindAdapter_def demo_server_def demo_client_def
      server_init_def AdapterGuard_def AdapterGuard_dtor_def upd_adapter_def SaAsyncHandler_GetInstance_def senv_good_def
      RegisterAsyncHandler_def FindClientListenerHandler_def AddClientListenerHandler_def StartAsyncProcess_def
      StartAsyncProcessThread_def ClientListenerHandler_new_def ThreadPool_Pop_def exec_init_def ThreadPool_new_def
      demo_env_def upd_exec_def Thread_StartThread_def Thread_StartThread0_def Thread_new_def Thread_SetStackSize_def
      SetThread_def upd_thread_def upd_worker_def set_tsys_def upd_handler_def SaServerAdapter_dtor_def IncRef_def DecRef_def
      SaveEngineListener_def SaServerAdapter_new_def
      SaServerAdapter_Uninitialize_def GetEngineManager_def ServerExecutor_GetInstance_def ServerExecutor_Initialize_def
      EngineManager_Initialize_def Let_def)

theorem removed_client_dangling_listener_witness:
  "\<exists>st1 st2 w. RegisterCallbackWrapper (senv_good demo_env) (Some demo_client) 9 demo_server = Some (0, st1) \<and>
     RemoveAdapterWrapper demo_ops (senv_good demo_env) (Some demo_client) st1 = Some (0, st2) \<and>
     sv_workers st2 w \<noteq> None \<and>
     (\<exists>st3. PushAsyncResponse 3 (Response_new None) st2 = Some st3 \<and>
        AsyncProcessWorker_OneAction list_ipc shm_good (\<lambda>_ _. True) [] False [] w st3 shm_start = None)"
proof -
  from demo_callback obtain st1 st2 where
    r: "RegisterCallbackWrapper (senv_good demo_env) (Some demo_client) 9 demo_server = Some (0, st1)"
    and d: "RemoveAdapterWrapper demo_ops (senv_good demo_env) (Some demo_client) st1 = Some (0, st2)" by blast
  have c: "ci_clientId demo_client = 3" by (simp add: demo_client_def)
  from removed_client_dangling_listener [OF r d, of list_ipc shm_good "\<lambda>_ _. True" "[]" False "[]" shm_start]
  obtain w where "sv_workers st2 w \<noteq> None" "\<exists>st3. PushAsyncResponse 3 (Response_new None) st2 = Some st3 \<and>
        AsyncProcessWorker_OneAction list_ipc shm_good (\<lambda>_ _. True) [] False [] w st3 shm_start = None"
    unfolding c by fastforce
  then show ?thesis using r d by blast
qed

section \<open>From the plugin's event to the message\<close>

text \<open>
  The state in which the response to request \<open>req\<close> of transaction \<open>t\<close> is expected: its future is
  pending, the listener of its transaction knows the client, the client has a handler with
  the records \<open>rs\<close> and a worker with its adapter.
\<close>

record expected =
  xp_req :: Request
  xp_session :: int
  xp_client :: int
  xp_adapter :: nat
  xp_handler :: nat
  xp_worker :: nat

definition expects :: "expected \<Rightarrow> SaServerAdapter \<Rightarrow> Response list \<Rightarrow> 'p server \<Rightarrow> bool" where
  "expects x ad rs st \<longleftrightarrow>
     sv_adapters st (xp_adapter x) = Some ad \<and> client_id_ok (ad_adapterId ad) \<and> int32 (xp_session x) \<and>
     rq_transactionId (xp_req x) = GetTransactionId (xp_session x) ad \<and>
     ff_inv (ex_ff (sv_exec st)) \<and> ex_replies (sv_exec st) = [] \<and>
     (\<exists>f. sm_find (ff_futures (ex_ff (sv_exec st))) (rq_innerSequenceId (xp_req x)) = Some f \<and>
        fu_semaphore f = Semaphore_MakeShared 0) \<and>
     (\<exists>l. sm_find (ff_listeners (ex_ff (sv_exec st))) (rq_transactionId (xp_req x)) = Some l \<and>
        sv_listeners st l = Some (FutureListener_new (xp_client x))) \<and>
     FindClientListenerHandler (xp_client x) st = Some (xp_handler x) \<and>
     (\<exists>lh. sv_handlers st (xp_handler x) = Some lh \<and> records_ok lh \<and> cl_responses lh = rs) \<and>
     sv_workers st (xp_worker x) = Some \<lparr>aw_handler = xp_handler x, aw_clientId = xp_client x, aw_adapter = xp_adapter x\<rparr>"

definition response_to :: "Request \<Rightarrow> retcode \<Rightarrow> DataInfo \<Rightarrow> Response" where
  "response_to req rc data = (Response_new (Some req))\<lparr>rs_retCode := rc, rs_result := data\<rparr>"

lemma response_to_fields:
  "rs_innerSequenceId (response_to req rc data) = rq_innerSequenceId req"
  "rs_transactionId (response_to req rc data) = rq_transactionId req"
  "rs_requestId (response_to req rc data) = rq_requestId req"
  "rs_clientUid (response_to req rc data) = rq_clientUid req"
  "rs_retCode (response_to req rc data) = rc" "rs_result (response_to req rc data) = data"
  by (simp_all add: response_to_def Response_new_def Let_def)

text \<open>The event puts the response at the end of the records of the client.\<close>

lemma event_to_record:
  assumes x: "expects x ad rs st"
  shows "\<exists>y st1 lh. AsyncMsgHandler_OnEvent ev (Some (response_to (xp_req x) rc data)) (sv_exec st) = (RETCODE_SUCCESS, y) \<and>
    deliver_replies (upd_exec y st) = Some st1 \<and> sv_handlers st1 (xp_handler x) = Some lh \<and> records_ok lh \<and>
    cl_responses lh = rs @ [response_to (xp_req x) rc data] \<and>
    sv_adapters st1 = sv_adapters st \<and> sv_workers st1 = sv_workers st \<and> sv_clients st1 = sv_clients st"
proof -
  let ?res = "response_to (xp_req x) rc data" and ?ff = "ex_ff (sv_exec st)"
  obtain f l lh where f: "sm_find (ff_futures ?ff) (rq_innerSequenceId (xp_req x)) = Some f" "fu_semaphore f = Semaphore_MakeShared 0"
    and l: "sm_find (ff_listeners ?ff) (rq_transactionId (xp_req x)) = Some l" "sv_listeners st l = Some (FutureListener_new (xp_client x))"
    and lh: "sv_handlers st (xp_handler x) = Some lh" "records_ok lh" "cl_responses lh = rs"
    and rest: "FindClientListenerHandler (xp_client x) st = Some (xp_handler x)" "ex_replies (sv_exec st) = []"
    using x by (auto simp: expects_def)
  define g where "g = f\<lparr>fu_status := ConvertPluginStatus ev, fu_response := Some ?res, fu_semaphore := Semaphore_Signal (fu_semaphore f)\<rparr>"
  obtain ff' where pr: "ProcessResponse ev (Some ?res) ?ff = (RETCODE_SUCCESS, ff', Some (l, g))"
    using f(1) l(1) by (simp add: ProcessResponse_def FetchFuture_def FindListener_def Future_SetResponse_def g_def
        response_to_fields Let_def)
  define y where "y = (sv_exec st)\<lparr>ex_ff := ff', ex_replies := [(l, g)]\<rparr>"
  have ev: "AsyncMsgHandler_OnEvent ev (Some ?res) (sv_exec st) = (RETCODE_SUCCESS, y)"
    using pr rest(2) by (simp add: AsyncMsgHandler_OnEvent_def y_def)
  let ?st0 = "upd_exec (y\<lparr>ex_replies := []\<rparr>) (upd_exec y st)"
  let ?lh = "AddCallbackRecord ?res lh"
  have "Future_GetResponse 0 False g = Some (Some ?res, g\<lparr>fu_semaphore := Semaphore_MakeShared 0\<rparr>)"
    using f(2) by (simp add: Future_GetResponse_def g_def ISemaphore_Wait_def Semaphore_Wait_def Semaphore_Signal_def
        Semaphore_MakeShared_def)
  then have reply: "FutureListener_OnReply l (Some g) ?st0 = PushAsyncResponse (xp_client x) ?res ?st0"
    using l(2) by (simp add: FutureListener_OnReply_def upd_exec_def FutureListener_new_def)
  have "PushAsyncResponse (xp_client x) ?res ?st0 = Some (?st0\<lparr>sv_handlers := (sv_handlers st)(xp_handler x \<mapsto> ?lh)\<rparr>)"
    using push_record [of "xp_client x" ?st0 "xp_handler x" lh] rest(1) lh(1) by (simp add: upd_exec_def FindClientListenerHandler_def)
  then have "deliver_replies (upd_exec y st) = Some (?st0\<lparr>sv_handlers := (sv_handlers st)(xp_handler x \<mapsto> ?lh)\<rparr>)"
    using reply by (simp add: deliver_replies_def upd_exec_def y_def)
  moreover have "records_ok ?lh" "cl_responses ?lh = rs @ [?res]" using add_record [OF lh(2)] lh(3) by simp_all
  ultimately show ?thesis
    using ev by (intro exI [of _ y] exI [of _ "?st0\<lparr>sv_handlers := (sv_handlers st)(xp_handler x \<mapsto> ?lh)\<rparr>"] exI [of _ ?lh])
      (simp add: upd_exec_def)
qed

text \<open>The next action of the listener thread sends the first record: codes, session and result.\<close>

lemma record_to_message:
  assumes w: "sv_workers st w = Some \<lparr>aw_handler = h, aw_clientId = c, aw_adapter = a\<rparr>" "sv_adapters st a = Some ad"
    and lh: "sv_handlers st h = Some lh" "records_ok lh" "cl_responses lh = res # rs"
    and p: "ParcelDataInfo ops e (Some (rs_result res)) (rs_clientUid res)
      (Some (puts ops [Int32 (rs_retCode res), Int32 (rs_requestId res), Int32 (GetSessionId (rs_transactionId res))] io0)) s =
      Some (Some io, s')"
  shows "\<exists>st1 lh1. AsyncProcessWorker_OneAction ops e send io0 timed_out added w st s =
      Some (send (ad_svcIdentity ad) io, Some (ad_svcIdentity ad, io), st1, s') \<and>
    sv_handlers st1 h = Some lh1 \<and> records_ok lh1 \<and> cl_responses lh1 = rs"
proof -
  obtain lh1 where lh1: "pop_record lh = (Some res, lh1)" "records_ok lh1" "cl_responses lh1 = rs"
    using pop_record_ok [OF lh(2)] lh(3) by auto
  have fetch: "FetchCallbackRecord timed_out added lh = Some (Some res, lh1)"
    using lh(3) lh1(1) by (simp add: FetchCallbackRecord_def)
  have "AsyncProcessWorker_OneAction ops e send io0 timed_out added w st s =
      Some (send (ad_svcIdentity ad) io, Some (ad_svcIdentity ad, io), st\<lparr>sv_handlers := (sv_handlers st)(h \<mapsto> lh1)\<rparr>, s')"
    using w lh(1) fetch p by (simp add: AsyncProcessWorker_OneAction_def upd_handler_def IpcIoResponse_def Let_def
        GetEngineListener_def)
  then show ?thesis using lh1(2,3) by auto
qed

end
