(* ===== verification/SaClientProxy.thy ===== *)
theory SaClientProxy
  imports Ipc
begin

text \<open>
  The client's side of the IPC (services/client/communication_adapter: sa_client_proxy.cpp,
  sa_client.cpp): each function parcels its parameters into a request, has the IPC library
  call the server with it, and reads the reply in a callback. What lies between the two
  processes - the IPC library and the server behind it - is a function \<open>rpc\<close> from the function
  id and the request to the reply; no reply means that the call failed. The \<open>owner\<close> of a reply
  is memory of the caller, here in cells of four bytes; writing behind its end is \<open>None\<close>.
\<close>

section \<open>Calling the server\<close>

type_synonym ('io, 's) rpc = "int \<Rightarrow> 'io \<Rightarrow> 's \<times> shmsys \<Rightarrow> ('io option \<times> 's \<times> shmsys) option"

text \<open>What a call needs: the library, its empty message, and the system calls for segments.\<close>

record 'io ipc_env =
  ie_ops :: "'io ipc_ops"
  ie_empty :: 'io
  ie_shm :: shmenv

abbreviation (input) ID_INIT_ENGINE :: int where "ID_INIT_ENGINE \<equiv> 0"
abbreviation (input) ID_LOAD_ALGORITHM :: int where "ID_LOAD_ALGORITHM \<equiv> 1"
abbreviation (input) ID_SYNC_EXECUTE_ALGORITHM :: int where "ID_SYNC_EXECUTE_ALGORITHM \<equiv> 2"
abbreviation (input) ID_ASYNC_EXECUTE_ALGORITHM :: int where "ID_ASYNC_EXECUTE_ALGORITHM \<equiv> 3"
abbreviation (input) ID_UNLOAD_ALGORITHM :: int where "ID_UNLOAD_ALGORITHM \<equiv> 4"
abbreviation (input) ID_DESTROY_ENGINE :: int where "ID_DESTROY_ENGINE \<equiv> 5"
abbreviation (input) ID_SET_OPTION :: int where "ID_SET_OPTION \<equiv> 6"
abbreviation (input) ID_GET_OPTION :: int where "ID_GET_OPTION \<equiv> 7"
abbreviation (input) ID_REGISTER_CALLBACK :: int where "ID_REGISTER_CALLBACK \<equiv> 8"
abbreviation (input) ID_UNREGISTER_CALLBACK :: int where "ID_UNREGISTER_CALLBACK \<equiv> 9"

text \<open>
  \<open>Callback\<close> takes its owner for a \<open>NotificationInitServer\<close>, two cells. A cell is written when
  the reply has a value for it.
\<close>

definition write_cell :: "nat \<Rightarrow> int option \<Rightarrow> int list \<Rightarrow> int list option" where
  "write_cell i v cells =
     (case v of None \<Rightarrow> Some cells
      | Some x \<Rightarrow> if i < length cells then Some (cells[i := x]) else None)"

definition Callback :: "'io ipc_ops \<Rightarrow> int list option \<Rightarrow> 'io \<Rightarrow> (retcode \<times> int list option) option" where
  "Callback ops owner reply =
     (case owner of
        None \<Rightarrow> Some (RETCODE_NULL_PARAM, None)
      | Some cells \<Rightarrow>
          (let (clientId, r1) = io_ReadInt32 ops reply in
           do {
             cells1 \<leftarrow> write_cell 0 clientId cells;
             let (serverUid, r2) = io_ReadUint32 ops r1;
             cells2 \<leftarrow> write_cell 1 serverUid cells1;
             Some (RETCODE_SUCCESS, Some cells2)
           }))"

record NotifyBuff =
  nb_ipcRetCode :: retcode
  nb_retCode :: retcode
  nb_outLen :: int
  nb_outBuff :: "byte list option"

definition CallbackBuff ::
  "'io ipc_ops \<Rightarrow> shmenv \<Rightarrow> NotifyBuff option \<Rightarrow> 'io \<Rightarrow> shmsys \<Rightarrow> (retcode \<times> NotifyBuff option \<times> shmsys) option" where
  "CallbackBuff ops e owner reply s =
     (case owner of
        None \<Rightarrow> Some (RETCODE_NULL_PARAM, None, s)
      | Some notify \<Rightarrow>
          (let (ret, r1) = io_ReadInt32 ops reply;
               notify1 = notify\<lparr>nb_retCode := or_old ret (nb_retCode notify)\<rparr> in
           do {
             (ipc, p, r2, s1) \<leftarrow> UnParcelDataInfo ops e (Some r1) (Some empty_DataInfo) s;
             (d, freed) \<leftarrow> p;
             let notify2 = notify1\<lparr>nb_ipcRetCode := ipc\<rparr>;
             Some (ipc, Some (if ipc = RETCODE_SUCCESS
                              then notify2\<lparr>nb_outLen := di_length d, nb_outBuff := di_data d\<rparr>
                              else notify2\<lparr>nb_outLen := 0, nb_outBuff := None\<rparr>), s1)
           }))"

text \<open>
  The call itself with the owner \<open>Notify\<close> - one cell, \<open>RETCODE_FAILURE\<close> at first - and with a
  \<open>NotifyBuff\<close>; without a function in the proxy it fails.
\<close>

definition invoke_notify ::
  "'io ipc_env \<Rightarrow> ('io, 's) rpc option \<Rightarrow> int \<Rightarrow> 'io \<Rightarrow> 's \<times> shmsys \<Rightarrow> (retcode \<times> 's \<times> shmsys) option" where
  "invoke_notify ie proxy code request w =
     (case proxy of
        None \<Rightarrow> Some (RETCODE_NULL_PARAM, w)
      | Some invoke \<Rightarrow> do {
          (reply, w1) \<leftarrow> invoke code request w;
          case reply of
            None \<Rightarrow> Some (RETCODE_FAILURE, w1)
          | Some rp \<Rightarrow> do {
              (r, owner) \<leftarrow> Callback (ie_ops ie) (Some [RETCODE_FAILURE]) rp;
              cells \<leftarrow> owner;
              Some (hd cells, w1)
            }
        })"

definition invoke_buff ::
  "'io ipc_env \<Rightarrow> ('io, 's) rpc option \<Rightarrow> int \<Rightarrow> 'io \<Rightarrow> DataInfo \<Rightarrow> 's \<times> shmsys \<Rightarrow>
   (retcode \<times> DataInfo \<times> 's \<times> shmsys) option" where
  "invoke_buff ie proxy code request outputInfo w =
     (case proxy of
        None \<Rightarrow> Some (RETCODE_NULL_PARAM, outputInfo, w)
      | Some invoke \<Rightarrow> do {
          (reply, w1) \<leftarrow> invoke code request w;
          let owner = \<lparr>nb_ipcRetCode = RETCODE_SUCCESS, nb_retCode = RETCODE_FAILURE, nb_outLen = 0, nb_outBuff = None\<rparr>;
          (notify, w2) \<leftarrow> (case reply of
              None \<Rightarrow> Some (owner, w1)
            | Some rp \<Rightarrow> do {
                (r, o1, s1) \<leftarrow> CallbackBuff (ie_ops ie) (ie_shm ie) (Some owner) rp (snd w1);
                o2 \<leftarrow> o1;
                Some (o2, fst w1, s1)
              });
          if nb_ipcRetCode notify \<noteq> RETCODE_SUCCESS then Some (nb_ipcRetCode notify, outputInfo, w2)
          else Some (nb_retCode notify, \<lparr>di_data = nb_outBuff notify, di_length = nb_outLen notify\<rparr>, w2)
        })"

section \<open>Requests\<close>

definition client_request ::
  "'io ipc_env \<Rightarrow> ClientInfo \<Rightarrow> 'io \<Rightarrow> 's \<times> shmsys \<Rightarrow> ('io \<times> 's \<times> shmsys) option" where
  "client_request ie ci request w =
     do {
       (r1, s1) \<leftarrow> ParcelClientInfo (ie_ops ie) (ie_shm ie) ci request (snd w);
       io1 \<leftarrow> r1;
       Some (io1, fst w, s1)
     }"

definition data_request ::
  "'io ipc_env \<Rightarrow> ClientInfo \<Rightarrow> DataInfo \<Rightarrow> 'io \<Rightarrow> 's \<times> shmsys \<Rightarrow> ('io \<times> 's \<times> shmsys) option" where
  "data_request ie ci d request w =
     do {
       (r1, s1) \<leftarrow> ParcelDataInfo (ie_ops ie) (ie_shm ie) (Some d) (ci_serverUid ci) (Some request) (snd w);
       io1 \<leftarrow> r1;
       Some (io1, fst w, s1)
     }"

definition full_request ::
  "'io ipc_env \<Rightarrow> ClientInfo \<Rightarrow> AlgorithmInfo \<Rightarrow> DataInfo \<Rightarrow> 's \<times> shmsys \<Rightarrow> ('io \<times> 's \<times> shmsys) option" where
  "full_request ie ci ai d w =
     do {
       (io1, w1) \<leftarrow> client_request ie ci (ie_empty ie) w;
       (r2, s2) \<leftarrow> ParcelAlgorithmInfo (ie_ops ie) (ie_shm ie) ai (ci_serverUid ci) io1 (snd w1);
       io2 \<leftarrow> r2;
       data_request ie ci d io2 (fst w1, s2)
     }"

section \<open>The proxies\<close>

definition InitSaEngine ::
  "'io ipc_env \<Rightarrow> ('io, 's) rpc option \<Rightarrow> string \<Rightarrow> ClientInfo \<Rightarrow> 's \<times> shmsys \<Rightarrow>
   (retcode \<times> ClientInfo \<times> 's \<times> shmsys) option" where
  "InitSaEngine ie proxy description clientInfo w =
     (let request = io_WriteString (ie_ops ie) description (ie_empty ie);
          owner = [INVALID_CLIENT_ID, 0] in
      case proxy of
        None \<Rightarrow> Some (RETCODE_NULL_PARAM, clientInfo, w)
      | Some invoke \<Rightarrow> do {
          (reply, w1) \<leftarrow> invoke ID_INIT_ENGINE request w;
          cells \<leftarrow> (case reply of
              None \<Rightarrow> Some owner
            | Some rp \<Rightarrow> do { (r, o1) \<leftarrow> Callback (ie_ops ie) (Some owner) rp; o1 });
          Some (RETCODE_SUCCESS, clientInfo\<lparr>ci_clientId := cells ! 0, ci_serverUid := cells ! 1\<rparr>, w1)
        })"

definition DestroyEngineProxy ::
  "'io ipc_env \<Rightarrow> ('io, 's) rpc option \<Rightarrow> ClientInfo \<Rightarrow> 's \<times> shmsys \<Rightarrow> (retcode \<times> 's \<times> shmsys) option" where
  "DestroyEngineProxy ie proxy ci w =
     do { (request, w1) \<leftarrow> client_request ie ci (ie_empty ie) w; invoke_notify ie proxy ID_DESTROY_ENGINE request w1 }"

definition SyncExecAlgorithmProxy ::
  "'io ipc_env \<Rightarrow> ('io, 's) rpc option \<Rightarrow> ClientInfo \<Rightarrow> AlgorithmInfo \<Rightarrow> DataInfo \<Rightarrow> DataInfo \<Rightarrow> 's \<times> shmsys \<Rightarrow>
   (retcode \<times> DataInfo \<times> 's \<times> shmsys) option" where
  "SyncExecAlgorithmProxy ie proxy ci ai inp out0 w =
     do { (request, w1) \<leftarrow> full_request ie ci ai inp w;
          invoke_buff ie proxy ID_SYNC_EXECUTE_ALGORITHM request out0 w1 }"

definition AsyncExecuteAlgorithmProxy ::
  "'io ipc_env \<Rightarrow> ('io, 's) rpc option \<Rightarrow> ClientInfo \<Rightarrow> AlgorithmInfo \<Rightarrow> DataInfo \<Rightarrow> 's \<times> shmsys \<Rightarrow>
   (retcode \<times> 's \<times> shmsys) option" where
  "AsyncExecuteAlgorithmProxy ie proxy ci ai inp w =
     do { (request, w1) \<leftarrow> full_request ie ci ai inp w; invoke_notify ie proxy ID_ASYNC_EXECUTE_ALGORITHM request w1 }"

definition LoadAlgorithmProxy ::
  "'io ipc_env \<Rightarrow> ('io, 's) rpc option \<Rightarrow> ClientInfo \<Rightarrow> AlgorithmInfo \<Rightarrow> DataInfo \<Rightarrow> DataInfo \<Rightarrow> 's \<times> shmsys \<Rightarrow>
   (retcode \<times> DataInfo \<times> 's \<times> shmsys) option" where
  "LoadAlgorithmProxy ie proxy ci ai inp out0 w =
     do { (request, w1) \<leftarrow> full_request ie ci ai inp w; invoke_buff ie proxy ID_LOAD_ALGORITHM request out0 w1 }"

definition UnloadAlgorithmProxy ::
  "'io ipc_env \<Rightarrow> ('io, 's) rpc option \<Rightarrow> ClientInfo \<Rightarrow> AlgorithmInfo \<Rightarrow> DataInfo \<Rightarrow> 's \<times> shmsys \<Rightarrow>
   (retcode \<times> 's \<times> shmsys) option" where
  "UnloadAlgorithmProxy ie proxy ci ai inp w =
     do { (request, w1) \<leftarrow> full_request ie ci ai inp w; invoke_notify ie proxy ID_UNLOAD_ALGORITHM request w1 }"

definition option_request ::
  "'io ipc_env \<Rightarrow> ClientInfo \<Rightarrow> int \<Rightarrow> DataInfo \<Rightarrow> 's \<times> shmsys \<Rightarrow> ('io \<times> 's \<times> shmsys) option" where
  "option_request ie ci optionType inp w =
     do {
       (io1, w1) \<leftarrow> client_request ie ci (ie_empty ie) w;
       data_request ie ci inp (io_WriteInt32 (ie_ops ie) optionType io1) w1
     }"

definition SetOptionProxy ::
  "'io ipc_env \<Rightarrow> ('io, 's) rpc option \<Rightarrow> ClientInfo \<Rightarrow> int \<Rightarrow> DataInfo \<Rightarrow> 's \<times> shmsys \<Rightarrow> (retcode \<times> 's \<times> shmsys) option" where
  "SetOptionProxy ie proxy ci optionType inp w =
     do { (request, w1) \<leftarrow> option_request ie ci optionType inp w; invoke_notify ie proxy ID_SET_OPTION request w1 }"

definition GetOptionProxy ::
  "'io ipc_env \<Rightarrow> ('io, 's) rpc option \<Rightarrow> ClientInfo \<Rightarrow> int \<Rightarrow> DataInfo \<Rightarrow> DataInfo \<Rightarrow> 's \<times> shmsys \<Rightarrow>
   (retcode \<times> DataInfo \<times> 's \<times> shmsys) option" where
  "GetOptionProxy ie proxy ci optionType inp out0 w =
     do { (request, w1) \<leftarrow> option_request ie ci optionType inp w; invoke_buff ie proxy ID_GET_OPTION request out0 w1 }"

text \<open>\<open>sid\<close>: the identity of the process' object for callbacks.\<close>

definition RegisterCallbackProxy ::
  "'io ipc_env \<Rightarrow> ('io, 's) rpc option \<Rightarrow> nat \<Rightarrow> ClientInfo \<Rightarrow> 's \<times> shmsys \<Rightarrow> (retcode \<times> 's \<times> shmsys) option" where
  "RegisterCallbackProxy ie proxy sid ci w =
     (case io_WriteRemote (ie_ops ie) sid (ie_empty ie) of
        (False, io1) \<Rightarrow> Some (RETCODE_FAILURE, w)
      | (True, io1) \<Rightarrow> do {
          (request, w1) \<leftarrow> client_request ie ci io1 w;
          invoke_notify ie proxy ID_REGISTER_CALLBACK request w1
        })"

definition UnregisterCallbackProxy ::
  "'io ipc_env \<Rightarrow> ('io, 's) rpc option \<Rightarrow> ClientInfo \<Rightarrow> 's \<times> shmsys \<Rightarrow> (retcode \<times> 's \<times> shmsys) option" where
  "UnregisterCallbackProxy ie proxy ci w =
     do { (request, w1) \<leftarrow> client_request ie ci (ie_empty ie) w; invoke_notify ie proxy ID_UNREGISTER_CALLBACK request w1 }"

section \<open>Getting and giving back the proxy\<close>

text \<open>
  \<open>feature\<close> is what the service manager returns for the service's name, \<open>query\<close> its
  \<open>QueryInterface\<close>, which leaves the null pointer when it fails; \<open>release\<close> is the proxy's
  \<open>Release\<close>, which may be missing.
\<close>

definition GetRemoteIUnknown :: "'u option \<Rightarrow> ('u \<Rightarrow> 'p option) \<Rightarrow> 'p option" where
  "GetRemoteIUnknown feature query = (case feature of None \<Rightarrow> None | Some iUnknown \<Rightarrow> query iUnknown)"

definition ReleaseIUnknown :: "('w \<Rightarrow> 'w) option \<Rightarrow> 'w \<Rightarrow> 'w" where
  "ReleaseIUnknown release w = (case release of None \<Rightarrow> w | Some f \<Rightarrow> f w)"

end
