(* ===== verification/ClientExecutor.thy ===== *)
theory ClientExecutor
  imports SaClientProxy Threads
begin

text \<open>
  The client process (services/client: sa_client.cpp, sa_client_adapter.cpp and
  sa_async_handler.cpp of communication_adapter; client_factory.cpp, async_handler.cpp and
  i_aie_client.inl of client_executor): the connection to the server and the thread that
  keeps it, the sessions with their ids, and the callbacks of the sessions. A callback object
  of the application is a number; what is called on it is logged. \<open>None\<close> is undefined behaviour.
\<close>

section \<open>State\<close>

text \<open>
  The members of \<open>ClientFactory\<close> (\<open>fc\<close>), \<open>AsyncHandler\<close> (\<open>ah\<close>), \<open>SaClient\<close> (\<open>sc\<close>: the proxy once the
  server was found, and whether the callbacks are set - they are always \<open>SaClientCallback\<close> and
  \<open>SaDeathCallback\<close>) and \<open>SaClientAdapter\<close> (\<open>ca\<close>), which of the singletons exist, the threads of the
  process, the copies of the client information that the connection workers keep, and the
  logs of the application's callbacks.
\<close>

record ('io, 's) client =
  fc_clientId :: int
  fc_sessionId :: int
  fc_serverUid :: int
  fc_sessionInfos :: "(int \<times> int) list"
  ah_instance :: bool
  ah_mapCbMsg :: "(int \<times> nat) list"
  ah_deadCbs :: "(int \<times> nat) list"
  sc_instance :: bool
  sc_proxy :: "('io, 's) rpc option option"
  sc_ResultCb :: bool
  sc_deathCb :: bool
  ca_instance :: bool
  ca_thread :: "nat option"
  ca_worker :: "nat option"
  cp_tp :: ThreadPool
  cp_workers :: "nat \<Rightarrow> IWorker option"
  cp_infos :: "nat \<Rightarrow> (string \<times> ClientInfo) option"
  cp_next :: nat
  cp_results :: "(nat \<times> DataInfo \<times> retcode \<times> int) list"
  cp_deaths :: "nat list"

abbreviation (input) AIE_SESSION_ID_BEGIN :: int where "AIE_SESSION_ID_BEGIN \<equiv> 0"

definition client_init :: "('io, 's) client" where
  "client_init = \<lparr>fc_clientId = INVALID_CLIENT_ID, fc_sessionId = AIE_SESSION_ID_BEGIN, fc_serverUid = 0,
     fc_sessionInfos = [], ah_instance = False, ah_mapCbMsg = [], ah_deadCbs = [], sc_instance = False, sc_proxy = None,
     sc_ResultCb = False, sc_deathCb = False, ca_instance = False, ca_thread = None, ca_worker = None,
     cp_tp = ThreadPool_new, cp_workers = (\<lambda>_. None), cp_infos = (\<lambda>_. None), cp_next = 0, cp_results = [], cp_deaths = []\<rparr>"

text \<open>What can be allocated, the server found (with or without a function to call), threads and ids.\<close>

record ('io, 's) cenv =
  ce_ipc :: "'io ipc_env"
  ce_remote :: "('io, 's) rpc option option"
  ce_recipient :: bool
  ce_client :: bool
  ce_async :: bool
  ce_adapter :: bool
  ce_pool :: bool
  ce_new_thread :: bool
  ce_worker :: bool
  ce_create :: "nat option \<Rightarrow> int \<times> nat"
  ce_alive :: "nat \<Rightarrow> bool"
  ce_ends :: bool
  ce_uid :: int
  ce_sid :: nat

section \<open>The singletons\<close>

definition SaClient_GetInstance :: "('io, 's) cenv \<Rightarrow> ('io, 's) client \<Rightarrow> bool \<times> ('io, 's) client" where
  "SaClient_GetInstance e c = (if sc_instance c then (True, c) else (ce_client e, c\<lparr>sc_instance := ce_client e\<rparr>))"

definition SaClient_ReleaseInstance :: "('io, 's) client \<Rightarrow> ('io, 's) client" where
  "SaClient_ReleaseInstance c = c\<lparr>sc_instance := False, sc_proxy := None, sc_ResultCb := False, sc_deathCb := False\<rparr>"

definition ClientAsync_GetInstance :: "('io, 's) cenv \<Rightarrow> ('io, 's) client \<Rightarrow> bool \<times> ('io, 's) client" where
  "ClientAsync_GetInstance e c = (if ah_instance c then (True, c) else (ce_async e, c\<lparr>ah_instance := ce_async e\<rparr>))"

definition ClientAsync_ReleaseInstance :: "('io, 's) client \<Rightarrow> ('io, 's) client" where
  "ClientAsync_ReleaseInstance c = c\<lparr>ah_instance := False, ah_mapCbMsg := [], ah_deadCbs := []\<rparr>"

definition SaClientAdapter_GetInstance :: "('io, 's) cenv \<Rightarrow> ('io, 's) client \<Rightarrow> bool \<times> ('io, 's) client" where
  "SaClientAdapter_GetInstance e c = (if ca_instance c then (True, c) else (ce_adapter e, c\<lparr>ca_instance := ce_adapter e\<rparr>))"

text \<open>The adapter is deleted with its members; the next one starts anew.\<close>

definition SaClientAdapter_ReleaseInstance :: "('io, 's) client \<Rightarrow> ('io, 's) client" where
  "SaClientAdapter_ReleaseInstance c =
     c\<lparr>ca_instance := False, ca_thread := None, ca_worker := None, fc_clientId := INVALID_CLIENT_ID,
       fc_sessionId := AIE_SESSION_ID_BEGIN, fc_serverUid := 0, fc_sessionInfos := []\<rparr>"

section \<open>SaClient\<close>

text \<open>Without a proxy an operation fails.\<close>

definition with_proxy ::
  "('io, 's) client \<Rightarrow> 'a \<Rightarrow> (('io, 's) rpc option \<Rightarrow> 'a option) \<Rightarrow> 'a option" where
  "with_proxy c failed f = (case sc_proxy c of None \<Rightarrow> Some failed | Some proxy \<Rightarrow> f proxy)"

definition SaClient_Init ::
  "('io, 's) cenv \<Rightarrow> string \<Rightarrow> ClientInfo \<Rightarrow> ('io, 's) client \<Rightarrow> 's \<times> shmsys \<Rightarrow>
   (retcode \<times> ClientInfo \<times> ('io, 's) client \<times> 's \<times> shmsys) option" where
  "SaClient_Init e description ci c w =
     (let c1 = c\<lparr>sc_proxy := ce_remote e\<rparr> in
      case ce_remote e of
        None \<Rightarrow> Some (RETCODE_SA_SERVICE_EXCEPTION, ci, c1, w)
      | Some proxy \<Rightarrow> do {
          (retCode, ci1, w1) \<leftarrow> InitSaEngine (ce_ipc e) proxy description ci w;
          if retCode \<noteq> RETCODE_SUCCESS \<or> ci_clientId ci1 = INVALID_CLIENT_ID
          then Some (RETCODE_FAILURE, ci1, c1\<lparr>sc_proxy := None\<rparr>, w1)
          else if \<not> ce_recipient e then Some (RETCODE_FAILURE, ci1, c1, w1)
          else Some (RETCODE_SUCCESS, ci1, c1, w1)
        })"

definition SaClient_LoadAlgorithm ::
  "('io, 's) cenv \<Rightarrow> ClientInfo \<Rightarrow> AlgorithmInfo \<Rightarrow> DataInfo \<Rightarrow> DataInfo \<Rightarrow> ('io, 's) client \<Rightarrow> 's \<times> shmsys \<Rightarrow>
   (retcode \<times> DataInfo \<times> 's \<times> shmsys) option" where
  "SaClient_LoadAlgorithm e ci ai inp out c w =
     with_proxy c (RETCODE_SA_SERVICE_EXCEPTION, out, w) (\<lambda>proxy. LoadAlgorithmProxy (ce_ipc e) proxy ci ai inp out w)"

definition SaClient_SyncExecuteAlgorithm ::
  "('io, 's) cenv \<Rightarrow> ClientInfo \<Rightarrow> AlgorithmInfo \<Rightarrow> DataInfo \<Rightarrow> DataInfo \<Rightarrow> ('io, 's) client \<Rightarrow> 's \<times> shmsys \<Rightarrow>
   (retcode \<times> DataInfo \<times> 's \<times> shmsys) option" where
  "SaClient_SyncExecuteAlgorithm e ci ai inp out c w =
     with_proxy c (RETCODE_SA_SERVICE_EXCEPTION, out, w) (\<lambda>proxy. SyncExecAlgorithmProxy (ce_ipc e) proxy ci ai inp out w)"

definition SaClient_AsyncExecuteAlgorithm ::
  "('io, 's) cenv \<Rightarrow> ClientInfo \<Rightarrow> AlgorithmInfo \<Rightarrow> DataInfo \<Rightarrow> ('io, 's) client \<Rightarrow> 's \<times> shmsys \<Rightarrow>
   (retcode \<times> 's \<times> shmsys) option" where
  "SaClient_AsyncExecuteAlgorithm e ci ai inp c w =
     with_proxy c (RETCODE_SA_SERVICE_EXCEPTION, w) (\<lambda>proxy. AsyncExecuteAlgorithmProxy (ce_ipc e) proxy ci ai inp w)"

definition SaClient_UnloadAlgorithm ::
  "('io, 's) cenv \<Rightarrow> ClientInfo \<Rightarrow> AlgorithmInfo \<Rightarrow> DataInfo \<Rightarrow> ('io, 's) client \<Rightarrow> 's \<times> shmsys \<Rightarrow>
   (retcode \<times> 's \<times> shmsys) option" where
  "SaClient_UnloadAlgorithm e ci ai inp c w =
     with_proxy c (RETCODE_SA_SERVICE_EXCEPTION, w) (\<lambda>proxy. UnloadAlgorithmProxy (ce_ipc e) proxy ci ai inp w)"

definition SaClient_Destroy ::
  "('io, 's) cenv \<Rightarrow> ClientInfo \<Rightarrow> ('io, 's) client \<Rightarrow> 's \<times> shmsys \<Rightarrow>
   (retcode \<times> ('io, 's) client \<times> 's \<times> shmsys) option" where
  "SaClient_Destroy e ci c w =
     with_proxy c (RETCODE_SA_SERVICE_EXCEPTION, c, w) (\<lambda>proxy.
       do { (r, w1) \<leftarrow> DestroyEngineProxy (ce_ipc e) proxy ci w; Some (r, c\<lparr>sc_proxy := None\<rparr>, w1) })"

definition SaClient_SetOption ::
  "('io, 's) cenv \<Rightarrow> ClientInfo \<Rightarrow> int \<Rightarrow> DataInfo \<Rightarrow> ('io, 's) client \<Rightarrow> 's \<times> shmsys \<Rightarrow> (retcode \<times> 's \<times> shmsys) option" where
  "SaClient_SetOption e ci opt inp c w =
     with_proxy c (RETCODE_SA_SERVICE_EXCEPTION, w) (\<lambda>proxy. SetOptionProxy (ce_ipc e) proxy ci opt inp w)"

definition SaClient_GetOption ::
  "('io, 's) cenv \<Rightarrow> ClientInfo \<Rightarrow> int \<Rightarrow> DataInfo \<Rightarrow> DataInfo \<Rightarrow> ('io, 's) client \<Rightarrow> 's \<times> shmsys \<Rightarrow>
   (retcode \<times> DataInfo \<times> 's \<times> shmsys) option" where
  "SaClient_GetOption e ci opt inp out c w =
     with_proxy c (RETCODE_SA_SERVICE_EXCEPTION, out, w) (\<lambda>proxy. GetOptionProxy (ce_ipc e) proxy ci opt inp out w)"

definition SaClient_RegisterCallback ::
  "('io, 's) cenv \<Rightarrow> ClientInfo \<Rightarrow> ('io, 's) client \<Rightarrow> 's \<times> shmsys \<Rightarrow> (retcode \<times> 's \<times> shmsys) option" where
  "SaClient_RegisterCallback e ci c w =
     with_proxy c (RETCODE_SA_SERVICE_EXCEPTION, w) (\<lambda>proxy. RegisterCallbackProxy (ce_ipc e) proxy (ce_sid e) ci w)"

definition SaClient_UnregisterCallback ::
  "('io, 's) cenv \<Rightarrow> ClientInfo \<Rightarrow> ('io, 's) client \<Rightarrow> 's \<times> shmsys \<Rightarrow> (retcode \<times> 's \<times> shmsys) option" where
  "SaClient_UnregisterCallback e ci c w =
     with_proxy c (RETCODE_SA_SERVICE_EXCEPTION, w) (\<lambda>proxy. UnregisterCallbackProxy (ce_ipc e) proxy ci w)"

section \<open>The sessions' callbacks\<close>

text \<open>\<open>insert\<close> of a \<open>std::map\<close> keeps the entry that is there.\<close>

definition sm_insert :: "'k::linorder \<Rightarrow> 'v \<Rightarrow> ('k \<times> 'v) list \<Rightarrow> ('k \<times> 'v) list" where
  "sm_insert k v m = (if sm_find m k = None then sm_put k v m else m)"

definition AsyncHandler_RegisterCb :: "int \<Rightarrow> nat option \<Rightarrow> ('io, 's) client \<Rightarrow> retcode \<times> ('io, 's) client" where
  "AsyncHandler_RegisterCb sessionId cb c =
     (RETCODE_SUCCESS, case cb of None \<Rightarrow> c | Some f \<Rightarrow> c\<lparr>ah_mapCbMsg := sm_insert sessionId f (ah_mapCbMsg c)\<rparr>)"

definition AsyncHandler_UnRegisterCb :: "int \<Rightarrow> ('io, 's) client \<Rightarrow> retcode \<times> ('io, 's) client" where
  "AsyncHandler_UnRegisterCb sessionId c =
     (if sm_find (ah_mapCbMsg c) sessionId = None then (RETCODE_FAILURE, c)
      else (RETCODE_SUCCESS, c\<lparr>ah_mapCbMsg := sm_erase sessionId (ah_mapCbMsg c)\<rparr>))"

definition AsyncHandler_RegisterDeadCb :: "int \<Rightarrow> nat option \<Rightarrow> ('io, 's) client \<Rightarrow> retcode \<times> ('io, 's) client" where
  "AsyncHandler_RegisterDeadCb sessionId cb c =
     (RETCODE_SUCCESS, case cb of None \<Rightarrow> c | Some f \<Rightarrow> c\<lparr>ah_deadCbs := sm_insert sessionId f (ah_deadCbs c)\<rparr>)"

definition AsyncHandler_UnRegisterDeadCb :: "int \<Rightarrow> ('io, 's) client \<Rightarrow> retcode \<times> ('io, 's) client" where
  "AsyncHandler_UnRegisterDeadCb sessionId c = (RETCODE_SUCCESS, c\<lparr>ah_deadCbs := sm_erase sessionId (ah_deadCbs c)\<rparr>)"

definition FindCb :: "int \<Rightarrow> ('io, 's) client \<Rightarrow> nat option" where
  "FindCb sessionId c = sm_find (ah_mapCbMsg c) sessionId"

definition IsCallbackEmpty :: "('io, 's) client \<Rightarrow> bool" where
  "IsCallbackEmpty c \<longleftrightarrow> ah_mapCbMsg c = []"

definition GetAsyncCbSize :: "('io, 's) client \<Rightarrow> nat" where
  "GetAsyncCbSize c = length (ah_mapCbMsg c)"

definition AsyncHandler_OnResult ::
  "int \<Rightarrow> DataInfo \<Rightarrow> retcode \<Rightarrow> int \<Rightarrow> ('io, 's) client \<Rightarrow> ('io, 's) client" where
  "AsyncHandler_OnResult sessionId result resultCode requestId c =
     (case FindCb sessionId c of
        None \<Rightarrow> c
      | Some cb \<Rightarrow> c\<lparr>cp_results := cp_results c @ [(cb, result, resultCode, requestId)]\<rparr>)"

definition AsyncHandler_OnDead :: "('io, 's) client \<Rightarrow> ('io, 's) client" where
  "AsyncHandler_OnDead c = c\<lparr>cp_deaths := cp_deaths c @ map snd (ah_deadCbs c)\<rparr>"

text \<open>The process-wide callbacks of \<open>SaClient\<close>: whether they are set.\<close>

definition RegisterSaClientCb :: "('io, 's) client \<Rightarrow> ('io, 's) client" where [simp]:
  "RegisterSaClientCb c = c\<lparr>sc_ResultCb := True\<rparr>"

definition UnRegisterSaClientCb :: "('io, 's) client \<Rightarrow> ('io, 's) client" where [simp]:
  "UnRegisterSaClientCb c = c\<lparr>sc_ResultCb := False\<rparr>"

definition GetSaClientResultCb :: "('io, 's) client \<Rightarrow> bool" where [simp]:
  "GetSaClientResultCb c = sc_ResultCb c"

definition RegisterSaDeathCb :: "('io, 's) client \<Rightarrow> ('io, 's) client" where [simp]:
  "RegisterSaDeathCb c = c\<lparr>sc_deathCb := True\<rparr>"

definition UnRegisterSaDeathCb :: "('io, 's) client \<Rightarrow> ('io, 's) client" where [simp]:
  "UnRegisterSaDeathCb c = c\<lparr>sc_deathCb := False\<rparr>"

definition GetSaDeathResultCb :: "('io, 's) client \<Rightarrow> bool" where [simp]:
  "GetSaDeathResultCb c = sc_deathCb c"

definition set_sc_cb :: "('io, 's) cenv \<Rightarrow> (('io, 's) client \<Rightarrow> ('io, 's) client) \<Rightarrow> ('io, 's) client \<Rightarrow> retcode \<times> ('io, 's) client" where
  "set_sc_cb e f c = (let (ok, c1) = SaClient_GetInstance e c in if \<not> ok then (RETCODE_NULL_PARAM, c1) else (RETCODE_SUCCESS, f c1))"

definition RegisterAsyncClientCb :: "('io, 's) cenv \<Rightarrow> ('io, 's) client \<Rightarrow> retcode \<times> ('io, 's) client" where
  "RegisterAsyncClientCb e = set_sc_cb e RegisterSaClientCb"

definition UnRegisterAsyncClientCb :: "('io, 's) cenv \<Rightarrow> ('io, 's) client \<Rightarrow> retcode \<times> ('io, 's) client" where
  "UnRegisterAsyncClientCb e = set_sc_cb e UnRegisterSaClientCb"

definition RegisterServiceDeathCb :: "('io, 's) cenv \<Rightarrow> ('io, 's) client \<Rightarrow> retcode \<times> ('io, 's) client" where
  "RegisterServiceDeathCb e = set_sc_cb e RegisterSaDeathCb"

definition UnRegisterServiceDeathCb :: "('io, 's) cenv \<Rightarrow> ('io, 's) client \<Rightarrow> retcode \<times> ('io, 's) client" where
  "UnRegisterServiceDeathCb e = set_sc_cb e UnRegisterSaDeathCb"

section \<open>The connection\<close>

definition SetClientId :: "int \<Rightarrow> ('io, 's) client \<Rightarrow> ('io, 's) client" where
  "SetClientId clientId c = c\<lparr>fc_clientId := clientId\<rparr>"

definition GetClientId :: "('io, 's) client \<Rightarrow> int" where "GetClientId c = fc_clientId c"

definition SetServerUid :: "int \<Rightarrow> ('io, 's) client \<Rightarrow> ('io, 's) client" where
  "SetServerUid uid c = c\<lparr>fc_serverUid := uid\<rparr>"

definition GetServerUid :: "('io, 's) client \<Rightarrow> int" where "GetServerUid c = fc_serverUid c"

text \<open>A worker keeps copies of the configuration and of the client information. The first result: whether it goes on.\<close>

definition ConnectMgrWorker_OneAction ::
  "('io, 's) cenv \<Rightarrow> nat \<Rightarrow> ('io, 's) client \<Rightarrow> 's \<times> shmsys \<Rightarrow> (bool \<times> ('io, 's) client \<times> 's \<times> shmsys) option" where
  "ConnectMgrWorker_OneAction e wk c w =
     (let (ok, c1) = SaClientAdapter_GetInstance e c in
      if \<not> ok then Some (False, c1, w)
      else if GetClientId c1 \<noteq> INVALID_CLIENT_ID then Some (True, c1, w)
      else (let (ok2, c2) = SaClient_GetInstance e c1 in
            if \<not> ok2 then Some (False, c2, w)
            else do {
              (description, ci) \<leftarrow> cp_infos c2 wk;
              (retCode, ci1, c3, w1) \<leftarrow> SaClient_Init e description ci c2 w;
              let c4 = c3\<lparr>cp_infos := (cp_infos c3)(wk \<mapsto> (description, ci1))\<rparr>;
              if retCode \<noteq> RETCODE_SUCCESS \<or> ci_clientId ci1 = INVALID_CLIENT_ID then Some (True, c4, w1)
              else Some (True, SetServerUid (ci_serverUid ci1) (SetClientId (ci_clientId ci1) c4), w1)
            }))"

definition ConnectMgrWorker_Uninitialize ::
  "('io, 's) cenv \<Rightarrow> nat \<Rightarrow> ('io, 's) client \<Rightarrow> 's \<times> shmsys \<Rightarrow> (('io, 's) client \<times> 's \<times> shmsys) option" where
  "ConnectMgrWorker_Uninitialize e wk c w =
     (let (ok, c1) = SaClient_GetInstance e c in
      if \<not> ok then Some (c1, w)
      else (let (ok2, c2) = SaClientAdapter_GetInstance e c1 in
            if \<not> ok2 then Some (c2, w)
            else do {
              (description, ci) \<leftarrow> cp_infos c2 wk;
              (retCode, c3, w1) \<leftarrow> SaClient_Destroy e ci c2 w;
              Some (SetClientId INVALID_CLIENT_ID c3, w1)
            }))"

definition set_conn_threads :: "tsys \<Rightarrow> ('io, 's) client \<Rightarrow> ('io, 's) client" where
  "set_conn_threads s c = c\<lparr>cp_tp := (cp_tp c)\<lparr>tp_heap := ts_threads s\<rparr>, cp_workers := ts_workers s\<rparr>"

definition delete_conn_worker :: "nat \<Rightarrow> ('io, 's) client \<Rightarrow> ('io, 's) client" where
  "delete_conn_worker wk c = c\<lparr>cp_workers := (cp_workers c)(wk := None), cp_infos := (cp_infos c)(wk := None)\<rparr>"

definition InitAiServer ::
  "('io, 's) cenv \<Rightarrow> string \<Rightarrow> ClientInfo \<Rightarrow> ('io, 's) client \<Rightarrow> (retcode \<times> ('io, 's) client) option" where
  "InitAiServer e description ci c =
     (if \<not> ce_pool e then Some (RETCODE_OUT_OF_MEMORY, c)
      else (let (tao, tp') = ThreadPool_Pop (ce_new_thread e) (cp_tp c);
                c1 = c\<lparr>cp_tp := tp', ca_thread := tao\<rparr> in
            case tao of
              None \<Rightarrow> Some (RETCODE_OUT_OF_MEMORY, c1)
            | Some ta \<Rightarrow>
                if \<not> ce_worker e then
                  do { tp2 \<leftarrow> ThreadPool_Push (ce_alive e, ce_ends e) ta tp';
                       Some (RETCODE_OUT_OF_MEMORY, c1\<lparr>cp_tp := tp2, ca_thread := None, ca_worker := None\<rparr>) }
                else do {
                  let wk = cp_next c1;
                  let c2 = c1\<lparr>cp_workers := (cp_workers c1)(wk \<mapsto> IWorker_new),
                              cp_infos := (cp_infos c1)(wk \<mapsto> (description, ci)), cp_next := Suc wk, ca_worker := Some wk\<rparr>;
                  (ok, s) \<leftarrow> Thread_StartThread (ce_create e) ta (Some wk)
                     \<lparr>ts_threads = tp_heap (cp_tp c2), ts_workers = cp_workers c2\<rparr>;
                  let c3 = set_conn_threads s c2;
                  if \<not> ok then
                    do { tp2 \<leftarrow> ThreadPool_Push (ce_alive e, ce_ends e) ta (cp_tp c3);
                         Some (RETCODE_START_THREAD_FAILED,
                           (delete_conn_worker wk c3)\<lparr>cp_tp := tp2, ca_thread := None, ca_worker := None\<rparr>) }
                  else Some (RETCODE_SUCCESS, c3)
                }))"

text \<open>The thread of the connection: a round of it, and its end when an action says so.\<close>

definition conn_running :: "('io, 's) client \<Rightarrow> (nat \<times> nat) option" where
  "conn_running c =
     do { ta \<leftarrow> ca_thread c; wk \<leftarrow> ca_worker c; t \<leftarrow> tp_heap (cp_tp c) ta;
          if th_status t = RUNNING then Some (ta, wk) else None }"

definition conn_round ::
  "('io, 's) cenv \<Rightarrow> ('io, 's) client \<Rightarrow> 's \<times> shmsys \<Rightarrow> (('io, 's) client \<times> 's \<times> shmsys) option" where
  "conn_round e c w =
     (case conn_running c of
        None \<Rightarrow> Some (c, w)
      | Some (ta, wk) \<Rightarrow> do {
          (go_on, c1, w1) \<leftarrow> ConnectMgrWorker_OneAction e wk c w;
          if go_on then Some (c1, w1)
          else ConnectMgrWorker_Uninitialize e wk
                 (c1\<lparr>cp_tp := (cp_tp c1)\<lparr>tp_heap := (tp_heap (cp_tp c1))
                    (ta := map_option (\<lambda>t. t\<lparr>th_status := STOPPED\<rparr>) (tp_heap (cp_tp c1) ta))\<rparr>\<rparr>) w1
        })"

fun conn_rounds ::
  "('io, 's) cenv \<Rightarrow> nat \<Rightarrow> ('io, 's) client \<Rightarrow> 's \<times> shmsys \<Rightarrow> (('io, 's) client \<times> 's \<times> shmsys) option" where
  "conn_rounds e 0 c w = Some (c, w)"
| "conn_rounds e (Suc k) c w = do { (c1, w1) \<leftarrow> conn_round e c w; conn_rounds e k c1 w1 }"

text \<open>
  Closing stops the thread: one that still runs ends with \<open>Uninitialize\<close>, and is joined.
  \<open>None\<close> also when the thread never ends.
\<close>

definition CloseAiServer ::
  "('io, 's) cenv \<Rightarrow> ('io, 's) client \<Rightarrow> 's \<times> shmsys \<Rightarrow> (retcode \<times> ('io, 's) client \<times> 's \<times> shmsys) option" where
  "CloseAiServer e c w =
     (case ca_thread c of
        None \<Rightarrow> Some (RETCODE_FAILURE, c, w)
      | Some ta \<Rightarrow> do {
          t \<leftarrow> tp_heap (cp_tp c) ta;
          (c1, w1) \<leftarrow> (if IsActive (ce_alive e) t
                      then case ca_worker c of None \<Rightarrow> Some (c, w) | Some wk \<Rightarrow> ConnectMgrWorker_Uninitialize e wk c w
                      else Some (c, w));
          t1 \<leftarrow> Thread_StopThread (ce_alive e) (ce_ends e) t;
          let c2 = c1\<lparr>cp_tp := (cp_tp c1)\<lparr>tp_heap := (tp_heap (cp_tp c1))(ta \<mapsto> t1)\<rparr>\<rparr>;
          if \<not> ce_pool e then Some (RETCODE_OUT_OF_MEMORY, c2, w1)
          else do {
            tp' \<leftarrow> ThreadPool_Push (ce_alive e, ce_ends e) ta (cp_tp c2);
            let c3 = c2\<lparr>cp_tp := tp'\<rparr>;
            let c4 = (case ca_worker c3 of None \<Rightarrow> c3 | Some wk \<Rightarrow> delete_conn_worker wk c3);
            Some (RETCODE_SUCCESS, c4\<lparr>ca_worker := None, ca_thread := None\<rparr>, w1)
          }
        })"

section \<open>SaClientAdapter\<close>

definition SCA_LoadAlgorithm ::
  "('io, 's) cenv \<Rightarrow> ClientInfo \<Rightarrow> AlgorithmInfo \<Rightarrow> DataInfo \<Rightarrow> DataInfo \<Rightarrow> ('io, 's) client \<Rightarrow> 's \<times> shmsys \<Rightarrow>
   (retcode \<times> DataInfo \<times> ('io, 's) client \<times> 's \<times> shmsys) option" where
  "SCA_LoadAlgorithm e ci ai inp out c w =
     (let (ok, c1) = SaClient_GetInstance e c in
      if \<not> ok then Some (RETCODE_NULL_PARAM, out, c1, w)
      else (let (ok2, c2) = ClientAsync_GetInstance e c1 in
            if \<not> ok2 then Some (RETCODE_OUT_OF_MEMORY, out, c2, w)
            else do {
              (r, w1) \<leftarrow> (if ai_isAsync ai \<and> GetAsyncCbSize c2 = 1 then SaClient_RegisterCallback e ci c2 w
                        else Some (RETCODE_SUCCESS, w));
              if r \<noteq> RETCODE_SUCCESS then Some (RETCODE_FAILURE, out, c2, w1)
              else do { (ret, out1, w2) \<leftarrow> SaClient_LoadAlgorithm e ci ai inp out c2 w1; Some (ret, out1, c2, w2) }
            }))"

definition SCA_UnLoadAlgorithm ::
  "('io, 's) cenv \<Rightarrow> ClientInfo \<Rightarrow> AlgorithmInfo \<Rightarrow> DataInfo \<Rightarrow> ('io, 's) client \<Rightarrow> 's \<times> shmsys \<Rightarrow>
   (retcode \<times> ('io, 's) client \<times> 's \<times> shmsys) option" where
  "SCA_UnLoadAlgorithm e ci ai inp c w =
     (let (ok, c1) = SaClient_GetInstance e c in
      if \<not> ok then Some (RETCODE_NULL_PARAM, c1, w)
      else (let (ok2, c2) = ClientAsync_GetInstance e c1 in
            if \<not> ok2 then Some (RETCODE_NULL_PARAM, c2, w)
            else do {
              (r, w1) \<leftarrow> (if ai_isAsync ai \<and> IsCallbackEmpty c2 then SaClient_UnregisterCallback e ci c2 w
                        else Some (RETCODE_SUCCESS, w));
              if r \<noteq> RETCODE_SUCCESS then Some (RETCODE_FAILURE, c2, w1)
              else do { (ret, w2) \<leftarrow> SaClient_UnloadAlgorithm e ci ai inp c2 w1; Some (ret, c2, w2) }
            }))"

text \<open>The other calls are passed on to \<open>SaClient\<close>.\<close>

definition with_client ::
  "('io, 's) cenv \<Rightarrow> (retcode \<Rightarrow> 'a) \<Rightarrow> (('io, 's) client \<Rightarrow> 'a option) \<Rightarrow> ('io, 's) client \<Rightarrow> ('a \<times> ('io, 's) client) option" where
  "with_client e failed f c =
     (let (ok, c1) = SaClient_GetInstance e c in
      if \<not> ok then Some (failed RETCODE_NULL_PARAM, c1) else map_option (\<lambda>r. (r, c1)) (f c1))"

definition SCA_SyncExecute ::
  "('io, 's) cenv \<Rightarrow> ClientInfo \<Rightarrow> AlgorithmInfo \<Rightarrow> DataInfo \<Rightarrow> DataInfo \<Rightarrow> ('io, 's) client \<Rightarrow> 's \<times> shmsys \<Rightarrow>
   ((retcode \<times> DataInfo \<times> 's \<times> shmsys) \<times> ('io, 's) client) option" where
  "SCA_SyncExecute e ci ai inp out c w =
     with_client e (\<lambda>r. (r, out, w)) (\<lambda>c1. SaClient_SyncExecuteAlgorithm e ci ai inp out c1 w) c"

definition SCA_AsyncExecute ::
  "('io, 's) cenv \<Rightarrow> ClientInfo \<Rightarrow> AlgorithmInfo \<Rightarrow> DataInfo \<Rightarrow> ('io, 's) client \<Rightarrow> 's \<times> shmsys \<Rightarrow>
   ((retcode \<times> 's \<times> shmsys) \<times> ('io, 's) client) option" where
  "SCA_AsyncExecute e ci ai inp c w =
     with_client e (\<lambda>r. (r, w)) (\<lambda>c1. SaClient_AsyncExecuteAlgorithm e ci ai inp c1 w) c"

definition SCA_SetOption ::
  "('io, 's) cenv \<Rightarrow> ClientInfo \<Rightarrow> int \<Rightarrow> DataInfo \<Rightarrow> ('io, 's) client \<Rightarrow> 's \<times> shmsys \<Rightarrow>
   ((retcode \<times> 's \<times> shmsys) \<times> ('io, 's) client) option" where
  "SCA_SetOption e ci opt inp c w = with_client e (\<lambda>r. (r, w)) (\<lambda>c1. SaClient_SetOption e ci opt inp c1 w) c"

definition SCA_GetOption ::
  "('io, 's) cenv \<Rightarrow> ClientInfo \<Rightarrow> int \<Rightarrow> DataInfo \<Rightarrow> DataInfo \<Rightarrow> ('io, 's) client \<Rightarrow> 's \<times> shmsys \<Rightarrow>
   ((retcode \<times> DataInfo \<times> 's \<times> shmsys) \<times> ('io, 's) client) option" where
  "SCA_GetOption e ci opt inp out c w = with_client e (\<lambda>r. (r, out, w)) (\<lambda>c1. SaClient_GetOption e ci opt inp out c1 w) c"

section \<open>Sessions\<close>

abbreviation MAXIMUM_NUMBER_OF_SESSION :: nat where "MAXIMUM_NUMBER_OF_SESSION \<equiv> 100"
abbreviation CHECK_CONNECTION_TIMES :: nat where "CHECK_CONNECTION_TIMES \<equiv> 100"

text \<open>\<open>None\<close>: the loop does not end.\<close>

definition GenerateSessionId :: "('io, 's) client \<Rightarrow> (int \<times> ('io, 's) client) option" where
  "GenerateSessionId c =
     (if length (fc_sessionInfos c) > MAXIMUM_NUMBER_OF_SESSION then Some (INVALID_SESSION_ID, c)
      else map_option (\<lambda>i. (i, c\<lparr>fc_sessionId := i\<rparr>))
             (find_free_id 32 AIE_SESSION_ID_BEGIN (\<lambda>i. sm_find (fc_sessionInfos c) i \<noteq> None) (fc_sessionId c)))"

definition AddSessionInfo :: "ClientInfo \<Rightarrow> AlgorithmInfo \<Rightarrow> ('io, 's) client \<Rightarrow> bool \<times> ('io, 's) client" where
  "AddSessionInfo ci ai c =
     (fc_sessionInfos c = [],
      c\<lparr>fc_sessionInfos := sm_insert (ci_sessionId ci) (ai_algorithmType ai) (fc_sessionInfos c)\<rparr>)"

definition EraseSessionInfo :: "int \<Rightarrow> ('io, 's) client \<Rightarrow> retcode \<times> ('io, 's) client" where
  "EraseSessionInfo sessionId c =
     (if sm_find (fc_sessionInfos c) sessionId = None then (RETCODE_FAILURE, c)
      else (RETCODE_SUCCESS, c\<lparr>fc_sessionInfos := sm_erase sessionId (fc_sessionInfos c)\<rparr>))"

text \<open>The algorithm type is written only when the session is found.\<close>

definition GetSessionInfo :: "int \<Rightarrow> int \<Rightarrow> ('io, 's) client \<Rightarrow> retcode \<times> int" where
  "GetSessionInfo sessionId algorithmType c =
     (case sm_find (fc_sessionInfos c) sessionId of
        None \<Rightarrow> (RETCODE_EMPTY_MAP, algorithmType) | Some t \<Rightarrow> (RETCODE_SUCCESS, t))"

definition ClientFactory_RegisterCb :: "('io, 's) cenv \<Rightarrow> int \<Rightarrow> nat option \<Rightarrow> ('io, 's) client \<Rightarrow> retcode \<times> ('io, 's) client" where
  "ClientFactory_RegisterCb e sessionId cb c =
     (let (ok, c1) = ClientAsync_GetInstance e c in
      if \<not> ok then (RETCODE_NULL_PARAM, c1)
      else (let (r, c2) = AsyncHandler_RegisterCb sessionId cb c1 in
            if r \<noteq> RETCODE_SUCCESS then (r, c2)
            else (let (r2, c3) = RegisterAsyncClientCb e c2 in
                  if r2 \<noteq> RETCODE_SUCCESS then (RETCODE_FAILURE, snd (AsyncHandler_UnRegisterCb sessionId c3))
                  else (RETCODE_SUCCESS, c3))))"

definition ClientFactory_UnRegisterCb :: "('io, 's) cenv \<Rightarrow> int \<Rightarrow> ('io, 's) client \<Rightarrow> retcode \<times> ('io, 's) client" where
  "ClientFactory_UnRegisterCb e sessionId c =
     (let (ok, c1) = ClientAsync_GetInstance e c in
      if \<not> ok then (RETCODE_NULL_PARAM, c1)
      else (let (service, c2) = UnRegisterAsyncClientCb e c1;
                (sdk, c3) = AsyncHandler_UnRegisterCb sessionId c2 in
            (if service \<noteq> RETCODE_SUCCESS \<or> sdk \<noteq> RETCODE_SUCCESS then RETCODE_FAILURE else RETCODE_SUCCESS, c3)))"

definition ClientFactory_RegisterDeadCb :: "('io, 's) cenv \<Rightarrow> int \<Rightarrow> nat option \<Rightarrow> ('io, 's) client \<Rightarrow> retcode \<times> ('io, 's) client" where
  "ClientFactory_RegisterDeadCb e sessionId cb c =
     (let (ok, c1) = ClientAsync_GetInstance e c in
      if \<not> ok then (RETCODE_NULL_PARAM, c1)
      else (let (r, c2) = AsyncHandler_RegisterDeadCb sessionId cb c1 in
            if r \<noteq> RETCODE_SUCCESS then (r, c2)
            else (let (r2, c3) = RegisterServiceDeathCb e c2 in
                  if r2 \<noteq> RETCODE_SUCCESS then (RETCODE_FAILURE, snd (AsyncHandler_UnRegisterCb sessionId c3))
                  else (RETCODE_SUCCESS, c3))))"

definition ClientFactory_UnRegisterDeadCb :: "('io, 's) cenv \<Rightarrow> int \<Rightarrow> ('io, 's) client \<Rightarrow> retcode \<times> ('io, 's) client" where
  "ClientFactory_UnRegisterDeadCb e sessionId c =
     (let (ok, c1) = ClientAsync_GetInstance e c in
      if \<not> ok then (RETCODE_NULL_PARAM, c1)
      else (let (service, c2) = UnRegisterServiceDeathCb e c1;
                (sdk, c3) = AsyncHandler_UnRegisterDeadCb sessionId c2 in
            (if service \<noteq> RETCODE_SUCCESS \<or> sdk \<noteq> RETCODE_SUCCESS then RETCODE_FAILURE else RETCODE_SUCCESS, c3)))"

text \<open>\<open>rounds\<close>: what the connection's thread does in each of the sleeps.\<close>

fun WaitConnection_loop ::
  "('io, 's) cenv \<Rightarrow> nat \<Rightarrow> nat list \<Rightarrow> ('io, 's) client \<Rightarrow> 's \<times> shmsys \<Rightarrow> (retcode \<times> ('io, 's) client \<times> 's \<times> shmsys) option" where
  "WaitConnection_loop e 0 rounds c w = Some (RETCODE_SA_SERVICE_EXCEPTION, c, w)"
| "WaitConnection_loop e (Suc n) rounds c w =
     (if fc_clientId c \<noteq> INVALID_CLIENT_ID then Some (RETCODE_SUCCESS, c, w)
      else do {
        (c1, w1) \<leftarrow> conn_rounds e (case rounds of [] \<Rightarrow> 0 | k # ks \<Rightarrow> k) c w;
        WaitConnection_loop e n (tl rounds) c1 w1
      })"

definition WaitConnection ::
  "('io, 's) cenv \<Rightarrow> nat list \<Rightarrow> ('io, 's) client \<Rightarrow> 's \<times> shmsys \<Rightarrow> (retcode \<times> ('io, 's) client \<times> 's \<times> shmsys) option" where
  "WaitConnection e rounds c w = WaitConnection_loop e CHECK_CONNECTION_TIMES rounds c w"

definition ResetClient :: "('io, 's) client \<Rightarrow> ('io, 's) client" where
  "ResetClient c =
     c\<lparr>fc_clientId := INVALID_CLIENT_ID, fc_sessionId := INVALID_SESSION_ID, fc_serverUid := INVALID_UID,
       fc_clientId := INVALID_UID\<rparr>"

definition ClientInit ::
  "('io, 's) cenv \<Rightarrow> nat list \<Rightarrow> string \<Rightarrow> ClientInfo \<Rightarrow> AlgorithmInfo \<Rightarrow> nat option \<Rightarrow> ('io, 's) client \<Rightarrow> 's \<times> shmsys \<Rightarrow>
   (retcode \<times> ClientInfo \<times> ('io, 's) client \<times> 's \<times> shmsys) option" where
  "ClientInit e rounds description ci ai cb c w =
     (if ci_sessionId ci \<noteq> INVALID_SESSION_ID then Some (RETCODE_SUCCESS, ci, c, w)
      else do {
        (sessionId, c1) \<leftarrow> GenerateSessionId c;
        let ci1 = ci\<lparr>ci_sessionId := sessionId\<rparr>;
        let (isFirstSession, c2) = AddSessionInfo ci1 ai c1;
        (r, c3) \<leftarrow> (if isFirstSession then InitAiServer e description ci1 c2 else Some (RETCODE_SUCCESS, c2));
        if r \<noteq> RETCODE_SUCCESS then Some (r, ci1, c3, w)
        else do {
          (r2, c4, w1) \<leftarrow> WaitConnection e rounds c3 w;
          if r2 \<noteq> RETCODE_SUCCESS then Some (r2, ci1, c4, w1)
          else (let ci2 = ci1\<lparr>ci_clientId := fc_clientId c4, ci_serverUid := fc_serverUid c4, ci_clientUid := ce_uid e\<rparr>;
                    (r3, c5) = ClientFactory_RegisterDeadCb e (ci_sessionId ci2) cb c4 in
                Some (r3, ci2, c5, w1))
        }
      })"

definition ClientPrepare ::
  "('io, 's) cenv \<Rightarrow> ClientInfo \<Rightarrow> AlgorithmInfo \<Rightarrow> DataInfo \<Rightarrow> DataInfo \<Rightarrow> nat option \<Rightarrow> ('io, 's) client \<Rightarrow> 's \<times> shmsys \<Rightarrow>
   (retcode \<times> DataInfo \<times> ('io, 's) client \<times> 's \<times> shmsys) option" where
  "ClientPrepare e ci ai inp out cb c w =
     (if ci_sessionId ci = INVALID_SESSION_ID then Some (RETCODE_SERVER_NOT_INIT, out, c, w)
      else if ai_isAsync ai \<and> cb = None then Some (RETCODE_NULL_PARAM, out, c, w)
      else (let (r, c1) = (if ai_isAsync ai then ClientFactory_RegisterCb e (ci_sessionId ci) cb c else (RETCODE_SUCCESS, c)) in
            if r \<noteq> RETCODE_SUCCESS then Some (r, out, c1, w)
            else do {
              (ret, out1, c2, w1) \<leftarrow> SCA_LoadAlgorithm e ci ai inp out c1 w;
              Some (ret, out1,
                if ret \<noteq> RETCODE_SUCCESS then snd (ClientFactory_UnRegisterCb e (ci_sessionId ci) c2) else c2, w1)
            }))"

definition ClientAsyncProcess ::
  "('io, 's) cenv \<Rightarrow> ClientInfo \<Rightarrow> AlgorithmInfo \<Rightarrow> DataInfo \<Rightarrow> ('io, 's) client \<Rightarrow> 's \<times> shmsys \<Rightarrow>
   ((retcode \<times> 's \<times> shmsys) \<times> ('io, 's) client) option" where
  "ClientAsyncProcess e ci ai inp c w =
     (if ci_sessionId ci = INVALID_SESSION_ID then Some ((RETCODE_SERVER_NOT_INIT, w), c)
      else if \<not> ai_isAsync ai then Some ((RETCODE_INVALID_PARAM, w), c)
      else SCA_AsyncExecute e ci ai inp c w)"

definition ClientDestroy ::
  "('io, 's) cenv \<Rightarrow> ClientInfo \<Rightarrow> ('io, 's) client \<Rightarrow> 's \<times> shmsys \<Rightarrow>
   (retcode \<times> ClientInfo \<times> ('io, 's) client \<times> 's \<times> shmsys) option" where
  "ClientDestroy e ci c w =
     (if ci_sessionId ci = INVALID_SESSION_ID then Some (RETCODE_FAILURE, ci, c, w)
      else (let (r, c1) = EraseSessionInfo (ci_sessionId ci) c in
            if r \<noteq> RETCODE_SUCCESS then Some (r, ci, c1, w)
            else do {
              (r2, c2, w1) \<leftarrow> (if fc_sessionInfos c1 = [] then CloseAiServer e c1 w else Some (RETCODE_SUCCESS, c1, w));
              if r2 \<noteq> RETCODE_SUCCESS then Some (r2, ci, c2, w1)
              else if fc_sessionInfos c1 = [] \<and> fc_clientId c2 \<noteq> INVALID_CLIENT_ID then Some (RETCODE_FAILURE, ci, c2, w1)
              else (let (r3, c3) = ClientFactory_UnRegisterDeadCb e (ci_sessionId ci) c2 in
                    Some (r3, ci\<lparr>ci_sessionId := INVALID_SESSION_ID, ci_clientId := INVALID_CLIENT_ID\<rparr>, c3, w1))
            }))"

definition ClientSetOption ::
  "('io, 's) cenv \<Rightarrow> ClientInfo \<Rightarrow> int \<Rightarrow> DataInfo \<Rightarrow> ('io, 's) client \<Rightarrow> 's \<times> shmsys \<Rightarrow>
   ((retcode \<times> 's \<times> shmsys) \<times> ('io, 's) client) option" where
  "ClientSetOption e ci opt inp c w = SCA_SetOption e ci opt inp c w"

definition ClientGetOption ::
  "('io, 's) cenv \<Rightarrow> ClientInfo \<Rightarrow> int \<Rightarrow> DataInfo \<Rightarrow> DataInfo \<Rightarrow> ('io, 's) client \<Rightarrow> 's \<times> shmsys \<Rightarrow>
   ((retcode \<times> DataInfo \<times> 's \<times> shmsys) \<times> ('io, 's) client) option" where
  "ClientGetOption e ci opt inp out c w = SCA_GetOption e ci opt inp out c w"

definition ClientSyncProcess ::
  "('io, 's) cenv \<Rightarrow> ClientInfo \<Rightarrow> AlgorithmInfo \<Rightarrow> DataInfo \<Rightarrow> DataInfo \<Rightarrow> ('io, 's) client \<Rightarrow> 's \<times> shmsys \<Rightarrow>
   ((retcode \<times> DataInfo \<times> 's \<times> shmsys) \<times> ('io, 's) client) option" where
  "ClientSyncProcess e ci ai inp out c w =
     (if ci_sessionId ci = INVALID_SESSION_ID then Some ((RETCODE_SERVER_NOT_INIT, out, w), c)
      else if ai_isAsync ai then Some ((RETCODE_INVALID_PARAM, out, w), c)
      else SCA_SyncExecute e ci ai inp out c w)"

definition ClientRelease ::
  "('io, 's) cenv \<Rightarrow> ClientInfo \<Rightarrow> AlgorithmInfo \<Rightarrow> DataInfo \<Rightarrow> ('io, 's) client \<Rightarrow> 's \<times> shmsys \<Rightarrow>
   (retcode \<times> ('io, 's) client \<times> 's \<times> shmsys) option" where
  "ClientRelease e ci ai inp c w =
     (if ci_sessionId ci = INVALID_SESSION_ID then Some (RETCODE_SUCCESS, c, w)
      else (let (r, c1) = (if ai_isAsync ai then ClientFactory_UnRegisterCb e (ci_sessionId ci) c else (RETCODE_SUCCESS, c)) in
            if r \<noteq> RETCODE_SUCCESS then Some (r, c1, w) else SCA_UnLoadAlgorithm e ci ai inp c1 w))"

section \<open>Calls from the server\<close>

definition SaClientCallback ::
  "('io, 's) cenv \<Rightarrow> int \<Rightarrow> DataInfo \<Rightarrow> retcode \<Rightarrow> int \<Rightarrow> ('io, 's) client \<Rightarrow> ('io, 's) client" where
  "SaClientCallback e sessionId result resultCode requestId c =
     (let (ok, c1) = ClientAsync_GetInstance e c in
      if \<not> ok then c1 else AsyncHandler_OnResult sessionId result resultCode requestId c1)"

definition SaDeathCallback :: "('io, 's) cenv \<Rightarrow> ('io, 's) client \<Rightarrow> ('io, 's) client" where
  "SaDeathCallback e c =
     (let (ok, c1) = SaClientAdapter_GetInstance e c in
      if \<not> ok then c1
      else (let (ok2, c2) = ClientAsync_GetInstance e (ResetClient c1) in
            if \<not> ok2 then c2 else AsyncHandler_OnDead c2))"

definition AsyncCallback ::
  "('io, 's) cenv \<Rightarrow> 'io \<Rightarrow> ('io, 's) client \<Rightarrow> shmsys \<Rightarrow> (retcode \<times> ('io, 's) client \<times> shmsys) option" where
  "AsyncCallback e data c s =
     (let (a0, r1) = io_ReadInt32 (ie_ops (ce_ipc e)) data;
          (q0, r2) = io_ReadInt32 (ie_ops (ce_ipc e)) r1;
          (s0, r3) = io_ReadInt32 (ie_ops (ce_ipc e)) r2 in
      do {
        (ipcUnParcelRet, p, r4, s1) \<leftarrow> UnParcelDataInfo (ie_ops (ce_ipc e)) (ie_shm (ce_ipc e)) (Some r3) (Some empty_DataInfo) s;
        let (ok, c1) = SaClient_GetInstance e c;
        if \<not> ok then do { _ \<leftarrow> FreeDataInfo p; Some (RETCODE_FAILURE, c1, s1) }
        else if \<not> GetSaClientResultCb c1 then do { _ \<leftarrow> FreeDataInfo p; Some (RETCODE_FAILURE, c1, s1) }
        else do {
          asyncCallbackRet \<leftarrow> a0;
          requestId \<leftarrow> q0;
          sessionId \<leftarrow> s0;
          (outputInfo, freed) \<leftarrow> p;
          let retCode = (if ipcUnParcelRet \<noteq> RETCODE_SUCCESS then RETCODE_FAILURE else asyncCallbackRet);
          let c2 = SaClientCallback e sessionId outputInfo retCode requestId c1;
          _ \<leftarrow> FreeDataInfo p;
          Some (retCode, c2, s1)
        }
      })"

definition OnAiDead :: "('io, 's) cenv \<Rightarrow> ('io, 's) client \<Rightarrow> ('io, 's) client" where
  "OnAiDead e c =
     (let (ok, c1) = SaClient_GetInstance e c in
      if \<not> ok then c1 else if \<not> GetSaDeathResultCb c1 then c1 else SaDeathCallback e c1)"

section \<open>The functions of the SDK layer\<close>

definition AieClientInit ::
  "('io, 's) cenv \<Rightarrow> nat list \<Rightarrow> string \<Rightarrow> ClientInfo \<Rightarrow> AlgorithmInfo \<Rightarrow> nat option \<Rightarrow> ('io, 's) client \<Rightarrow> 's \<times> shmsys \<Rightarrow>
   (retcode \<times> ClientInfo \<times> ('io, 's) client \<times> 's \<times> shmsys) option" where
  "AieClientInit e rounds description ci ai cb c w =
     (let (ok, c1) = SaClientAdapter_GetInstance e c in
      if \<not> ok then Some (RETCODE_NULL_PARAM, ci, c1, w) else ClientInit e rounds description ci ai cb c1 w)"

definition AieClientPrepare ::
  "('io, 's) cenv \<Rightarrow> ClientInfo \<Rightarrow> AlgorithmInfo \<Rightarrow> DataInfo \<Rightarrow> DataInfo \<Rightarrow> nat option \<Rightarrow> ('io, 's) client \<Rightarrow> 's \<times> shmsys \<Rightarrow>
   (retcode \<times> DataInfo \<times> ('io, 's) client \<times> 's \<times> shmsys) option" where
  "AieClientPrepare e ci ai inp out cb c w =
     (let (ok, c1) = SaClientAdapter_GetInstance e c in
      if \<not> ok then Some (RETCODE_NULL_PARAM, out, c1, w) else ClientPrepare e ci ai inp out cb c1 w)"

definition AieClientAsyncProcess ::
  "('io, 's) cenv \<Rightarrow> ClientInfo \<Rightarrow> AlgorithmInfo \<Rightarrow> DataInfo \<Rightarrow> ('io, 's) client \<Rightarrow> 's \<times> shmsys \<Rightarrow>
   ((retcode \<times> 's \<times> shmsys) \<times> ('io, 's) client) option" where
  "AieClientAsyncProcess e ci ai inp c w =
     (let (ok, c1) = SaClientAdapter_GetInstance e c in
      if \<not> ok then Some ((RETCODE_NULL_PARAM, w), c1) else ClientAsyncProcess e ci ai inp c1 w)"

definition AieClientDestroy ::
  "('io, 's) cenv \<Rightarrow> ClientInfo \<Rightarrow> ('io, 's) client \<Rightarrow> 's \<times> shmsys \<Rightarrow>
   (retcode \<times> ClientInfo \<times> ('io, 's) client \<times> 's \<times> shmsys) option" where
  "AieClientDestroy e ci c w =
     (let (ok, c1) = SaClientAdapter_GetInstance e c in
      if \<not> ok then Some (RETCODE_NULL_PARAM, ci, c1, w) else ClientDestroy e ci c1 w)"

definition AieClientSetOption ::
  "('io, 's) cenv \<Rightarrow> ClientInfo \<Rightarrow> int \<Rightarrow> DataInfo \<Rightarrow> ('io, 's) client \<Rightarrow> 's \<times> shmsys \<Rightarrow>
   ((retcode \<times> 's \<times> shmsys) \<times> ('io, 's) client) option" where
  "AieClientSetOption e ci opt inp c w =
     (let (ok, c1) = SaClientAdapter_GetInstance e c in
      if \<not> ok then Some ((RETCODE_NULL_PARAM, w), c1) else ClientSetOption e ci opt inp c1 w)"

definition AieClientGetOption ::
  "('io, 's) cenv \<Rightarrow> ClientInfo \<Rightarrow> int \<Rightarrow> DataInfo \<Rightarrow> DataInfo \<Rightarrow> ('io, 's) client \<Rightarrow> 's \<times> shmsys \<Rightarrow>
   ((retcode \<times> DataInfo \<times> 's \<times> shmsys) \<times> ('io, 's) client) option" where
  "AieClientGetOption e ci opt inp out c w =
     (let (ok, c1) = SaClientAdapter_GetInstance e c in
      if \<not> ok then Some ((RETCODE_NULL_PARAM, out, w), c1) else ClientGetOption e ci opt inp out c1 w)"

definition AieClientRelease ::
  "('io, 's) cenv \<Rightarrow> ClientInfo \<Rightarrow> AlgorithmInfo \<Rightarrow> DataInfo \<Rightarrow> ('io, 's) client \<Rightarrow> 's \<times> shmsys \<Rightarrow>
   (retcode \<times> ('io, 's) client \<times> 's \<times> shmsys) option" where
  "AieClientRelease e ci ai inp c w =
     (let (ok, c1) = SaClientAdapter_GetInstance e c in
      if \<not> ok then Some (RETCODE_NULL_PARAM, c1, w) else ClientRelease e ci ai inp c1 w)"

definition AieClientSyncProcess ::
  "('io, 's) cenv \<Rightarrow> ClientInfo \<Rightarrow> AlgorithmInfo \<Rightarrow> DataInfo \<Rightarrow> DataInfo \<Rightarrow> ('io, 's) client \<Rightarrow> 's \<times> shmsys \<Rightarrow>
   ((retcode \<times> DataInfo \<times> 's \<times> shmsys) \<times> ('io, 's) client) option" where
  "AieClientSyncProcess e ci ai inp out c w =
     (let (ok, c1) = SaClientAdapter_GetInstance e c in
      if \<not> ok then Some ((RETCODE_NULL_PARAM, out, w), c1) else ClientSyncProcess e ci ai inp out c1 w)"

end
