(* ===== verification/ClientProofs.thy ===== *)
theory ClientProofs
  imports ClientExecutor
begin

text \<open>
  Properties of the client process: the ids of its sessions and what happens past their limit,
  the process-wide callback that one session takes from the others, and the state a dead
  server leaves.
\<close>

section \<open>Session ids\<close>

interpretation session_ids: id_space 32 0
  by unfold_locales auto

definition sessions_ok :: "('io, 's) client \<Rightarrow> bool" where
  "sessions_ok c \<longleftrightarrow> sm_ok (fc_sessionInfos c) \<and> - 1 \<le> fc_sessionId c \<and> fc_sessionId c < 2 ^ 31"

lemma client_init_sessions: "sessions_ok client_init"
  by (simp add: sessions_ok_def client_init_def)

lemma GenerateSessionId_free:
  assumes ok: "sessions_ok c" and room: "length (fc_sessionInfos c) \<le> MAXIMUM_NUMBER_OF_SESSION"
  shows "\<exists>i. GenerateSessionId c = Some (i, c\<lparr>fc_sessionId := i\<rparr>) \<and> 0 \<le> i \<and> i < 2 ^ 31 \<and>
    sm_find (fc_sessionInfos c) i = None"
proof -
  let ?used = "\<lambda>i. sm_find (fc_sessionInfos c) i \<noteq> None"
  have sok: "sm_ok (fc_sessionInfos c)" using ok by (simp add: sessions_ok_def)
  have "{i. ?used i} = fst ` set (fc_sessionInfos c)" by (auto simp: sm_find_none)
  then have "finite {i. ?used i}" "card {i. ?used i} = length (fc_sessionInfos c)"
    using sm_keys_card [OF sok] by simp_all
  then obtain i where "find_free_id 32 0 ?used (fc_sessionId c) = Some i" "0 \<le> i" "i \<le> 2 ^ 31 - 1" "\<not> ?used i"
    using session_ids.find_free_enough [of ?used "fc_sessionId c"] ok room by (auto simp: sessions_ok_def)
  then show ?thesis using room by (auto simp: GenerateSessionId_def)
qed

text \<open>A client that is connected and has its singletons.\<close>

definition connected :: "('io, 's) client \<Rightarrow> bool" where
  "connected c \<longleftrightarrow> fc_clientId c \<noteq> INVALID_CLIENT_ID \<and> ah_instance c \<and> sc_instance c"

lemma WaitConnection_loop_connected:
  "fc_clientId c \<noteq> INVALID_CLIENT_ID \<Longrightarrow> 0 < n \<Longrightarrow> WaitConnection_loop e n rounds c w = Some (RETCODE_SUCCESS, c, w)"
  by (cases n) simp_all

lemma WaitConnection_connected: "fc_clientId c \<noteq> INVALID_CLIENT_ID \<Longrightarrow> WaitConnection e rounds c w = Some (RETCODE_SUCCESS, c, w)"
  using WaitConnection_loop_connected [of c CHECK_CONNECTION_TIMES] by (simp add: WaitConnection_def)

text \<open>What the end of \<open>ClientInit\<close> does for a connected client.\<close>

lemma RegisterDeadCb_connected:
  assumes "connected c"
  shows "\<exists>c'. ClientFactory_RegisterDeadCb e i cb c = (RETCODE_SUCCESS, c') \<and>
    fc_sessionInfos c' = fc_sessionInfos c \<and> fc_sessionId c' = fc_sessionId c \<and> connected c'"
  using assms by (cases cb) (auto simp: ClientFactory_RegisterDeadCb_def ClientAsync_GetInstance_def connected_def
      AsyncHandler_RegisterDeadCb_def RegisterServiceDeathCb_def set_sc_cb_def SaClient_GetInstance_def Let_def)

lemma ClientInit_connected:
  assumes "ci_sessionId ci = INVALID_SESSION_ID" and g: "GenerateSessionId c = Some (i, c\<lparr>fc_sessionId := i'\<rparr>)"
    and ne: "fc_sessionInfos c \<noteq> []" and con: "connected c"
  shows "\<exists>c'. ClientInit e rounds desc ci ai cb c w =
      Some (RETCODE_SUCCESS, ci\<lparr>ci_sessionId := i, ci_clientId := fc_clientId c, ci_serverUid := fc_serverUid c,
        ci_clientUid := ce_uid e\<rparr>, c', w) \<and>
    fc_sessionInfos c' = sm_insert i (ai_algorithmType ai) (fc_sessionInfos c) \<and> fc_sessionId c' = i' \<and> connected c'"
proof -
  let ?c2 = "c\<lparr>fc_sessionId := i', fc_sessionInfos := sm_insert i (ai_algorithmType ai) (fc_sessionInfos c)\<rparr>"
  have con2: "connected ?c2" using con by (simp add: connected_def)
  obtain c' where c': "ClientFactory_RegisterDeadCb e i cb ?c2 = (RETCODE_SUCCESS, c')"
      "fc_sessionInfos c' = fc_sessionInfos ?c2" "fc_sessionId c' = fc_sessionId ?c2" "connected c'"
    using RegisterDeadCb_connected [OF con2] by blast
  have wt: "WaitConnection e rounds ?c2 w = Some (RETCODE_SUCCESS, ?c2, w)"
    using WaitConnection_connected [of ?c2] con by (simp add: connected_def)
  show ?thesis
    using assms(1,2) ne wt c' by (simp add: ClientInit_def AddSessionInfo_def Let_def)
qed

text \<open>C32. A further session of a connected process with at most 100 sessions: \<open>ClientInit\<close> returns -
  the search for an id ends, also across the wrap-around of the counter - with success, and
  the session gets an id between 0 and the largest \<open>int\<close> that no open session has; it is
  recorded with its algorithm type and the others keep theirs.\<close>

theorem new_session_id_fresh:
  assumes ok: "sessions_ok c" and n: "fc_sessionInfos c \<noteq> []" "length (fc_sessionInfos c) \<le> MAXIMUM_NUMBER_OF_SESSION"
    and con: "connected c" and new: "ci_sessionId ci = INVALID_SESSION_ID"
  shows "\<exists>ci' c'. ClientInit e rounds desc ci ai cb c w = Some (RETCODE_SUCCESS, ci', c', w) \<and> sessions_ok c' \<and>
    ci_clientId ci' = fc_clientId c \<and> 0 \<le> ci_sessionId ci' \<and> ci_sessionId ci' < 2 ^ 31 \<and>
    sm_find (fc_sessionInfos c) (ci_sessionId ci') = None \<and>
    (\<forall>j. sm_find (fc_sessionInfos c') j =
      (if j = ci_sessionId ci' then Some (ai_algorithmType ai) else sm_find (fc_sessionInfos c) j))"
proof -
  obtain i where i: "GenerateSessionId c = Some (i, c\<lparr>fc_sessionId := i\<rparr>)" "0 \<le> i" "i < 2 ^ 31"
      "sm_find (fc_sessionInfos c) i = None"
    using GenerateSessionId_free [OF ok n(2)] by blast
  from ClientInit_connected [OF new i(1) n(1) con, of e rounds desc ai cb w] obtain c' where
    c': "ClientInit e rounds desc ci ai cb c w = Some (RETCODE_SUCCESS, ci\<lparr>ci_sessionId := i, ci_clientId := fc_clientId c,
        ci_serverUid := fc_serverUid c, ci_clientUid := ce_uid e\<rparr>, c', w)"
    "fc_sessionInfos c' = sm_insert i (ai_algorithmType ai) (fc_sessionInfos c)" "fc_sessionId c' = i" by blast
  have "sessions_ok c'" using ok c'(2,3) i(2,3) by (simp add: sessions_ok_def sm_insert_def sm_put_ok)
  then show ?thesis using c' i by (auto simp: sm_insert_def sm_find_put)
qed

text \<open>A connected process with two sessions, 1 and 2; its server answers every call with success.\<close>

definition demo_rpc :: "(io_item list, nat) rpc" where
  "demo_rpc code request w = Some (Some [Int32 0], w)"

definition demo_process :: "(io_item list, nat) client" where
  "demo_process = client_init\<lparr>fc_clientId := 3, fc_serverUid := 1000, fc_sessionId := 2, fc_sessionInfos := [(1, 5), (2, 6)],
     ah_instance := True, ah_mapCbMsg := [(1, 70), (2, 71)], ah_deadCbs := [(1, 80)], sc_instance := True,
     sc_proxy := Some (Some demo_rpc), sc_ResultCb := True, sc_deathCb := True, ca_instance := True\<rparr>"

definition demo_cenv :: "(io_item list, nat) cenv" where
  "demo_cenv = \<lparr>ce_ipc = \<lparr>ie_ops = list_ipc, ie_empty = [], ie_shm = shm_good\<rparr>, ce_remote = Some (Some demo_rpc),
     ce_recipient = True, ce_client = True, ce_async = True, ce_adapter = True, ce_pool = True, ce_new_thread = True,
     ce_worker = True, ce_create = (\<lambda>_. (0, 7)), ce_alive = (\<lambda>_. True), ce_ends = True, ce_uid = 2000, ce_sid = 1\<rparr>"

definition new_session :: ClientInfo where
  "new_session = \<lparr>ci_clientVersion = 1, ci_clientId = - 1, ci_sessionId = - 1, ci_serverUid = 0, ci_clientUid = 0,
     ci_extend = empty_DataInfo\<rparr>"

lemma demo_process_facts:
  "sessions_ok demo_process" "fc_sessionInfos demo_process \<noteq> []" "connected demo_process"
  "ci_sessionId new_session = INVALID_SESSION_ID"
  by (simp_all add: sessions_ok_def demo_process_def connected_def client_init_def new_session_def)

theorem new_session_id_fresh_witness:
  "\<exists>ci' c'. ClientInit demo_cenv [] ''app'' new_session demo_algorithm None demo_process (0, shm_start) =
     Some (RETCODE_SUCCESS, ci', c', (0, shm_start)) \<and> ci_sessionId ci' \<notin> {1, 2}"
proof -
  have "length (fc_sessionInfos demo_process) \<le> MAXIMUM_NUMBER_OF_SESSION" by (simp add: demo_process_def client_init_def)
  from new_session_id_fresh [OF demo_process_facts(1,2) this demo_process_facts(3,4), of demo_cenv "[]" "''app''" demo_algorithm None "(0, shm_start)"]
  show ?thesis by (fastforce simp: demo_process_def client_init_def)
qed

text \<open>C33. Past the limit - with more than 100 sessions - no id is left, and \<open>ClientInit\<close> does not look:
  it records the session under \<open>INVALID_SESSION_ID\<close> and returns success. The caller has a
  session it cannot use: preparing and executing are refused as not initialised, and
  \<open>ClientDestroy\<close> fails without removing the record, so that it stays for good.\<close>

theorem session_limit_ignored:
  assumes n: "length (fc_sessionInfos c) > MAXIMUM_NUMBER_OF_SESSION" and con: "connected c"
    and new: "ci_sessionId ci = INVALID_SESSION_ID" "sm_find (fc_sessionInfos c) INVALID_SESSION_ID = None"
  shows "\<exists>ci' c'. ClientInit e rounds desc ci ai cb c w = Some (RETCODE_SUCCESS, ci', c', w) \<and>
    sm_find (fc_sessionInfos c') INVALID_SESSION_ID = Some (ai_algorithmType ai) \<and>
    ClientPrepare e ci' ai inp out cb2 c' w = Some (RETCODE_SERVER_NOT_INIT, out, c', w) \<and>
    ClientSyncProcess e ci' ai inp out c' w = Some ((RETCODE_SERVER_NOT_INIT, out, w), c') \<and>
    ClientAsyncProcess e ci' ai inp c' w = Some ((RETCODE_SERVER_NOT_INIT, w), c') \<and>
    ClientDestroy e ci' c' w = Some (RETCODE_FAILURE, ci', c', w)"
proof -
  have g: "GenerateSessionId c = Some (INVALID_SESSION_ID, c\<lparr>fc_sessionId := fc_sessionId c\<rparr>)"
    using n by (simp add: GenerateSessionId_def)
  have ne: "fc_sessionInfos c \<noteq> []" using n by auto
  define ci' where "ci' = ci\<lparr>ci_sessionId := INVALID_SESSION_ID, ci_clientId := fc_clientId c,
    ci_serverUid := fc_serverUid c, ci_clientUid := ce_uid e\<rparr>"
  have s: "ci_sessionId ci' = INVALID_SESSION_ID" by (simp add: ci'_def)
  from ClientInit_connected [OF new(1) g ne con, of e rounds desc ai cb w] obtain c' where
    c': "ClientInit e rounds desc ci ai cb c w = Some (RETCODE_SUCCESS, ci', c', w)"
      "sm_find (fc_sessionInfos c') INVALID_SESSION_ID = Some (ai_algorithmType ai)"
    using new(2) by (auto simp: sm_insert_def sm_find_put ci'_def)
  show ?thesis
    using c' s by (intro exI [of _ ci'] exI [of _ c'])
      (simp add: ClientPrepare_def ClientSyncProcess_def ClientAsyncProcess_def ClientDestroy_def)
qed

theorem session_limit_ignored_witness:
  "\<exists>c :: (io_item list, nat) client. \<exists>ci' c'. length (fc_sessionInfos c) = 101 \<and>
     ClientInit demo_cenv [] ''app'' new_session demo_algorithm None c (0, shm_start) = Some (RETCODE_SUCCESS, ci', c', (0, shm_start)) \<and>
     ClientDestroy demo_cenv ci' c' (0, shm_start) = Some (RETCODE_FAILURE, ci', c', (0, shm_start))"
proof -
  let ?c = "demo_process\<lparr>fc_sessionInfos := map (\<lambda>i. (int i, 5)) [0..<101]\<rparr>"
  have n: "length (fc_sessionInfos ?c) = 101" by simp
  have f: "sm_find (fc_sessionInfos ?c) (- 1) = None" by (auto simp: sm_find_none)
  have con: "connected ?c" using demo_process_facts(3) by (simp add: connected_def)
  have l: "length (fc_sessionInfos ?c) > MAXIMUM_NUMBER_OF_SESSION" using n by simp
  from session_limit_ignored [OF l con demo_process_facts(4) f, of demo_cenv "[]" "''app''" demo_algorithm None "(0, shm_start)"
      demo_block empty_DataInfo None] n show ?thesis by blast
qed

section \<open>Releasing one session\<close>

lemma SCA_UnLoad_keeps:
  assumes "sc_instance c" and "ah_instance c" and "SCA_UnLoadAlgorithm e ci ai inp c w = Some (r, c', w')"
  shows "c' = c"
  using assms by (auto simp: SCA_UnLoadAlgorithm_def SaClient_GetInstance_def ClientAsync_GetInstance_def
      Option.bind_eq_Some_conv Let_def split: if_splits)

text \<open>C34. Releasing one asynchronous session takes the results from all the others: \<open>ClientRelease\<close>
  clears the result callback of the whole process. The callback of another session is still
  registered, but whatever message with a result arrives from the server from then on is
  thrown away with a failure, and nothing reaches the application.\<close>

theorem release_silences_other_sessions:
  assumes inst: "sc_instance c" "ah_instance c" and ai: "ai_isAsync ai"
    and cbs: "sm_ok (ah_mapCbMsg c)" "sm_find (ah_mapCbMsg c) (ci_sessionId ci) \<noteq> None"
    and other: "sm_find (ah_mapCbMsg c) other = Some cb" "other \<noteq> ci_sessionId ci"
    and valid: "ci_sessionId ci \<noteq> INVALID_SESSION_ID"
    and run: "ClientRelease e ci ai inp c w = Some (r, c', w')"
  shows "FindCb other c' = Some cb \<and>
    (\<forall>data s ret c2 s2. AsyncCallback e data c' s = Some (ret, c2, s2) \<longrightarrow> ret = RETCODE_FAILURE \<and> c2 = c')"
proof -
  let ?c1 = "c\<lparr>sc_ResultCb := False, ah_mapCbMsg := sm_erase (ci_sessionId ci) (ah_mapCbMsg c)\<rparr>"
  have "ClientFactory_UnRegisterCb e (ci_sessionId ci) c = (RETCODE_SUCCESS, ?c1)"
    using inst cbs(2) by (auto simp: ClientFactory_UnRegisterCb_def ClientAsync_GetInstance_def UnRegisterAsyncClientCb_def
        set_sc_cb_def SaClient_GetInstance_def AsyncHandler_UnRegisterCb_def Let_def)
  then have "SCA_UnLoadAlgorithm e ci ai inp ?c1 w = Some (r, c', w')"
    using run ai valid by (simp add: ClientRelease_def)
  then have c': "c' = ?c1" using SCA_UnLoad_keeps [of ?c1] inst by simp
  have "AsyncCallback e data c' s = Some (ret, c2, s2) \<Longrightarrow> ret = RETCODE_FAILURE \<and> c2 = c'" for data s ret c2 s2
    unfolding c' using inst
    by (auto simp: AsyncCallback_def SaClient_GetInstance_def Option.bind_eq_Some_conv Let_def split: prod.splits)
  moreover have "FindCb other c' = Some cb"
    using other cbs(1) by (simp add: c' FindCb_def sm_find_erase)
  ultimately show ?thesis by blast
qed

lemma demo_release:
  "\<exists>r c' w'. ClientRelease demo_cenv (new_session\<lparr>ci_sessionId := 1\<rparr>) demo_algorithm empty_DataInfo demo_process (0, shm_start) =
     Some (r, c', w')"
  by (simp add: ClientRelease_def demo_algorithm_def ClientFactory_UnRegisterCb_def ClientAsync_GetInstance_def demo_process_def
      UnRegisterAsyncClientCb_def set_sc_cb_def SaClient_GetInstance_def AsyncHandler_UnRegisterCb_def SCA_UnLoadAlgorithm_def
      IsCallbackEmpty_def SaClient_UnloadAlgorithm_def with_proxy_def UnloadAlgorithmProxy_def full_request_def
      client_request_def data_request_def ParcelClientInfo_def ParcelAlgorithmInfo_def ParcelDataInfo_def demo_cenv_def
      new_session_def invoke_notify_def demo_rpc_def Callback_def write_cell_def list_ipc_def mem_read_def client_init_def)

theorem release_silences_other_sessions_witness:
  "\<exists>r c' w'. ClientRelease demo_cenv (new_session\<lparr>ci_sessionId := 1\<rparr>) demo_algorithm empty_DataInfo demo_process (0, shm_start) =
     Some (r, c', w') \<and> FindCb 2 c' = Some 71"
proof -
  let ?ci = "new_session\<lparr>ci_sessionId := 1\<rparr>"
  obtain r c' w' where run: "ClientRelease demo_cenv ?ci demo_algorithm empty_DataInfo demo_process (0, shm_start) = Some (r, c', w')"
    using demo_release by blast
  have f: "sc_instance demo_process" "ah_instance demo_process" "ai_isAsync demo_algorithm" "sm_ok (ah_mapCbMsg demo_process)"
      "sm_find (ah_mapCbMsg demo_process) (ci_sessionId ?ci) \<noteq> None" "sm_find (ah_mapCbMsg demo_process) 2 = Some 71"
      "(2 :: int) \<noteq> ci_sessionId ?ci" "ci_sessionId ?ci \<noteq> INVALID_SESSION_ID"
    by (simp_all add: demo_process_def demo_algorithm_def client_init_def)
  from release_silences_other_sessions [OF f run] run show ?thesis by blast
qed

section \<open>A dead server\<close>



























end
