(* ===== verification/EndToEnd.thy ===== *)
theory EndToEnd
  imports AsyncDelivery ClientProofs
begin

text \<open>
  An asynchronous result from the plugin to the application: the plugin's event, the future of
  the request, the listener of the transaction, the records of the client, the message of the
  listener thread, the client's callback, the callback of the session.
\<close>

definition result_items :: "int \<Rightarrow> retcode \<Rightarrow> int \<Rightarrow> int \<Rightarrow> DataInfo \<Rightarrow> io_item list" where
  "result_items n rc requestId sessionId data = [Int32 rc, Int32 requestId, Int32 sessionId] @ parcel_items n data"

text \<open>What the client does with the message of a result.\<close>

lemma AsyncCallback_result:
  assumes laws: "ipc_laws (ie_ops (ce_ipc e)) items room size0" and he: "shm_all (ie_shm (ce_ipc e))"
    and d: "data_ok data" "holds_block data n s" and it: "items io = result_items n rc requestId sessionId data"
    and c: "sc_instance c" "ah_instance c" "sc_ResultCb c" "FindCb sessionId c = Some cb"
  shows "AsyncCallback e io c s = Some (rc, c\<lparr>cp_results := cp_results c @ [(cb, data, rc, requestId)]\<rparr>, shm_taken data n s)"
proof -
  note rd = reads [OF laws]
  obtain r1 r2 r3 where r: "io_ReadInt32 (ie_ops (ce_ipc e)) io = (Some rc, r1)"
      "io_ReadInt32 (ie_ops (ce_ipc e)) r1 = (Some requestId, r2)" "io_ReadInt32 (ie_ops (ce_ipc e)) r2 = (Some sessionId, r3)"
      "items r3 = parcel_items n data @ []"
    using it rd(1) unfolding result_items_def by (metis append_Cons append_Nil append_Nil2)
  obtain r4 where "UnParcelDataInfo (ie_ops (ce_ipc e)) (ie_shm (ce_ipc e)) (Some r3) (Some empty_DataInfo) s =
      Some (RETCODE_SUCCESS, Some (data, False), Some r4, shm_taken data n s)"
    using UnParcelDataInfo_gets [OF laws he d r(4)] by blast
  then show ?thesis
    using r(1-3) c by (simp add: AsyncCallback_def SaClient_GetInstance_def SaClientCallback_def ClientAsync_GetInstance_def
        AsyncHandler_OnResult_def FreeDataInfo_def Let_def)
qed

text \<open>C36. The result of an asynchronous request reaches the session that asked for it. When the plugin
  reports the response to a pending request, the call succeeds; the next action of the client's
  listener thread sends one message to the identity the client registered; and the client's
  callback of exactly the session the request was made for - read back from the transaction id -
  is called once with the plugin's result, return code and request id. No segment is left.\<close>

theorem async_result_reaches_session:
  assumes laws: "ipc_laws (ie_ops (ce_ipc e)) items room size0" and he: "shm_all (ie_shm (ce_ipc e))" "shm_all he"
    and s: "shm_ok 1 s" and d: "data_ok data" and io0: "items io0 = []"
    and room: "sum_list (map size0 (result_items (sh_next s) rc (rq_requestId (xp_req x)) (xp_session x) data)) \<le> room io0"
    and x: "expects x ad [] st"
    and c: "sc_instance c" "ah_instance c" "sc_ResultCb c" "FindCb (xp_session x) c = Some cb"
  shows "\<exists>y st1 io st2 s1 s2. AsyncMsgHandler_OnEvent ev (Some (response_to (xp_req x) rc data)) (sv_exec st) = (RETCODE_SUCCESS, y) \<and>
    deliver_replies (upd_exec y st) = Some st1 \<and>
    AsyncProcessWorker_OneAction (ie_ops (ce_ipc e)) he send io0 timed_out added (xp_worker x) st1 s =
      Some (send (ad_svcIdentity ad) io, Some (ad_svcIdentity ad, io), st2, s1) \<and>
    AsyncCallback e io c s1 = Some (rc, c\<lparr>cp_results := cp_results c @ [(cb, data, rc, rq_requestId (xp_req x))]\<rparr>, s2) \<and>
    (\<forall>i. sm_find (sh_segs s2) i = sm_find (sh_segs s) i)"
proof -
  let ?ops = "ie_ops (ce_ipc e)" and ?res = "response_to (xp_req x) rc data"
  obtain y st1 lh where ev: "AsyncMsgHandler_OnEvent ev (Some ?res) (sv_exec st) = (RETCODE_SUCCESS, y)"
    "deliver_replies (upd_exec y st) = Some st1" and lh: "sv_handlers st1 (xp_handler x) = Some lh" "records_ok lh"
    "cl_responses lh = [?res]" and keep: "sv_adapters st1 = sv_adapters st" "sv_workers st1 = sv_workers st"
    using event_to_record [OF x, of ev rc data] by auto
  have w: "sv_workers st1 (xp_worker x) = Some \<lparr>aw_handler = xp_handler x, aw_clientId = xp_client x, aw_adapter = xp_adapter x\<rparr>"
    "sv_adapters st1 (xp_adapter x) = Some ad" and ids: "client_id_ok (ad_adapterId ad)" "int32 (xp_session x)"
    "rq_transactionId (xp_req x) = GetTransactionId (xp_session x) ad"
    using x keep by (simp_all add: expects_def)
  have session: "GetSessionId (rs_transactionId ?res) = xp_session x"
    using transaction_session [OF ids(1,2)] ids(3) by (simp add: response_to_fields)
  let ?head = "[Int32 rc, Int32 (rq_requestId (xp_req x)), Int32 (xp_session x)]"
  have ok: "shm_ok (Suc 0) s" using s by simp
  obtain s1 where s1: "ParcelDataInfo ?ops he (Some data) (rq_clientUid (xp_req x)) (Some (puts ?ops ?head io0)) s =
      Some (Some (puts ?ops (parcel_items (sh_next s) data) (puts ?ops ?head io0)), s1)" "shm_added data (rq_clientUid (xp_req x)) s s1"
    using ParcelDataInfo_puts [OF ok he(2) d, of ?ops _ "puts ?ops ?head io0"] by blast
  define io where "io = puts ?ops (result_items (sh_next s) rc (rq_requestId (xp_req x)) (xp_session x) data) io0"
  have io: "puts ?ops (parcel_items (sh_next s) data) (puts ?ops ?head io0) = io"
    by (simp add: io_def result_items_def)
  obtain st2 where act: "AsyncProcessWorker_OneAction ?ops he send io0 timed_out added (xp_worker x) st1 s =
      Some (send (ad_svcIdentity ad) io, Some (ad_svcIdentity ad, io), st2, s1)"
    using record_to_message [OF w lh(1,2) lh(3), of ?ops he io0 s io s1 send timed_out added] s1(1) session io
    by (auto simp: response_to_fields)
  have it: "items io = result_items (sh_next s) rc (rq_requestId (xp_req x)) (xp_session x) data"
    using puts_items [OF laws room] io0 by (simp add: io_def)
  have "AsyncCallback e io c s1 = Some (rc, c\<lparr>cp_results := cp_results c @ [(cb, data, rc, rq_requestId (xp_req x))]\<rparr>,
      shm_taken data (sh_next s) s1)"
    using AsyncCallback_result [OF laws he(1) d shm_added_holds [OF s1(2) ok] it c] .
  moreover have "sm_find (sh_segs (shm_taken data (sh_next s) s1)) i = sm_find (sh_segs s) i" for i
    using shm_added_find [OF s1(2), of i] shm_added_ok [OF ok s1(2)] shm_next_free [OF ok]
    by (auto simp: shm_taken_find shm_ok_def)
  ultimately show ?thesis using ev act by blast
qed

text \<open>A server with one pending request of session 2 of client 3.\<close>

definition demo_expected :: expected where
  "demo_expected = \<lparr>xp_req = Request_new\<lparr>rq_innerSequenceId := 1, rq_requestId := 8,
       rq_transactionId := GetTransactionId 2 (SaServerAdapter_new 3)\<rparr>,
     xp_session = 2, xp_client = 3, xp_adapter = 0, xp_handler = 1, xp_worker = 2\<rparr>"

definition demo_pending :: "nat server" where
  "demo_pending = (let req = xp_req demo_expected; st = server_init (\<lambda>_. 0) in
     st\<lparr>sv_exec := (sv_exec st)\<lparr>ex_ff := \<lparr>ff_futures = [(1, Future_new 0 (Some req) 1 (rq_transactionId req))],
          ff_sequenceId = 1, ff_listeners = [(rq_transactionId req, 3)]\<rparr>\<rparr>,
        sv_adapters := (\<lambda>_. None)(0 := Some (SaServerAdapter_new 3)),
        sv_handlers := (\<lambda>_. None)(1 := Some ClientListenerHandler_new),
        sv_workers := (\<lambda>_. None)(2 := Some \<lparr>aw_handler = 1, aw_clientId = 3, aw_adapter = 0\<rparr>),
        sv_listeners := (\<lambda>_. None)(3 := Some (FutureListener_new 3)),
        sv_clients := [(3, 1)]\<rparr>)"

lemma demo_pending_expects: "expects demo_expected (SaServerAdapter_new 3) [] demo_pending"
  by (simp add: expects_def demo_expected_def demo_pending_def server_init_def exec_init_def Let_def ff_inv_def
      Future_new_def client_id_ok_def int32_def SaServerAdapter_new_def Request_new_def FindClientListenerHandler_def
      records_ok_def ClientListenerHandler_new_def Event_MakeShared_def)

theorem async_result_reaches_session_witness:
  "\<exists>y st1 io st2 s1 s2. AsyncMsgHandler_OnEvent ON_PLUGIN_SUCCEED (Some (response_to (xp_req demo_expected) 0 demo_block)) (sv_exec demo_pending) =
      (RETCODE_SUCCESS, y) \<and>
    deliver_replies (upd_exec y demo_pending) = Some st1 \<and>
    AsyncProcessWorker_OneAction list_ipc shm_good (\<lambda>_ _. True) [] False [] 2 st1 shm_start = Some (True, Some (0, io), st2, s1) \<and>
    AsyncCallback demo_cenv io demo_process s1 =
      Some (0, demo_process\<lparr>cp_results := cp_results demo_process @ [(71, demo_block, 0, 8)]\<rparr>, s2)"
proof -
  have laws: "ipc_laws (ie_ops (ce_ipc demo_cenv)) (\<lambda>io. io) (\<lambda>io. 100 - length io) (\<lambda>_. 1)"
    and he: "shm_all (ie_shm (ce_ipc demo_cenv))" and ops: "ie_ops (ce_ipc demo_cenv) = list_ipc"
    using list_ipc_laws shm_start_ok by (simp_all add: demo_cenv_def)
  have s: "shm_ok 1 shm_start" by (simp add: shm_ok_def shm_start_def key_ok_def)
  have d: "data_ok demo_block" by (simp add: data_ok_def demo_block_def)
  have f: "sum_list (map (\<lambda>_. 1) (result_items (sh_next shm_start) 0 (rq_requestId (xp_req demo_expected)) (xp_session demo_expected) demo_block))
      \<le> 100 - length ([] :: io_item list)"
    by (simp add: result_items_def parcel_items_def by_shm_def demo_block_def)
  have c: "sc_instance demo_process" "ah_instance demo_process" "sc_ResultCb demo_process"
      "FindCb (xp_session demo_expected) demo_process = Some 71"
    by (simp_all add: demo_process_def client_init_def FindCb_def demo_expected_def)
  have x: "xp_worker demo_expected = 2" "rq_requestId (xp_req demo_expected) = 8" "ad_svcIdentity (SaServerAdapter_new 3) = 0"
    by (simp_all add: demo_expected_def SaServerAdapter_new_def)
  from async_result_reaches_session [OF laws he shm_start_ok(2) s d refl f demo_pending_expects c,
      of ON_PLUGIN_SUCCEED "\<lambda>_ _. True" False "[]"]
  show ?thesis unfolding ops x by blast
qed

end
