(* ===== verification/SaServer.thy ===== *)
theory SaServer
  imports AdapterWrapper
begin

text \<open>
  The service functions (services/server/communication_adapter/source/sa_server.c): each reads
  its parameters from the request, calls the wrapper, writes the result into the reply and
  frees what it read. A request and a reply are messages of the IPC library; \<open>None\<close> is
  undefined behaviour - a block freed twice, a variable used that was never read - or a call
  that does not return. The synchronous execution is split at its wait.
\<close>

section \<open>The interface\<close>

definition InitEngine :: "senv \<Rightarrow> 'p server \<Rightarrow> (int \<times> 'p server) option" where
  "InitEngine e st =
     do { (clientId, st1) \<leftarrow> GenerateClient e st;
          if clientId \<le> 0 then Some (INVALID_CLIENT_ID, st1) else Some (clientId, st1) }"

definition SyncExecuteAlgorithm_send ::
  "senv \<Rightarrow> ClientInfo option \<Rightarrow> AlgorithmInfo option \<Rightarrow> DataInfo \<Rightarrow> 'p server \<Rightarrow>
   ((retcode + nat \<times> nat) \<times> 'p server) option" where
  "SyncExecuteAlgorithm_send e clientInfo algoInfo inputInfo st =
     (if clientInfo = None \<or> algoInfo = None then Some (Inl RETCODE_NULL_PARAM, st)
      else SyncExecAlgoWrapper_send e clientInfo algoInfo inputInfo st)"

definition AsyncExecuteAlgorithm ::
  "senv \<Rightarrow> ClientInfo option \<Rightarrow> AlgorithmInfo option \<Rightarrow> DataInfo \<Rightarrow> 'p server \<Rightarrow> (retcode \<times> 'p server) option" where
  "AsyncExecuteAlgorithm e clientInfo algoInfo inputInfo st =
     (if clientInfo = None \<or> algoInfo = None then Some (RETCODE_NULL_PARAM, st)
      else AsyncExecAlgoWrapper e clientInfo algoInfo inputInfo st)"

definition DestroyEngine ::
  "'p plug_ops \<Rightarrow> senv \<Rightarrow> ClientInfo option \<Rightarrow> 'p server \<Rightarrow> (retcode \<times> 'p server) option" where
  "DestroyEngine ops e clientInfo st =
     (if clientInfo = None then Some (RETCODE_NULL_PARAM, st) else RemoveAdapterWrapper ops e clientInfo st)"

definition SetOption ::
  "'p plug_ops \<Rightarrow> senv \<Rightarrow> ClientInfo option \<Rightarrow> int \<Rightarrow> DataInfo \<Rightarrow> 'p server \<Rightarrow> (retcode \<times> 'p server) option" where
  "SetOption ops e clientInfo optionType inputInfo st =
     (if clientInfo = None then Some (RETCODE_SA_SERVICE_EXCEPTION, st)
      else SetOptionWrapper ops e clientInfo optionType inputInfo st)"

definition GetOption ::
  "'p plug_ops \<Rightarrow> senv \<Rightarrow> ClientInfo option \<Rightarrow> int \<Rightarrow> DataInfo \<Rightarrow> DataInfo \<Rightarrow> 'p server \<Rightarrow>
   (retcode \<times> DataInfo \<times> 'p server) option" where
  "GetOption ops e clientInfo optionType inputInfo outputInfo st =
     (if clientInfo = None then Some (RETCODE_NULL_PARAM, outputInfo, st)
      else GetOptionWrapper ops e clientInfo optionType inputInfo outputInfo st)"

definition LoadAlgorithm ::
  "'p plug_ops \<Rightarrow> senv \<Rightarrow> ClientInfo option \<Rightarrow> AlgorithmInfo option \<Rightarrow> DataInfo \<Rightarrow> DataInfo \<Rightarrow> 'p server \<Rightarrow>
   (retcode \<times> DataInfo \<times> 'p server) option" where
  "LoadAlgorithm ops e clientInfo algorithmInfo inputInfo outputInfo st =
     LoadAlgoWrapper ops e clientInfo algorithmInfo inputInfo outputInfo st"

definition UnregisterCallback :: "senv \<Rightarrow> ClientInfo option \<Rightarrow> 'p server \<Rightarrow> (retcode \<times> 'p server) option" where
  "UnregisterCallback e clientInfo st =
     (if clientInfo = None then Some (RETCODE_NULL_PARAM, st) else UnregisterCallbackWrapper e clientInfo st)"

definition UnloadAlgorithm ::
  "'p plug_ops \<Rightarrow> senv \<Rightarrow> ClientInfo option \<Rightarrow> AlgorithmInfo option \<Rightarrow> DataInfo \<Rightarrow> 'p server \<Rightarrow>
   (retcode \<times> 'p server) option" where
  "UnloadAlgorithm ops e clientInfo algoInfo inputInfo st =
     (if clientInfo = None \<or> algoInfo = None then Some (RETCODE_NULL_PARAM, st)
      else UnloadAlgoWrapper ops e clientInfo algoInfo inputInfo st)"

section \<open>Requests\<close>

text \<open>Structures that are all zero.\<close>

definition zero_ClientInfo :: ClientInfo where
  "zero_ClientInfo = \<lparr>ci_clientVersion = 0, ci_clientId = 0, ci_sessionId = 0, ci_serverUid = 0, ci_clientUid = 0,
     ci_extend = empty_DataInfo\<rparr>"

definition zero_AlgorithmInfo :: AlgorithmInfo where
  "zero_AlgorithmInfo = \<lparr>ai_clientVersion = 0, ai_isAsync = False, ai_algorithmType = 0, ai_algorithmVersion = 0,
     ai_isCloud = False, ai_operateId = 0, ai_requestId = 0, ai_extend = empty_DataInfo\<rparr>"

text \<open>What a service function leaves: its code, the reply, the server and the segments.\<close>

type_synonym ('io, 'p) outcome = "retcode \<times> 'io \<times> 'p server \<times> shmsys"

definition free_block :: "DataInfo \<Rightarrow> unit option" where
  "free_block d = map_option (\<lambda>_. ()) (FreeDataInfo (Some (d, False)))"

definition free_ptr :: "info_ptr option \<Rightarrow> unit option" where
  "free_ptr p = map_option (\<lambda>_. ()) (FreeDataInfo p)"

definition InvokeInitSaEngine ::
  "'io ipc_ops \<Rightarrow> shmenv \<Rightarrow> senv \<Rightarrow> 'io \<Rightarrow> 'io \<Rightarrow> 'p server \<Rightarrow> shmsys \<Rightarrow> ('io, 'p) outcome option" where
  "InvokeInitSaEngine io_ops he e req reply st s =
     do {
       let (description, req1) = io_ReadString io_ops req;
       (clientId, st1) \<leftarrow> InitEngine e st;
       Some (clientId, io_WriteUint32 io_ops (she_uid he) (io_WriteInt32 io_ops clientId reply), st1, s)
     }"

definition InvokeLoadAlgorithm ::
  "'io ipc_ops \<Rightarrow> shmenv \<Rightarrow> 'p plug_ops \<Rightarrow> senv \<Rightarrow> 'io \<Rightarrow> 'io \<Rightarrow> 'p server \<Rightarrow> shmsys \<Rightarrow> ('io, 'p) outcome option" where
  "InvokeLoadAlgorithm io_ops he ops e req reply st s =
     do {
       (r, clientInfo, algorithmInfo, p, req1, s1) \<leftarrow>
         UnParcelInfo io_ops he (Some req) (Some zero_ClientInfo) (Some zero_AlgorithmInfo) (Some empty_DataInfo) s;
       if r \<noteq> RETCODE_SUCCESS then Some (r, reply, st, s1)
       else do {
         ci \<leftarrow> clientInfo;
         (d, freed) \<leftarrow> p;
         (ret, out, st1) \<leftarrow> LoadAlgorithm ops e clientInfo algorithmInfo d empty_DataInfo st;
         (reply1, s2) \<leftarrow> ParcelDataInfo io_ops he (Some out) (ci_clientUid ci) (Some (io_WriteInt32 io_ops ret reply)) s1;
         reply2 \<leftarrow> reply1;
         _ \<leftarrow> free_block out;
         _ \<leftarrow> free_ptr p;
         Some (ret, reply2, st1, s2)
       }
     }"

text \<open>
  What waits: the client information, the held adapter and the notifier. The input block
  belongs to the request, which deletes it.
\<close>

definition InvokeSyncExecute_send ::
  "'io ipc_ops \<Rightarrow> shmenv \<Rightarrow> senv \<Rightarrow> 'io \<Rightarrow> 'io \<Rightarrow> 'p server \<Rightarrow> shmsys \<Rightarrow>
   (('io, 'p) outcome + (ClientInfo \<times> nat \<times> nat) \<times> 'p server \<times> shmsys) option" where
  "InvokeSyncExecute_send io_ops he e req reply st s =
     do {
       (r, clientInfo, algorithmInfo, p, req1, s1) \<leftarrow>
         UnParcelInfo io_ops he (Some req) (Some zero_ClientInfo) (Some zero_AlgorithmInfo) (Some empty_DataInfo) s;
       if r \<noteq> RETCODE_SUCCESS then Some (Inl (r, reply, st, s1))
       else do {
         ci \<leftarrow> clientInfo;
         (d, freed) \<leftarrow> p;
         (x, st1) \<leftarrow> SyncExecuteAlgorithm_send e clientInfo algorithmInfo d st;
         case x of
           Inl ret \<Rightarrow> do {
             (reply1, s2) \<leftarrow> ParcelDataInfo io_ops he (Some empty_DataInfo) (ci_clientUid ci)
               (Some (io_WriteInt32 io_ops ret reply)) s1;
             reply2 \<leftarrow> reply1;
             Some (Inl (ret, reply2, st1, s2))
           }
         | Inr (a, n) \<Rightarrow> Some (Inr ((ci, a, n), st1, s1))
       }
     }"

definition InvokeSyncExecute_receive ::
  "'io ipc_ops \<Rightarrow> shmenv \<Rightarrow> senv \<Rightarrow> ClientInfo \<times> nat \<times> nat \<Rightarrow> 'io \<Rightarrow> 'p server \<Rightarrow> shmsys \<Rightarrow> ('io, 'p) outcome option" where
  "InvokeSyncExecute_receive io_ops he e pending reply st s =
     (case pending of (ci, a, n) \<Rightarrow> do {
        (ret, out, st1) \<leftarrow> SyncExecAlgoWrapper_receive e a n st;
        (reply1, s1) \<leftarrow> ParcelDataInfo io_ops he (Some out) (ci_clientUid ci) (Some (io_WriteInt32 io_ops ret reply)) s;
        reply2 \<leftarrow> reply1;
        _ \<leftarrow> free_block out;
        Some (ret, reply2, st1, s1)
      })"

definition InvokeAsyncExecute ::
  "'io ipc_ops \<Rightarrow> shmenv \<Rightarrow> senv \<Rightarrow> 'io \<Rightarrow> 'io \<Rightarrow> 'p server \<Rightarrow> shmsys \<Rightarrow> ('io, 'p) outcome option" where
  "InvokeAsyncExecute io_ops he e req reply st s =
     do {
       (r, clientInfo, algorithmInfo, p, req1, s1) \<leftarrow>
         UnParcelInfo io_ops he (Some req) (Some zero_ClientInfo) (Some zero_AlgorithmInfo) (Some empty_DataInfo) s;
       if r \<noteq> RETCODE_SUCCESS then Some (r, reply, st, s1)
       else do {
         (d, freed) \<leftarrow> p;
         (ret, st1) \<leftarrow> AsyncExecuteAlgorithm e clientInfo algorithmInfo d st;
         Some (ret, io_WriteInt32 io_ops ret reply, st1, s1)
       }
     }"

definition InvokeDestroyEngine ::
  "'io ipc_ops \<Rightarrow> shmenv \<Rightarrow> 'p plug_ops \<Rightarrow> senv \<Rightarrow> 'io \<Rightarrow> 'io \<Rightarrow> 'p server \<Rightarrow> shmsys \<Rightarrow> ('io, 'p) outcome option" where
  "InvokeDestroyEngine io_ops he ops e req reply st s =
     do {
       (r, clientInfo, req1, s1) \<leftarrow> UnParcelClientInfo io_ops he (Some req) (Some zero_ClientInfo) s;
       if r \<noteq> RETCODE_SUCCESS then Some (r, reply, st, s1)
       else do {
         (ret, st1) \<leftarrow> DestroyEngine ops e clientInfo st;
         Some (ret, io_WriteInt32 io_ops ret reply, st1, s1)
       }
     }"

definition InvokeSetOption ::
  "'io ipc_ops \<Rightarrow> shmenv \<Rightarrow> 'p plug_ops \<Rightarrow> senv \<Rightarrow> 'io \<Rightarrow> 'io \<Rightarrow> 'p server \<Rightarrow> shmsys \<Rightarrow> ('io, 'p) outcome option" where
  "InvokeSetOption io_ops he ops e req reply st s =
     do {
       (r, clientInfo, req1, s1) \<leftarrow> UnParcelClientInfo io_ops he (Some req) (Some zero_ClientInfo) s;
       if r \<noteq> RETCODE_SUCCESS then Some (r, reply, st, s1)
       else do {
         io \<leftarrow> req1;
         let (o0, io1) = io_ReadInt32 io_ops io;
         (r2, p, req2, s2) \<leftarrow> UnParcelDataInfo io_ops he (Some io1) (Some empty_DataInfo) s1;
         if r2 \<noteq> RETCODE_SUCCESS then do { _ \<leftarrow> free_ptr p; Some (r2, reply, st, s2) }
         else do {
           optionType \<leftarrow> o0;
           (d, freed) \<leftarrow> p;
           (ret, st1) \<leftarrow> SetOption ops e clientInfo optionType d st;
           _ \<leftarrow> free_ptr p;
           Some (ret, io_WriteInt32 io_ops ret reply, st1, s2)
         }
       }
     }"

definition InvokeGetOption ::
  "'io ipc_ops \<Rightarrow> shmenv \<Rightarrow> 'p plug_ops \<Rightarrow> senv \<Rightarrow> 'io \<Rightarrow> 'io \<Rightarrow> 'p server \<Rightarrow> shmsys \<Rightarrow> ('io, 'p) outcome option" where
  "InvokeGetOption io_ops he ops e req reply st s =
     do {
       (r, clientInfo, req1, s1) \<leftarrow> UnParcelClientInfo io_ops he (Some req) (Some zero_ClientInfo) s;
       if r \<noteq> RETCODE_SUCCESS then Some (r, reply, st, s1)
       else do {
         io \<leftarrow> req1;
         let (o0, io1) = io_ReadInt32 io_ops io;
         (r2, p, req2, s2) \<leftarrow> UnParcelDataInfo io_ops he (Some io1) (Some empty_DataInfo) s1;
         if r2 \<noteq> RETCODE_SUCCESS then do { _ \<leftarrow> free_ptr p; Some (r2, reply, st, s2) }
         else do {
           optionType \<leftarrow> o0;
           ci \<leftarrow> clientInfo;
           (d, freed) \<leftarrow> p;
           (ret, out, st1) \<leftarrow> GetOption ops e clientInfo optionType d empty_DataInfo st;
           (reply1, s3) \<leftarrow> ParcelDataInfo io_ops he (Some out) (ci_clientUid ci) (Some (io_WriteInt32 io_ops ret reply)) s2;
           reply2 \<leftarrow> reply1;
           _ \<leftarrow> free_block out;
           _ \<leftarrow> free_ptr p;
           Some (ret, reply2, st1, s3)
         }
       }
     }"

definition InvokeRegisterCallback ::
  "'io ipc_ops \<Rightarrow> shmenv \<Rightarrow> senv \<Rightarrow> 'io \<Rightarrow> 'io \<Rightarrow> 'p server \<Rightarrow> shmsys \<Rightarrow> ('io, 'p) outcome option" where
  "InvokeRegisterCallback io_ops he e req reply st s =
     (case io_ReadRemote io_ops req of
        (None, req1) \<Rightarrow> Some (RETCODE_NULL_PARAM, reply, st, s)
      | (Some sid, req1) \<Rightarrow> do {
          (r, clientInfo, req2, s1) \<leftarrow> UnParcelClientInfo io_ops he (Some req1) (Some zero_ClientInfo) s;
          if r \<noteq> RETCODE_SUCCESS then Some (r, reply, st, s1)
          else do {
            (ret, st1) \<leftarrow> RegisterCallbackWrapper e clientInfo sid st;
            Some (ret, io_WriteInt32 io_ops ret reply, st1, s1)
          }
        })"

definition InvokeUnregisterCallback ::
  "'io ipc_ops \<Rightarrow> shmenv \<Rightarrow> senv \<Rightarrow> 'io \<Rightarrow> 'io \<Rightarrow> 'p server \<Rightarrow> shmsys \<Rightarrow> ('io, 'p) outcome option" where
  "InvokeUnregisterCallback io_ops he e req reply st s =
     do {
       (r, clientInfo, req1, s1) \<leftarrow> UnParcelClientInfo io_ops he (Some req) (Some zero_ClientInfo) s;
       if r \<noteq> RETCODE_SUCCESS then Some (r, reply, st, s1)
       else do {
         (ret, st1) \<leftarrow> UnregisterCallback e clientInfo st;
         Some (ret, io_WriteInt32 io_ops ret reply, st1, s1)
       }
     }"

definition InvokeUnloadAlgorithm ::
  "'io ipc_ops \<Rightarrow> shmenv \<Rightarrow> 'p plug_ops \<Rightarrow> senv \<Rightarrow> 'io \<Rightarrow> 'io \<Rightarrow> 'p server \<Rightarrow> shmsys \<Rightarrow> ('io, 'p) outcome option" where
  "InvokeUnloadAlgorithm io_ops he ops e req reply st s =
     do {
       (r, clientInfo, algorithmInfo, p, req1, s1) \<leftarrow>
         UnParcelInfo io_ops he (Some req) (Some zero_ClientInfo) (Some zero_AlgorithmInfo) (Some empty_DataInfo) s;
       if r \<noteq> RETCODE_SUCCESS then Some (r, reply, st, s1)
       else do {
         (d, freed) \<leftarrow> p;
         (ret, st1) \<leftarrow> UnloadAlgorithm ops e clientInfo algorithmInfo d st;
         _ \<leftarrow> free_ptr p;
         Some (ret, io_WriteInt32 io_ops ret reply, st1, s1)
       }
     }"

section \<open>The dispatcher\<close>

text \<open>The result is always \<open>EC_SUCCESS\<close>: what it leaves, or the call that waits.\<close>

definition Invoke ::
  "'io ipc_ops \<Rightarrow> shmenv \<Rightarrow> 'p plug_ops \<Rightarrow> senv \<Rightarrow> int \<Rightarrow> 'io \<Rightarrow> 'io \<Rightarrow> 'p server \<Rightarrow> shmsys \<Rightarrow>
   ('io \<times> 'p server \<times> shmsys + (ClientInfo \<times> nat \<times> nat) \<times> 'p server \<times> shmsys) option" where
  "Invoke io_ops he ops e funcId req reply st s =
     (let finish = map_option (\<lambda>(r :: retcode, x). Inl x) in
      if funcId = 0 then finish (InvokeInitSaEngine io_ops he e req reply st s)
      else if funcId = 1 then finish (InvokeLoadAlgorithm io_ops he ops e req reply st s)
      else if funcId = 2 then
        map_option (\<lambda>x. case x of Inl (r, y) \<Rightarrow> Inl y | Inr y \<Rightarrow> Inr y) (InvokeSyncExecute_send io_ops he e req reply st s)
      else if funcId = 5 then finish (InvokeDestroyEngine io_ops he ops e req reply st s)
      else if funcId = 6 then finish (InvokeSetOption io_ops he ops e req reply st s)
      else if funcId = 7 then finish (InvokeGetOption io_ops he ops e req reply st s)
      else if funcId = 8 then finish (InvokeRegisterCallback io_ops he e req reply st s)
      else if funcId = 9 then finish (InvokeUnregisterCallback io_ops he e req reply st s)
      else if funcId = 3 then finish (InvokeAsyncExecute io_ops he e req reply st s)
      else if funcId = 4 then finish (InvokeUnloadAlgorithm io_ops he ops e req reply st s)
      else Some (Inl (reply, st, s)))"


section \<open>The service of the system\<close>

text \<open>
  What the service manager calls on \<open>g_aiEngine\<close>: it hands over the identity of the service, which
  takes no messages besides the calls of \<open>Invoke\<close>. The service is the pointer, \<open>None\<close> when null.
\<close>

record AiEngineService =
  ae_identity :: "nat option"

definition AiEngine_Initialize :: "AiEngineService option \<Rightarrow> nat \<Rightarrow> bool \<times> AiEngineService option" where
  "AiEngine_Initialize service identity =
     (case service of None \<Rightarrow> (False, None) | Some a \<Rightarrow> (True, Some (a\<lparr>ae_identity := Some identity\<rparr>)))"

definition AiEngine_MessageHandle :: "AiEngineService option \<Rightarrow> bool \<times> AiEngineService option" where
  "AiEngine_MessageHandle service = (True, service)"

end
