(* ===== verification/Remote.thy ===== *)
theory Remote
  imports SaServer SaClientProxy EngineProofs
begin

text \<open>
  Client and server together: the IPC library carries the requests of the client's proxies to
  the service's \<open>Invoke\<close> and its replies back. A remote call then does what a direct call of
  the wrapper does.
\<close>

text \<open>\<open>None\<close> while a synchronous execution waits.\<close>

definition server_rpc ::
  "'io ipc_env \<Rightarrow> 'p plug_ops \<Rightarrow> senv \<Rightarrow> ('io, 'p server) rpc" where
  "server_rpc ie ops e code request w =
     (case Invoke (ie_ops ie) (ie_shm ie) ops e code request (ie_empty ie) (fst w) (snd w) of
        Some (Inl (reply, st, s)) \<Rightarrow> Some (Some reply, st, s)
      | _ \<Rightarrow> None)"

section \<open>What arrives at the server\<close>

text \<open>
  A library that behaves as documented, whose empty message has room for the messages of the
  call; keys for three more segments; and system calls that succeed.
\<close>

definition channel ::
  "'io ipc_env \<Rightarrow> ('io \<Rightarrow> io_item list) \<Rightarrow> ('io \<Rightarrow> nat) \<Rightarrow> (io_item \<Rightarrow> nat) \<Rightarrow> shmsys \<Rightarrow> bool" where
  "channel ie items room size0 s \<longleftrightarrow>
     ipc_laws (ie_ops ie) items room size0 \<and> shm_ok 3 s \<and> shm_all (ie_shm ie) \<and> items (ie_empty ie) = []"

definition fits :: "'io ipc_env \<Rightarrow> ('io \<Rightarrow> nat) \<Rightarrow> (io_item \<Rightarrow> nat) \<Rightarrow> io_item list \<Rightarrow> bool" where
  "fits ie room size0 xs \<longleftrightarrow> sum_list (map size0 xs) \<le> room (ie_empty ie)"

definition request_ok :: "ClientInfo \<Rightarrow> AlgorithmInfo \<Rightarrow> DataInfo \<Rightarrow> bool" where
  "request_ok ci ai d \<longleftrightarrow> data_ok (ci_extend ci) \<and> data_ok (ai_extend ai) \<and> data_ok d"

lemma full_request_transfer:
  assumes ch: "channel ie items room size0 s" and d: "request_ok ci ai d"
    and f: "fits ie room size0 (message_items (sh_next s) ci ai d)"
  shows "\<exists>io s1 io' s'. full_request ie ci ai d (st, s) = Some (io, st, s1) \<and>
    UnParcelInfo (ie_ops ie) (ie_shm ie) (Some io) (Some ci0) (Some ai0) (Some empty_DataInfo) s1 =
      Some (RETCODE_SUCCESS, Some ci, Some ai, Some (d, False), Some io', s') \<and>
    channel ie items room size0 s' \<and> (\<forall>i. sm_find (sh_segs s') i = sm_find (sh_segs s) i)"
proof -
  let ?ops = "ie_ops ie" and ?e = "ie_shm ie"
  have laws: "ipc_laws ?ops items room size0" "shm_ok 3 s" "shm_all ?e" "items (ie_empty ie) = []"
    using ch by (simp_all add: channel_def)
  have dd: "data_ok (ci_extend ci)" "data_ok (ai_extend ai)" "data_ok d" using d by (simp_all add: request_ok_def)
  obtain io1 s1 io2 s2 io3 s3 io' s' where t:
      "ParcelClientInfo ?ops ?e ci (ie_empty ie) s = Some (Some io1, s1)"
      "ParcelAlgorithmInfo ?ops ?e ai (ci_serverUid ci) io1 s1 = Some (Some io2, s2)"
      "ParcelDataInfo ?ops ?e (Some d) (ci_serverUid ci) (Some io2) s2 = Some (Some io3, s3)"
      "UnParcelInfo ?ops ?e (Some io3) (Some ci0) (Some ai0) (Some empty_DataInfo) s3 =
        Some (RETCODE_SUCCESS, Some ci, Some ai, Some (d, False), Some io', s')"
      and same: "\<forall>i. sm_find (sh_segs s') i = sm_find (sh_segs s) i"
      and ok: "sm_ok (sh_segs s')" "key_ok (sh_key s')" "sh_next s \<le> sh_next s'"
    using request_transfer [OF laws(1-3) dd f [unfolded fits_def] laws(4), of ci0 ai0] by blast
  have "full_request ie ci ai d (st, s) = Some (io3, st, s3)"
    using t(1-3) by (simp add: full_request_def client_request_def data_request_def)
  moreover have "channel ie items room size0 s'"
    using laws shm_ok_same [OF laws(2) ok same] by (simp add: channel_def)
  ultimately show ?thesis using t(4) same by blast
qed

text \<open>What the server writes into an empty reply, and what the client reads back.\<close>

definition reply_items :: "shmsys \<Rightarrow> retcode \<Rightarrow> DataInfo \<Rightarrow> io_item list" where
  "reply_items s ret out = Int32 ret # parcel_items (sh_next s) out"

lemma reply_transfer:
  assumes ch: "channel ie items room size0 s" and d: "data_ok out" and f: "fits ie room size0 (reply_items s ret out)"
  shows "\<exists>io s1 s'. ParcelDataInfo (ie_ops ie) (ie_shm ie) (Some out) uid
      (Some (io_WriteInt32 (ie_ops ie) ret (ie_empty ie))) s = Some (Some io, s1) \<and>
    (\<forall>nb. CallbackBuff (ie_ops ie) (ie_shm ie) (Some nb) io s1 =
      Some (RETCODE_SUCCESS, Some \<lparr>nb_ipcRetCode = RETCODE_SUCCESS, nb_retCode = ret,
        nb_outLen = di_length out, nb_outBuff = di_data out\<rparr>, s')) \<and>
    channel ie items room size0 s' \<and> (\<forall>i. sm_find (sh_segs s') i = sm_find (sh_segs s) i)"
proof -
  let ?ops = "ie_ops ie" and ?e = "ie_shm ie"
  have laws: "ipc_laws ?ops items room size0" "shm_ok (Suc 2) s" "shm_all ?e" "items (ie_empty ie) = []"
    using ch by (simp_all add: channel_def eval_nat_numeral)
  obtain s1 where s1: "ParcelDataInfo ?ops ?e (Some out) uid (Some (io_WriteInt32 ?ops ret (ie_empty ie))) s =
      Some (Some (puts ?ops (parcel_items (sh_next s) out) (io_WriteInt32 ?ops ret (ie_empty ie))), s1)" "shm_added out uid s s1"
    using ParcelDataInfo_puts [OF laws(2,3) d, of ?ops uid "io_WriteInt32 ?ops ret (ie_empty ie)"] by blast
  define io where "io = puts ?ops (reply_items s ret out) (ie_empty ie)"
  have p: "ParcelDataInfo ?ops ?e (Some out) uid (Some (io_WriteInt32 ?ops ret (ie_empty ie))) s = Some (Some io, s1)"
    using s1(1) by (simp add: io_def reply_items_def)
  have "items io = Int32 ret # parcel_items (sh_next s) out @ []"
    using puts_items [OF laws(1), of "reply_items s ret out" "ie_empty ie"] f laws(4) by (simp add: io_def fits_def reply_items_def)
  then obtain io1 where io1: "io_ReadInt32 ?ops io = (Some ret, io1)" "items io1 = parcel_items (sh_next s) out @ []"
    using reads(1) [OF laws(1)] by blast
  obtain io2 where io2: "UnParcelDataInfo ?ops ?e (Some io1) (Some empty_DataInfo) s1 =
      Some (RETCODE_SUCCESS, Some (out, False), Some io2, shm_taken out (sh_next s) s1)"
    using UnParcelDataInfo_gets [OF laws(1,3) d shm_added_holds [OF s1(2) laws(2)] io1(2)] by blast
  have "CallbackBuff ?ops ?e (Some nb) io s1 =
      Some (RETCODE_SUCCESS, Some \<lparr>nb_ipcRetCode = RETCODE_SUCCESS, nb_retCode = ret,
        nb_outLen = di_length out, nb_outBuff = di_data out\<rparr>, shm_taken out (sh_next s) s1)" for nb
    using io1(1) io2 by (simp add: CallbackBuff_def)
  moreover have same: "sm_find (sh_segs (shm_taken out (sh_next s) s1)) i = sm_find (sh_segs s) i" for i
    using shm_added_find [OF s1(2), of i] shm_added_ok [OF laws(2) s1(2)] shm_next_free [OF laws(2)]
    by (auto simp: shm_taken_find shm_ok_def)
  moreover have "channel ie items room size0 (shm_taken out (sh_next s) s1)"
  proof -
    have ok1: "shm_ok 2 s1" by (rule shm_added_ok [OF laws(2) s1(2)])
    have "sm_ok (sh_segs (shm_taken out (sh_next s) s1))" "key_ok (sh_key (shm_taken out (sh_next s) s1))"
      using ok1 by (auto simp: shm_taken_def shm_ok_def sm_erase_ok)
    moreover have "sh_next s \<le> sh_next (shm_taken out (sh_next s) s1)"
      using s1(2) by (auto simp: shm_taken_def shm_added_def)
    ultimately show ?thesis
      using ch shm_ok_same [of 3 s "shm_taken out (sh_next s) s1"] same by (simp add: channel_def)
  qed
  ultimately show ?thesis using p by blast
qed

section \<open>Remote calls\<close>

lemma free_ok: "data_ok d \<Longrightarrow> free_block d = Some () \<and> free_ptr (Some (d, False)) = Some ()"
  by (simp add: free_block_def free_ptr_def FreeDataInfo_def)

text \<open>A reply that is one code.\<close>

lemma code_reply:
  assumes "channel ie items room size0 s" and "fits ie room size0 [Int32 ret]"
    and "\<forall>io. items io = [] \<longrightarrow> fst (io_ReadUint32 (ie_ops ie) io) = None"
  shows "Callback (ie_ops ie) (Some [RETCODE_FAILURE]) (io_WriteInt32 (ie_ops ie) ret (ie_empty ie)) =
    Some (RETCODE_SUCCESS, Some [ret])"
proof -
  let ?ops = "ie_ops ie"
  have laws: "ipc_laws ?ops items room size0" "items (ie_empty ie) = []" using assms(1) by (simp_all add: channel_def)
  have "items (io_WriteInt32 ?ops ret (ie_empty ie)) = [Int32 ret]"
    using puts_items [OF laws(1), of "[Int32 ret]" "ie_empty ie"] assms(2) laws(2) by (simp add: fits_def)
  then obtain io1 where "io_ReadInt32 ?ops (io_WriteInt32 ?ops ret (ie_empty ie)) = (Some ret, io1)" "items io1 = []"
    using reads(1) [OF laws(1)] by blast
  moreover obtain io2 where "io_ReadUint32 ?ops io1 = (None, io2)"
    using assms(3) \<open>items io1 = []\<close> by (metis prod.collapse)
  ultimately show ?thesis by (simp add: Callback_def write_cell_def)
qed

text \<open>
  Loading an algorithm through the IPC is the same as calling the wrapper in the server: the
  client's proxy returns the wrapper's code and its output block, the server ends in the
  wrapper's state, and no shared memory segment is left behind - whether the blocks travelled
  in the messages or in segments; provided the library behaves as documented, both messages
  fit, keys are free and the system calls succeed.
\<close>

lemma remote_load_transparent:
  assumes ch: "channel ie items room size0 s" and d: "request_ok ci ai inp" "data_ok out"
    and f: "fits ie room size0 (message_items (sh_next s) ci ai inp)" "\<forall>s'. fits ie room size0 (reply_items s' ret out)"
    and run: "LoadAlgoWrapper ops e (Some ci) (Some ai) inp empty_DataInfo st = Some (ret, out, st')"
  shows "\<exists>s'. LoadAlgorithmProxy ie (Some (server_rpc ie ops e)) ci ai inp out0 (st, s) = Some (ret, out, st', s') \<and>
    (\<forall>i. sm_find (sh_segs s') i = sm_find (sh_segs s) i) \<and> channel ie items room size0 s'"
proof -
  obtain io s1 io' s2 where req: "full_request ie ci ai inp (st, s) = Some (io, st, s1)"
    "UnParcelInfo (ie_ops ie) (ie_shm ie) (Some io) (Some zero_ClientInfo) (Some zero_AlgorithmInfo) (Some empty_DataInfo) s1 =
      Some (RETCODE_SUCCESS, Some ci, Some ai, Some (inp, False), Some io', s2)"
    and ch2: "channel ie items room size0 s2" and same2: "\<forall>i. sm_find (sh_segs s2) i = sm_find (sh_segs s) i"
    using full_request_transfer [OF ch d(1) f(1), of st zero_ClientInfo zero_AlgorithmInfo] by blast
  obtain rp s3 s' where rep: "ParcelDataInfo (ie_ops ie) (ie_shm ie) (Some out) (ci_clientUid ci)
      (Some (io_WriteInt32 (ie_ops ie) ret (ie_empty ie))) s2 = Some (Some rp, s3)"
    "\<And>nb. CallbackBuff (ie_ops ie) (ie_shm ie) (Some nb) rp s3 = Some (RETCODE_SUCCESS, Some \<lparr>nb_ipcRetCode = RETCODE_SUCCESS,
        nb_retCode = ret, nb_outLen = di_length out, nb_outBuff = di_data out\<rparr>, s')"
    and s': "channel ie items room size0 s'" "\<forall>i. sm_find (sh_segs s') i = sm_find (sh_segs s2) i"
    using reply_transfer [OF ch2 d(2), of ret "ci_clientUid ci"] f(2) by blast
  have "InvokeLoadAlgorithm (ie_ops ie) (ie_shm ie) ops e io (ie_empty ie) st s1 = Some (ret, rp, st', s3)"
    using req(2) run rep(1) free_ok d by (simp add: InvokeLoadAlgorithm_def LoadAlgorithm_def request_ok_def)
  then have "server_rpc ie ops e 1 io (st, s1) = Some (Some rp, st', s3)"
    by (simp add: server_rpc_def Invoke_def Let_def)
  then have "LoadAlgorithmProxy ie (Some (server_rpc ie ops e)) ci ai inp out0 (st, s) = Some (ret, out, st', s')"
    using req(1) rep(2) by (simp add: LoadAlgorithmProxy_def invoke_buff_def Let_def)
  then show ?thesis using same2 s' by simp
qed

text \<open>
  The same for the calls that return a code only: starting an asynchronous execution and
  unloading an algorithm. The reply is one code, so the callback never writes behind the one
  cell of its owner, although it takes it for two.
\<close>

lemma remote_code_transparent:
  assumes ch: "channel ie items room size0 s" and d: "request_ok ci ai inp"
    and f: "fits ie room size0 (message_items (sh_next s) ci ai inp)" "fits ie room size0 [Int32 ret]"
    and empty: "\<forall>io. items io = [] \<longrightarrow> fst (io_ReadUint32 (ie_ops ie) io) = None"
  shows "(AsyncExecAlgoWrapper e (Some ci) (Some ai) inp st = Some (ret, st') \<longrightarrow>
      (\<exists>s'. AsyncExecuteAlgorithmProxy ie (Some (server_rpc ie ops e)) ci ai inp (st, s) = Some (ret, st', s') \<and>
        (\<forall>i. sm_find (sh_segs s') i = sm_find (sh_segs s) i))) \<and>
    (UnloadAlgoWrapper ops e (Some ci) (Some ai) inp st = Some (ret, st') \<longrightarrow>
      (\<exists>s'. UnloadAlgorithmProxy ie (Some (server_rpc ie ops e)) ci ai inp (st, s) = Some (ret, st', s') \<and>
        (\<forall>i. sm_find (sh_segs s') i = sm_find (sh_segs s) i)))"
proof -
  obtain io s1 io' s2 where req: "full_request ie ci ai inp (st, s) = Some (io, st, s1)"
    "UnParcelInfo (ie_ops ie) (ie_shm ie) (Some io) (Some zero_ClientInfo) (Some zero_AlgorithmInfo) (Some empty_DataInfo) s1 =
      Some (RETCODE_SUCCESS, Some ci, Some ai, Some (inp, False), Some io', s2)"
    and ch2: "channel ie items room size0 s2" and same2: "\<forall>i. sm_find (sh_segs s2) i = sm_find (sh_segs s) i"
    using full_request_transfer [OF ch d f(1), of st zero_ClientInfo zero_AlgorithmInfo] by blast
  note cb = code_reply [OF ch2 f(2) empty]
  have "AsyncExecuteAlgorithmProxy ie (Some (server_rpc ie ops e)) ci ai inp (st, s) = Some (ret, st', s2)"
    if "AsyncExecAlgoWrapper e (Some ci) (Some ai) inp st = Some (ret, st')"
    using that req cb by (simp add: AsyncExecuteAlgorithmProxy_def invoke_notify_def server_rpc_def Invoke_def
        InvokeAsyncExecute_def AsyncExecuteAlgorithm_def Let_def)
  moreover have "UnloadAlgorithmProxy ie (Some (server_rpc ie ops e)) ci ai inp (st, s) = Some (ret, st', s2)"
    if "UnloadAlgoWrapper ops e (Some ci) (Some ai) inp st = Some (ret, st')"
    using that req cb free_ok d by (simp add: UnloadAlgorithmProxy_def invoke_notify_def server_rpc_def Invoke_def
        InvokeUnloadAlgorithm_def UnloadAlgorithm_def request_ok_def Let_def)
  ultimately show ?thesis using same2 by blast
qed

definition list_env :: "io_item list ipc_env" where
  "list_env = \<lparr>ie_ops = list_ipc, ie_empty = [], ie_shm = shm_good\<rparr>"

lemma list_channel: "channel list_env (\<lambda>io. io) (\<lambda>io. 100 - length io) (\<lambda>_. 1) shm_start"
  using list_ipc_laws shm_start_ok by (simp add: channel_def list_env_def)

lemma demo_request: "request_ok demo_client demo_algorithm demo_block"
  by (simp add: request_ok_def data_ok_def demo_client_def demo_algorithm_def demo_block_def)

lemma demo_fits: "fits list_env (\<lambda>io. 100 - length io) (\<lambda>_. 1) (message_items (sh_next shm_start) demo_client demo_algorithm demo_block)"
  by (simp add: fits_def list_env_def message_items_def client_items_def algorithm_items_def parcel_items_def
      demo_client_def demo_algorithm_def demo_block_def Let_def by_shm_def)

lemmas demo_call = demo_server_def server_init_def FindAdapter_def demo_client_def AdapterGuard_def AdapterGuard_dtor_def
  upd_adapter_def senv_good_def GetEngineManager_def ServerExecutor_GetInstance_def ServerExecutor_Initialize_def
  EngineManager_Initialize_def upd_exec_def SaServerAdapter_new_def IncRef_def DecRef_def Let_def

text \<open>Loading an unknown algorithm type: the server refuses it.\<close>

lemma demo_load:
  "\<exists>st'. LoadAlgoWrapper demo_ops (senv_good demo_env) (Some demo_client) (Some (demo_algorithm\<lparr>ai_algorithmType := 999\<rparr>))
     demo_block empty_DataInfo demo_server = Some (RETCODE_ALGORITHM_ID_INVALID, empty_DataInfo, st')"
  by (simp add: LoadAlgoWrapper_def demo_call SA_LoadAlgorithm_def SE_StartEngine_def StartEngine_def
      GetAlgorithmIdByType_def ALGORITHM_TYPE_ID_LIST_def demo_algorithm_def)

lemma remote_load_transparent_demo:
  "\<exists>st' s'. LoadAlgorithmProxy list_env (Some (server_rpc list_env demo_ops (senv_good demo_env))) demo_client
     (demo_algorithm\<lparr>ai_algorithmType := 999\<rparr>) demo_block empty_DataInfo (demo_server, shm_start) =
     Some (RETCODE_ALGORITHM_ID_INVALID, empty_DataInfo, st', s')"
proof -
  let ?ai = "demo_algorithm\<lparr>ai_algorithmType := 999\<rparr>"
  obtain st' where run: "LoadAlgoWrapper demo_ops (senv_good demo_env) (Some demo_client) (Some ?ai)
     demo_block empty_DataInfo demo_server = Some (RETCODE_ALGORITHM_ID_INVALID, empty_DataInfo, st')"
    using demo_load by blast
  have r: "request_ok demo_client ?ai demo_block" and o: "data_ok empty_DataInfo"
    using demo_request by (simp_all add: request_ok_def data_ok_def)
  have f: "fits list_env (\<lambda>io. 100 - length io) (\<lambda>_. 1) (message_items (sh_next shm_start) demo_client ?ai demo_block)"
    using demo_fits by (simp add: fits_def message_items_def algorithm_items_def Let_def)
  have g: "\<forall>s'. fits list_env (\<lambda>io. 100 - length io) (\<lambda>_. 1) (reply_items s' RETCODE_ALGORITHM_ID_INVALID empty_DataInfo)"
    by (simp add: fits_def reply_items_def parcel_items_def list_env_def)
  from remote_load_transparent [OF list_channel r o f g run, of empty_DataInfo] show ?thesis by blast
qed

text \<open>An execution for a session that loaded nothing.\<close>

lemma demo_async:
  "\<exists>st'. AsyncExecAlgoWrapper (senv_good demo_env) (Some demo_client) (Some demo_algorithm) demo_block demo_server =
     Some (RETCODE_ENGINE_NOT_EXIST, st')"
  by (simp add: AsyncExecAlgoWrapper_def demo_call SA_AsyncExecute_def SE_AsyncExecute_def ConvertToRequest_def
      FindEngine_client_def exec_init_def demo_algorithm_def)

lemma remote_code_transparent_demo:
  "\<exists>st' s'. AsyncExecuteAlgorithmProxy list_env (Some (server_rpc list_env demo_ops (senv_good demo_env))) demo_client
     demo_algorithm demo_block (demo_server, shm_start) = Some (RETCODE_ENGINE_NOT_EXIST, st', s')"
proof -
  obtain st' where run: "AsyncExecAlgoWrapper (senv_good demo_env) (Some demo_client) (Some demo_algorithm) demo_block demo_server =
     Some (RETCODE_ENGINE_NOT_EXIST, st')"
    using demo_async by blast
  have f: "fits list_env (\<lambda>io. 100 - length io) (\<lambda>_. 1) [Int32 RETCODE_ENGINE_NOT_EXIST]"
    by (simp add: fits_def list_env_def)
  have empty: "\<forall>io. io = [] \<longrightarrow> fst (io_ReadUint32 (ie_ops list_env) io) = None"
    by (simp add: list_env_def list_ipc_def)
  from remote_code_transparent [OF list_channel demo_request demo_fits f empty, of "senv_good demo_env" demo_server st' demo_ops]
  show ?thesis using run by blast
qed

section \<open>Options when a segment cannot be detached\<close>

lemma UnParcelClientInfo_plain:
  assumes laws: "ipc_laws ops items room size0" and ci: "ci_extend ci = empty_DataInfo"
    and it: "items io = client_items ci @ Int32 0 # rest"
  shows "\<exists>io'. UnParcelClientInfo ops e (Some io) (Some ci0) s = Some (RETCODE_SUCCESS, Some ci, Some io', s) \<and> items io' = rest"
proof -
  note rd = reads [OF laws]
  obtain io1 io2 io3 io4 io5 where
    "io_ReadInt64 ops io = (Some (ci_clientVersion ci), io1)" "io_ReadInt32 ops io1 = (Some (ci_clientId ci), io2)"
    "io_ReadInt32 ops io2 = (Some (ci_sessionId ci), io3)" "io_ReadUint32 ops io3 = (Some (ci_serverUid ci), io4)"
    "io_ReadUint32 ops io4 = (Some (ci_clientUid ci), io5)" "items io5 = Int32 0 # rest"
    using it rd(1-3) unfolding client_items_def by (metis append_Cons append_Nil)
  moreover from this(6) obtain io6 where "io_ReadInt32 ops io5 = (Some 0, io6)" "items io6 = rest" using rd(1) by blast
  ultimately show ?thesis using ci by (simp add: UnParcelClientInfo_def UnParcelDataInfo_def Let_def)
qed

text \<open>C31. Setting or getting an option with a parameter of 200 bytes or more, when the server cannot
  detach the shared memory segment it has just copied the parameter from: the segment is released,
  the copy is freed where it was made, and once more by the service function, for the pointer to
  it is still there. Both service functions free a block twice.\<close>

theorem option_parameter_freed_twice:
  assumes laws: "ipc_laws ops items room size0" and e: "she_at e" "she_malloc e" "\<not> she_dt e"
    and ci: "ci_extend ci = empty_DataInfo" and d: "data_ok d" "by_shm d" "holds_block d i s"
    and it: "items req = client_items ci @ Int32 0 # Int32 optionType # parcel_items i d @ rest"
  shows "InvokeSetOption ops e po se req reply st s = None \<and> InvokeGetOption ops e po se req reply st s = None"
proof -
  note rd = reads [OF laws]
  obtain bs where bs: "di_data d = Some bs" "bs \<noteq> []" "di_length d = int (length bs)" "di_length d \<le> MAX_SHM_DATA_SIZE"
    using d(1,2) by (auto simp: data_ok_def by_shm_def)
  obtain g where g: "sm_find (sh_segs s) i = Some g" "sg_bytes g = bs" "0 \<le> i"
    using d(2,3) bs(1) by (auto simp: holds_block_def)
  obtain r1 where r1: "UnParcelClientInfo ops e (Some req) (Some zero_ClientInfo) s = Some (RETCODE_SUCCESS, Some ci, Some r1, s)"
      "items r1 = Int32 optionType # Int32 (di_length d) # Int32 i # Int32 (di_length d) # rest"
    using UnParcelClientInfo_plain [OF laws ci it, of e zero_ClientInfo s] bs(1) d(2) by (auto simp: parcel_items_def)
  then obtain r2 r3 r4 r5 where rs: "io_ReadInt32 ops r1 = (Some optionType, r2)" "io_ReadInt32 ops r2 = (Some (di_length d), r3)"
      "io_ReadInt32 ops r3 = (Some i, r4)" "io_ReadInt32 ops r4 = (Some (di_length d), r5)"
    using rd(1) by metis
  have "\<not> di_length d < IPC_MAX_TRANS_CAPACITY" "i \<noteq> - 1" using d(2) g(3) by (auto simp: by_shm_def)
  then have "UnParcelDataInfo ops e (Some r2) (Some empty_DataInfo) s =
      Some (RETCODE_FAILURE, Some (\<lparr>di_data = Some bs, di_length = di_length d\<rparr>, True), Some r5, ReleaseShmId e i s)"
    using rs(2-4) bs g e by (simp add: UnParcelDataInfo_def IpcIoPopSharedMemory_def mem_read_all Let_def)
  then show ?thesis
    using r1(1) rs(1) by (simp add: InvokeSetOption_def InvokeGetOption_def free_ptr_def FreeDataInfo_def)
qed

theorem option_parameter_freed_twice_witness:
  "\<exists>s. InvokeSetOption list_ipc (shm_good\<lparr>she_dt := False\<rparr>) demo_ops (senv_good demo_env)
     (client_items demo_client @ [Int32 0, Int32 5, Int32 300, Int32 0, Int32 300]) [] demo_server s = None"
proof -
  let ?s = "shm_start\<lparr>sh_segs := [(0, \<lparr>sg_key = 200000, sg_bytes = replicate 300 5, sg_uid = 1000\<rparr>)]\<rparr>"
  have e: "she_at (shm_good\<lparr>she_dt := False\<rparr>)" "she_malloc (shm_good\<lparr>she_dt := False\<rparr>)" "\<not> she_dt (shm_good\<lparr>she_dt := False\<rparr>)"
    by (simp_all add: shm_good_def)
  have d: "data_ok demo_block" "by_shm demo_block" "holds_block demo_block 0 ?s"
    by (simp_all add: data_ok_def by_shm_def holds_block_def demo_block_def)
  have ci: "ci_extend demo_client = empty_DataInfo" by (simp add: demo_client_def)
  have it: "client_items demo_client @ [Int32 0, Int32 5, Int32 300, Int32 0, Int32 300] =
      client_items demo_client @ Int32 0 # Int32 5 # parcel_items 0 demo_block @ []"
    using d(2) by (simp add: parcel_items_def demo_block_def)
  from option_parameter_freed_twice [OF list_ipc_laws e ci d it] show ?thesis by blast
qed

end
