(* ===== verification/SyncRemote.thy ===== *)
theory SyncRemote
  imports Remote ClientExecutor
begin

text \<open>
  A synchronous execution all the way: from the client's session through the IPC library, the
  service, its executor and the engine's queue to the plugin, and back with the plugin's answer.
\<close>

section \<open>The service with an engine that works\<close>

text \<open>
  What the client's calls meet: as \<open>server_rpc\<close>, and a synchronous execution waits in the service
  while the engine's worker, on its own thread, acts \<open>k\<close> times on the queue \<open>qa\<close>. \<open>None\<close>: the call
  does not come back.
\<close>

definition sync_rpc ::
  "'io ipc_env \<Rightarrow> 'p plug_ops \<Rightarrow> senv \<Rightarrow> bool \<Rightarrow> nat \<Rightarrow> nat \<Rightarrow> ('io, 'p server) rpc" where
  "sync_rpc ie ops e nr qa k code request w =
     do {
       r \<leftarrow> Invoke (ie_ops ie) (ie_shm ie) ops e code request (ie_empty ie) (fst w) (snd w);
       case r of
         Inl (reply, st, s) \<Rightarrow> Some (Some reply, st, s)
       | Inr (pending, st, s) \<Rightarrow> do {
           x \<leftarrow> worker_actions ops nr qa k (sv_exec st);
           (ret, reply, st1, s1) \<leftarrow>
             InvokeSyncExecute_receive (ie_ops ie) (ie_shm ie) e pending (ie_empty ie) (upd_exec x st) s;
           Some (Some reply, st1, s1)
         }
     }"

lemma sync_rpc_server: "server_rpc ie ops e code req w = Some x \<Longrightarrow> sync_rpc ie ops e nr qa k code req w = Some x"
  by (auto simp: server_rpc_def sync_rpc_def split: option.splits sum.splits)

text \<open>
  A session of a client in the server: its adapter, and the engine its algorithm runs on, idle,
  with queue \<open>qa\<close> and plugin \<open>pa\<close>.
\<close>

definition session_engine :: "ClientInfo \<Rightarrow> nat \<Rightarrow> nat \<Rightarrow> 'p server \<Rightarrow> bool" where
  "session_engine ci qa pa st \<longleftrightarrow> sv_executor st = Some True \<and>
     (\<exists>a ad ea h. FindAdapter (ci_clientId ci) st = Some a \<and> sv_adapters st a = Some ad \<and>
        FindEngine_client (GetTransactionId (ci_sessionId ci) ad) (sv_exec st) = Some ea \<and>
        sync_engine ea h qa pa [] (sv_exec st))"

text \<open>The request the session's adapter makes of a call.\<close>

definition session_request :: "ClientInfo \<Rightarrow> AlgorithmInfo \<Rightarrow> DataInfo \<Rightarrow> 'p server \<Rightarrow> Request option" where
  "session_request ci ai inp st =
     do { a \<leftarrow> FindAdapter (ci_clientId ci) st; ad \<leftarrow> sv_adapters st a; ConvertToRequest True ad ci ai inp }"

text \<open>What the caller gets of the plugin's code and response.\<close>

definition answer_code :: "retcode \<Rightarrow> retcode" where
  "answer_code rc = (if rc \<noteq> RETCODE_SUCCESS then RETCODE_ALGORITHM_PROCESS_ERROR else RETCODE_SUCCESS)"

definition answer_data :: "retcode \<Rightarrow> Response option \<Rightarrow> DataInfo" where
  "answer_data rc resp =
     (if rc \<noteq> RETCODE_SUCCESS then empty_DataInfo else case resp of None \<Rightarrow> empty_DataInfo | Some r \<Rightarrow> rs_result r)"

section \<open>The engines of the sessions stay\<close>

lemma set_queue_engines [simp]:
  "em_clientEngines (set_queue qa q st) = em_clientEngines st" "ex_waiting (set_queue qa q st) = ex_waiting st"
  by (simp_all add: set_queue_def)

lemma set_alg_engines [simp]:
  "em_clientEngines (set_alg pa p st) = em_clientEngines st" "ex_waiting (set_alg pa p st) = ex_waiting st"
  by (simp_all add: set_alg_def)

lemma send_keeps_engines:
  "Engine_SyncExecute_send a r st = Some (x, st1) \<Longrightarrow> em_clientEngines st1 = em_clientEngines st"
  by (auto simp: Engine_SyncExecute_send_def SyncMsgHandler_SendRequest_def Let_def
      split: option.splits handler.splits if_splits bind_splits)

lemma on_events_engines [simp]:
  "em_clientEngines (on_events es st) = em_clientEngines st" "ex_waiting (on_events es st) = ex_waiting st"
  by (induction es st rule: on_events.induct)
    (auto simp: AsyncMsgHandler_OnEvent_def Let_def split: option.splits prod.splits)

lemma worker_keeps_engines:
  "EngineWorker_OneAction ops nr qa st = Some (x, st1) \<Longrightarrow>
     em_clientEngines st1 = em_clientEngines st \<and> ex_waiting st1 = ex_waiting st"
  by (auto simp: EngineWorker_OneAction_def handler_Process_def SyncMsgHandler_Process_def AsyncMsgHandler_Process_def Let_def
      split: option.splits handler.splits if_splits bind_splits prod.splits)

section \<open>The server's part\<close>

lemma worker_idle_after:
  "EngineWorker_OneAction ops nr qa st = Some (True, st1) \<Longrightarrow> sync_engine a h qa pa [] st1 \<Longrightarrow>
     worker_actions ops nr qa (Suc k) st = Some st1"
  using worker_idle [of a h qa pa st1 ops nr k] by simp

text \<open>
  The request is queued, the worker serves it, and the caller gets the answer; the adapter is as
  it was, and the session's engine idle again.
\<close>

lemma session_serves:
  assumes s: "session_engine ci qa pa st" and e: "sn_request e" and ai: "\<not> ai_isAsync ai"
    and req: "session_request ci ai inp st = Some req"
    and p: "po_SyncProcess ops req (ex_algs (sv_exec st) pa) = (rc, resp, p')" "resp \<noteq> None \<or> nr"
  shows "\<exists>a n st1 x st'. SyncExecAlgoWrapper_send e (Some ci) (Some ai) inp st = Some (Inr (a, n), st1) \<and>
    worker_actions ops nr qa (Suc k) (sv_exec st1) = Some x \<and>
    SyncExecAlgoWrapper_receive e a n (upd_exec x st1) = Some (answer_code rc, answer_data rc resp, st') \<and>
    session_engine ci qa pa st' \<and> ex_algs (sv_exec st') = (ex_algs (sv_exec st))(pa := p') \<and>
    (\<exists>x'. st' = upd_exec x' st)"
proof -
  obtain a ad ea h where s': "sv_executor st = Some True" "FindAdapter (ci_clientId ci) st = Some a" "sv_adapters st a = Some ad"
      "FindEngine_client (GetTransactionId (ci_sessionId ci) ad) (sv_exec st) = Some ea" "sync_engine ea h qa pa [] (sv_exec st)"
    using s by (auto simp: session_engine_def)
  let ?n = "ex_next (sv_exec st)"
  let ?t = "\<lparr>tk_handler = Some h, tk_request = Some req, tk_notifier = Some ?n\<rparr>"
  let ?st = "st\<lparr>sv_adapters := (sv_adapters st)(a \<mapsto> IncRef ad)\<rparr>"
  have r: "ConvertToRequest True ad ci ai inp = Some req" using req s'(2,3) by (simp add: session_request_def)
  then have tid: "rq_transactionId req = GetTransactionId (ci_sessionId ci) ad" by (auto simp: ConvertToRequest_def)
  have r2: "ConvertToRequest True (IncRef ad) ci ai inp = Some req"
    using r by (simp add: ConvertToRequest_def IncRef_def GetTransactionId_def)
  obtain x1 where x1: "Engine_SyncExecute_send ea (Some req) (sv_exec st) = Some (Inr ?n, x1)" "sync_engine ea h qa pa [?t] x1"
      "ex_notifiers x1 = (ex_notifiers (sv_exec st))(?n \<mapsto> Notifier_new)" "ex_algs x1 = ex_algs (sv_exec st)"
    using send_sync [OF s'(5), of req] by auto
  define y1 where "y1 = x1\<lparr>ex_waiting := (?n, ea) # ex_waiting x1\<rparr>"
  have y1: "sync_engine ea h qa pa [?t] y1" "ex_notifiers y1 = ex_notifiers x1" "ex_algs y1 = ex_algs x1"
    "em_clientEngines y1 = em_clientEngines x1" "ex_waiting y1 = (?n, ea) # ex_waiting x1"
    using x1(2) by (simp_all add: y1_def sync_engine_def queue_at_def)
  have send: "SyncExecAlgoWrapper_send e (Some ci) (Some ai) inp st = Some (Inr (a, ?n), upd_exec y1 ?st)"
    using s'(1-4) ai e r2 x1(1) tid
    by (simp add: SyncExecAlgoWrapper_send_def AdapterGuard_def upd_adapter_def SA_SyncExecute_send_def GetEngineManager_def
        ServerExecutor_GetInstance_def SE_SyncExecute_send_def Let_def upd_exec_def y1_def)
  obtain x2 where x2: "EngineWorker_OneAction ops nr qa y1 = Some (True, x2)" "sync_engine ea h qa pa [] x2"
      "ex_notifiers x2 = (ex_notifiers y1)(?n \<mapsto> AddToBack (Some (answer req rc resp)) Notifier_new)"
      "ex_algs x2 = (ex_algs y1)(pa := p')"
    using worker_serves [OF y1(1) _ _ _ _ _ p(2), of req ?n Notifier_new ops rc p'] x1(3,4) y1(2,3) p(1) by auto
  define x3 where "x3 = x2\<lparr>ex_notifiers := (ex_notifiers x2)(?n := None),
    ex_waiting := filter (\<lambda>p. fst p \<noteq> ?n) (ex_waiting x2)\<rparr>"
  have em: "em_clientEngines x2 = em_clientEngines (sv_exec st)" "ex_waiting x2 = ex_waiting y1"
    using send_keeps_engines [OF x1(1)] worker_keeps_engines [OF x2(1)] y1(4) by simp_all
  have "engine_held ea x3"
    using s'(4) em(1) by (auto simp: engine_held_def x3_def FindEngine_client_def dest: sm_find_value)
  then have got: "SE_SyncExecute_receive (sn_x e) ?n x2 = Some (answer_code rc, Some (answer req rc resp), x3)"
    using receive_answer [of x2 ?n "answer req rc resp"] x2(3) em(2) y1(5)
    by (simp add: SE_SyncExecute_receive_def drop_engine_def x3_def answer_def answer_code_def)
  have data: "(if answer_code rc = RETCODE_SUCCESS then rs_result (answer req rc resp) else empty_DataInfo) = answer_data rc resp"
    by (auto simp: answer_code_def answer_data_def answer_def Response_new_def Let_def split: option.splits)
  have answered: "SyncExecAlgoWrapper_receive e a ?n (upd_exec x2 (upd_exec y1 ?st)) = Some (answer_code rc, answer_data rc resp, upd_exec x3 st)"
    using got data s'(3) by (auto simp: SyncExecAlgoWrapper_receive_def SA_SyncExecute_receive_def AdapterGuard_dtor_def upd_adapter_def
        upd_exec_def IncRef_def DecRef_def Let_def fun_upd_idem)
  have "em_clientEngines x3 = em_clientEngines (sv_exec st)" using em(1) by (simp add: x3_def)
  moreover have "sync_engine ea h qa pa [] x3" using x2(2) by (simp add: x3_def sync_engine_def queue_at_def)
  ultimately have "session_engine ci qa pa (upd_exec x3 st)"
    using s' by (auto simp: session_engine_def upd_exec_def FindAdapter_def FindEngine_client_def)
  moreover have "worker_actions ops nr qa (Suc k) (sv_exec (upd_exec y1 ?st)) = Some x2"
    using worker_idle_after [OF x2(1,2)] by (simp add: upd_exec_def)
  moreover have "ex_algs (sv_exec (upd_exec x3 st)) = (ex_algs (sv_exec st))(pa := p')"
    using x2(4) x1(4) y1(3) by (simp add: x3_def upd_exec_def)
  ultimately show ?thesis using send answered by blast
qed

section \<open>The client's part\<close>

text \<open>A session of the client that is connected by \<open>rpc\<close>.\<close>

definition open_session :: "('io, 's) rpc \<Rightarrow> ClientInfo \<Rightarrow> ('io, 's) client \<Rightarrow> bool" where
  "open_session rpc ci c \<longleftrightarrow> ci_sessionId ci \<noteq> INVALID_SESSION_ID \<and> ca_instance c \<and> sc_instance c \<and> sc_proxy c = Some (Some rpc)"

lemma open_session_calls:
  assumes "open_session rpc ci c" and "\<not> ai_isAsync ai"
  shows "AieClientSyncProcess ce ci ai inp out0 c w =
    map_option (\<lambda>r. (r, c)) (SyncExecAlgorithmProxy (ce_ipc ce) (Some rpc) ci ai inp out0 w)"
  using assms
  by (simp add: open_session_def AieClientSyncProcess_def SaClientAdapter_GetInstance_def ClientSyncProcess_def
      SCA_SyncExecute_def with_client_def SaClient_GetInstance_def SaClient_SyncExecuteAlgorithm_def with_proxy_def)

lemma sync_request_calls:
  assumes client: "open_session (sync_rpc (ce_ipc ce) ops e nr qa (Suc k)) ci c" "\<not> ai_isAsync ai"
    and server: "session_engine ci qa pa st" "sn_request e" "session_request ci ai inp st = Some req"
    and plugin: "po_SyncProcess ops req (ex_algs (sv_exec st) pa) = (rc, resp, p')" "resp \<noteq> None \<or> nr"
    and ipc: "channel (ce_ipc ce) items room size0 s" "request_ok ci ai inp" "data_ok (answer_data rc resp)"
      "fits (ce_ipc ce) room size0 (message_items (sh_next s) ci ai inp)"
      "\<forall>s'. fits (ce_ipc ce) room size0 (reply_items s' (answer_code rc) (answer_data rc resp))"
  shows "\<exists>st' s'. AieClientSyncProcess ce ci ai inp outp c (st, s) =
      Some ((answer_code rc, answer_data rc resp, st', s'), c) \<and>
    ex_algs (sv_exec st') = (ex_algs (sv_exec st))(pa := p') \<and> sv_adapters st' = sv_adapters st \<and>
    session_engine ci qa pa st' \<and> (\<forall>i. sm_find (sh_segs s') i = sm_find (sh_segs s) i) \<and>
    channel (ce_ipc ce) items room size0 s'"
proof -
  let ?ie = "ce_ipc ce" and ?ret = "answer_code rc" and ?out = "answer_data rc resp"
  obtain io s1 io' s2 where q: "full_request ?ie ci ai inp (st, s) = Some (io, st, s1)"
    "UnParcelInfo (ie_ops ?ie) (ie_shm ?ie) (Some io) (Some zero_ClientInfo) (Some zero_AlgorithmInfo) (Some empty_DataInfo) s1 =
      Some (RETCODE_SUCCESS, Some ci, Some ai, Some (inp, False), Some io', s2)"
    and ch2: "channel ?ie items room size0 s2" and same2: "\<forall>i. sm_find (sh_segs s2) i = sm_find (sh_segs s) i"
    using full_request_transfer [OF ipc(1,2,4), of st zero_ClientInfo zero_AlgorithmInfo] by blast
  obtain a n st1 x st' where sv: "SyncExecAlgoWrapper_send e (Some ci) (Some ai) inp st = Some (Inr (a, n), st1)"
    "worker_actions ops nr qa (Suc k) (sv_exec st1) = Some x"
    "SyncExecAlgoWrapper_receive e a n (upd_exec x st1) = Some (?ret, ?out, st')"
    and st': "session_engine ci qa pa st'" "ex_algs (sv_exec st') = (ex_algs (sv_exec st))(pa := p')" "\<exists>x'. st' = upd_exec x' st"
    using session_serves [OF server(1,2) client(2) server(3) plugin, of k] by blast
  obtain rp s3 s' where rep: "ParcelDataInfo (ie_ops ?ie) (ie_shm ?ie) (Some ?out) (ci_clientUid ci)
      (Some (io_WriteInt32 (ie_ops ?ie) ?ret (ie_empty ?ie))) s2 = Some (Some rp, s3)"
    "\<And>nb. CallbackBuff (ie_ops ?ie) (ie_shm ?ie) (Some nb) rp s3 = Some (RETCODE_SUCCESS, Some \<lparr>nb_ipcRetCode = RETCODE_SUCCESS,
        nb_retCode = ?ret, nb_outLen = di_length ?out, nb_outBuff = di_data ?out\<rparr>, s')"
    and s': "channel ?ie items room size0 s'" "\<forall>i. sm_find (sh_segs s') i = sm_find (sh_segs s2) i"
    using reply_transfer [OF ch2 ipc(3), of ?ret "ci_clientUid ci"] ipc(5) by blast
  have "InvokeSyncExecute_send (ie_ops ?ie) (ie_shm ?ie) e io (ie_empty ?ie) st s1 = Some (Inr ((ci, a, n), st1, s2))"
    using q(2) sv(1) by (simp add: InvokeSyncExecute_send_def SyncExecuteAlgorithm_send_def)
  moreover have "InvokeSyncExecute_receive (ie_ops ?ie) (ie_shm ?ie) e (ci, a, n) (ie_empty ?ie) (upd_exec x st1) s2 =
      Some (?ret, rp, st', s3)"
    using sv(3) rep(1) free_ok [OF ipc(3)] by (simp add: InvokeSyncExecute_receive_def)
  ultimately have "sync_rpc ?ie ops e nr qa (Suc k) 2 io (st, s1) = Some (Some rp, st', s3)"
    using sv(2) by (simp add: sync_rpc_def Invoke_def Let_def del: worker_actions.simps)
  then have "SyncExecAlgorithmProxy ?ie (Some (sync_rpc ?ie ops e nr qa (Suc k))) ci ai inp outp (st, s) = Some (?ret, ?out, st', s')"
    using q(1) rep(2) by (simp add: SyncExecAlgorithmProxy_def invoke_buff_def Let_def)
  then have "AieClientSyncProcess ce ci ai inp outp c (st, s) = Some ((?ret, ?out, st', s'), c)"
    using open_session_calls [OF client] by simp
  moreover have "sv_adapters st' = sv_adapters st" using st'(3) by (auto simp: upd_exec_def)
  ultimately show ?thesis using st'(1,2) s' same2 by auto
qed

text \<open>C30. A synchronous execution goes all the way: a call in an open session of a connected client, for
  which the server has an idle engine, is answered by the plugin of that engine. The plugin gets
  one request, with the caller's block; the caller gets 0 and the block of the plugin's response
  (none if it made no response), or \<open>RETCODE_ALGORITHM_PROCESS_ERROR\<close> and no block when the plugin
  failed. Afterwards the plugin's state is what the plugin left, the adapter's reference is given
  back, the session's engine is idle again, no shared memory segment is left behind, and the
  client is unchanged - whether the blocks travelled in the messages or in segments, and however
  often the worker looks at its queue; provided the library behaves as documented, both messages
  fit, keys are free and the system calls succeed.\<close>

theorem sync_request_served:
  assumes client: "open_session (sync_rpc (ce_ipc ce) ops e nr qa (Suc k)) ci c" "\<not> ai_isAsync ai"
    and server: "session_engine ci qa pa st" "sn_request e" "session_request ci ai inp st = Some req"
    and plugin: "po_SyncProcess ops req (ex_algs (sv_exec st) pa) = (rc, resp, p')" "resp \<noteq> None \<or> nr"
    and ipc: "channel (ce_ipc ce) items room size0 s" "request_ok ci ai inp" "data_ok (answer_data rc resp)"
      "fits (ce_ipc ce) room size0 (message_items (sh_next s) ci ai inp)"
      "\<forall>s'. fits (ce_ipc ce) room size0 (reply_items s' (answer_code rc) (answer_data rc resp))"
  shows "\<exists>st' s'. AieClientSyncProcess ce ci ai inp outp c (st, s) =
      Some ((answer_code rc, answer_data rc resp, st', s'), c) \<and>
    ex_algs (sv_exec st') = (ex_algs (sv_exec st))(pa := p') \<and> sv_adapters st' = sv_adapters st \<and>
    session_engine ci qa pa st' \<and> (\<forall>i. sm_find (sh_segs s') i = sm_find (sh_segs s) i) \<and>
    channel (ce_ipc ce) items room size0 s'"
  by (rule sync_request_calls [OF assms])

section \<open>An example\<close>

text \<open>
  A connected client with session 4, and a server with that client's adapter (id 3) and an idle
  engine for the session, on queue 0, whose plugin is at 7 and in state \<open>p\<close>.
\<close>

definition linked_client :: "('io, 's) rpc \<Rightarrow> ('io, 's) client" where
  "linked_client rpc = client_init\<lparr>fc_clientId := 3, fc_serverUid := 1000, fc_sessionId := 4, fc_sessionInfos := [(4, 3)],
     sc_instance := True, sc_proxy := Some (Some rpc), ca_instance := True\<rparr>"

definition linked_env :: "(io_item list, 's) rpc \<Rightarrow> (io_item list, 's) cenv" where
  "linked_env rpc = \<lparr>ce_ipc = list_env, ce_remote = Some (Some rpc), ce_recipient = True, ce_client = True, ce_async = True,
     ce_adapter = True, ce_pool = True, ce_new_thread = True, ce_worker = True, ce_create = (\<lambda>_. (0, 7)),
     ce_alive = (\<lambda>_. True), ce_ends = True, ce_uid = 2000, ce_sid = 1\<rparr>"

definition working_exec :: "'p \<Rightarrow> 'p exec" where
  "working_exec p = (exec_init (\<lambda>_. p))\<lparr>
     ex_objs := [0 \<mapsto> \<lparr>en_refCount = 1, en_plugin = Some 0, en_thread = Some 0, en_queue = Some 0,
                      en_msgHandler = Some 1, en_worker = 2\<rparr>],
     ex_handlers := [1 \<mapsto> SyncMsgHandler 0 (Some 7)], ex_next := 3, em_clientEngines := [(12884901892, 0)],
     ex_qp := (QueuePool_new 64)\<lparr>qp_heap := [0 \<mapsto> Queue_new True 64], qp_busyQueueNum := 1, qp_next := 1\<rparr>\<rparr>"

definition working_server :: "'p \<Rightarrow> 'p server" where
  "working_server p = (server_init (\<lambda>_. p))\<lparr>sv_exec := working_exec p, sv_executor := Some True,
     sv_saServerAdapters := [(3, 0)], sv_adapters := (\<lambda>_. None)(0 := Some (SaServerAdapter_new 3)), sv_next := 1\<rparr>"

lemma demo_transaction: "GetTransactionId 4 (SaServerAdapter_new 3) = 12884901892"
  by (simp add: GetTransactionId_def SaServerAdapter_new_def swrap_def)

lemma linked_session: "open_session rpc demo_client (linked_client rpc)"
  by (simp add: open_session_def linked_client_def demo_client_def)

lemma working_session: "session_engine demo_client 0 7 (working_server p)"
proof -
  have "sync_engine 0 1 0 7 [] (working_exec p)"
    using Queue_new_ring [of 64] by (simp add: sync_engine_def working_exec_def queue_at_def)
  moreover have "FindEngine_client 12884901892 (working_exec p) = Some 0"
    by (simp add: FindEngine_client_def working_exec_def)
  ultimately show ?thesis
    using demo_transaction by (auto simp: session_engine_def working_server_def demo_client_def FindAdapter_def)
qed

lemma working_plugin: "ex_algs (sv_exec (working_server p)) 7 = p"
  by (simp add: working_server_def working_exec_def exec_init_def)

definition demo_sync_algorithm :: AlgorithmInfo where
  "demo_sync_algorithm = demo_algorithm\<lparr>ai_isAsync := False\<rparr>"

theorem sync_request_served_witness:
  "\<exists>st' s'. AieClientSyncProcess (linked_env (sync_rpc list_env demo_ops (senv_good demo_env) True 0 (Suc 0))) demo_client
     demo_sync_algorithm demo_block empty_DataInfo
     (linked_client (sync_rpc list_env demo_ops (senv_good demo_env) True 0 (Suc 0))) (working_server 5, shm_start) =
     Some ((RETCODE_SUCCESS, empty_DataInfo, st', s'), linked_client (sync_rpc list_env demo_ops (senv_good demo_env) True 0 (Suc 0))) \<and>
   ex_algs (sv_exec st') 7 = 6"
proof -
  let ?rpc = "sync_rpc list_env demo_ops (senv_good demo_env) True 0 (Suc 0)"
  let ?st = "working_server 5 :: nat server" and ?ai = demo_sync_algorithm
  have ipc: "ce_ipc (linked_env ?rpc) = list_env" by (simp add: linked_env_def)
  obtain req where req: "session_request demo_client ?ai demo_block ?st = Some req"
    by (simp add: session_request_def working_server_def demo_client_def FindAdapter_def ConvertToRequest_def)
  have p: "po_SyncProcess demo_ops req (ex_algs (sv_exec ?st) 7) = (0, None, 6)" by (simp add: demo_ops_def working_plugin)
  have e: "sn_request (senv_good demo_env)" "\<not> ai_isAsync ?ai" by (simp_all add: senv_good_def demo_sync_algorithm_def)
  have r: "request_ok demo_client ?ai demo_block" and d: "data_ok (answer_data 0 None)"
    using demo_request by (simp_all add: request_ok_def demo_sync_algorithm_def answer_data_def data_ok_def)
  have f: "fits list_env (\<lambda>io. 100 - length io) (\<lambda>_. 1) (message_items (sh_next shm_start) demo_client ?ai demo_block)"
    using demo_fits by (simp add: fits_def message_items_def algorithm_items_def demo_sync_algorithm_def Let_def)
  have g: "\<forall>s'. fits list_env (\<lambda>io. 100 - length io) (\<lambda>_. 1) (reply_items s' (answer_code 0) (answer_data 0 None))"
    by (simp add: fits_def reply_items_def parcel_items_def list_env_def answer_data_def)
  from sync_request_served [where ce = "linked_env ?rpc" and outp = empty_DataInfo and k = 0 and nr = True, unfolded ipc, OF linked_session e(2) working_session e(1) req p disjI2 [OF TrueI] list_channel r d f g]
  show ?thesis unfolding answer_code_def answer_data_def by (simp, metis fun_upd_same)
qed

end
