(* ===== verification/EngineAdapter.thy ===== *)
theory EngineAdapter
  imports EncDec StdMap DataChannel "HOL-Library.Monad_Syntax"
begin

text \<open>
  What the two plugins share: the interface of the inference engine (os_wrapper/engine_hal), which
  is not part of the repository and a parameter here, the configuration of a model
  (os_wrapper/utils/plugin_helper.h), and the numbers in the messages they exchange with their
  clients.
\<close>

text \<open>
  The operations of \<open>EngineAdapter\<close> on its state, with the memory at the addresses it gives out:
  \<open>ea_write addr off bytes\<close> and \<open>ea_read addr n\<close>, which are \<open>None\<close> outside of it.
\<close>

record 'a adapter_ops =
  ea_Init :: "string \<Rightarrow> 'a \<Rightarrow> retcode \<times> int \<times> 'a"
  ea_Deinit :: "'a \<Rightarrow> retcode \<times> 'a"
  ea_Invoke :: "int \<Rightarrow> 'a \<Rightarrow> retcode \<times> 'a"
  ea_GetInputAddr :: "int \<Rightarrow> nat \<Rightarrow> 'a \<Rightarrow> retcode \<times> nat \<times> nat"
  ea_GetOutputAddr :: "int \<Rightarrow> nat \<Rightarrow> 'a \<Rightarrow> retcode \<times> nat \<times> nat"
  ea_ReleaseHandle :: "int \<Rightarrow> 'a \<Rightarrow> retcode \<times> 'a"
  ea_write :: "nat \<Rightarrow> nat \<Rightarrow> byte list \<Rightarrow> 'a \<Rightarrow> 'a option"
  ea_read :: "nat \<Rightarrow> nat \<Rightarrow> 'a \<Rightarrow> byte list option"

record PluginConfig =
  pc_inputSize :: nat
  pc_outputSize :: nat
  pc_inputAddr :: nat
  pc_outputAddr :: nat

abbreviation (input) OPTION_GET_INPUT_SIZE :: int where "OPTION_GET_INPUT_SIZE \<equiv> 1001"
abbreviation (input) OPTION_GET_OUTPUT_SIZE :: int where "OPTION_GET_OUTPUT_SIZE \<equiv> 1002"
abbreviation (input) MODEL_INPUT_NODE_ID :: nat where "MODEL_INPUT_NODE_ID \<equiv> 0"
abbreviation (input) MODEL_OUTPUT_NODE_ID :: nat where "MODEL_OUTPUT_NODE_ID \<equiv> 0"

text \<open>A handle (\<open>intptr_t\<close>), a \<open>size_t\<close> and an \<open>int32_t\<close> in memory.\<close>

definition handle_bytes :: "int \<Rightarrow> byte list" where
  "handle_bytes h = le_bytes 8 (nat (h mod 2 ^ 64))"

definition bytes_handle :: "byte list \<Rightarrow> int" where
  "bytes_handle bs = swrap 64 (int (le_val bs))"

definition int32_bytes :: "int \<Rightarrow> byte list" where
  "int32_bytes i = le_bytes 4 (nat (i mod 2 ^ 32))"

definition bytes_int32 :: "byte list \<Rightarrow> int" where
  "bytes_int32 bs = swrap 32 (int (le_val bs))"

definition intptr :: "int \<Rightarrow> bool" where "intptr h \<longleftrightarrow> - (2 ^ 63) \<le> h \<and> h < 2 ^ 63"

lemma swrap_mod: "swrap w (x mod 2 ^ w) = swrap w x"
  by (simp add: swrap_def mod_add_left_eq)

lemma handle_roundtrip: "intptr h \<Longrightarrow> bytes_handle (handle_bytes h) = h"
  using swrap_id [of 64 h] by (simp add: bytes_handle_def handle_bytes_def le_val_le_bytes intptr_def swrap_mod [of 64, simplified] zmod_int)

lemma length_handle_bytes [simp]: "length (handle_bytes h) = 8" "length (int32_bytes i) = 4"
  by (simp_all add: handle_bytes_def int32_bytes_def)

lemma handle_bytes_ne [simp]: "handle_bytes h \<noteq> []" "int32_bytes i \<noteq> []"
  using length_handle_bytes(1) [of h] length_handle_bytes(2) [of i] by (auto simp del: length_handle_bytes)

text \<open>A block as \<open>n\<close> elements of \<open>w\<close> bytes.\<close>

definition elements :: "nat \<Rightarrow> nat \<Rightarrow> byte list \<Rightarrow> byte list list" where
  "elements w n bs = map (\<lambda>i. take w (drop (w * i) bs)) [0..<n]"

lemma elements_simps [simp]: "length (elements w n bs) = n"
  by (simp add: elements_def)

text \<open>What a message of a client holds: the handle first. \<open>None\<close> when it cannot be decoded.\<close>

definition decode_handle :: "cenv \<Rightarrow> DataInfo \<Rightarrow> target list \<Rightarrow> (retcode \<times> int \<times> param list) option" where
  "decode_handle e inputInfo ts =
     map_option (\<lambda>(ret, ps).
       if ret \<noteq> RETCODE_SUCCESS then (ret, 0, [])
       else (case ps of PVal h # vs \<Rightarrow> (ret, bytes_handle h, vs) | _ \<Rightarrow> (ret, 0, [])))
     (ProcessDecode e inputInfo (TVal 8 # ts))"

lemma decode_handle_encoded:
  assumes "sound_env e" "list_all param_ok (PVal (handle_bytes h) # ps)" "length (payload (PVal (handle_bytes h) # ps)) < 2 ^ 59"
    and "ProcessEncode e di (PVal (handle_bytes h) # ps) = Some (RETCODE_SUCCESS, di')" and "intptr h"
    and "list_all2 fits ts ps" "roomy_env (length (message (PVal (handle_bytes h) # ps))) e2"
  shows "decode_handle e2 di' ts = Some (RETCODE_SUCCESS, h, map decoded ps)"
proof -
  have "list_all2 fits (TVal 8 # ts) (PVal (handle_bytes h) # ps)" using assms(6) by simp
  from encode_decode_roundtrip [OF assms(1-4) this assms(7)]
  show ?thesis using handle_roundtrip [OF assms(5)] by (simp add: decode_handle_def)
qed

end
