(* ===== verification/SdkClient.thy ===== *)
theory SdkClient
  imports EngineAdapter ClientExecutor
begin

text \<open>
  What the two SDKs (services/client/algorithm_sdk) share: the functions of the client they
  call, what a caller's callback is told, and the guards that free a block at the end of a function.
\<close>

section \<open>The client of an SDK\<close>

text \<open>
  The functions of client_executor/include/i_aie_client.inl over some state of the client and the
  world. \<open>aie_client\<close> are the functions of this repository; \<open>rounds\<close> are the rounds of the
  connection thread during the waits of \<open>AieClientInit\<close>.
\<close>

record 'w aie_ops =
  ao_Init :: "string \<Rightarrow> ClientInfo \<Rightarrow> AlgorithmInfo \<Rightarrow> 'w \<Rightarrow> (retcode \<times> ClientInfo \<times> 'w) option"
  ao_Prepare :: "ClientInfo \<Rightarrow> AlgorithmInfo \<Rightarrow> DataInfo \<Rightarrow> DataInfo \<Rightarrow> 'w \<Rightarrow> (retcode \<times> DataInfo \<times> 'w) option"
  ao_SyncProcess :: "ClientInfo \<Rightarrow> AlgorithmInfo \<Rightarrow> DataInfo \<Rightarrow> DataInfo \<Rightarrow> 'w \<Rightarrow> (retcode \<times> DataInfo \<times> 'w) option"
  ao_Release :: "ClientInfo \<Rightarrow> AlgorithmInfo \<Rightarrow> DataInfo \<Rightarrow> 'w \<Rightarrow> (retcode \<times> 'w) option"
  ao_Destroy :: "ClientInfo \<Rightarrow> 'w \<Rightarrow> (retcode \<times> ClientInfo \<times> 'w) option"

definition aie_client :: "('io, 's) ClientExecutor.cenv \<Rightarrow> nat list \<Rightarrow> (('io, 's) client \<times> 's \<times> shmsys) aie_ops" where
  "aie_client e rounds =
     \<lparr>ao_Init = \<lambda>d ci ai (c, w). AieClientInit e rounds d ci ai None c w,
      ao_Prepare = \<lambda>ci ai i out (c, w). AieClientPrepare e ci ai i out None c w,
      ao_SyncProcess = \<lambda>ci ai i out (c, w).
        map_option (\<lambda>((r, o1, w1), c1). (r, o1, c1, w1)) (AieClientSyncProcess e ci ai i out c w),
      ao_Release = \<lambda>ci ai i (c, w). AieClientRelease e ci ai i c w,
      ao_Destroy = \<lambda>ci (c, w). AieClientDestroy e ci c w\<rparr>"

section \<open>The callback of the caller\<close>

text \<open>What a callback is told; the calls are recorded in order.\<close>

datatype sdk_event = OnError int | OnResult arr

text \<open>\<open>(callback_ != nullptr) ? ... : ...\<close>\<close>

definition notify :: "bool \<Rightarrow> sdk_event \<Rightarrow> sdk_event list \<Rightarrow> sdk_event list" where
  "notify present ev log = (if present then log @ [ev] else log)"

text \<open>
  The handle after \<open>ProcessDecode(outputInfo, handle, ...)\<close>: it is assigned as soon as it is read,
  also when something behind it is wrong.
\<close>

definition handle_read :: "int \<Rightarrow> param list \<Rightarrow> int" where
  "handle_read h ps = (case ps of PVal bs # _ \<Rightarrow> bytes_handle bs | _ \<Rightarrow> h)"

text \<open>A client before \<open>AieClientInit\<close>.\<close>

definition fresh_ClientInfo :: "int \<Rightarrow> ClientInfo" where
  "fresh_ClientInfo version =
     \<lparr>ci_clientVersion = version, ci_clientId = INVALID_CLIENT_ID, ci_sessionId = INVALID_SESSION_ID, ci_serverUid = 0,
      ci_clientUid = 0, ci_extend = empty_DataInfo\<rparr>"

definition sync_AlgorithmInfo :: "int \<Rightarrow> int \<Rightarrow> int \<Rightarrow> AlgorithmInfo" where
  "sync_AlgorithmInfo version atype aversion =
     \<lparr>ai_clientVersion = version, ai_isAsync = False, ai_algorithmType = atype, ai_algorithmVersion = aversion,
      ai_isCloud = False, ai_operateId = 0, ai_requestId = 0, ai_extend = empty_DataInfo\<rparr>"

lemma handle_read_decoded: "intptr h \<Longrightarrow> handle_read h0 (map decoded (PVal (handle_bytes h) # ps)) = h"
  by (simp add: handle_read_def handle_roundtrip)

end
