(* ===== verification/Stack.thy ===== *)
theory Stack
  imports SyncRemote SdkClient
begin

text \<open>
  The interface between the SDKs and a plugin on the other side of the service: what a call of
  \<open>AieClientSyncProcess\<close> promises its caller, as a locale, and the client, IPC, server and engine of
  this repository as its instance.
\<close>

section \<open>The contract of a synchronous call\<close>

text \<open>What a plugin makes of a block: the caller's code and block, and the plugin's new state.\<close>

type_synonym 'p sync_fun = "ClientInfo \<Rightarrow> AlgorithmInfo \<Rightarrow> DataInfo \<Rightarrow> DataInfo \<Rightarrow> 'p \<Rightarrow> (retcode \<times> DataInfo \<times> 'p) option"

text \<open>
  In a world \<open>w\<close> that stands for the plugin's state \<open>p\<close>, a call has the plugin's result and leaves a
  world that stands for the plugin's new state.
\<close>

locale plugin_service =
  fixes aie :: "'w aie_ops" and plugin :: "'p sync_fun" and ci :: ClientInfo and ai :: AlgorithmInfo
    and world :: "'w \<Rightarrow> 'p \<Rightarrow> bool"
  assumes served: "world w p \<Longrightarrow> data_ok inp \<Longrightarrow> plugin ci ai inp empty_DataInfo p = Some (r, out, p') \<Longrightarrow>
    \<exists>w'. ao_SyncProcess aie ci ai inp empty_DataInfo w = Some (r, out, w') \<and> world w' p'"

section \<open>Client, server and engine\<close>

text \<open>For the operations of a plugin behind \<open>IPlugin\<close>: a given result where the code's behaviour is undefined.\<close>

definition defined :: "'a \<Rightarrow> 'a option \<Rightarrow> 'a" where
  "defined x y = (case y of None \<Rightarrow> x | Some z \<Rightarrow> z)"

text \<open>
  The environments of both processes, the operations of the engine's plugin, the engine's queue,
  the plugin's place and how often the worker looks at its queue during a call (once more than
  \<open>sk_acts\<close>).
\<close>

record ('io, 'p) stack =
  sk_env :: "('io, 'p server) ClientExecutor.cenv"
  sk_server :: ServerAdapter.senv
  sk_ops :: "'p plug_ops"
  sk_queue :: nat
  sk_plugin :: nat
  sk_acts :: nat

definition stack_rpc :: "('io, 'p) stack \<Rightarrow> ('io, 'p server) rpc" where
  "stack_rpc sk = sync_rpc (ce_ipc (sk_env sk)) (sk_ops sk) (sk_server sk) True (sk_queue sk) (Suc (sk_acts sk))"

text \<open>The messages of a session's calls fit.\<close>

definition messages_fit ::
  "('io, 'p) stack \<Rightarrow> ('io \<Rightarrow> nat) \<Rightarrow> (io_item \<Rightarrow> nat) \<Rightarrow> ClientInfo \<Rightarrow> AlgorithmInfo \<Rightarrow> bool" where
  "messages_fit sk cap size0 ci ai \<longleftrightarrow> (\<forall>d. data_ok d \<longrightarrow>
     (\<forall>n. Remote.fits (ce_ipc (sk_env sk)) cap size0 (message_items n ci ai d)) \<and>
     (\<forall>s ret. Remote.fits (ce_ipc (sk_env sk)) cap size0 (reply_items s ret d)))"

text \<open>
  The plugin's operation does what \<open>plugin\<close> says, from states in which \<open>ok\<close> holds, and its answers are
  blocks that can be sent.
\<close>

definition plugin_does :: "'p plug_ops \<Rightarrow> 'p sync_fun \<Rightarrow> ('p \<Rightarrow> bool) \<Rightarrow> ClientInfo \<Rightarrow> AlgorithmInfo \<Rightarrow> bool" where
  "plugin_does ops plugin ok ci ai \<longleftrightarrow> (\<forall>req p r out p'.
     ok p \<and> data_ok (rq_msg req) \<and> plugin ci ai (rq_msg req) empty_DataInfo p = Some (r, out, p') \<longrightarrow>
     data_ok out \<and> ok p' \<and>
     (\<exists>rc resp. po_SyncProcess ops req p = (rc, resp, p') \<and> r = answer_code rc \<and> out = answer_data rc resp))"

text \<open>
  The client, the server and the segments around the plugin in state \<open>p\<close>, with the session of \<open>ci\<close>
  open on both sides; and with what \<open>plugin\<close> says of the plugin.
\<close>

definition stack_ready ::
  "('io, 'p) stack \<Rightarrow> ('io \<Rightarrow> io_item list) \<Rightarrow> ('io \<Rightarrow> nat) \<Rightarrow> (io_item \<Rightarrow> nat) \<Rightarrow> ClientInfo \<Rightarrow> AlgorithmInfo \<Rightarrow>
   ('io, 'p server) client \<times> 'p server \<times> shmsys \<Rightarrow> 'p \<Rightarrow> bool" where
  "stack_ready sk items cap size0 ci ai w p \<longleftrightarrow> (case w of (c, st, s) \<Rightarrow>
     open_session (stack_rpc sk) ci c \<and> \<not> ai_isAsync ai \<and> data_ok (ci_extend ci) \<and> data_ok (ai_extend ai) \<and>
     session_engine ci (sk_queue sk) (sk_plugin sk) st \<and> sn_request (sk_server sk) \<and> ex_algs (sv_exec st) (sk_plugin sk) = p \<and>
     channel (ce_ipc (sk_env sk)) items cap size0 s \<and> messages_fit sk cap size0 ci ai)"

definition stack_world ::
  "('io, 'p) stack \<Rightarrow> ('io \<Rightarrow> io_item list) \<Rightarrow> ('io \<Rightarrow> nat) \<Rightarrow> (io_item \<Rightarrow> nat) \<Rightarrow> 'p sync_fun \<Rightarrow> ('p \<Rightarrow> bool) \<Rightarrow>
   ClientInfo \<Rightarrow> AlgorithmInfo \<Rightarrow> ('io, 'p server) client \<times> 'p server \<times> shmsys \<Rightarrow> 'p \<Rightarrow> bool" where
  "stack_world sk items cap size0 plugin ok ci ai w p \<longleftrightarrow>
     stack_ready sk items cap size0 ci ai w p \<and> plugin_does (sk_ops sk) plugin ok ci ai \<and> ok p"

lemma session_request_made:
  "session_engine ci qa pa st \<Longrightarrow> \<exists>req. session_request ci ai inp st = Some req \<and> rq_msg req = inp"
  by (auto simp: session_engine_def session_request_def ConvertToRequest_def)

lemma message_data_ok:
  "di_data d = Some (message ps) \<Longrightarrow> di_length d = int (length (message ps)) \<Longrightarrow> length (message ps) \<le> 1048576 \<Longrightarrow> data_ok d"
  using length_message [of ps] by (auto simp: data_ok_def)

text \<open>A call that the plugin's operation answers.\<close>

lemma stack_step:
  assumes w: "stack_ready sk items cap size0 ci ai w p" and d: "data_ok inp" "data_ok out"
    and op: "\<And>req. rq_msg req = inp \<Longrightarrow>
      \<exists>rc resp p'. po_SyncProcess (sk_ops sk) req p = (rc, resp, p') \<and> r = answer_code rc \<and> out = answer_data rc resp \<and> after p'"
  shows "\<exists>w' p'. ao_SyncProcess (aie_client (sk_env sk) rounds) ci ai inp empty_DataInfo w = Some (r, out, w') \<and>
    stack_ready sk items cap size0 ci ai w' p' \<and> after p'"
proof -
  obtain c st s where [simp]: "w = (c, st, s)" by (cases w) auto
  have h: "open_session (stack_rpc sk) ci c" "\<not> ai_isAsync ai" "data_ok (ci_extend ci)" "data_ok (ai_extend ai)"
      "session_engine ci (sk_queue sk) (sk_plugin sk) st" "sn_request (sk_server sk)" "ex_algs (sv_exec st) (sk_plugin sk) = p"
      "channel (ce_ipc (sk_env sk)) items cap size0 s" "messages_fit sk cap size0 ci ai"
    using w by (simp_all add: stack_ready_def)
  obtain req where req: "session_request ci ai inp st = Some req" "rq_msg req = inp"
    using session_request_made [OF h(5)] by blast
  obtain rc resp p' where a: "po_SyncProcess (sk_ops sk) req p = (rc, resp, p')" "r = answer_code rc" "out = answer_data rc resp"
      "after p'"
    using op [OF req(2)] by blast
  have ro: "request_ok ci ai inp" using h(3,4) d(1) by (simp add: request_ok_def)
  have f: "Remote.fits (ce_ipc (sk_env sk)) cap size0 (message_items (sh_next s) ci ai inp)"
      "\<forall>s'. Remote.fits (ce_ipc (sk_env sk)) cap size0 (reply_items s' (answer_code rc) (answer_data rc resp))"
    using h(9) d a(3) by (auto simp: messages_fit_def)
  obtain st' s' where r: "AieClientSyncProcess (sk_env sk) ci ai inp empty_DataInfo c (st, s) = Some ((r, out, st', s'), c)"
      "ex_algs (sv_exec st') = (ex_algs (sv_exec st))(sk_plugin sk := p')"
      "session_engine ci (sk_queue sk) (sk_plugin sk) st'" "channel (ce_ipc (sk_env sk)) items cap size0 s'"
    using sync_request_calls [OF h(1) [unfolded stack_rpc_def] h(2,5,6) req(1) a(1) [folded h(7)] disjI2 [OF TrueI] h(8) ro d(2) [unfolded a(3)] f, of empty_DataInfo]
    unfolding a(2,3) by blast
  have "stack_ready sk items cap size0 ci ai (c, st', s') p'" using h r(2-4) by (simp add: stack_ready_def)
  then show ?thesis using r(1) a(4) by (auto simp: aie_client_def)
qed

lemma stack_serves:
  assumes w: "stack_world sk items cap size0 plugin ok ci ai w p" and inp: "data_ok inp"
    and run: "plugin ci ai inp empty_DataInfo p = Some (r, out, p')"
  shows "\<exists>w'. ao_SyncProcess (aie_client (sk_env sk) rounds) ci ai inp empty_DataInfo w = Some (r, out, w') \<and>
    stack_world sk items cap size0 plugin ok ci ai w' p'"
proof -
  have h: "stack_ready sk items cap size0 ci ai w p" "plugin_does (sk_ops sk) plugin ok ci ai" "ok p"
    using w by (simp_all add: stack_world_def)
  have op: "data_ok out \<and> ok p' \<and> (\<exists>rc resp. po_SyncProcess (sk_ops sk) req p = (rc, resp, p') \<and>
      r = answer_code rc \<and> out = answer_data rc resp)" if "rq_msg req = inp" for req
    using h(2,3) run inp that unfolding plugin_does_def by blast
  have "data_ok out" "ok p'" using op [of "Request_new\<lparr>rq_msg := inp\<rparr>"] by simp_all
  then show ?thesis
    using stack_step [OF h(1) inp \<open>data_ok out\<close>, of r "\<lambda>x. x = p'" rounds] op h(2) by (auto simp: stack_world_def)
qed

text \<open>The contract holds of the client of this repository.\<close>

interpretation aie: plugin_service "aie_client (sk_env sk) rounds" plugin ci ai "stack_world sk items cap size0 plugin ok ci ai"
  for sk :: "('io, 'p) stack" and rounds items cap size0 plugin ok ci ai
  by unfold_locales (rule stack_serves)

section \<open>An example\<close>

text \<open>Messages over the list of items that stands for the IPC library in the examples.\<close>

lemma linked_messages_fit:
  assumes "ci_extend ci = empty_DataInfo" and "ai_extend ai = empty_DataInfo" and "ce_ipc (sk_env sk) = list_env"
  shows "messages_fit sk (\<lambda>io. 100 - length io) (\<lambda>_. 1) ci ai"
proof -
  have p: "length (parcel_items n d) \<le> 86" "length (parcel_items n d) \<le> 99" for n d
    by (simp_all add: parcel_items_def split: option.split)
  have e: "parcel_items n empty_DataInfo = [Int32 0]" for n by (simp add: parcel_items_def)
  show ?thesis
    using p by (simp add: messages_fit_def Remote.fits_def assms list_env_def message_items_def reply_items_def client_items_def
        algorithm_items_def e sum_list_triv Let_def)
qed

end
