(* ===== verification/Connecting.thy ===== *)
theory Connecting
  imports Stack ClientProofs
begin

text \<open>
  The first session of a process: \<open>AieClientInit\<close> starts the connection's thread and waits until it
  has found the server and got a client id, for which the server has made an adapter.
\<close>

section \<open>The service\<close>

lemma GenerateClient_keeps:
  "GenerateClient e st = Some (i, st') \<Longrightarrow> sv_exec st' = sv_exec st \<and> sv_executor st' = sv_executor st"
  by (auto simp: GenerateClient_def FindValidClientId_def AllocateClientAdapter_def Let_def
      split: Option.bind_splits if_splits)

text \<open>A client that is added: its id, its adapter; the others stay as they are.\<close>

definition client_added :: "int \<Rightarrow> 'p server \<Rightarrow> 'p server \<Rightarrow> bool" where
  "client_added i st st' \<longleftrightarrow> client_id_ok i \<and> FindAdapter i st = None \<and> clients_ok st' \<and> sv_exec st' = sv_exec st \<and>
     sv_executor st' = sv_executor st \<and>
     (\<exists>a. FindAdapter i st' = Some a \<and> sv_adapters st' a = Some (SaServerAdapter_new i) \<and>
        (\<forall>j. j \<noteq> i \<longrightarrow> FindAdapter j st' = FindAdapter j st) \<and> (\<forall>b. b \<noteq> a \<longrightarrow> sv_adapters st' b = sv_adapters st b))"

definition room_for_client :: "senv \<Rightarrow> 'p server \<Rightarrow> bool" where
  "room_for_client e st \<longleftrightarrow> clients_ok st \<and> length (sv_saServerAdapters st) \<le> MAX_NUM_CLIENTS \<and> sn_adapter e"

lemma InitEngine_adds:
  assumes "room_for_client e st"
  shows "\<exists>i st'. InitEngine e st = Some (i, st') \<and> client_added i st st'"
proof -
  obtain i st' where g: "GenerateClient e st = Some (i, st')" "clients_ok st'" "client_id_ok i" "FindAdapter i st = None"
      "\<exists>a. FindAdapter i st' = Some a \<and> sv_adapters st' a = Some (SaServerAdapter_new i) \<and>
        (\<forall>j. j \<noteq> i \<longrightarrow> FindAdapter j st' = FindAdapter j st) \<and> (\<forall>b. b \<noteq> a \<longrightarrow> sv_adapters st' b = sv_adapters st b)"
    using GenerateClient_result [of st e] assms by (auto simp: room_for_client_def)
  have "0 < i" using g(3) by (simp add: client_id_ok_def)
  then show ?thesis using g GenerateClient_keeps [OF g(1)] by (auto simp: InitEngine_def client_added_def)
qed

section \<open>The call\<close>

lemma InitSaEngine_adds:
  assumes ch: "channel ie items cap size0 s" and srv: "room_for_client e st"
    and f: "\<forall>i. Remote.fits ie cap size0 [Int32 i, Uint32 (she_uid (ie_shm ie))]"
  shows "\<exists>i st'. InitSaEngine ie (Some (sync_rpc ie ops e nr q k)) description ci (st, s) =
      Some (RETCODE_SUCCESS, ci\<lparr>ci_clientId := i, ci_serverUid := she_uid (ie_shm ie)\<rparr>, st', s) \<and> client_added i st st'"
proof -
  let ?ops = "ie_ops ie" and ?uid = "she_uid (ie_shm ie)"
  have laws: "ipc_laws ?ops items cap size0" "items (ie_empty ie) = []" using ch by (simp_all add: channel_def)
  obtain i st' where i: "InitEngine e st = Some (i, st')" "client_added i st st'" using InitEngine_adds [OF srv] by blast
  define rp where "rp = io_WriteUint32 ?ops ?uid (io_WriteInt32 ?ops i (ie_empty ie))"
  have "items rp = [Int32 i, Uint32 ?uid]"
    using puts_items [OF laws(1), of "[Int32 i, Uint32 ?uid]" "ie_empty ie"] f laws(2) by (simp add: rp_def Remote.fits_def)
  then obtain r1 r2 where "io_ReadInt32 ?ops rp = (Some i, r1)" "io_ReadUint32 ?ops r1 = (Some ?uid, r2)"
    using reads(1,2) [OF laws(1)] by metis
  then have "Callback ?ops (Some [INVALID_CLIENT_ID, 0]) rp = Some (RETCODE_SUCCESS, Some [i, ?uid])"
    by (simp add: Callback_def write_cell_def)
  moreover have "sync_rpc ie ops e nr q k ID_INIT_ENGINE req (st, s) = Some (Some rp, st', s)" for req
    using i(1) by (simp add: sync_rpc_def Invoke_def InvokeInitSaEngine_def rp_def case_prod_unfold Let_def)
  ultimately show ?thesis using i(2) by (auto simp: InitSaEngine_def Let_def)
qed

section \<open>The thread of the connection\<close>

text \<open>A process without a session, whose next allocations and system calls succeed, and that finds the server.\<close>

definition can_connect :: "('io, 's) ClientExecutor.cenv \<Rightarrow> ('io, 's) rpc \<Rightarrow> ('io, 's) client \<Rightarrow> bool" where
  "can_connect ce rpc c \<longleftrightarrow> sessions_ok c \<and> fc_sessionInfos c = [] \<and> fc_clientId c = INVALID_CLIENT_ID \<and>
     (ca_instance c \<or> ce_adapter ce) \<and> (sc_instance c \<or> ce_client ce) \<and> (ah_instance c \<or> ce_async ce) \<and>
     ce_pool ce \<and> ce_worker ce \<and> ce_recipient ce \<and> ce_remote ce = Some (Some rpc) \<and> (\<forall>attr. fst (ce_create ce attr) = 0) \<and>
     (\<exists>ta tp'. ThreadPool_Pop (ce_new_thread ce) (cp_tp c) = (Some ta, tp') \<and> ready_thread (tp_heap tp' ta))"

text \<open>The connection's thread runs, with the worker's copies, and has not connected yet.\<close>

definition connecting :: "('io, 's) ClientExecutor.cenv \<Rightarrow> ('io, 's) rpc \<Rightarrow> string \<Rightarrow> ClientInfo \<Rightarrow> ('io, 's) client \<Rightarrow> bool" where
  "connecting ce rpc description ci c \<longleftrightarrow> ca_instance c \<and> fc_clientId c = INVALID_CLIENT_ID \<and>
     (sc_instance c \<or> ce_client ce) \<and> (ah_instance c \<or> ce_async ce) \<and> ce_recipient ce \<and> ce_remote ce = Some (Some rpc) \<and>
     (\<exists>ta wk. conn_running c = Some (ta, wk) \<and> cp_infos c wk = Some (description, ci))"

lemma InitAiServer_starts:
  assumes c: "can_connect ce rpc (c\<lparr>fc_sessionInfos := []\<rparr>)" and ca: "ca_instance c"
  shows "\<exists>c'. InitAiServer ce description ci c = Some (RETCODE_SUCCESS, c') \<and> connecting ce rpc description ci c'"
proof -
  obtain ta tp' t where t: "ThreadPool_Pop (ce_new_thread ce) (cp_tp c) = (Some ta, tp')" "tp_heap tp' ta = Some t"
      "th_status t \<noteq> RUNNING"
    using c by (auto simp: can_connect_def ready_thread_def)
  show ?thesis
    using c ca t
    by (simp add: can_connect_def connecting_def InitAiServer_def set_conn_threads_def conn_running_def Thread_StartThread_def
        Thread_StartThread0_def SetThread_def upd_thread_def upd_worker_def case_prod_unfold Let_def)
qed

text \<open>Connected by \<open>rpc\<close> with the id of the client.\<close>

definition connected_by :: "('io, 's) ClientExecutor.cenv \<Rightarrow> ('io, 's) rpc \<Rightarrow> int \<Rightarrow> int \<Rightarrow> ('io, 's) client \<Rightarrow> bool" where
  "connected_by ce rpc i uid c \<longleftrightarrow> ca_instance c \<and> sc_instance c \<and> sc_proxy c = Some (Some rpc) \<and> fc_clientId c = i \<and>
     fc_serverUid c = uid \<and> (ah_instance c \<or> ce_async ce)"

lemma conn_round_connects:
  assumes c: "connecting ce (sync_rpc (ce_ipc ce) ops e nr q k) description ci c"
    and ch: "channel (ce_ipc ce) items cap size0 s" and srv: "room_for_client e st"
    and f: "\<forall>i. Remote.fits (ce_ipc ce) cap size0 [Int32 i, Uint32 (she_uid (ie_shm (ce_ipc ce)))]"
  shows "\<exists>i c' st'. conn_round ce c (st, s) = Some (c', st', s) \<and> client_added i st st' \<and>
    connected_by ce (sync_rpc (ce_ipc ce) ops e nr q k) i (she_uid (ie_shm (ce_ipc ce))) c'"
proof -
  let ?rpc = "sync_rpc (ce_ipc ce) ops e nr q k" and ?uid = "she_uid (ie_shm (ce_ipc ce))"
  obtain i st' where i: "InitSaEngine (ce_ipc ce) (Some ?rpc) description ci (st, s) =
      Some (RETCODE_SUCCESS, ci\<lparr>ci_clientId := i, ci_serverUid := ?uid\<rparr>, st', s)" "client_added i st st'"
    using InitSaEngine_adds [OF ch srv f, of ops nr q k description ci] by blast
  have ne: "i \<noteq> INVALID_CLIENT_ID" using i(2) by (auto simp: client_added_def client_id_ok_def)
  obtain ta wk where w: "conn_running c = Some (ta, wk)" "cp_infos c wk = Some (description, ci)"
    using c by (auto simp: connecting_def)
  have "SaClient_GetInstance ce c = (True, c\<lparr>sc_instance := True\<rparr>)"
    using c by (auto simp: SaClient_GetInstance_def connecting_def)
  then have "\<exists>c'. ConnectMgrWorker_OneAction ce wk c (st, s) = Some (True, c', st', s) \<and> connected_by ce ?rpc i ?uid c'"
    using c w(2) i(1) ne
    by (simp add: ConnectMgrWorker_OneAction_def connecting_def SaClientAdapter_GetInstance_def GetClientId_def SaClient_Init_def
        SetServerUid_def SetClientId_def connected_by_def Let_def)
  then show ?thesis using i(2) w(1) by (auto simp: conn_round_def)
qed

lemma conn_rounds_connected:
  "fc_clientId c \<noteq> INVALID_CLIENT_ID \<Longrightarrow> ca_instance c \<Longrightarrow> conn_rounds ce k c w = Some (c, w)"
  by (induction k) (auto simp: conn_round_def ConnectMgrWorker_OneAction_def SaClientAdapter_GetInstance_def GetClientId_def
      split: option.splits)

text \<open>The first round of the thread in one of the sleeps of the waiting caller connects.\<close>

lemma WaitConnection_connects:
  assumes "fc_clientId c = INVALID_CLIENT_ID" and "conn_round ce c w = Some (c1, w1)"
    and "fc_clientId c1 \<noteq> INVALID_CLIENT_ID" and "ca_instance c1"
  shows "Suc i < n \<Longrightarrow> WaitConnection_loop ce n (replicate i 0 @ Suc k # ks) c w = Some (RETCODE_SUCCESS, c1, w1)"
proof (induction i arbitrary: n)
  case 0
  then obtain m where "n = Suc (Suc m)" by (metis Suc_lessD less_iff_Suc_add add_Suc_right add_Suc plus_1_eq_Suc)
  then show ?case using assms conn_rounds_connected [OF assms(3,4)] by simp
next
  case (Suc i)
  then obtain m where m: "n = Suc m" "Suc i < m" by (cases n) auto
  show ?case using Suc.IH [OF m(2)] m(1) assms(1) by simp
qed

section \<open>The first session\<close>

text \<open>What \<open>AieClientInit\<close> writes into the client information.\<close>

definition session_info :: "('io, 's) ClientExecutor.cenv \<Rightarrow> int \<Rightarrow> int \<Rightarrow> ClientInfo \<Rightarrow> ClientInfo" where
  "session_info ce sid i ci =
     ci\<lparr>ci_sessionId := sid, ci_clientId := i, ci_serverUid := she_uid (ie_shm (ce_ipc ce)), ci_clientUid := ce_uid ce\<rparr>"

lemma RegisterDeadCb_keeps:
  assumes "connected_by ce rpc i uid c"
  shows "\<exists>c'. ClientFactory_RegisterDeadCb ce sid cb c = (RETCODE_SUCCESS, c') \<and> connected_by ce rpc i uid c' \<and> ah_instance c'"
  using assms
  by (cases cb) (auto simp: ClientFactory_RegisterDeadCb_def ClientAsync_GetInstance_def connected_by_def AsyncHandler_RegisterDeadCb_def
      RegisterServiceDeathCb_def set_sc_cb_def SaClient_GetInstance_def Let_def)

lemma first_session:
  assumes new: "ci_sessionId ci = INVALID_SESSION_ID" and c: "can_connect ce (sync_rpc (ce_ipc ce) ops e nr q k) c"
    and waits: "rounds = replicate i 0 @ Suc j # ks" "Suc i < CHECK_CONNECTION_TIMES"
    and ch: "channel (ce_ipc ce) items cap size0 s" and srv: "room_for_client e st"
    and f: "\<forall>i. Remote.fits (ce_ipc ce) cap size0 [Int32 i, Uint32 (she_uid (ie_shm (ce_ipc ce)))]"
  shows "\<exists>sid clientId c' st'. AieClientInit ce rounds description ci ai cb c (st, s) =
      Some (RETCODE_SUCCESS, session_info ce sid clientId ci, c', st', s) \<and> 0 \<le> sid \<and> sid < 2 ^ 31 \<and>
    client_added clientId st st' \<and> ah_instance c' \<and>
    open_session (sync_rpc (ce_ipc ce) ops e nr q k) (session_info ce sid clientId ci) c'"
proof -
  let ?rpc = "sync_rpc (ce_ipc ce) ops e nr q k" and ?uid = "she_uid (ie_shm (ce_ipc ce))"
  let ?c0 = "c\<lparr>ca_instance := True\<rparr>"
  have c0: "SaClientAdapter_GetInstance ce c = (True, ?c0)" "can_connect ce ?rpc ?c0"
    using c by (auto simp: SaClientAdapter_GetInstance_def can_connect_def sessions_ok_def)
  then have "sessions_ok ?c0" "length (fc_sessionInfos ?c0) \<le> MAXIMUM_NUMBER_OF_SESSION" by (auto simp: can_connect_def)
  then obtain sid where g: "GenerateSessionId ?c0 = Some (sid, ?c0\<lparr>fc_sessionId := sid\<rparr>)" "0 \<le> sid" "sid < 2 ^ 31"
    using GenerateSessionId_free [of ?c0] by blast
  define ci1 c2 where "ci1 = ci\<lparr>ci_sessionId := sid\<rparr>"
    and "c2 = ?c0\<lparr>fc_sessionId := sid, fc_sessionInfos := sm_insert sid (ai_algorithmType ai) []\<rparr>"
  have a: "AddSessionInfo ci1 ai (?c0\<lparr>fc_sessionId := sid\<rparr>) = (True, c2)"
    using c0(2) by (simp add: AddSessionInfo_def ci1_def c2_def can_connect_def)
  have "can_connect ce ?rpc (c2\<lparr>fc_sessionInfos := []\<rparr>)"
    using c0(2) g(2,3) by (simp add: can_connect_def sessions_ok_def c2_def)
  then obtain c3 where c3: "InitAiServer ce description ci1 c2 = Some (RETCODE_SUCCESS, c3)" "connecting ce ?rpc description ci1 c3"
    using InitAiServer_starts [of ce ?rpc c2] by (auto simp: c2_def)
  obtain clientId c4 st' where r: "conn_round ce c3 (st, s) = Some (c4, st', s)" "client_added clientId st st'"
      "connected_by ce ?rpc clientId ?uid c4"
    using conn_round_connects [OF c3(2) ch srv f] by blast
  have ids: "clientId \<noteq> INVALID_CLIENT_ID" "fc_clientId c4 = clientId" "ca_instance c4" "fc_serverUid c4 = ?uid"
    using r(2,3) by (auto simp: client_added_def client_id_ok_def connected_by_def)
  have w: "WaitConnection ce rounds c3 (st, s) = Some (RETCODE_SUCCESS, c4, st', s)"
    using WaitConnection_connects [OF _ r(1) _ ids(3) waits(2)] c3(2) ids(1,2)
    by (simp add: WaitConnection_def waits(1) connecting_def)
  obtain c5 where c5: "ClientFactory_RegisterDeadCb ce sid cb c4 = (RETCODE_SUCCESS, c5)" "connected_by ce ?rpc clientId ?uid c5"
      "ah_instance c5"
    using RegisterDeadCb_keeps [OF r(3)] by blast
  have "AieClientInit ce rounds description ci ai cb c (st, s) = Some (RETCODE_SUCCESS, session_info ce sid clientId ci, c5, st', s)"
    using new c0(1) g(1) a c3(1) w c5(1) ids
    by (simp add: AieClientInit_def ClientInit_def session_info_def ci1_def Let_def)
  moreover have "open_session ?rpc (session_info ce sid clientId ci) c5"
    using c5(2) g(2) by (simp add: open_session_def session_info_def connected_by_def)
  ultimately show ?thesis using g(2,3) r(2) c5(3) by blast
qed

end
