(* ===== verification/Opening.thy ===== *)
theory Opening
  imports Connecting EngineRefs
begin

text \<open>
  Opening a session, end to end: \<open>AieClientPrepare\<close> of a connected client makes the server load the
  algorithm - by a new engine, or by one that runs already - and leaves a session whose calls are
  served (\<open>stack_ready\<close>).
\<close>

section \<open>An engine for an algorithm\<close>

definition new_queue :: "Task Queue option \<Rightarrow> bool" where
  "new_queue q0 \<longleftrightarrow> (\<exists>q. q0 = Some q \<and> ring_inv q \<and> ring_abs q = [] \<and> q_totalNum q = MAX_SYNC_MSG_NUM)"

text \<open>
  What a new engine takes: a plugin that is loaded or can be, with the algorithm \<open>pa\<close>, made for
  synchronous inference; the plugin manager and the pools; memory; a thread of the pool that is not running, and the system's leave to
  start it; the queue \<open>qa\<close> of the pool, empty.
\<close>

definition engine_parts :: "'p plug_ops \<Rightarrow> xenv \<Rightarrow> EngineKey \<Rightarrow> nat \<Rightarrow> nat \<Rightarrow> 'p exec \<Rightarrow> bool" where
  "engine_parts ops e k qa pa st \<longleftrightarrow>
     (\<exists>x pm' p ta tp' qp'. GetPlugin (xe_ld e) (xe_label e) (ek_aid k) (ek_version k) (ex_pm st) = (RETCODE_SUCCESS, Some x, pm') \<and>
        pm_heap pm' x = Some p \<and> GetPluginAlgorithm p = Some pa \<and>
        ThreadPool_Pop (xe_new_thread e) (ex_tp st) = (Some ta, tp') \<and> ready_thread (tp_heap tp' ta) \<and>
        QueuePool_Pop (xe_new_queue e) (xe_new_nodes e) (ex_qp st) = (Some qa, qp') \<and> new_queue (qp_heap qp' qa)) \<and>
     singletons_ok e st \<and>
     xe_new_engine e \<and> xe_new_handler e \<and> IsSyncMode ops pa st \<and> (\<forall>attr. fst (xe_create e attr) = 0)"

text \<open>Or an engine of the algorithm is there, idle, on queue \<open>qa\<close> with the algorithm \<open>pa\<close>.\<close>

definition engine_offered :: "'p plug_ops \<Rightarrow> xenv \<Rightarrow> EngineKey \<Rightarrow> nat \<Rightarrow> nat \<Rightarrow> 'p exec \<Rightarrow> bool" where
  "engine_offered ops e k qa pa st \<longleftrightarrow>
     (case FindEngine_key k st of
        None \<Rightarrow> engine_parts ops e k qa pa st
      | Some a \<Rightarrow> (\<exists>h en. sync_engine a h qa pa [] st \<and> ex_objs st a = Some en \<and> algorithm_of en st = Some pa))"

lemma Initialize_starts:
  assumes "ex_objs st a = Some (Engine_new (Some x) (Some ta) (Some qa) w)" and "pm_heap (ex_pm st) x = Some p"
    and "GetPluginAlgorithm p = Some pa" and "xe_new_handler e" and "ready_thread (tp_heap (ex_tp st) ta)"
    and "\<forall>attr. fst (xe_create e attr) = 0" and "IsSyncMode ops pa st"
  shows "\<exists>st' en. Engine_Initialize ops e a st = Some (RETCODE_SUCCESS, st') \<and>
    ex_objs st' a = Some en \<and> en_plugin en = Some x \<and> en_msgHandler en = Some (ex_next st) \<and>
    ex_handlers st' (ex_next st) = Some (SyncMsgHandler qa (Some pa)) \<and> ex_qp st' = ex_qp st \<and> ex_pm st' = ex_pm st \<and>
    ex_algs st' = ex_algs st \<and> em_engines st' = em_engines st \<and> em_clientEngines st' = em_clientEngines st"
proof -
  obtain t where t: "tp_heap (ex_tp st) ta = Some t" "th_status t \<noteq> RUNNING"
    using assms(5) by (auto simp: ready_thread_def)
  obtain s where s: "Thread_StartThread (xe_create e) ta (Some w) \<lparr>ts_threads = tp_heap (ex_tp st), ts_workers = ex_workers st\<rparr> =
      Some (True, s)"
    using t assms(6)
    by (simp add: Thread_StartThread_def Thread_StartThread0_def SetThread_def upd_thread_def upd_worker_def case_prod_unfold Let_def)
  show ?thesis
    using assms(1-4,7) s by (simp add: Engine_Initialize_def plugin_at_def Engine_new_def Let_def set_obj_def)
qed

lemma engine_created:
  assumes n: "FindEngine_key k st = None" and p: "engine_parts ops e k qa pa st"
  shows "\<exists>a h st1 en. CreateEngineWithCheck ops e k st = Some (RETCODE_SUCCESS, Some a, st1) \<and>
    sync_engine a h qa pa [] st1 \<and> ex_objs st1 a = Some en \<and> algorithm_of en st1 = Some pa \<and>
    ex_algs st1 = ex_algs st \<and> em_clientEngines st1 = em_clientEngines st"
proof -
  obtain x pm' p ta tp' qp' where g:
      "GetPlugin (xe_ld e) (xe_label e) (ek_aid k) (ek_version k) (ex_pm st) = (RETCODE_SUCCESS, Some x, pm')"
      "pm_heap pm' x = Some p" "GetPluginAlgorithm p = Some pa"
      "ThreadPool_Pop (xe_new_thread e) (ex_tp st) = (Some ta, tp')" "ready_thread (tp_heap tp' ta)"
      "QueuePool_Pop (xe_new_queue e) (xe_new_nodes e) (ex_qp st) = (Some qa, qp')" "new_queue (qp_heap qp' qa)"
    and e: "xe_new_engine e" "xe_new_handler e" "IsSyncMode ops pa st" "\<forall>attr. fst (xe_create e attr) = 0"
      "singletons_ok e st"
    using p by (auto simp: engine_parts_def)
  let ?a = "ex_next st"
  define st3 where "st3 = set_obj ?a (Engine_new (Some x) (Some ta) (Some qa) (Suc ?a))
        (st\<lparr>ex_pm_made := True, ex_pm := pm', ex_tp_made := True, ex_tp := tp', ex_qp_made := True, ex_qp := qp',
            ex_workers := (ex_workers st)(Suc ?a \<mapsto> IWorker_new), ex_next := Suc (Suc ?a)\<rparr>)"
  have st3: "ex_objs st3 ?a = Some (Engine_new (Some x) (Some ta) (Some qa) (Suc ?a))" "ex_pm st3 = pm'" "ex_tp st3 = tp'"
    "ex_qp st3 = qp'" "em_engines st3 = em_engines st" "em_clientEngines st3 = em_clientEngines st" "ex_algs st3 = ex_algs st"
    by (simp_all add: st3_def set_obj_def)
  have "IsSyncMode ops pa st3" using e(3) st3(7) by (simp add: IsSyncMode_def)
  then obtain st4 en where i: "Engine_Initialize ops e ?a st3 = Some (RETCODE_SUCCESS, st4)" "ex_objs st4 ?a = Some en"
      "en_plugin en = Some x" "en_msgHandler en = Some (ex_next st3)"
      "ex_handlers st4 (ex_next st3) = Some (SyncMsgHandler qa (Some pa))"
      "ex_qp st4 = qp'" "ex_pm st4 = pm'" "ex_algs st4 = ex_algs st" "em_clientEngines st4 = em_clientEngines st"
    using Initialize_starts [of st3 ?a x ta qa "Suc ?a" p pa e ops] st3 g(2,3,5) e(2,4) by auto
  have ce: "CreateEngine ops e k st = Some (RETCODE_SUCCESS, Some ?a, st4)"
    using g(1,4,6) e(1,5) i(1)
    by (simp add: CreateEngine_def CreateEngine_thread_def CreateEngine_queue_def CreateEngine_object_def
        singletons_ok_def GetInstance_ok Let_def st3_def cong: if_cong)
  let ?st1 = "st4\<lparr>em_engines := sm_put k ?a (em_engines st4)\<rparr>"
  have "CreateEngineWithCheck ops e k st = Some (RETCODE_SUCCESS, Some ?a, ?st1)"
    using n ce by (simp add: CreateEngineWithCheck_def FindEngine_key_def)
  moreover have "sync_engine ?a (ex_next st3) qa pa [] ?st1"
    using i(2-6) g(7) by (auto simp: sync_engine_def queue_at_def new_queue_def)
  moreover have "algorithm_of en ?st1 = Some pa" using i(3,7) g(2,3) by (simp add: algorithm_of_def plugin_at_def)
  ultimately show ?thesis using i(2,8,9) by (intro exI conjI) (assumption | simp)+
qed

lemma StartEngine_serves:
  assumes o: "engine_offered ops e (EngineKey (GetAlgorithmIdByType (ai_algorithmType ai)) (ai_algorithmVersion ai)) qa pa st"
    and id: "GetAlgorithmIdByType (ai_algorithmType ai) \<noteq> ALGORITHM_ID_INVALID"
    and prep: "po_Prepare ops t inp out0 (ex_algs st pa) = (RETCODE_SUCCESS, out, p')"
  shows "\<exists>a h st'. StartEngine ops e t ai inp out0 st = Some (RETCODE_SUCCESS, out, st') \<and>
    FindEngine_client t st' = Some a \<and> sync_engine a h qa pa [] st' \<and> ex_algs st' = (ex_algs st)(pa := p')"
proof -
  let ?k = "EngineKey (GetAlgorithmIdByType (ai_algorithmType ai)) (ai_algorithmVersion ai)"
  obtain a h st1 en where c: "(case FindEngine_key ?k st of Some a \<Rightarrow> Some (RETCODE_SUCCESS, Some a, st)
        | None \<Rightarrow> CreateEngineWithCheck ops e ?k st) = Some (RETCODE_SUCCESS, Some a, st1)"
      "sync_engine a h qa pa [] st1" "ex_objs st1 a = Some en" "algorithm_of en st1 = Some pa" "ex_algs st1 = ex_algs st"
    using o engine_created [of ?k st ops e qa pa] unfolding engine_offered_def
    by (cases "FindEngine_key ?k st") fastforce+
  let ?st' = "RecordClient t a (set_obj a (AddEngineReference en) (set_alg pa p' st1))"
  have "en_plugin en \<noteq> None" using c(2,3) by (auto simp: sync_engine_def)
  then have "StartEngine ops e t ai inp out0 st = Some (RETCODE_SUCCESS, out, ?st')"
    using id prep c(3-5) unfolding StartEngine_def Let_def by (simp add: c(1))
  moreover have "sync_engine a h qa pa [] ?st'"
    using c(2,3) by (auto simp: sync_engine_def RecordClient_def set_obj_def set_alg_def queue_at_def AddEngineReference_def)
  moreover have "FindEngine_client t ?st' = Some a"
    by (simp add: FindEngine_client_def RecordClient_def sm_find_put)
  moreover have "ex_algs ?st' = (ex_algs st)(pa := p')" using c(5) by (simp add: RecordClient_def set_obj_def set_alg_def)
  ultimately show ?thesis by blast
qed

section \<open>The service\<close>

lemma LoadAlgoWrapper_opens:
  assumes a: "FindAdapter (ci_clientId ci) st = Some a" "sv_adapters st a = Some ad" and ai: "\<not> ai_isAsync ai"
    and mgr: "fst (GetEngineManager e st) = Some True"
    and o: "engine_offered ops (sn_x e) (EngineKey (GetAlgorithmIdByType (ai_algorithmType ai)) (ai_algorithmVersion ai)) qa pa (sv_exec st)"
    and id: "GetAlgorithmIdByType (ai_algorithmType ai) \<noteq> ALGORITHM_ID_INVALID"
    and prep: "po_Prepare ops (GetTransactionId (ci_sessionId ci) ad) inp out0 (ex_algs (sv_exec st) pa) = (RETCODE_SUCCESS, out, p')"
  shows "\<exists>st'. LoadAlgoWrapper ops e (Some ci) (Some ai) inp out0 st = Some (RETCODE_SUCCESS, out, st') \<and>
    session_engine ci qa pa st' \<and> ex_algs (sv_exec st') = (ex_algs (sv_exec st))(pa := p')"
proof -
  let ?t = "GetTransactionId (ci_sessionId ci) ad"
  obtain ea h x where s: "StartEngine ops (sn_x e) ?t ai inp out0 (sv_exec st) = Some (RETCODE_SUCCESS, out, x)"
      "FindEngine_client ?t x = Some ea" "sync_engine ea h qa pa [] x" "ex_algs x = (ex_algs (sv_exec st))(pa := p')"
    using StartEngine_serves [OF o id prep] by blast
  have m: "ServerExecutor_GetInstance (sn_executor e) (sn_manager e) (sv_executor st) = Some True"
    using mgr by (simp add: GetEngineManager_def Let_def)
  have t: "GetTransactionId (ci_sessionId ci) (IncRef ad) = ?t" "GetTransactionId (ci_sessionId ci) (DecRef (SaveTransaction ?t (IncRef ad))) = ?t"
    by (simp_all add: GetTransactionId_def IncRef_def DecRef_def SaveTransaction_def)
  let ?st' = "(upd_exec x (st\<lparr>sv_executor := Some True\<rparr>))\<lparr>sv_adapters := (sv_adapters st)(a \<mapsto> DecRef (SaveTransaction ?t (IncRef ad)))\<rparr>"
  have "LoadAlgoWrapper ops e (Some ci) (Some ai) inp out0 st = Some (RETCODE_SUCCESS, out, ?st')"
    using a ai s(1) m t(1)
    by (simp add: LoadAlgoWrapper_def AdapterGuard_def AdapterGuard_dtor_def upd_adapter_def SA_LoadAlgorithm_def GetEngineManager_def
        SE_StartEngine_def upd_exec_def Let_def)
  moreover have "session_engine ci qa pa ?st'"
    using a(1) s(2,3) t(2) by (auto simp: session_engine_def upd_exec_def FindAdapter_def)
  ultimately show ?thesis using s(4) by (auto simp: upd_exec_def)
qed

section \<open>The client\<close>

text \<open>The singleton of the asynchronous handler is made when it is not there.\<close>

lemma AieClientPrepare_loads:
  assumes "open_session rpc ci c" and "ah_instance c \<or> ce_async ce" and "\<not> ai_isAsync ai"
    and "LoadAlgorithmProxy (ce_ipc ce) (Some rpc) ci ai inp out0 w = Some (RETCODE_SUCCESS, out, w')"
  shows "AieClientPrepare ce ci ai inp out0 cb c w = Some (RETCODE_SUCCESS, out, c\<lparr>ah_instance := True\<rparr>, w')"
  using assms
  by (cases "ah_instance c")
    (simp_all add: open_session_def AieClientPrepare_def SaClientAdapter_GetInstance_def ClientPrepare_def SCA_LoadAlgorithm_def
      SaClient_GetInstance_def ClientAsync_GetInstance_def SaClient_LoadAlgorithm_def with_proxy_def)

lemma sync_rpc_loads:
  assumes "LoadAlgorithmProxy ie (Some (server_rpc ie ops e)) ci ai inp out0 w = Some x"
  shows "LoadAlgorithmProxy ie (Some (sync_rpc ie ops e nr qa k)) ci ai inp out0 w = Some x"
proof -
  obtain r w1 y where r: "full_request ie ci ai inp w = Some (r, w1)" "server_rpc ie ops e 1 r w1 = Some y"
    using assms by (auto simp: LoadAlgorithmProxy_def invoke_buff_def split: Option.bind_splits)
  then have "sync_rpc ie ops e nr qa k 1 r w1 = server_rpc ie ops e 1 r w1" by (simp add: sync_rpc_server)
  then show ?thesis using assms r(1) by (simp add: LoadAlgorithmProxy_def invoke_buff_def)
qed

lemma open_session_async [simp]: "open_session rpc ci (c\<lparr>ah_instance := x\<rparr>) \<longleftrightarrow> open_session rpc ci c"
  by (simp add: open_session_def)

lemma session_opens:
  assumes client: "open_session (sync_rpc (ce_ipc ce) ops e nr q k) ci c" "ah_instance c \<or> ce_async ce" "\<not> ai_isAsync ai"
    and server: "FindAdapter (ci_clientId ci) st = Some a" "sv_adapters st a = Some ad" "fst (GetEngineManager e st) = Some True"
      "GetAlgorithmIdByType (ai_algorithmType ai) \<noteq> ALGORITHM_ID_INVALID"
      "engine_offered ops (sn_x e) (EngineKey (GetAlgorithmIdByType (ai_algorithmType ai)) (ai_algorithmVersion ai)) qa pa (sv_exec st)"
    and plugin: "po_Prepare ops (GetTransactionId (ci_sessionId ci) ad) inp empty_DataInfo (ex_algs (sv_exec st) pa) =
      (RETCODE_SUCCESS, out, p')"
    and ipc: "channel (ce_ipc ce) items cap size0 s" "request_ok ci ai inp" "data_ok out"
      "Remote.fits (ce_ipc ce) cap size0 (message_items (sh_next s) ci ai inp)"
      "\<forall>s'. Remote.fits (ce_ipc ce) cap size0 (reply_items s' RETCODE_SUCCESS out)"
  shows "\<exists>c' st' s'. AieClientPrepare ce ci ai inp out0 cb c (st, s) = Some (RETCODE_SUCCESS, out, c', st', s') \<and>
    open_session (sync_rpc (ce_ipc ce) ops e nr q k) ci c' \<and> session_engine ci qa pa st' \<and>
    ex_algs (sv_exec st') = (ex_algs (sv_exec st))(pa := p') \<and>
    (\<forall>i. sm_find (sh_segs s') i = sm_find (sh_segs s) i) \<and> channel (ce_ipc ce) items cap size0 s'"
proof -
  obtain st' where l: "LoadAlgoWrapper ops e (Some ci) (Some ai) inp empty_DataInfo st = Some (RETCODE_SUCCESS, out, st')"
      "session_engine ci qa pa st'" "ex_algs (sv_exec st') = (ex_algs (sv_exec st))(pa := p')"
    using LoadAlgoWrapper_opens [OF server(1,2) client(3) server(3,5,4) plugin] by blast
  obtain s' where s': "LoadAlgorithmProxy (ce_ipc ce) (Some (server_rpc (ce_ipc ce) ops e)) ci ai inp out0 (st, s) =
      Some (RETCODE_SUCCESS, out, st', s')" "\<forall>i. sm_find (sh_segs s') i = sm_find (sh_segs s) i"
      "channel (ce_ipc ce) items cap size0 s'"
    using remote_load_transparent [OF ipc l(1)] by blast
  have "AieClientPrepare ce ci ai inp out0 cb c (st, s) = Some (RETCODE_SUCCESS, out, c\<lparr>ah_instance := True\<rparr>, st', s')"
    by (rule AieClientPrepare_loads [OF client sync_rpc_loads [OF s'(1)]])
  then show ?thesis using client(1) l(2,3) s'(2,3) by auto
qed

section \<open>From the first call on\<close>

text \<open>
  The plugin's \<open>Prepare\<close> succeeds whatever the id of the transaction; \<open>good\<close> is what holds of its
  output and of its state afterwards.
\<close>

definition prepares :: "'p plug_ops \<Rightarrow> DataInfo \<Rightarrow> 'p \<Rightarrow> (DataInfo \<Rightarrow> 'p \<Rightarrow> bool) \<Rightarrow> bool" where
  "prepares ops inp p good \<longleftrightarrow> (\<forall>t. \<exists>out p'. po_Prepare ops t inp empty_DataInfo p = (RETCODE_SUCCESS, out, p') \<and>
     data_ok out \<and> good out p')"

text \<open>The replies to both calls and the request of the second fit into messages.\<close>

definition opening_fits ::
  "('io, 's) ClientExecutor.cenv \<Rightarrow> ('io \<Rightarrow> nat) \<Rightarrow> (io_item \<Rightarrow> nat) \<Rightarrow> ClientInfo \<Rightarrow> AlgorithmInfo \<Rightarrow> DataInfo \<Rightarrow> bool" where
  "opening_fits ce cap size0 ci ai inp \<longleftrightarrow>
     (\<forall>i. Remote.fits (ce_ipc ce) cap size0 [Int32 i, Uint32 (she_uid (ie_shm (ce_ipc ce)))]) \<and>
     (\<forall>n sid i. Remote.fits (ce_ipc ce) cap size0 (message_items n (session_info ce sid i ci) ai inp)) \<and>
     (\<forall>s out. data_ok out \<longrightarrow> Remote.fits (ce_ipc ce) cap size0 (reply_items s RETCODE_SUCCESS out))"

lemma opens_from_start:
  assumes client: "can_connect ce (sync_rpc (ce_ipc ce) ops e nr q k) c" "ci_sessionId ci = INVALID_SESSION_ID" "\<not> ai_isAsync ai"
    and waits: "rounds = replicate i 0 @ Suc j # ks" "Suc i < CHECK_CONNECTION_TIMES"
    and server: "room_for_client e st" "fst (GetEngineManager e st) = Some True"
      "GetAlgorithmIdByType (ai_algorithmType ai) \<noteq> ALGORITHM_ID_INVALID"
      "engine_offered ops (sn_x e) (EngineKey (GetAlgorithmIdByType (ai_algorithmType ai)) (ai_algorithmVersion ai)) qa pa (sv_exec st)"
    and plugin: "prepares ops inp (ex_algs (sv_exec st) pa) good"
    and ipc: "channel (ce_ipc ce) items cap size0 s" "request_ok ci ai inp" "opening_fits ce cap size0 ci ai inp"
  shows "\<exists>sid clientId c1 st1 out c2 st2 s2. let ci' = session_info ce sid clientId ci in
    AieClientInit ce rounds description ci ai cb c (st, s) = Some (RETCODE_SUCCESS, ci', c1, st1, s) \<and>
    AieClientPrepare ce ci' ai inp out0 cb2 c1 (st1, s) = Some (RETCODE_SUCCESS, out, c2, st2, s2) \<and>
    client_added clientId st st1 \<and> open_session (sync_rpc (ce_ipc ce) ops e nr q k) ci' c2 \<and> session_engine ci' qa pa st2 \<and>
    data_ok out \<and> good out (ex_algs (sv_exec st2) pa) \<and>
    (\<forall>i. sm_find (sh_segs s2) i = sm_find (sh_segs s) i) \<and> channel (ce_ipc ce) items cap size0 s2"
proof -
  let ?rpc = "sync_rpc (ce_ipc ce) ops e nr q k"
  note f = ipc(3) [unfolded opening_fits_def]
  obtain sid clientId c1 st1 where a: "AieClientInit ce rounds description ci ai cb c (st, s) =
      Some (RETCODE_SUCCESS, session_info ce sid clientId ci, c1, st1, s)" "client_added clientId st st1" "ah_instance c1"
      "open_session ?rpc (session_info ce sid clientId ci) c1"
    using first_session [OF client(2,1) waits ipc(1) server(1) conjunct1 [OF f]] by blast
  let ?ci = "session_info ce sid clientId ci"
  obtain ad where ad: "FindAdapter (ci_clientId ?ci) st1 = Some ad" "sv_adapters st1 ad = Some (SaServerAdapter_new clientId)"
      "sv_exec st1 = sv_exec st" "sv_executor st1 = sv_executor st"
    using a(2) by (auto simp: client_added_def session_info_def)
  obtain out p' where out: "po_Prepare ops (GetTransactionId (ci_sessionId ?ci) (SaServerAdapter_new clientId)) inp empty_DataInfo
      (ex_algs (sv_exec st1) pa) = (RETCODE_SUCCESS, out, p')" "data_ok out" "good out p'"
    using plugin unfolding prepares_def ad(3) by blast
  have m: "fst (GetEngineManager e st1) = Some True" using server(2) ad(4) by (simp add: GetEngineManager_def Let_def)
  have ro: "request_ok ?ci ai inp" using ipc(2) by (simp add: request_ok_def session_info_def)
  obtain c2 st2 s2 where b: "AieClientPrepare ce ?ci ai inp out0 cb2 c1 (st1, s) = Some (RETCODE_SUCCESS, out, c2, st2, s2)"
      "open_session ?rpc ?ci c2" "session_engine ?ci qa pa st2" "ex_algs (sv_exec st2) = (ex_algs (sv_exec st1))(pa := p')"
      "\<forall>i. sm_find (sh_segs s2) i = sm_find (sh_segs s) i" "channel (ce_ipc ce) items cap size0 s2"
    using session_opens [OF a(4) disjI1 [OF a(3)] client(3) ad(1,2) m server(3) _ out(1) ipc(1) ro out(2), of qa out0 cb2]
      server(4) f out(2) unfolding ad(3) by blast
  show ?thesis
    unfolding Let_def using a(1,2) b out(2,3) by (intro exI conjI) (assumption | simp)+
qed

text \<open>C29. A session is opened all the way, by a process that has none: \<open>AieClientInit\<close> starts the thread of
  the connection and waits; in one of its sleeps the thread finds the server, which adds a client
  with an id no other has and a new adapter; the call returns success, with the ids of the session,
  the client and the server in the client information. \<open>AieClientPrepare\<close> then goes through client,
  IPC and service to the engine manager, which takes the engine of the algorithm that is idle, or
  loads the plugin and makes one on a thread and a queue of the pools; the plugin prepares, and the
  caller gets its output. Afterwards the session is open on both sides - the client's proxy is
  there, the session's transaction has an idle engine, on the queue and with the plugin's
  algorithm that were offered - which is what C30 needs to serve its calls; no shared memory
  segment is left behind. Provided allocation and the system calls succeed, the library behaves as
  documented, the messages fit and the plugin's \<open>Prepare\<close> succeeds.\<close>

theorem session_opened:
  assumes client: "can_connect ce (sync_rpc (ce_ipc ce) ops e nr q k) c" "ci_sessionId ci = INVALID_SESSION_ID" "\<not> ai_isAsync ai"
    and waits: "rounds = replicate i 0 @ Suc j # ks" "Suc i < CHECK_CONNECTION_TIMES"
    and server: "room_for_client e st" "fst (GetEngineManager e st) = Some True"
      "GetAlgorithmIdByType (ai_algorithmType ai) \<noteq> ALGORITHM_ID_INVALID"
      "engine_offered ops (sn_x e) (EngineKey (GetAlgorithmIdByType (ai_algorithmType ai)) (ai_algorithmVersion ai)) qa pa (sv_exec st)"
    and plugin: "prepares ops inp (ex_algs (sv_exec st) pa) good"
    and ipc: "channel (ce_ipc ce) items cap size0 s" "request_ok ci ai inp" "opening_fits ce cap size0 ci ai inp"
  shows "\<exists>sid clientId c1 st1 out c2 st2 s2. let ci' = session_info ce sid clientId ci in
    AieClientInit ce rounds description ci ai cb c (st, s) = Some (RETCODE_SUCCESS, ci', c1, st1, s) \<and>
    AieClientPrepare ce ci' ai inp out0 cb2 c1 (st1, s) = Some (RETCODE_SUCCESS, out, c2, st2, s2) \<and>
    client_added clientId st st1 \<and> open_session (sync_rpc (ce_ipc ce) ops e nr q k) ci' c2 \<and> session_engine ci' qa pa st2 \<and>
    data_ok out \<and> good out (ex_algs (sv_exec st2) pa) \<and>
    (\<forall>i. sm_find (sh_segs s2) i = sm_find (sh_segs s) i) \<and> channel (ce_ipc ce) items cap size0 s2"
  by (rule opens_from_start [OF assms])

section \<open>The stack from its start\<close>

text \<open>
  The processes before the first session, with the algorithm's engine to be had; \<open>i\<close> of the waiting
  caller's sleeps pass before the connection's thread gets to run.
\<close>

definition stack_offered ::
  "('io, 'p) stack \<Rightarrow> ('io \<Rightarrow> io_item list) \<Rightarrow> ('io \<Rightarrow> nat) \<Rightarrow> (io_item \<Rightarrow> nat) \<Rightarrow> nat list \<Rightarrow> ClientInfo \<Rightarrow> AlgorithmInfo \<Rightarrow>
   ('io, 'p server) client \<times> 'p server \<times> shmsys \<Rightarrow> bool" where
  "stack_offered sk items cap size0 rounds ci ai w \<longleftrightarrow> (case w of (c, st, s) \<Rightarrow>
     let ce = sk_env sk; e = sk_server sk; aid = GetAlgorithmIdByType (ai_algorithmType ai) in
     can_connect ce (stack_rpc sk) c \<and> ci_sessionId ci = INVALID_SESSION_ID \<and> \<not> ai_isAsync ai \<and>
     (\<exists>i j ks. rounds = replicate i 0 @ Suc j # ks \<and> Suc i < CHECK_CONNECTION_TIMES) \<and>
     room_for_client e st \<and> sn_request e \<and> fst (GetEngineManager e st) = Some True \<and> aid \<noteq> ALGORITHM_ID_INVALID \<and>
     engine_offered (sk_ops sk) (sn_x e) (EngineKey aid (ai_algorithmVersion ai)) (sk_queue sk) (sk_plugin sk) (sv_exec st) \<and>
     channel (ce_ipc ce) items cap size0 s \<and> data_ok (ci_extend ci) \<and> data_ok (ai_extend ai) \<and>
     (\<forall>i. Remote.fits (ce_ipc ce) cap size0 [Int32 i, Uint32 (she_uid (ie_shm (ce_ipc ce)))]) \<and>
     (\<forall>sid i. messages_fit sk cap size0 (session_info ce sid i ci) ai))"

lemma stack_opens:
  assumes o: "stack_offered sk items cap size0 rounds ci ai w"
    and p: "prepares (sk_ops sk) empty_DataInfo (ex_algs (sv_exec (fst (snd w))) (sk_plugin sk)) good"
  shows "\<exists>ci' w1 out w2 p. ao_Init (aie_client (sk_env sk) rounds) description ci ai w = Some (RETCODE_SUCCESS, ci', w1) \<and>
    ci_clientId ci' \<noteq> INVALID_CLIENT_ID \<and>
    ao_Prepare (aie_client (sk_env sk) rounds) ci' ai empty_DataInfo empty_DataInfo w1 = Some (RETCODE_SUCCESS, out, w2) \<and>
    data_ok out \<and> good out p \<and> stack_ready sk items cap size0 ci' ai w2 p"
proof -
  obtain c st s where w: "w = (c, st, s)" by (cases w) auto
  let ?ce = "sk_env sk" and ?e = "sk_server sk"
  note h = o [unfolded stack_offered_def w split Let_def]
  obtain i j ks where r: "rounds = replicate i 0 @ Suc j # ks" "Suc i < CHECK_CONNECTION_TIMES" using h by blast
  have e: "data_ok empty_DataInfo" by (simp add: data_ok_def)
  have prep: "prepares (sk_ops sk) empty_DataInfo (ex_algs (sv_exec st) (sk_plugin sk)) good" using p by (simp add: w)
  have fits: "opening_fits ?ce cap size0 ci ai empty_DataInfo"
    using h e unfolding opening_fits_def messages_fit_def by blast
  have ro: "request_ok ci ai empty_DataInfo" using h e by (simp add: request_ok_def)
  obtain sid clientId c1 st1 out c2 st2 s2 where o:
      "AieClientInit ?ce rounds description ci ai None c (st, s) = Some (RETCODE_SUCCESS, session_info ?ce sid clientId ci, c1, st1, s)"
      "AieClientPrepare ?ce (session_info ?ce sid clientId ci) ai empty_DataInfo empty_DataInfo None c1 (st1, s) =
        Some (RETCODE_SUCCESS, out, c2, st2, s2)"
      "client_added clientId st st1" "open_session (stack_rpc sk) (session_info ?ce sid clientId ci) c2"
      "session_engine (session_info ?ce sid clientId ci) (sk_queue sk) (sk_plugin sk) st2"
      "data_ok out" "good out (ex_algs (sv_exec st2) (sk_plugin sk))" "channel (ce_ipc ?ce) items cap size0 s2"
    using opens_from_start [of ?ce "sk_ops sk" ?e True "sk_queue sk" "Suc (sk_acts sk)" c ci ai rounds i j ks st "sk_queue sk" "sk_plugin sk"
        empty_DataInfo good items cap size0 s description None empty_DataInfo None] h r ro fits prep
    unfolding stack_rpc_def Let_def by blast
  let ?ci = "session_info ?ce sid clientId ci"
  have "ci_clientId ?ci \<noteq> INVALID_CLIENT_ID" using o(3) by (auto simp: client_added_def client_id_ok_def session_info_def)
  moreover have "stack_ready sk items cap size0 ?ci ai (c2, st2, s2) (ex_algs (sv_exec st2) (sk_plugin sk))"
    using h o(4,5,8) by (simp add: stack_ready_def session_info_def)
  ultimately show ?thesis
    using o(1,2,6,7) unfolding w
    by (intro exI [of _ ?ci] exI [of _ "(c1, st1, s)"] exI [of _ out] exI [of _ "(c2, st2, s2)"]
        exI [of _ "ex_algs (sv_exec st2) (sk_plugin sk)"]) (simp add: aie_client_def)
qed

section \<open>The handle of a session\<close>

text \<open>The block by which a plugin gives a handle to its SDK.\<close>

definition handle_block :: "int \<Rightarrow> DataInfo" where
  "handle_block h = \<lparr>di_data = Some (message [PVal (handle_bytes h)]), di_length = int (length (message [PVal (handle_bytes h)]))\<rparr>"

lemma handle_message: "length (message [PVal (handle_bytes h)]) = 16"
  by (simp add: length_message payload_def)

lemma handle_block_ok: "data_ok (handle_block h)"
  by (rule message_data_ok [of _ "[PVal (handle_bytes h)]"]) (simp_all add: handle_block_def handle_message)

lemma handle_block_encoded:
  assumes "sound_env m" and "roomy_env (room 16) m"
  shows "ProcessEncode m empty_DataInfo [PVal (handle_bytes h)] = Some (RETCODE_SUCCESS, handle_block h)"
proof -
  obtain out where "ProcessEncode m empty_DataInfo [PVal (handle_bytes h)] = Some (RETCODE_SUCCESS, out)"
      "di_data out = Some (message [PVal (handle_bytes h)])" "di_length out = int (length (message [PVal (handle_bytes h)]))"
    using ProcessEncode_delivers [OF assms(1), of "[PVal (handle_bytes h)]" empty_DataInfo] assms(2)
    by (auto simp: handle_message payload_def)
  then show ?thesis by (cases out) (simp add: handle_block_def)
qed

lemma handle_block_decoded:
  assumes "roomy_env 16 m"
  shows "ProcessDecode m (handle_block h) [TVal 8] = Some (RETCODE_SUCCESS, map decoded [PVal (handle_bytes h)])"
  using assms by (intro ProcessDecode_message) (simp_all add: handle_message handle_block_def)

lemma handle_block_there [simp]: "di_data (handle_block h) = None \<longleftrightarrow> False" "di_length (handle_block h) \<le> 0 \<longleftrightarrow> False"
  by (simp_all add: handle_block_def handle_message)

section \<open>An example\<close>

text \<open>A process and a service at their start, on a system where everything succeeds.\<close>

lemma start_client:
  "ce = linked_env rpc \<Longrightarrow> can_connect ce rpc client_init"
  by (simp add: can_connect_def client_init_def sessions_ok_def linked_env_def ThreadPool_Pop_def ThreadPool_new_def Let_def
      ready_thread_def Thread_SetStackSize_def Thread_new_def)

lemma start_server: "room_for_client (senv_good x) (server_init algs)" "fst (GetEngineManager (senv_good x) (server_init algs)) = Some True"
  using server_init_ok [of algs]
  by (simp_all add: room_for_client_def senv_good_def server_init_def GetEngineManager_def ServerExecutor_GetInstance_def
      ServerExecutor_Initialize_def EngineManager_Initialize_def Let_def)

text \<open>The two plugins of the repository, which the loader finds.\<close>

definition served_algorithms :: "(string \<times> int) set" where
  "served_algorithms = {(ALGORITHM_ID_KWS, 20001002), (ALGORITHM_ID_IC, 20001001)}"

lemma start_plugin:
  assumes "(aid, version) \<in> served_algorithms"
  shows "\<exists>pm p. GetPlugin (xe_ld demo_env) True aid version PluginManager_new = (0, Some 0, pm) \<and> pm_heap pm 0 = Some p \<and>
    GetPluginAlgorithm p = Some 7"
  using assms version_strings(2) [of 20001001] version_strings(3) [of 20001002]
  by (auto simp: served_algorithms_def GetPlugin_def FindPlugin_def PluginManager_new_def LoadPlugin_def demo_env_def AddPlugin_def
      LoadPluginAlgorithm_def Plugin_new_def GetLibPath_def AieDlopen_def GetPluginAlgorithm_def Let_def)

lemma start_engine:
  assumes "(aid, version) \<in> served_algorithms" and "po_InferMode ops (algs 7) = Some PLUGIN_SYNC_INFER"
  shows "engine_offered ops demo_env (EngineKey aid version) 0 7 (exec_init algs)"
proof -
  have "new_queue (Some (Queue_new True 64))" using Queue_new_ring [of 64] by (simp add: new_queue_def)
  moreover have "IsSyncMode ops 7 (exec_init algs)" using assms(2) by (simp add: IsSyncMode_def exec_init_def)
  moreover have "xe_label demo_env" by (simp add: demo_env_def)
  moreover obtain pm p where "GetPlugin (xe_ld demo_env) True aid version PluginManager_new = (0, Some 0, pm)" "pm_heap pm 0 = Some p"
      "GetPluginAlgorithm p = Some 7"
    using start_plugin [OF assms(1)] by blast
  moreover have "xe_new_thread demo_env" "xe_new_queue demo_env" "xe_new_engine demo_env" "xe_new_handler demo_env"
      "xe_create demo_env = (\<lambda>_. (0, 7))" "xe_new_nodes demo_env" "xe_new_pm demo_env" "xe_new_tp demo_env"
      "xe_new_qp demo_env"
    by (simp_all add: demo_env_def)
  ultimately show ?thesis
    by (simp add: engine_offered_def FindEngine_key_def exec_init_def engine_parts_def ThreadPool_Pop_def ThreadPool_new_def
        ready_thread_def Thread_SetStackSize_def Thread_new_def singletons_ok_def QueuePool_Pop_steps QueuePool_new_def sz_counts Let_def)
qed

lemma linked_opening_fits:
  assumes "ci_extend ci = empty_DataInfo" and "ai_extend ai = empty_DataInfo" and "ce_ipc ce = list_env"
  shows "opening_fits ce (\<lambda>io. 100 - length io) (\<lambda>_. 1) ci ai inp"
proof -
  have p: "length (parcel_items n d) \<le> 86" "length (parcel_items n d) \<le> 99" for n d
    by (simp_all add: parcel_items_def split: option.split)
  have e: "parcel_items n empty_DataInfo = [Int32 0]" for n by (simp add: parcel_items_def)
  show ?thesis
    using p by (simp add: opening_fits_def Remote.fits_def assms list_env_def message_items_def reply_items_def client_items_def
        algorithm_items_def session_info_def e sum_list_triv Let_def)
qed

theorem session_opened_witness:
  "\<exists>ci c1 st1 c2 st2 s2. let rpc = sync_rpc list_env demo_ops (senv_good demo_env) True 0 1 in
    AieClientInit (linked_env rpc) [1] ''app'' new_session demo_algo None client_init (server_init (\<lambda>_. 5), shm_start) =
      Some (RETCODE_SUCCESS, ci, c1, st1, shm_start) \<and>
    AieClientPrepare (linked_env rpc) ci demo_algo empty_DataInfo empty_DataInfo None c1 (st1, shm_start) =
      Some (RETCODE_SUCCESS, empty_DataInfo, c2, st2, s2) \<and>
    open_session rpc ci c2 \<and> session_engine ci 0 7 st2"
proof -
  let ?rpc = "sync_rpc list_env demo_ops (senv_good demo_env) True 0 1" and ?st = "server_init (\<lambda>_. 5) :: nat server"
  let ?good = "\<lambda>out (p :: nat). out = empty_DataInfo"
  let ?k = "EngineKey (GetAlgorithmIdByType (ai_algorithmType demo_algo)) (ai_algorithmVersion demo_algo)"
  have ipc: "ce_ipc (linked_env ?rpc) = list_env" by (simp add: linked_env_def)
  have c: "can_connect (linked_env ?rpc) (sync_rpc (ce_ipc (linked_env ?rpc)) demo_ops (senv_good demo_env) True 0 1) client_init"
    unfolding ipc by (rule start_client [OF refl])
  have ci: "ci_sessionId new_session = INVALID_SESSION_ID" "\<not> ai_isAsync demo_algo" "[1] = replicate 0 0 @ Suc 0 # []"
      "Suc 0 < CHECK_CONNECTION_TIMES"
    by (simp_all add: new_session_def demo_algo_def)
  have id: "GetAlgorithmIdByType (ai_algorithmType demo_algo) \<noteq> ALGORITHM_ID_INVALID" by (simp add: demo_key)
  have "engine_offered demo_ops demo_env (EngineKey ALGORITHM_ID_KWS 20001002) 0 7 (exec_init (\<lambda>_. 5))"
    by (rule start_engine) (simp_all add: demo_ops_def served_algorithms_def)
  then have o: "engine_offered demo_ops (sn_x (senv_good demo_env)) ?k 0 7 (sv_exec ?st)"
    by (simp add: senv_good_def server_init_def demo_key)
  have p: "prepares demo_ops empty_DataInfo (ex_algs (sv_exec ?st) 7) ?good" by (simp add: prepares_def demo_ops_def data_ok_def)
  have e: "ci_extend new_session = empty_DataInfo" "ai_extend demo_algo = empty_DataInfo"
    by (simp_all add: new_session_def demo_algo_def)
  then have r: "request_ok new_session demo_algo empty_DataInfo" by (simp add: request_ok_def data_ok_def)
  have ch: "channel (ce_ipc (linked_env ?rpc)) (\<lambda>io. io) (\<lambda>io. 100 - length io) (\<lambda>_. 1) shm_start"
    unfolding ipc by (rule list_channel)
  from session_opened [OF c ci start_server id o p ch r linked_opening_fits [OF e ipc], of "''app''" None empty_DataInfo None]
  show ?thesis unfolding Let_def ipc by blast
qed

text \<open>The two processes at their start, around a plugin.\<close>

definition starting_stack :: "'p plug_ops \<Rightarrow> (io_item list, 'p) stack" where
  "starting_stack ops = \<lparr>sk_env = linked_env (sync_rpc list_env ops (senv_good demo_env) True 0 3), sk_server = senv_good demo_env,
     sk_ops = ops, sk_queue = 0, sk_plugin = 7, sk_acts = 2\<rparr>"

definition starting_world :: "'p \<Rightarrow> (io_item list, 'p server) client \<times> 'p server \<times> shmsys" where
  "starting_world p = (client_init, server_init (\<lambda>_. p), shm_start)"

lemma starting_offered:
  assumes ci: "ci_sessionId ci = INVALID_SESSION_ID" "ci_extend ci = empty_DataInfo" and ai: "\<not> ai_isAsync ai" "ai_extend ai = empty_DataInfo"
    and alg: "(GetAlgorithmIdByType (ai_algorithmType ai), ai_algorithmVersion ai) \<in> served_algorithms"
      "po_InferMode ops p = Some PLUGIN_SYNC_INFER"
  shows "stack_offered (starting_stack ops) (\<lambda>io. io) (\<lambda>io. 100 - length io) (\<lambda>_. 1) [1] ci ai (starting_world p)"
proof -
  let ?sk = "starting_stack ops"
  have s: "ce_ipc (sk_env ?sk) = list_env" "sk_server ?sk = senv_good demo_env" "sk_ops ?sk = ops" "sk_queue ?sk = 0" "sk_plugin ?sk = 7"
    by (simp_all add: starting_stack_def linked_env_def)
  have "sk_env ?sk = linked_env (stack_rpc ?sk)" by (simp add: stack_rpc_def starting_stack_def linked_env_def eval_nat_numeral)
  then have c: "can_connect (sk_env ?sk) (stack_rpc ?sk) client_init" by (rule start_client)
  have f: "messages_fit ?sk (\<lambda>io. 100 - length io) (\<lambda>_. 1) (session_info (sk_env ?sk) sid i ci) ai" for sid i
    by (rule linked_messages_fit) (simp_all add: session_info_def ci ai s)
  have o: "engine_offered ops (sn_x (senv_good demo_env)) (EngineKey (GetAlgorithmIdByType (ai_algorithmType ai)) (ai_algorithmVersion ai))
      0 7 (sv_exec (server_init (\<lambda>_. p)))"
    using start_engine [OF alg(1), of ops "\<lambda>_. p"] alg(2) by (simp add: senv_good_def server_init_def)
  have w: "\<exists>i j ks. [1] = replicate i 0 @ Suc j # ks \<and> Suc i < CHECK_CONNECTION_TIMES"
    by (rule exI [of _ 0], rule exI [of _ 0], rule exI [of _ "[]"]) simp
  have g: "\<forall>i. Remote.fits list_env (\<lambda>io. 100 - length io) (\<lambda>_. 1) [Int32 i, Uint32 (she_uid (ie_shm list_env))]"
    by (simp add: Remote.fits_def list_env_def)
  have d: "sn_request (senv_good demo_env)" "data_ok (ci_extend ci)" "data_ok (ai_extend ai)" 
      "GetAlgorithmIdByType (ai_algorithmType ai) \<noteq> ALGORITHM_ID_INVALID"
    using alg(1) by (auto simp: senv_good_def data_ok_def ci ai served_algorithms_def)
  show ?thesis
    unfolding stack_offered_def starting_world_def split Let_def s
    using c f o w g d start_server [where algs = "\<lambda>_. p" and x = demo_env] list_channel ci(1) ai(1) by blast
qed

end
