(* ===== verification/IcSdk.thy ===== *)
theory IcSdk
  imports SdkClient
begin

text \<open>
  The image classification SDK (algorithm_sdk/cv/image_classification): an image goes to the
  plugin in slices that fit a message, and the answer to the last slice is the result.
  \<open>IcSdk\<close> is the single instance of \<open>IcSdkImpl\<close> behind the class of the same name.
\<close>

section \<open>State and constants\<close>

abbreviation (input) MAX_IPC_BUFFER_SIZE :: nat where "MAX_IPC_BUFFER_SIZE \<equiv> 25600"
abbreviation (input) INVALID_IC_HANDLE :: int where "INVALID_IC_HANDLE \<equiv> -1"
abbreviation (input) CLIENT_VERSION_IC :: int where "CLIENT_VERSION_IC \<equiv> 20001003"
abbreviation (input) ALGORITHM_TYPE_IC :: int where "ALGORITHM_TYPE_IC \<equiv> 3"
abbreviation (input) IC_RETCODE_FAILURE :: int where "IC_RETCODE_FAILURE \<equiv> -1"
abbreviation (input) IC_RETCODE_SUCCESS :: int where "IC_RETCODE_SUCCESS \<equiv> 0"
abbreviation (input) IC_RETCODE_INIT_ERROR :: int where "IC_RETCODE_INIT_ERROR \<equiv> 1001"
abbreviation (input) IC_RETCODE_NULL_PARAM :: int where "IC_RETCODE_NULL_PARAM \<equiv> 1002"
abbreviation (input) IC_RETCODE_SERIALIZATION_ERROR :: int where "IC_RETCODE_SERIALIZATION_ERROR \<equiv> 2001"
abbreviation (input) IC_RETCODE_UNSERIALIZATION_ERROR :: int where "IC_RETCODE_UNSERIALIZATION_ERROR \<equiv> 2002"

record IcSdk =
  is_callback :: bool
  is_icHandle :: int
  is_clientInfo :: ClientInfo
  is_events :: "sdk_event list"

definition IcSdk_new :: IcSdk where
  "IcSdk_new =
     \<lparr>is_callback = False, is_icHandle = INVALID_IC_HANDLE, is_clientInfo = fresh_ClientInfo CLIENT_VERSION_IC, is_events = []\<rparr>"

definition ic_algorithmInfo :: AlgorithmInfo where
  "ic_algorithmInfo = sync_AlgorithmInfo CLIENT_VERSION_IC ALGORITHM_TYPE_IC 20001001"

definition ic_notify :: "sdk_event \<Rightarrow> IcSdk \<Rightarrow> IcSdk" where
  "ic_notify ev s = s\<lparr>is_events := notify (is_callback s) ev (is_events s)\<rparr>"

section \<open>Operations\<close>

definition IcSdk_SetCallback :: "bool \<Rightarrow> IcSdk \<Rightarrow> int \<times> IcSdk" where
  "IcSdk_SetCallback callback s =
     (if \<not> callback then (IC_RETCODE_FAILURE, s) else (IC_RETCODE_SUCCESS, s\<lparr>is_callback := True\<rparr>))"

definition IcSdk_Create :: "EncDec.cenv \<Rightarrow> 'w aie_ops \<Rightarrow> IcSdk \<Rightarrow> 'w \<Rightarrow> (int \<times> IcSdk \<times> 'w) option" where
  "IcSdk_Create m ao s w =
     (if is_icHandle s \<noteq> INVALID_IC_HANDLE then Some (IC_RETCODE_INIT_ERROR, s, w)
      else do {
        (r, ci, w1) \<leftarrow> ao_Init ao ''Ic config description'' (is_clientInfo s) ic_algorithmInfo w;
        let s1 = s\<lparr>is_clientInfo := ci\<rparr>;
        if r \<noteq> RETCODE_SUCCESS then Some (IC_RETCODE_INIT_ERROR, ic_notify (OnError IC_RETCODE_INIT_ERROR) s1, w1)
        else if ci_clientId ci = INVALID_CLIENT_ID
        then Some (IC_RETCODE_INIT_ERROR, ic_notify (OnError IC_RETCODE_INIT_ERROR) s1, w1)
        else do {
          (r2, out, w2) \<leftarrow> ao_Prepare ao ci ic_algorithmInfo empty_DataInfo empty_DataInfo w1;
          if r2 \<noteq> RETCODE_SUCCESS then Some (IC_RETCODE_INIT_ERROR, ic_notify (OnError IC_RETCODE_INIT_ERROR) s1, w2)
          else if di_data out = None \<or> di_length out \<le> 0
          then Some (IC_RETCODE_INIT_ERROR, ic_notify (OnError IC_RETCODE_INIT_ERROR) s1, w2)
          else do {
            (r3, ps) \<leftarrow> ProcessDecode m out [TVal 8];
            let s2 = s1\<lparr>is_icHandle := handle_read (is_icHandle s1) ps\<rparr>;
            if r3 \<noteq> RETCODE_SUCCESS
            then Some (IC_RETCODE_UNSERIALIZATION_ERROR, ic_notify (OnError IC_RETCODE_UNSERIALIZATION_ERROR) s2, w2)
            else Some (IC_RETCODE_SUCCESS, s2, w2)
          }
        }
      })"

text \<open>
  The image of a caller is a block and a length; a slice is read out of the block. The offset is
  a \<open>uint32_t\<close>.
\<close>

record IcInput =
  ic_data :: "byte list option"
  ic_size :: nat

definition slice_params :: "int \<Rightarrow> nat \<Rightarrow> byte list \<Rightarrow> param list" where
  "slice_params h off bs =
     [PVal (handle_bytes h), PVal (le_bytes 4 off), PArr \<lparr>arr_data = Some (map (\<lambda>b. [b]) bs), arr_size = length bs\<rparr>]"

partial_function (option) slice_loop ::
  "EncDec.cenv \<Rightarrow> 'w aie_ops \<Rightarrow> byte list \<Rightarrow> nat \<Rightarrow> nat \<Rightarrow> DataInfo \<Rightarrow> IcSdk \<Rightarrow> 'w \<Rightarrow> (int \<times> DataInfo \<times> IcSdk \<times> 'w) option" where
  "slice_loop m ao img size0 off out s w =
     (if \<not> off < size0 then Some (IC_RETCODE_SUCCESS, out, s, w)
      else do {
        let n = min (size0 - off) MAX_IPC_BUFFER_SIZE;
        bs \<leftarrow> mem_read off n img;
        (r, inp) \<leftarrow> ProcessEncode m empty_DataInfo (slice_params (is_icHandle s) off bs);
        if r \<noteq> RETCODE_SUCCESS
        then Some (IC_RETCODE_SERIALIZATION_ERROR, empty_DataInfo, ic_notify (OnError IC_RETCODE_SERIALIZATION_ERROR) s, w)
        else do {
          (r2, out1, w1) \<leftarrow> ao_SyncProcess ao (is_clientInfo s) ic_algorithmInfo inp empty_DataInfo w;
          if r2 \<noteq> RETCODE_SUCCESS then Some (IC_RETCODE_FAILURE, out1, ic_notify (OnError IC_RETCODE_FAILURE) s, w1)
          else slice_loop m ao img size0 ((off + n) mod 2 ^ 32) out1 s w1
        }
      })"

definition OnSyncExecute ::
  "EncDec.cenv \<Rightarrow> 'w aie_ops \<Rightarrow> IcInput \<Rightarrow> DataInfo \<Rightarrow> IcSdk \<Rightarrow> 'w \<Rightarrow> (int \<times> DataInfo \<times> IcSdk \<times> 'w) option" where
  "OnSyncExecute m ao input out s w =
     (case ic_data input of
        None \<Rightarrow> Some (IC_RETCODE_NULL_PARAM, out, s, w)
      | Some img \<Rightarrow>
          if ic_size input = 0 then Some (IC_RETCODE_NULL_PARAM, out, s, w)
          else slice_loop m ao img (ic_size input) 0 out s w)"

definition IcSdk_SyncExecute :: "EncDec.cenv \<Rightarrow> 'w aie_ops \<Rightarrow> IcInput \<Rightarrow> IcSdk \<Rightarrow> 'w \<Rightarrow> (int \<times> IcSdk \<times> 'w) option" where
  "IcSdk_SyncExecute m ao input s w =
     do {
       (r, out, s1, w1) \<leftarrow> OnSyncExecute m ao input empty_DataInfo s w;
       if di_data out = None \<or> di_length out \<le> 0 \<or> r \<noteq> IC_RETCODE_SUCCESS
       then Some (r, ic_notify (OnError IC_RETCODE_FAILURE) s1, w1)
       else do {
         (r2, ps) \<leftarrow> ProcessDecode m out [TVal 8, TArr 4 fresh_arr];
         if r2 \<noteq> RETCODE_SUCCESS
         then Some (IC_RETCODE_UNSERIALIZATION_ERROR, ic_notify (OnError IC_RETCODE_UNSERIALIZATION_ERROR) s1, w1)
         else if is_icHandle s1 \<noteq> handle_read INVALID_IC_HANDLE ps
         then Some (IC_RETCODE_FAILURE, ic_notify (OnError IC_RETCODE_FAILURE) s1, w1)
         else do {
           icResult \<leftarrow> (case ps of [_, PArr v] \<Rightarrow> Some v | _ \<Rightarrow> None);
           Some (IC_RETCODE_SUCCESS, ic_notify (OnResult icResult) s1, w1)
         }
       }
     }"

definition IcSdk_Destroy :: "EncDec.cenv \<Rightarrow> 'w aie_ops \<Rightarrow> IcSdk \<Rightarrow> 'w \<Rightarrow> (int \<times> IcSdk \<times> 'w) option" where
  "IcSdk_Destroy m ao s w =
     (if is_icHandle s = INVALID_IC_HANDLE then Some (IC_RETCODE_SUCCESS, s, w)
      else do {
        (r, inp) \<leftarrow> ProcessEncode m empty_DataInfo [PVal (handle_bytes (is_icHandle s))];
        if r \<noteq> RETCODE_SUCCESS
        then Some (IC_RETCODE_SERIALIZATION_ERROR, ic_notify (OnError IC_RETCODE_SERIALIZATION_ERROR) s, w)
        else do {
          (r2, w1) \<leftarrow> ao_Release ao (is_clientInfo s) ic_algorithmInfo inp w;
          if r2 \<noteq> RETCODE_SUCCESS then Some (IC_RETCODE_FAILURE, ic_notify (OnError IC_RETCODE_FAILURE) s, w1)
          else do {
            (r3, ci, w2) \<leftarrow> ao_Destroy ao (is_clientInfo s) w1;
            let s1 = s\<lparr>is_clientInfo := ci, is_icHandle := INVALID_IC_HANDLE\<rparr>;
            if r3 \<noteq> RETCODE_SUCCESS then Some (IC_RETCODE_FAILURE, ic_notify (OnError IC_RETCODE_FAILURE) s1, w2)
            else Some (IC_RETCODE_SUCCESS, s1, w2)
          }
        }
      })"

text \<open>The destructor of \<open>IcSdk\<close> destroys the single instance's session.\<close>

definition IcSdk_dtor :: "EncDec.cenv \<Rightarrow> 'w aie_ops \<Rightarrow> IcSdk \<Rightarrow> 'w \<Rightarrow> (IcSdk \<times> 'w) option" where
  "IcSdk_dtor m ao s w = map_option snd (IcSdk_Destroy m ao s w)"

end
