(* ===== verification/IcPlugin.thy ===== *)
theory IcPlugin
  imports EngineAdapter "HOL-Library.Multiset"
begin

text \<open>
  The image classification plugin (services/server/plugin/cv/image_classification): an image
  comes in slices, which are put into the model's input; the last one starts the model, and
  the labels with the highest scores are the answer. The plugin's mutex makes its operations
  atomic.
\<close>

section \<open>The best scores\<close>

abbreviation (input) DEFAULT_OUTPUT_SIZE :: nat where "DEFAULT_OUTPUT_SIZE \<equiv> 5"
abbreviation (input) OPTION_SET_OUTPUT_SIZE :: int where "OPTION_SET_OUTPUT_SIZE \<equiv> 2002"
abbreviation (input) ALGOTYPE_VERSION_IC :: int where "ALGOTYPE_VERSION_IC \<equiv> 20001001"
abbreviation (input) IC_MODEL_PATH :: string where "IC_MODEL_PATH \<equiv> ''/storage/data/image_classification.wk''"

type_synonym Item = "int \<times> int"

text \<open>
  The heap algorithms of the standard library for the comparison of the code, \<open>x.second > y.second\<close>:
  parameters, since the standard leaves open how they place equal scores. \<open>is_heap\<close> and what the
  standard says of each of them.
\<close>

record heap_ops =
  hp_make :: "Item list \<Rightarrow> Item list"
  hp_pop :: "Item list \<Rightarrow> Item list"
  hp_push :: "Item list \<Rightarrow> Item list"
  hp_sort :: "Item list \<Rightarrow> Item list"

definition is_heap :: "Item list \<Rightarrow> bool" where
  "is_heap xs \<longleftrightarrow> (\<forall>i < length xs. 0 < i \<longrightarrow> snd (xs ! ((i - 1) div 2)) \<le> snd (xs ! i))"

definition heap_laws :: "heap_ops \<Rightarrow> bool" where
  "heap_laws hp \<longleftrightarrow>
     (\<forall>xs. mset (hp_make hp xs) = mset xs \<and> is_heap (hp_make hp xs)) \<and>
     (\<forall>xs. is_heap xs \<and> xs \<noteq> [] \<longrightarrow> mset (hp_pop hp xs) = mset xs \<and> last (hp_pop hp xs) = hd xs \<and> is_heap (butlast (hp_pop hp xs))) \<and>
     (\<forall>xs. xs \<noteq> [] \<and> is_heap (butlast xs) \<longrightarrow> mset (hp_push hp xs) = mset xs \<and> is_heap (hp_push hp xs)) \<and>
     (\<forall>xs. is_heap xs \<longrightarrow> mset (hp_sort hp xs) = mset xs \<and> sorted_wrt (\<lambda>x y. snd x \<ge> snd y) (hp_sort hp xs))"

text \<open>
  \<open>emplace_back(index, data[index])\<close>, with the index converted to 32 bits. Reading outside the
  scores and the front of an empty vector are undefined.
\<close>

definition item_at :: "int list \<Rightarrow> nat \<Rightarrow> Item option" where
  "item_at xs i = (if i < length xs then Some (swrap 32 (int i), xs ! i) else None)"

fun first_items :: "int list \<Rightarrow> nat \<Rightarrow> nat \<Rightarrow> Item list \<Rightarrow> Item list option" where
  "first_items xs i 0 result = Some result"
| "first_items xs i (Suc k) result = do { x \<leftarrow> item_at xs i; first_items xs (Suc i) k (result @ [x]) }"

fun better_items :: "heap_ops \<Rightarrow> int list \<Rightarrow> nat \<Rightarrow> nat \<Rightarrow> Item list \<Rightarrow> Item list option" where
  "better_items hp xs i 0 result = Some result"
| "better_items hp xs i (Suc k) result =
     (if result = [] then None
      else do {
        x \<leftarrow> item_at xs i;
        if snd (hd result) < snd x
        then better_items hp xs (Suc i) k (hp_push hp (butlast (hp_pop hp result) @ [x]))
        else better_items hp xs (Suc i) k result
      })"

definition GetTopK :: "heap_ops \<Rightarrow> int list option \<Rightarrow> nat \<Rightarrow> nat \<Rightarrow> (retcode \<times> Item list) option" where
  "GetTopK hp scores size0 topK =
     (case scores of
        None \<Rightarrow> Some (RETCODE_FAILURE, [])
      | Some xs \<Rightarrow>
          (let k = (if topK > size0 then size0 else topK) in
           do {
             result \<leftarrow> first_items xs 0 k [];
             result1 \<leftarrow> better_items hp xs k (size0 - k) (hp_make hp result);
             Some (RETCODE_SUCCESS, hp_sort hp result1)
           }))"

section \<open>The plugin\<close>

record ICPluginConfig = PluginConfig +
  ic_maxOutputSize :: nat

record 'a ICPlugin =
  ip_adapter :: "'a option"
  ip_handles :: "(int \<times> ICPluginConfig) list"

definition ICPlugin_new :: "'a ICPlugin" where
  "ICPlugin_new = \<lparr>ip_adapter = None, ip_handles = []\<rparr>"

record 'a ienv =
  ice_mem :: cenv
  ice_engine :: "'a adapter_ops"
  ice_heap :: heap_ops
  ice_nnie :: "'a option"
  ice_response :: bool

definition IC_BuildConfig :: "'a adapter_ops \<Rightarrow> int \<Rightarrow> 'a \<Rightarrow> ICPluginConfig \<Rightarrow> retcode \<times> ICPluginConfig" where
  "IC_BuildConfig ops h a config =
     (let (r1, addr1, size1) = ea_GetInputAddr ops h MODEL_INPUT_NODE_ID a;
          c1 = config\<lparr>pc_inputAddr := addr1, pc_inputSize := size1\<rparr> in
      if r1 \<noteq> RETCODE_SUCCESS then (RETCODE_FAILURE, c1)
      else
        (let (r2, addr2, size2) = ea_GetOutputAddr ops h MODEL_OUTPUT_NODE_ID a;
             c2 = c1\<lparr>pc_outputAddr := addr2, ic_maxOutputSize := size2\<rparr> in
         if r2 \<noteq> RETCODE_SUCCESS then (RETCODE_FAILURE, c2)
         else (RETCODE_SUCCESS, c2\<lparr>pc_outputSize := DEFAULT_OUTPUT_SIZE\<rparr>)))"

definition IC_Prepare ::
  "'a ienv \<Rightarrow> ICPluginConfig \<Rightarrow> int \<Rightarrow> DataInfo \<Rightarrow> DataInfo \<Rightarrow> 'a ICPlugin \<Rightarrow> (retcode \<times> DataInfo \<times> 'a ICPlugin) option" where
  "IC_Prepare e config0 transactionId inputInfo outputInfo p =
     (let adapter = (case ip_adapter p of None \<Rightarrow> ice_nnie e | Some a \<Rightarrow> Some a);
          p0 = p\<lparr>ip_adapter := adapter\<rparr> in
      case adapter of
        None \<Rightarrow> Some (RETCODE_FAILURE, outputInfo, p0)
      | Some a \<Rightarrow>
          (let (r, h, a1) = ea_Init (ice_engine e) IC_MODEL_PATH a;
               p1 = p0\<lparr>ip_adapter := Some a1\<rparr> in
           if r \<noteq> RETCODE_SUCCESS then Some (RETCODE_FAILURE, outputInfo, p1)
           else if sm_find (ip_handles p1) h \<noteq> None then Some (RETCODE_SUCCESS, outputInfo, p1)
           else
             (let (r2, config) = IC_BuildConfig (ice_engine e) h a1 config0 in
              if r2 \<noteq> RETCODE_SUCCESS then Some (RETCODE_FAILURE, outputInfo, p1)
              else do {
                (r3, out) \<leftarrow> ProcessEncode (ice_mem e) outputInfo [PVal (handle_bytes h)];
                Some (r3, out, p1\<lparr>ip_handles := sm_put h config (ip_handles p1)\<rparr>)
              })))"

definition IC_Release ::
  "'a ienv \<Rightarrow> bool \<Rightarrow> int \<Rightarrow> DataInfo \<Rightarrow> 'a ICPlugin \<Rightarrow> (retcode \<times> 'a ICPlugin) option" where
  "IC_Release e isFullUnload transactionId inputInfo p =
     (case ip_adapter p of
        None \<Rightarrow> Some (RETCODE_FAILURE, p)
      | Some a \<Rightarrow> do {
          (r, h, _) \<leftarrow> decode_handle (ice_mem e) inputInfo [];
          if r \<noteq> RETCODE_SUCCESS then Some (RETCODE_FAILURE, p)
          else if sm_find (ip_handles p) h = None then Some (RETCODE_NULL_PARAM, p)
          else
            (let (r1, a1) = ea_ReleaseHandle (ice_engine e) h a;
                 p1 = p\<lparr>ip_adapter := Some a1\<rparr> in
             if r1 \<noteq> RETCODE_SUCCESS then Some (RETCODE_FAILURE, p1)
             else
               (let p2 = p1\<lparr>ip_handles := sm_erase h (ip_handles p1)\<rparr> in
                if isFullUnload then
                  (let (r2, a2) = ea_Deinit (ice_engine e) a1 in
                   Some (if r2 \<noteq> RETCODE_SUCCESS then RETCODE_FAILURE else RETCODE_SUCCESS, p2\<lparr>ip_adapter := Some a2\<rparr>))
                else Some (RETCODE_SUCCESS, p2)))
        })"

fun ic_release_handles :: "'a adapter_ops \<Rightarrow> int list \<Rightarrow> 'a \<Rightarrow> 'a" where
  "ic_release_handles ops [] a = a"
| "ic_release_handles ops (h # hs) a = ic_release_handles ops hs (snd (ea_ReleaseHandle ops h a))"

definition IC_ReleaseAllHandles :: "'a adapter_ops \<Rightarrow> 'a ICPlugin \<Rightarrow> 'a ICPlugin option" where
  "IC_ReleaseAllHandles ops p =
     do {
       a \<leftarrow> ip_adapter p;
       Some (p\<lparr>ip_adapter := Some (snd (ea_Deinit ops (ic_release_handles ops (map fst (ip_handles p)) a))), ip_handles := []\<rparr>)
     }"

definition ICPlugin_dtor :: "'a adapter_ops \<Rightarrow> 'a ICPlugin \<Rightarrow> 'a ICPlugin option" where
  "ICPlugin_dtor ops p = IC_ReleaseAllHandles ops p"

definition IC_GetVersion :: int where "IC_GetVersion = ALGOTYPE_VERSION_IC"
definition IC_GetName :: string where "IC_GetName = ''IC''"
definition IC_GetInferMode :: string where "IC_GetInferMode = ''SYNC''"

definition IC_SetOption :: "'a ienv \<Rightarrow> int \<Rightarrow> DataInfo \<Rightarrow> 'a ICPlugin \<Rightarrow> (retcode \<times> 'a ICPlugin) option" where
  "IC_SetOption e optionType inputInfo p =
     (if di_data inputInfo = None \<or> di_length inputInfo \<le> 0 then Some (RETCODE_NULL_PARAM, p)
      else if optionType \<noteq> OPTION_SET_OUTPUT_SIZE then Some (RETCODE_FAILURE, p)
      else do {
        (r, h, ps) \<leftarrow> decode_handle (ice_mem e) inputInfo [TVal 4];
        if r \<noteq> RETCODE_SUCCESS then Some (r, p)
        else do {
          n \<leftarrow> (case ps of [PVal bs] \<Rightarrow> Some (le_val bs) | _ \<Rightarrow> None);
          case sm_find (ip_handles p) h of
            None \<Rightarrow> Some (RETCODE_FAILURE, p)
          | Some config \<Rightarrow>
              if 0 < n \<and> n \<le> ic_maxOutputSize config
              then Some (RETCODE_SUCCESS, p\<lparr>ip_handles := sm_put h (config\<lparr>pc_outputSize := n\<rparr>) (ip_handles p)\<rparr>)
              else Some (RETCODE_SUCCESS, p)
        }
      })"

definition IC_GetOption ::
  "'a ienv \<Rightarrow> int \<Rightarrow> DataInfo \<Rightarrow> DataInfo \<Rightarrow> 'a ICPlugin \<Rightarrow> (retcode \<times> DataInfo \<times> 'a ICPlugin) option" where
  "IC_GetOption e optionType inputInfo outputInfo p =
     (if di_data inputInfo = None \<or> di_length inputInfo \<le> 0 then Some (RETCODE_NULL_PARAM, outputInfo, p)
      else do {
        (r, h, _) \<leftarrow> decode_handle (ice_mem e) inputInfo [];
        if r \<noteq> RETCODE_SUCCESS then Some (r, outputInfo, p)
        else case sm_find (ip_handles p) h of
          None \<Rightarrow> Some (RETCODE_FAILURE, outputInfo, p)
        | Some config \<Rightarrow>
            (let out = outputInfo\<lparr>di_length := 0\<rparr> in
             if optionType = OPTION_GET_INPUT_SIZE then
               map_option (\<lambda>(r1, o1). (r1, o1, p))
                 (ProcessEncode (ice_mem e) out [PVal (handle_bytes h), PVal (le_bytes 8 (pc_inputSize config))])
             else if optionType = OPTION_GET_OUTPUT_SIZE then
               map_option (\<lambda>(r1, o1). (r1, o1, p))
                 (ProcessEncode (ice_mem e) out [PVal (handle_bytes h), PVal (le_bytes 8 (pc_outputSize config))])
             else Some (RETCODE_FAILURE, out, p))
      })"

text \<open>The scores are the \<open>int32_t\<close> values behind the output address; the null address has none.\<close>

definition IC_MakeInference ::
  "'a ienv \<Rightarrow> int \<Rightarrow> ICPluginConfig \<Rightarrow> DataInfo \<Rightarrow> 'a ICPlugin \<Rightarrow> (retcode \<times> DataInfo \<times> 'a ICPlugin) option" where
  "IC_MakeInference e h config outputInfo p =
     do {
       a \<leftarrow> ip_adapter p;
       let (r1, a1) = ea_Invoke (ice_engine e) h a;
       let p1 = p\<lparr>ip_adapter := Some a1\<rparr>;
       if r1 \<noteq> RETCODE_SUCCESS then Some (RETCODE_FAILURE, outputInfo, p1)
       else do {
         scores \<leftarrow> (if pc_outputAddr config = 0 then Some None
           else map_option (\<lambda>bs. Some (map bytes_int32 (elements 4 (ic_maxOutputSize config) bs)))
             (ea_read (ice_engine e) (pc_outputAddr config) (ic_maxOutputSize config * 4) a1));
         (r2, result) \<leftarrow> GetTopK (ice_heap e) scores (ic_maxOutputSize config) (pc_outputSize config);
         if r2 \<noteq> RETCODE_SUCCESS then Some (r2, outputInfo, p1)
         else do {
           (r3, out) \<leftarrow> ProcessEncode (ice_mem e) outputInfo
             [PVal (handle_bytes h), PItems (map (\<lambda>(l, s). (int32_bytes l, int32_bytes s)) result)];
           Some (r3, out, p1)
         }
       }
     }"

definition IC_DoProcess ::
  "'a ienv \<Rightarrow> int \<Rightarrow> ICPluginConfig \<Rightarrow> Request \<Rightarrow> 'a ICPlugin \<Rightarrow> (retcode \<times> Response option \<times> 'a ICPlugin) option" where
  "IC_DoProcess e h config request p =
     do {
       (r, out, p1) \<leftarrow> IC_MakeInference e h config empty_DataInfo p;
       if r \<noteq> RETCODE_SUCCESS then Some (r, None, p1)
       else if \<not> ice_response e then None
       else Some (RETCODE_SUCCESS, Some (Response_SetResult out (Response_new (Some request))), p1)
     }"

definition IC_SyncProcess ::
  "'a ienv \<Rightarrow> Request option \<Rightarrow> 'a ICPlugin \<Rightarrow> (retcode \<times> Response option \<times> 'a ICPlugin) option" where
  "IC_SyncProcess e request p =
     (case ip_adapter p of
        None \<Rightarrow> Some (RETCODE_FAILURE, None, p)
      | Some a \<Rightarrow>
          (case request of
             None \<Rightarrow> Some (RETCODE_NULL_PARAM, None, p)
           | Some req \<Rightarrow>
               if di_data (rq_msg req) = None \<or> di_length (rq_msg req) \<le> 0 then Some (RETCODE_NULL_PARAM, None, p)
               else do {
                 (r, h, ps) \<leftarrow> decode_handle (ice_mem e) (rq_msg req) [TVal 4, TArr 1 fresh_arr];
                 if r \<noteq> RETCODE_SUCCESS then Some (r, None, p)
                 else case sm_find (ip_handles p) h of
                   None \<Rightarrow> Some (RETCODE_FAILURE, None, p)
                 | Some config \<Rightarrow> do {
                     (idx, img) \<leftarrow> (case ps of [PVal bs, PArr v] \<Rightarrow> Some (le_val bs, v) | _ \<Rightarrow> None);
                     let total = (idx + arr_size img) mod SZ;
                     if total > pc_inputSize config then Some (RETCODE_FAILURE, None, p)
                     else if \<not> memcpy_eok (ice_mem e) ((pc_inputSize config + (SZ - idx)) mod SZ) (arr_size img)
                     then Some (RETCODE_FAILURE, None, p)
                     else do {
                       bytes \<leftarrow> map_option concat (arr_data img) \<bind> mem_read 0 (arr_size img);
                       a1 \<leftarrow> ea_write (ice_engine e) (pc_inputAddr config) idx bytes a;
                       let p1 = p\<lparr>ip_adapter := Some a1\<rparr>;
                       if total = pc_inputSize config then IC_DoProcess e h config req p1
                       else Some (RETCODE_SUCCESS, None, p1)
                     }
                   }
               }))"

definition IC_AsyncProcess :: "Request option \<Rightarrow> 'a ICPlugin \<Rightarrow> retcode \<times> 'a ICPlugin" where
  "IC_AsyncProcess request p = (RETCODE_SUCCESS, p)"

end
