(* ===== verification/IcProofs.thy ===== *)
theory IcProofs
  imports IcPlugin
begin

text \<open>
  The image classification plugin: the labels it answers with are those of the highest scores.
\<close>

section \<open>The best scores\<close>

lemma heap_min:
  assumes h: "is_heap xs"
  shows "i < length xs \<Longrightarrow> snd (hd xs) \<le> snd (xs ! i)"
proof (induction i rule: less_induct)
  case (less i)
  show ?case
  proof (cases "i = 0")
    case True
    then show ?thesis using less.prems by (simp add: hd_conv_nth)
  next
    case False
    then have "(i - 1) div 2 < i" by auto
    then have "snd (hd xs) \<le> snd (xs ! ((i - 1) div 2))" using less by simp
    also have "\<dots> \<le> snd (xs ! i)" using h less.prems False by (simp add: is_heap_def)
    finally show ?thesis .
  qed
qed

lemma heap_front: "is_heap xs \<Longrightarrow> x \<in> set xs \<Longrightarrow> snd (hd xs) \<le> snd x"
  using heap_min by (fastforce simp: in_set_conv_nth)

text \<open>\<open>r\<close> holds the \<open>k\<close> best of the first \<open>n\<close> scores, each with its own index.\<close>

definition best_items :: "int list \<Rightarrow> nat \<Rightarrow> nat \<Rightarrow> Item list \<Rightarrow> bool" where
  "best_items xs k n r \<longleftrightarrow> length r = k \<and> distinct (map fst r) \<and>
     (\<forall>x \<in> set r. \<exists>j < n. x = (int j, xs ! j)) \<and>
     (\<forall>j < n. int j \<notin> fst ` set r \<longrightarrow> (\<forall>x \<in> set r. xs ! j \<le> snd x))"

lemma best_items_perm:
  assumes "mset r' = mset r" and "best_items xs k n r"
  shows "best_items xs k n r'"
proof -
  have "set r' = set r" "length r' = length r" using assms(1) by (metis set_mset_mset, metis size_mset)
  moreover have "mset (map fst r') = mset (map fst r)" using assms(1) by simp
  then have "distinct (map fst r') = distinct (map fst r)" by (rule mset_eq_imp_distinct_iff)
  ultimately show ?thesis using assms(2) by (simp add: best_items_def)
qed

lemma item_at_index: "length xs < 2 ^ 31 \<Longrightarrow> i < length xs \<Longrightarrow> item_at xs i = Some (int i, xs ! i)"
  using swrap_id [of 32 "int i"] by (simp add: item_at_def)

lemma first_items_best:
  assumes n: "length xs < 2 ^ 31" and "i + k \<le> length xs"
  shows "best_items xs i i r \<Longrightarrow> \<exists>r'. first_items xs i k r = Some r' \<and> best_items xs (i + k) (i + k) r'"
  using assms(2)
proof (induction k arbitrary: i r)
  case (Suc k)
  have all: "\<forall>j < i. int j \<in> fst ` set r"
  proof -
    have sub: "fst ` set r \<subseteq> int ` {..<i}" using Suc.prems(1) by (auto simp: best_items_def)
    have "card (fst ` set r) = i"
      using Suc.prems(1) distinct_card [of "map fst r"] by (simp add: best_items_def)
    moreover have "card (int ` {..<i}) = i" by (simp add: card_image)
    ultimately have "fst ` set r = int ` {..<i}" using sub card_subset_eq [of "int ` {..<i}" "fst ` set r"] by simp
    then show ?thesis by simp
  qed
  have "best_items xs (Suc i) (Suc i) (r @ [(int i, xs ! i)])"
    using Suc.prems(1) all by (fastforce simp: best_items_def less_Suc_eq)
  from Suc.IH [OF this] Suc.prems(2) show ?case using item_at_index [OF n, of i] by simp
qed simp

lemma replace_worst:
  assumes best: "best_items xs k i (b @ [w])" and new: "int i \<notin> fst ` set (b @ [w])"
    and worst: "snd w < xs ! i" "\<forall>y \<in> set (b @ [w]). snd w \<le> snd y"
  shows "best_items xs k (Suc i) (b @ [(int i, xs ! i)])"
  unfolding best_items_def
proof (intro conjI ballI allI impI)
  let ?x = "(int i, xs ! i)"
  show "length (b @ [?x]) = k" using best by (simp add: best_items_def)
  show "distinct (map fst (b @ [?x]))" using best new by (simp add: best_items_def)
  have old: "\<exists>j < i. y = (int j, xs ! j)" if "y \<in> set (b @ [w])" for y
    using best that unfolding best_items_def by blast
  show "\<exists>j < Suc i. y = (int j, xs ! j)" if "y \<in> set (b @ [?x])" for y
  proof (cases "y = ?x")
    case False
    then have "y \<in> set (b @ [w])" using that by simp
    from old [OF this] show ?thesis by (auto intro: less_SucI)
  qed auto
  fix j y
  assume j: "j < Suc i" "int j \<notin> fst ` set (b @ [?x])" and y: "y \<in> set (b @ [?x])"
  have "int i \<in> fst ` set (b @ [?x])" by simp
  then have j': "j < i" using j by (cases "j = i") simp_all
  have min_le: "snd w \<le> snd y"
  proof (cases "y = ?x")
    case False
    then show ?thesis using y worst(2) by simp
  qed (use worst(1) in simp)
  show "xs ! j \<le> snd y"
  proof (cases "int j = fst w")
    case True
    then have "w = (int j, xs ! j)" using old [of w] by auto
    then show ?thesis using min_le by simp
  next
    case False
    then have "int j \<notin> fst ` set (b @ [w])" using j(2) by simp
    then have "xs ! j \<le> snd w" using best j' unfolding best_items_def by simp
    then show ?thesis using min_le by simp
  qed
qed

lemma better_items_best:
  assumes hp: "heap_laws hp" and n: "length xs < 2 ^ 31" and k: "0 < k"
  shows "best_items xs k i r \<Longrightarrow> is_heap r \<Longrightarrow> i + m \<le> length xs \<Longrightarrow>
    \<exists>r'. better_items hp xs i m r = Some r' \<and> best_items xs k (i + m) r' \<and> is_heap r'"
proof (induction m arbitrary: i r)
  case (Suc m)
  let ?x = "(int i, xs ! i)"
  have r: "r \<noteq> []" using Suc.prems(1) k by (auto simp: best_items_def)
  have at: "item_at xs i = Some ?x" using item_at_index [OF n, of i] Suc.prems(3) by simp
  have new: "int i \<notin> fst ` set r" using Suc.prems(1) by (fastforce simp: best_items_def)
  show ?case
  proof (cases "snd (hd r) < snd ?x")
    case False
    then have "\<forall>y \<in> set r. xs ! i \<le> snd y" using heap_front [OF Suc.prems(2)] by fastforce
    then have "best_items xs k (Suc i) r" using Suc.prems(1) by (fastforce simp: best_items_def less_Suc_eq)
    from Suc.IH [OF this Suc.prems(2)] show ?thesis using Suc.prems(3) r at False by simp
  next
    case True
    define b where "b = butlast (hp_pop hp r)"
    have p: "mset (hp_pop hp r) = mset r" "last (hp_pop hp r) = hd r" "is_heap b"
      using hp Suc.prems(2) r by (auto simp: heap_laws_def b_def)
    have "hp_pop hp r \<noteq> []" using p(1) r by auto
    then have split: "hp_pop hp r = b @ [hd r]" using p(2) unfolding b_def by (metis append_butlast_last_id)
    have set_r: "set (b @ [hd r]) = set r" using p(1) split by (metis set_mset_mset)
    have best: "best_items xs k i (b @ [hd r])" using best_items_perm [OF p(1) Suc.prems(1)] split by simp
    have push: "mset (hp_push hp (b @ [?x])) = mset (b @ [?x])" "is_heap (hp_push hp (b @ [?x]))"
      using hp p(3) by (auto simp: heap_laws_def)
    have "best_items xs k (Suc i) (b @ [?x])"
      using replace_worst [OF best] new set_r True heap_front [OF Suc.prems(2)] by (auto simp del: set_append)
    then have "best_items xs k (Suc i) (hp_push hp (b @ [?x]))" using best_items_perm [OF push(1)] by blast
    from Suc.IH [OF this push(2)] show ?thesis using Suc.prems(3) r at True by (simp add: b_def [symmetric])
  qed
qed simp

text \<open>For scores in number below 2^31 and at least one label asked for, the search
  returns - without reading outside the scores, and whatever the heap algorithms of the
  library do with equal scores - as many items as asked for or there are, each the index of a
  score with that score, no index twice, in descending order of the scores, and no score left
  out is higher than one returned.\<close>

lemma GetTopK_finds:
  assumes "heap_laws hp" and "length xs < 2 ^ 31" and "0 < topK"
  shows "\<exists>r. GetTopK hp (Some xs) (length xs) topK = Some (RETCODE_SUCCESS, r) \<and>
    best_items xs (min topK (length xs)) (length xs) r \<and> sorted_wrt (\<lambda>x y. snd x \<ge> snd y) r"
proof -
  let ?k = "min topK (length xs)"
  obtain r where r: "first_items xs 0 ?k [] = Some r" "best_items xs ?k ?k r"
    using first_items_best [OF assms(2), of 0 ?k "[]"] by (auto simp: best_items_def)
  have make: "mset (hp_make hp r) = mset r" "is_heap (hp_make hp r)" using assms(1) by (auto simp: heap_laws_def)
  have m: "best_items xs ?k ?k (hp_make hp r)" using best_items_perm [OF make(1) r(2)] .
  have "\<exists>r1. better_items hp xs ?k (length xs - ?k) (hp_make hp r) = Some r1 \<and> best_items xs ?k (length xs) r1 \<and> is_heap r1"
  proof (cases "xs = []")
    case True
    then show ?thesis using m make(2) by simp
  next
    case False
    then show ?thesis
      using better_items_best [OF assms(1,2) _ m make(2), of "length xs - ?k"] assms(3) by simp
  qed
  then obtain r1 where r1: "better_items hp xs ?k (length xs - ?k) (hp_make hp r) = Some r1" "best_items xs ?k (length xs) r1" "is_heap r1"
    by blast
  have sort: "mset (hp_sort hp r1) = mset r1" "sorted_wrt (\<lambda>x y. snd x \<ge> snd y) (hp_sort hp r1)"
    using assms(1) r1(3) by (auto simp: heap_laws_def)
  have "GetTopK hp (Some xs) (length xs) topK = Some (RETCODE_SUCCESS, hp_sort hp r1)"
    using r(1) r1(1) by (simp add: GetTopK_def min_def split: if_splits)
  then show ?thesis using best_items_perm [OF sort(1) r1(2)] sort(2) by blast
qed


text \<open>The heap algorithms that sort: an instance of the laws.\<close>

definition sorting_heap :: heap_ops where
  "sorting_heap = \<lparr>hp_make = sort_key snd, hp_pop = \<lambda>xs. sort_key snd (tl xs) @ [hd xs],
     hp_push = sort_key snd, hp_sort = rev \<circ> sort_key snd\<rparr>"

lemma sorted_is_heap: "is_heap (sort_key snd xs)"
  unfolding is_heap_def
proof (intro allI impI)
  fix i assume i: "i < length (sort_key snd xs)" "0 < i"
  then have "(i - 1) div 2 \<le> i" by linarith
  then have "map snd (sort_key snd xs) ! ((i - 1) div 2) \<le> map snd (sort_key snd xs) ! i"
    using i by (intro sorted_nth_mono) simp_all
  then show "snd (sort_key snd xs ! ((i - 1) div 2)) \<le> snd (sort_key snd xs ! i)"
    using i \<open>(i - 1) div 2 \<le> i\<close> by (simp only: nth_map order.strict_trans1)
qed

lemma sorting_heap_laws: "heap_laws sorting_heap"
  unfolding heap_laws_def
proof (intro conjI allI impI)
  fix xs :: "Item list"
  have "sorted_wrt (\<lambda>x y. snd x \<le> snd y) (sort_key snd xs)"
    using sorted_sort_key [of snd xs] by (simp add: sorted_map)
  then show "sorted_wrt (\<lambda>x y. snd y \<le> snd x) (hp_sort sorting_heap xs)"
    by (simp add: sorting_heap_def sorted_wrt_rev)
qed (simp_all add: sorting_heap_def sorted_is_heap neq_Nil_conv, auto)

lemma GetTopK_finds_demo:
  "\<exists>r. GetTopK sorting_heap (Some [3, 9, 4, 9]) 4 2 = Some (RETCODE_SUCCESS, r) \<and>
    best_items [3, 9, 4, 9] 2 4 r \<and> sorted_wrt (\<lambda>x y. snd x \<ge> snd y) r"
proof -
  have len: "length [3, 9, 4, 9 :: int] = 4" and two: "min 2 (4 :: nat) = 2" by simp_all
  show ?thesis using GetTopK_finds [of sorting_heap "[3, 9, 4, 9]" 2, OF sorting_heap_laws, unfolded len two] by simp
qed

end
