(* ===== verification/Feature.thy ===== *)
theory Feature
  imports EncDec "HOL-Library.Monad_Syntax"
begin

text \<open>
  The feature processors of services/common/platform/os_wrapper/feature: the sliding window,
  the type converter and the normaliser, which the keyword spotting plugin runs one after the
  other on the features of its client. All data are blocks of bytes, as in the code, with the
  element type beside them. The arithmetic of \<open>float\<close> is a parameter.
\<close>

section \<open>Feature data\<close>

datatype DataType = UINT8 | UINT16 | UINT32 | INT8 | INT16 | INT32 | FLOAT | UNKNOWN

fun type_code :: "DataType \<Rightarrow> nat" where
  "type_code UINT8 = 1"
| "type_code UINT16 = 2"
| "type_code UINT32 = 4"
| "type_code INT8 = 9"
| "type_code INT16 = 10"
| "type_code INT32 = 12"
| "type_code FLOAT = 20"
| "type_code UNKNOWN = 21"

definition CONVERT_DATATYPE_TO_SIZE :: "DataType \<Rightarrow> nat" where
  "CONVERT_DATATYPE_TO_SIZE t = type_code t mod 8"

lemma type_sizes [simp]:
  "CONVERT_DATATYPE_TO_SIZE UINT8 = 1" "CONVERT_DATATYPE_TO_SIZE UINT16 = 2" "CONVERT_DATATYPE_TO_SIZE UINT32 = 4"
  "CONVERT_DATATYPE_TO_SIZE INT8 = 1" "CONVERT_DATATYPE_TO_SIZE INT16 = 2" "CONVERT_DATATYPE_TO_SIZE INT32 = 4"
  "CONVERT_DATATYPE_TO_SIZE FLOAT = 4"
  by (simp_all add: CONVERT_DATATYPE_TO_SIZE_def)

lemma type_size_range: "1 \<le> CONVERT_DATATYPE_TO_SIZE t \<and> CONVERT_DATATYPE_TO_SIZE t \<le> 5"
  by (cases t) (simp_all add: CONVERT_DATATYPE_TO_SIZE_def)

abbreviation (input) MAX_SAMPLE_SIZE :: nat where "MAX_SAMPLE_SIZE \<equiv> 20000"
abbreviation (input) U32 :: nat where "U32 \<equiv> 2 ^ 32"

text \<open>
  \<open>fd_data\<close> is the pointer: to a block of the caller (the block), or into a processor's own
  buffer (the offset).
\<close>

record 'p FeatureData =
  fd_dataType :: DataType
  fd_data :: "'p option"
  fd_size :: nat

section \<open>SlideWindowProcessor\<close>

record SlideWindowProcessorConfig =
  sc_dataType :: DataType
  sc_bufferMultiplier :: nat
  sc_stepSize :: nat
  sc_windowSize :: nat

text \<open>\<open>sw_startIndex\<close>, \<open>sw_initIndex\<close> and \<open>sw_bufferSize\<close> are 32 bits wide, the sizes 64.\<close>

record SlideWindowProcessor =
  sw_isInitialized :: bool
  sw_workBuffer :: "byte list option"
  sw_inputFeature :: "nat option"
  sw_inType :: DataType
  sw_typeSize :: nat
  sw_startIndex :: nat
  sw_initIndex :: nat
  sw_bufferSize :: nat
  sw_windowSize :: nat
  sw_stepSize :: nat

definition SlideWindowProcessor_new :: SlideWindowProcessor where
  "SlideWindowProcessor_new =
     \<lparr>sw_isInitialized = False, sw_workBuffer = None, sw_inputFeature = None, sw_inType = UNKNOWN, sw_typeSize = 0,
      sw_startIndex = 0, sw_initIndex = 0, sw_bufferSize = 0, sw_windowSize = 0, sw_stepSize = 0\<rparr>"

definition SlideWindow_Init ::
  "cenv \<Rightarrow> SlideWindowProcessorConfig option \<Rightarrow> SlideWindowProcessor \<Rightarrow> retcode \<times> SlideWindowProcessor" where
  "SlideWindow_Init e config sw =
     (if sw_isInitialized sw then (RETCODE_FAILURE, sw)
      else case config of
        None \<Rightarrow> (RETCODE_FAILURE, sw)
      | Some c \<Rightarrow>
          if sc_dataType c = UNKNOWN then (RETCODE_FAILURE, sw)
          else if sc_windowSize c < sc_stepSize c then (RETCODE_FAILURE, sw)
          else if sc_bufferMultiplier c = 0 then (RETCODE_FAILURE, sw)
          else
            (let t = CONVERT_DATATYPE_TO_SIZE (sc_dataType c);
                 step = sc_stepSize c * t mod SZ;
                 init = (sc_windowSize c * t mod SZ + (SZ - step)) mod SZ mod U32;
                 size = sc_windowSize c * sc_bufferMultiplier c * t mod SZ mod U32;
                 sw1 = sw\<lparr>sw_inType := sc_dataType c, sw_typeSize := t, sw_windowSize := sc_windowSize c,
                          sw_stepSize := step, sw_initIndex := init, sw_startIndex := init, sw_bufferSize := size\<rparr> in
             if sc_windowSize c > MAX_SAMPLE_SIZE then (RETCODE_FAILURE, sw1)
             else case new_bytes e size of
               None \<Rightarrow> (RETCODE_FAILURE, sw1\<lparr>sw_workBuffer := None\<rparr>)
             | Some _ \<Rightarrow>
                 (RETCODE_SUCCESS, sw1\<lparr>sw_workBuffer := Some (replicate size 0), sw_inputFeature := Some 0,
                                       sw_isInitialized := True\<rparr>)))"

definition SlideWindow_Release :: "SlideWindowProcessor \<Rightarrow> SlideWindowProcessor" where
  "SlideWindow_Release sw = sw\<lparr>sw_workBuffer := None, sw_inputFeature := None, sw_isInitialized := False\<rparr>"

text \<open>
  The output points into the work buffer: what the caller reads there is what the buffer holds
  when the call has returned. \<open>memmove_s\<close> moves as \<open>memcpy_s\<close> copies, overlapping or not; a copy
  that is refused is taken to leave its destination.
\<close>

definition slide_on :: "cenv \<Rightarrow> nat \<Rightarrow> byte list \<Rightarrow> SlideWindowProcessor \<Rightarrow> (retcode \<times> SlideWindowProcessor) option" where
  "slide_on e feature buf sw =
     (if (sw_bufferSize sw + (U32 - sw_startIndex sw)) mod U32 < sw_stepSize sw then
        (if \<not> memcpy_eok e (sw_bufferSize sw) (sw_initIndex sw) then Some (RETCODE_FAILURE, sw)
         else do {
           bs \<leftarrow> mem_read feature (sw_initIndex sw) buf;
           buf' \<leftarrow> mem_write 0 bs buf;
           Some (RETCODE_SUCCESS, sw\<lparr>sw_workBuffer := Some buf', sw_startIndex := sw_initIndex sw,
                                     sw_inputFeature := Some 0\<rparr>)
         })
      else Some (RETCODE_SUCCESS, sw))"

definition SlideWindow_Process ::
  "cenv \<Rightarrow> byte list FeatureData \<Rightarrow> nat FeatureData \<Rightarrow> SlideWindowProcessor \<Rightarrow>
   (retcode \<times> nat FeatureData \<times> SlideWindowProcessor) option" where
  "SlideWindow_Process e input output sw =
     (if \<not> sw_isInitialized sw then Some (RETCODE_FAILURE, output, sw)
      else if fd_dataType input \<noteq> sw_inType sw then Some (RETCODE_FAILURE, output, sw)
      else case fd_data input of
        None \<Rightarrow> Some (RETCODE_FAILURE, output, sw)
      | Some block \<Rightarrow>
          if fd_size input = 0 then Some (RETCODE_FAILURE, output, sw)
          else
            (let inputBytes = fd_size input * sw_typeSize sw mod SZ in
             if inputBytes \<noteq> sw_stepSize sw then Some (RETCODE_FAILURE, output, sw)
             else if fd_data output \<noteq> None \<or> fd_size output \<noteq> 0 then Some (RETCODE_FAILURE, output, sw)
             else
               (let out1 = output\<lparr>fd_dataType := sw_inType sw\<rparr> in
                if \<not> memcpy_eok e ((sw_bufferSize sw + (U32 - sw_startIndex sw)) mod U32) inputBytes
                then Some (RETCODE_FAILURE, out1, sw)
                else do {
                  buf \<leftarrow> sw_workBuffer sw;
                  feature \<leftarrow> sw_inputFeature sw;
                  bs \<leftarrow> mem_read 0 inputBytes block;
                  buf1 \<leftarrow> mem_write (sw_startIndex sw) bs buf;
                  let out2 = out1\<lparr>fd_data := Some feature, fd_size := sw_windowSize sw\<rparr>;
                  (ret, sw2) \<leftarrow> slide_on e (feature + sw_stepSize sw) buf1
                    (sw\<lparr>sw_workBuffer := Some buf1, sw_startIndex := (sw_startIndex sw + sw_stepSize sw) mod U32,
                        sw_inputFeature := Some (feature + sw_stepSize sw)\<rparr>);
                  Some (ret, out2, sw2)
                })))"

text \<open>What the caller reads through the output.\<close>

definition window_of :: "nat FeatureData \<Rightarrow> SlideWindowProcessor \<Rightarrow> byte list option" where
  "window_of out sw =
     do {
       p \<leftarrow> fd_data out;
       buf \<leftarrow> sw_workBuffer sw;
       mem_read p (fd_size out * CONVERT_DATATYPE_TO_SIZE (fd_dataType out)) buf
     }"

section \<open>The windows\<close>

text \<open>
  Allocations and copies up to \<open>lim\<close> bytes succeed, as securec documents it: also a copy of
  nothing into a destination that is not empty.
\<close>

definition copy_env :: "nat \<Rightarrow> cenv \<Rightarrow> bool" where
  "copy_env lim e \<longleftrightarrow> (\<forall>n \<le> lim. new_bytes e n \<noteq> None) \<and> (\<forall>d c. 0 < d \<and> c \<le> d \<and> d \<le> lim \<longrightarrow> memcpy_eok e d c)"

text \<open>The bytes of a window and of a step, and what the work buffer holds after the bytes \<open>h\<close>.\<close>

definition window_bytes :: "SlideWindowProcessorConfig \<Rightarrow> nat" where
  "window_bytes c = sc_windowSize c * CONVERT_DATATYPE_TO_SIZE (sc_dataType c)"

definition step_bytes :: "SlideWindowProcessorConfig \<Rightarrow> nat" where
  "step_bytes c = sc_stepSize c * CONVERT_DATATYPE_TO_SIZE (sc_dataType c)"

definition config_ok :: "SlideWindowProcessorConfig \<Rightarrow> bool" where
  "config_ok c \<longleftrightarrow> sc_dataType c \<noteq> UNKNOWN \<and> 0 < sc_stepSize c \<and> sc_stepSize c \<le> sc_windowSize c \<and>
     sc_windowSize c \<le> MAX_SAMPLE_SIZE \<and> 0 < sc_bufferMultiplier c \<and> sc_bufferMultiplier c < 256"

definition buffer_bytes :: "SlideWindowProcessorConfig \<Rightarrow> nat" where
  "buffer_bytes c = window_bytes c * sc_bufferMultiplier c"

definition slide_inv :: "SlideWindowProcessorConfig \<Rightarrow> byte list \<Rightarrow> SlideWindowProcessor \<Rightarrow> bool" where
  "slide_inv c h sw \<longleftrightarrow> sw_isInitialized sw \<and> sw_inType sw = sc_dataType c \<and>
     sw_typeSize sw = CONVERT_DATATYPE_TO_SIZE (sc_dataType c) \<and>
     sw_windowSize sw = sc_windowSize c \<and> sw_stepSize sw = step_bytes c \<and>
     sw_initIndex sw = window_bytes c - step_bytes c \<and> sw_bufferSize sw = buffer_bytes c \<and>
     (\<exists>buf p. sw_workBuffer sw = Some buf \<and> length buf = buffer_bytes c \<and> sw_inputFeature sw = Some p \<and>
        sw_startIndex sw = p + (window_bytes c - step_bytes c) \<and> p + window_bytes c \<le> buffer_bytes c \<and>
        window_bytes c - step_bytes c \<le> length h \<and>
        take (window_bytes c - step_bytes c) (drop p buf) = drop (length h - (window_bytes c - step_bytes c)) h)"

lemma config_bounds:
  assumes "config_ok c"
  shows "0 < step_bytes c" "step_bytes c \<le> window_bytes c" "window_bytes c \<le> buffer_bytes c"
    "window_bytes c \<le> 100000" "buffer_bytes c < U32"
proof -
  have t: "1 \<le> CONVERT_DATATYPE_TO_SIZE (sc_dataType c)" "CONVERT_DATATYPE_TO_SIZE (sc_dataType c) \<le> 5"
    using type_size_range by blast+
  show "0 < step_bytes c" using assms t by (simp add: config_ok_def step_bytes_def)
  show "step_bytes c \<le> window_bytes c" using assms by (simp add: config_ok_def step_bytes_def window_bytes_def)
  show "window_bytes c \<le> buffer_bytes c" using assms by (simp add: config_ok_def buffer_bytes_def)
  show w: "window_bytes c \<le> 100000"
    using assms t mult_le_mono [of "sc_windowSize c" 20000 "CONVERT_DATATYPE_TO_SIZE (sc_dataType c)" 5]
    by (simp add: config_ok_def window_bytes_def)
  have "buffer_bytes c \<le> 100000 * 255"
    using assms mult_le_mono [OF w, of "sc_bufferMultiplier c" 255] by (simp add: config_ok_def buffer_bytes_def)
  then show "buffer_bytes c < U32" by simp
qed

lemma wrap_diff: "b \<le> a \<Longrightarrow> a - b < m \<Longrightarrow> b \<le> m \<Longrightarrow> (a + (m - b)) mod m = a - (b :: nat)"
  by (metis Nat.add_diff_assoc Nat.diff_add_assoc2 add.commute mod_add_self2 mod_less)

lemma SlideWindow_Init_starts:
  assumes c: "config_ok c" and e: "copy_env (buffer_bytes c) e"
  shows "\<exists>sw. SlideWindow_Init e (Some c) SlideWindowProcessor_new = (RETCODE_SUCCESS, sw) \<and>
    slide_inv c (replicate (window_bytes c - step_bytes c) 0) sw"
proof -
  note b = config_bounds [OF c]
  let ?t = "CONVERT_DATATYPE_TO_SIZE (sc_dataType c)"
  have st: "sc_stepSize c * ?t mod SZ = step_bytes c" "sc_windowSize c * ?t mod SZ = window_bytes c"
    using b unfolding step_bytes_def [symmetric] window_bytes_def [symmetric] by simp_all
  have si: "(window_bytes c + (SZ - step_bytes c)) mod SZ mod U32 = window_bytes c - step_bytes c"
    using wrap_diff [of "step_bytes c" "window_bytes c" SZ] b by simp
  have "sc_windowSize c * sc_bufferMultiplier c * ?t = buffer_bytes c"
    by (simp add: buffer_bytes_def window_bytes_def ac_simps)
  then have sz: "sc_windowSize c * sc_bufferMultiplier c * ?t mod SZ mod U32 = buffer_bytes c" using b by simp
  obtain blk where a: "new_bytes e (buffer_bytes c) = Some blk" using e by (auto simp: copy_env_def)
  let ?sw = "\<lparr>sw_isInitialized = True, sw_workBuffer = Some (replicate (buffer_bytes c) 0), sw_inputFeature = Some 0,
      sw_inType = sc_dataType c, sw_typeSize = ?t, sw_startIndex = window_bytes c - step_bytes c,
      sw_initIndex = window_bytes c - step_bytes c, sw_bufferSize = buffer_bytes c, sw_windowSize = sc_windowSize c,
      sw_stepSize = step_bytes c\<rparr>"
  have "SlideWindow_Init e (Some c) SlideWindowProcessor_new = (RETCODE_SUCCESS, ?sw)"
    using c a unfolding SlideWindow_Init_def config_ok_def
    by (simp add: SlideWindowProcessor_new_def Let_def st [simplified] si [simplified] sz [simplified])
  moreover have "slide_inv c (replicate (window_bytes c - step_bytes c) 0) ?sw"
    using b by (simp add: slide_inv_def)
  ultimately show ?thesis by blast
qed

text \<open>Lists: a block written behind the last \<open>i\<close> bytes of the history.\<close>

lemma window_written:
  assumes "length buf = n" and "p + i + length x \<le> n" and "take i (drop p buf) = tail" and "length tail = i"
  defines "buf1 \<equiv> take (p + i) buf @ x @ drop (p + i + length x) buf"
  shows "take (i + length x) (drop p buf1) = tail @ x" "length buf1 = n"
    "take i (drop (p + length x) buf1) = drop (length x) (tail @ x)"
proof -
  have "drop p (take (p + i) buf) = tail" using assms(3) by (simp add: drop_take)
  then have d: "drop p buf1 = tail @ x @ drop (p + i + length x) buf"
    using assms(1,2) by (simp add: buf1_def)
  then show w: "take (i + length x) (drop p buf1) = tail @ x" using assms(4) by simp
  show "length buf1 = n" using assms(1,2) by (simp add: buf1_def)
  have "take i (drop (p + length x) buf1) = drop (length x) (take (i + length x) (drop p buf1))"
    by (simp add: drop_take add.commute)
  then show "take i (drop (p + length x) buf1) = drop (length x) (tail @ x)" by (simp only: w)
qed

lemma history_step:
  assumes "i \<le> length h"
  shows "drop (length (h @ x) - i) (h @ x) = drop (length x) (drop (length h - i) h @ x)"
proof -
  obtain a b where "h = a @ b" "length b = i"
    using assms append_take_drop_id [of "length h - i" h] by (metis diff_diff_cancel length_drop)
  then show ?thesis by simp
qed


lemma Process_slides:
  assumes c: "config_ok c" "1 < sc_bufferMultiplier c" and e: "copy_env (buffer_bytes c) e"
    and inv: "slide_inv c h sw" and x: "length x = step_bytes c"
  shows "\<exists>out sw'. SlideWindow_Process e \<lparr>fd_dataType = sc_dataType c, fd_data = Some x, fd_size = sc_stepSize c\<rparr>
      \<lparr>fd_dataType = ty, fd_data = None, fd_size = 0\<rparr> sw = Some (RETCODE_SUCCESS, out, sw') \<and>
    window_of out sw' = Some (drop (length h - (window_bytes c - step_bytes c)) h @ x) \<and> slide_inv c (h @ x) sw' \<and>
    fd_data out \<noteq> None \<and> fd_size out = sc_windowSize c"
proof -
  note b = config_bounds [OF c(1)]
  define i where "i = window_bytes c - step_bytes c"
  define w where "w = window_bytes c"
  define s where "s = step_bytes c"
  define n where "n = buffer_bytes c"
  have ws: "i + s = w" "0 < s" "w \<le> n" "n < U32" using b by (simp_all add: i_def s_def w_def n_def)
  have two: "2 * w \<le> n" using c(2) by (simp add: w_def n_def buffer_bytes_def)
  obtain buf p where buf: "sw_workBuffer sw = Some buf" "length buf = n" "sw_inputFeature sw = Some p"
      "sw_startIndex sw = p + i" "p + w \<le> n" "i \<le> length h" "take i (drop p buf) = drop (length h - i) h"
    using inv by (auto simp: slide_inv_def i_def w_def n_def)
  have sw: "sw_isInitialized sw" "sw_inType sw = sc_dataType c" "sw_typeSize sw = CONVERT_DATATYPE_TO_SIZE (sc_dataType c)"
      "sw_windowSize sw = sc_windowSize c" "sw_stepSize sw = s" "sw_initIndex sw = i" "sw_bufferSize sw = n"
    using inv by (simp_all add: slide_inv_def i_def s_def n_def)
  let ?tail = "drop (length h - i) h"
  define buf1 where "buf1 = take (p + i) buf @ x @ drop (p + i + length x) buf"
  have xs: "length x = s" using x by (simp add: s_def)
  define z where "z = drop s (?tail @ x)"
  have lenz: "length z = i" using xs ws buf(6) by (simp add: z_def)
  have win: "take w (drop p buf1) = ?tail @ x" "length buf1 = n" "take i (drop (p + s) buf1) = z"
    unfolding z_def using window_written [OF buf(2) _ buf(7), of x] ws buf(5,6) xs by (simp_all add: buf1_def)
  have hist: "drop (length (h @ x) - i) (h @ x) = z" unfolding z_def using history_step [OF buf(6), of x] by (simp only: xs)
  have wr: "mem_read 0 s x = Some x" "mem_write (p + i) x buf = Some buf1"
    using xs ws buf(2,5) by (simp_all add: mem_read_def mem_write_def buf1_def)
  have bytes: "sc_stepSize c * CONVERT_DATATYPE_TO_SIZE (sc_dataType c) mod SZ = s"
    using b unfolding s_def step_bytes_def by simp
  have ok1: "memcpy_eok e (n - (p + i)) s" using e ws buf(5) by (auto simp: copy_env_def n_def)
  have rest1: "(n + (U32 - (p + i))) mod U32 = n - (p + i)"
  using wrap_diff [of "p + i" n U32] ws buf(5) by simp
  define sw1 where "sw1 = sw\<lparr>sw_workBuffer := Some buf1, sw_startIndex := p + i + s, sw_inputFeature := Some (p + s)\<rparr>"
  define out where "out = \<lparr>fd_dataType = sc_dataType c, fd_data = Some p, fd_size = sc_windowSize c\<rparr>"
  have st: "(p + i + s) mod U32 = p + i + s" using ws buf(5) by simp
  have run: "SlideWindow_Process e \<lparr>fd_dataType = sc_dataType c, fd_data = Some x, fd_size = sc_stepSize c\<rparr>
      \<lparr>fd_dataType = ty, fd_data = None, fd_size = 0\<rparr> sw = Some (RETCODE_SUCCESS, out, sw')"
    if "slide_on e (p + s) buf1 sw1 = Some (RETCODE_SUCCESS, sw')" for sw'
    using that sw buf wr ok1 rest1 bytes c(1) st
    by (simp add: SlideWindow_Process_def config_ok_def Let_def sw1_def out_def)
  have win_of: "window_of out sw' = Some (take w (drop p b))" if "sw_workBuffer sw' = Some b" "length b = n" for sw' b
    using that buf(5) by (simp add: window_of_def out_def mem_read_def w_def window_bytes_def)
  show ?thesis
  proof (cases "n < p + w + s")
    case True
    have "(n + (U32 - (p + i + s))) mod U32 < s"
    using wrap_diff [of "p + i + s" n U32] ws buf(5) True by simp
    moreover have "memcpy_eok e n i" using e ws by (auto simp: copy_env_def n_def)
    moreover have "mem_read (p + s) i buf1 = Some z"
      using win ws buf(5) by (simp add: mem_read_def)
    moreover define buf2 where "buf2 = z @ drop i buf1"
    moreover have "mem_write 0 z buf1 = Some buf2"
      using lenz ws win(2) by (simp add: mem_write_def buf2_def)
    ultimately have on: "slide_on e (p + s) buf1 sw1 =
        Some (RETCODE_SUCCESS, sw1\<lparr>sw_workBuffer := Some buf2, sw_startIndex := i, sw_inputFeature := Some 0\<rparr>)"
      using sw by (simp add: slide_on_def sw1_def)
    have far: "i \<le> p" using True two ws by simp
    have buf2: "length buf2 = n" "take w (drop p buf2) = ?tail @ x" "take i buf2 = z"
      using lenz far ws win by (simp_all add: buf2_def)
    show ?thesis
      using run [OF on] win_of [of _ buf2] buf2 hist sw ws buf(6)
      by (intro exI conjI) (auto simp: slide_inv_def sw1_def out_def i_def [symmetric] w_def [symmetric] s_def [symmetric] n_def [symmetric])
  next
    case False
    have "\<not> (n + (U32 - (p + i + s))) mod U32 < s"
    using wrap_diff [of "p + i + s" n U32] ws buf(5) False by simp
    then have on: "slide_on e (p + s) buf1 sw1 = Some (RETCODE_SUCCESS, sw1)"
      using sw by (simp add: slide_on_def sw1_def)
    show ?thesis
      using run [OF on] win_of [of sw1 buf1] win hist sw ws buf(6) False
      by (intro exI [of _ out] exI [of _ sw1] conjI)
        (auto simp: slide_inv_def sw1_def out_def i_def [symmetric] w_def [symmetric] s_def [symmetric] n_def [symmetric])
  qed
qed


text \<open>A caller that feeds step after step and reads each window as it is returned.\<close>

fun slide_run :: "cenv \<Rightarrow> DataType \<Rightarrow> nat \<Rightarrow> byte list list \<Rightarrow> SlideWindowProcessor \<Rightarrow> (retcode \<times> byte list) list option" where
  "slide_run e t n [] sw = Some []"
| "slide_run e t n (x # xs) sw =
     do {
       (ret, out, sw1) \<leftarrow> SlideWindow_Process e \<lparr>fd_dataType = t, fd_data = Some x, fd_size = n\<rparr>
         \<lparr>fd_dataType = t, fd_data = None, fd_size = 0\<rparr> sw;
       win \<leftarrow> window_of out sw1;
       rest \<leftarrow> slide_run e t n xs sw1;
       Some ((ret, win) # rest)
     }"

lemma slide_run_from:
  assumes c: "config_ok c" "1 < sc_bufferMultiplier c" and e: "copy_env (buffer_bytes c) e"
    and "slide_inv c h sw" and "\<forall>x \<in> set xs. length x = step_bytes c"
  shows "slide_run e (sc_dataType c) (sc_stepSize c) xs sw =
    Some (map (\<lambda>j. (RETCODE_SUCCESS, take (window_bytes c)
      (drop (j * step_bytes c + (length h - (window_bytes c - step_bytes c))) (h @ concat xs)))) [0..<length xs])"
  using assms(4,5)
proof (induction xs arbitrary: h sw)
  case (Cons x xs)
  let ?i = "window_bytes c - step_bytes c"
  have x: "length x = step_bytes c" using Cons.prems by simp
  obtain out sw' where p: "SlideWindow_Process e \<lparr>fd_dataType = sc_dataType c, fd_data = Some x, fd_size = sc_stepSize c\<rparr>
      \<lparr>fd_dataType = sc_dataType c, fd_data = None, fd_size = 0\<rparr> sw = Some (RETCODE_SUCCESS, out, sw')"
      "window_of out sw' = Some (drop (length h - ?i) h @ x)" "slide_inv c (h @ x) sw'"
    using Process_slides [OF c e Cons.prems(1) x] by blast
  have i: "?i \<le> length h" using Cons.prems(1) by (auto simp: slide_inv_def)
  have w: "window_bytes c = ?i + step_bytes c" using config_bounds [OF c(1)] by simp
  have first: "take (window_bytes c) (drop (length h - ?i) (h @ x @ concat xs)) = drop (length h - ?i) h @ x"
    using i x w by simp
  have next_pos: "Suc j * step_bytes c + (length h - ?i) = j * step_bytes c + (length (h @ x) - ?i)" for j
    using i x by simp
  have "slide_run e (sc_dataType c) (sc_stepSize c) (x # xs) sw = Some ((RETCODE_SUCCESS, drop (length h - ?i) h @ x) #
      map (\<lambda>j. (RETCODE_SUCCESS, take (window_bytes c) (drop (Suc j * step_bytes c + (length h - ?i)) (h @ x @ concat xs)))) [0..<length xs])"
    using p Cons.IH [OF p(3)] Cons.prems(2) unfolding next_pos by simp
  also have "\<dots> = Some (map (\<lambda>j. (RETCODE_SUCCESS, take (window_bytes c)
      (drop (j * step_bytes c + (length h - ?i)) (h @ x @ concat xs)))) [0..<Suc (length xs)])"
    unfolding map_upt_Suc [of _ "length xs"] using first by simp
  finally show ?case by simp
qed simp

text \<open>C37. The sliding window: with room for at least two windows in the work buffer, an initialised
  processor that is fed any number of steps returns with each of them the window of the last
  samples - exactly the sliding windows of the stream that starts with zeros - and the
  moves of the buffer never show; whatever step and window the configuration has.\<close>

theorem windows_slide:
  assumes c: "config_ok c" "1 < sc_bufferMultiplier c" and e: "copy_env (buffer_bytes c) e"
    and xs: "\<forall>x \<in> set xs. length x = step_bytes c"
  shows "\<exists>sw. SlideWindow_Init e (Some c) SlideWindowProcessor_new = (RETCODE_SUCCESS, sw) \<and>
    slide_run e (sc_dataType c) (sc_stepSize c) xs sw =
      Some (map (\<lambda>j. (RETCODE_SUCCESS, take (window_bytes c) (drop (j * step_bytes c)
        (replicate (window_bytes c - step_bytes c) 0 @ concat xs)))) [0..<length xs])"
proof -
  obtain sw where "SlideWindow_Init e (Some c) SlideWindowProcessor_new = (RETCODE_SUCCESS, sw)"
      "slide_inv c (replicate (window_bytes c - step_bytes c) 0) sw"
    using SlideWindow_Init_starts [OF c(1) e] by blast
  then show ?thesis using slide_run_from [OF c e _ xs, of _ sw] by fastforce
qed

definition copying_env :: cenv where
  "copying_env = total_env\<lparr>memcpy_eok := \<lambda>d c. 0 < d \<and> c \<le> d\<rparr>"

lemma copying_env_ok [simp]: "copy_env lim copying_env"
  by (simp add: copy_env_def copying_env_def total_env_def)

definition demo_config :: SlideWindowProcessorConfig where
  "demo_config = \<lparr>sc_dataType = UINT8, sc_bufferMultiplier = 2, sc_stepSize = 2, sc_windowSize = 3\<rparr>"

theorem windows_slide_witness:
  "\<exists>sw. SlideWindow_Init copying_env (Some demo_config) SlideWindowProcessor_new = (RETCODE_SUCCESS, sw) \<and>
    slide_run copying_env UINT8 2 [[1, 2], [3, 4], [5, 6]] sw = Some [(0, [0, 1, 2]), (0, [2, 3, 4]), (0, [4, 5, 6])]"
  using windows_slide [of demo_config copying_env "[[1, 2], [3, 4], [5, 6]]"]
  by (simp add: demo_config_def config_ok_def step_bytes_def window_bytes_def buffer_bytes_def upt_rec)

text \<open>
  With room for one window only - which \<open>Init\<close> accepts - the samples are moved before the caller
  reads them: the first window comes out with its start overwritten.
\<close>

lemma single_buffer_window_overwritten:
  "slide_run copying_env UINT8 2 [[1, 2]]
     (snd (SlideWindow_Init copying_env (Some (demo_config\<lparr>sc_bufferMultiplier := 1\<rparr>)) SlideWindowProcessor_new)) =
   Some [(0, [2, 1, 2])]"
proof -
  have three: "replicate 3 (0 :: byte) = [0, 0, 0]" by (simp add: numeral_3_eq_3)
  have "SlideWindow_Init copying_env (Some (demo_config\<lparr>sc_bufferMultiplier := 1\<rparr>)) SlideWindowProcessor_new =
      (RETCODE_SUCCESS, \<lparr>sw_isInitialized = True, sw_workBuffer = Some [0, 0, 0], sw_inputFeature = Some 0, sw_inType = UINT8,
        sw_typeSize = 1, sw_startIndex = 1, sw_initIndex = 1, sw_bufferSize = 3, sw_windowSize = 3, sw_stepSize = 2\<rparr>)"
    by (simp add: SlideWindow_Init_def SlideWindowProcessor_new_def demo_config_def copying_env_def total_env_def three)
  then show ?thesis
    by (simp add: SlideWindow_Process_def slide_on_def window_of_def mem_read_def mem_write_def copying_env_def total_env_def)
qed

end
