(* ===== verification/IcSdkProofs.thy ===== *)
theory IcSdkProofs
  imports IcSdk IcProofs Feature
begin

text \<open>
  The image classification SDK and plugin together: the slices of an image of the model's size
  fill its input, and the callback gets the labels of the best scores.
\<close>

section \<open>The service between SDK and plugin\<close>

text \<open>
  What a synchronous request comes to when it reaches the plugin: the plugin's answer, an empty
  one when it gave none, and the code of the service when it failed.
\<close>

definition plugin_sync ::
  "'a ienv \<Rightarrow> ClientInfo \<Rightarrow> AlgorithmInfo \<Rightarrow> DataInfo \<Rightarrow> DataInfo \<Rightarrow> 'a ICPlugin \<Rightarrow> (retcode \<times> DataInfo \<times> 'a ICPlugin) option" where
  "plugin_sync e ci ai inp out p =
     do {
       (r, resp, p1) \<leftarrow> IC_SyncProcess e (Some (Request_new\<lparr>rq_msg := inp\<rparr>)) p;
       Some (if r \<noteq> RETCODE_SUCCESS then (RETCODE_ALGORITHM_PROCESS_ERROR, empty_DataInfo, p1)
             else (RETCODE_SUCCESS, (case resp of None \<Rightarrow> empty_DataInfo | Some rs \<Rightarrow> rs_result rs), p1))
     }"

text \<open>
  The memory of both sides: allocations and copies of messages up to \<open>lim\<close> bytes and of the image
  succeed.
\<close>

definition ic_memory :: "nat \<Rightarrow> nat \<Rightarrow> EncDec.cenv \<Rightarrow> bool" where
  "ic_memory lim n m \<longleftrightarrow> sound_env m \<and> roomy_env (room lim) m \<and> copy_env n m"

text \<open>
  The engine's memory: \<open>input_of\<close> is what the model's input holds, and \<open>ea_write\<close> writes to it.
  The model maps the image \<open>img\<close> to the output \<open>res\<close>.
\<close>

definition ic_engine :: "'a adapter_ops \<Rightarrow> ICPluginConfig \<Rightarrow> ('a \<Rightarrow> byte list) \<Rightarrow> bool" where
  "ic_engine ops c input_of \<longleftrightarrow> (\<forall>a off bs. length (input_of a) = pc_inputSize c \<and> off + length bs \<le> pc_inputSize c \<longrightarrow>
     (\<exists>a'. ea_write ops (pc_inputAddr c) off bs a = Some a' \<and>
        input_of a' = take off (input_of a) @ bs @ drop (off + length bs) (input_of a)))"

definition ic_model :: "'a adapter_ops \<Rightarrow> ICPluginConfig \<Rightarrow> int \<Rightarrow> ('a \<Rightarrow> byte list) \<Rightarrow> byte list \<Rightarrow> byte list \<Rightarrow> bool" where
  "ic_model ops c h input_of img res \<longleftrightarrow> (\<forall>a. input_of a = img \<longrightarrow>
     (\<exists>a'. ea_Invoke ops h a = (RETCODE_SUCCESS, a') \<and> ea_read ops (pc_outputAddr c) (ic_maxOutputSize c * 4) a' = Some res))"

text \<open>The scores, and the message and the result of the answer.\<close>

definition scores_of :: "ICPluginConfig \<Rightarrow> byte list \<Rightarrow> int list" where
  "scores_of c res = map bytes_int32 (elements 4 (ic_maxOutputSize c) res)"

definition ic_reply :: "int \<Rightarrow> Item list \<Rightarrow> param list" where
  "ic_reply h r = [PVal (handle_bytes h), PItems (map (\<lambda>(l, s). (int32_bytes l, int32_bytes s)) r)]"

definition ic_result :: "Item list \<Rightarrow> arr" where
  "ic_result r = \<lparr>arr_data = Some (map (int32_bytes \<circ> fst) r @ map (int32_bytes \<circ> snd) r), arr_size = length r * 2\<rparr>"

lemma roomy_mono: "roomy_env lim e \<Longrightarrow> n \<le> lim \<Longrightarrow> roomy_env n e"
  by (auto simp: roomy_env_def)

lemma room_le: "n \<le> lim \<Longrightarrow> room n \<le> room lim" "n \<le> room n"
  by (simp_all add: room_def)

section \<open>The messages\<close>

lemma slice_message:
  assumes "bs \<noteq> []"
  shows "list_all param_ok (slice_params h off bs)" "length (payload (slice_params h off bs)) = 20 + length bs"
proof -
  have one: "concat (map (\<lambda>b. [b]) bs) = bs" by (induction bs) auto
  have "length (le_bytes 4 off) = 4" by simp
  then have "le_bytes 4 off \<noteq> []" by (metis list.size(3) zero_neq_numeral)
  then show "list_all param_ok (slice_params h off bs)" using assms by (auto simp: slice_params_def)
  show "length (payload (slice_params h off bs)) = 20 + length bs" by (simp add: slice_params_def payload_def one)
qed

lemma slice_decoded:
  assumes m: "sound_env m" "ProcessEncode m di (slice_params h off bs) = Some (RETCODE_SUCCESS, inp)"
    and bs: "bs \<noteq> []" "length bs < 2 ^ 32" and h: "intptr h"
    and e: "roomy_env (28 + length bs) e2"
  shows "decode_handle e2 inp [TVal 4, TArr 1 fresh_arr] =
      Some (RETCODE_SUCCESS, h, [PVal (le_bytes 4 off), PArr \<lparr>arr_data = Some (map (\<lambda>b. [b]) bs), arr_size = length bs\<rparr>])"
    "di_data inp \<noteq> None" "0 < di_length inp"
proof -
  note s = slice_message [OF bs(1), of h off]
  have len: "length (payload (slice_params h off bs)) < 2 ^ 59" using s(2) bs(2) by simp
  have "length (message (slice_params h off bs)) = 28 + length bs" using s(2) by (simp add: length_message)
  then show "decode_handle e2 inp [TVal 4, TArr 1 fresh_arr] =
      Some (RETCODE_SUCCESS, h, [PVal (le_bytes 4 off), PArr \<lparr>arr_data = Some (map (\<lambda>b. [b]) bs), arr_size = length bs\<rparr>])"
    using decode_handle_encoded [OF m(1) s(1) [unfolded slice_params_def] len [unfolded slice_params_def] m(2) [unfolded slice_params_def] h,
        of "[TVal 4, TArr 1 fresh_arr]" e2] e
    by (simp add: slice_params_def widths_def)
  show "di_data inp \<noteq> None" "0 < di_length inp"
    using ProcessEncode_delivers [OF m(1) s(1) len, of di] m(2) by (auto simp: length_message)
qed

lemma reply_items:
  "list_all param_ok (ic_reply h r)" "length (payload (ic_reply h r)) = 16 + 8 * length r"
  "list_all2 fits [TVal 8, TArr 4 fresh_arr] (ic_reply h r)"
  "map decoded (ic_reply h r) = [PVal (handle_bytes h), PArr (ic_result r)]"
proof -
  show "list_all param_ok (ic_reply h r)" by (auto simp: ic_reply_def dest: sym)
  have "length (concat (map (int32_bytes \<circ> f) r)) = 4 * length r" for f :: "Item \<Rightarrow> int"
    by (induction r) auto
  from this [of fst] this [of snd] show "length (payload (ic_reply h r)) = 16 + 8 * length r"
    by (simp add: ic_reply_def payload_def comp_def case_prod_unfold)
  show "list_all2 fits [TVal 8, TArr 4 fresh_arr] (ic_reply h r)" by (auto simp: ic_reply_def widths_def)
  show "map decoded (ic_reply h r) = [PVal (handle_bytes h), PArr (ic_result r)]"
    by (simp add: ic_reply_def ic_result_def comp_def case_prod_unfold)
qed


section \<open>The plugin on a slice\<close>

text \<open>A slice is written behind the others; the last one starts the model.\<close>

lemma slice_stored:
  assumes p: "ip_adapter p = Some a" "sm_find (ip_handles p) h = Some c"
    and msg: "sound_env m" "ProcessEncode m di (slice_params h off bs) = Some (RETCODE_SUCCESS, inp)" "intptr h"
    and bs: "bs \<noteq> []" "off + length bs \<le> pc_inputSize c" "pc_inputSize c < 2 ^ 31"
    and e: "roomy_env (28 + length bs) (ice_mem e)" "copy_env (pc_inputSize c) (ice_mem e)"
    and w: "ea_write (ice_engine e) (pc_inputAddr c) off bs a = Some a'"
  shows "IC_SyncProcess e (Some (Request_new\<lparr>rq_msg := inp\<rparr>)) p =
    (if off + length bs = pc_inputSize c
     then IC_DoProcess e h c (Request_new\<lparr>rq_msg := inp\<rparr>) (p\<lparr>ip_adapter := Some a'\<rparr>)
     else Some (RETCODE_SUCCESS, None, p\<lparr>ip_adapter := Some a'\<rparr>))"
proof -
  have "length bs < 2 ^ 32" using bs by simp
  note d = slice_decoded [OF msg(1,2) bs(1) this msg(3) e(1)]
  have off: "le_val (le_bytes 4 off) = off" using bs by (simp add: le_val_le_bytes)
  have total: "(off + length bs) mod SZ = off + length bs" using bs by simp
  have "(pc_inputSize c + (SZ - off)) mod SZ = pc_inputSize c - off"
    using wrap_diff [of off "pc_inputSize c" SZ] bs by simp
  moreover have "memcpy_eok (ice_mem e) (pc_inputSize c - off) (length bs)"
    using e(2) bs by (cases bs) (simp_all add: copy_env_def)
  ultimately have copy: "memcpy_eok (ice_mem e) ((pc_inputSize c + (SZ - off)) mod SZ) (length bs)" by simp
  have one: "concat (map (\<lambda>b. [b]) bs) = bs" by (induction bs) auto
  show ?thesis
    using p d w bs(2) off total copy one by (auto simp: IC_SyncProcess_def mem_read_def Let_def)
qed

lemma slice_too_far:
  assumes p: "ip_adapter p = Some a" "sm_find (ip_handles p) h = Some c"
    and msg: "sound_env m" "ProcessEncode m di (slice_params h off bs) = Some (RETCODE_SUCCESS, inp)" "intptr h"
    and bs: "bs \<noteq> []" "pc_inputSize c < off + length bs" "off + length bs < 2 ^ 32"
    and e: "roomy_env (28 + length bs) (ice_mem e)"
  shows "IC_SyncProcess e (Some (Request_new\<lparr>rq_msg := inp\<rparr>)) p = Some (RETCODE_FAILURE, None, p)"
proof -
  have "length bs < 2 ^ 32" using bs by simp
  note d = slice_decoded [OF msg(1,2) bs(1) this msg(3) e(1)]
  have off: "le_val (le_bytes 4 off) = off" using bs by (simp add: le_val_le_bytes)
  have total: "(off + length bs) mod SZ = off + length bs" using bs by simp
  show ?thesis using p d bs(2) off total by (auto simp: IC_SyncProcess_def Let_def)
qed

text \<open>The model runs on the whole image, and the answer holds the best scores.\<close>

lemma model_answers:
  assumes hp: "heap_laws (ice_heap e)" and e: "ice_response e" "sound_env (ice_mem e)" "roomy_env (room lim) (ice_mem e)"
    and p: "ip_adapter p = Some a" and mo: "ic_model (ice_engine e) c h input_of img res" "input_of a = img"
    and c: "pc_outputAddr c \<noteq> 0" "0 < pc_outputSize c" "ic_maxOutputSize c < 2 ^ 31"
    and lim: "24 + 8 * pc_outputSize c \<le> lim" "int lim \<le> INT_MAX"
  shows "\<exists>a' r out. IC_DoProcess e h c req p = Some (RETCODE_SUCCESS, Some (Response_SetResult out (Response_new (Some req))),
      p\<lparr>ip_adapter := Some a'\<rparr>) \<and>
    di_data out = Some (message (ic_reply h r)) \<and> di_length out = int (length (message (ic_reply h r))) \<and>
    length (message (ic_reply h r)) \<le> lim \<and>
    best_items (scores_of c res) (min (pc_outputSize c) (ic_maxOutputSize c)) (ic_maxOutputSize c) r \<and>
    sorted_wrt (\<lambda>x y. snd x \<ge> snd y) r"
proof -
  obtain a' where a': "ea_Invoke (ice_engine e) h a = (RETCODE_SUCCESS, a')"
      "ea_read (ice_engine e) (pc_outputAddr c) (ic_maxOutputSize c * 4) a' = Some res"
    using mo by (auto simp: ic_model_def)
  have len: "length (scores_of c res) = ic_maxOutputSize c" by (simp add: scores_of_def)
  obtain r where r: "GetTopK (ice_heap e) (Some (scores_of c res)) (ic_maxOutputSize c) (pc_outputSize c) = Some (RETCODE_SUCCESS, r)"
      "best_items (scores_of c res) (min (pc_outputSize c) (ic_maxOutputSize c)) (ic_maxOutputSize c) r"
      "sorted_wrt (\<lambda>x y. snd x \<ge> snd y) r"
    using GetTopK_finds [OF hp, of "scores_of c res" "pc_outputSize c"] c len by auto
  have k: "length r \<le> pc_outputSize c" using r(2) by (simp add: best_items_def)
  note i = reply_items(1,2) [of h r]
  have msg: "length (message (ic_reply h r)) \<le> lim" using i(2) k lim(1) by (simp add: length_message)
  have "length (payload (ic_reply h r)) < 2 ^ 59" using i(2) k lim by simp
  moreover have "roomy_env (room (length (message (ic_reply h r)))) (ice_mem e)" using e(3) room_le(1) [OF msg] roomy_mono by blast
  moreover have "int (length (message (ic_reply h r))) \<le> INT_MAX" using msg lim(2) by simp
  ultimately obtain out where out: "ProcessEncode (ice_mem e) empty_DataInfo (ic_reply h r) = Some (RETCODE_SUCCESS, out)"
      "di_data out = Some (message (ic_reply h r))" "di_length out = int (length (message (ic_reply h r)))"
    using ProcessEncode_delivers [OF e(2) i(1), of empty_DataInfo] by auto
  have "IC_MakeInference e h c empty_DataInfo p = Some (RETCODE_SUCCESS, out, p\<lparr>ip_adapter := Some a'\<rparr>)"
    using p a' c(1) r(1) out(1) by (simp add: IC_MakeInference_def scores_of_def ic_reply_def)
  then have "IC_DoProcess e h c req p = Some (RETCODE_SUCCESS, Some (Response_SetResult out (Response_new (Some req))),
      p\<lparr>ip_adapter := Some a'\<rparr>)"
    using e(1) by (simp add: IC_DoProcess_def)
  then show ?thesis using out(2,3) msg r(2,3) by blast
qed


section \<open>The slices of an image\<close>

lemma slice_loop_fills:
  assumes ao: "ao_SyncProcess ao = plugin_sync e" and hp: "heap_laws (ice_heap e)" and resp: "ice_response e"
    and mem: "ic_memory lim (pc_inputSize c) m" "ic_memory lim (pc_inputSize c) (ice_mem e)" "25628 \<le> lim" "int lim \<le> INT_MAX"
    and hnd: "is_icHandle s = h" "intptr h" "sm_find (ip_handles p) h = Some c"
    and img: "length img = pc_inputSize c" "pc_inputSize c < 2 ^ 31"
    and eng: "ic_engine (ice_engine e) c input_of" "ic_model (ice_engine e) c h input_of img res"
    and c: "pc_outputAddr c \<noteq> 0" "0 < pc_outputSize c" "ic_maxOutputSize c < 2 ^ 31" "24 + 8 * pc_outputSize c \<le> lim"
  shows "off < length img \<Longrightarrow> ip_adapter p = Some a \<Longrightarrow> length (input_of a) = pc_inputSize c \<Longrightarrow>
    take off (input_of a) = take off img \<Longrightarrow>
    \<exists>a' r out'. slice_loop m ao img (length img) off out s p = Some (IC_RETCODE_SUCCESS, out', s, p\<lparr>ip_adapter := Some a'\<rparr>) \<and>
      di_data out' = Some (message (ic_reply h r)) \<and> di_length out' = int (length (message (ic_reply h r))) \<and>
      length (message (ic_reply h r)) \<le> lim \<and>
      best_items (scores_of c res) (min (pc_outputSize c) (ic_maxOutputSize c)) (ic_maxOutputSize c) r \<and>
      sorted_wrt (\<lambda>x y. snd x \<ge> snd y) r"
  using hnd(3)
proof (induction "length img - off" arbitrary: off a p out rule: less_induct)
  case less
  define n where "n = min (length img - off) MAX_IPC_BUFFER_SIZE"
  define bs where "bs = take n (drop off img)"
  have n: "0 < n" "off + n \<le> length img" "n \<le> 25600" using less.prems(1) by (simp_all add: n_def)
  have bs: "length bs = n" "bs \<noteq> []" using n by (auto simp: bs_def)
  have rd: "mem_read off n img = Some bs" using n by (simp add: mem_read_def bs_def)
  have sm: "sound_env m" "roomy_env (room lim) m" using mem(1) by (simp_all add: ic_memory_def)
  have se: "sound_env (ice_mem e)" "roomy_env (room lim) (ice_mem e)" "copy_env (pc_inputSize c) (ice_mem e)"
    using mem(2) by (simp_all add: ic_memory_def)
  note s = slice_message [OF bs(2), of h off]
  have "length (message (slice_params h off bs)) \<le> lim" using s(2) bs(1) n(3) mem(3) by (simp add: length_message)
  then have "roomy_env (room (length (message (slice_params h off bs)))) m"
      "int (length (message (slice_params h off bs))) \<le> INT_MAX"
    using sm(2) room_le(1) roomy_mono mem(4) by (blast, linarith)
  moreover have "length (payload (slice_params h off bs)) < 2 ^ 59" using s(2) bs(1) n(3) by simp
  ultimately obtain inp where inp: "ProcessEncode m empty_DataInfo (slice_params h off bs) = Some (RETCODE_SUCCESS, inp)"
    using ProcessEncode_delivers [OF sm(1) s(1), of empty_DataInfo] by auto
  have fit: "off + length bs \<le> pc_inputSize c" using n(2) bs(1) img(1) by simp
  obtain a1 where a1: "ea_write (ice_engine e) (pc_inputAddr c) off bs a = Some a1"
      "input_of a1 = take off (input_of a) @ bs @ drop (off + length bs) (input_of a)"
    using eng(1) less.prems(3) fit unfolding ic_engine_def by blast
  have len1: "length (input_of a1) = pc_inputSize c" using a1(2) less.prems(3) fit by simp
  have "take (off + n) (input_of a1) = take off img @ bs" using a1(2) less.prems(3,4) fit bs(1) n(2) img(1) by simp
  also have "\<dots> = take (off + n) img" by (simp add: bs_def take_add)
  finally have pre: "take (off + n) (input_of a1) = take (off + n) img" .
  have "28 + length bs \<le> room lim" using bs(1) n(3) mem(3) room_le(2) [of lim] by simp
  then have roomy: "roomy_env (28 + length bs) (ice_mem e)" by (rule roomy_mono [OF se(2)])
  note st = slice_stored [OF less.prems(2,5) sm(1) inp hnd(2) bs(2) fit img(2) roomy se(3) a1(1)]
  define p1 where "p1 = p\<lparr>ip_adapter := Some a1\<rparr>"
  have off32: "(off + n) mod 2 ^ 32 = off + n" using n(2) img by simp
  have unfold: "slice_loop m ao img (length img) off out s p =
      plugin_sync e (is_clientInfo s) ic_algorithmInfo inp empty_DataInfo p \<bind> (\<lambda>(r2, out1, w1).
        if r2 \<noteq> RETCODE_SUCCESS then Some (IC_RETCODE_FAILURE, out1, ic_notify (OnError IC_RETCODE_FAILURE) s, w1)
        else slice_loop m ao img (length img) (off + n) out1 s w1)"
    unfolding slice_loop.simps [of m ao img "length img" off out s p] n_def [symmetric] Let_def rd hnd(1) off32
    using less.prems(1) by (simp add: inp ao)
  show ?case
  proof (cases "off + n < length img")
    case True
    then have "off + length bs \<noteq> pc_inputSize c" using bs(1) img(1) by simp
    then have "slice_loop m ao img (length img) off out s p = slice_loop m ao img (length img) (off + n) empty_DataInfo s p1"
      using st unfolding unfold by (simp add: plugin_sync_def p1_def)
    moreover have "length img - (off + n) < length img - off" using n(1) less.prems(1) by simp
    moreover have "ip_adapter p1 = Some a1" "sm_find (ip_handles p1) h = Some c" using less.prems(5) by (simp_all add: p1_def)
    moreover have "p1\<lparr>ip_adapter := x\<rparr> = p\<lparr>ip_adapter := x\<rparr>" for x by (simp add: p1_def)
    ultimately show ?thesis using less.hyps [of "off + n" p1 a1 empty_DataInfo] True len1 pre by simp
  next
    case False
    then have full: "off + n = length img" using n(2) by simp
    then have ia: "input_of a1 = img" using pre len1 img(1) by simp
    have pa: "ip_adapter p1 = Some a1" by (simp add: p1_def)
    obtain a' r out' where run: "IC_DoProcess e h c (Request_new\<lparr>rq_msg := inp\<rparr>) p1 =
          Some (RETCODE_SUCCESS, Some (Response_SetResult out' (Response_new (Some (Request_new\<lparr>rq_msg := inp\<rparr>)))), p1\<lparr>ip_adapter := Some a'\<rparr>)"
        "di_data out' = Some (message (ic_reply h r))" "di_length out' = int (length (message (ic_reply h r)))"
        "length (message (ic_reply h r)) \<le> lim"
        "best_items (scores_of c res) (min (pc_outputSize c) (ic_maxOutputSize c)) (ic_maxOutputSize c) r"
        "sorted_wrt (\<lambda>x y. snd x \<ge> snd y) r"
      using model_answers [OF hp resp se(1,2) pa eng(2) ia c(1,2,3,4) mem(4), of "Request_new\<lparr>rq_msg := inp\<rparr>"] by blast
    have "slice_loop m ao img (length img) off out s p = slice_loop m ao img (length img) (length img) out' s (p\<lparr>ip_adapter := Some a'\<rparr>)"
      using st full bs(1) img(1) run(1) unfolding unfold by (simp add: plugin_sync_def p1_def)
    also have "\<dots> = Some (IC_RETCODE_SUCCESS, out', s, p\<lparr>ip_adapter := Some a'\<rparr>)"
      by (subst slice_loop.simps) simp
    finally show ?thesis using run(2-6) by blast
  qed
qed


text \<open>An image is classified: when the application executes the SDK on an image of exactly the
  model's size, the slices of it that go through the plugin one by one - at most 25600 bytes each -
  put the image into the model's input, the model runs, and the callback is called once, with
  the labels of the highest scores the model gives the image, in descending order, followed by
  these scores: as many as the handle asks for or the model has, none twice, and no score left
  out higher than one reported. The call returns success. Provided the requests reach the
  plugin that gave the handle, memory lasts, and the engine does what its interface says.\<close>

lemma ic_image_classified:
  assumes "ao_SyncProcess ao = plugin_sync e" and hp: "heap_laws (ice_heap e)" "ice_response e"
    and mem: "ic_memory lim (pc_inputSize c) m" "ic_memory lim (pc_inputSize c) (ice_mem e)" "25628 \<le> lim" "int lim \<le> INT_MAX"
    and hnd: "is_icHandle s = h" "intptr h" "sm_find (ip_handles p) h = Some c" "ip_adapter p = Some a"
    and img: "length img = pc_inputSize c" "0 < pc_inputSize c" "pc_inputSize c < 2 ^ 31"
    and eng: "ic_engine (ice_engine e) c input_of" "ic_model (ice_engine e) c h input_of img res" "length (input_of a) = pc_inputSize c"
    and c: "pc_outputAddr c \<noteq> 0" "0 < pc_outputSize c" "ic_maxOutputSize c < 2 ^ 31" "24 + 8 * pc_outputSize c \<le> lim"
  shows "\<exists>r a'. IcSdk_SyncExecute m ao \<lparr>ic_data = Some img, ic_size = length img\<rparr> s p =
      Some (IC_RETCODE_SUCCESS, ic_notify (OnResult (ic_result r)) s, p\<lparr>ip_adapter := Some a'\<rparr>) \<and>
    best_items (scores_of c res) (min (pc_outputSize c) (ic_maxOutputSize c)) (ic_maxOutputSize c) r \<and>
    sorted_wrt (\<lambda>x y. snd x \<ge> snd y) r"
proof -
  have "0 < length img" using img by simp
  then obtain a' r out' where l: "slice_loop m ao img (length img) 0 empty_DataInfo s p = Some (IC_RETCODE_SUCCESS, out', s, p\<lparr>ip_adapter := Some a'\<rparr>)"
      "di_data out' = Some (message (ic_reply h r))" "di_length out' = int (length (message (ic_reply h r)))"
      "length (message (ic_reply h r)) \<le> lim"
      "best_items (scores_of c res) (min (pc_outputSize c) (ic_maxOutputSize c)) (ic_maxOutputSize c) r"
      "sorted_wrt (\<lambda>x y. snd x \<ge> snd y) r"
    using slice_loop_fills [OF assms(1) hp mem hnd(1,2,3) img(1,3) eng(1,2) c, of 0 a empty_DataInfo] hnd(4) eng(3) by auto
  have on: "OnSyncExecute m ao \<lparr>ic_data = Some img, ic_size = length img\<rparr> empty_DataInfo s p =
      Some (IC_RETCODE_SUCCESS, out', s, p\<lparr>ip_adapter := Some a'\<rparr>)"
    using l(1) img by (simp add: OnSyncExecute_def)
  have "roomy_env (length (message (ic_reply h r))) m"
    using mem(1) l(4) room_le(2) [of lim] roomy_mono by (fastforce simp: ic_memory_def)
  then have dec: "ProcessDecode m out' [TVal 8, TArr 4 fresh_arr] = Some (RETCODE_SUCCESS, [PVal (handle_bytes h), PArr (ic_result r)])"
    using ProcessDecode_message [OF reply_items(1,3) _ _ l(2,3), of m] l(4) mem(4) by (simp add: reply_items(4))
  have "0 < di_length out'" using l(3) by (simp add: length_message)
  then have "IcSdk_SyncExecute m ao \<lparr>ic_data = Some img, ic_size = length img\<rparr> s p =
      Some (IC_RETCODE_SUCCESS, ic_notify (OnResult (ic_result r)) s, p\<lparr>ip_adapter := Some a'\<rparr>)"
    using on dec l(2) hnd(1,2) by (simp add: IcSdk_SyncExecute_def handle_read_def handle_roundtrip)
  then show ?thesis using l(5,6) by blast
qed


section \<open>Images of another size\<close>

lemma one_slice:
  assumes ao: "ao_SyncProcess ao = plugin_sync e" and mem: "ic_memory lim n m" "25628 \<le> lim" "int lim \<le> INT_MAX"
    and img: "0 < length img" "length img \<le> 25600"
  shows "\<exists>inp. ProcessEncode m empty_DataInfo (slice_params (is_icHandle s) 0 img) = Some (RETCODE_SUCCESS, inp) \<and>
    slice_loop m ao img (length img) 0 out s p =
      plugin_sync e (is_clientInfo s) ic_algorithmInfo inp empty_DataInfo p \<bind> (\<lambda>(r2, out1, w1).
        if r2 \<noteq> RETCODE_SUCCESS then Some (IC_RETCODE_FAILURE, out1, ic_notify (OnError IC_RETCODE_FAILURE) s, w1)
        else Some (IC_RETCODE_SUCCESS, out1, s, w1))"
proof -
  have ne: "img \<noteq> []" using img(1) by simp
  note sl = slice_message [OF ne, of "is_icHandle s" 0]
  have sm: "sound_env m" "roomy_env (room lim) m" using mem(1) by (simp_all add: ic_memory_def)
  have "length (message (slice_params (is_icHandle s) 0 img)) \<le> lim" using sl(2) img(2) mem(2) by (simp add: length_message)
  then have "roomy_env (room (length (message (slice_params (is_icHandle s) 0 img)))) m"
      "int (length (message (slice_params (is_icHandle s) 0 img))) \<le> INT_MAX"
    using sm(2) room_le(1) roomy_mono mem(3) by (blast, linarith)
  moreover have "length (payload (slice_params (is_icHandle s) 0 img)) < 2 ^ 59" using sl(2) img(2) by simp
  ultimately obtain inp where inp: "ProcessEncode m empty_DataInfo (slice_params (is_icHandle s) 0 img) = Some (RETCODE_SUCCESS, inp)"
    using ProcessEncode_delivers [OF sm(1) sl(1), of empty_DataInfo] by auto
  have stop: "slice_loop m ao img (length img) (length img) out1 s w1 = Some (IC_RETCODE_SUCCESS, out1, s, w1)" for out1 w1
    by (subst slice_loop.simps) simp
  have n: "min (length img - 0) MAX_IPC_BUFFER_SIZE = length img" using img(2) by simp
  have rd: "mem_read 0 (length img) img = Some img" by (simp add: mem_read_def)
  have off: "(0 + length img) mod 2 ^ 32 = length img" using img(2) by simp
  show ?thesis
    unfolding slice_loop.simps [of m ao img "length img" 0 out s p] n rd Let_def off stop
    using inp img(1) ao by (intro exI [of _ inp]) simp
qed

text \<open>
  An image shorter than the model's input gets no answer: the callback is told of a failure, and
  the call returns success.
\<close>

lemma short_image_returns_success:
  assumes ao: "ao_SyncProcess ao = plugin_sync e" and mem: "ic_memory lim (pc_inputSize c) m" "ic_memory lim (pc_inputSize c) (ice_mem e)"
      "25628 \<le> lim" "int lim \<le> INT_MAX"
    and hnd: "intptr (is_icHandle s)" "sm_find (ip_handles p) (is_icHandle s) = Some c" "ip_adapter p = Some a"
    and img: "0 < length img" "length img \<le> 25600" "length img < pc_inputSize c" "pc_inputSize c < 2 ^ 31"
    and eng: "ic_engine (ice_engine e) c input_of" "length (input_of a) = pc_inputSize c"
  shows "\<exists>a'. IcSdk_SyncExecute m ao \<lparr>ic_data = Some img, ic_size = length img\<rparr> s p =
    Some (IC_RETCODE_SUCCESS, ic_notify (OnError IC_RETCODE_FAILURE) s, p\<lparr>ip_adapter := Some a'\<rparr>)"
proof -
  obtain inp where inp: "ProcessEncode m empty_DataInfo (slice_params (is_icHandle s) 0 img) = Some (RETCODE_SUCCESS, inp)"
      "slice_loop m ao img (length img) 0 empty_DataInfo s p =
      plugin_sync e (is_clientInfo s) ic_algorithmInfo inp empty_DataInfo p \<bind> (\<lambda>(r2, out1, w1).
        if r2 \<noteq> RETCODE_SUCCESS then Some (IC_RETCODE_FAILURE, out1, ic_notify (OnError IC_RETCODE_FAILURE) s, w1)
        else Some (IC_RETCODE_SUCCESS, out1, s, w1))"
    using one_slice [OF ao mem(1,3,4) img(1,2)] by blast
  have fit: "0 + length img \<le> pc_inputSize c" using img(3) by simp
  obtain a' where a': "ea_write (ice_engine e) (pc_inputAddr c) 0 img a = Some a'"
    using eng fit unfolding ic_engine_def by blast
  have "sound_env m" "copy_env (pc_inputSize c) (ice_mem e)" using mem(1,2) by (simp_all add: ic_memory_def)
  moreover have "28 + length img \<le> room lim" using img(2) mem(3) room_le(2) [of lim] by simp
  then have "roomy_env (28 + length img) (ice_mem e)" using mem(2) roomy_mono by (auto simp: ic_memory_def)
  moreover have "img \<noteq> []" using img(1) by simp
  ultimately have "IC_SyncProcess e (Some (Request_new\<lparr>rq_msg := inp\<rparr>)) p = Some (RETCODE_SUCCESS, None, p\<lparr>ip_adapter := Some a'\<rparr>)"
    using slice_stored [OF hnd(3,2) _ inp(1) hnd(1) _ fit img(4) _ _ a'] img(3) by simp
  then show ?thesis using inp(2) img(1) by (intro exI [of _ a']) (simp add: IcSdk_SyncExecute_def OnSyncExecute_def plugin_sync_def)
qed

section \<open>An example\<close>

text \<open>An engine whose model gives each byte of its input as a score.\<close>

definition byte_engine :: "byte list adapter_ops" where
  "byte_engine = \<lparr>ea_Init = \<lambda>_ a. (0, 7, a), ea_Deinit = \<lambda>a. (0, a), ea_Invoke = \<lambda>_ a. (0, a), ea_GetInputAddr = \<lambda>_ _ _. (0, 64, 2),
     ea_GetOutputAddr = \<lambda>_ _ _. (0, 128, 2), ea_ReleaseHandle = \<lambda>_ a. (0, a),
     ea_write = \<lambda>_ off bs a. Some (take off a @ bs @ drop (off + length bs) a),
     ea_read = \<lambda>_ n a. Some (concat (map (\<lambda>b. [b, 0, 0, 0]) a))\<rparr>"

definition demo_ienv :: "byte list ienv" where
  "demo_ienv = \<lparr>ice_mem = copying_env, ice_engine = byte_engine, ice_heap = sorting_heap, ice_nnie = Some [], ice_response = True\<rparr>"

definition demo_icplugin :: "byte list ICPlugin" where
  "demo_icplugin = \<lparr>ip_adapter = Some [0, 0], ip_handles = [(7, \<lparr>pc_inputSize = 2, pc_outputSize = 1, pc_inputAddr = 64,
     pc_outputAddr = 128, ic_maxOutputSize = 2\<rparr>)]\<rparr>"

definition demo_service :: "byte list ICPlugin aie_ops" where
  "demo_service = \<lparr>ao_Init = \<lambda>_ ci _ w. Some (0, ci, w), ao_Prepare = \<lambda>_ _ _ out w. Some (0, out, w), ao_SyncProcess = plugin_sync demo_ienv,
     ao_Release = \<lambda>_ _ _ w. Some (0, w), ao_Destroy = \<lambda>ci w. Some (0, ci, w)\<rparr>"

lemma copying_memory [simp]: "ic_memory lim n copying_env"
proof -
  have "sound_env copying_env" "roomy_env k copying_env" for k
    by (simp_all add: copying_env_def sound_env_def roomy_env_def total_env_def)
  then show ?thesis by (simp add: ic_memory_def)
qed

lemma ic_image_classified_demo:
  "\<exists>r a'. IcSdk_SyncExecute copying_env demo_service \<lparr>ic_data = Some [5, 9], ic_size = 2\<rparr>
      (IcSdk_new\<lparr>is_icHandle := 7, is_callback := True\<rparr>) demo_icplugin =
      Some (IC_RETCODE_SUCCESS, IcSdk_new\<lparr>is_icHandle := 7, is_callback := True, is_events := [OnResult (ic_result r)]\<rparr>,
        demo_icplugin\<lparr>ip_adapter := Some a'\<rparr>) \<and>
    best_items [5, 9] 1 2 r"
proof -
  let ?s = "IcSdk_new\<lparr>is_icHandle := 7, is_callback := True\<rparr>"
  let ?c = "\<lparr>pc_inputSize = 2, pc_outputSize = 1, pc_inputAddr = 64, pc_outputAddr = 128, ic_maxOutputSize = 2\<rparr> :: ICPluginConfig"
  let ?res = "[5, 0, 0, 0, 9, 0, 0, 0] :: byte list"
  have two: "length [5, 9 :: byte] = 2" "[0..<2] = [0, 1 :: nat]" by (simp_all add: upt_rec)
  have sc: "scores_of ?c ?res = [5, 9]"
    by (simp add: scores_of_def elements_def two bytes_int32_def swrap_def)
  have e: "ao_SyncProcess demo_service = plugin_sync demo_ienv" "heap_laws (ice_heap demo_ienv)" "ice_response demo_ienv"
      "ic_memory 30000 (pc_inputSize ?c) copying_env" "ic_memory 30000 (pc_inputSize ?c) (ice_mem demo_ienv)"
    using sorting_heap_laws by (simp_all add: demo_service_def demo_ienv_def)
  have h: "is_icHandle ?s = 7" "intptr 7" "sm_find (ip_handles demo_icplugin) 7 = Some ?c" "ip_adapter demo_icplugin = Some [0, 0]"
    by (simp_all add: IcSdk_new_def intptr_def demo_icplugin_def)
  have g: "ic_engine (ice_engine demo_ienv) ?c (\<lambda>a. a)" "ic_model (ice_engine demo_ienv) ?c 7 (\<lambda>a. a) [5, 9] ?res"
    by (simp_all add: ic_engine_def ic_model_def demo_ienv_def byte_engine_def)
  obtain r a' where r: "IcSdk_SyncExecute copying_env demo_service \<lparr>ic_data = Some [5, 9], ic_size = length [5, 9 :: byte]\<rparr> ?s demo_icplugin =
      Some (IC_RETCODE_SUCCESS, ic_notify (OnResult (ic_result r)) ?s, demo_icplugin\<lparr>ip_adapter := Some a'\<rparr>)"
      "best_items (scores_of ?c ?res) (min (pc_outputSize ?c) (ic_maxOutputSize ?c)) (ic_maxOutputSize ?c) r"
    using ic_image_classified [OF e _ _ h _ _ _ g] by auto
  have n: "ic_notify (OnResult (ic_result r)) ?s = ?s\<lparr>is_events := [OnResult (ic_result r)]\<rparr>"
    by (simp add: ic_notify_def notify_def IcSdk_new_def)
  show ?thesis using r unfolding two sc n by (intro exI [of _ r] exI [of _ a']) simp
qed

end
