(* ===== verification/IcStack.thy ===== *)
theory IcStack
  imports Stack IcSdkProofs
begin

text \<open>
  Image classification through the whole system: the SDK in the application, the client, the IPC
  library, the service, the engine and its queue, and the plugin in the server.
\<close>

section \<open>The plugin's part of the contract\<close>

text \<open>
  Operations that are those of the image classification plugin, wherever what the plugin does is
  defined.
\<close>

definition ic_operations :: "'a ienv \<Rightarrow> 'a ICPlugin plug_ops \<Rightarrow> bool" where
  "ic_operations e ops \<longleftrightarrow> (\<forall>req p x. IC_SyncProcess e (Some req) p = Some x \<longrightarrow> po_SyncProcess ops req p = x)"

text \<open>The plugin as an engine sees it, behind \<open>IPlugin\<close>; undefined behaviour is \<open>RETCODE_FAILURE\<close> here.\<close>

definition IC_plugin :: "'a ienv \<Rightarrow> ICPluginConfig \<Rightarrow> 'a ICPlugin plug_ops" where
  "IC_plugin e config0 =
     \<lparr>po_InferMode = \<lambda>p. Some IC_GetInferMode,
      po_SyncProcess = \<lambda>req p. defined (RETCODE_FAILURE, None, p) (IC_SyncProcess e (Some req) p),
      po_AsyncProcess = \<lambda>req p. (let (r, p1) = IC_AsyncProcess (Some req) p in (r, [], p1)),
      po_Prepare = \<lambda>transactionId inp out p. defined (RETCODE_FAILURE, out, p) (IC_Prepare e config0 transactionId inp out p),
      po_Release = \<lambda>isFullUnload transactionId inp p. defined (RETCODE_FAILURE, p) (IC_Release e isFullUnload transactionId inp p),
      po_SetOption = \<lambda>optionType inp p. defined (RETCODE_FAILURE, p) (IC_SetOption e optionType inp p),
      po_GetOption = \<lambda>optionType inp out p. defined (RETCODE_FAILURE, out, p) (IC_GetOption e optionType inp out p)\<rparr>"

lemma IC_plugin_operations: "ic_operations e (IC_plugin e config0)"
  by (simp add: ic_operations_def IC_plugin_def defined_def)

text \<open>Handles whose answers can be sent: at least one label, and a message of at most a megabyte.\<close>

definition ic_sendable :: "'a ICPlugin \<Rightarrow> bool" where
  "ic_sendable p \<longleftrightarrow> (\<forall>h c. sm_find (ip_handles p) h = Some c \<longrightarrow>
     0 < pc_outputSize c \<and> 24 + 8 * pc_outputSize c \<le> 1048576 \<and> ic_maxOutputSize c < 2 ^ 31)"

lemma MakeInference_sends:
  assumes hp: "heap_laws (ice_heap e)" and m: "sound_env (ice_mem e)"
    and c: "0 < pc_outputSize c" "24 + 8 * pc_outputSize c \<le> 1048576" "ic_maxOutputSize c < 2 ^ 31"
    and run: "IC_MakeInference e h c empty_DataInfo p = Some (rc, out, p')"
  shows "ip_handles p' = ip_handles p \<and> (rc = RETCODE_SUCCESS \<longrightarrow> data_ok out)"
proof (cases "rc = RETCODE_SUCCESS")
  case False
  then show ?thesis using run by (auto simp: IC_MakeInference_def Let_def case_prod_unfold split: if_splits bind_splits)
next
  case True
  obtain a a1 bs r where r: "GetTopK (ice_heap e) (Some (scores_of c bs)) (ic_maxOutputSize c) (pc_outputSize c) = Some (RETCODE_SUCCESS, r)"
      "ProcessEncode (ice_mem e) empty_DataInfo (ic_reply h r) = Some (RETCODE_SUCCESS, out)" "p' = p\<lparr>ip_adapter := Some a1\<rparr>"
    using run True
    by (auto simp: IC_MakeInference_def scores_of_def ic_reply_def GetTopK_def Let_def case_prod_unfold split: if_splits bind_splits)
  have "length (scores_of c bs) = ic_maxOutputSize c" by (simp add: scores_of_def)
  then have "best_items (scores_of c bs) (min (pc_outputSize c) (ic_maxOutputSize c)) (ic_maxOutputSize c) r"
    using GetTopK_finds [OF hp, of "scores_of c bs" "pc_outputSize c"] c r(1) by auto
  then have k: "length r \<le> pc_outputSize c" by (simp add: best_items_def)
  note i = reply_items(1,2) [of h r]
  have "length (payload (ic_reply h r)) < 2 ^ 59" using i(2) k c(2) by simp
  then have "di_data out = Some (message (ic_reply h r))" "di_length out = int (length (message (ic_reply h r)))"
    using ProcessEncode_delivers [OF m i(1), of empty_DataInfo] r(2) by auto
  then have "data_ok out" by (rule message_data_ok) (use i(2) k c(2) in \<open>simp add: length_message\<close>)
  then show ?thesis using r(3) by simp
qed

lemma SyncProcess_sends:
  assumes hp: "heap_laws (ice_heap e)" and m: "sound_env (ice_mem e)" and p: "ic_sendable p"
    and run: "IC_SyncProcess e (Some req) p = Some (rc, resp, p')"
  shows "data_ok (answer_data rc resp) \<and> ic_sendable p'"
proof -
  have e: "data_ok empty_DataInfo" by (simp add: data_ok_def)
  have step: "data_ok (answer_data rc resp) \<and> ip_handles p' = ip_handles p1"
    if c: "sm_find (ip_handles p) h = Some c" and d: "IC_DoProcess e h c req p1 = Some (rc, resp, p')" for h c p1
  proof -
    have c': "0 < pc_outputSize c" "24 + 8 * pc_outputSize c \<le> 1048576" "ic_maxOutputSize c < 2 ^ 31"
      using p c by (auto simp: ic_sendable_def)
    obtain rc1 out where i: "IC_MakeInference e h c empty_DataInfo p1 = Some (rc1, out, p')" "rc = rc1"
        "resp = (if rc1 \<noteq> RETCODE_SUCCESS then None else Some (Response_SetResult out (Response_new (Some req))))"
      using d by (auto simp: IC_DoProcess_def split: if_splits bind_splits)
    then show ?thesis
      using MakeInference_sends [OF hp m c' i(1)] e by (auto simp: answer_data_def)
  qed
  have "data_ok (answer_data rc resp) \<and> ip_handles p' = ip_handles p"
    using run step e
    by (auto simp: IC_SyncProcess_def answer_data_def Let_def split: option.splits if_splits bind_splits prod.splits list.splits param.splits)
  then show ?thesis using p by (simp add: ic_sendable_def)
qed

text \<open>The plugin looks at the block of a request only; the other parts go into the response.\<close>

lemma SyncProcess_block:
  assumes "IC_SyncProcess e (Some req0) p = Some (rc, resp0, p')" and "rq_msg req = rq_msg req0"
  shows "\<exists>resp. IC_SyncProcess e (Some req) p = Some (rc, resp, p') \<and> answer_data rc resp = answer_data rc resp0"
proof -
  define f where "f = (\<lambda>(rc :: retcode, r :: Response option, q :: 'a ICPlugin).
    (rc, map_option (\<lambda>x. Response_SetResult (rs_result x) (Response_new (Some req))) r, q))"
  have f: "f (rc, None, q) = (rc, None, q)" for rc q by (simp add: f_def)
  have do: "IC_DoProcess e h c req q = map_option f (IC_DoProcess e h c req0 q)" for h c q
    by (auto simp: IC_DoProcess_def f_def split: bind_split)
  have "IC_SyncProcess e (Some req) p = map_option f (IC_SyncProcess e (Some req0) p)"
    by (auto simp: IC_SyncProcess_def assms(2) Let_def do f split: option.split bind_split)
  then show ?thesis using assms(1) by (auto simp: f_def answer_data_def split: option.splits)
qed

lemma ic_plugin_does:
  assumes "heap_laws (ice_heap e)" and "sound_env (ice_mem e)" and ops: "ic_operations e ops"
  shows "plugin_does ops (plugin_sync e) ic_sendable ci ai"
  unfolding plugin_does_def
proof (intro allI impI, elim conjE)
  fix req :: Request and p r out p'
  assume p: "ic_sendable p" and run: "plugin_sync e ci ai (rq_msg req) empty_DataInfo p = Some (r, out, p')"
  then obtain rc resp0 where s0: "IC_SyncProcess e (Some (Request_new\<lparr>rq_msg := rq_msg req\<rparr>)) p = Some (rc, resp0, p')"
      "r = answer_code rc" "out = answer_data rc resp0"
    by (auto simp: plugin_sync_def answer_code_def answer_data_def split: bind_splits if_splits)
  obtain resp where s: "IC_SyncProcess e (Some req) p = Some (rc, resp, p')" "answer_data rc resp = answer_data rc resp0"
    using SyncProcess_block [OF s0(1), of req] by auto
  then have "po_SyncProcess ops req p = (rc, resp, p')" using ops by (simp add: ic_operations_def)
  then show "data_ok out \<and> ic_sendable p' \<and>
      (\<exists>rc resp. po_SyncProcess ops req p = (rc, resp, p') \<and> r = answer_code rc \<and> out = answer_data rc resp)"
    using SyncProcess_sends [OF assms(1,2) p s(1)] s(2) s0(2,3) by auto
qed

lemma slice_data_ok:
  assumes "sound_env m" and "ProcessEncode m empty_DataInfo (slice_params h off bs) = Some (RETCODE_SUCCESS, inp)"
    and "bs \<noteq> []" "length bs \<le> 25600"
  shows "data_ok inp"
proof -
  note s = slice_message [OF assms(3), of h off]
  have "length (payload (slice_params h off bs)) < 2 ^ 59" using s(2) assms(4) by simp
  then have "di_data inp = Some (message (slice_params h off bs))" "di_length inp = int (length (message (slice_params h off bs)))"
    using ProcessEncode_delivers [OF assms(1) s(1), of empty_DataInfo] assms(2) by auto
  then show ?thesis by (rule message_data_ok) (use s(2) assms(4) in \<open>simp add: length_message\<close>)
qed

section \<open>The SDK over a service that keeps the contract\<close>

context plugin_service
begin

text \<open>
  The slices of an image have the same effect through the service as on the plugin itself.
\<close>

lemma slice_loop_served:
  assumes m: "sound_env m" and alg: "ai = ic_algorithmInfo" and direct: "ao_SyncProcess direct = plugin"
    and run: "slice_loop m direct img n off out s p = Some y" and ci: "is_clientInfo s = ci" and w: "world w p"
  shows "\<exists>w'. slice_loop m aie img n off out s w = Some (fst y, fst (snd y), fst (snd (snd y)), w') \<and> world w' (snd (snd (snd y)))"
proof -
  let ?P = "\<lambda>m d img n off out s p y. sound_env m \<longrightarrow> ao_SyncProcess d = plugin \<longrightarrow> is_clientInfo s = ci \<longrightarrow> (\<forall>w. world w p \<longrightarrow>
    (\<exists>w'. slice_loop m aie img n off out s w = Some (fst y, fst (snd y), fst (snd (snd y)), w') \<and> world w' (snd (snd (snd y)))))"
  have "?P m direct img n off out s p y"
  proof (rule slice_loop.raw_induct [where P = ?P, OF _ run], intro impI allI)
    fix loop m d img n off out s p y w
    assume IH: "\<And>m d img n off out s p y. loop m d img n off out s p = Some y \<Longrightarrow> ?P m d img n off out s p y"
      and body: "(if \<not> off < n then Some (0, out, s, p)
        else let k = min (n - off) 25600 in
          mem_read off k img \<bind> (\<lambda>bs. ProcessEncode m empty_DataInfo (slice_params (is_icHandle s) off bs) \<bind> (\<lambda>(r, inp).
            if r \<noteq> 0 then Some (2001, empty_DataInfo, ic_notify (OnError 2001) s, p)
            else ao_SyncProcess d (is_clientInfo s) ic_algorithmInfo inp empty_DataInfo p \<bind> (\<lambda>(r2, out1, p1).
              if r2 \<noteq> 0 then Some (- 1, out1, ic_notify (OnError (- 1)) s, p1)
              else loop m d img n ((off + k) mod 2 ^ 32) out1 s p1)))) = Some y"
      and h: "sound_env m" "ao_SyncProcess d = plugin" "is_clientInfo s = ci" "world w p"
    show "\<exists>w'. slice_loop m aie img n off out s w = Some (fst y, fst (snd y), fst (snd (snd y)), w') \<and> world w' (snd (snd (snd y)))"
    proof (cases "off < n")
      case False
      then show ?thesis using body h(4) by (subst slice_loop.simps) auto
    next
      case True
      define k where "k = min (n - off) 25600"
      obtain bs where bs: "mem_read off k img = Some bs" using body True by (auto simp: k_def Let_def split: bind_splits)
      have len: "bs \<noteq> []" "length bs \<le> 25600" using bs True by (auto simp: mem_read_def k_def split: if_splits)
      obtain r inp where enc: "ProcessEncode m empty_DataInfo (slice_params (is_icHandle s) off bs) = Some (r, inp)"
        using body True bs by (auto simp: k_def [symmetric] Let_def split: bind_splits)
      note loop = slice_loop.simps [of m aie img n off out s w, folded k_def, unfolded Let_def]
      show ?thesis
      proof (cases "r = RETCODE_SUCCESS")
        case False
        then show ?thesis using body True bs enc h(4) unfolding loop by (auto simp: k_def [symmetric] Let_def)
      next
        case ok: True
        then have inp: "data_ok inp" using slice_data_ok [OF h(1) _ len] enc by simp
        obtain r2 out1 p1 where f: "plugin ci ai inp empty_DataInfo p = Some (r2, out1, p1)"
          using body True bs enc ok h(2,3) alg by (auto simp: k_def [symmetric] Let_def split: bind_splits)
        obtain w1 where w1: "ao_SyncProcess aie ci ai inp empty_DataInfo w = Some (r2, out1, w1)" "world w1 p1"
          using served [OF h(4) inp f] by blast
        show ?thesis
          using body True bs enc ok h f w1 alg IH [of m d img n "(off + k) mod 2 ^ 32" out1 s p1 y] unfolding loop
          by (auto simp: k_def [symmetric] Let_def)
      qed
    qed
  qed
  then show ?thesis using m direct ci w by blast
qed

lemma SyncExecute_served:
  assumes "sound_env m" and "ai = ic_algorithmInfo" and "ao_SyncProcess direct = plugin"
    and run: "IcSdk_SyncExecute m direct input s p = Some (rc, s', p')" and "is_clientInfo s = ci" and w: "world w p"
  shows "\<exists>w'. IcSdk_SyncExecute m aie input s w = Some (rc, s', w') \<and> world w' p'"
proof -
  obtain r out s1 p1 where o: "OnSyncExecute m direct input empty_DataInfo s p = Some (r, out, s1, p1)"
    using run by (auto simp: IcSdk_SyncExecute_def split: bind_splits)
  have "\<exists>w1. OnSyncExecute m aie input empty_DataInfo s w = Some (r, out, s1, w1) \<and> world w1 p1"
    using o w slice_loop_served [OF assms(1-3) _ assms(5) w]
    by (fastforce simp: OnSyncExecute_def split: option.splits if_splits)
  then show ?thesis
    using run o by (fastforce simp: IcSdk_SyncExecute_def split: if_splits bind_splits list.splits param.splits)
qed

end

section \<open>An image through the whole system\<close>

text \<open>
  An image of exactly the model's size goes through both processes in slices; the callback is called
  once, with the labels of the highest scores, and both processes are ready for the next image.
\<close>

lemma ic_image_through_service:
  assumes hp: "heap_laws (ice_heap e)" "ice_response e"
    and mem: "ic_memory lim (pc_inputSize c) m" "ic_memory lim (pc_inputSize c) (ice_mem e)" "25628 \<le> lim" "int lim \<le> INT_MAX"
    and hnd: "is_icHandle s = h" "intptr h" "sm_find (ip_handles p) h = Some c" "ip_adapter p = Some a"
    and img: "length img = pc_inputSize c" "0 < pc_inputSize c" "pc_inputSize c < 2 ^ 31"
    and eng: "ic_engine (ice_engine e) c input_of" "ic_model (ice_engine e) c h input_of img res" "length (input_of a) = pc_inputSize c"
    and c: "pc_outputAddr c \<noteq> 0" "24 + 8 * pc_outputSize c \<le> lim"
    and plugin: "ic_operations e (sk_ops sk)" "ic_sendable p"
    and ready: "stack_ready sk items cap size0 (is_clientInfo s) ic_algorithmInfo w p"
  shows "\<exists>r a' w'. IcSdk_SyncExecute m (aie_client (sk_env sk) rounds) \<lparr>ic_data = Some img, ic_size = length img\<rparr> s w =
      Some (IC_RETCODE_SUCCESS, ic_notify (OnResult (ic_result r)) s, w') \<and>
    best_items (scores_of c res) (min (pc_outputSize c) (ic_maxOutputSize c)) (ic_maxOutputSize c) r \<and>
    sorted_wrt (\<lambda>x y. snd x \<ge> snd y) r \<and>
    stack_ready sk items cap size0 (is_clientInfo s) ic_algorithmInfo w' (p\<lparr>ip_adapter := Some a'\<rparr>)"
proof -
  have sound: "sound_env m" "sound_env (ice_mem e)" using mem(1,2) by (simp_all add: ic_memory_def)
  have c': "0 < pc_outputSize c" "ic_maxOutputSize c < 2 ^ 31" using plugin(2) hnd(3) by (auto simp: ic_sendable_def)
  obtain direct :: "'a ICPlugin aie_ops" where d: "ao_SyncProcess direct = plugin_sync e" by (metis aie_ops.select_convs(3))
  obtain r a' where run: "IcSdk_SyncExecute m direct \<lparr>ic_data = Some img, ic_size = length img\<rparr> s p =
      Some (IC_RETCODE_SUCCESS, ic_notify (OnResult (ic_result r)) s, p\<lparr>ip_adapter := Some a'\<rparr>)"
      and r: "best_items (scores_of c res) (min (pc_outputSize c) (ic_maxOutputSize c)) (ic_maxOutputSize c) r"
        "sorted_wrt (\<lambda>x y. snd x \<ge> snd y) r"
    using ic_image_classified [OF d hp mem hnd img eng c(1) c'(1,2) c(2)] by blast
  have w: "stack_world sk items cap size0 (plugin_sync e) ic_sendable (is_clientInfo s) ic_algorithmInfo w p"
    using ready plugin ic_plugin_does [OF hp(1) sound(2) plugin(1)] by (simp add: stack_world_def)
  from aie.SyncExecute_served [OF sound(1) refl d run refl w, of rounds] show ?thesis
    using r unfolding stack_world_def by blast
qed

end
