(* ===== verification/IcStart.thy ===== *)
theory IcStart
  imports Opening IcStack
begin

text \<open>
  Image classification from the start: the SDK's \<open>Create\<close> connects the process, has the plugin loaded
  and prepared, and gets a handle; then an image of the application is classified.
\<close>

section \<open>The plugin prepares\<close>

text \<open>The plugin knows the handle it gave out, with its configuration, and the engine is in state \<open>a\<close>.\<close>

definition ic_prepared :: "int \<Rightarrow> ICPluginConfig \<Rightarrow> 'a \<Rightarrow> DataInfo \<Rightarrow> 'a ICPlugin \<Rightarrow> bool" where
  "ic_prepared h c a out p \<longleftrightarrow>
     out = handle_block h \<and> sm_find (ip_handles p) h = Some c \<and> ip_adapter p = Some a \<and> ic_sendable p"

text \<open>
  The engine loads the model under a handle that is not in use, with the blocks of \<open>c\<close>; the plugin
  will report five labels at most.
\<close>

definition ic_loads :: "'a ienv \<Rightarrow> int \<Rightarrow> ICPluginConfig \<Rightarrow> 'a ICPlugin \<Rightarrow> 'a \<Rightarrow> bool" where
  "ic_loads e h c p a \<longleftrightarrow> sm_find (ip_handles p) h = None \<and> ic_sendable p \<and>
     (\<exists>a0. (case ip_adapter p of None \<Rightarrow> ice_nnie e | Some a \<Rightarrow> Some a) = Some a0 \<and>
        ea_Init (ice_engine e) IC_MODEL_PATH a0 = (RETCODE_SUCCESS, h, a)) \<and>
     ea_GetInputAddr (ice_engine e) h MODEL_INPUT_NODE_ID a = (RETCODE_SUCCESS, pc_inputAddr c, pc_inputSize c) \<and>
     ea_GetOutputAddr (ice_engine e) h MODEL_OUTPUT_NODE_ID a = (RETCODE_SUCCESS, pc_outputAddr c, ic_maxOutputSize c) \<and>
     pc_outputSize c = DEFAULT_OUTPUT_SIZE \<and> ic_maxOutputSize c < 2 ^ 31"

lemma IC_Prepare_ready:
  assumes env: "sound_env (ice_mem e)" "roomy_env (room 16) (ice_mem e)" and l: "ic_loads e h c p a"
  shows "\<exists>p'. IC_Prepare e config0 t inp empty_DataInfo p = Some (RETCODE_SUCCESS, handle_block h, p') \<and> ic_prepared h c a (handle_block h) p'"
proof -
  obtain a0 where a: "(case ip_adapter p of None \<Rightarrow> ice_nnie e | Some a \<Rightarrow> Some a) = Some a0"
      "ea_Init (ice_engine e) IC_MODEL_PATH a0 = (RETCODE_SUCCESS, h, a)"
    using l by (auto simp: ic_loads_def)
  have c: "c = config0\<lparr>pc_inputAddr := pc_inputAddr c, pc_inputSize := pc_inputSize c, pc_outputAddr := pc_outputAddr c,
      ic_maxOutputSize := ic_maxOutputSize c, pc_outputSize := 5\<rparr>"
    using l by (simp add: ic_loads_def)
  have b: "IC_BuildConfig (ice_engine e) h a config0 = (RETCODE_SUCCESS, c)"
    using l by (subst c) (simp add: IC_BuildConfig_def ic_loads_def)
  let ?p' = "p\<lparr>ip_adapter := Some a, ip_handles := sm_put h c (ip_handles p)\<rparr>"
  have "IC_Prepare e config0 t inp empty_DataInfo p = Some (RETCODE_SUCCESS, handle_block h, ?p')"
    using a b l handle_block_encoded [OF env] by (simp add: IC_Prepare_def ic_loads_def)
  moreover have "ic_prepared h c a (handle_block h) ?p'"
    using l by (auto simp: ic_prepared_def ic_loads_def ic_sendable_def sm_find_put)
  ultimately show ?thesis by blast
qed

lemma ic_prepares:
  assumes "sound_env (ice_mem e)" and "roomy_env (room 16) (ice_mem e)" and "ic_loads e h c p a"
  shows "prepares (IC_plugin e config0) inp p (ic_prepared h c a)"
proof -
  have "\<exists>out p'. po_Prepare (IC_plugin e config0) t inp empty_DataInfo p = (RETCODE_SUCCESS, out, p') \<and> data_ok out \<and>
      ic_prepared h c a out p'" for t
  proof -
    obtain p' where "IC_Prepare e config0 t inp empty_DataInfo p = Some (RETCODE_SUCCESS, handle_block h, p')"
        "ic_prepared h c a (handle_block h) p'"
      using IC_Prepare_ready [OF assms] by blast
    then show ?thesis using handle_block_ok [of h] by (simp add: IC_plugin_def defined_def)
  qed
  then show ?thesis by (simp add: prepares_def)
qed

section \<open>The SDK\<close>

lemma ic_created:
  assumes new: "is_icHandle s = INVALID_IC_HANDLE" "is_clientInfo s = ci" and mem: "roomy_env 16 m" and h: "intptr h"
    and o: "stack_offered sk items cap size0 rounds ci ic_algorithmInfo w"
    and p: "prepares (sk_ops sk) empty_DataInfo (ex_algs (sv_exec (fst (snd w))) (sk_plugin sk)) (ic_prepared h c a)"
  shows "\<exists>ci' w1 p. IcSdk_Create m (aie_client (sk_env sk) rounds) s w =
      Some (IC_RETCODE_SUCCESS, s\<lparr>is_clientInfo := ci', is_icHandle := h\<rparr>, w1) \<and>
    stack_ready sk items cap size0 ci' ic_algorithmInfo w1 p \<and> ic_prepared h c a (handle_block h) p"
proof -
  let ?aie = "aie_client (sk_env sk) rounds"
  obtain ci' w1 out w2 p where r: "ao_Init ?aie ''Ic config description'' ci ic_algorithmInfo w = Some (RETCODE_SUCCESS, ci', w1)"
      "ci_clientId ci' \<noteq> INVALID_CLIENT_ID"
      "ao_Prepare ?aie ci' ic_algorithmInfo empty_DataInfo empty_DataInfo w1 = Some (RETCODE_SUCCESS, out, w2)"
      "ic_prepared h c a out p" "stack_ready sk items cap size0 ci' ic_algorithmInfo w2 p"
    using stack_opens [OF o p, of "''Ic config description''"] by blast
  have "out = handle_block h" using r(4) by (simp add: ic_prepared_def)
  then show ?thesis
    using new r handle_block_decoded [OF mem, of h] handle_read_decoded [OF h, of _ "[]"]
    by (intro exI [of _ ci'] exI [of _ w2] exI [of _ p]) (simp add: IcSdk_Create_def Let_def)
qed

text \<open>C39. An image is classified from nothing, through the whole system: in a process without a session an
  application creates the SDK's object, sets its callback and executes it on an image of exactly the
  model's size. Creating connects the process, has the plugin loaded into an engine and prepared, and
  takes the handle of the model it loaded. The SDK cuts the image into slices of at most 25600
  bytes; each is encoded, parcelled by the client's proxy into a message - in shared memory, when it
  has 200 bytes or more -, unparcelled by the service, put as a task into the engine's queue, taken
  out by the engine's worker and written by the plugin into the model's input, while the
  application's thread waits for the response on its way back. The last slice runs the model, and
  the callback is called once, with the labels of the highest scores the model gives the image, in
  descending order, followed by these scores: five, or as many as the model has, none twice, and no
  score left out higher than one reported. Both calls return success, and both processes are ready
  for the next image. Provided the IPC library, the engine and the heap algorithms do what they
  document, allocation and the system calls succeed and the messages fit.\<close>

theorem ic_image_from_start:
  assumes hp: "heap_laws (ice_heap e)" "ice_response e"
    and mem: "ic_memory lim (pc_inputSize c) m" "ic_memory lim (pc_inputSize c) (ice_mem e)" "25628 \<le> lim" "int lim \<le> INT_MAX"
    and img: "length img = pc_inputSize c" "0 < pc_inputSize c" "pc_inputSize c < 2 ^ 31"
    and eng: "ic_engine (ice_engine e) c input_of" "ic_model (ice_engine e) c h input_of img res" "length (input_of a) = pc_inputSize c"
      "pc_outputAddr c \<noteq> 0"
    and plugin: "sk_ops sk = IC_plugin e config0" "ic_loads e h c (ex_algs (sv_exec (fst (snd w))) (sk_plugin sk)) a" "intptr h"
    and start: "stack_offered sk items cap size0 rounds (fresh_ClientInfo CLIENT_VERSION_IC) ic_algorithmInfo w"
  shows "\<exists>s1 w1 s2 r w2 p. IcSdk_Create m (aie_client (sk_env sk) rounds) IcSdk_new w = Some (IC_RETCODE_SUCCESS, s1, w1) \<and>
    IcSdk_SyncExecute m (aie_client (sk_env sk) rounds) \<lparr>ic_data = Some img, ic_size = length img\<rparr> (snd (IcSdk_SetCallback True s1)) w1 =
      Some (IC_RETCODE_SUCCESS, s2, w2) \<and>
    is_events s2 = [OnResult (ic_result r)] \<and>
    best_items (scores_of c res) (min DEFAULT_OUTPUT_SIZE (ic_maxOutputSize c)) (ic_maxOutputSize c) r \<and>
    sorted_wrt (\<lambda>x y. snd x \<ge> snd y) r \<and>
    stack_ready sk items cap size0 (is_clientInfo s2) ic_algorithmInfo w2 p"
proof -
  have sound: "sound_env (ice_mem e)" "roomy_env (room 16) (ice_mem e)" "roomy_env 16 m"
    using mem(1-3) by (auto simp: ic_memory_def roomy_env_def room_def)
  have new: "is_icHandle IcSdk_new = INVALID_IC_HANDLE" "is_clientInfo IcSdk_new = fresh_ClientInfo CLIENT_VERSION_IC"
    by (simp_all add: IcSdk_new_def)
  have good: "prepares (sk_ops sk) empty_DataInfo (ex_algs (sv_exec (fst (snd w))) (sk_plugin sk)) (ic_prepared h c a)"
    unfolding plugin(1) by (rule ic_prepares [OF sound(1,2) plugin(2)])
  obtain ci w1 p where create: "IcSdk_Create m (aie_client (sk_env sk) rounds) IcSdk_new w =
        Some (IC_RETCODE_SUCCESS, IcSdk_new\<lparr>is_clientInfo := ci, is_icHandle := h\<rparr>, w1)"
      "stack_ready sk items cap size0 ci ic_algorithmInfo w1 p" "ic_prepared h c a (handle_block h) p"
    using ic_created [OF new sound(3) plugin(3) start good] by blast
  have p: "sm_find (ip_handles p) h = Some c" "ip_adapter p = Some a" "ic_sendable p" using create(3) by (simp_all add: ic_prepared_def)
  have c: "pc_outputSize c = 5" "24 + 8 * pc_outputSize c \<le> lim" using plugin(2) mem(3) by (simp_all add: ic_loads_def)
  define s where "s = IcSdk_new\<lparr>is_clientInfo := ci, is_icHandle := h, is_callback := True\<rparr>"
  have s: "is_icHandle s = h" "is_clientInfo s = ci" "snd (IcSdk_SetCallback True (IcSdk_new\<lparr>is_clientInfo := ci, is_icHandle := h\<rparr>)) = s"
      "is_callback s" "is_events s = []"
    by (simp_all add: s_def IcSdk_SetCallback_def IcSdk_new_def)
  have ops: "ic_operations e (sk_ops sk)" unfolding plugin(1) by (rule IC_plugin_operations)
  obtain r a' w2 where run: "IcSdk_SyncExecute m (aie_client (sk_env sk) rounds) \<lparr>ic_data = Some img, ic_size = length img\<rparr> s w1 =
        Some (IC_RETCODE_SUCCESS, ic_notify (OnResult (ic_result r)) s, w2)"
      "best_items (scores_of c res) (min (pc_outputSize c) (ic_maxOutputSize c)) (ic_maxOutputSize c) r"
      "sorted_wrt (\<lambda>x y. snd x \<ge> snd y) r"
      "stack_ready sk items cap size0 ci ic_algorithmInfo w2 (p\<lparr>ip_adapter := Some a'\<rparr>)"
    using ic_image_through_service [OF hp mem s(1) plugin(3) p(1,2) img eng(1-3) eng(4) c(2) ops p(3) create(2) [folded s(2)], of rounds]
    unfolding s(2) by blast
  have "is_events (ic_notify (OnResult (ic_result r)) s) = [OnResult (ic_result r)]" "is_clientInfo (ic_notify (OnResult (ic_result r)) s) = ci"
    using s by (simp_all add: ic_notify_def notify_def)
  then show ?thesis using create(1) run s(3) c(1) by (intro exI conjI) (assumption | simp)+
qed

section \<open>An example\<close>

text \<open>The two processes at their start, around the plugin whose model gives each byte as a score.\<close>

definition two_bytes :: "byte list ienv" where
  "two_bytes = demo_ienv\<lparr>ice_nnie := Some [0, 0]\<rparr>"

definition ic_stack :: "(io_item list, byte list ICPlugin) stack" where
  "ic_stack = starting_stack (IC_plugin two_bytes
     \<lparr>pc_inputSize = 0, pc_outputSize = 0, pc_inputAddr = 0, pc_outputAddr = 0, ic_maxOutputSize = 0\<rparr>)"

theorem ic_image_from_start_witness:
  "\<exists>s1 w1 s2 r w2. IcSdk_Create copying_env (aie_client (sk_env ic_stack) [1]) IcSdk_new (starting_world ICPlugin_new) =
      Some (IC_RETCODE_SUCCESS, s1, w1) \<and>
    IcSdk_SyncExecute copying_env (aie_client (sk_env ic_stack) [1]) \<lparr>ic_data = Some [5, 9], ic_size = 2\<rparr> (snd (IcSdk_SetCallback True s1)) w1 =
      Some (IC_RETCODE_SUCCESS, s2, w2) \<and>
    is_events s2 = [OnResult (ic_result r)] \<and> best_items [5, 9] 2 2 r"
proof -
  let ?c = "\<lparr>pc_inputSize = 2, pc_outputSize = 5, pc_inputAddr = 64, pc_outputAddr = 128, ic_maxOutputSize = 2\<rparr> :: ICPluginConfig"
  let ?config0 = "\<lparr>pc_inputSize = 0, pc_outputSize = 0, pc_inputAddr = 0, pc_outputAddr = 0, ic_maxOutputSize = 0\<rparr> :: ICPluginConfig"
  let ?res = "[5, 0, 0, 0, 9, 0, 0, 0] :: byte list"
  let ?w = "starting_world ICPlugin_new :: (io_item list, byte list ICPlugin server) client \<times> byte list ICPlugin server \<times> shmsys"
  have two: "length [5, 9 :: byte] = 2" "[0..<2] = [0, 1 :: nat]" by (simp_all add: upt_rec)
  have sc: "scores_of ?c ?res = [5, 9]"
    by (simp add: scores_of_def elements_def two bytes_int32_def swrap_def)
  have e: "heap_laws (ice_heap two_bytes)" "ice_response two_bytes"
      "ic_memory 30000 (pc_inputSize ?c) copying_env" "ic_memory 30000 (pc_inputSize ?c) (ice_mem two_bytes)"
    using sorting_heap_laws by (simp_all add: two_bytes_def demo_ienv_def)
  have g: "ic_engine (ice_engine two_bytes) ?c (\<lambda>a. a)" "ic_model (ice_engine two_bytes) ?c 7 (\<lambda>a. a) [5, 9] ?res"
    by (simp_all add: ic_engine_def ic_model_def two_bytes_def demo_ienv_def byte_engine_def)
  have p: "sk_ops ic_stack = IC_plugin two_bytes ?config0" "intptr 7" by (simp_all add: ic_stack_def starting_stack_def intptr_def)
  have l: "ic_loads two_bytes 7 ?c (ex_algs (sv_exec (fst (snd ?w))) (sk_plugin ic_stack)) [0, 0]"
    by (simp add: ic_loads_def starting_world_def server_init_def exec_init_def ICPlugin_new_def two_bytes_def demo_ienv_def byte_engine_def
        ic_sendable_def)
  have s: "stack_offered ic_stack (\<lambda>io. io) (\<lambda>io. 100 - length io) (\<lambda>_. 1) [1] (fresh_ClientInfo CLIENT_VERSION_IC) ic_algorithmInfo ?w"
    unfolding ic_stack_def
    by (rule starting_offered) (simp_all add: served_algorithms_def fresh_ClientInfo_def ic_algorithmInfo_def sync_AlgorithmInfo_def IC_plugin_def
        IC_GetInferMode_def GetAlgorithmIdByType_def ALGORITHM_TYPE_ID_LIST_def)
  have m: "25628 \<le> (30000 :: nat)" "int 30000 \<le> INT_MAX" "0 < pc_inputSize ?c" "pc_inputSize ?c < 2 ^ 31" "length [5, 9 :: byte] = pc_inputSize ?c"
      "length [0, 0 :: byte] = pc_inputSize ?c" "pc_outputAddr ?c \<noteq> 0"
    by simp_all
  obtain s1 w1 s2 r w2 where "IcSdk_Create copying_env (aie_client (sk_env ic_stack) [1]) IcSdk_new ?w = Some (IC_RETCODE_SUCCESS, s1, w1)"
      "IcSdk_SyncExecute copying_env (aie_client (sk_env ic_stack) [1]) \<lparr>ic_data = Some [5, 9], ic_size = length [5, 9 :: byte]\<rparr>
        (snd (IcSdk_SetCallback True s1)) w1 = Some (IC_RETCODE_SUCCESS, s2, w2)"
      "is_events s2 = [OnResult (ic_result r)]"
      "best_items (scores_of ?c ?res) (min DEFAULT_OUTPUT_SIZE (ic_maxOutputSize ?c)) (ic_maxOutputSize ?c) r"
    using ic_image_from_start [OF e m(1,2) m(5,3,4) g m(6,7) p(1) l p(2) s] by blast
  then show ?thesis unfolding two sc by (intro exI [of _ s1] exI [of _ w1] exI [of _ s2] exI [of _ r] exI [of _ w2]) simp
qed

end
