(* ===== verification/PcmIterator.thy ===== *)
theory PcmIterator
  imports Feature
begin

text \<open>
  The iterator with which the keyword spotting SDK cuts the sound of its caller into overlapping
  windows (algorithm_sdk/asr/keyword_spotting/source/pcm_iterator.cpp). The samples come in
  arrays of any length; a window that ends in a later array is assembled in a cache. Windows are
  returned as pointers into the cache or into the caller's array, and read through
  \<open>pcm_read\<close>. An access outside of a block, a read of samples that were never written and a copy
  between overlapping blocks are undefined, \<open>None\<close>.
\<close>

section \<open>The iterator\<close>

abbreviation (input) MAX_CACHE_SIZE :: int where "MAX_CACHE_SIZE \<equiv> 16384"

text \<open>\<open>size_t\<close> arithmetic and the conversion to \<open>int32_t\<close>.\<close>

definition sz_add :: "nat \<Rightarrow> nat \<Rightarrow> nat" where "sz_add a b = (a + b) mod SZ"
definition sz_sub :: "nat \<Rightarrow> nat \<Rightarrow> nat" where "sz_sub a b = (a + (SZ - b mod SZ)) mod SZ"
definition sz_mul :: "nat \<Rightarrow> nat \<Rightarrow> nat" where "sz_mul a b = a * b mod SZ"
definition to_int32 :: "nat \<Rightarrow> int" where "to_int32 n = swrap 32 (int n)"
definition of_int32 :: "int \<Rightarrow> nat" where "of_int32 i = nat (i mod 2 ^ 64)"

datatype pcm_ptr = PNull | PCache nat | PInput "int list" nat

fun pcm_plus :: "pcm_ptr \<Rightarrow> nat \<Rightarrow> pcm_ptr" where
  "pcm_plus PNull n = PNull"
| "pcm_plus (PCache k) n = PCache (k + n)"
| "pcm_plus (PInput xs k) n = PInput xs (k + n)"

record pcm_array =
  pa_data :: pcm_ptr
  pa_size :: nat

definition pcm_empty :: pcm_array where
  "pcm_empty = \<lparr>pa_data = PNull, pa_size = 0\<rparr>"

text \<open>\<open>pi_cache\<close> is \<open>pcmCache_.data\<close>, the block; a cell is \<open>None\<close> until it is written.\<close>

record PCMIterator =
  pi_stepSize :: nat
  pi_windowSize :: nat
  pi_numCopy :: nat
  pi_numRealCopy :: nat
  pi_nextCachePos :: nat
  pi_maxCacheSize :: int
  pi_isInitialized :: bool
  pi_hasNext :: bool
  pi_cache :: "int option list option"
  pi_cacheSize :: nat
  pi_pcmData :: pcm_array

definition PCMIterator_new :: PCMIterator where
  "PCMIterator_new =
     \<lparr>pi_stepSize = 1, pi_windowSize = 1, pi_numCopy = 0, pi_numRealCopy = 0, pi_nextCachePos = 0, pi_maxCacheSize = 0,
      pi_isInitialized = False, pi_hasNext = False, pi_cache = None, pi_cacheSize = 0, pi_pcmData = pcm_empty\<rparr>"

definition PCM_Init :: "cenv \<Rightarrow> nat \<Rightarrow> nat \<Rightarrow> PCMIterator \<Rightarrow> retcode \<times> PCMIterator" where
  "PCM_Init e stepSize windowSize it =
     (if pi_isInitialized it then (RETCODE_FAILURE, it)
      else if stepSize = 0 \<or> windowSize = 0 then (RETCODE_FAILURE, it)
      else if windowSize < stepSize then (RETCODE_FAILURE, it)
      else
        (let maxNumRemain = sz_sub windowSize 1;
             maxNumSlide = sz_sub maxNumRemain 1 div stepSize;
             m = to_int32 (sz_add (sz_mul maxNumSlide stepSize) windowSize);
             it1 = it\<lparr>pi_stepSize := stepSize, pi_windowSize := windowSize, pi_maxCacheSize := m\<rparr> in
         if m > MAX_CACHE_SIZE then (RETCODE_FAILURE, it1)
         else if m < 0 \<or> new_bytes e (nat m * 2) = None then (RETCODE_OUT_OF_MEMORY, it1\<lparr>pi_cache := None\<rparr>)
         else (RETCODE_SUCCESS, it1\<lparr>pi_cache := Some (replicate (nat m) None), pi_isInitialized := True\<rparr>)))"

definition PCM_Reset :: "PCMIterator \<Rightarrow> PCMIterator" where
  "PCM_Reset it =
     it\<lparr>pi_numCopy := 0, pi_numRealCopy := 0, pi_nextCachePos := 0, pi_cache := None, pi_cacheSize := 0,
        pi_pcmData := pcm_empty, pi_hasNext := False\<rparr>"

definition PCM_Release :: "PCMIterator \<Rightarrow> PCMIterator" where
  "PCM_Release it =
     (if pi_isInitialized it then (PCM_Reset (it\<lparr>pi_cache := None\<rparr>))\<lparr>pi_isInitialized := False\<rparr> else it)"

section \<open>Copies into the cache\<close>

definition cells_at :: "nat \<Rightarrow> nat \<Rightarrow> 'a list \<Rightarrow> 'a list option" where
  "cells_at k n xs = (if k + n \<le> length xs then Some (take n (drop k xs)) else None)"

definition cells_put :: "nat \<Rightarrow> 'a list \<Rightarrow> 'a list \<Rightarrow> 'a list option" where
  "cells_put k ys xs = (if k + length ys \<le> length xs then Some (take k xs @ ys @ drop (k + length ys) xs) else None)"

fun pcm_cells :: "pcm_ptr \<Rightarrow> nat \<Rightarrow> PCMIterator \<Rightarrow> int option list option" where
  "pcm_cells PNull n it = None"
| "pcm_cells (PCache k) n it = pi_cache it \<bind> cells_at k n"
| "pcm_cells (PInput xs k) n it = cells_at k n (map Some xs)"

fun overlaps :: "nat \<Rightarrow> pcm_ptr \<Rightarrow> nat \<Rightarrow> bool" where
  "overlaps k (PCache j) n \<longleftrightarrow> k < j + n \<and> j < k + n"
| "overlaps k _ n \<longleftrightarrow> False"

text \<open>
  \<open>memcpy_s(pcmCache_.data + pos, destSize * sizeof(int16_t), src, n * sizeof(int16_t))\<close>: whether it
  returned \<open>EOK\<close>, which it does not for the null pointer.
\<close>

definition cache_copy :: "cenv \<Rightarrow> nat \<Rightarrow> nat \<Rightarrow> pcm_ptr \<Rightarrow> nat \<Rightarrow> PCMIterator \<Rightarrow> (bool \<times> PCMIterator) option" where
  "cache_copy e pos destSize src n it =
     (case pi_cache it of
        None \<Rightarrow> Some (False, it)
      | Some m \<Rightarrow>
          if \<not> memcpy_eok e (sz_mul destSize 2) (sz_mul n 2) then Some (False, it)
          else if overlaps pos src n then None
          else do {
            cells \<leftarrow> pcm_cells src n it;
            m' \<leftarrow> cells_put pos cells m;
            Some (True, it\<lparr>pi_cache := Some m'\<rparr>)
          })"

definition MoveDataToCache :: "cenv \<Rightarrow> pcm_array \<Rightarrow> PCMIterator \<Rightarrow> (retcode \<times> PCMIterator) option" where
  "MoveDataToCache e input it =
     do {
       (ok, it1) \<leftarrow> cache_copy e 0 (of_int32 (pi_maxCacheSize it)) (pa_data input) (pa_size input) it;
       if \<not> ok then Some (RETCODE_MEMORY_COPY_FAILURE, it1)
       else
         (let numSlide = sz_sub (pa_size input) 1 div pi_stepSize it1 in
          Some (RETCODE_SUCCESS, it1\<lparr>pi_cacheSize := pa_size input, pi_nextCachePos := 0,
            pi_numCopy := sz_sub (sz_add (sz_mul numSlide (pi_stepSize it1)) (pi_windowSize it1)) (pa_size input)\<rparr>))
     }"

text \<open>The part of \<open>Prepare\<close> behind \<open>update hasNext_\<close>.\<close>

definition update_hasNext :: "cenv \<Rightarrow> PCMIterator \<Rightarrow> (retcode \<times> PCMIterator) option" where
  "update_hasNext e it =
     (if pi_windowSize it \<le> pi_cacheSize it \<or> pi_windowSize it \<le> pa_size (pi_pcmData it)
      then Some (RETCODE_SUCCESS, it\<lparr>pi_hasNext := True\<rparr>)
      else if pi_cacheSize it = 0 \<and> 0 < pa_size (pi_pcmData it) \<and> pa_size (pi_pcmData it) < pi_windowSize it
      then MoveDataToCache e (pi_pcmData it) it
      else Some (RETCODE_SUCCESS, it))"

definition PCM_Prepare :: "cenv \<Rightarrow> pcm_array \<Rightarrow> PCMIterator \<Rightarrow> (retcode \<times> PCMIterator) option" where
  "PCM_Prepare e input it =
     (if pi_numCopy it > 0 then
        (let real = (if pi_numCopy it > pa_size input then pa_size input else pi_numCopy it);
             realCacheSize = sz_add (pi_nextCachePos it) (pi_cacheSize it) in
         do {
           (ok, it1) \<leftarrow> cache_copy e realCacheSize (sz_sub (of_int32 (pi_maxCacheSize it)) realCacheSize) (pa_data input) real
             (it\<lparr>pi_numRealCopy := real\<rparr>);
           if \<not> ok then Some (RETCODE_MEMORY_COPY_FAILURE, it1)
           else
             (let it2 = it1\<lparr>pi_cacheSize := sz_add (pi_cacheSize it1) real, pi_numCopy := pi_numCopy it1 - real\<rparr>;
                  diff = to_int32 (sz_add (sz_sub real (pi_windowSize it2)) (pi_stepSize it2)) in
              update_hasNext e (it2\<lparr>pi_pcmData :=
                if pi_numCopy it2 = 0 then
                  (if diff > 0 then \<lparr>pa_data = pcm_plus (pa_data input) (nat diff), pa_size = sz_sub (pa_size input) (nat diff)\<rparr>
                   else input)
                else pcm_empty\<rparr>))
         })
      else update_hasNext e (it\<lparr>pi_numRealCopy := 0, pi_pcmData := input\<rparr>))"

section \<open>The operations\<close>

definition PCM_HasNext :: "cenv \<Rightarrow> PCMIterator \<Rightarrow> (bool \<times> PCMIterator) option" where
  "PCM_HasNext e it =
     (if pi_nextCachePos it > 0 \<and> pi_numCopy it = 0 \<and> pi_cacheSize it > 0 \<and> pi_cacheSize it < pi_windowSize it then
        do {
          (_, it1) \<leftarrow> MoveDataToCache e \<lparr>pa_data = PCache (pi_nextCachePos it), pa_size = pi_cacheSize it\<rparr> it;
          (_, it2) \<leftarrow> PCM_Prepare e (pi_pcmData it1) it1;
          Some (pi_hasNext it2, it2)
        }
      else if pi_cacheSize it = 0 \<and> pa_size (pi_pcmData it) > 0 \<and> pa_size (pi_pcmData it) < pi_windowSize it then
        do {
          (_, it1) \<leftarrow> MoveDataToCache e (pi_pcmData it) it;
          let it2 = it1\<lparr>pi_pcmData := (pi_pcmData it1)\<lparr>pa_size := 0\<rparr>\<rparr>;
          Some (pi_hasNext it2, it2)
        }
      else Some (pi_hasNext it, it))"

definition PCM_SetInput :: "cenv \<Rightarrow> int list option \<Rightarrow> PCMIterator \<Rightarrow> (retcode \<times> PCMIterator) option" where
  "PCM_SetInput e input it =
     (if \<not> pi_isInitialized it then Some (RETCODE_FAILURE, it)
      else do {
        (next, it1) \<leftarrow> PCM_HasNext e it;
        if next then Some (RETCODE_FAILURE, it1)
        else case input of
          None \<Rightarrow> Some (RETCODE_NULL_PARAM, it1)
        | Some xs \<Rightarrow>
            if xs = [] then Some (RETCODE_NULL_PARAM, it1)
            else PCM_Prepare e \<lparr>pa_data = PInput xs 0, pa_size = length xs\<rparr> it1
      })"

text \<open>\<open>Next\<close> behind its check: the window in the cache, or in the input.\<close>

definition window_out :: "PCMIterator \<Rightarrow> pcm_array \<times> PCMIterator" where
  "window_out it =
     (if pi_windowSize it \<le> pi_cacheSize it then
        (let it1 = it\<lparr>pi_nextCachePos := sz_add (pi_nextCachePos it) (pi_stepSize it),
                      pi_cacheSize := sz_sub (pi_cacheSize it) (pi_stepSize it)\<rparr>;
             diff = to_int32 (sz_sub (sz_sub (pi_windowSize it) (pi_stepSize it)) (pi_numRealCopy it)) in
         (\<lparr>pa_data = PCache (pi_nextCachePos it), pa_size = pi_windowSize it\<rparr>,
          if pi_numCopy it1 = 0 \<and> pi_cacheSize it1 < pi_windowSize it1
          then it1\<lparr>pi_cacheSize := if diff > 0 then nat diff else 0\<rparr> else it1))
      else if pi_windowSize it \<le> pa_size (pi_pcmData it) then
        (\<lparr>pa_data = pa_data (pi_pcmData it), pa_size = pi_windowSize it\<rparr>,
         it\<lparr>pi_pcmData := \<lparr>pa_data = pcm_plus (pa_data (pi_pcmData it)) (pi_stepSize it),
                            pa_size = sz_sub (pa_size (pi_pcmData it)) (pi_stepSize it)\<rparr>\<rparr>)
      else (pcm_empty, it))"

definition PCM_Next :: "cenv \<Rightarrow> PCMIterator \<Rightarrow> (pcm_array \<times> PCMIterator) option" where
  "PCM_Next e it =
     do {
       (next, it1) \<leftarrow> PCM_HasNext e it;
       if \<not> next then Some (pcm_empty, it1)
       else
         (let (output, it2) = window_out it1 in
          Some (output,
            if pi_cacheSize it2 < pi_windowSize it2 \<and> pa_size (pi_pcmData it2) < pi_windowSize it2
            then it2\<lparr>pi_hasNext := False\<rparr> else it2))
     }"

text \<open>The samples a caller reads through an array.\<close>

definition pcm_read :: "pcm_array \<Rightarrow> PCMIterator \<Rightarrow> int list option" where
  "pcm_read a it = do { cells \<leftarrow> pcm_cells (pa_data a) (pa_size a) it; those cells }"

end
