(* ===== verification/KwsSdk.thy ===== *)
theory KwsSdk
  imports SdkClient PcmIterator
begin

text \<open>
  The keyword spotting SDK (algorithm_sdk/asr/keyword_spotting): the sound of the caller is cut
  into windows, the features of each window go to the plugin, and each answer goes to the callback.
  The computation of the features (the MFCC processor) is not part of the repository and a
  parameter, with its state.
\<close>

section \<open>State and constants\<close>

abbreviation (input) INVALID_KWS_HANDLE :: int where "INVALID_KWS_HANDLE \<equiv> -1"
abbreviation (input) CLIENT_VERSION_KWS :: int where "CLIENT_VERSION_KWS \<equiv> 20001001"
abbreviation (input) ALGORITHM_TYPE_KWS :: int where "ALGORITHM_TYPE_KWS \<equiv> 2"
abbreviation (input) KWS_RETCODE_FAILURE :: int where "KWS_RETCODE_FAILURE \<equiv> -1"
abbreviation (input) KWS_RETCODE_SUCCESS :: int where "KWS_RETCODE_SUCCESS \<equiv> 0"
abbreviation (input) KWS_RETCODE_INIT_ERROR :: int where "KWS_RETCODE_INIT_ERROR \<equiv> 1001"
abbreviation (input) KWS_RETCODE_NULL_PARAM :: int where "KWS_RETCODE_NULL_PARAM \<equiv> 1002"
abbreviation (input) KWS_RETCODE_SERIALIZATION_ERROR :: int where "KWS_RETCODE_SERIALIZATION_ERROR \<equiv> 2001"
abbreviation (input) KWS_RETCODE_UNSERIALIZATION_ERROR :: int where "KWS_RETCODE_UNSERIALIZATION_ERROR \<equiv> 2002"
abbreviation (input) KWS_RETCODE_PLUGIN_EXECUTION_ERROR :: int where "KWS_RETCODE_PLUGIN_EXECUTION_ERROR \<equiv> 3001"
abbreviation (input) KWS_RETCODE_PLUGIN_SESSION_ERROR :: int where "KWS_RETCODE_PLUGIN_SESSION_ERROR \<equiv> 3002"

text \<open>The configuration of the MFCC processor; \<open>float\<close> literals in thousandths.\<close>

record MFCCConfig =
  mc_dataType :: DataType
  mc_enablePcanGain :: bool
  mc_enableLogScale :: bool
  mc_noiseSmoothingBits :: int
  mc_pcanGainBits :: int
  mc_logScaleShift :: int
  mc_windowSize :: nat
  mc_slideSize :: nat
  mc_sampleRate :: nat
  mc_featureSize :: nat
  mc_numChannels :: nat
  mc_filterbankLowerBandLimit :: int
  mc_filterbankUpperBandLimit :: int
  mc_noiseEvenSmoothing :: int
  mc_noiseOddSmoothing :: int
  mc_noiseMinSignalRemaining :: int
  mc_pcanGainStrength :: int
  mc_pcanGainOffset :: int

definition InitMFCCConfiguration :: MFCCConfig where
  "InitMFCCConfiguration =
     \<lparr>mc_dataType = UINT16, mc_enablePcanGain = True, mc_enableLogScale = True, mc_noiseSmoothingBits = 10,
      mc_pcanGainBits = 21, mc_logScaleShift = 6, mc_windowSize = 30 * 16000 div 1000, mc_slideSize = 20 * 16000 div 1000,
      mc_sampleRate = 16000, mc_featureSize = 400, mc_numChannels = 40, mc_filterbankLowerBandLimit = 125000,
      mc_filterbankUpperBandLimit = 7500000, mc_noiseEvenSmoothing = 25, mc_noiseOddSmoothing = 60,
      mc_noiseMinSignalRemaining = 50, mc_pcanGainStrength = 950, mc_pcanGainOffset = 80000\<rparr>"

text \<open>
  \<open>mf_Process\<close> takes the samples of a window and the output, and returns its code, the data of the
  output (\<open>uint16_t\<close> elements) and its size.
\<close>

record 'm mfcc_ops =
  mf_new :: "'m option"
  mf_Init :: "MFCCConfig \<Rightarrow> 'm \<Rightarrow> retcode \<times> 'm"
  mf_Process :: "int list \<Rightarrow> 'm \<Rightarrow> retcode \<times> arr \<times> 'm"

record 'm KWSSdkImpl =
  ks_callback :: bool
  ks_pcmIterator :: "PCMIterator option"
  ks_mfcc :: "'m option"
  ks_kwsHandle :: int
  ks_clientInfo :: ClientInfo
  ks_events :: "sdk_event list"

definition KWSSdkImpl_new :: "'m KWSSdkImpl" where
  "KWSSdkImpl_new =
     \<lparr>ks_callback = False, ks_pcmIterator = None, ks_mfcc = None, ks_kwsHandle = INVALID_KWS_HANDLE,
      ks_clientInfo = fresh_ClientInfo CLIENT_VERSION_KWS, ks_events = []\<rparr>"

definition kws_algorithmInfo :: AlgorithmInfo where
  "kws_algorithmInfo = sync_AlgorithmInfo CLIENT_VERSION_KWS ALGORITHM_TYPE_KWS 20001002"

text \<open>\<open>callback_->OnError(...)\<close> without a check: undefined when there is no callback.\<close>

definition kws_notify :: "sdk_event \<Rightarrow> 'm KWSSdkImpl \<Rightarrow> 'm KWSSdkImpl option" where
  "kws_notify ev s = (if ks_callback s then Some (s\<lparr>ks_events := ks_events s @ [ev]\<rparr>) else None)"

text \<open>The environment: the memory, the functions of the client, the MFCC processor, and whether \<open>new\<close> finds memory.\<close>

record ('w, 'm) senv =
  se_mem :: EncDec.cenv
  se_aie :: "'w aie_ops"
  se_mfcc :: "'m mfcc_ops"
  se_iterator :: bool

section \<open>Operations\<close>

definition KWS_SetCallback :: "bool \<Rightarrow> 'm KWSSdkImpl \<Rightarrow> int \<times> 'm KWSSdkImpl" where
  "KWS_SetCallback callback s =
     (if \<not> callback then (KWS_RETCODE_NULL_PARAM, s) else (KWS_RETCODE_SUCCESS, s\<lparr>ks_callback := True\<rparr>))"

definition KwsSdk_InitComponents :: "('w, 'm) senv \<Rightarrow> 'm KWSSdkImpl \<Rightarrow> int \<times> 'm KWSSdkImpl" where
  "KwsSdk_InitComponents e s =
     (let mfccConfig = InitMFCCConfiguration;
          s1 = s\<lparr>ks_mfcc := mf_new (se_mfcc e)\<rparr> in
      case mf_new (se_mfcc e) of
        None \<Rightarrow> (KWS_RETCODE_FAILURE, s1)
      | Some mf \<Rightarrow>
          (let (r, mf1) = mf_Init (se_mfcc e) mfccConfig mf;
               s2 = s1\<lparr>ks_mfcc := Some mf1\<rparr> in
           if r \<noteq> RETCODE_SUCCESS then (KWS_RETCODE_FAILURE, s2)
           else if \<not> se_iterator e then (KWS_RETCODE_FAILURE, s2\<lparr>ks_pcmIterator := None\<rparr>)
           else
             (let stepSize = sz_mul (400 div mc_numChannels mfccConfig) (mc_slideSize mfccConfig);
                  windowSize = sz_sub (sz_add stepSize (mc_windowSize mfccConfig)) (mc_slideSize mfccConfig);
                  (r2, it) = PCM_Init (se_mem e) stepSize windowSize PCMIterator_new;
                  s3 = s2\<lparr>ks_pcmIterator := Some it\<rparr> in
              if r2 \<noteq> RETCODE_SUCCESS then (KWS_RETCODE_FAILURE, s3) else (KWS_RETCODE_SUCCESS, s3))))"

definition KwsSdk_Create :: "('w, 'm) senv \<Rightarrow> 'm KWSSdkImpl \<Rightarrow> 'w \<Rightarrow> (int \<times> 'm KWSSdkImpl \<times> 'w) option" where
  "KwsSdk_Create e s w =
     (if ks_kwsHandle s \<noteq> INVALID_KWS_HANDLE then Some (KWS_RETCODE_INIT_ERROR, s, w)
      else
        (let (r0, s1) = KwsSdk_InitComponents e s in
         if r0 \<noteq> KWS_RETCODE_SUCCESS then Some (KWS_RETCODE_INIT_ERROR, s1, w)
         else do {
           (r, ci, w1) \<leftarrow> ao_Init (se_aie e) ''kws config description'' (ks_clientInfo s1) kws_algorithmInfo w;
           let s2 = s1\<lparr>ks_clientInfo := ci\<rparr>;
           if r \<noteq> RETCODE_SUCCESS then Some (KWS_RETCODE_INIT_ERROR, s2, w1)
           else if ci_clientId ci = INVALID_CLIENT_ID then Some (KWS_RETCODE_INIT_ERROR, s2, w1)
           else do {
             (r2, out, w2) \<leftarrow> ao_Prepare (se_aie e) ci kws_algorithmInfo empty_DataInfo empty_DataInfo w1;
             if r2 \<noteq> RETCODE_SUCCESS then Some (KWS_RETCODE_INIT_ERROR, s2, w2)
             else if di_data out = None \<or> di_length out \<le> 0 then Some (KWS_RETCODE_INIT_ERROR, s2, w2)
             else do {
               (r3, ps) \<leftarrow> ProcessDecode (se_mem e) out [TVal 8];
               let s3 = s2\<lparr>ks_kwsHandle := handle_read (ks_kwsHandle s2) ps\<rparr>;
               if r3 \<noteq> RETCODE_SUCCESS then Some (KWS_RETCODE_UNSERIALIZATION_ERROR, s3, w2)
               else Some (KWS_RETCODE_SUCCESS, s3, w2)
             }
           }
         }))"

definition KwsSdk_Execute :: "('w, 'm) senv \<Rightarrow> arr \<Rightarrow> 'm KWSSdkImpl \<Rightarrow> 'w \<Rightarrow> (int \<times> 'm KWSSdkImpl \<times> 'w) option" where
  "KwsSdk_Execute e input s w =
     do {
       (r, inp) \<leftarrow> ProcessEncode (se_mem e) empty_DataInfo [PVal (handle_bytes (ks_kwsHandle s)), PArr input];
       if r \<noteq> RETCODE_SUCCESS then do {
         s1 \<leftarrow> kws_notify (OnError KWS_RETCODE_SERIALIZATION_ERROR) s;
         Some (KWS_RETCODE_SERIALIZATION_ERROR, s1, w)
       }
       else do {
         (r2, out, w1) \<leftarrow> ao_SyncProcess (se_aie e) (ks_clientInfo s) kws_algorithmInfo inp empty_DataInfo w;
         if r2 \<noteq> RETCODE_SUCCESS then do {
           s1 \<leftarrow> kws_notify (OnError KWS_RETCODE_PLUGIN_EXECUTION_ERROR) s;
           Some (KWS_RETCODE_PLUGIN_EXECUTION_ERROR, s1, w1)
         }
         else if di_data out = None \<or> di_length out \<le> 0 then do {
           s1 \<leftarrow> kws_notify (OnError KWS_RETCODE_NULL_PARAM) s;
           Some (KWS_RETCODE_NULL_PARAM, s1, w1)
         }
         else do {
           (r3, ps) \<leftarrow> ProcessDecode (se_mem e) out [TVal 8, TArr 4 fresh_arr];
           if r3 \<noteq> RETCODE_SUCCESS then do {
             s1 \<leftarrow> kws_notify (OnError KWS_RETCODE_UNSERIALIZATION_ERROR) s;
             Some (KWS_RETCODE_UNSERIALIZATION_ERROR, s1, w1)
           }
           else if ks_kwsHandle s \<noteq> handle_read 0 ps then do {
             s1 \<leftarrow> kws_notify (OnError KWS_RETCODE_PLUGIN_SESSION_ERROR) s;
             Some (KWS_RETCODE_PLUGIN_SESSION_ERROR, s1, w1)
           }
           else do {
             kwsResult \<leftarrow> (case ps of [_, PArr v] \<Rightarrow> Some v | _ \<Rightarrow> None);
             s1 \<leftarrow> kws_notify (OnResult kwsResult) s;
             Some (KWS_RETCODE_SUCCESS, s1, w1)
           }
         }
       }
     }"

text \<open>The loop of \<open>SyncExecute\<close>: the window is read by the MFCC processor before the iterator moves on.\<close>

partial_function (option) execute_loop :: "('w, 'm) senv \<Rightarrow> 'm KWSSdkImpl \<Rightarrow> 'w \<Rightarrow> (int \<times> 'm KWSSdkImpl \<times> 'w) option" where
  "execute_loop e s w =
     do {
       it \<leftarrow> ks_pcmIterator s;
       (next, it1) \<leftarrow> PCM_HasNext (se_mem e) it;
       if \<not> next then Some (KWS_RETCODE_SUCCESS, s\<lparr>ks_pcmIterator := Some it1\<rparr>, w)
       else do {
         (pcmInput, it2) \<leftarrow> PCM_Next (se_mem e) it1;
         samples \<leftarrow> pcm_read pcmInput it2;
         mf \<leftarrow> ks_mfcc s;
         let (r, mfccInput, mf1) = mf_Process (se_mfcc e) samples mf;
         let s1 = s\<lparr>ks_pcmIterator := Some it2, ks_mfcc := Some mf1\<rparr>;
         if r \<noteq> RETCODE_SUCCESS then Some (KWS_RETCODE_FAILURE, s1, w)
         else do {
           (r2, s2, w1) \<leftarrow> KwsSdk_Execute e mfccInput s1 w;
           if r2 \<noteq> KWS_RETCODE_SUCCESS then Some (r2, s2, w1) else execute_loop e s2 w1
         }
       }
     }"

definition KwsSdk_SyncExecute ::
  "('w, 'm) senv \<Rightarrow> int list option \<Rightarrow> 'm KWSSdkImpl \<Rightarrow> 'w \<Rightarrow> (int \<times> 'm KWSSdkImpl \<times> 'w) option" where
  "KwsSdk_SyncExecute e input s w =
     (if ks_kwsHandle s = INVALID_KWS_HANDLE then Some (KWS_RETCODE_FAILURE, s, w)
      else if \<not> ks_callback s then Some (KWS_RETCODE_FAILURE, s, w)
      else do {
        it \<leftarrow> ks_pcmIterator s;
        (r, it1) \<leftarrow> PCM_SetInput (se_mem e) input it;
        let s1 = s\<lparr>ks_pcmIterator := Some it1\<rparr>;
        if r \<noteq> RETCODE_SUCCESS then Some (KWS_RETCODE_FAILURE, s1, w) else execute_loop e s1 w
      })"

definition KwsSdk_Destroy :: "('w, 'm) senv \<Rightarrow> 'm KWSSdkImpl \<Rightarrow> 'w \<Rightarrow> (int \<times> 'm KWSSdkImpl \<times> 'w) option" where
  "KwsSdk_Destroy e s w =
     (if ks_kwsHandle s = INVALID_KWS_HANDLE then Some (KWS_RETCODE_SUCCESS, s, w)
      else do {
        (r, inp) \<leftarrow> ProcessEncode (se_mem e) empty_DataInfo [PVal (handle_bytes (ks_kwsHandle s))];
        if r \<noteq> RETCODE_SUCCESS then Some (KWS_RETCODE_SERIALIZATION_ERROR, s, w)
        else do {
          (r2, w1) \<leftarrow> ao_Release (se_aie e) (ks_clientInfo s) kws_algorithmInfo inp w;
          if r2 \<noteq> RETCODE_SUCCESS then Some (KWS_RETCODE_FAILURE, s, w1)
          else do {
            (r3, ci, w2) \<leftarrow> ao_Destroy (se_aie e) (ks_clientInfo s) w1;
            let s1 = s\<lparr>ks_clientInfo := ci\<rparr>;
            if r3 \<noteq> RETCODE_SUCCESS then Some (KWS_RETCODE_FAILURE, s1, w2)
            else Some (KWS_RETCODE_SUCCESS, s1\<lparr>ks_mfcc := None, ks_pcmIterator := None, ks_callback := False,
                                              ks_kwsHandle := INVALID_KWS_HANDLE\<rparr>, w2)
          }
        }
      })"

section \<open>The class the application sees\<close>

text \<open>\<open>KWSSdk\<close> holds the implementation; \<open>ok\<close> tells whether \<open>new\<close> finds memory for it.\<close>

type_synonym 'm KWSSdk = "'m KWSSdkImpl option"

definition KWSSdk_Create :: "('w, 'm) senv \<Rightarrow> bool \<Rightarrow> 'm KWSSdk \<Rightarrow> 'w \<Rightarrow> (int \<times> 'm KWSSdk \<times> 'w) option" where
  "KWSSdk_Create e ok k w =
     (case (case k of Some s \<Rightarrow> Some s | None \<Rightarrow> if ok then Some KWSSdkImpl_new else None) of
        None \<Rightarrow> Some (KWS_RETCODE_FAILURE, None, w)
      | Some s \<Rightarrow> map_option (\<lambda>(r, s1, w1). (r, Some s1, w1)) (KwsSdk_Create e s w))"

definition KWSSdk_SetCallback :: "bool \<Rightarrow> 'm KWSSdk \<Rightarrow> int \<times> 'm KWSSdk" where
  "KWSSdk_SetCallback callback k =
     (case k of None \<Rightarrow> (KWS_RETCODE_FAILURE, None)
      | Some s \<Rightarrow> (let (r, s1) = KWS_SetCallback callback s in (r, Some s1)))"

definition KWSSdk_SyncExecute :: "('w, 'm) senv \<Rightarrow> int list option \<Rightarrow> 'm KWSSdk \<Rightarrow> 'w \<Rightarrow> (int \<times> 'm KWSSdk \<times> 'w) option" where
  "KWSSdk_SyncExecute e input k w =
     (case k of None \<Rightarrow> Some (KWS_RETCODE_FAILURE, None, w)
      | Some s \<Rightarrow> map_option (\<lambda>(r, s1, w1). (r, Some s1, w1)) (KwsSdk_SyncExecute e input s w))"

definition KWSSdk_Destroy :: "('w, 'm) senv \<Rightarrow> 'm KWSSdk \<Rightarrow> 'w \<Rightarrow> (int \<times> 'm KWSSdk \<times> 'w) option" where
  "KWSSdk_Destroy e k w =
     (case k of None \<Rightarrow> Some (KWS_RETCODE_SUCCESS, None, w)
      | Some s \<Rightarrow> map_option (\<lambda>(r, s1, w1). (r, Some s1, w1)) (KwsSdk_Destroy e s w))"

text \<open>Both destructors destroy; the second call finds no session.\<close>

definition KWSSdk_dtor :: "('w, 'm) senv \<Rightarrow> 'm KWSSdk \<Rightarrow> 'w \<Rightarrow> ('m KWSSdk \<times> 'w) option" where
  "KWSSdk_dtor e k w =
     (case k of None \<Rightarrow> Some (None, w)
      | Some s \<Rightarrow> do { (_, s1, w1) \<leftarrow> KwsSdk_Destroy e s w; (_, _, w2) \<leftarrow> KwsSdk_Destroy e s1 w1; Some (None, w2) })"

end
