(* ===== verification/PcmProofs.thy ===== *)
theory PcmProofs
  imports PcmIterator
begin

text \<open>
  The iterator of the keyword spotting SDK against the stream of samples it has been given: its
  state stands for the samples from the next window on (\<open>pcm_inv\<close>), and its operations are the
  operations on that list.
\<close>

section \<open>Arithmetic\<close>

lemma sz_add_id: "a + b < SZ \<Longrightarrow> sz_add a b = a + b"
  by (simp add: sz_add_def)

lemma sz_sub_id: "b \<le> a \<Longrightarrow> a < SZ \<Longrightarrow> sz_sub a b = a - b"
  using wrap_diff [of b a SZ] by (simp add: sz_sub_def)

lemma sz_mul_id: "a * b < SZ \<Longrightarrow> sz_mul a b = a * b"
  by (simp add: sz_mul_def)

lemma of_int32_nat: "n < SZ \<Longrightarrow> of_int32 (int n) = n"
  by (simp add: of_int32_def nat_mod_as_int [symmetric] zmod_int [symmetric])

lemma swrap_mod64: "swrap 32 (x mod 2 ^ 64) = swrap 32 x"
proof -
  have "(x mod 2 ^ 64 + 2 ^ 31) mod 2 ^ 32 = (x mod 2 ^ 64 mod 2 ^ 32 + 2 ^ 31) mod (2 ^ 32 :: int)"
    by (simp add: mod_add_left_eq)
  also have "x mod 2 ^ 64 mod 2 ^ 32 = x mod (2 ^ 32 :: int)" by (rule mod_mod_cancel) simp
  finally show ?thesis by (simp add: swrap_def mod_add_left_eq)
qed

lemma int_sz_add: "int (sz_add a b) = (int a + int b) mod 2 ^ 64"
  by (simp add: sz_add_def zmod_int)

lemma int_sz_sub: "int (sz_sub a b) = (int a - int b) mod 2 ^ 64"
proof -
  have "int (sz_sub a b) = (int a + (2 ^ 64 - int b mod 2 ^ 64)) mod 2 ^ 64"
    by (simp add: sz_sub_def zmod_int of_nat_diff less_imp_le add_diff_eq)
  also have "\<dots> = (int a - int b mod 2 ^ 64) mod 2 ^ 64"
    by (metis add_diff_eq diff_add_eq mod_add_self2)
  also have "\<dots> = (int a - int b) mod 2 ^ 64" by (rule mod_diff_right_eq)
  finally show ?thesis .
qed

lemma to_int32_small: "n < 2 ^ 31 \<Longrightarrow> to_int32 n = int n"
  using swrap_id [of 32 "int n"] by (simp add: to_int32_def)

lemma moved_on:
  assumes "r < 2 ^ 20" "w < 2 ^ 20" "s < 2 ^ 20"
  shows "to_int32 (sz_add (sz_sub r w) s) = int r - int w + int s"
    "to_int32 (sz_sub (sz_sub w s) r) = int w - int s - int r"
proof -
  have "int (sz_add (sz_sub r w) s) = (int r - int w + int s) mod 2 ^ 64"
    unfolding int_sz_add int_sz_sub by (rule mod_add_left_eq)
  then show "to_int32 (sz_add (sz_sub r w) s) = int r - int w + int s"
    using assms swrap_id [of 32 "int r - int w + int s"] swrap_mod64 [of "int r - int w + int s"] by (simp add: to_int32_def)
  have "int (sz_sub (sz_sub w s) r) = (int w - int s - int r) mod 2 ^ 64"
    unfolding int_sz_sub by (rule mod_diff_left_eq)
  then show "to_int32 (sz_sub (sz_sub w s) r) = int w - int s - int r"
    using assms swrap_id [of 32 "int w - int s - int r"] swrap_mod64 [of "int w - int s - int r"] by (simp add: to_int32_def)
qed

section \<open>The samples an iterator stands for\<close>

definition max_cache :: "nat \<Rightarrow> nat \<Rightarrow> nat" where
  "max_cache S W = (if W = 1 then 0 else (W - 2) div S * S + W)"

definition pcm_config_ok :: "nat \<Rightarrow> nat \<Rightarrow> bool" where
  "pcm_config_ok S W \<longleftrightarrow> 0 < S \<and> S \<le> W \<and> W \<le> 2 * S + 1 \<and> max_cache S W \<le> 16384"

definition pcm_base :: "nat \<Rightarrow> nat \<Rightarrow> PCMIterator \<Rightarrow> bool" where
  "pcm_base S W it \<longleftrightarrow> pi_stepSize it = S \<and> pi_windowSize it = W \<and> pi_maxCacheSize it = int (max_cache S W) \<and>
     pi_isInitialized it \<and> (\<exists>m. pi_cache it = Some m \<and> length m = max_cache S W)"

text \<open>An array that holds the samples \<open>xs\<close> of a caller, and the samples in the cache.\<close>

definition arr_is :: "pcm_array \<Rightarrow> int list \<Rightarrow> bool" where
  "arr_is a xs \<longleftrightarrow> pa_size a = length xs \<and> length xs < SZ \<and>
     (xs \<noteq> [] \<longrightarrow> (\<exists>ys k. pa_data a = PInput ys k \<and> drop k ys = xs))"

definition cached :: "PCMIterator \<Rightarrow> int list \<Rightarrow> bool" where
  "cached it c \<longleftrightarrow> pi_cacheSize it = length c \<and>
     (\<exists>m. pi_cache it = Some m \<and> cells_at (pi_nextCachePos it) (length c) m = Some (map Some c))"

definition waits :: "nat \<Rightarrow> nat \<Rightarrow> PCMIterator \<Rightarrow> int list \<Rightarrow> bool" where
  "waits S W it p \<longleftrightarrow> cached it p \<and> p \<noteq> [] \<and>
     (\<exists>k j. pi_nextCachePos it = j * S \<and> j \<le> k \<and> 0 < pi_numCopy it \<and>
        pi_nextCachePos it + length p + pi_numCopy it = k * S + W \<and> k * S < pi_nextCachePos it + length p \<and> k * S + 1 < W)"

lemma waitsI:
  assumes "cached it p" "p \<noteq> []" "pi_nextCachePos it = j * S" "j \<le> k" "0 < pi_numCopy it"
    "pi_nextCachePos it + length p + pi_numCopy it = k * S + W" "k * S < pi_nextCachePos it + length p" "k * S + 1 < W"
  shows "waits S W it p"
  using assms unfolding waits_def by blast

definition direct :: "nat \<Rightarrow> nat \<Rightarrow> PCMIterator \<Rightarrow> int list \<Rightarrow> bool" where
  "direct S W it p \<longleftrightarrow> pi_numCopy it = 0 \<and> pi_cacheSize it = 0 \<and> arr_is (pi_pcmData it) p \<and> pi_hasNext it = (W \<le> length p)"

definition waiting :: "nat \<Rightarrow> nat \<Rightarrow> PCMIterator \<Rightarrow> int list \<Rightarrow> bool" where
  "waiting S W it p \<longleftrightarrow> waits S W it p \<and> pa_size (pi_pcmData it) < W \<and> pi_hasNext it = (W \<le> length p)"

definition filled :: "nat \<Rightarrow> nat \<Rightarrow> PCMIterator \<Rightarrow> int list \<Rightarrow> bool" where
  "filled S W it p \<longleftrightarrow> (\<exists>k j c x. let r = pi_numRealCopy it in
     cached it c \<and> pi_numCopy it = 0 \<and> pi_nextCachePos it = j * S \<and> j \<le> k \<and>
     pi_nextCachePos it + length c = k * S + W \<and> k * S + 1 < W \<and> W \<le> length c \<and> pi_hasNext it \<and>
     0 < r \<and> r < W \<and> r \<le> length x \<and> drop (length c - r) c = take r x \<and> p = c @ drop r x \<and>
     arr_is (pi_pcmData it) (drop (r + S - W) x))"

lemma filledI:
  assumes "cached it c" "pi_numCopy it = 0" "pi_nextCachePos it = j * S" "j \<le> k"
    "pi_nextCachePos it + length c = k * S + W" "k * S + 1 < W" "W \<le> length c" "pi_hasNext it"
    "pi_numRealCopy it = r" "0 < r" "r < W" "r \<le> length x" "drop (length c - r) c = take r x" "p = c @ drop r x"
    "arr_is (pi_pcmData it) (drop (r + S - W) x)"
  shows "filled S W it p"
  using assms unfolding filled_def Let_def by blast

definition spilled :: "nat \<Rightarrow> nat \<Rightarrow> PCMIterator \<Rightarrow> int list \<Rightarrow> bool" where
  "spilled S W it p \<longleftrightarrow> (\<exists>c x. cached it c \<and> pi_numCopy it = 0 \<and> S \<le> pi_nextCachePos it \<and> c \<noteq> [] \<and>
     length c + S < W \<and> x \<noteq> [] \<and> arr_is (pi_pcmData it) x \<and> p = c @ x \<and> pi_hasNext it = (W \<le> length x))"

definition pcm_inv :: "nat \<Rightarrow> nat \<Rightarrow> PCMIterator \<Rightarrow> int list \<Rightarrow> bool" where
  "pcm_inv S W it p \<longleftrightarrow> pcm_base S W it \<and> (direct S W it p \<or> waiting S W it p \<or> filled S W it p \<or> spilled S W it p)"

text \<open>After a call of \<open>HasNext\<close>: the samples are where the next operation looks for them.\<close>

definition pcm_settled :: "nat \<Rightarrow> nat \<Rightarrow> PCMIterator \<Rightarrow> int list \<Rightarrow> bool" where
  "pcm_settled S W it p \<longleftrightarrow> pcm_base S W it \<and>
     (direct S W it p \<and> (p = [] \<or> W \<le> length p) \<or> waiting S W it p \<or> filled S W it p)"

definition pcm_env :: "cenv \<Rightarrow> bool" where "pcm_env e \<longleftrightarrow> copy_env 32768 e"

lemma settled_inv: "pcm_settled S W it p \<Longrightarrow> pcm_inv S W it p"
  by (auto simp: pcm_settled_def pcm_inv_def)

lemma settled_hasNext: "pcm_settled S W it p \<Longrightarrow> pi_hasNext it = (W \<le> length p)"
  by (auto simp: pcm_settled_def direct_def waiting_def filled_def Let_def)

lemma pcm_bounds:
  assumes "pcm_config_ok S W"
  shows "0 < S" "S \<le> W" "W \<le> 2 * S + 1" "max_cache S W \<le> 16384" "W \<le> 16384"
    "k * S + 1 < W \<Longrightarrow> k * S + W \<le> max_cache S W"
proof -
  show b: "0 < S" "S \<le> W" "W \<le> 2 * S + 1" "max_cache S W \<le> 16384" using assms by (auto simp: pcm_config_ok_def)
  show "W \<le> 16384" using b(4) by (simp add: max_cache_def split: if_splits)
  assume k: "k * S + 1 < W"
  have "k \<le> (W - 2) div S" using k b(1) by (simp add: less_eq_div_iff_mult_less_eq)
  then show "k * S + W \<le> max_cache S W" using k by (auto simp: max_cache_def)
qed

lemma arr_cells: "arr_is a xs \<Longrightarrow> n \<le> length xs \<Longrightarrow> 0 < n \<Longrightarrow> pcm_cells (pa_data a) n it = Some (map Some (take n xs))"
  by (cases "xs = []") (auto simp: arr_is_def cells_at_def take_map drop_map)

lemma arr_drop:
  assumes "arr_is a xs" and "n \<le> length xs"
  shows "arr_is \<lparr>pa_data = pcm_plus (pa_data a) n, pa_size = length xs - n\<rparr> (drop n xs)"
proof (cases "drop n xs = []")
  case False
  then obtain ys k where "pa_data a = PInput ys k" "drop k ys = xs" using assms(1) by (auto simp: arr_is_def)
  then show ?thesis using assms by (auto simp: arr_is_def drop_drop add.commute)
qed (use assms in \<open>simp add: arr_is_def\<close>)


section \<open>Moving samples\<close>

lemma cache_copy_writes:
  assumes base: "pcm_base S W it" and c: "pcm_config_ok S W" and e: "pcm_env e"
    and src: "pcm_cells src (length xs) it = Some (map Some xs)" "\<not> overlaps pos src (length xs)"
    and pos: "pos + length xs \<le> pos + dst" "pos + dst \<le> max_cache S W" "0 < dst"
  shows "\<exists>m m'. pi_cache it = Some m \<and> cells_put pos (map Some xs) m = Some m' \<and> length m' = max_cache S W \<and>
    cache_copy e pos dst src (length xs) it = Some (True, it\<lparr>pi_cache := Some m'\<rparr>)"
proof -
  obtain m where m: "pi_cache it = Some m" "length m = max_cache S W" using base by (auto simp: pcm_base_def)
  note b = pcm_bounds [OF c]
  have "sz_mul dst 2 = dst * 2" "sz_mul (length xs) 2 = length xs * 2" using pos b by (simp_all add: sz_mul_id)
  moreover have "memcpy_eok e (dst * 2) (length xs * 2)" using e pos b by (simp add: pcm_env_def copy_env_def)
  moreover obtain m' where "cells_put pos (map Some xs) m = Some m'" "length m' = max_cache S W"
    using m pos by (simp add: cells_put_def)
  ultimately show ?thesis using m src by (auto simp: cache_copy_def)
qed

lemma put_at: "cells_put k ys xs = Some zs \<Longrightarrow> cells_at k (length ys) zs = Some ys"
  by (auto simp: cells_put_def cells_at_def split: if_splits)

lemma put_behind:
  assumes "cells_at k n xs = Some a" and "cells_put (k + n) ys xs = Some zs"
  shows "cells_at k (n + length ys) zs = Some (a @ ys)"
  using assms by (auto simp: cells_put_def cells_at_def drop_take split: if_splits)

lemma cells_at_shift:
  "cells_at k n xs = Some a \<Longrightarrow> s + r \<le> n \<Longrightarrow> cells_at (k + s) r xs = Some (take r (drop s a))"
proof -
  assume at: "cells_at k n xs = Some a" "s + r \<le> n"
  then have "k + n \<le> length xs" "a = take n (drop k xs)" by (simp_all add: cells_at_def split: if_splits)
  moreover have "min r (n - s) = r" using at(2) by simp
  ultimately show ?thesis using at(2) by (simp add: cells_at_def drop_take add.commute)
qed

lemma MoveDataToCache_waits:
  assumes base: "pcm_base S W it" and c: "pcm_config_ok S W" and e: "pcm_env e"
    and src: "pcm_cells (pa_data a) (length xs) it = Some (map Some xs)" "\<not> overlaps 0 (pa_data a) (length xs)"
    and xs: "pa_size a = length xs" "xs \<noteq> []" "length xs < W"
  shows "\<exists>m n. let it' = it\<lparr>pi_cache := Some m, pi_cacheSize := length xs, pi_nextCachePos := 0, pi_numCopy := n\<rparr> in
    MoveDataToCache e a it = Some (RETCODE_SUCCESS, it') \<and> pcm_base S W it' \<and> waits S W it' xs"
proof -
  note b = pcm_bounds [OF c]
  define k where "k = (length xs - 1) div S"
  have k: "k * S < length xs" 
    using div_times_less_eq_dividend [of "length xs - 1" S] xs(2) unfolding k_def by (cases xs) (simp_all add: less_Suc_eq_le)
  then have kW: "k * S + 1 < W" using xs(3) by simp
  have room: "k * S + W \<le> max_cache S W" using b(6) [OF kW] .
  have "length xs \<le> max_cache S W" using xs(3) room by simp
  moreover have "of_int32 (pi_maxCacheSize it) = max_cache S W"
    using base b(4) by (simp add: pcm_base_def of_int32_nat)
  ultimately have "\<exists>m m'. pi_cache it = Some m \<and> cells_put 0 (map Some xs) m = Some m' \<and> length m' = max_cache S W \<and>
      cache_copy e 0 (of_int32 (pi_maxCacheSize it)) (pa_data a) (length xs) it = Some (True, it\<lparr>pi_cache := Some m'\<rparr>)"
    using cache_copy_writes [OF base c e src, of "max_cache S W"] xs by (cases xs) auto
  then obtain m m' where m: "cells_put 0 (map Some xs) m = Some m'" "length m' = max_cache S W"
      "cache_copy e 0 (of_int32 (pi_maxCacheSize it)) (pa_data a) (length xs) it = Some (True, it\<lparr>pi_cache := Some m'\<rparr>)"
    by blast
  have "pi_stepSize it = S" "pi_windowSize it = W" using base by (simp_all add: pcm_base_def)
  moreover have "sz_sub (length xs) 1 = length xs - 1" using xs b(5) by (simp add: sz_sub_id Suc_le_eq)
  moreover have "sz_sub (sz_add (sz_mul k S) W) (length xs) = k * S + W - length xs"
    using kW xs(3) b(5) by (simp add: sz_mul_id sz_add_id sz_sub_id)
  ultimately have run: "MoveDataToCache e a it = Some (RETCODE_SUCCESS, it\<lparr>pi_cache := Some m', pi_cacheSize := length xs,
      pi_nextCachePos := 0, pi_numCopy := k * S + W - length xs\<rparr>)"
    using m(3) xs(1) by (simp add: MoveDataToCache_def k_def)
  have at: "cells_at 0 (length xs) m' = Some (map Some xs)" using put_at [OF m(1)] by simp
  have "\<exists>k' j. 0 = j * S \<and> j \<le> k' \<and> 0 < k * S + W - length xs \<and>
      length xs + (k * S + W - length xs) = k' * S + W \<and> k' * S < length xs \<and> k' * S + 1 < W"
    using k kW xs(3) by (intro exI [of _ k] exI [of _ 0]) simp
  then show ?thesis
    using run base m(2) xs(2) at
    by (intro exI [of _ m'] exI [of _ "k * S + W - length xs"]) (simp add: Let_def pcm_base_def waits_def cached_def)
qed


section \<open>New samples\<close>

lemma arr_is_empty: "arr_is pcm_empty []"
  by (simp add: arr_is_def pcm_empty_def)

lemma no_overlap_arr: "arr_is a xs \<Longrightarrow> xs \<noteq> [] \<Longrightarrow> \<not> overlaps k (pa_data a) n"
  by (auto simp: arr_is_def)

text \<open>A waiting iterator takes samples: into the cache, and the rest is left in the caller's array.\<close>

lemma Prepare_waits:
  assumes base: "pcm_base S W it" and c: "pcm_config_ok S W" and e: "pcm_env e"
    and w: "waits S W it p" and a: "arr_is a x" "x \<noteq> []" and h: "pi_hasNext it \<longrightarrow> W \<le> length x"
    and p: "length p < W"
  shows "\<exists>it'. PCM_Prepare e a it = Some (RETCODE_SUCCESS, it') \<and> pcm_settled S W it' (p @ x)"
proof -
  note b = pcm_bounds [OF c]
  obtain k j where kj: "pi_nextCachePos it = j * S" "j \<le> k" "0 < pi_numCopy it"
      "pi_nextCachePos it + length p + pi_numCopy it = k * S + W" "k * S < pi_nextCachePos it + length p" "k * S + 1 < W"
    and p': "cached it p" "p \<noteq> []"
    using w unfolding waits_def by blast
  define pos where "pos = pi_nextCachePos it"
  define n where "n = pi_numCopy it"
  define r where "r = min n (length x)"
  have room: "k * S + W \<le> max_cache S W" using b(6) [OF kj(6)] .
  have nums: "pos + length p + n = k * S + W" "0 < n" "n < W" "0 < r" "r \<le> n" "r \<le> length x" "k * S < W" "pos + length p < k * S + W"
    using kj a(2) by (auto simp: pos_def n_def r_def)
  have small: "k * S < 16384" "W \<le> 16384" "pos + length p \<le> 16384 * 2" "n < 16384" "r < 16384" using nums b(5) by simp_all
  define it1 where "it1 = it\<lparr>pi_numRealCopy := r\<rparr>"
  have base1: "pcm_base S W it1" using base by (simp add: pcm_base_def it1_def)
  have S: "pi_stepSize it = S" "pi_windowSize it = W" using base by (simp_all add: pcm_base_def)
  have real_size: "sz_add (pi_nextCachePos it) (pi_cacheSize it) = pos + length p"
    using p'(1) small by (simp add: sz_add_id pos_def cached_def)
  have of32: "of_int32 (pi_maxCacheSize it) = max_cache S W" using base b(4) by (simp add: pcm_base_def of_int32_nat)
  have left: "sz_sub (max_cache S W) (pos + length p) = max_cache S W - (pos + length p)"
    using nums room b(4) by (simp add: sz_sub_id)
  have cells: "pcm_cells (pa_data a) (length (take r x)) it1 = Some (map Some (take r x))"
    using arr_cells [OF a(1) nums(6,4)] nums(6) by simp
  obtain m m' where m: "pi_cache it1 = Some m" "cells_put (pos + length p) (map Some (take r x)) m = Some m'"
      "length m' = max_cache S W"
      "cache_copy e (pos + length p) (max_cache S W - (pos + length p)) (pa_data a) (length (take r x)) it1 =
        Some (True, it1\<lparr>pi_cache := Some m'\<rparr>)"
    using cache_copy_writes [OF base1 c e cells no_overlap_arr [OF a], of "pos + length p" "max_cache S W - (pos + length p)"]
      nums room by auto
  have at: "cells_at pos (length p) m = Some (map Some p)"
    using p'(1) m(1) by (simp add: cached_def pos_def it1_def)
  have at': "cells_at pos (length p + r) m' = Some (map Some (p @ take r x))"
    using put_behind [OF at m(2)] nums(6) by simp
  define q where "q = p @ take r x"
  have lq: "length q = length p + r" using nums(6) by (simp add: q_def)
  have sz: "sz_add (pi_cacheSize it) r = length q" using p'(1) small lq by (simp add: sz_add_id cached_def)
  define d where "d = (if n - r = 0
      then (if to_int32 (sz_add (sz_sub r W) S) > 0
        then \<lparr>pa_data = pcm_plus (pa_data a) (nat (to_int32 (sz_add (sz_sub r W) S))),
              pa_size = sz_sub (pa_size a) (nat (to_int32 (sz_add (sz_sub r W) S)))\<rparr> else a)
      else pcm_empty)"
  define it2 where "it2 = it\<lparr>pi_numRealCopy := r, pi_cache := Some m', pi_cacheSize := length q, pi_numCopy := n - r, pi_pcmData := d\<rparr>"
  have size_a: "pa_size a = length x" using a(1) by (simp add: arr_is_def)
  have real: "(if n > length x then length x else n) = r" by (simp add: r_def)
  have run: "PCM_Prepare e a it = update_hasNext e it2"
    using m(4) nums(2,6) S sz
    unfolding PCM_Prepare_def real_size of32 left Let_def n_def [symmetric] size_a real
    by (simp add: it1_def it2_def d_def size_a n_def [symmetric])
  have base2: "pcm_base S W it2" using base m(3) by (simp add: pcm_base_def it2_def)
  have cached2: "cached it2 q" using at' lq by (simp add: cached_def it2_def q_def pos_def [symmetric])
  show ?thesis
  proof (cases "n - r = 0")
    case False
    then have rx: "r = length x" using nums by (auto simp: r_def)
    then have q: "q = p @ x" by (simp add: q_def)
    have d: "d = pcm_empty" using False by (simp add: d_def)
    have xW: "length x < W" using False nums rx by simp
    have w2: "waits S W it2 q"
    proof (rule waitsI [of _ _ j _ k])
      show "pi_nextCachePos it2 + length q + pi_numCopy it2 = k * S + W"
        using nums lq rx False by (simp add: it2_def pos_def [symmetric])
    qed (use cached2 p'(2) kj False lq in \<open>simp_all add: it2_def q_def\<close>)
    have upd: "update_hasNext e it2 = Some (RETCODE_SUCCESS, if W \<le> length q then it2\<lparr>pi_hasNext := True\<rparr> else it2)"
      using S d b(1,2) p'(2) by (simp add: update_hasNext_def it2_def pcm_empty_def q_def)
    have "waiting S W (if W \<le> length q then it2\<lparr>pi_hasNext := True\<rparr> else it2) q"
      using w2 d h xW b(1,2) by (auto simp: waiting_def waits_def cached_def it2_def pcm_empty_def)
    moreover have "pcm_base S W (if W \<le> length q then it2\<lparr>pi_hasNext := True\<rparr> else it2)"
      using base2 by (simp add: pcm_base_def)
    ultimately show ?thesis unfolding run upd using q by (auto simp: pcm_settled_def)
  next
    case True
    then have rn: "r = n" using nums by simp
    then have full: "pos + length q = k * S + W" using nums lq by simp
    have "j * S \<le> k * S" using kj(2) by simp
    then have Wq: "W \<le> length q" using full kj(1) unfolding pos_def by linarith
    have diff: "to_int32 (sz_add (sz_sub r W) S) = int r - int W + int S"
      using moved_on(1) [of r W S] small b(2) by simp
    have d: "arr_is d (drop (r + S - W) x)"
    proof (cases "r + S \<le> W")
      case True
      then show ?thesis using rn a(1) diff by (simp add: d_def)
    next
      case False
      then have "nat (int r - int W + int S) = r + S - W" "r + S - W \<le> length x" using nums b(2) by auto
      moreover have "length x < SZ" using a(1) by (simp add: arr_is_def)
      ultimately show ?thesis
        using False rn a(1) diff arr_drop [OF a(1), of "r + S - W"] sz_sub_id [of "r + S - W" "length x"]
        by (simp add: d_def arr_is_def [of a])
    qed
    have upd: "update_hasNext e it2 = Some (RETCODE_SUCCESS, it2\<lparr>pi_hasNext := True\<rparr>)"
      using S Wq by (simp add: update_hasNext_def it2_def)
    have "filled S W (it2\<lparr>pi_hasNext := True\<rparr>) (p @ x)"
    proof (rule filledI [of _ q j _ k _ r x])
      show "cached (it2\<lparr>pi_hasNext := True\<rparr>) q" using cached2 by (simp add: cached_def)
      show "drop (length q - r) q = take r x" using lq by (simp add: q_def)
    qed (use kj nums rn full Wq d in \<open>simp_all add: it2_def pos_def q_def\<close>)
    moreover have "pcm_base S W (it2\<lparr>pi_hasNext := True\<rparr>)" using base2 by (simp add: pcm_base_def)
    ultimately show ?thesis unfolding run upd by (auto simp: pcm_settled_def)
  qed
qed


section \<open>HasNext\<close>

lemma waits_hasNext: "waits S W (it\<lparr>pi_hasNext := h\<rparr>) p = waits S W it p" "waits S W (it\<lparr>pi_pcmData := d\<rparr>) p = waits S W it p"
  by (simp_all add: waits_def cached_def)

text \<open>
  \<open>HasNext\<close> tells whether a whole window of samples is there, and moves the samples to where
  the next operation looks for them. The blocks it copies never overlap: what is left in the
  cache is shorter than a step and one more.
\<close>

lemma HasNext_correct:
  assumes inv: "pcm_inv S W it p" and c: "pcm_config_ok S W" and e: "pcm_env e"
  shows "\<exists>it'. PCM_HasNext e it = Some (W \<le> length p, it') \<and> pcm_settled S W it' p"
proof -
  note b = pcm_bounds [OF c]
  have base: "pcm_base S W it" using inv by (simp add: pcm_inv_def)
  then have SW: "pi_stepSize it = S" "pi_windowSize it = W" by (simp_all add: pcm_base_def)
  consider (direct) "direct S W it p" | (waiting) "waiting S W it p" | (filled) "filled S W it p" | (spilled) "spilled S W it p"
    using inv by (auto simp: pcm_inv_def)
  then show ?thesis
  proof cases
    case direct
    then have d: "pi_numCopy it = 0" "pi_cacheSize it = 0" "arr_is (pi_pcmData it) p" "pi_hasNext it = (W \<le> length p)"
        "pa_size (pi_pcmData it) = length p"
      by (auto simp: direct_def arr_is_def)
    show ?thesis
    proof (cases "p \<noteq> [] \<and> length p < W")
      case True
      have cells: "pcm_cells (pa_data (pi_pcmData it)) (length p) it = Some (map Some p)"
        using arr_cells [OF d(3), of "length p"] True by simp
      obtain m n where mv: "MoveDataToCache e (pi_pcmData it) it =
            Some (RETCODE_SUCCESS, it\<lparr>pi_cache := Some m, pi_cacheSize := length p, pi_nextCachePos := 0, pi_numCopy := n\<rparr>)"
          "pcm_base S W (it\<lparr>pi_cache := Some m, pi_cacheSize := length p, pi_nextCachePos := 0, pi_numCopy := n\<rparr>)"
          "waits S W (it\<lparr>pi_cache := Some m, pi_cacheSize := length p, pi_nextCachePos := 0, pi_numCopy := n\<rparr>) p"
        using MoveDataToCache_waits [OF base c e cells no_overlap_arr [OF d(3)] d(5)] True by (auto simp: Let_def)
      define it1 where "it1 = it\<lparr>pi_cache := Some m, pi_cacheSize := length p, pi_nextCachePos := 0, pi_numCopy := n\<rparr>"
      define it2 where "it2 = it1\<lparr>pi_pcmData := (pi_pcmData it1)\<lparr>pa_size := 0\<rparr>\<rparr>"
      have "pcm_base S W it2" "waits S W it2 p"
        using mv(2,3) unfolding it1_def [symmetric] by (simp_all add: it2_def pcm_base_def waits_hasNext)
      moreover have "pi_hasNext it2 = (W \<le> length p)" "pa_size (pi_pcmData it2) < W"
        using d b(1,2) by (simp_all add: it2_def it1_def)
      moreover have "PCM_HasNext e it = Some (pi_hasNext it2, it2)"
        using mv(1) d True SW unfolding it1_def [symmetric] by (simp add: PCM_HasNext_def it2_def)
      ultimately show ?thesis by (auto simp: pcm_settled_def waiting_def)
    next
      case False
      then have "PCM_HasNext e it = Some (W \<le> length p, it)" using d SW by (auto simp: PCM_HasNext_def)
      then show ?thesis using direct base False by (auto simp: pcm_settled_def)
    qed
  next
    case waiting
    then have "0 < pi_numCopy it" "pi_cacheSize it = length p" "p \<noteq> []" "pi_hasNext it = (W \<le> length p)"
      by (auto simp: waiting_def waits_def cached_def)
    then have "PCM_HasNext e it = Some (W \<le> length p, it)" by (simp add: PCM_HasNext_def)
    then show ?thesis using waiting base by (auto simp: pcm_settled_def)
  next
    case filled
    then have "W \<le> pi_cacheSize it" "pi_cacheSize it \<le> length p" "pi_hasNext it"
      by (auto simp: filled_def cached_def Let_def)
    then have "PCM_HasNext e it = Some (W \<le> length p, it)" using SW b(1,2) by (auto simp: PCM_HasNext_def)
    then show ?thesis using filled base by (auto simp: pcm_settled_def)
  next
    case spilled
    then obtain q x where q: "cached it q" "pi_numCopy it = 0" "S \<le> pi_nextCachePos it" "q \<noteq> []" "length q + S < W"
        "x \<noteq> []" "arr_is (pi_pcmData it) x" "p = q @ x" "pi_hasNext it = (W \<le> length x)"
      by (auto simp: spilled_def)
    let ?a = "\<lparr>pa_data = PCache (pi_nextCachePos it), pa_size = length q\<rparr>"
    have size: "pi_cacheSize it = length q" using q(1) by (simp add: cached_def)
    have cells: "pcm_cells (pa_data ?a) (length q) it = Some (map Some q)" using q(1) by (auto simp: cached_def)
    have apart: "\<not> overlaps 0 (pa_data ?a) (length q)" using q(3,5) b(3) by simp
    obtain m n where mv: "MoveDataToCache e ?a it =
          Some (RETCODE_SUCCESS, it\<lparr>pi_cache := Some m, pi_cacheSize := length q, pi_nextCachePos := 0, pi_numCopy := n\<rparr>)"
        "pcm_base S W (it\<lparr>pi_cache := Some m, pi_cacheSize := length q, pi_nextCachePos := 0, pi_numCopy := n\<rparr>)"
        "waits S W (it\<lparr>pi_cache := Some m, pi_cacheSize := length q, pi_nextCachePos := 0, pi_numCopy := n\<rparr>) q"
      using MoveDataToCache_waits [OF base c e cells apart] q(4,5) by (auto simp: Let_def)
    define it1 where "it1 = it\<lparr>pi_cache := Some m, pi_cacheSize := length q, pi_nextCachePos := 0, pi_numCopy := n\<rparr>"
    have "arr_is (pi_pcmData it1) x" "pi_hasNext it1 \<longrightarrow> W \<le> length x" "length q < W"
      using q(5,7,9) by (simp_all add: it1_def)
    from Prepare_waits [OF mv(2) [folded it1_def] c e mv(3) [folded it1_def] this(1) q(6) this(2,3)]
    obtain it2 where it2: "PCM_Prepare e (pi_pcmData it1) it1 = Some (RETCODE_SUCCESS, it2)" "pcm_settled S W it2 p"
      using q(8) by blast
    have "PCM_HasNext e it = Some (pi_hasNext it2, it2)"
      using mv(1) it2(1) q size SW b(1) unfolding it1_def [symmetric] by (simp add: PCM_HasNext_def)
    then show ?thesis using it2(2) settled_hasNext [OF it2(2)] by auto
  qed
qed


section \<open>Next\<close>

lemma cached_step:
  assumes "cached it c" and "S + n \<le> length c" and "pi_cache it' = pi_cache it"
    and "pi_nextCachePos it' = pi_nextCachePos it + S" and "pi_cacheSize it' = n"
  shows "cached it' (take n (drop S c))"
proof -
  obtain m where m: "pi_cache it = Some m" "cells_at (pi_nextCachePos it) (length c) m = Some (map Some c)"
    using assms(1) by (auto simp: cached_def)
  from cells_at_shift [OF m(2) assms(2)] have "cells_at (pi_nextCachePos it + S) n m = Some (map Some (take n (drop S c)))"
    by (simp add: take_map drop_map)
  moreover have len: "length (take n (drop S c)) = n" using assms(2) by simp
  ultimately show ?thesis using assms m(1) unfolding cached_def len by simp
qed

lemma those_some: "those (map Some xs) = Some xs"
  by (induction xs) auto

lemma cached_window:
  assumes "cached it c" and "W \<le> length c" and "pi_cache it' = pi_cache it"
  shows "pcm_read \<lparr>pa_data = PCache (pi_nextCachePos it), pa_size = W\<rparr> it' = Some (take W c)"
proof -
  obtain m where m: "pi_cache it = Some m" "cells_at (pi_nextCachePos it) (length c) m = Some (map Some c)"
    using assms(1) by (auto simp: cached_def)
  from cells_at_shift [OF m(2), of 0 W] assms(2) have "cells_at (pi_nextCachePos it) W m = Some (map Some (take W c))"
    by (simp add: take_map)
  then show ?thesis using assms(3) m(1) by (simp add: pcm_read_def those_some)
qed

text \<open>A window out of the array of the caller.\<close>

lemma window_direct:
  assumes base: "pcm_base S W it" and c: "pcm_config_ok S W" and d: "direct S W it p" and p: "W \<le> length p"
  defines "it' \<equiv> it\<lparr>pi_pcmData := \<lparr>pa_data = pcm_plus (pa_data (pi_pcmData it)) S, pa_size = length p - S\<rparr>,
      pi_hasNext := (W \<le> length p - S)\<rparr>"
  shows "window_out it = (\<lparr>pa_data = pa_data (pi_pcmData it), pa_size = W\<rparr>, it'\<lparr>pi_hasNext := True\<rparr>)"
    "pcm_read \<lparr>pa_data = pa_data (pi_pcmData it), pa_size = W\<rparr> it' = Some (take W p)" "pcm_inv S W it' (drop S p)"
proof -
  note b = pcm_bounds [OF c]
  have SW: "pi_stepSize it = S" "pi_windowSize it = W" using base by (simp_all add: pcm_base_def)
  have d: "pi_numCopy it = 0" "pi_cacheSize it = 0" "arr_is (pi_pcmData it) p" "pi_hasNext it"
      "pa_size (pi_pcmData it) = length p" "length p < SZ"
    using assms(3) p by (auto simp: direct_def arr_is_def)
  have "sz_sub (length p) S = length p - S" using sz_sub_id d(6) p b(2) by simp
  then show "window_out it = (\<lparr>pa_data = pa_data (pi_pcmData it), pa_size = W\<rparr>, it'\<lparr>pi_hasNext := True\<rparr>)"
    using SW d p b(1,2) by (simp add: window_out_def it'_def)
  have "0 < W" using b by simp
  from arr_cells [OF d(3) p this] show "pcm_read \<lparr>pa_data = pa_data (pi_pcmData it), pa_size = W\<rparr> it' = Some (take W p)"
    by (simp add: pcm_read_def those_some)
  show "pcm_inv S W it' (drop S p)"
    using base d(1,2) arr_drop [OF d(3), of S] p b(2) by (simp add: pcm_inv_def direct_def pcm_base_def it'_def)
qed

text \<open>A window out of the cache while more samples are awaited.\<close>

lemma window_waiting:
  assumes base: "pcm_base S W it" and c: "pcm_config_ok S W" and w: "waiting S W it p" and p: "W \<le> length p"
  defines "it' \<equiv> it\<lparr>pi_nextCachePos := pi_nextCachePos it + S, pi_cacheSize := length p - S,
      pi_hasNext := (W \<le> length p - S)\<rparr>"
  shows "window_out it = (\<lparr>pa_data = PCache (pi_nextCachePos it), pa_size = W\<rparr>, it'\<lparr>pi_hasNext := True\<rparr>)"
    "pcm_read \<lparr>pa_data = PCache (pi_nextCachePos it), pa_size = W\<rparr> it' = Some (take W p)" "pcm_inv S W it' (drop S p)"
proof -
  note b = pcm_bounds [OF c]
  have SW: "pi_stepSize it = S" "pi_windowSize it = W" using base by (simp_all add: pcm_base_def)
  have w: "waits S W it p" "pa_size (pi_pcmData it) < W" "pi_hasNext it" using w p by (auto simp: waiting_def)
  obtain k j where kj: "pi_nextCachePos it = j * S" "j \<le> k" "0 < pi_numCopy it"
      "pi_nextCachePos it + length p + pi_numCopy it = k * S + W" "k * S < pi_nextCachePos it + length p" "k * S + 1 < W"
    and p': "cached it p" "p \<noteq> []"
    using w(1) unfolding waits_def by blast
  have "j * S < k * S" using kj(1,3,4) p by linarith
  then have jk: "Suc j \<le> k" by simp
  have "1 * S \<le> k * S" using jk by (intro mult_le_mono1) simp
  then have "S < W" using kj(6) by linarith
  then have pS: "S < length p" using p by simp
  have size: "pi_cacheSize it = length p" using p'(1) by (simp add: cached_def)
  have "sz_add (pi_nextCachePos it) S = pi_nextCachePos it + S" using kj b(2,5) p by (intro sz_add_id) simp
  moreover have "sz_sub (length p) S = length p - S" using kj(4,6) b(2,5) p by (intro sz_sub_id) simp_all
  ultimately show "window_out it = (\<lparr>pa_data = PCache (pi_nextCachePos it), pa_size = W\<rparr>, it'\<lparr>pi_hasNext := True\<rparr>)"
    using SW size p kj(3) w(3) by (simp add: window_out_def it'_def)
  show "pcm_read \<lparr>pa_data = PCache (pi_nextCachePos it), pa_size = W\<rparr> it' = Some (take W p)"
    using cached_window [OF p'(1) p, of it'] by (simp add: it'_def)
  have cs: "cached it' (drop S p)"
    using cached_step [OF p'(1), of S "length p - S" it'] pS by (simp add: it'_def)
  have "waits S W it' (drop S p)"
    using cs kj jk pS by (intro waitsI [of _ _ "Suc j" _ k]) (simp_all add: it'_def)
  then show "pcm_inv S W it' (drop S p)"
    using base w(2) by (simp add: pcm_inv_def waiting_def pcm_base_def it'_def)
qed


text \<open>A window out of the cache when its last sample is there.\<close>

lemma window_filled:
  assumes base: "pcm_base S W it" and c: "pcm_config_ok S W" and f: "filled S W it p"
  shows "\<exists>it1. window_out it = (\<lparr>pa_data = PCache (pi_nextCachePos it), pa_size = W\<rparr>, it1) \<and>
    pi_cache it1 = pi_cache it \<and>
    pcm_inv S W (if pi_cacheSize it1 < W \<and> pa_size (pi_pcmData it1) < W then it1\<lparr>pi_hasNext := False\<rparr> else it1) (drop S p)"
    "pi_cache it' = pi_cache it \<Longrightarrow> pcm_read \<lparr>pa_data = PCache (pi_nextCachePos it), pa_size = W\<rparr> it' = Some (take W p)"
proof -
  note b = pcm_bounds [OF c]
  have SW: "pi_stepSize it = S" "pi_windowSize it = W" using base by (simp_all add: pcm_base_def)
  obtain k j q x where kj: "pi_nextCachePos it = j * S" "j \<le> k" "pi_nextCachePos it + length q = k * S + W" "k * S + 1 < W"
      "W \<le> length q" and q: "cached it q" "pi_numCopy it = 0" "pi_hasNext it"
    and r: "0 < pi_numRealCopy it" "pi_numRealCopy it < W" "pi_numRealCopy it \<le> length x"
      "drop (length q - pi_numRealCopy it) q = take (pi_numRealCopy it) x"
    and p: "p = q @ drop (pi_numRealCopy it) x" and x: "arr_is (pi_pcmData it) (drop (pi_numRealCopy it + S - W) x)"
    using f unfolding filled_def Let_def by blast
  show "pi_cache it' = pi_cache it \<Longrightarrow> pcm_read \<lparr>pa_data = PCache (pi_nextCachePos it), pa_size = W\<rparr> it' = Some (take W p)"
    using cached_window [OF q(1) kj(5), of it'] p kj(5) by simp
  define r where "r = pi_numRealCopy it"
  define pos where "pos = pi_nextCachePos it"
  have size: "pi_cacheSize it = length q" using q(1) by (simp add: cached_def)
  have small: "pos \<le> 16384" "length q < SZ" using kj b(5) by (simp_all add: pos_def)
  have pos': "sz_add pos S = pos + S" using small b(2,5) by (simp add: sz_add_id)
  have size': "sz_sub (length q) S = length q - S" using small kj(5) b(2) by (simp add: sz_sub_id)
  have diff: "to_int32 (sz_sub (sz_sub W S) r) = int W - int S - int r"
    using moved_on(2) [of r W S] b(2,5) r(2) by (simp add: r_def)
  define it1 where "it1 = it\<lparr>pi_nextCachePos := pos + S, pi_cacheSize := length q - S\<rparr>"
  define left where "left = nat (int W - int S - int r)"
  have out: "window_out it = (\<lparr>pa_data = PCache pos, pa_size = W\<rparr>,
      if length q - S < W then it1\<lparr>pi_cacheSize := left\<rparr> else it1)"
    using SW size q(2) kj(5) pos' size' diff
    by (simp add: window_out_def pos_def [symmetric] r_def [symmetric] it1_def left_def)
  show "\<exists>it1. window_out it = (\<lparr>pa_data = PCache (pi_nextCachePos it), pa_size = W\<rparr>, it1) \<and>
    pi_cache it1 = pi_cache it \<and>
    pcm_inv S W (if pi_cacheSize it1 < W \<and> pa_size (pi_pcmData it1) < W then it1\<lparr>pi_hasNext := False\<rparr> else it1) (drop S p)"
  proof (cases "length q - S < W")
    case False
    have "j * S < k * S" using kj(1,3) False b(1,2) by linarith
    then have jk: "Suc j \<le> k" by simp
    have cs: "cached it1 (drop S q)"
      using cached_step [OF q(1), of S "length q - S" it1] kj(5) b(2) by (simp add: it1_def pos_def)
    have "length q - (S + r) + S = length q - r" using False r(2) b(1,2) by (simp add: r_def)
    then have "drop (length (drop S q) - r) (drop S q) = take r x"
      using r(4) by (simp add: r_def add.commute)
    moreover have "pos + S + length (drop S q) = k * S + W" using kj(3,5) b(2) by (simp add: pos_def)
    ultimately have "filled S W it1 (drop S p)"
      using kj jk cs q r p x False b(2)
      by (intro filledI [of _ "drop S q" "Suc j" _ k _ r x]) (simp_all add: it1_def r_def pos_def)
    moreover have "pcm_base S W it1" using base by (simp add: pcm_base_def it1_def)
    ultimately show ?thesis using out False by (auto simp: pcm_inv_def it1_def pos_def)
  next
    case True
    have "\<not> j < k"
    proof
      assume "j < k"
      then have "Suc j * S \<le> k * S" by (intro mult_le_mono1) simp
      then show False using kj(1,3) True by simp
    qed
    then have lq: "length q = W" "pos = k * S" using kj(1,2,3) by (simp_all add: pos_def)
    define it2 where "it2 = it1\<lparr>pi_cacheSize := left\<rparr>"
    define it3 where "it3 = (if pi_cacheSize it2 < W \<and> pa_size (pi_pcmData it2) < W then it2\<lparr>pi_hasNext := False\<rparr> else it2)"
    have base3: "pcm_base S W it3" using base by (simp add: pcm_base_def it3_def it2_def it1_def)
    have lW: "left < W" using b(1,2) by (simp add: left_def)
    have "pcm_inv S W it3 (drop S p)"
    proof (cases "r + S < W")
      case more: True
      then have left: "left = W - S - r" by (simp add: left_def)
      define q' where "q' = take left (drop S q)"
      have cs: "cached it3 q'"
        unfolding q'_def using cached_step [OF q(1), of S left it3] left lq more by (simp add: it3_def it2_def it1_def pos_def)
      have lq': "length q' = left" using left lq more by (simp add: q'_def)
      have "drop S q = q' @ drop left (drop S q)" unfolding q'_def by (rule append_take_drop_id [symmetric])
      also have "drop left (drop S q) = drop (length q - r) q" using left lq more by simp
      finally have "drop S q = q' @ take r x" using r(4) by (simp add: r_def)
      then have "drop S p = q' @ x" using p lq b(2) r_def by simp
      moreover have "arr_is (pi_pcmData it3) x" using x more by (simp add: it3_def it2_def it1_def r_def)
      moreover from this have "pi_hasNext it3 = (W \<le> length x)" using q(3) lW by (auto simp: it3_def it2_def it1_def arr_is_def)
      moreover have "pi_numCopy it3 = 0" "S \<le> pi_nextCachePos it3" using q(2) by (simp_all add: it3_def it2_def it1_def)
      moreover have "q' \<noteq> []" "length q' + S < W" "x \<noteq> []" using lq' left more r(1,3) by (auto simp: r_def)
      ultimately have "spilled S W it3 (drop S p)" using cs unfolding spilled_def by blast
      then show ?thesis using base3 by (simp add: pcm_inv_def)
    next
      case False
      then have left: "left = 0" by (simp add: left_def)
      have "drop S q = drop (r + S - W) (take r x)"
      proof -
        have "drop S q = drop (r + S - W) (drop (W - r) q)" using False r(2) b(2) by (simp add: r_def)
        also have "drop (W - r) q = take r x" using r(4) lq by (simp add: r_def)
        finally show ?thesis .
      qed
      then have "drop S p = drop (r + S - W) (take r x) @ drop r x" using p lq b(2) by (simp add: r_def)
      also have "r + S - W - length (take r x) = 0" using r(3) b(2) by (simp add: r_def)
      then have "drop (r + S - W) (take r x) @ drop r x = drop (r + S - W) (take r x @ drop r x)"
        unfolding drop_append [of _ "take r x"] by simp
      finally have dp: "drop S p = drop (r + S - W) x" by simp
      have "arr_is (pi_pcmData it3) (drop S p)" using x dp by (simp add: it3_def it2_def it1_def r_def)
      moreover from this have "pi_hasNext it3 = (W \<le> length (drop S p))"
        using q(3) lW by (auto simp: it3_def it2_def it1_def arr_is_def)
      ultimately have "direct S W it3 (drop S p)" using q(2) left by (simp add: direct_def it3_def it2_def it1_def)
      then show ?thesis using base3 by (simp add: pcm_inv_def)
    qed
    moreover have "pi_cache it2 = pi_cache it" by (simp add: it2_def it1_def)
    ultimately show ?thesis using out True unfolding it3_def by (auto simp: pos_def it2_def)
  qed
qed

text \<open>\<open>Next\<close> returns the next window, and nothing when there is none.\<close>

lemma Next_correct:
  assumes inv: "pcm_inv S W it p" and c: "pcm_config_ok S W" and e: "pcm_env e"
  shows "\<exists>out it'. PCM_Next e it = Some (out, it') \<and>
    (if W \<le> length p then pcm_read out it' = Some (take W p) \<and> pcm_inv S W it' (drop S p)
     else out = pcm_empty \<and> pcm_settled S W it' p)"
proof -
  obtain it1 where h: "PCM_HasNext e it = Some (W \<le> length p, it1)" "pcm_settled S W it1 p"
    using HasNext_correct [OF inv c e] by blast
  show ?thesis
  proof (cases "W \<le> length p")
    case False
    then show ?thesis using h by (simp add: PCM_Next_def)
  next
    case True
    have base: "pcm_base S W it1" using h(2) by (simp add: pcm_settled_def)
    then have W: "pi_windowSize it1 = W" by (simp add: pcm_base_def)
    have W': "pi_windowSize it2 = W" if "pcm_inv S W (it2\<lparr>pi_hasNext := x\<rparr>) y" for it2 x y
      using that by (simp add: pcm_inv_def pcm_base_def)
    consider (direct) "direct S W it1 p" | (waiting) "waiting S W it1 p" | (filled) "filled S W it1 p"
      using h(2) by (auto simp: pcm_settled_def)
    then show ?thesis
    proof cases
      case direct
      note w = window_direct [OF base c direct True]
      have "pi_cacheSize it1 < W" using direct pcm_bounds(1,2) [OF c] by (simp add: direct_def)
      then show ?thesis using h(1) True w W direct by (auto simp: PCM_Next_def direct_def not_le split: if_splits)
    next
      case waiting
      note w = window_waiting [OF base c waiting True]
      have "pa_size (pi_pcmData it1) < W" using waiting by (simp add: waiting_def)
      then show ?thesis using h(1) True w W by (auto simp: PCM_Next_def not_le)
    next
      case filled
      obtain it2 where w: "window_out it1 = (\<lparr>pa_data = PCache (pi_nextCachePos it1), pa_size = W\<rparr>, it2)"
          "pi_cache it2 = pi_cache it1"
          "pcm_inv S W (if pi_cacheSize it2 < W \<and> pa_size (pi_pcmData it2) < W then it2\<lparr>pi_hasNext := False\<rparr> else it2) (drop S p)"
        using window_filled(1) [OF base c filled] by blast
      have "pi_windowSize it2 = W" using w(3) by (simp add: pcm_inv_def pcm_base_def split: if_splits)
      then show ?thesis using h(1) True w window_filled(2) [OF base c filled] by (simp add: PCM_Next_def)
    qed
  qed
qed


section \<open>The windows of a stream\<close>

text \<open>The windows of a list of samples, and the samples from the next window on.\<close>

function sliding :: "nat \<Rightarrow> nat \<Rightarrow> 'a list \<Rightarrow> 'a list list" where
  "sliding S W xs = (if 0 < S \<and> S \<le> W \<and> W \<le> length xs then take W xs # sliding S W (drop S xs) else [])"
  by auto
termination by (relation "measure (\<lambda>(S, W, xs). length xs)") auto

function behind_windows :: "nat \<Rightarrow> nat \<Rightarrow> 'a list \<Rightarrow> 'a list" where
  "behind_windows S W xs = (if 0 < S \<and> S \<le> W \<and> W \<le> length xs then behind_windows S W (drop S xs) else xs)"
  by auto
termination by (relation "measure (\<lambda>(S, W, xs). length xs)") auto

declare sliding.simps [simp del] behind_windows.simps [simp del]

lemma sliding_append:
  assumes "0 < S" "S \<le> W"
  shows "sliding S W (xs @ ys) = sliding S W xs @ sliding S W (behind_windows S W xs @ ys)"
proof (induction xs rule: length_induct)
  case (1 xs)
  show ?case
  proof (cases "W \<le> length xs")
    case True
    then have "length (drop S xs) < length xs" using assms by simp
    then have "sliding S W (drop S xs @ ys) = sliding S W (drop S xs) @ sliding S W (behind_windows S W (drop S xs) @ ys)"
      using 1 by blast
    then show ?thesis
      using True assms sliding.simps [of S W "xs @ ys"] sliding.simps [of S W xs] behind_windows.simps [of S W xs] by simp
  qed (simp add: assms sliding.simps [of S W xs] behind_windows.simps [of S W xs])
qed

lemma behind_append:
  assumes "0 < S" "S \<le> W"
  shows "behind_windows S W (xs @ ys) = behind_windows S W (behind_windows S W xs @ ys)"
proof (induction xs rule: length_induct)
  case (1 xs)
  show ?case
  proof (cases "W \<le> length xs")
    case True
    then have "length (drop S xs) < length xs" using assms by simp
    then have "behind_windows S W (drop S xs @ ys) = behind_windows S W (behind_windows S W (drop S xs) @ ys)"
      using 1 by blast
    then show ?thesis
      using True assms behind_windows.simps [of S W "xs @ ys"] behind_windows.simps [of S W xs] by simp
  qed (simp add: assms behind_windows.simps [of S W xs])
qed

lemma sliding_map:
  assumes "0 < S" "S \<le> W"
  shows "sliding S W xs = map (\<lambda>j. take W (drop (j * S) xs)) [0..<if length xs < W then 0 else (length xs - W) div S + 1]"
proof (induction xs rule: length_induct)
  case (1 xs)
  show ?case
  proof (cases "length xs < W")
    case False
    define n where "n = (if length (drop S xs) < W then 0 else (length (drop S xs) - W) div S + 1)"
    have n: "(length xs - W) div S + 1 = Suc n"
    proof (cases "length xs - S < W")
      case True
      then have "length xs - W < S" using False assms by linarith
      then show ?thesis using True by (simp add: n_def)
    next
      case f: False
      have "(length xs - W) div S = (length xs - W - S) div S + 1"
        using f assms le_div_geq [of S "length xs - W"] by simp
      then show ?thesis using f by (simp add: n_def diff_commute add.commute)
    qed
    have "length (drop S xs) < length xs" using False assms by simp
    then have "sliding S W (drop S xs) = map (\<lambda>j. take W (drop (j * S) (drop S xs))) [0..<n]"
      using 1 unfolding n_def by blast
    also have "\<dots> = map (\<lambda>j. take W (drop (Suc j * S) xs)) [0..<n]" by (simp add: add.commute)
    finally have "sliding S W xs = map (\<lambda>j. take W (drop (j * S) xs)) [0..<Suc n]"
      unfolding map_upt_Suc using False assms sliding.simps [of S W xs] by simp
    then show ?thesis using False n by simp
  qed (simp add: sliding.simps [of S W xs])
qed

section \<open>A caller of the iterator\<close>

text \<open>The loop of the SDK, and a caller that gives array after array and takes all windows each time.\<close>

partial_function (option) pcm_drain :: "cenv \<Rightarrow> PCMIterator \<Rightarrow> (int list list \<times> PCMIterator) option" where
  "pcm_drain e it =
     do {
       (next, it1) \<leftarrow> PCM_HasNext e it;
       if \<not> next then Some ([], it1)
       else do {
         (a, it2) \<leftarrow> PCM_Next e it1;
         w \<leftarrow> pcm_read a it2;
         (ws, it3) \<leftarrow> pcm_drain e it2;
         Some (w # ws, it3)
       }
     }"

fun pcm_feed :: "cenv \<Rightarrow> int list list \<Rightarrow> PCMIterator \<Rightarrow> (retcode \<times> int list list) list option" where
  "pcm_feed e [] it = Some []"
| "pcm_feed e (x # xs) it =
     do {
       (r, it1) \<leftarrow> PCM_SetInput e (Some x) it;
       (ws, it2) \<leftarrow> pcm_drain e it1;
       rs \<leftarrow> pcm_feed e xs it2;
       Some ((r, ws) # rs)
     }"

lemma pcm_drain_windows:
  assumes c: "pcm_config_ok S W" and e: "pcm_env e"
  shows "pcm_inv S W it p \<Longrightarrow> \<exists>it'. pcm_drain e it = Some (sliding S W p, it') \<and> pcm_inv S W it' (behind_windows S W p)"
proof (induction p arbitrary: it rule: length_induct)
  case (1 p)
  note b = pcm_bounds [OF c]
  obtain it1 where h: "PCM_HasNext e it = Some (W \<le> length p, it1)" "pcm_settled S W it1 p"
    using HasNext_correct [OF 1(2) c e] by blast
  show ?case
  proof (cases "W \<le> length p")
    case False
    then show ?thesis
      using h settled_inv by (simp add: pcm_drain.simps [of e it] sliding.simps [of S W p] behind_windows.simps [of S W p])
  next
    case True
    obtain a it2 where n: "PCM_Next e it1 = Some (a, it2)" "pcm_read a it2 = Some (take W p)" "pcm_inv S W it2 (drop S p)"
      using Next_correct [OF settled_inv [OF h(2)] c e] True by auto
    have "length (drop S p) < length p" using True b(1,2) by simp
    then obtain it3 where "pcm_drain e it2 = Some (sliding S W (drop S p), it3)" "pcm_inv S W it3 (behind_windows S W (drop S p))"
      using 1(1) n(3) by blast
    then show ?thesis
      using h(1) n True b(1,2)
      by (simp add: pcm_drain.simps [of e it] sliding.simps [of S W p] behind_windows.simps [of S W p])
  qed
qed

lemma behind_short: "0 < S \<Longrightarrow> S \<le> W \<Longrightarrow> length (behind_windows S W xs) < W"
proof (induction xs rule: length_induct)
  case (1 xs)
  then show ?case by (cases "W \<le> length xs") (auto simp: behind_windows.simps [of S W xs])
qed

text \<open>Samples are taken when no window is left.\<close>

lemma SetInput_takes:
  assumes inv: "pcm_inv S W it p" and c: "pcm_config_ok S W" and e: "pcm_env e"
    and p: "length p < W" and x: "x \<noteq> []" "length x < SZ"
  shows "\<exists>it'. PCM_SetInput e (Some x) it = Some (RETCODE_SUCCESS, it') \<and> pcm_inv S W it' (p @ x)"
proof -
  note b = pcm_bounds [OF c]
  obtain it1 where h: "PCM_HasNext e it = Some (False, it1)" "pcm_settled S W it1 p"
    using HasNext_correct [OF inv c e] p by auto
  have base: "pcm_base S W it1" using h(2) by (simp add: pcm_settled_def)
  then have SW: "pi_stepSize it1 = S" "pi_windowSize it1 = W" by (simp_all add: pcm_base_def)
  let ?a = "\<lparr>pa_data = PInput x 0, pa_size = length x\<rparr>"
  have a: "arr_is ?a x" using x by (simp add: arr_is_def)
  have init: "pi_isInitialized it" using inv by (simp add: pcm_inv_def pcm_base_def)
  have set: "PCM_SetInput e (Some x) it = PCM_Prepare e ?a it1" using h(1) init x(1) by (simp add: PCM_SetInput_def)
  have "direct S W it1 [] \<and> p = [] \<or> waiting S W it1 p"
    using h(2) p by (auto simp: pcm_settled_def filled_def Let_def)
  then show ?thesis
  proof
    assume "waiting S W it1 p"
    then have "waits S W it1 p" "pi_hasNext it1 \<longrightarrow> W \<le> length x" using p by (simp_all add: waiting_def)
    from Prepare_waits [OF base c e this(1) a x(1) this(2) p] show ?thesis using set settled_inv by auto
  next
    assume d: "direct S W it1 [] \<and> p = []"
    define it2 where "it2 = it1\<lparr>pi_numRealCopy := 0, pi_pcmData := ?a\<rparr>"
    have prep: "PCM_Prepare e ?a it1 = update_hasNext e it2" using d by (simp add: PCM_Prepare_def direct_def it2_def)
    have base2: "pcm_base S W it2" using base by (simp add: pcm_base_def it2_def)
    have n2: "pi_numCopy it2 = 0" "pi_cacheSize it2 = 0" "\<not> pi_hasNext it2" "pi_pcmData it2 = ?a"
      using d b(1,2) by (simp_all add: direct_def it2_def)
    show ?thesis
    proof (cases "W \<le> length x")
      case True
      then have "update_hasNext e it2 = Some (RETCODE_SUCCESS, it2\<lparr>pi_hasNext := True\<rparr>)"
        using SW n2 by (simp add: update_hasNext_def it2_def)
      moreover have "direct S W (it2\<lparr>pi_hasNext := True\<rparr>) x" using n2 a True by (simp add: direct_def)
      ultimately show ?thesis using set prep d base2 by (auto simp: pcm_inv_def pcm_base_def)
    next
      case False
      then have upd: "update_hasNext e it2 = MoveDataToCache e ?a it2"
        using SW n2 x(1) b(1,2) by (simp add: update_hasNext_def it2_def)
      have cells: "pcm_cells (pa_data ?a) (length x) it2 = Some (map Some x)" using arr_cells [OF a, of "length x"] x(1) by simp
      obtain m n where mv: "MoveDataToCache e ?a it2 =
            Some (RETCODE_SUCCESS, it2\<lparr>pi_cache := Some m, pi_cacheSize := length x, pi_nextCachePos := 0, pi_numCopy := n\<rparr>)"
          "pcm_base S W (it2\<lparr>pi_cache := Some m, pi_cacheSize := length x, pi_nextCachePos := 0, pi_numCopy := n\<rparr>)"
          "waits S W (it2\<lparr>pi_cache := Some m, pi_cacheSize := length x, pi_nextCachePos := 0, pi_numCopy := n\<rparr>) x"
        using MoveDataToCache_waits [OF base2 c e cells] x(1) False by (auto simp: Let_def)
      then show ?thesis using set prep upd d n2 False by (auto simp: pcm_inv_def waiting_def)
    qed
  qed
qed


lemma PCM_Init_starts:
  assumes c: "pcm_config_ok S W" and e: "pcm_env e"
  shows "\<exists>it. PCM_Init e S W PCMIterator_new = (RETCODE_SUCCESS, it) \<and> pcm_inv S W it []"
proof -
  note b = pcm_bounds [OF c]
  have size: "to_int32 (sz_add (sz_mul (sz_sub (sz_sub W 1) 1 div S) S) W) = int (max_cache S W)"
  proof (cases "W = 1")
    case True
    then have "S = 1" using b(1,2) by simp
    then show ?thesis using True by (simp add: sz_sub_def sz_mul_def sz_add_def to_int32_def swrap_def max_cache_def)
  next
    case False
    then have "sz_sub (sz_sub W 1) 1 = W - 2" using b(1,2,5) by (simp add: sz_sub_id)
    moreover have "(W - 2) div S * S + W = max_cache S W" using False by (simp add: max_cache_def)
    ultimately show ?thesis using b(4,5) by (simp add: sz_mul_id sz_add_id to_int32_small)
  qed
  obtain blk where "new_bytes e (max_cache S W * 2) = Some blk" using e b(4) by (fastforce simp: pcm_env_def copy_env_def)
  then have "PCM_Init e S W PCMIterator_new = (RETCODE_SUCCESS, PCMIterator_new\<lparr>pi_stepSize := S, pi_windowSize := W,
      pi_maxCacheSize := int (max_cache S W), pi_cache := Some (replicate (max_cache S W) None), pi_isInitialized := True\<rparr>)"
    using b size by (simp add: PCM_Init_def PCMIterator_new_def Let_def)
  then show ?thesis
    using b(1,2) arr_is_empty by (simp add: pcm_inv_def pcm_base_def direct_def PCMIterator_new_def)
qed

lemma pcm_feed_windows:
  assumes c: "pcm_config_ok S W" and e: "pcm_env e"
  shows "pcm_inv S W it p \<Longrightarrow> length p < W \<Longrightarrow> \<forall>x \<in> set xs. x \<noteq> [] \<and> length x < SZ \<Longrightarrow>
    \<exists>rs. pcm_feed e xs it = Some rs \<and> (\<forall>r \<in> set rs. fst r = RETCODE_SUCCESS) \<and>
      concat (map snd rs) = sliding S W (p @ concat xs)"
proof (induction xs arbitrary: it p)
  case Nil
  then show ?case by (simp add: sliding.simps [of S W p])
next
  case (Cons x xs)
  note b = pcm_bounds [OF c]
  obtain it1 where s: "PCM_SetInput e (Some x) it = Some (RETCODE_SUCCESS, it1)" "pcm_inv S W it1 (p @ x)"
    using SetInput_takes [OF Cons.prems(1) c e Cons.prems(2)] Cons.prems(3) by auto
  obtain it2 where d: "pcm_drain e it1 = Some (sliding S W (p @ x), it2)" "pcm_inv S W it2 (behind_windows S W (p @ x))"
    using pcm_drain_windows [OF c e s(2)] by blast
  obtain rs where rs: "pcm_feed e xs it2 = Some rs" "\<forall>r \<in> set rs. fst r = RETCODE_SUCCESS"
      "concat (map snd rs) = sliding S W (behind_windows S W (p @ x) @ concat xs)"
    using Cons.IH [OF d(2) behind_short [OF b(1,2)]] Cons.prems(3) by auto
  have "pcm_feed e (x # xs) it = Some ((RETCODE_SUCCESS, sliding S W (p @ x)) # rs)" using s(1) d(1) rs(1) by simp
  then show ?case using rs(2,3) sliding_append [OF b(1,2), of "p @ x" "concat xs"] by simp
qed

text \<open>C40. The windows of the sound: an iterator with a step of at most its window and a window of at
  most two steps and one sample gives to a caller who hands over any arrays of samples, of
  whatever lengths, exactly the windows of all the samples in a row - each once, in order, also
  those that begin in one array and end in another, with no access outside of a block and no
  sample read that was not written.\<close>

theorem pcm_windows:
  assumes "pcm_config_ok S W" and "pcm_env e" and "\<forall>x \<in> set xs. x \<noteq> [] \<and> length x < SZ"
  shows "\<exists>it rs. PCM_Init e S W PCMIterator_new = (RETCODE_SUCCESS, it) \<and> pcm_feed e xs it = Some rs \<and>
    (\<forall>r \<in> set rs. fst r = RETCODE_SUCCESS) \<and>
    concat (map snd rs) = map (\<lambda>j. take W (drop (j * S) (concat xs)))
      [0..<if length (concat xs) < W then 0 else (length (concat xs) - W) div S + 1]"
proof -
  note b = pcm_bounds [OF assms(1)]
  obtain it where it: "PCM_Init e S W PCMIterator_new = (RETCODE_SUCCESS, it)" "pcm_inv S W it []"
    using PCM_Init_starts [OF assms(1,2)] by blast
  have "length ([] :: int list) < W" using b(1,2) by simp
  from pcm_feed_windows [OF assms(1,2) it(2) this assms(3)] show ?thesis
    using it(1) sliding_map [OF b(1,2), of "concat xs"] by auto
qed

text \<open>The keyword spotting SDK: windows of 3360 samples every 3200.\<close>

lemma kws_pcm_config: "pcm_config_ok 3200 3360"
  by (simp add: pcm_config_ok_def max_cache_def)

theorem pcm_windows_witness:
  "\<exists>it rs. PCM_Init copying_env 2 3 PCMIterator_new = (RETCODE_SUCCESS, it) \<and>
    pcm_feed copying_env [[1], [2, 3, 4], [5, 6, 7]] it = Some rs \<and> (\<forall>r \<in> set rs. fst r = RETCODE_SUCCESS) \<and>
    concat (map snd rs) = [[1, 2, 3], [3, 4, 5], [5, 6, 7]]"
  using pcm_windows [of 2 3 copying_env "[[1], [2, 3, 4], [5, 6, 7]]"]
  by (simp add: pcm_config_ok_def max_cache_def pcm_env_def upt_rec)

text \<open>
  With a longer window the move to the front of the cache copies between overlapping blocks:
  a window of four samples every sample, and three arrays.
\<close>

lemma pcm_drain_cases:
  "PCM_HasNext e it = Some (False, it1) \<Longrightarrow> pcm_drain e it = Some ([], it1)"
  "PCM_HasNext e it = None \<Longrightarrow> pcm_drain e it = None"
  "PCM_HasNext e it = Some (True, it1) \<Longrightarrow> PCM_Next e it1 = Some (a, it2) \<Longrightarrow> pcm_read a it2 = Some w \<Longrightarrow>
    pcm_drain e it = pcm_drain e it2 \<bind> (\<lambda>(ws, it3). Some (w # ws, it3))"
  by (simp_all add: pcm_drain.simps [of e it])

lemmas pcm_run = PCM_Init_def PCM_SetInput_def PCM_HasNext_def PCM_Prepare_def PCM_Next_def MoveDataToCache_def update_hasNext_def
  window_out_def pcm_read_def cache_copy_def cells_at_def cells_put_def sz_add_def sz_sub_def sz_mul_def to_int32_def of_int32_def
  swrap_def PCMIterator_new_def pcm_empty_def copying_env_def total_env_def

lemma pcm_long_window_overlaps:
  "pcm_feed copying_env [[1], [2, 3], [4]] (snd (PCM_Init copying_env 1 4 PCMIterator_new)) = None"
  by (simp add: pcm_run pcm_drain_cases)

text \<open>\<open>Reset\<close> drops the cache of an initialised iterator, which then refuses an array shorter than a window.\<close>

lemma Reset_loses_cache:
  "map_option fst (PCM_SetInput copying_env (Some [1]) (PCM_Reset (snd (PCM_Init copying_env 2 3 PCMIterator_new)))) =
    Some RETCODE_MEMORY_COPY_FAILURE"
  by (simp add: pcm_run PCM_Reset_def)

end
