(* ===== verification/KwsSdkProofs.thy ===== *)
theory KwsSdkProofs
  imports KwsSdk PcmProofs
begin

text \<open>
  The keyword spotting SDK: for the sound of all its calls, window after window, the features go to
  the service and the answers to the callback.
\<close>

section \<open>The MFCC processor and the service\<close>

definition array_of :: "byte list list \<Rightarrow> arr" where
  "array_of xs = \<lparr>arr_data = Some xs, arr_size = length xs\<rparr>"

text \<open>
  A processor that succeeds and computes 400 features of two bytes, all of them \<open>good\<close>; a service that,
  in a world related to the state \<open>q\<close>, answers a request of the handle for good features with the
  integers \<open>answer\<close> gives, and leaves a world related to the next state.
\<close>

definition mfcc_computes :: "'m mfcc_ops \<Rightarrow> (byte list list \<Rightarrow> bool) \<Rightarrow> ('m \<Rightarrow> int list \<Rightarrow> byte list list \<times> 'm) \<Rightarrow> bool" where
  "mfcc_computes mo good f \<longleftrightarrow> (\<forall>mf samples. mf_Process mo samples mf = (RETCODE_SUCCESS, array_of (fst (f mf samples)), snd (f mf samples)) \<and>
     length (fst (f mf samples)) = 400 \<and> widths 2 (fst (f mf samples)) \<and> good (fst (f mf samples)))"

definition kws_message :: "int \<Rightarrow> byte list list \<Rightarrow> param list" where
  "kws_message h xs = [PVal (handle_bytes h), PArr (array_of xs)]"

definition kws_service ::
  "nat \<Rightarrow> 'w aie_ops \<Rightarrow> ClientInfo \<Rightarrow> int \<Rightarrow> ('w \<Rightarrow> 'q \<Rightarrow> bool) \<Rightarrow> (byte list list \<Rightarrow> bool) \<Rightarrow>
   ('q \<Rightarrow> byte list list \<Rightarrow> byte list list \<times> 'q) \<Rightarrow> bool" where
  "kws_service lim ao ci h rel good answer \<longleftrightarrow> (\<forall>m inp w q xs. rel w q \<and> good xs \<and> sound_env m \<and> length xs = 400 \<and> widths 2 xs \<and>
     ProcessEncode m empty_DataInfo (kws_message h xs) = Some (RETCODE_SUCCESS, inp) \<longrightarrow>
     (let vs = fst (answer q xs) in vs \<noteq> [] \<and> widths 4 vs \<and> length (message (kws_message h vs)) \<le> lim \<and>
       (\<exists>w'. ao_SyncProcess ao ci kws_algorithmInfo inp empty_DataInfo w =
         Some (RETCODE_SUCCESS, \<lparr>di_data = Some (message (kws_message h vs)), di_length = int (length (message (kws_message h vs)))\<rparr>, w') \<and>
         rel w' (snd (answer q xs)))))"

text \<open>What becomes of a window, and of windows one after the other.\<close>

definition window_step ::
  "('m \<Rightarrow> int list \<Rightarrow> byte list list \<times> 'm) \<Rightarrow> ('q \<Rightarrow> byte list list \<Rightarrow> byte list list \<times> 'q) \<Rightarrow> int list \<Rightarrow> 'm \<times> 'q \<Rightarrow> arr \<times> 'm \<times> 'q" where
  "window_step f answer samples st =
     (let (xs, mf) = f (fst st) samples; (vs, w) = answer (snd st) xs in (array_of vs, mf, w))"

fun all_windows :: "(int list \<Rightarrow> 's \<Rightarrow> arr \<times> 's) \<Rightarrow> int list list \<Rightarrow> 's \<Rightarrow> arr list \<times> 's" where
  "all_windows step [] st = ([], st)"
| "all_windows step (x # xs) st =
     (let (v, st1) = step x st; (vs, st2) = all_windows step xs st1 in (v # vs, st2))"

lemma all_windows_append:
  "all_windows step (xs @ ys) st =
    (let (vs, st1) = all_windows step xs st; (us, st2) = all_windows step ys st1 in (vs @ us, st2))"
  by (induction xs arbitrary: st) (auto simp: case_prod_unfold Let_def)

section \<open>A window\<close>

definition kws_memory :: "nat \<Rightarrow> EncDec.cenv \<Rightarrow> bool" where
  "kws_memory lim m \<longleftrightarrow> sound_env m \<and> roomy_env (room lim) m \<and> 824 \<le> lim \<and> int lim \<le> INT_MAX"

lemma kws_message_ok:
  assumes "xs \<noteq> []" and "widths k xs" and "0 < k"
  shows "list_all param_ok (kws_message h xs)" "length (payload (kws_message h xs)) = 16 + k * length xs"
    "list_all2 fits [TVal 8, TArr k fresh_arr] (kws_message h xs)" "map decoded (kws_message h xs) = kws_message h xs"
proof -
  show "list_all param_ok (kws_message h xs)" using assms by (auto simp: kws_message_def array_of_def widths_def)
  have "length (concat xs) = k * length xs" using assms(2) by (induction xs) (auto simp: widths_def)
  then show "length (payload (kws_message h xs)) = 16 + k * length xs" by (simp add: kws_message_def array_of_def payload_def)
qed (use assms in \<open>simp_all add: kws_message_def array_of_def\<close>)

lemma Execute_answers:
  assumes mem: "kws_memory lim (se_mem e)" and srv: "kws_service lim (se_aie e) (ks_clientInfo s) (ks_kwsHandle s) rel good answer"
    and s: "intptr (ks_kwsHandle s)" "ks_callback s" and xs: "length xs = 400" "widths 2 xs" "good xs" and w: "rel w q"
  shows "\<exists>w'. KwsSdk_Execute e (array_of xs) s w =
    Some (KWS_RETCODE_SUCCESS, s\<lparr>ks_events := ks_events s @ [OnResult (array_of (fst (answer q xs)))]\<rparr>, w') \<and>
    rel w' (snd (answer q xs))"
proof -
  let ?h = "ks_kwsHandle s"
  have m: "sound_env (se_mem e)" "roomy_env (room lim) (se_mem e)" "824 \<le> lim" "int lim \<le> INT_MAX"
    using mem by (simp_all add: kws_memory_def)
  have ne: "xs \<noteq> []" using xs(1) by auto
  note k = kws_message_ok [OF ne xs(2) zero_less_numeral, of ?h]
  have "length (message (kws_message ?h xs)) = 824" using k(2) xs(1) by (simp add: length_message)
  then have "roomy_env (room (length (message (kws_message ?h xs)))) (se_mem e)" "int (length (message (kws_message ?h xs))) \<le> INT_MAX"
    using m(2,3) by (auto simp: roomy_env_def room_def)
  moreover have "length (payload (kws_message ?h xs)) < 2 ^ 59" using k(2) xs(1) by simp
  ultimately obtain inp where inp: "ProcessEncode (se_mem e) empty_DataInfo (kws_message ?h xs) = Some (RETCODE_SUCCESS, inp)"
    using ProcessEncode_delivers [OF m(1) k(1), of empty_DataInfo] by auto
  define vs where "vs = fst (answer q xs)"
  define out where "out = \<lparr>di_data = Some (message (kws_message ?h vs)), di_length = int (length (message (kws_message ?h vs)))\<rparr>"
  obtain w' where a: "vs \<noteq> []" "widths 4 vs" "length (message (kws_message ?h vs)) \<le> lim"
      "ao_SyncProcess (se_aie e) (ks_clientInfo s) kws_algorithmInfo inp empty_DataInfo w = Some (RETCODE_SUCCESS, out, w')"
      "rel w' (snd (answer q xs))"
    using srv [unfolded kws_service_def Let_def, rule_format, of w q xs "se_mem e" inp] w xs m(1) inp
    unfolding vs_def [symmetric] out_def [symmetric] by blast
  note r = kws_message_ok [OF a(1,2) zero_less_numeral, of ?h]
  have "length (message (kws_message ?h vs)) \<le> room lim" using a(3) by (simp add: room_def)
  then have "roomy_env (length (message (kws_message ?h vs))) (se_mem e)" using m(2) by (auto simp: roomy_env_def)
  then have dec: "ProcessDecode (se_mem e) out [TVal 8, TArr 4 fresh_arr] = Some (RETCODE_SUCCESS, kws_message ?h vs)"
    using ProcessDecode_message [OF r(1,3), of "se_mem e" out] a(3) m(4) r(4) by (simp add: out_def)
  have "0 < di_length out" "di_data out \<noteq> None" by (simp_all add: out_def length_message)
  then show ?thesis
    using inp a(4,5) dec s
    by (intro exI [of _ w']) (auto simp: KwsSdk_Execute_def kws_message_def handle_read_def handle_roundtrip kws_notify_def vs_def)
qed

section \<open>The sound of a call\<close>

lemma execute_loop_windows:
  assumes c: "pcm_config_ok S W" and env: "pcm_env (se_mem e)" "kws_memory lim (se_mem e)" and mo: "mfcc_computes (se_mfcc e) good f"
  shows "pcm_inv S W it p \<Longrightarrow> ks_pcmIterator s = Some it \<Longrightarrow> ks_mfcc s = Some mf \<Longrightarrow> ks_callback s \<Longrightarrow> intptr (ks_kwsHandle s) \<Longrightarrow>
    kws_service lim (se_aie e) (ks_clientInfo s) (ks_kwsHandle s) rel good answer \<Longrightarrow> rel w q \<Longrightarrow>
    \<exists>it' vs mf' q' w'. all_windows (window_step f answer) (sliding S W p) (mf, q) = (vs, mf', q') \<and> rel w' q' \<and>
      execute_loop e s w = Some (KWS_RETCODE_SUCCESS,
        s\<lparr>ks_pcmIterator := Some it', ks_mfcc := Some mf', ks_events := ks_events s @ map OnResult vs\<rparr>, w') \<and>
      pcm_inv S W it' (behind_windows S W p)"
proof (induction p arbitrary: it s mf w q rule: length_induct)
  case (1 p)
  note b = pcm_bounds [OF c]
  obtain it1 where h: "PCM_HasNext (se_mem e) it = Some (W \<le> length p, it1)" "pcm_settled S W it1 p"
    using HasNext_correct [OF 1(2) c env(1)] by blast
  show ?case
  proof (cases "W \<le> length p")
    case False
    have "execute_loop e s w = Some (KWS_RETCODE_SUCCESS, s\<lparr>ks_pcmIterator := Some it1\<rparr>, w)"
      using h(1) False 1(3) by (subst execute_loop.simps) simp
    moreover have "s\<lparr>ks_pcmIterator := Some it1\<rparr> =
        s\<lparr>ks_pcmIterator := Some it1, ks_mfcc := Some mf, ks_events := ks_events s @ map OnResult []\<rparr>"
      using 1(4) by simp
    ultimately show ?thesis
      using False settled_inv [OF h(2)] 1(8) by (auto simp: sliding.simps [of S W p] behind_windows.simps [of S W p])
  next
    case True
    obtain a it2 where n: "PCM_Next (se_mem e) it1 = Some (a, it2)" "pcm_read a it2 = Some (take W p)" "pcm_inv S W it2 (drop S p)"
      using Next_correct [OF settled_inv [OF h(2)] c env(1)] True by auto
    define xs where "xs = fst (f mf (take W p))"
    define mf1 where "mf1 = snd (f mf (take W p))"
    have m: "mf_Process (se_mfcc e) (take W p) mf = (RETCODE_SUCCESS, array_of xs, mf1)" "length xs = 400" "widths 2 xs" "good xs"
      using mo by (simp_all add: mfcc_computes_def xs_def mf1_def)
    define s1 where "s1 = s\<lparr>ks_pcmIterator := Some it2, ks_mfcc := Some mf1\<rparr>"
    define s2 where "s2 = s1\<lparr>ks_events := ks_events s @ [OnResult (array_of (fst (answer q xs)))]\<rparr>"
    obtain w1 where ex: "KwsSdk_Execute e (array_of xs) s1 w = Some (KWS_RETCODE_SUCCESS, s2, w1)" "rel w1 (snd (answer q xs))"
      using Execute_answers [OF env(2), of s1 rel good answer xs w q] 1(5-8) m(2-4) by (auto simp: s1_def s2_def)
    have step: "execute_loop e s w = execute_loop e s2 w1"
      using h(1) True 1(3,4) n(1,2) m(1) ex(1) by (subst execute_loop.simps) (simp add: s1_def [symmetric])
    have "length (drop S p) < length p" using True b(1,2) by simp
    moreover have "ks_pcmIterator s2 = Some it2" "ks_mfcc s2 = Some mf1" "ks_callback s2" "intptr (ks_kwsHandle s2)"
        "kws_service lim (se_aie e) (ks_clientInfo s2) (ks_kwsHandle s2) rel good answer"
      using 1(5-7) by (simp_all add: s2_def s1_def)
    ultimately obtain it' vs mf' q' w' where r:
        "all_windows (window_step f answer) (sliding S W (drop S p)) (mf1, snd (answer q xs)) = (vs, mf', q')" "rel w' q'"
        "execute_loop e s2 w1 = Some (KWS_RETCODE_SUCCESS,
          s2\<lparr>ks_pcmIterator := Some it', ks_mfcc := Some mf', ks_events := ks_events s2 @ map OnResult vs\<rparr>, w')"
        "pcm_inv S W it' (behind_windows S W (drop S p))"
      using 1(1) n(3) ex(2) by blast
    have "all_windows (window_step f answer) (sliding S W p) (mf, q) = (array_of (fst (answer q xs)) # vs, mf', q')"
      using r(1) True b(1,2)
      by (simp add: sliding.simps [of S W p] window_step_def xs_def mf1_def case_prod_unfold Let_def)
    moreover have "execute_loop e s w = Some (KWS_RETCODE_SUCCESS, s\<lparr>ks_pcmIterator := Some it', ks_mfcc := Some mf',
        ks_events := ks_events s @ map OnResult (array_of (fst (answer q xs)) # vs)\<rparr>, w')"
      using step r(3) by (simp add: s2_def s1_def)
    moreover have "pcm_inv S W it' (behind_windows S W p)"
      using r(4) True b(1,2) by (simp add: behind_windows.simps [of S W p])
    ultimately show ?thesis using r(2) by blast
  qed
qed


text \<open>An application that executes the SDK on one array of samples after the other.\<close>

fun kws_calls :: "('w, 'm) senv \<Rightarrow> int list list \<Rightarrow> 'm KWSSdkImpl \<Rightarrow> 'w \<Rightarrow> (int list \<times> 'm KWSSdkImpl \<times> 'w) option" where
  "kws_calls e [] s w = Some ([], s, w)"
| "kws_calls e (x # xs) s w =
     do {
       (r, s1, w1) \<leftarrow> KwsSdk_SyncExecute e (Some x) s w;
       (rs, s2, w2) \<leftarrow> kws_calls e xs s1 w1;
       Some (r # rs, s2, w2)
     }"

lemma kws_calls_windows:
  assumes c: "pcm_config_ok S W" and env: "pcm_env (se_mem e)" "kws_memory lim (se_mem e)" and mo: "mfcc_computes (se_mfcc e) good f"
  shows "pcm_inv S W it p \<Longrightarrow> length p < W \<Longrightarrow> ks_pcmIterator s = Some it \<Longrightarrow> ks_mfcc s = Some mf \<Longrightarrow> ks_callback s \<Longrightarrow>
    intptr (ks_kwsHandle s) \<Longrightarrow> ks_kwsHandle s \<noteq> INVALID_KWS_HANDLE \<Longrightarrow>
    kws_service lim (se_aie e) (ks_clientInfo s) (ks_kwsHandle s) rel good answer \<Longrightarrow> \<forall>x \<in> set xs. x \<noteq> [] \<and> length x < SZ \<Longrightarrow>
    rel w q \<Longrightarrow>
    \<exists>it' vs mf' q' w'. all_windows (window_step f answer) (sliding S W (p @ concat xs)) (mf, q) = (vs, mf', q') \<and> rel w' q' \<and>
      kws_calls e xs s w = Some (replicate (length xs) KWS_RETCODE_SUCCESS,
        s\<lparr>ks_pcmIterator := Some it', ks_mfcc := Some mf', ks_events := ks_events s @ map OnResult vs\<rparr>, w')"
proof (induction xs arbitrary: it p s mf w q)
  case Nil
  have "s = s\<lparr>ks_pcmIterator := Some it, ks_mfcc := Some mf, ks_events := ks_events s @ map OnResult []\<rparr>"
    using Nil(3,4) by simp
  then show ?case using Nil(2,10) by (auto simp: sliding.simps [of S W p])
next
  case (Cons x xs)
  note b = pcm_bounds [OF c]
  obtain it1 where i: "PCM_SetInput (se_mem e) (Some x) it = Some (RETCODE_SUCCESS, it1)" "pcm_inv S W it1 (p @ x)"
    using SetInput_takes [OF Cons.prems(1) c env(1) Cons.prems(2)] Cons.prems(9) by auto
  define s1 where "s1 = s\<lparr>ks_pcmIterator := Some it1\<rparr>"
  have s1: "ks_pcmIterator s1 = Some it1" "ks_mfcc s1 = Some mf" "ks_callback s1" "intptr (ks_kwsHandle s1)"
      "kws_service lim (se_aie e) (ks_clientInfo s1) (ks_kwsHandle s1) rel good answer" "rel w q"
    using Cons.prems(4-8,10) by (simp_all add: s1_def)
  obtain it2 vs mf1 q1 w1 where l: "all_windows (window_step f answer) (sliding S W (p @ x)) (mf, q) = (vs, mf1, q1)" "rel w1 q1"
      "execute_loop e s1 w = Some (KWS_RETCODE_SUCCESS,
        s1\<lparr>ks_pcmIterator := Some it2, ks_mfcc := Some mf1, ks_events := ks_events s1 @ map OnResult vs\<rparr>, w1)"
      "pcm_inv S W it2 (behind_windows S W (p @ x))"
    using execute_loop_windows [OF c env mo i(2) s1] by blast
  define s2 where "s2 = s\<lparr>ks_pcmIterator := Some it2, ks_mfcc := Some mf1, ks_events := ks_events s @ map OnResult vs\<rparr>"
  have call: "KwsSdk_SyncExecute e (Some x) s w = Some (KWS_RETCODE_SUCCESS, s2, w1)"
    using Cons.prems(3,5,7) i(1) l(3) by (simp add: KwsSdk_SyncExecute_def s1_def s2_def)
  have s2: "ks_pcmIterator s2 = Some it2" "ks_mfcc s2 = Some mf1" "ks_callback s2" "intptr (ks_kwsHandle s2)"
      "ks_kwsHandle s2 \<noteq> INVALID_KWS_HANDLE" "kws_service lim (se_aie e) (ks_clientInfo s2) (ks_kwsHandle s2) rel good answer"
    using Cons.prems(5-8) by (simp_all add: s2_def)
  have tail: "\<forall>x \<in> set xs. x \<noteq> [] \<and> length x < SZ" using Cons.prems(9) by simp
  obtain it' us mf' q' w' where r: "all_windows (window_step f answer) (sliding S W (behind_windows S W (p @ x) @ concat xs)) (mf1, q1) = (us, mf', q')"
      "rel w' q'"
      "kws_calls e xs s2 w1 = Some (replicate (length xs) KWS_RETCODE_SUCCESS,
        s2\<lparr>ks_pcmIterator := Some it', ks_mfcc := Some mf', ks_events := ks_events s2 @ map OnResult us\<rparr>, w')"
    using Cons.IH [OF l(4) behind_short [OF b(1,2)] s2 tail l(2)] by blast
  have "sliding S W (p @ concat (x # xs)) = sliding S W (p @ x) @ sliding S W (behind_windows S W (p @ x) @ concat xs)"
    using sliding_append [OF b(1,2), of "p @ x" "concat xs"] by simp
  then have "all_windows (window_step f answer) (sliding S W (p @ concat (x # xs))) (mf, q) = (vs @ us, mf', q')"
    using l(1) r(1) by (simp add: all_windows_append)
  moreover have "kws_calls e (x # xs) s w = Some (replicate (length (x # xs)) KWS_RETCODE_SUCCESS,
      s\<lparr>ks_pcmIterator := Some it', ks_mfcc := Some mf', ks_events := ks_events s @ map OnResult (vs @ us)\<rparr>, w')"
    using call r(3) by (simp add: s2_def)
  ultimately show ?case using r(2) by blast
qed

lemma kws_components:
  assumes env: "pcm_env (se_mem e)" "se_iterator e"
    and mo: "mf_new (se_mfcc e) = Some mf0" "mf_Init (se_mfcc e) InitMFCCConfiguration mf0 = (RETCODE_SUCCESS, mf)"
  shows "\<exists>it. KwsSdk_InitComponents e s = (KWS_RETCODE_SUCCESS, s\<lparr>ks_mfcc := Some mf, ks_pcmIterator := Some it\<rparr>) \<and>
    pcm_inv 3200 3360 it []"
proof -
  obtain it where it: "PCM_Init (se_mem e) 3200 3360 PCMIterator_new = (RETCODE_SUCCESS, it)" "pcm_inv 3200 3360 it []"
    using PCM_Init_starts [OF kws_pcm_config env(1)] by blast
  have cfg: "sz_mul (400 div mc_numChannels InitMFCCConfiguration) (mc_slideSize InitMFCCConfiguration) = 3200"
      "sz_sub (sz_add 3200 (mc_windowSize InitMFCCConfiguration)) (mc_slideSize InitMFCCConfiguration) = 3360"
    by (simp_all add: InitMFCCConfiguration_def sz_mul_def sz_sub_def sz_add_def)
  show ?thesis unfolding KwsSdk_InitComponents_def Let_def cfg using mo env(2) it by (intro exI [of _ it]) simp
qed

text \<open>Every window of the sound is reported: after the components of the SDK are set up and a handle
  is there, an application may hand over its sound in arrays of any lengths, in as many calls as
  it likes. Each call returns success, and all in all the callback gets one result for each of
  the 3360-sample windows, every 3200 samples, of the whole sound in a row, in order: the answer
  the service gives to the features of that window, with the state the earlier windows left it
  in. Provided the MFCC processor and the service answer, and memory lasts.\<close>

lemma kws_sound_reported:
  assumes env: "pcm_env (se_mem e)" "kws_memory lim (se_mem e)" "se_iterator e"
    and mo: "mfcc_computes (se_mfcc e) good f" "mf_new (se_mfcc e) = Some mf0" "mf_Init (se_mfcc e) InitMFCCConfiguration mf0 = (RETCODE_SUCCESS, mf)"
    and h: "intptr h" "h \<noteq> INVALID_KWS_HANDLE" "ks_callback s"
    and srv: "kws_service lim (se_aie e) ci h rel good answer" "rel w q"
    and xs: "\<forall>x \<in> set xs. x \<noteq> [] \<and> length x < SZ"
  shows "\<exists>s1 s2 vs mf' q' w'. KwsSdk_InitComponents e s = (KWS_RETCODE_SUCCESS, s1) \<and>
    kws_calls e xs (s1\<lparr>ks_kwsHandle := h, ks_clientInfo := ci\<rparr>) w = Some (replicate (length xs) KWS_RETCODE_SUCCESS, s2, w') \<and>
    all_windows (window_step f answer)
      (map (\<lambda>j. take 3360 (drop (j * 3200) (concat xs)))
        [0..<if length (concat xs) < 3360 then 0 else (length (concat xs) - 3360) div 3200 + 1]) (mf, q) = (vs, mf', q') \<and> rel w' q' \<and>
    ks_events s2 = ks_events s @ map OnResult vs \<and> ks_clientInfo s2 = ci \<and> ks_kwsHandle s2 = h"
proof -
  note b = pcm_bounds [OF kws_pcm_config]
  obtain it where it: "KwsSdk_InitComponents e s = (KWS_RETCODE_SUCCESS, s\<lparr>ks_mfcc := Some mf, ks_pcmIterator := Some it\<rparr>)"
      "pcm_inv 3200 3360 it []"
    using kws_components [OF env(1,3) mo(2,3)] by blast
  define s1 where "s1 = s\<lparr>ks_mfcc := Some mf, ks_pcmIterator := Some it\<rparr>"
  have init: "KwsSdk_InitComponents e s = (KWS_RETCODE_SUCCESS, s1)" using it(1) by (simp add: s1_def)
  let ?s = "s1\<lparr>ks_kwsHandle := h, ks_clientInfo := ci\<rparr>"
  have "\<exists>it' vs mf' q' w'. all_windows (window_step f answer) (sliding 3200 3360 ([] @ concat xs)) (mf, q) = (vs, mf', q') \<and> rel w' q' \<and>
      kws_calls e xs ?s w = Some (replicate (length xs) KWS_RETCODE_SUCCESS,
        ?s\<lparr>ks_pcmIterator := Some it', ks_mfcc := Some mf', ks_events := ks_events ?s @ map OnResult vs\<rparr>, w')"
    by (rule kws_calls_windows [OF kws_pcm_config env(1,2) mo(1) it(2)]) (use h srv xs in \<open>simp_all add: s1_def\<close>)
  then obtain it' vs mf' q' w' where r: "all_windows (window_step f answer) (sliding 3200 3360 (concat xs)) (mf, q) = (vs, mf', q')"
      "rel w' q'"
      "kws_calls e xs ?s w = Some (replicate (length xs) KWS_RETCODE_SUCCESS,
        ?s\<lparr>ks_pcmIterator := Some it', ks_mfcc := Some mf', ks_events := ks_events ?s @ map OnResult vs\<rparr>, w')"
    by auto
  have "ks_events ?s = ks_events s" by (simp add: s1_def)
  then show ?thesis
    using init r sliding_map [OF b(1,2), of "concat xs"] by (intro exI conjI) (assumption | simp)+
qed


section \<open>A failed window\<close>

text \<open>
  When the service fails at a window and another window is there, the call returns with it in the
  iterator, and every later call is refused: nothing resets the iterator.
\<close>

lemma pending_window_refuses:
  assumes c: "pcm_config_ok S W" and env: "pcm_env (se_mem e)"
    and inv: "pcm_inv S W it p" "W \<le> length p"
    and s: "ks_pcmIterator s = Some it" "ks_callback s" "ks_kwsHandle s \<noteq> INVALID_KWS_HANDLE"
  shows "\<exists>it'. KwsSdk_SyncExecute e input s w = Some (KWS_RETCODE_FAILURE, s\<lparr>ks_pcmIterator := Some it'\<rparr>, w) \<and> pcm_inv S W it' p"
proof -
  obtain it1 where h: "PCM_HasNext (se_mem e) it = Some (True, it1)" "pcm_settled S W it1 p"
    using HasNext_correct [OF inv(1) c env] inv(2) by auto
  have "pi_isInitialized it" using inv(1) by (simp add: pcm_inv_def pcm_base_def)
  then have "PCM_SetInput (se_mem e) input it = Some (RETCODE_FAILURE, it1)" using h(1) by (simp add: PCM_SetInput_def)
  then show ?thesis using s settled_inv [OF h(2)] by (auto simp: KwsSdk_SyncExecute_def)
qed

lemma failed_window_stays:
  assumes c: "pcm_config_ok S W" and env: "pcm_env (se_mem e)" and mo: "mfcc_computes (se_mfcc e) good f"
    and inv: "pcm_inv S W it p" "W + S \<le> length p"
    and s: "ks_pcmIterator s = Some it" "ks_mfcc s = Some mf" "ks_callback s"
    and enc: "ProcessEncode (se_mem e) empty_DataInfo (kws_message (ks_kwsHandle s) (fst (f mf (take W p)))) = Some (RETCODE_SUCCESS, inp)"
    and bad: "ao_SyncProcess (se_aie e) (ks_clientInfo s) kws_algorithmInfo inp empty_DataInfo w = Some (r, out, w1)" "r \<noteq> RETCODE_SUCCESS"
  shows "\<exists>s1 it1. execute_loop e s w = Some (KWS_RETCODE_PLUGIN_EXECUTION_ERROR, s1, w1) \<and>
    ks_events s1 = ks_events s @ [OnError KWS_RETCODE_PLUGIN_EXECUTION_ERROR] \<and>
    ks_pcmIterator s1 = Some it1 \<and> pcm_inv S W it1 (drop S p) \<and> W \<le> length (drop S p)"
proof -
  obtain it1 where h: "PCM_HasNext (se_mem e) it = Some (True, it1)" "pcm_settled S W it1 p"
    using HasNext_correct [OF inv(1) c env] inv(2) by auto
  obtain a it2 where n: "PCM_Next (se_mem e) it1 = Some (a, it2)" "pcm_read a it2 = Some (take W p)" "pcm_inv S W it2 (drop S p)"
    using Next_correct [OF settled_inv [OF h(2)] c env] inv(2) by auto
  define xs where "xs = fst (f mf (take W p))"
  define mf1 where "mf1 = snd (f mf (take W p))"
  have m: "mf_Process (se_mfcc e) (take W p) mf = (RETCODE_SUCCESS, array_of xs, mf1)"
    using mo by (simp add: mfcc_computes_def xs_def mf1_def)
  define s1 where "s1 = s\<lparr>ks_pcmIterator := Some it2, ks_mfcc := Some mf1\<rparr>"
  define s2 where "s2 = s1\<lparr>ks_events := ks_events s @ [OnError KWS_RETCODE_PLUGIN_EXECUTION_ERROR]\<rparr>"
  have "KwsSdk_Execute e (array_of xs) s1 w = Some (KWS_RETCODE_PLUGIN_EXECUTION_ERROR, s2, w1)"
    using enc bad s(3) by (simp add: KwsSdk_Execute_def s1_def s2_def kws_notify_def kws_message_def xs_def)
  then have "execute_loop e s w = Some (KWS_RETCODE_PLUGIN_EXECUTION_ERROR, s2, w1)"
    using h(1) s(1,2) n(1,2) m by (subst execute_loop.simps) (simp add: s1_def [symmetric])
  then show ?thesis using n(3) inv(2) by (intro exI [of _ s2] exI [of _ it2]) (simp add: s2_def s1_def)
qed

end
