(* ===== verification/FeatureNorm.thy ===== *)
theory FeatureNorm
  imports Feature
begin

text \<open>
  The type converter and the normaliser of services/common/platform/os_wrapper/feature. Samples
  are read from and written to blocks of bytes by their type. The arithmetic of \<open>float\<close>
  (four bytes) and \<open>atof\<close> are parameters; a conversion to an integer type that cannot hold
  the value is undefined.
\<close>

section \<open>Samples\<close>

record float_ops =
  fo_of_int :: "int \<Rightarrow> 32 word"
  fo_to_int :: "32 word \<Rightarrow> int option"
  fo_sub :: "32 word \<Rightarrow> 32 word \<Rightarrow> 32 word"
  fo_div :: "32 word \<Rightarrow> 32 word \<Rightarrow> 32 word"
  fo_mul :: "32 word \<Rightarrow> 32 word \<Rightarrow> 32 word"
  fo_abs :: "32 word \<Rightarrow> 32 word"
  fo_less :: "32 word \<Rightarrow> 32 word \<Rightarrow> bool"
  fo_zero :: "32 word"
  fo_epsilon :: "32 word"
  fo_atof :: "string \<Rightarrow> 32 word"

definition load_at :: "nat \<Rightarrow> nat \<Rightarrow> byte list \<Rightarrow> nat option" where
  "load_at w i bs = map_option le_val (mem_read (w * i) w bs)"

definition store_at :: "nat \<Rightarrow> nat \<Rightarrow> nat \<Rightarrow> byte list \<Rightarrow> byte list option" where
  "store_at w i n bs = mem_write (w * i) (le_bytes w n) bs"

datatype sample = SInt int | SFloat "32 word"

fun unsigned_type :: "DataType \<Rightarrow> bool" where
  "unsigned_type UINT8 = True" | "unsigned_type UINT16 = True" | "unsigned_type UINT32 = True" | "unsigned_type _ = False"

abbreviation type_bits :: "DataType \<Rightarrow> nat" where "type_bits t \<equiv> 8 * CONVERT_DATATYPE_TO_SIZE t"

definition read_sample :: "DataType \<Rightarrow> byte list \<Rightarrow> nat \<Rightarrow> sample option" where
  "read_sample t bs i =
     map_option (\<lambda>n. if t = FLOAT then SFloat (word_of_nat n)
                     else if unsigned_type t then SInt (int n) else SInt (swrap (type_bits t) (int n)))
       (load_at (CONVERT_DATATYPE_TO_SIZE t) i bs)"

definition in_type :: "DataType \<Rightarrow> int \<Rightarrow> bool" where
  "in_type t i \<longleftrightarrow> (if unsigned_type t then 0 \<le> i \<and> i < 2 ^ type_bits t
     else - (2 ^ (type_bits t - 1)) \<le> i \<and> i < 2 ^ (type_bits t - 1))"

text \<open>The object representation of a sample converted to a type.\<close>

fun convert_sample :: "float_ops \<Rightarrow> DataType \<Rightarrow> sample \<Rightarrow> nat option" where
  "convert_sample fo t (SInt i) =
     Some (if t = FLOAT then unat (fo_of_int fo i) else nat (i mod 2 ^ type_bits t))"
| "convert_sample fo t (SFloat f) =
     (if t = FLOAT then Some (unat f)
      else case fo_to_int fo f of
        None \<Rightarrow> None
      | Some i \<Rightarrow> if in_type t i then Some (nat (i mod 2 ^ type_bits t)) else None)"

text \<open>The loop that fills a block, sample after sample: \<open>f i\<close> is what the body stores at \<open>i\<close>.\<close>

fun fill_from :: "(nat \<Rightarrow> nat option) \<Rightarrow> nat \<Rightarrow> nat \<Rightarrow> nat \<Rightarrow> byte list \<Rightarrow> byte list option" where
  "fill_from f w i 0 out = Some out"
| "fill_from f w i (Suc k) out =
     do {
       n \<leftarrow> f i;
       out1 \<leftarrow> store_at w i n out;
       fill_from f w (Suc i) k out1
     }"

section \<open>TypeConverter\<close>

text \<open>\<open>tc_freed\<close>: the pointer is what it was before the block it points to was deleted.\<close>

record TypeConverter =
  tc_isInitialized :: bool
  tc_dataType :: DataType
  tc_data :: "byte list option"
  tc_freed :: bool
  tc_size :: nat

definition TypeConverter_new :: TypeConverter where
  "TypeConverter_new = \<lparr>tc_isInitialized = False, tc_dataType = UNKNOWN, tc_data = None, tc_freed = False, tc_size = 0\<rparr>"

record TypeConverterConfig =
  cc_dataType :: DataType
  cc_size :: nat

definition TypeConverter_Init :: "cenv \<Rightarrow> TypeConverterConfig option \<Rightarrow> TypeConverter \<Rightarrow> retcode \<times> TypeConverter" where
  "TypeConverter_Init e config tc =
     (if tc_isInitialized tc then (RETCODE_FAILURE, tc)
      else case config of
        None \<Rightarrow> (RETCODE_FAILURE, tc)
      | Some c \<Rightarrow>
          if cc_dataType c = UNKNOWN then (RETCODE_FAILURE, tc)
          else
            (let tc1 = tc\<lparr>tc_dataType := cc_dataType c, tc_size := cc_size c\<rparr>;
                 bufferSize = cc_size c * CONVERT_DATATYPE_TO_SIZE (cc_dataType c) mod SZ in
             if bufferSize > MAX_SAMPLE_SIZE then (RETCODE_FAILURE, tc1)
             else case new_bytes e bufferSize of
               None \<Rightarrow> (RETCODE_FAILURE, tc1\<lparr>tc_data := None, tc_freed := False\<rparr>)
             | Some blk \<Rightarrow> (RETCODE_SUCCESS, tc1\<lparr>tc_data := Some blk, tc_freed := False, tc_isInitialized := True\<rparr>)))"

text \<open>\<open>Release\<close> deletes the block through a copy of the pointer: the member keeps its value.\<close>

definition TypeConverter_Release :: "TypeConverter \<Rightarrow> TypeConverter" where
  "TypeConverter_Release tc = (if tc_isInitialized tc then tc\<lparr>tc_freed := True, tc_isInitialized := False\<rparr> else tc)"

text \<open>
  \<open>DoCast\<close> and \<open>InnerProcess\<close>: the type of the input selects the template, that of the buffer
  the loop. Writing through a null or dangling pointer is undefined.
\<close>

definition DoCast :: "float_ops \<Rightarrow> DataType \<Rightarrow> byte list \<Rightarrow> nat \<Rightarrow> TypeConverter \<Rightarrow> (retcode \<times> TypeConverter) option" where
  "DoCast fo inType inputAddr inputSize tc =
     (if tc_dataType tc = UNKNOWN then Some (RETCODE_FAILURE, tc)
      else do {
        out \<leftarrow> (if tc_freed tc then None else tc_data tc);
        out1 \<leftarrow> fill_from (\<lambda>i. do { v \<leftarrow> read_sample inType inputAddr i; convert_sample fo (tc_dataType tc) v })
          (CONVERT_DATATYPE_TO_SIZE (tc_dataType tc)) 0 inputSize out;
        Some (RETCODE_SUCCESS, tc\<lparr>tc_data := Some out1\<rparr>)
      })"

definition TypeConverter_InnerProcess ::
  "float_ops \<Rightarrow> byte list FeatureData \<Rightarrow> TypeConverter \<Rightarrow> (retcode \<times> TypeConverter) option" where
  "TypeConverter_InnerProcess fo input tc =
     (if fd_dataType input = UNKNOWN then Some (RETCODE_FAILURE, tc)
      else do { bs \<leftarrow> fd_data input; DoCast fo (fd_dataType input) bs (fd_size input) tc })"

text \<open>The output points to the converter's buffer; it is given with what the buffer holds then.\<close>

definition TypeConverter_Process ::
  "float_ops \<Rightarrow> byte list FeatureData \<Rightarrow> byte list FeatureData \<Rightarrow> TypeConverter \<Rightarrow>
   (retcode \<times> byte list FeatureData \<times> TypeConverter) option" where
  "TypeConverter_Process fo input output tc =
     (if fd_data output \<noteq> None \<or> fd_size output \<noteq> 0 then Some (RETCODE_FAILURE, output, tc)
      else if fd_data input = None \<or> fd_size input = 0 then Some (RETCODE_FAILURE, output, tc)
      else if fd_size input \<noteq> tc_size tc then Some (RETCODE_FAILURE, output, tc)
      else do {
        (ret, tc1) \<leftarrow> TypeConverter_InnerProcess fo input tc;
        if ret \<noteq> RETCODE_SUCCESS then Some (RETCODE_FAILURE, output, tc1)
        else Some (RETCODE_SUCCESS, \<lparr>fd_dataType = tc_dataType tc1, fd_data = tc_data tc1, fd_size = tc_size tc1\<rparr>, tc1)
      })"

section \<open>NormProcessor\<close>

record NormProcessorConfig =
  nc_meanFilePath :: string
  nc_stdFilePath :: string
  nc_numChannels :: nat
  nc_inputSize :: nat
  nc_scale :: "32 word"

record NormProcessor =
  np_isInitialized :: bool
  np_workBuffer :: "byte list option"
  np_mean :: "byte list option"
  np_std :: "byte list option"
  np_config :: NormProcessorConfig
  np_converter :: "TypeConverter option"

definition NormProcessor_new :: "32 word \<Rightarrow> NormProcessor" where
  "NormProcessor_new scale =
     \<lparr>np_isInitialized = False, np_workBuffer = None, np_mean = None, np_std = None,
      np_config = \<lparr>nc_meanFilePath = [], nc_stdFilePath = [], nc_numChannels = 0, nc_inputSize = 0, nc_scale = scale\<rparr>,
      np_converter = None\<rparr>"

definition NormProcessor_Release :: "NormProcessor \<Rightarrow> NormProcessor" where
  "NormProcessor_Release np = np\<lparr>np_workBuffer := None, np_mean := None, np_std := None, np_converter := None,
     np_isInitialized := False\<rparr>"

text \<open>
  \<open>fe_file\<close>: the content of the file that \<open>realpath\<close> and \<open>fopen\<close> find under a path;
  \<open>fe_converter\<close>: whether a converter can be allocated.
\<close>

record fenv =
  fe_mem :: cenv
  fe_float :: float_ops
  fe_file :: "string \<Rightarrow> string option"
  fe_converter :: bool

abbreviation (input) NUMBER_DELIMITER :: char where "NUMBER_DELIMITER \<equiv> CHR '' ''"

text \<open>The loop of \<open>LoadInfoFromFile\<close>: what is left of the file, the token and the values read.\<close>

fun load_info :: "float_ops \<Rightarrow> nat \<Rightarrow> string \<Rightarrow> nat \<Rightarrow> string \<Rightarrow> byte list \<Rightarrow> (nat \<times> string \<times> byte list) option" where
  "load_info fo n [] count token out = Some (count, token, out)"
| "load_info fo n (c # cs) count token out =
     do {
       (count1, token1, out1) \<leftarrow>
         (if c = NUMBER_DELIMITER
          then map_option (\<lambda>o1. (Suc count, [], o1)) (store_at 4 count (unat (fo_atof fo token)) out)
          else Some (count, token @ [c], out));
       if count1 < n then load_info fo n cs count1 token1 out1 else Some (count1, token1, out1)
     }"

definition LoadInfoFromFile :: "float_ops \<Rightarrow> string \<Rightarrow> byte list \<Rightarrow> nat \<Rightarrow> (nat \<times> byte list) option" where
  "LoadInfoFromFile fo chars out n =
     do {
       (count, token, out1) \<leftarrow> load_info fo n chars 0 [] out;
       if token = [] then Some (count, out1)
       else if count \<ge> n then Some (n, out1)
       else map_option (\<lambda>o2. (Suc count, o2)) (store_at 4 count (unat (fo_atof fo token)) out1)
     }"

definition ReadFixedLenFloatData :: "fenv \<Rightarrow> string \<Rightarrow> byte list \<Rightarrow> nat \<Rightarrow> (retcode \<times> byte list) option" where
  "ReadFixedLenFloatData e filePath out n =
     (case fe_file e filePath of
        None \<Rightarrow> Some (RETCODE_FAILURE, out)
      | Some chars \<Rightarrow>
          map_option (\<lambda>(readLen, out1). (if readLen \<noteq> n then RETCODE_FAILURE else RETCODE_SUCCESS, out1))
            (LoadInfoFromFile (fe_float e) chars out n))"

definition LoadMeanAndStd ::
  "fenv \<Rightarrow> string \<Rightarrow> string \<Rightarrow> byte list \<Rightarrow> byte list \<Rightarrow> nat \<Rightarrow> (retcode \<times> byte list \<times> byte list) option" where
  "LoadMeanAndStd e meanFilePath stdFilePath mean std n =
     do {
       (r1, mean1) \<leftarrow> ReadFixedLenFloatData e meanFilePath mean n;
       if r1 \<noteq> RETCODE_SUCCESS then Some (RETCODE_FAILURE, mean1, std)
       else do {
         (r2, std1) \<leftarrow> ReadFixedLenFloatData e stdFilePath std n;
         Some (if r2 \<noteq> RETCODE_SUCCESS then RETCODE_FAILURE else RETCODE_SUCCESS, mean1, std1)
       }
     }"

definition NormProcessor_Init ::
  "fenv \<Rightarrow> NormProcessorConfig option \<Rightarrow> NormProcessor \<Rightarrow> (retcode \<times> NormProcessor) option" where
  "NormProcessor_Init e config np =
     (if np_isInitialized np then Some (RETCODE_FAILURE, np)
      else case config of
        None \<Rightarrow> Some (RETCODE_FAILURE, np)
      | Some c \<Rightarrow>
          (let np1 = np\<lparr>np_config := c\<rparr> in
           if nc_inputSize c = 0 \<or> nc_numChannels c = 0 then Some (RETCODE_FAILURE, np1)
           else if nc_inputSize c mod nc_numChannels c \<noteq> 0 then Some (RETCODE_FAILURE, np1)
           else if \<not> fe_converter e then Some (RETCODE_FAILURE, np1\<lparr>np_converter := None\<rparr>)
           else
             (let (r, tc) = TypeConverter_Init (fe_mem e) (Some \<lparr>cc_dataType = FLOAT, cc_size = nc_inputSize c\<rparr>) TypeConverter_new;
                  np2 = np1\<lparr>np_converter := Some tc\<rparr> in
              if r \<noteq> RETCODE_SUCCESS then Some (RETCODE_FAILURE, np2)
              else if nc_numChannels c > MAX_SAMPLE_SIZE \<or> nc_inputSize c > MAX_SAMPLE_SIZE then Some (RETCODE_FAILURE, np2)
              else (case (new_bytes (fe_mem e) (nc_numChannels c * 4), new_bytes (fe_mem e) (nc_numChannels c * 4),
                          new_bytes (fe_mem e) (nc_inputSize c * 4)) of
                      (Some mean, Some std, Some work) \<Rightarrow>
                        do {
                          (r2, mean1, std1) \<leftarrow> LoadMeanAndStd e (nc_meanFilePath c) (nc_stdFilePath c) mean std (nc_numChannels c);
                          let np3 = np2\<lparr>np_mean := Some mean1, np_std := Some std1, np_workBuffer := Some work\<rparr>;
                          if r2 \<noteq> RETCODE_SUCCESS then Some (RETCODE_FAILURE, NormProcessor_Release np3)
                          else Some (RETCODE_SUCCESS, np3\<lparr>np_isInitialized := True\<rparr>)
                        }
                    | _ \<Rightarrow> Some (RETCODE_FAILURE, NormProcessor_Release np2)))))"

text \<open>The value the loop of \<open>Process\<close> stores for a sample.\<close>

definition norm_value :: "float_ops \<Rightarrow> 32 word \<Rightarrow> 32 word \<Rightarrow> 32 word \<Rightarrow> 32 word \<Rightarrow> 32 word" where
  "norm_value fo scale meanVal stdVal x =
     (if fo_less fo (fo_abs fo stdVal) (fo_epsilon fo) then fo_zero fo
      else fo_mul fo (fo_div fo (fo_sub fo x meanVal) stdVal) scale)"

text \<open>The return value of the converter is not looked at.\<close>

definition NormProcessor_Process ::
  "float_ops \<Rightarrow> byte list FeatureData \<Rightarrow> byte list FeatureData \<Rightarrow> NormProcessor \<Rightarrow>
   (retcode \<times> byte list FeatureData \<times> NormProcessor) option" where
  "NormProcessor_Process fo input output np =
     (if \<not> np_isInitialized np then Some (RETCODE_FAILURE, output, np)
      else if fd_data output \<noteq> None \<or> fd_size output \<noteq> 0 then Some (RETCODE_FAILURE, output, np)
      else if fd_data input = None \<or> fd_size input = 0 then Some (RETCODE_FAILURE, output, np)
      else if fd_dataType input = UNKNOWN then Some (RETCODE_FAILURE, output, np)
      else if fd_size input \<noteq> nc_inputSize (np_config np) then Some (RETCODE_FAILURE, output, np)
      else do {
        (out1, np1) \<leftarrow>
          (if fd_dataType input = FLOAT then Some (input, np)
           else do {
             tc \<leftarrow> np_converter np;
             (_, o1, tc1) \<leftarrow> TypeConverter_Process fo input output tc;
             Some (o1, np\<lparr>np_converter := Some tc1\<rparr>)
           });
        work \<leftarrow> np_workBuffer np1;
        work1 \<leftarrow> fill_from
          (\<lambda>i. do {
             stdVal \<leftarrow> np_std np1 \<bind> load_at 4 (i mod nc_numChannels (np_config np1));
             meanVal \<leftarrow> np_mean np1 \<bind> load_at 4 (i mod nc_numChannels (np_config np1));
             x \<leftarrow> fd_data out1 \<bind> load_at 4 i;
             Some (unat (norm_value fo (nc_scale (np_config np1)) (word_of_nat meanVal) (word_of_nat stdVal) (word_of_nat x)))
           }) 4 0 (fd_size out1) work;
        Some (RETCODE_SUCCESS, out1\<lparr>fd_data := Some work1, fd_dataType := FLOAT\<rparr>, np1\<lparr>np_workBuffer := Some work1\<rparr>)
      })"

section \<open>What the loops compute\<close>

lemma mem_read_element:
  assumes "\<forall>x \<in> set xs. length x = w" and "i < length xs"
  shows "mem_read (w * i) w (concat xs) = Some (xs ! i)"
  using assms
proof (induction xs arbitrary: i)
  case (Cons x xs)
  show ?case
  proof (cases i)
    case 0
    then show ?thesis using Cons.prems by (simp add: mem_read_def)
  next
    case (Suc j)
    have "length x = w" using Cons.prems by simp
    moreover have "mem_read (w * j) w (concat xs) = Some (xs ! j)"
      using Cons.IH [of j] Cons.prems Suc by simp
    ultimately show ?thesis using Suc by (auto simp: mem_read_def split: if_splits)
  qed
qed simp

lemma load_element:
  assumes "\<forall>x \<in> set xs. length x = w" and "i < length xs"
  shows "load_at w i (concat xs) = Some (le_val (xs ! i))"
  using mem_read_element [OF assms] by (simp add: load_at_def)

text \<open>The block of the values \<open>g i\<close>, and the value at \<open>i\<close> of it.\<close>

definition block_of :: "nat \<Rightarrow> (nat \<Rightarrow> nat) \<Rightarrow> nat \<Rightarrow> byte list" where
  "block_of w g n = concat (map (\<lambda>i. le_bytes w (g i)) [0..<n])"

lemma block_of_simps [simp]: "block_of w g 0 = []" "block_of w g (Suc n) = block_of w g n @ le_bytes w (g n)"
  by (simp_all add: block_of_def)

lemma length_block_of [simp]: "length (block_of w g n) = w * n"
  by (induction n) simp_all

lemma load_block: "i < n \<Longrightarrow> g i < 256 ^ w \<Longrightarrow> load_at w i (block_of w g n) = Some (g i)"
  using load_element [of "map (\<lambda>i. le_bytes w (g i)) [0..<n]" w i] by (simp add: block_of_def le_val_le_bytes)

lemma fill_from_fills:
  assumes "\<forall>j < i + k. f j = Some (g j)" and "length rest0 = w * k"
  shows "fill_from f w i k (block_of w g i @ rest0) = Some (block_of w g (i + k))"
  using assms
proof (induction k arbitrary: i rest0)
  case (Suc k)
  have "store_at w i (g i) (block_of w g i @ rest0) = Some (block_of w g (Suc i) @ drop w rest0)"
    using Suc.prems(2) by (simp add: store_at_def mem_write_def)
  then show ?case using Suc.IH [of "Suc i" "drop w rest0"] Suc.prems by simp
qed simp

lemma fill_all:
  assumes "\<forall>j < n. f j = Some (g j)" and "length out = w * n"
  shows "fill_from f w 0 n out = Some (block_of w g n)"
  using fill_from_fills [of 0 n f g out w] assms by simp

section \<open>The converter and the normaliser on a block\<close>

definition converter_ready :: "DataType \<Rightarrow> nat \<Rightarrow> TypeConverter \<Rightarrow> bool" where
  "converter_ready t n tc \<longleftrightarrow> t \<noteq> UNKNOWN \<and> tc_dataType tc = t \<and> tc_size tc = n \<and> \<not> tc_freed tc \<and>
     (\<exists>blk. tc_data tc = Some blk \<and> length blk = CONVERT_DATATYPE_TO_SIZE t * n)"

lemma TypeConverter_Init_ready:
  assumes "t \<noteq> UNKNOWN" "n * CONVERT_DATATYPE_TO_SIZE t \<le> MAX_SAMPLE_SIZE" and "sound_env e" "copy_env MAX_SAMPLE_SIZE e"
  shows "\<exists>tc. TypeConverter_Init e (Some \<lparr>cc_dataType = t, cc_size = n\<rparr>) TypeConverter_new = (RETCODE_SUCCESS, tc) \<and>
    converter_ready t n tc"
proof -
  have m: "n * CONVERT_DATATYPE_TO_SIZE t mod SZ = n * CONVERT_DATATYPE_TO_SIZE t" using assms(2) by simp
  obtain blk where "new_bytes e (n * CONVERT_DATATYPE_TO_SIZE t) = Some blk" using assms(2,4) by (auto simp: copy_env_def)
  then show ?thesis using assms m [simplified]
    by (auto simp: TypeConverter_Init_def TypeConverter_new_def Let_def converter_ready_def sound_env_def mult.commute)
qed

lemma TypeConverter_converts:
  assumes tc: "converter_ready t n tc" and n: "0 < n" and input: "fd_data input = Some bs" "fd_size input = n" "fd_dataType input \<noteq> UNKNOWN"
    and vals: "\<forall>i < n. \<exists>v. read_sample (fd_dataType input) bs i = Some v \<and> convert_sample fo t v = Some (g i)"
    and out: "fd_data out = None" "fd_size out = 0"
  shows "\<exists>tc1. TypeConverter_Process fo input out tc =
    Some (RETCODE_SUCCESS, \<lparr>fd_dataType = t, fd_data = Some (block_of (CONVERT_DATATYPE_TO_SIZE t) g n), fd_size = n\<rparr>, tc1) \<and>
    converter_ready t n tc1"
proof -
  obtain blk where blk: "tc_data tc = Some blk" "length blk = CONVERT_DATATYPE_TO_SIZE t * n"
    and t: "t \<noteq> UNKNOWN" "tc_dataType tc = t" "tc_size tc = n" "\<not> tc_freed tc"
    using tc by (auto simp: converter_ready_def)
  have "fill_from (\<lambda>i. do { v \<leftarrow> read_sample (fd_dataType input) bs i; convert_sample fo t v }) (CONVERT_DATATYPE_TO_SIZE t) 0 n blk =
      Some (block_of (CONVERT_DATATYPE_TO_SIZE t) g n)"
    using vals blk(2) by (intro fill_all) auto
  then show ?thesis
    using input n out blk t by (simp add: TypeConverter_Process_def TypeConverter_InnerProcess_def DoCast_def converter_ready_def)
qed

text \<open>
  A converter that was released and is used again writes into the deleted block: \<open>Process\<close> does
  not ask whether the converter is initialised.
\<close>

lemma converter_used_after_release:
  assumes "converter_ready t n tc" "tc_isInitialized tc" and "0 < n" "fd_data input = Some bs" "fd_size input = n" "fd_dataType input \<noteq> UNKNOWN"
    and "fd_data out = None" "fd_size out = 0"
  shows "TypeConverter_Process fo input out (TypeConverter_Release tc) = None"
  using assms by (auto simp: TypeConverter_Process_def TypeConverter_InnerProcess_def DoCast_def TypeConverter_Release_def converter_ready_def)

definition norm_ready :: "(nat \<Rightarrow> nat) \<Rightarrow> (nat \<Rightarrow> nat) \<Rightarrow> NormProcessorConfig \<Rightarrow> NormProcessor \<Rightarrow> bool" where
  "norm_ready mean std c np \<longleftrightarrow> np_isInitialized np \<and> np_config np = c \<and> 0 < nc_inputSize c \<and> 0 < nc_numChannels c \<and>
     np_mean np = Some (block_of 4 mean (nc_numChannels c)) \<and> np_std np = Some (block_of 4 std (nc_numChannels c)) \<and>
     (\<forall>i. mean i < 2 ^ 32 \<and> std i < 2 ^ 32) \<and>
     (\<exists>work. np_workBuffer np = Some work \<and> length work = 4 * nc_inputSize c) \<and>
     (\<exists>tc. np_converter np = Some tc \<and> converter_ready FLOAT (nc_inputSize c) tc)"

text \<open>The normalised value of sample \<open>x\<close> at place \<open>i\<close>.\<close>

definition normed :: "float_ops \<Rightarrow> NormProcessorConfig \<Rightarrow> (nat \<Rightarrow> nat) \<Rightarrow> (nat \<Rightarrow> nat) \<Rightarrow> nat \<Rightarrow> int \<Rightarrow> 32 word" where
  "normed fo c mean std i x = norm_value fo (nc_scale c) (word_of_nat (mean (i mod nc_numChannels c)))
     (word_of_nat (std (i mod nc_numChannels c))) (fo_of_int fo x)"

lemma NormProcessor_norms:
  assumes np: "norm_ready mean std c np"
    and xs: "length xs = nc_inputSize c" "\<forall>x \<in> set xs. length x = 2"
  shows "\<exists>np1. NormProcessor_Process fo \<lparr>fd_dataType = UINT16, fd_data = Some (concat xs), fd_size = nc_inputSize c\<rparr>
      \<lparr>fd_dataType = FLOAT, fd_data = None, fd_size = 0\<rparr> np =
    Some (RETCODE_SUCCESS, \<lparr>fd_dataType = FLOAT,
      fd_data = Some (block_of 4 (\<lambda>i. unat (normed fo c mean std i (int (le_val (xs ! i))))) (nc_inputSize c)), fd_size = nc_inputSize c\<rparr>, np1) \<and>
    norm_ready mean std c np1"
proof -
  let ?n = "nc_inputSize c" and ?in = "\<lparr>fd_dataType = UINT16, fd_data = Some (concat xs), fd_size = nc_inputSize c\<rparr>"
  obtain work tc where w: "np_workBuffer np = Some work" "length work = 4 * ?n" "np_converter np = Some tc" "converter_ready FLOAT ?n tc"
    and r: "np_isInitialized np" "np_config np = c" "0 < ?n" "0 < nc_numChannels c" "\<forall>i. mean i < 2 ^ 32 \<and> std i < 2 ^ 32"
      "np_mean np = Some (block_of 4 mean (nc_numChannels c))" "np_std np = Some (block_of 4 std (nc_numChannels c))"
    using np by (auto simp: norm_ready_def)
  define g where "g i = unat (fo_of_int fo (int (le_val (xs ! i))))" for i
  have "\<forall>i < ?n. \<exists>v. read_sample UINT16 (concat xs) i = Some v \<and> convert_sample fo FLOAT v = Some (g i)"
    using xs load_element [of xs 2] by (auto simp: read_sample_def g_def)
  then obtain tc1 where tc1: "TypeConverter_Process fo ?in \<lparr>fd_dataType = FLOAT, fd_data = None, fd_size = 0\<rparr> tc =
      Some (RETCODE_SUCCESS, \<lparr>fd_dataType = FLOAT, fd_data = Some (block_of 4 g ?n), fd_size = ?n\<rparr>, tc1)" "converter_ready FLOAT ?n tc1"
    using TypeConverter_converts [OF w(4) r(3), of ?in "concat xs" fo g "\<lparr>fd_dataType = FLOAT, fd_data = None, fd_size = 0\<rparr>"] by auto
  let ?h = "\<lambda>i. unat (normed fo c mean std i (int (le_val (xs ! i))))"
  have g: "g i < 256 ^ 4" for i using unsigned_less [of "fo_of_int fo (int (le_val (xs ! i)))", where 'a = nat] by (simp add: g_def)
  have mod_lt: "i mod nc_numChannels c < nc_numChannels c" for i using r(4) by simp
  have "\<forall>i < ?n. (do {
             stdVal \<leftarrow> np_std np \<bind> load_at 4 (i mod nc_numChannels c);
             meanVal \<leftarrow> np_mean np \<bind> load_at 4 (i mod nc_numChannels c);
             x \<leftarrow> Some (block_of 4 g ?n) \<bind> load_at 4 i;
             Some (unat (norm_value fo (nc_scale c) (word_of_nat meanVal) (word_of_nat stdVal) (word_of_nat x)))
           }) = Some (?h i)"
    using r(5-7) load_block [OF mod_lt] load_block [of _ ?n g 4] g by (simp add: normed_def g_def)
  then have "fill_from (\<lambda>i. do {
             stdVal \<leftarrow> np_std np \<bind> load_at 4 (i mod nc_numChannels c);
             meanVal \<leftarrow> np_mean np \<bind> load_at 4 (i mod nc_numChannels c);
             x \<leftarrow> Some (block_of 4 g ?n) \<bind> load_at 4 i;
             Some (unat (norm_value fo (nc_scale c) (word_of_nat meanVal) (word_of_nat stdVal) (word_of_nat x)))
           }) 4 0 ?n work = Some (block_of 4 ?h ?n)"
    using w(2) by (intro fill_all) auto
  then show ?thesis
    using r w(1,3) tc1 by (auto simp: NormProcessor_Process_def norm_ready_def)
qed


section \<open>Loading the mean and the deviation\<close>

text \<open>A file of numbers: tokens without the delimiter, one delimiter between two of them.\<close>

definition file_of :: "string list \<Rightarrow> string \<Rightarrow> string" where
  "file_of ts t = concat (map (\<lambda>t. t @ [NUMBER_DELIMITER]) ts) @ t"

definition token :: "string \<Rightarrow> bool" where "token t \<longleftrightarrow> t \<noteq> [] \<and> NUMBER_DELIMITER \<notin> set t"

lemma load_token:
  "NUMBER_DELIMITER \<notin> set t \<Longrightarrow> count < n \<Longrightarrow> load_info fo n (t @ cs) count tok out = load_info fo n cs count (tok @ t) out"
  by (induction t arbitrary: tok) auto

lemma load_tokens:
  assumes "\<forall>t \<in> set ts. token t" and "count + length ts < n" and "length rest0 = 4 * (n - count)"
    and "\<forall>i < length ts. g (count + i) = unat (fo_atof fo (ts ! i))"
  shows "load_info fo n (concat (map (\<lambda>t. t @ [NUMBER_DELIMITER]) ts) @ cs) count [] (block_of 4 g count @ rest0) =
    load_info fo n cs (count + length ts) [] (block_of 4 g (count + length ts) @ drop (4 * length ts) rest0)"
  using assms
proof (induction ts arbitrary: count rest0)
  case (Cons t ts)
  have t: "NUMBER_DELIMITER \<notin> set t" using Cons.prems(1) by (simp add: token_def)
  have g: "g count = unat (fo_atof fo t)" using Cons.prems(4) [rule_format, of 0] by simp
  have "store_at 4 count (g count) (block_of 4 g count @ rest0) = Some (block_of 4 g (Suc count) @ drop 4 rest0)"
    using Cons.prems(2,3) by (simp add: store_at_def mem_write_def)
  then have "load_info fo n (concat (map (\<lambda>t. t @ [NUMBER_DELIMITER]) (t # ts)) @ cs) count [] (block_of 4 g count @ rest0) =
      load_info fo n (concat (map (\<lambda>t. t @ [NUMBER_DELIMITER]) ts) @ cs) (Suc count) [] (block_of 4 g (Suc count) @ drop 4 rest0)"
    using load_token [OF t, of count n] Cons.prems(2) g by simp
  also have "\<dots> = load_info fo n cs (Suc count + length ts) [] (block_of 4 g (Suc count + length ts) @ drop (4 * length ts) (drop 4 rest0))"
  proof (rule Cons.IH)
    show "\<forall>i < length ts. g (Suc count + i) = unat (fo_atof fo (ts ! i))"
      using Cons.prems(4) [rule_format, of "Suc i" for i] by force
  qed (use Cons.prems in auto)
  finally show ?case by (simp add: add.commute)
qed simp

lemma LoadInfoFromFile_loads:
  assumes "\<forall>t \<in> set (ts @ [t]). token t" and "length out = 4 * length (ts @ [t])"
  shows "LoadInfoFromFile fo (file_of ts t) out (length (ts @ [t])) =
    Some (length (ts @ [t]), block_of 4 (\<lambda>i. unat (fo_atof fo ((ts @ [t]) ! i))) (length (ts @ [t])))"
proof -
  let ?g = "\<lambda>i. unat (fo_atof fo ((ts @ [t]) ! i))" and ?n = "length (ts @ [t])"
  let ?out = "block_of 4 ?g (length ts) @ drop (4 * length ts) out"
  have "load_info fo ?n (file_of ts t) 0 [] out = load_info fo ?n t (length ts) [] ?out"
    using load_tokens [of ts 0 ?n out ?g fo t] assms by (simp add: file_of_def nth_append)
  also have "\<dots> = Some (length ts, t, ?out)"
    using load_token [of t "length ts" ?n fo "[]" "[]"] assms(1) by (simp add: token_def)
  finally have l: "load_info fo ?n (file_of ts t) 0 [] out = Some (length ts, t, ?out)" .
  have "store_at 4 (length ts) (?g (length ts)) ?out = Some (block_of 4 ?g ?n)"
    using assms(2) by (simp add: store_at_def mem_write_def)
  then show ?thesis using l assms(1) by (simp add: LoadInfoFromFile_def token_def)
qed

lemma NormProcessor_Init_ready:
  assumes env: "sound_env (fe_mem e)" "copy_env 64000 (fe_mem e)" "fe_converter e"
    and c: "0 < nc_numChannels c" "nc_numChannels c \<le> nc_inputSize c" "nc_inputSize c mod nc_numChannels c = 0" "nc_inputSize c \<le> 5000"
    and files: "fe_file e (nc_meanFilePath c) = Some (file_of ms m)" "fe_file e (nc_stdFilePath c) = Some (file_of ss s)"
      "\<forall>t \<in> set (ms @ [m]). token t" "\<forall>t \<in> set (ss @ [s]). token t"
      "length (ms @ [m]) = nc_numChannels c" "length (ss @ [s]) = nc_numChannels c"
  shows "\<exists>np. NormProcessor_Init e (Some c) (NormProcessor_new one) = Some (RETCODE_SUCCESS, np) \<and>
    norm_ready (\<lambda>i. unat (fo_atof (fe_float e) ((ms @ [m]) ! i))) (\<lambda>i. unat (fo_atof (fe_float e) ((ss @ [s]) ! i))) c np"
proof -
  let ?k = "nc_numChannels c"
  have "copy_env MAX_SAMPLE_SIZE (fe_mem e)" using env(2) by (auto simp: copy_env_def)
  then obtain tc where tc: "TypeConverter_Init (fe_mem e) (Some \<lparr>cc_dataType = FLOAT, cc_size = nc_inputSize c\<rparr>) TypeConverter_new =
      (RETCODE_SUCCESS, tc)" "converter_ready FLOAT (nc_inputSize c) tc"
    using TypeConverter_Init_ready [of FLOAT "nc_inputSize c" "fe_mem e"] c(4) env(1) by auto
  obtain b1 b2 where b: "new_bytes (fe_mem e) (?k * 4) = Some b1" "new_bytes (fe_mem e) (nc_inputSize c * 4) = Some b2"
    using env(2) c(2,4) by (fastforce simp: copy_env_def)
  have len: "length b1 = 4 * ?k" "length b2 = 4 * nc_inputSize c" using b env(1) by (auto simp: sound_env_def)
  have load: "ReadFixedLenFloatData e path b1 ?k =
      Some (RETCODE_SUCCESS, block_of 4 (\<lambda>i. unat (fo_atof (fe_float e) ((ts @ [t]) ! i))) ?k)"
    if "fe_file e path = Some (file_of ts t)" "\<forall>t \<in> set (ts @ [t]). token t" "length (ts @ [t]) = ?k" for path ts t
    using LoadInfoFromFile_loads [OF that(2), of b1 "fe_float e"] that(1) len(1) unfolding that(3)
    by (simp add: ReadFixedLenFloatData_def)
  have both: "LoadMeanAndStd e (nc_meanFilePath c) (nc_stdFilePath c) b1 b1 ?k = Some (RETCODE_SUCCESS,
      block_of 4 (\<lambda>i. unat (fo_atof (fe_float e) ((ms @ [m]) ! i))) ?k, block_of 4 (\<lambda>i. unat (fo_atof (fe_float e) ((ss @ [s]) ! i))) ?k)"
    using load [OF files(1,3,5)] load [OF files(2,4,6)] by (simp add: LoadMeanAndStd_def)
  have small: "unat x < 2 ^ 32" for x :: "32 word" using unsigned_less [of x, where 'a = nat] by simp
  show ?thesis
    using env(3) c tc b both len small
    by (simp add: NormProcessor_Init_def Let_def norm_ready_def NormProcessor_new_def)
qed

end
