(* ===== verification/KwsPlugin.thy ===== *)
theory KwsPlugin
  imports FeatureNorm EngineAdapter
begin

text \<open>
  The keyword spotting plugin (services/server/plugin/asr/keyword_spotting): per handle of the
  inference engine a normaliser, a converter and a sliding window, through which the features
  of every request go to the model. The plugin's mutex makes its operations atomic.
\<close>

section \<open>Configuration and state\<close>

abbreviation (input) DEFAULT_SLIDE_WINDOW_SIZE :: nat where "DEFAULT_SLIDE_WINDOW_SIZE \<equiv> 4000"
abbreviation (input) DEFAULT_SLIDE_STEP_SIZE :: nat where "DEFAULT_SLIDE_STEP_SIZE \<equiv> 400"
abbreviation (input) DEFAULT_NORM_INPUT_SIZE :: nat where "DEFAULT_NORM_INPUT_SIZE \<equiv> DEFAULT_SLIDE_STEP_SIZE"
abbreviation (input) DEFAULT_NORM_NUM_CHANNELS :: nat where "DEFAULT_NORM_NUM_CHANNELS \<equiv> 40"
abbreviation (input) DEFAULT_NORM_SCALE :: int where "DEFAULT_NORM_SCALE \<equiv> 4096"
abbreviation (input) ALGOTYPE_VERSION_KWS :: int where "ALGOTYPE_VERSION_KWS \<equiv> 20001002"
abbreviation (input) DEFAULT_NORM_MEAN_FILE_PATH :: string where "DEFAULT_NORM_MEAN_FILE_PATH \<equiv> ''/storage/data/kws_mean.txt''"
abbreviation (input) DEFAULT_NORM_STD_FILE_PATH :: string where "DEFAULT_NORM_STD_FILE_PATH \<equiv> ''/storage/data/kws_std.txt''"
abbreviation (input) KWS_MODEL_PATH :: string where "KWS_MODEL_PATH \<equiv> ''/storage/data/keyword_spotting.wk''"
abbreviation (input) DEFAULT_INFER_MODE :: string where "DEFAULT_INFER_MODE \<equiv> ''SYNC''"
abbreviation (input) ALGORITHM_NAME_KWS :: string where "ALGORITHM_NAME_KWS \<equiv> ''KWS''"

record KWSWorkplace =
  kw_config :: PluginConfig
  kw_normProcessor :: "NormProcessor option"
  kw_typeConverter :: "TypeConverter option"
  kw_slideProcessor :: "SlideWindowProcessor option"

record 'a KWSPlugin =
  kp_adapter :: "'a option"
  kp_handles :: "(int \<times> KWSWorkplace) list"

definition KWSPlugin_new :: "'a KWSPlugin" where
  "KWSPlugin_new = \<lparr>kp_adapter = None, kp_handles = []\<rparr>"

text \<open>
  \<open>ke_nnie\<close>: the adapter the build makes, \<open>None\<close> when it is built without one; \<open>ke_response\<close>:
  whether a response can be allocated.
\<close>

record 'a kenv =
  ke_feature :: fenv
  ke_ops :: "'a adapter_ops"
  ke_nnie :: "'a option"
  ke_response :: bool

abbreviation ke_mem :: "'a kenv \<Rightarrow> cenv" where "ke_mem e \<equiv> fe_mem (ke_feature e)"

definition kws_slide_config :: SlideWindowProcessorConfig where
  "kws_slide_config = \<lparr>sc_dataType = INT32, sc_bufferMultiplier = 4, sc_stepSize = DEFAULT_SLIDE_STEP_SIZE,
     sc_windowSize = DEFAULT_SLIDE_WINDOW_SIZE\<rparr>"

definition kws_norm_config :: "float_ops \<Rightarrow> NormProcessorConfig" where
  "kws_norm_config fo = \<lparr>nc_meanFilePath = DEFAULT_NORM_MEAN_FILE_PATH, nc_stdFilePath = DEFAULT_NORM_STD_FILE_PATH,
     nc_numChannels = DEFAULT_NORM_NUM_CHANNELS, nc_inputSize = DEFAULT_NORM_INPUT_SIZE,
     nc_scale = fo_of_int fo DEFAULT_NORM_SCALE\<rparr>"

section \<open>Preparing and releasing\<close>

definition InitWorkplace ::
  "fenv \<Rightarrow> SlideWindowProcessorConfig \<Rightarrow> TypeConverterConfig \<Rightarrow> NormProcessorConfig \<Rightarrow> KWSWorkplace \<Rightarrow>
   (retcode \<times> KWSWorkplace) option" where
  "InitWorkplace e slideCfg convertCfg normCfg worker =
     (let (r1, sw) = SlideWindow_Init (fe_mem e) (Some slideCfg) SlideWindowProcessor_new;
          tc0 = TypeConverter_new;
          np0 = NormProcessor_new (fo_of_int (fe_float e) 1);
          w1 = worker\<lparr>kw_slideProcessor := Some sw, kw_typeConverter := Some tc0, kw_normProcessor := Some np0\<rparr> in
      if r1 \<noteq> RETCODE_SUCCESS then Some (RETCODE_FAILURE, w1)
      else
        (let (r2, tc) = TypeConverter_Init (fe_mem e) (Some convertCfg) tc0;
             w2 = w1\<lparr>kw_typeConverter := Some tc\<rparr> in
         if r2 \<noteq> RETCODE_SUCCESS then Some (RETCODE_FAILURE, w2)
         else do {
           (r3, np) \<leftarrow> NormProcessor_Init e (Some normCfg) np0;
           let w3 = w2\<lparr>kw_normProcessor := Some np\<rparr>;
           if r3 \<noteq> RETCODE_SUCCESS then Some (RETCODE_FAILURE, w3) else Some (RETCODE_SUCCESS, w3)
         }))"

definition KWS_InitComponents :: "fenv \<Rightarrow> KWSWorkplace \<Rightarrow> (retcode \<times> KWSWorkplace) option" where
  "KWS_InitComponents e worker =
     do {
       (r, w) \<leftarrow> InitWorkplace e kws_slide_config \<lparr>cc_dataType = INT32, cc_size = DEFAULT_SLIDE_STEP_SIZE\<rparr>
         (kws_norm_config (fe_float e)) worker;
       if r \<noteq> RETCODE_SUCCESS
       then Some (RETCODE_FAILURE, w\<lparr>kw_slideProcessor := None, kw_typeConverter := None, kw_normProcessor := None\<rparr>)
       else Some (RETCODE_SUCCESS, w)
     }"

definition KWS_BuildConfig :: "'a adapter_ops \<Rightarrow> int \<Rightarrow> 'a KWSPlugin \<Rightarrow> PluginConfig \<Rightarrow> retcode \<times> PluginConfig" where
  "KWS_BuildConfig ops h p config =
     (case kp_adapter p of
        None \<Rightarrow> (RETCODE_NULL_PARAM, config)
      | Some a \<Rightarrow>
          (let (r1, addr1, size1) = ea_GetInputAddr ops h MODEL_INPUT_NODE_ID a;
               c1 = config\<lparr>pc_inputAddr := addr1, pc_inputSize := size1\<rparr> in
           if r1 \<noteq> RETCODE_SUCCESS then (RETCODE_NULL_PARAM, c1)
           else
             (let (r2, addr2, size2) = ea_GetOutputAddr ops h MODEL_OUTPUT_NODE_ID a;
                  c2 = c1\<lparr>pc_outputAddr := addr2, pc_outputSize := size2\<rparr> in
              if r2 \<noteq> RETCODE_SUCCESS then (RETCODE_NULL_PARAM, c2) else (RETCODE_SUCCESS, c2))))"

text \<open>\<open>config0\<close> is what the uninitialised configuration holds.\<close>

definition KWS_Prepare ::
  "'a kenv \<Rightarrow> PluginConfig \<Rightarrow> int \<Rightarrow> DataInfo \<Rightarrow> DataInfo \<Rightarrow> 'a KWSPlugin \<Rightarrow> (retcode \<times> DataInfo \<times> 'a KWSPlugin) option" where
  "KWS_Prepare e config0 transactionId inputInfo outputInfo p =
     (let adapter = (case kp_adapter p of None \<Rightarrow> ke_nnie e | Some a \<Rightarrow> Some a);
          p0 = p\<lparr>kp_adapter := adapter\<rparr> in
      case adapter of
        None \<Rightarrow> Some (RETCODE_FAILURE, outputInfo, p0)
      | Some a \<Rightarrow>
          (let (r, h, a1) = ea_Init (ke_ops e) KWS_MODEL_PATH a;
               p1 = p0\<lparr>kp_adapter := Some a1\<rparr> in
           if r \<noteq> RETCODE_SUCCESS then Some (RETCODE_FAILURE, outputInfo, p1)
           else if sm_find (kp_handles p1) h \<noteq> None then Some (RETCODE_SUCCESS, outputInfo, p1)
           else
             (let (r2, config) = KWS_BuildConfig (ke_ops e) h p1 config0 in
              if r2 \<noteq> RETCODE_SUCCESS then Some (RETCODE_FAILURE, outputInfo, p1)
              else do {
                (r3, w) \<leftarrow> KWS_InitComponents (ke_feature e)
                  \<lparr>kw_config = config, kw_normProcessor = None, kw_typeConverter = None, kw_slideProcessor = None\<rparr>;
                if r3 \<noteq> RETCODE_SUCCESS then Some (RETCODE_FAILURE, outputInfo, p1)
                else do {
                  (r4, out) \<leftarrow> ProcessEncode (ke_mem e) outputInfo [PVal (handle_bytes h)];
                  Some (r4, out, p1\<lparr>kp_handles := sm_put h w (kp_handles p1)\<rparr>)
                }
              })))"

definition KWS_FreeHandle :: "int \<Rightarrow> 'a KWSPlugin \<Rightarrow> 'a KWSPlugin" where
  "KWS_FreeHandle h p = p\<lparr>kp_handles := sm_erase h (kp_handles p)\<rparr>"

definition KWS_Release ::
  "'a kenv \<Rightarrow> bool \<Rightarrow> int \<Rightarrow> DataInfo \<Rightarrow> 'a KWSPlugin \<Rightarrow> (retcode \<times> 'a KWSPlugin) option" where
  "KWS_Release e isFullUnload transactionId inputInfo p =
     (case kp_adapter p of
        None \<Rightarrow> Some (RETCODE_FAILURE, p)
      | Some a \<Rightarrow> do {
          (r, h, _) \<leftarrow> decode_handle (ke_mem e) inputInfo [];
          if r \<noteq> RETCODE_SUCCESS then Some (RETCODE_FAILURE, p)
          else
            (let (r1, a1) = ea_ReleaseHandle (ke_ops e) h a;
                 p1 = p\<lparr>kp_adapter := Some a1\<rparr> in
             if r1 \<noteq> RETCODE_SUCCESS then Some (RETCODE_FAILURE, p1)
             else
               (let p2 = KWS_FreeHandle h p1 in
                if isFullUnload then
                  (let (r2, a2) = ea_Deinit (ke_ops e) a1;
                       p3 = p2\<lparr>kp_adapter := Some a2\<rparr> in
                   Some (if r2 \<noteq> RETCODE_SUCCESS then RETCODE_FAILURE else RETCODE_SUCCESS, p3))
                else Some (RETCODE_SUCCESS, p2)))
        })"

text \<open>The destructor: the adapter is used whether or not there is one.\<close>

fun release_handles :: "'a adapter_ops \<Rightarrow> int list \<Rightarrow> 'a \<Rightarrow> 'a" where
  "release_handles ops [] a = a"
| "release_handles ops (h # hs) a = release_handles ops hs (snd (ea_ReleaseHandle ops h a))"

definition KWS_ReleaseAllHandles :: "'a adapter_ops \<Rightarrow> 'a KWSPlugin \<Rightarrow> 'a KWSPlugin option" where
  "KWS_ReleaseAllHandles ops p =
     do {
       a \<leftarrow> kp_adapter p;
       let a1 = snd (ea_Deinit ops (release_handles ops (map fst (kp_handles p)) a));
       Some (p\<lparr>kp_adapter := Some a1, kp_handles := []\<rparr>)
     }"

definition KWSPlugin_dtor :: "'a adapter_ops \<Rightarrow> 'a KWSPlugin \<Rightarrow> 'a KWSPlugin option" where
  "KWSPlugin_dtor ops p = KWS_ReleaseAllHandles ops p"

definition KWS_GetVersion :: int where "KWS_GetVersion = ALGOTYPE_VERSION_KWS"
definition KWS_GetName :: string where "KWS_GetName = ALGORITHM_NAME_KWS"
definition KWS_GetInferMode :: string where "KWS_GetInferMode = DEFAULT_INFER_MODE"

section \<open>Inference\<close>

text \<open>
  The features of a request: normalised, converted to 32-bit integers and put into the window.
  The result is the window's place in the buffer of the sliding window.
\<close>

definition GetNormedFeatures ::
  "float_ops \<Rightarrow> cenv \<Rightarrow> arr \<Rightarrow> KWSWorkplace \<Rightarrow> (retcode \<times> nat FeatureData \<times> KWSWorkplace) option" where
  "GetNormedFeatures fo e input worker =
     (let none = \<lparr>fd_dataType = INT32, fd_data = None, fd_size = 0\<rparr> in
      do {
        np \<leftarrow> kw_normProcessor worker;
        (r1, normed, np1) \<leftarrow> NormProcessor_Process fo
          \<lparr>fd_dataType = UINT16, fd_data = map_option concat (arr_data input), fd_size = arr_size input\<rparr>
          \<lparr>fd_dataType = FLOAT, fd_data = None, fd_size = 0\<rparr> np;
        let w1 = worker\<lparr>kw_normProcessor := Some np1\<rparr>;
        if r1 \<noteq> RETCODE_SUCCESS then Some (RETCODE_FAILURE, none, w1)
        else do {
          tc \<leftarrow> kw_typeConverter w1;
          (r2, converted, tc1) \<leftarrow> TypeConverter_Process fo normed \<lparr>fd_dataType = INT32, fd_data = None, fd_size = 0\<rparr> tc;
          let w2 = w1\<lparr>kw_typeConverter := Some tc1\<rparr>;
          if r2 \<noteq> RETCODE_SUCCESS then Some (RETCODE_FAILURE, none, w2)
          else do {
            sw \<leftarrow> kw_slideProcessor w2;
            (r3, slided, sw1) \<leftarrow> SlideWindow_Process e converted \<lparr>fd_dataType = INT32, fd_data = None, fd_size = 0\<rparr> sw;
            let w3 = w2\<lparr>kw_slideProcessor := Some sw1\<rparr>;
            if r3 \<noteq> RETCODE_SUCCESS then Some (RETCODE_FAILURE, none, w3)
            else Some (RETCODE_SUCCESS, slided, w3)
          }
        }
      })"

text \<open>\<open>input\<close> points into the buffer of the sliding window \<open>sw\<close>.\<close>

definition KWS_MakeInference ::
  "'a adapter_ops \<Rightarrow> cenv \<Rightarrow> int \<Rightarrow> nat FeatureData \<Rightarrow> SlideWindowProcessor option \<Rightarrow> PluginConfig \<Rightarrow> DataInfo \<Rightarrow>
   'a KWSPlugin \<Rightarrow> (retcode \<times> DataInfo \<times> 'a KWSPlugin) option" where
  "KWS_MakeInference ops e h input sw config outputInfo p =
     (case kp_adapter p of
        None \<Rightarrow> Some (RETCODE_NULL_PARAM, outputInfo, p)
      | Some a \<Rightarrow>
          if pc_inputAddr config = 0 \<or> pc_outputAddr config = 0 then Some (RETCODE_NULL_PARAM, outputInfo, p)
          else if fd_data input = None \<or> fd_size input \<noteq> pc_inputSize config then Some (RETCODE_FAILURE, outputInfo, p)
          else
            (let bufferSize = pc_inputSize config * 4 mod SZ in
             if \<not> memcpy_eok e bufferSize bufferSize then Some (RETCODE_NULL_PARAM, outputInfo, p)
             else do {
               block \<leftarrow> sw \<bind> window_of input;
               bs \<leftarrow> mem_read 0 bufferSize block;
               a1 \<leftarrow> ea_write ops (pc_inputAddr config) 0 bs a;
               let (ret, a2) = ea_Invoke ops h a1;
               let p1 = p\<lparr>kp_adapter := Some a2\<rparr>;
               if ret \<noteq> RETCODE_SUCCESS then Some (RETCODE_FAILURE, outputInfo, p1)
               else do {
                 res \<leftarrow> ea_read ops (pc_outputAddr config) (pc_outputSize config * 4) a2;
                 (r, out) \<leftarrow> ProcessEncode e outputInfo
                   [PVal (handle_bytes h), PArr \<lparr>arr_data = Some (elements 4 (pc_outputSize config) res), arr_size = pc_outputSize config\<rparr>];
                 Some (r, out, p1)
               }
             }))"

definition KWS_SyncProcess ::
  "'a kenv \<Rightarrow> Request option \<Rightarrow> 'a KWSPlugin \<Rightarrow> (retcode \<times> Response option \<times> 'a KWSPlugin) option" where
  "KWS_SyncProcess e request p =
     (case request of
        None \<Rightarrow> Some (RETCODE_NULL_PARAM, None, p)
      | Some req \<Rightarrow>
          (let inputInfo = rq_msg req in
           if di_data inputInfo = None \<or> di_length inputInfo \<le> 0 then Some (RETCODE_NULL_PARAM, None, p)
           else do {
             (r, h, ps) \<leftarrow> decode_handle (ke_mem e) inputInfo [TArr 2 fresh_arr];
             if r \<noteq> RETCODE_SUCCESS then Some (RETCODE_FAILURE, None, p)
             else case sm_find (kp_handles p) h of
               None \<Rightarrow> Some (RETCODE_NULL_PARAM, None, p)
             | Some worker \<Rightarrow> do {
                 audioInput \<leftarrow> (case ps of [PArr v] \<Rightarrow> Some v | _ \<Rightarrow> None);
                 (r1, out, w1) \<leftarrow> GetNormedFeatures (fe_float (ke_feature e)) (ke_mem e) audioInput worker;
                 let p1 = p\<lparr>kp_handles := sm_put h w1 (kp_handles p)\<rparr>;
                 if r1 \<noteq> RETCODE_SUCCESS then Some (RETCODE_FAILURE, None, p1)
                 else do {
                   (r2, outputInfo, p2) \<leftarrow> KWS_MakeInference (ke_ops e) (ke_mem e) h
                     out (kw_slideProcessor w1) (kw_config w1) empty_DataInfo p1;
                   if r2 \<noteq> RETCODE_SUCCESS then Some (RETCODE_FAILURE, None, p2)
                   else if \<not> ke_response e then None
                   else Some (RETCODE_SUCCESS, Some (Response_SetResult outputInfo (Response_new (Some req))), p2)
                 }
               }
           }))"

definition KWS_AsyncProcess :: "Request option \<Rightarrow> 'a KWSPlugin \<Rightarrow> retcode \<times> 'a KWSPlugin" where
  "KWS_AsyncProcess request p = (RETCODE_SUCCESS, p)"

section \<open>Options\<close>

text \<open>No option can be set: every option type is accepted and ignored.\<close>

definition KWS_SetOption :: "int \<Rightarrow> DataInfo \<Rightarrow> 'a KWSPlugin \<Rightarrow> retcode \<times> 'a KWSPlugin" where
  "KWS_SetOption optionType inputInfo p =
     (if di_data inputInfo = None then (RETCODE_FAILURE, p) else (RETCODE_SUCCESS, p))"

definition KWS_GetOption ::
  "'a kenv \<Rightarrow> int \<Rightarrow> DataInfo \<Rightarrow> DataInfo \<Rightarrow> 'a KWSPlugin \<Rightarrow> (retcode \<times> DataInfo \<times> 'a KWSPlugin) option" where
  "KWS_GetOption e optionType inputInfo outputInfo p =
     (if di_data inputInfo = None \<or> di_length inputInfo \<le> 0 then Some (RETCODE_FAILURE, outputInfo, p)
      else do {
        (r, h, _) \<leftarrow> decode_handle (ke_mem e) inputInfo [];
        if r \<noteq> RETCODE_SUCCESS then Some (RETCODE_FAILURE, outputInfo, p)
        else case sm_find (kp_handles p) h of
          None \<Rightarrow> Some (RETCODE_FAILURE, outputInfo, p)
        | Some w \<Rightarrow>
            (let out = outputInfo\<lparr>di_length := 0\<rparr> in
             if optionType = OPTION_GET_INPUT_SIZE then
               map_option (\<lambda>(r1, o1). (r1, o1, p))
                 (ProcessEncode (ke_mem e) out [PVal (handle_bytes h), PVal (le_bytes 8 (pc_inputSize (kw_config w)))])
             else if optionType = OPTION_GET_OUTPUT_SIZE then
               map_option (\<lambda>(r1, o1). (r1, o1, p))
                 (ProcessEncode (ke_mem e) out [PVal (handle_bytes h), PVal (le_bytes 8 (pc_outputSize (kw_config w)))])
             else Some (RETCODE_FAILURE, out, p))
      })"

end
