(* ===== verification/KwsProofs.thy ===== *)
theory KwsProofs
  imports KwsPlugin
begin

text \<open>
  What the model of the keyword spotting plugin is invoked on: the window of the normalised
  features of all requests of the handle so far.
\<close>

definition workplace_ready ::
  "float_ops \<Rightarrow> (nat \<Rightarrow> nat) \<Rightarrow> (nat \<Rightarrow> nat) \<Rightarrow> byte list \<Rightarrow> KWSWorkplace \<Rightarrow> bool" where
  "workplace_ready fo mean std hist w \<longleftrightarrow>
     (\<exists>np. kw_normProcessor w = Some np \<and> norm_ready mean std (kws_norm_config fo) np) \<and>
     (\<exists>tc. kw_typeConverter w = Some tc \<and> converter_ready INT32 DEFAULT_SLIDE_STEP_SIZE tc) \<and>
     (\<exists>sw. kw_slideProcessor w = Some sw \<and> slide_inv kws_slide_config hist sw)"

text \<open>The integers the features of a request become, when the conversion is defined for all.\<close>

definition features_to :: "float_ops \<Rightarrow> (nat \<Rightarrow> nat) \<Rightarrow> (nat \<Rightarrow> nat) \<Rightarrow> byte list list \<Rightarrow> (nat \<Rightarrow> int) \<Rightarrow> bool" where
  "features_to fo mean std xs z \<longleftrightarrow> length xs = DEFAULT_SLIDE_STEP_SIZE \<and> (\<forall>x \<in> set xs. length x = 2) \<and>
     (\<forall>i < DEFAULT_SLIDE_STEP_SIZE. fo_to_int fo (normed fo (kws_norm_config fo) mean std i (int (le_val (xs ! i)))) = Some (z i) \<and>
        in_type INT32 (z i))"

definition step_of :: "(nat \<Rightarrow> int) \<Rightarrow> byte list" where
  "step_of z = concat (map (\<lambda>i. int32_bytes (z i)) [0..<DEFAULT_SLIDE_STEP_SIZE])"

lemma step_of_block: "step_of z = block_of 4 (\<lambda>i. nat (z i mod 2 ^ 32)) DEFAULT_SLIDE_STEP_SIZE"
  by (simp only: step_of_def int32_bytes_def block_of_def)

lemma kws_config: "config_ok kws_slide_config" "1 < sc_bufferMultiplier kws_slide_config"
  "window_bytes kws_slide_config = 16000" "step_bytes kws_slide_config = 1600" "buffer_bytes kws_slide_config = 64000"
  "sc_dataType kws_slide_config = INT32" "sc_stepSize kws_slide_config = DEFAULT_SLIDE_STEP_SIZE"
  "sc_windowSize kws_slide_config = DEFAULT_SLIDE_WINDOW_SIZE"
  by (simp_all add: kws_slide_config_def config_ok_def window_bytes_def step_bytes_def buffer_bytes_def)

lemma GetNormedFeatures_window:
  assumes w: "workplace_ready fo mean std hist w" and xs: "features_to fo mean std xs z" and e: "copy_env 64000 e"
  shows "\<exists>out sw w1. GetNormedFeatures fo e \<lparr>arr_data = Some xs, arr_size = DEFAULT_SLIDE_STEP_SIZE\<rparr> w = Some (RETCODE_SUCCESS, out, w1) \<and>
    fd_data out \<noteq> None \<and> fd_size out = DEFAULT_SLIDE_WINDOW_SIZE \<and> kw_slideProcessor w1 = Some sw \<and>
    window_of out sw = Some (drop (length hist - 14400) hist @ step_of z) \<and>
    workplace_ready fo mean std (hist @ step_of z) w1 \<and> kw_config w1 = kw_config w"
proof -
  obtain np tc sw where np: "kw_normProcessor w = Some np" "norm_ready mean std (kws_norm_config fo) np"
    and tc: "kw_typeConverter w = Some tc" "converter_ready INT32 DEFAULT_SLIDE_STEP_SIZE tc"
    and sw: "kw_slideProcessor w = Some sw" "slide_inv kws_slide_config hist sw"
    using w by (auto simp: workplace_ready_def)
  let ?c = "kws_norm_config fo" and ?n = "DEFAULT_SLIDE_STEP_SIZE"
  let ?f = "\<lambda>i. normed fo ?c mean std i (int (le_val (xs ! i)))"
  have size: "nc_inputSize ?c = ?n" by (simp add: kws_norm_config_def)
  have xs': "length xs = nc_inputSize ?c" "\<forall>x \<in> set xs. length x = 2" using xs by (simp_all add: features_to_def size)
  obtain np1 where np1: "NormProcessor_Process fo \<lparr>fd_dataType = UINT16, fd_data = Some (concat xs), fd_size = ?n\<rparr>
      \<lparr>fd_dataType = FLOAT, fd_data = None, fd_size = 0\<rparr> np = Some (RETCODE_SUCCESS, \<lparr>fd_dataType = FLOAT,
      fd_data = Some (block_of 4 (\<lambda>i. unat (?f i)) ?n), fd_size = ?n\<rparr>, np1)" "norm_ready mean std ?c np1"
    using NormProcessor_norms [OF np(2) xs', of fo] unfolding size by blast
  have "\<forall>i < ?n. \<exists>v. read_sample FLOAT (block_of 4 (\<lambda>i. unat (?f i)) ?n) i = Some v \<and>
      convert_sample fo INT32 v = Some (nat (z i mod 2 ^ 32))"
  proof (intro allI impI)
    fix i assume i: "i < ?n"
    have "unat (?f i) < 256 ^ 4" using unsigned_less [of "?f i", where 'a = nat] by simp
    then have "read_sample FLOAT (block_of 4 (\<lambda>i. unat (?f i)) ?n) i = Some (SFloat (?f i))"
      using load_block [OF i, of "\<lambda>i. unat (?f i)" 4] by (simp add: read_sample_def)
    moreover have "convert_sample fo INT32 (SFloat (?f i)) = Some (nat (z i mod 2 ^ 32))"
      using xs i by (simp add: features_to_def)
    ultimately show "\<exists>v. read_sample FLOAT (block_of 4 (\<lambda>i. unat (?f i)) ?n) i = Some v \<and>
      convert_sample fo INT32 v = Some (nat (z i mod 2 ^ 32))" by blast
  qed
  then obtain tc1 where tc1: "TypeConverter_Process fo \<lparr>fd_dataType = FLOAT, fd_data = Some (block_of 4 (\<lambda>i. unat (?f i)) ?n), fd_size = ?n\<rparr>
      \<lparr>fd_dataType = INT32, fd_data = None, fd_size = 0\<rparr> tc = Some (RETCODE_SUCCESS, \<lparr>fd_dataType = INT32, fd_data = Some (step_of z), fd_size = ?n\<rparr>, tc1)"
    "converter_ready INT32 ?n tc1"
    using TypeConverter_converts [OF tc(2), of "\<lparr>fd_dataType = FLOAT, fd_data = Some (block_of 4 (\<lambda>i. unat (?f i)) ?n), fd_size = ?n\<rparr>"
        "block_of 4 (\<lambda>i. unat (?f i)) ?n" fo "\<lambda>i. nat (z i mod 2 ^ 32)" "\<lparr>fd_dataType = INT32, fd_data = None, fd_size = 0\<rparr>"]
    unfolding step_of_block by auto
  have len: "length (step_of z) = step_bytes kws_slide_config" unfolding step_of_block kws_config(4) by simp
  have e': "copy_env (buffer_bytes kws_slide_config) e" using e by (simp only: kws_config(5))
  obtain out sw1 where sw1: "SlideWindow_Process e \<lparr>fd_dataType = INT32, fd_data = Some (step_of z), fd_size = ?n\<rparr>
      \<lparr>fd_dataType = INT32, fd_data = None, fd_size = 0\<rparr> sw = Some (RETCODE_SUCCESS, out, sw1)"
    "window_of out sw1 = Some (drop (length hist - 14400) hist @ step_of z)" "slide_inv kws_slide_config (hist @ step_of z) sw1"
    "fd_data out \<noteq> None" "fd_size out = DEFAULT_SLIDE_WINDOW_SIZE"
    using Process_slides [OF kws_config(1,2) e' sw(2) len, of INT32] unfolding kws_config(3,4,6-8) by auto
  show ?thesis
    using np np1 tc(1) tc1 sw(1) sw1 by (auto simp: GetNormedFeatures_def Let_def workplace_ready_def)
qed

text \<open>A prepared workplace starts with an empty window.\<close>

lemma features_window_bytes: "features_to fo mean std xs z \<Longrightarrow> length (step_of z) = 1600"
  unfolding step_of_block by simp

definition kws_reply :: "int \<Rightarrow> nat \<Rightarrow> byte list \<Rightarrow> param list" where
  "kws_reply h n res = [PVal (handle_bytes h), PArr \<lparr>arr_data = Some (elements 4 n res), arr_size = n\<rparr>]"

definition kws_request :: "int \<Rightarrow> byte list list \<Rightarrow> param list" where
  "kws_request h xs = [PVal (handle_bytes h), PArr \<lparr>arr_data = Some xs, arr_size = length xs\<rparr>]"


lemma elements_width: "length bs = w * n \<Longrightarrow> x \<in> set (elements w n bs) \<Longrightarrow> length x = w"
proof -
  assume a: "length bs = w * n" "x \<in> set (elements w n bs)"
  then obtain i where "i < n" "x = take w (drop (w * i) bs)" by (auto simp: elements_def)
  moreover then have "w * Suc i \<le> w * n" by (intro mult_le_mono2) simp
  ultimately show ?thesis using a(1) by simp
qed

lemma request_message:
  assumes "length xs = 400" "\<forall>x \<in> set xs. length x = 2"
  shows "list_all param_ok (kws_request h xs)" "length (payload (kws_request h xs)) = 816"
    "list_all2 fits [TVal 8, TArr 2 fresh_arr] (kws_request h xs)"
proof -
  have "length (concat xs) = 400 * 2" using concat_widths [of 2 xs] assms by (simp add: widths_def)
  then show "length (payload (kws_request h xs)) = 816" by (simp add: kws_request_def)
  have "[] \<notin> set xs" using assms(2) by force
  then show "list_all param_ok (kws_request h xs)" using assms(1) by (simp add: kws_request_def)
  show "list_all2 fits [TVal 8, TArr 2 fresh_arr] (kws_request h xs)" using assms by (simp add: kws_request_def widths_def)
qed

lemma reply_message:
  assumes "length res = 4 * n" "0 < n"
  shows "list_all param_ok (kws_reply h n res)" "length (payload (kws_reply h n res)) = 16 + 4 * n"
proof -
  have w: "widths 4 (elements 4 n res)" using elements_width [OF assms(1)] by (simp add: widths_def)
  then show "length (payload (kws_reply h n res)) = 16 + 4 * n"
    using concat_widths [OF w] by (simp add: kws_reply_def)
  have "[] \<notin> set (elements 4 n res)" using w by (force simp: widths_def)
  then show "list_all param_ok (kws_reply h n res)" using assms(2) by (simp add: kws_reply_def)
qed

section \<open>Preparing\<close>

text \<open>The two files of the normaliser: forty numbers each, as the text of them.\<close>

definition norm_files :: "fenv \<Rightarrow> string list \<Rightarrow> string list \<Rightarrow> bool" where
  "norm_files e ms ss \<longleftrightarrow> length ms = DEFAULT_NORM_NUM_CHANNELS \<and> length ss = DEFAULT_NORM_NUM_CHANNELS \<and>
     (\<forall>t \<in> set ms \<union> set ss. token t) \<and>
     fe_file e DEFAULT_NORM_MEAN_FILE_PATH = Some (file_of (butlast ms) (last ms)) \<and>
     fe_file e DEFAULT_NORM_STD_FILE_PATH = Some (file_of (butlast ss) (last ss))"

definition numbers :: "float_ops \<Rightarrow> string list \<Rightarrow> nat \<Rightarrow> nat" where
  "numbers fo ts i = unat (fo_atof fo (ts ! i))"

lemma KWS_InitComponents_ready:
  assumes env: "sound_env (fe_mem e)" "copy_env 64000 (fe_mem e)" "fe_converter e" and files: "norm_files e ms ss"
  shows "\<exists>w. KWS_InitComponents e w0 = Some (RETCODE_SUCCESS, w) \<and> kw_config w = kw_config w0 \<and>
    workplace_ready (fe_float e) (numbers (fe_float e) ms) (numbers (fe_float e) ss) (replicate 14400 0) w"
proof -
  let ?c = "kws_norm_config (fe_float e)"
  have "copy_env (buffer_bytes kws_slide_config) (fe_mem e)" using env(2) by (simp only: kws_config(5))
  then obtain sw where sw: "SlideWindow_Init (fe_mem e) (Some kws_slide_config) SlideWindowProcessor_new = (RETCODE_SUCCESS, sw)"
      "slide_inv kws_slide_config (replicate 14400 0) sw"
    using SlideWindow_Init_starts [OF kws_config(1)] unfolding kws_config(3,4) by fastforce
  have "copy_env MAX_SAMPLE_SIZE (fe_mem e)" using env(2) by (auto simp: copy_env_def)
  then obtain tc where tc: "TypeConverter_Init (fe_mem e) (Some \<lparr>cc_dataType = INT32, cc_size = DEFAULT_SLIDE_STEP_SIZE\<rparr>) TypeConverter_new =
      (RETCODE_SUCCESS, tc)" "converter_ready INT32 DEFAULT_SLIDE_STEP_SIZE tc"
    using TypeConverter_Init_ready [of INT32 DEFAULT_SLIDE_STEP_SIZE "fe_mem e"] env(1) by auto
  have ne: "ms \<noteq> []" "ss \<noteq> []" using files by (auto simp: norm_files_def)
  have c: "nc_meanFilePath ?c = DEFAULT_NORM_MEAN_FILE_PATH" "nc_stdFilePath ?c = DEFAULT_NORM_STD_FILE_PATH"
      "nc_numChannels ?c = 40" "nc_inputSize ?c = 400"
    by (simp_all add: kws_norm_config_def)
  have np: "\<exists>np. NormProcessor_Init e (Some ?c) (NormProcessor_new (fo_of_int (fe_float e) 1)) = Some (RETCODE_SUCCESS, np) \<and>
      norm_ready (numbers (fe_float e) ms) (numbers (fe_float e) ss) ?c np"
    using NormProcessor_Init_ready [OF env(1-3), of ?c "butlast ms" "last ms" "butlast ss" "last ss"] files ne
    unfolding c by (simp add: norm_files_def numbers_def [abs_def])
  then show ?thesis
    using sw tc by (auto simp: KWS_InitComponents_def InitWorkplace_def Let_def workplace_ready_def)
qed

text \<open>Preparing a new handle gives the client its handle and the handle a workplace with an empty window.\<close>

lemma KWS_Prepare_ready:
  assumes env: "sound_env (ke_mem e)" "copy_env 64000 (ke_mem e)" "fe_converter (ke_feature e)" "roomy_env (room 16) (ke_mem e)"
    and files: "norm_files (ke_feature e) ms ss"
    and a: "(case kp_adapter p of None \<Rightarrow> ke_nnie e | Some a \<Rightarrow> Some a) = Some a"
    and h: "ea_Init (ke_ops e) KWS_MODEL_PATH a = (RETCODE_SUCCESS, h, a1)" "sm_find (kp_handles p) h = None"
    and addr: "ea_GetInputAddr (ke_ops e) h MODEL_INPUT_NODE_ID a1 = (RETCODE_SUCCESS, ia, is0)"
      "ea_GetOutputAddr (ke_ops e) h MODEL_OUTPUT_NODE_ID a1 = (RETCODE_SUCCESS, oa, os0)"
  shows "\<exists>out w. KWS_Prepare e config0 tid inputInfo empty_DataInfo p = Some (RETCODE_SUCCESS, out,
      p\<lparr>kp_adapter := Some a1, kp_handles := sm_put h w (kp_handles p)\<rparr>) \<and>
    di_data out = Some (message [PVal (handle_bytes h)]) \<and> di_length out = int (length (message [PVal (handle_bytes h)])) \<and>
    pc_inputAddr (kw_config w) = ia \<and> pc_inputSize (kw_config w) = is0 \<and>
    pc_outputAddr (kw_config w) = oa \<and> pc_outputSize (kw_config w) = os0 \<and>
    workplace_ready (fe_float (ke_feature e)) (numbers (fe_float (ke_feature e)) ms) (numbers (fe_float (ke_feature e)) ss)
      (replicate 14400 0) w"
proof -
  define config where "config = config0\<lparr>pc_inputAddr := ia, pc_inputSize := is0, pc_outputAddr := oa, pc_outputSize := os0\<rparr>"
  have b: "KWS_BuildConfig (ke_ops e) h (p\<lparr>kp_adapter := Some a1\<rparr>) config0 = (RETCODE_SUCCESS, config)"
    using addr by (simp add: KWS_BuildConfig_def config_def Let_def)
  obtain w where w: "KWS_InitComponents (ke_feature e) \<lparr>kw_config = config, kw_normProcessor = None, kw_typeConverter = None,
      kw_slideProcessor = None\<rparr> = Some (RETCODE_SUCCESS, w)" "kw_config w = config"
      "workplace_ready (fe_float (ke_feature e)) (numbers (fe_float (ke_feature e)) ms) (numbers (fe_float (ke_feature e)) ss) (replicate 14400 0) w"
    using KWS_InitComponents_ready [OF env(1-3) files] by fastforce
  obtain out where out: "ProcessEncode (ke_mem e) empty_DataInfo [PVal (handle_bytes h)] = Some (RETCODE_SUCCESS, out)"
      "di_data out = Some (message [PVal (handle_bytes h)])" "di_length out = int (length (message [PVal (handle_bytes h)]))"
    using ProcessEncode_delivers [OF env(1), of "[PVal (handle_bytes h)]" empty_DataInfo] env(4) by (auto simp: length_message)
  have "KWS_Prepare e config0 tid inputInfo empty_DataInfo p = Some (RETCODE_SUCCESS, out,
      p\<lparr>kp_adapter := Some a1, kp_handles := sm_put h w (kp_handles p)\<rparr>)"
    using a h b w(1) out(1) by (simp add: KWS_Prepare_def)
  then show ?thesis using out(2,3) w(2,3) by (intro exI [of _ out] exI [of _ w]) (simp add: config_def)
qed

section \<open>A request\<close>

lemma request_sees_window:
  assumes env: "sound_env (ke_mem e)" "roomy_env (room (24 + 4 * pc_outputSize (kw_config w))) (ke_mem e)" "copy_env 64000 (ke_mem e)"
      "ke_response e" "24 + 4 * int (pc_outputSize (kw_config w)) \<le> INT_MAX"
    and p: "kp_adapter p = Some a" "sm_find (kp_handles p) h = Some w" "intptr h"
    and w: "workplace_ready (fe_float (ke_feature e)) mean std hist w"
      "pc_inputSize (kw_config w) = DEFAULT_SLIDE_WINDOW_SIZE" "pc_inputAddr (kw_config w) \<noteq> 0" "pc_outputAddr (kw_config w) \<noteq> 0"
      "0 < pc_outputSize (kw_config w)"
    and xs: "features_to (fe_float (ke_feature e)) mean std xs z"
    and msg: "sound_env ce" "ProcessEncode ce di (kws_request h xs) = Some (RETCODE_SUCCESS, rq_msg req)"
    and engine: "ea_write (ke_ops e) (pc_inputAddr (kw_config w)) 0 (drop (length hist - 14400) hist @ step_of z) a = Some a1"
      "ea_Invoke (ke_ops e) h a1 = (RETCODE_SUCCESS, a2)"
      "ea_read (ke_ops e) (pc_outputAddr (kw_config w)) (pc_outputSize (kw_config w) * 4) a2 = Some res"
      "length res = 4 * pc_outputSize (kw_config w)"
  shows "\<exists>out w1. KWS_SyncProcess e (Some req) p =
      Some (RETCODE_SUCCESS, Some (Response_SetResult out (Response_new (Some req))),
        p\<lparr>kp_adapter := Some a2, kp_handles := sm_put h w1 (kp_handles p)\<rparr>) \<and>
    di_data out = Some (message (kws_reply h (pc_outputSize (kw_config w)) res)) \<and>
    di_length out = int (length (message (kws_reply h (pc_outputSize (kw_config w)) res))) \<and>
    workplace_ready (fe_float (ke_feature e)) mean std (hist @ step_of z) w1 \<and> kw_config w1 = kw_config w"
proof -
  let ?n = "pc_outputSize (kw_config w)" and ?win = "drop (length hist - 14400) hist @ step_of z"
  have xs': "length xs = 400" "\<forall>x \<in> set xs. length x = 2" using xs by (simp_all add: features_to_def)
  note q = request_message [OF xs', of h]
  have dec: "decode_handle (ke_mem e) (rq_msg req) [TArr 2 fresh_arr] =
      Some (RETCODE_SUCCESS, h, [PArr \<lparr>arr_data = Some xs, arr_size = 400\<rparr>])"
  proof -
    have "roomy_env (length (message (kws_request h xs))) (ke_mem e)"
      using env(2) q(2) by (auto simp: roomy_env_def room_def length_message)
    then show ?thesis
      using decode_handle_encoded [of ce h "[PArr \<lparr>arr_data = Some xs, arr_size = length xs\<rparr>]" di "rq_msg req" "[TArr 2 fresh_arr]" "ke_mem e"]
        msg q p(3) xs'(1) by (simp add: kws_request_def)
  qed
  have msg_ok: "di_data (rq_msg req) \<noteq> None" "0 < di_length (rq_msg req)"
  proof -
    have "length (payload (kws_request h xs)) < 2 ^ 59" using q(2) by simp
    from ProcessEncode_delivers [OF msg(1) q(1) this, of di] msg(2)
    show "di_data (rq_msg req) \<noteq> None" "0 < di_length (rq_msg req)" by (auto simp: length_message)
  qed
  obtain out sw w1 where f: "GetNormedFeatures (fe_float (ke_feature e)) (ke_mem e) \<lparr>arr_data = Some xs, arr_size = DEFAULT_SLIDE_STEP_SIZE\<rparr> w =
        Some (RETCODE_SUCCESS, out, w1)" "fd_data out \<noteq> None" "fd_size out = DEFAULT_SLIDE_WINDOW_SIZE"
      "kw_slideProcessor w1 = Some sw" "window_of out sw = Some ?win"
      "workplace_ready (fe_float (ke_feature e)) mean std (hist @ step_of z) w1" "kw_config w1 = kw_config w"
    using GetNormedFeatures_window [OF w(1) xs env(3)] by blast
  have win: "length ?win = 16000"
  proof -
    have "14400 \<le> length hist" using w(1) by (auto simp: workplace_ready_def slide_inv_def kws_config)
    then show ?thesis using features_window_bytes [OF xs] by simp
  qed
  have copy: "memcpy_eok (ke_mem e) 16000 16000" using env(3) by (simp add: copy_env_def)
  note r = reply_message [OF engine(4) w(5), of h]
  have "length (message (kws_reply h ?n res)) = 24 + 4 * ?n" using r(2) by (simp add: length_message)
  then obtain o2 where enc: "ProcessEncode (ke_mem e) empty_DataInfo (kws_reply h ?n res) = Some (RETCODE_SUCCESS, o2)"
      "di_data o2 = Some (message (kws_reply h ?n res))" "di_length o2 = int (length (message (kws_reply h ?n res)))"
    using ProcessEncode_delivers [OF env(1) r(1), of empty_DataInfo] r(2) env(2,5) by auto
  have inf: "KWS_MakeInference (ke_ops e) (ke_mem e) h out (kw_slideProcessor w1) (kw_config w1) empty_DataInfo
      (p\<lparr>kp_handles := sm_put h w1 (kp_handles p)\<rparr>) =
    Some (RETCODE_SUCCESS, o2, p\<lparr>kp_adapter := Some a2, kp_handles := sm_put h w1 (kp_handles p)\<rparr>)"
    using p(1) w(2-4) f(2-5,7) copy win engine(1-3) enc(1)
    by (simp add: KWS_MakeInference_def mem_read_def kws_reply_def)
  show ?thesis
    using msg_ok dec p(2) f(1,6,7) inf env(4) enc(2,3)
    by (intro exI [of _ o2] exI [of _ w1]) (auto simp: KWS_SyncProcess_def)
qed

text \<open>C38. A request of the keyword spotting client: when the message was encoded by the client for a
  handle whose workplace is ready with the history \<open>hist\<close> of steps, the plugin writes into the
  model's input exactly the last 4000 integers of the history with this request's step of 400
  normalised features behind it, invokes the model of that handle once, answers with its output
  for the same handle, and is ready with the longer history; the other handles are untouched.
  Provided the engine's memory is there, the model has the size of the window, and no normalised
  value leaves the range of its integer type.\<close>

theorem kws_model_sees_window:
  assumes env: "sound_env (ke_mem e)" "roomy_env (room (24 + 4 * pc_outputSize (kw_config w))) (ke_mem e)" "copy_env 64000 (ke_mem e)"
      "ke_response e" "24 + 4 * int (pc_outputSize (kw_config w)) \<le> INT_MAX"
    and p: "kp_adapter p = Some a" "sm_find (kp_handles p) h = Some w" "intptr h"
    and w: "workplace_ready (fe_float (ke_feature e)) mean std hist w"
      "pc_inputSize (kw_config w) = DEFAULT_SLIDE_WINDOW_SIZE" "pc_inputAddr (kw_config w) \<noteq> 0" "pc_outputAddr (kw_config w) \<noteq> 0"
      "0 < pc_outputSize (kw_config w)"
    and xs: "features_to (fe_float (ke_feature e)) mean std xs z"
    and msg: "sound_env ce" "ProcessEncode ce di (kws_request h xs) = Some (RETCODE_SUCCESS, rq_msg req)"
    and engine: "ea_write (ke_ops e) (pc_inputAddr (kw_config w)) 0 (drop (length hist - 14400) hist @ step_of z) a = Some a1"
      "ea_Invoke (ke_ops e) h a1 = (RETCODE_SUCCESS, a2)"
      "ea_read (ke_ops e) (pc_outputAddr (kw_config w)) (pc_outputSize (kw_config w) * 4) a2 = Some res"
      "length res = 4 * pc_outputSize (kw_config w)"
  shows "\<exists>out w1. KWS_SyncProcess e (Some req) p =
      Some (RETCODE_SUCCESS, Some (Response_SetResult out (Response_new (Some req))),
        p\<lparr>kp_adapter := Some a2, kp_handles := sm_put h w1 (kp_handles p)\<rparr>) \<and>
    di_data out = Some (message (kws_reply h (pc_outputSize (kw_config w)) res)) \<and>
    di_length out = int (length (message (kws_reply h (pc_outputSize (kw_config w)) res))) \<and>
    workplace_ready (fe_float (ke_feature e)) mean std (hist @ step_of z) w1 \<and> kw_config w1 = kw_config w"
  by (rule request_sees_window [OF assms])

text \<open>An engine whose model copies the first three integers of its input, and a float that is an integer.\<close>

definition copy_engine :: "byte list adapter_ops" where
  "copy_engine = \<lparr>ea_Init = \<lambda>_ a. (0, 7, a), ea_Deinit = \<lambda>a. (0, a), ea_Invoke = \<lambda>_ a. (0, a), ea_GetInputAddr = \<lambda>_ _ _. (0, 64, 4000),
     ea_GetOutputAddr = \<lambda>_ _ _. (0, 128, 3), ea_ReleaseHandle = \<lambda>_ a. (0, a), ea_write = \<lambda>_ _ bs _. Some bs,
     ea_read = \<lambda>_ n a. Some (take n a)\<rparr>"

definition int_floats :: float_ops where
  "int_floats = \<lparr>fo_of_int = word_of_int, fo_to_int = \<lambda>f. Some (sint f), fo_sub = (-), fo_div = \<lambda>x _. x, fo_mul = \<lambda>x _. x,
     fo_abs = \<lambda>x. x, fo_less = \<lambda>_ _. False, fo_zero = 0, fo_epsilon = 1, fo_atof = \<lambda>_. 1\<rparr>"

definition demo_kenv :: "byte list kenv" where
  "demo_kenv = \<lparr>ke_feature = \<lparr>fe_mem = copying_env, fe_float = int_floats, fe_file = \<lambda>_. Some (file_of (replicate 39 ''1'') ''1''),
     fe_converter = True\<rparr>, ke_ops = copy_engine, ke_nnie = Some [], ke_response = True\<rparr>"

definition demo_features :: "byte list list" where "demo_features = replicate 400 [5, 0]"

lemma copying_env_roomy [simp]: "sound_env copying_env" "roomy_env lim copying_env"
  by (simp_all add: copying_env_def sound_env_def roomy_env_def total_env_def)

lemma demo_files: "norm_files (ke_feature demo_kenv) (replicate 40 ''1'') (replicate 40 ''1'')"
  by (simp add: norm_files_def demo_kenv_def token_def butlast_conv_take)

lemma demo_features_to:
  "\<exists>z. features_to int_floats mean std demo_features z"
proof -
  have "in_type INT32 (sint w)" for w :: "32 word"
    using sint_ge [of w] sint_less [of w] by (simp add: in_type_def)
  then show ?thesis
    by (intro exI [of _ "\<lambda>i. sint (normed int_floats (kws_norm_config int_floats) mean std i (int (le_val (demo_features ! i))))"])
      (simp add: features_to_def demo_features_def int_floats_def)
qed

theorem kws_model_sees_window_witness:
  "\<exists>req p out w1 z. KWS_SyncProcess demo_kenv (Some req) p =
      Some (RETCODE_SUCCESS, Some (Response_SetResult out (Response_new (Some req))),
        p\<lparr>kp_adapter := Some (replicate 14400 0 @ step_of z), kp_handles := sm_put 7 w1 (kp_handles p)\<rparr>) \<and>
    di_data out = Some (message (kws_reply 7 3 (replicate 12 0)))"
proof -
  let ?fe = "ke_feature demo_kenv"
  let ?num = "numbers int_floats (replicate 40 ''1'')"
  have fe: "fe_mem ?fe = copying_env" "fe_float ?fe = int_floats" "fe_converter ?fe" "ke_ops demo_kenv = copy_engine" "ke_response demo_kenv"
    by (simp_all add: demo_kenv_def)
  obtain w where w: "workplace_ready int_floats ?num ?num (replicate 14400 0) w"
      "kw_config w = \<lparr>pc_inputSize = 4000, pc_outputSize = 3, pc_inputAddr = 64, pc_outputAddr = 128\<rparr>"
    using KWS_InitComponents_ready [OF _ _ fe(3) demo_files, of "\<lparr>kw_config = \<lparr>pc_inputSize = 4000, pc_outputSize = 3,
        pc_inputAddr = 64, pc_outputAddr = 128\<rparr>, kw_normProcessor = None, kw_typeConverter = None, kw_slideProcessor = None\<rparr>"]
    unfolding fe by auto
  obtain z where z: "features_to int_floats ?num ?num demo_features z" using demo_features_to by blast
  have xs: "length demo_features = 400" "\<forall>x \<in> set demo_features. length x = 2" by (simp_all add: demo_features_def)
  note q = request_message [OF xs, of 7]
  obtain di' where msg: "ProcessEncode copying_env empty_DataInfo (kws_request 7 demo_features) = Some (RETCODE_SUCCESS, di')"
    using ProcessEncode_delivers [OF copying_env_roomy(1) q(1), of empty_DataInfo] q(2) by (auto simp: length_message)
  define req where "req = Request_new\<lparr>rq_msg := di'\<rparr>"
  define p :: "byte list KWSPlugin" where "p = \<lparr>kp_adapter = Some [], kp_handles = [(7, w)]\<rparr>"
  have p: "kp_adapter p = Some []" "sm_find (kp_handles p) 7 = Some w" "intptr 7" by (simp_all add: p_def intptr_def)
  have m: "ProcessEncode copying_env empty_DataInfo (kws_request 7 demo_features) = Some (RETCODE_SUCCESS, rq_msg req)"
    using msg by (simp add: req_def)
  let ?win = "drop (length (replicate 14400 (0 :: byte)) - 14400) (replicate 14400 0) @ step_of z"
  have eng: "ea_write copy_engine 64 0 ?win [] = Some ?win" "ea_Invoke copy_engine 7 ?win = (RETCODE_SUCCESS, ?win)"
      "ea_read copy_engine 128 (3 * 4) ?win = Some (replicate 12 0)"
    by (simp_all add: copy_engine_def)
  have cfg: "pc_inputSize (kw_config w) = DEFAULT_SLIDE_WINDOW_SIZE" "pc_inputAddr (kw_config w) = 64"
      "pc_outputAddr (kw_config w) = 128" "pc_outputSize (kw_config w) = 3"
    using w(2) by simp_all
  have "\<exists>out w1. KWS_SyncProcess demo_kenv (Some req) p =
      Some (RETCODE_SUCCESS, Some (Response_SetResult out (Response_new (Some req))),
        p\<lparr>kp_adapter := Some ?win, kp_handles := sm_put 7 w1 (kp_handles p)\<rparr>) \<and>
    di_data out = Some (message (kws_reply 7 3 (replicate 12 0)))"
    using kws_model_sees_window [of demo_kenv w p "[]" 7 ?num ?num "replicate 14400 0" demo_features z copying_env empty_DataInfo req ?win ?win "replicate 12 0"]
      p w(1) z m eng fe(5) unfolding fe(1,2,4) cfg by auto
  then obtain out w1 where "KWS_SyncProcess demo_kenv (Some req) p =
      Some (RETCODE_SUCCESS, Some (Response_SetResult out (Response_new (Some req))),
        p\<lparr>kp_adapter := Some (replicate 14400 0 @ step_of z), kp_handles := sm_put 7 w1 (kp_handles p)\<rparr>)"
      "di_data out = Some (message (kws_reply 7 3 (replicate 12 0)))"
    by auto
  then show ?thesis by blast
qed

end
