(* ===== verification/KwsStack.thy ===== *)
theory KwsStack
  imports Stack KwsSdkProofs KwsProofs
begin

text \<open>
  Keyword spotting through the whole system: from the sound the application hands to the SDK to the
  windows the model in the server is invoked on, and back to the application's callback.
\<close>

section \<open>What the model computes of the sound\<close>

text \<open>
  Operations that are those of the keyword spotting plugin, wherever what the plugin does is defined;
  and the plugin as an engine sees it, with undefined behaviour \<open>RETCODE_FAILURE\<close>.
\<close>

definition kws_operations :: "'a kenv \<Rightarrow> 'a KWSPlugin plug_ops \<Rightarrow> bool" where
  "kws_operations e ops \<longleftrightarrow> (\<forall>req p x. KWS_SyncProcess e (Some req) p = Some x \<longrightarrow> po_SyncProcess ops req p = x)"

definition KWS_plugin :: "'a kenv \<Rightarrow> PluginConfig \<Rightarrow> 'a KWSPlugin plug_ops" where
  "KWS_plugin e config0 =
     \<lparr>po_InferMode = \<lambda>p. Some KWS_GetInferMode,
      po_SyncProcess = \<lambda>req p. defined (RETCODE_FAILURE, None, p) (KWS_SyncProcess e (Some req) p),
      po_AsyncProcess = \<lambda>req p. (let (r, p1) = KWS_AsyncProcess (Some req) p in (r, [], p1)),
      po_Prepare = \<lambda>transactionId inp out p. defined (RETCODE_FAILURE, out, p) (KWS_Prepare e config0 transactionId inp out p),
      po_Release = \<lambda>isFullUnload transactionId inp p. defined (RETCODE_FAILURE, p) (KWS_Release e isFullUnload transactionId inp p),
      po_SetOption = \<lambda>optionType inp p. KWS_SetOption optionType inp p,
      po_GetOption = \<lambda>optionType inp out p. defined (RETCODE_FAILURE, out, p) (KWS_GetOption e optionType inp out p)\<rparr>"

lemma KWS_plugin_operations: "kws_operations e (KWS_plugin e config0)"
  by (simp add: kws_operations_def KWS_plugin_def defined_def)

text \<open>
  The engine: the model \<open>brain\<close> computes integers of its input window (and changes the engine's
  state), and the engine's memory is there.
\<close>

definition kws_engine :: "'a adapter_ops \<Rightarrow> int \<Rightarrow> PluginConfig \<Rightarrow> ('a \<Rightarrow> byte list \<Rightarrow> byte list \<times> 'a) \<Rightarrow> bool" where
  "kws_engine ops h c brain \<longleftrightarrow> (\<forall>a win. length win = 16000 \<longrightarrow> (\<exists>a1.
     ea_write ops (pc_inputAddr c) 0 win a = Some a1 \<and> ea_Invoke ops h a1 = (RETCODE_SUCCESS, snd (brain a win)) \<and>
     ea_read ops (pc_outputAddr c) (pc_outputSize c * 4) (snd (brain a win)) = Some (fst (brain a win)) \<and>
     length (fst (brain a win)) = 4 * pc_outputSize c))"

text \<open>
  The integers the plugin makes of the features of a window; features for which the conversion is
  defined; and the answer to them: the model's output for the last 4000 integers of all features
  so far, with these at the end. \<open>st\<close> is the history and the engine's state.
\<close>

definition feature_int :: "float_ops \<Rightarrow> (nat \<Rightarrow> nat) \<Rightarrow> (nat \<Rightarrow> nat) \<Rightarrow> byte list list \<Rightarrow> nat \<Rightarrow> int" where
  "feature_int fo mean std xs i =
     (case fo_to_int fo (normed fo (kws_norm_config fo) mean std i (int (le_val (xs ! i)))) of None \<Rightarrow> 0 | Some z \<Rightarrow> z)"

definition convertible :: "float_ops \<Rightarrow> (nat \<Rightarrow> nat) \<Rightarrow> (nat \<Rightarrow> nat) \<Rightarrow> byte list list \<Rightarrow> bool" where
  "convertible fo mean std xs \<longleftrightarrow> features_to fo mean std xs (feature_int fo mean std xs)"

definition kws_answer ::
  "(byte list list \<Rightarrow> byte list) \<Rightarrow> ('a \<Rightarrow> byte list \<Rightarrow> byte list \<times> 'a) \<Rightarrow> nat \<Rightarrow> byte list \<times> 'a \<Rightarrow> byte list list \<Rightarrow>
   byte list list \<times> byte list \<times> 'a" where
  "kws_answer ints brain n st xs =
     (let (res, a) = brain (snd st) (drop (length (fst st) - 14400) (fst st) @ ints xs) in
      (elements 4 n res, fst st @ ints xs, a))"

abbreviation kws_ints :: "float_ops \<Rightarrow> (nat \<Rightarrow> nat) \<Rightarrow> (nat \<Rightarrow> nat) \<Rightarrow> byte list list \<Rightarrow> byte list" where
  "kws_ints fo mean std xs \<equiv> step_of (feature_int fo mean std xs)"

text \<open>A plugin with a handle whose workplace has seen the history, and the engine in its state.\<close>

definition kws_handle ::
  "'a kenv \<Rightarrow> (nat \<Rightarrow> nat) \<Rightarrow> (nat \<Rightarrow> nat) \<Rightarrow> int \<Rightarrow> PluginConfig \<Rightarrow> 'a KWSPlugin \<Rightarrow> byte list \<times> 'a \<Rightarrow> bool" where
  "kws_handle e mean std h c p st \<longleftrightarrow> kp_adapter p = Some (snd st) \<and>
     (\<exists>w. sm_find (kp_handles p) h = Some w \<and> kw_config w = c \<and> workplace_ready (fe_float (ke_feature e)) mean std (fst st) w)"

text \<open>The memory of the plugin, and the handle's configuration.\<close>

definition kws_plugin_ok :: "'a kenv \<Rightarrow> PluginConfig \<Rightarrow> bool" where
  "kws_plugin_ok e c \<longleftrightarrow> sound_env (ke_mem e) \<and> roomy_env (room (24 + 4 * pc_outputSize c)) (ke_mem e) \<and> copy_env 64000 (ke_mem e) \<and>
     ke_response e \<and> pc_inputSize c = DEFAULT_SLIDE_WINDOW_SIZE \<and> pc_inputAddr c \<noteq> 0 \<and> pc_outputAddr c \<noteq> 0 \<and>
     0 < pc_outputSize c \<and> 24 + 4 * pc_outputSize c \<le> 1048576"

section \<open>The plugin behind the service\<close>

lemma ready_history: "workplace_ready fo mean std hist w \<Longrightarrow> 14400 \<le> length hist"
  by (auto simp: workplace_ready_def slide_inv_def kws_config)

lemma reply_is_message: "kws_reply h n res = kws_message h (elements 4 n res)"
  by (simp add: kws_reply_def kws_message_def array_of_def)

lemma request_is_message: "kws_request h xs = kws_message h xs"
  by (simp add: kws_request_def kws_message_def array_of_def)

lemma plugin_answers:
  assumes ok: "kws_plugin_ok e c" "kws_engine (ke_ops e) h c brain" and p: "kws_handle e mean std h c p st" "intptr h"
    and xs: "convertible (fe_float (ke_feature e)) mean std xs"
    and msg: "sound_env m" "ProcessEncode m empty_DataInfo (kws_message h xs) = Some (RETCODE_SUCCESS, rq_msg req)"
    and ans: "kws_answer (kws_ints (fe_float (ke_feature e)) mean std) brain (pc_outputSize c) st xs = (vs, st')"
  shows "\<exists>out p'. KWS_SyncProcess e (Some req) p = Some (RETCODE_SUCCESS, Some (Response_SetResult out (Response_new (Some req))), p') \<and>
    di_data out = Some (message (kws_message h vs)) \<and> di_length out = int (length (message (kws_message h vs))) \<and>
    kws_handle e mean std h c p' st'"
proof -
  let ?fo = "fe_float (ke_feature e)"
  obtain hist a where [simp]: "st = (hist, a)" by (cases st) auto
  obtain w where w: "kp_adapter p = Some a" "sm_find (kp_handles p) h = Some w" "kw_config w = c"
      "workplace_ready ?fo mean std hist w"
    using p(1) by (auto simp: kws_handle_def)
  define win where "win = drop (length hist - 14400) hist @ kws_ints ?fo mean std xs"
  have f: "features_to ?fo mean std xs (feature_int ?fo mean std xs)" using xs by (simp add: convertible_def)
  have "length win = 16000" using ready_history [OF w(4)] features_window_bytes [OF f] by (simp add: win_def)
  then obtain a1 where a1: "ea_write (ke_ops e) (pc_inputAddr c) 0 win a = Some a1"
      "ea_Invoke (ke_ops e) h a1 = (RETCODE_SUCCESS, snd (brain a win))"
      "ea_read (ke_ops e) (pc_outputAddr c) (pc_outputSize c * 4) (snd (brain a win)) = Some (fst (brain a win))"
      "length (fst (brain a win)) = 4 * pc_outputSize c"
    using ok(2) unfolding kws_engine_def by blast
  have k: "sound_env (ke_mem e)" "roomy_env (room (24 + 4 * pc_outputSize c)) (ke_mem e)" "copy_env 64000 (ke_mem e)" "ke_response e"
      "24 + 4 * int (pc_outputSize c) \<le> INT_MAX" "pc_inputSize c = DEFAULT_SLIDE_WINDOW_SIZE" "pc_inputAddr c \<noteq> 0"
      "pc_outputAddr c \<noteq> 0" "0 < pc_outputSize c"
    using ok(1) by (simp_all add: kws_plugin_ok_def)
  obtain out w1 where r: "KWS_SyncProcess e (Some req) p = Some (RETCODE_SUCCESS, Some (Response_SetResult out (Response_new (Some req))),
        p\<lparr>kp_adapter := Some (snd (brain a win)), kp_handles := sm_put h w1 (kp_handles p)\<rparr>)"
      "di_data out = Some (message (kws_reply h (pc_outputSize c) (fst (brain a win))))"
      "di_length out = int (length (message (kws_reply h (pc_outputSize c) (fst (brain a win)))))"
      "workplace_ready ?fo mean std (hist @ kws_ints ?fo mean std xs) w1" "kw_config w1 = c"
    using request_sees_window [of e w p a h mean std hist xs "feature_int ?fo mean std xs" m empty_DataInfo req a1 "snd (brain a win)" "fst (brain a win)"]
      k w(1,2,4) p(2) f msg a1 unfolding w(3) request_is_message win_def [symmetric] by blast
  have ans': "vs = elements 4 (pc_outputSize c) (fst (brain a win))" "st' = (hist @ kws_ints ?fo mean std xs, snd (brain a win))"
    using ans by (auto simp: kws_answer_def win_def [symmetric] case_prod_unfold Let_def)
  show ?thesis
    using r unfolding reply_is_message ans' by (intro exI conjI) (assumption | simp add: kws_handle_def sm_find_put)+
qed

text \<open>The world of the two processes, around a plugin whose handle has seen the history.\<close>

definition kws_world ::
  "('io, 'a KWSPlugin) stack \<Rightarrow> ('io \<Rightarrow> io_item list) \<Rightarrow> ('io \<Rightarrow> nat) \<Rightarrow> (io_item \<Rightarrow> nat) \<Rightarrow> ClientInfo \<Rightarrow> 'a kenv \<Rightarrow>
   (nat \<Rightarrow> nat) \<Rightarrow> (nat \<Rightarrow> nat) \<Rightarrow> int \<Rightarrow> PluginConfig \<Rightarrow>
   ('io, 'a KWSPlugin server) client \<times> 'a KWSPlugin server \<times> shmsys \<Rightarrow> byte list \<times> 'a \<Rightarrow> bool" where
  "kws_world sk items cap size0 ci e mean std h c w st \<longleftrightarrow>
     (\<exists>p. stack_ready sk items cap size0 ci kws_algorithmInfo w p \<and> kws_handle e mean std h c p st)"

lemma stack_is_service:
  assumes ok: "kws_plugin_ok e c" "kws_engine (ke_ops e) h c brain" "intptr h" and ops: "kws_operations e (sk_ops sk)"
    and lim: "24 + 4 * pc_outputSize c \<le> lim"
  shows "kws_service lim (aie_client (sk_env sk) rounds) ci h (kws_world sk items cap size0 ci e mean std h c)
    (convertible (fe_float (ke_feature e)) mean std)
    (kws_answer (kws_ints (fe_float (ke_feature e)) mean std) brain (pc_outputSize c))"
  unfolding kws_service_def Let_def
proof (intro allI impI, elim conjE)
  let ?answer = "kws_answer (kws_ints (fe_float (ke_feature e)) mean std) brain (pc_outputSize c)"
  fix m inp w st xs
  assume h: "kws_world sk items cap size0 ci e mean std h c w st" "convertible (fe_float (ke_feature e)) mean std xs" "sound_env m"
    "ProcessEncode m empty_DataInfo (kws_message h xs) = Some (RETCODE_SUCCESS, inp)" "length xs = 400" "widths 2 xs"
  obtain p where p: "stack_ready sk items cap size0 ci kws_algorithmInfo w p" "kws_handle e mean std h c p st"
    using h(1) by (auto simp: kws_world_def)
  define vs st' where "vs = fst (?answer st xs)" and "st' = snd (?answer st xs)"
  have ans: "?answer st xs = (vs, st')" by (simp add: vs_def st'_def)
  have win: "length (drop (length (fst st) - 14400) (fst st) @ kws_ints (fe_float (ke_feature e)) mean std xs) = 16000"
    using p(2) ready_history features_window_bytes h(2) by (fastforce simp: kws_handle_def convertible_def)
  then have res: "length (fst (brain (snd st) (drop (length (fst st) - 14400) (fst st) @ kws_ints (fe_float (ke_feature e)) mean std xs))) =
      4 * pc_outputSize c"
    using ok(2) unfolding kws_engine_def by blast
  have vs: "vs = elements 4 (pc_outputSize c)
      (fst (brain (snd st) (drop (length (fst st) - 14400) (fst st) @ kws_ints (fe_float (ke_feature e)) mean std xs)))"
    by (simp add: vs_def kws_answer_def case_prod_unfold Let_def)
  have w4: "widths 4 vs" unfolding vs widths_def using elements_width [OF res] by blast
  have n: "0 < pc_outputSize c" "24 + 4 * pc_outputSize c \<le> 1048576" using ok(1) by (simp_all add: kws_plugin_ok_def)
  have lv: "length vs = pc_outputSize c" unfolding vs by simp
  then have ne: "vs \<noteq> []" using n(1) by auto
  have len: "length (message (kws_message h vs)) = 24 + 4 * pc_outputSize c"
    using kws_message_ok(2) [OF ne w4, of h] lv by (simp add: length_message)
  define out where "out = \<lparr>di_data = Some (message (kws_message h vs)), di_length = int (length (message (kws_message h vs)))\<rparr>"
  have out: "data_ok out" using message_data_ok [of out "kws_message h vs"] len n(2) by (simp add: out_def)
  have "xs \<noteq> []" using h(5) by auto
  then have "length (message (kws_message h xs)) = 824" "length (payload (kws_message h xs)) < 2 ^ 59" "list_all param_ok (kws_message h xs)"
    using kws_message_ok(1,2) [of xs 2 h] h(5,6) by (auto simp: length_message)
  then have inp: "data_ok inp"
    using ProcessEncode_delivers [OF h(3), of "kws_message h xs" empty_DataInfo] h(4) by (auto intro: message_data_ok)
  have op: "\<exists>rc resp p'. po_SyncProcess (sk_ops sk) req p = (rc, resp, p') \<and> RETCODE_SUCCESS = answer_code rc \<and>
      out = answer_data rc resp \<and> kws_handle e mean std h c p' st'" if rq: "rq_msg req = inp" for req :: Request
  proof -
    obtain d p' where r: "KWS_SyncProcess e (Some req) p = Some (RETCODE_SUCCESS, Some (Response_SetResult d (Response_new (Some req))), p')"
        "di_data d = Some (message (kws_message h vs))" "di_length d = int (length (message (kws_message h vs)))"
        "kws_handle e mean std h c p' st'"
      using plugin_answers [OF ok(1,2) p(2) ok(3) h(2,3) h(4) [folded rq] ans] by blast
    have "d = out" using r(2,3) by (cases d) (simp add: out_def)
    moreover have "po_SyncProcess (sk_ops sk) req p = (RETCODE_SUCCESS, Some (Response_SetResult d (Response_new (Some req))), p')"
      using ops r(1) by (simp add: kws_operations_def)
    ultimately show ?thesis using r(4) by (auto simp: answer_code_def answer_data_def)
  qed
  obtain w' p' where w': "ao_SyncProcess (aie_client (sk_env sk) rounds) ci kws_algorithmInfo inp empty_DataInfo w = Some (RETCODE_SUCCESS, out, w')"
      "stack_ready sk items cap size0 ci kws_algorithmInfo w' p'" "kws_handle e mean std h c p' st'"
    using stack_step [OF p(1) inp out op] by blast
  have "kws_world sk items cap size0 ci e mean std h c w' st'" using w'(2,3) by (auto simp: kws_world_def)
  then show "fst (?answer st xs) \<noteq> [] \<and> widths 4 (fst (?answer st xs)) \<and> length (message (kws_message h (fst (?answer st xs)))) \<le> lim \<and>
    (\<exists>w'. ao_SyncProcess (aie_client (sk_env sk) rounds) ci kws_algorithmInfo inp empty_DataInfo w =
      Some (RETCODE_SUCCESS, \<lparr>di_data = Some (message (kws_message h (fst (?answer st xs)))),
        di_length = int (length (message (kws_message h (fst (?answer st xs)))))\<rparr>, w') \<and>
      kws_world sk items cap size0 ci e mean std h c w' (snd (?answer st xs)))"
    using ne w4 len lim w'(1) unfolding ans fst_conv snd_conv out_def by auto
qed

section \<open>The sound of an application\<close>

text \<open>
  After the components of the SDK are set up and a handle is there, an application may hand over its
  sound in arrays of any lengths, in as many calls as it likes: the answers to the windows of the
  whole sound in a row are the callback's, and the two processes are ready for more sound.
\<close>

lemma kws_sound_through_service:
  assumes sdk: "pcm_env (se_mem e)" "kws_memory lim (se_mem e)" "se_iterator e" "se_aie e = aie_client (sk_env sk) rounds"
    and mo: "mfcc_computes (se_mfcc e) (convertible (fe_float (ke_feature k)) mean std) f" "mf_new (se_mfcc e) = Some mf0"
      "mf_Init (se_mfcc e) InitMFCCConfiguration mf0 = (RETCODE_SUCCESS, mf)"
    and h: "intptr h" "h \<noteq> INVALID_KWS_HANDLE" "ks_callback s"
    and plugin: "kws_plugin_ok k c" "kws_engine (ke_ops k) h c brain" "kws_operations k (sk_ops sk)" "24 + 4 * pc_outputSize c \<le> lim"
    and ready: "stack_ready sk items cap size0 ci kws_algorithmInfo w p" "kws_handle k mean std h c p (hist, a)"
    and xs: "\<forall>x \<in> set xs. x \<noteq> [] \<and> length x < SZ"
  shows "\<exists>s1 s2 vs mf' st' w'. KwsSdk_InitComponents e s = (KWS_RETCODE_SUCCESS, s1) \<and>
    kws_calls e xs (s1\<lparr>ks_kwsHandle := h, ks_clientInfo := ci\<rparr>) w = Some (replicate (length xs) KWS_RETCODE_SUCCESS, s2, w') \<and>
    all_windows (window_step f (kws_answer (kws_ints (fe_float (ke_feature k)) mean std) brain (pc_outputSize c)))
      (map (\<lambda>j. take 3360 (drop (j * 3200) (concat xs)))
        [0..<if length (concat xs) < 3360 then 0 else (length (concat xs) - 3360) div 3200 + 1]) (mf, hist, a) = (vs, mf', st') \<and>
    ks_events s2 = ks_events s @ map OnResult vs \<and> ks_clientInfo s2 = ci \<and> ks_kwsHandle s2 = h \<and>
    (\<exists>p'. stack_ready sk items cap size0 ci kws_algorithmInfo w' p' \<and> kws_handle k mean std h c p' st')"
proof -
  have srv: "kws_service lim (se_aie e) ci h (kws_world sk items cap size0 ci k mean std h c) (convertible (fe_float (ke_feature k)) mean std)
      (kws_answer (kws_ints (fe_float (ke_feature k)) mean std) brain (pc_outputSize c))"
    unfolding sdk(4) by (rule stack_is_service [OF plugin(1,2) h(1) plugin(3,4)])
  have w: "kws_world sk items cap size0 ci k mean std h c w (hist, a)" using ready by (auto simp: kws_world_def)
  from kws_sound_reported [OF sdk(1-3) mo h srv w xs] show ?thesis unfolding kws_world_def by blast
qed

end
