(* ===== verification/KwsStart.thy ===== *)
theory KwsStart
  imports Opening KwsStack
begin

text \<open>
  Keyword spotting from the start: the SDK's \<open>Create\<close> connects the process, has the plugin loaded and
  prepared, and gets a handle; then the application's sound is served.
\<close>

section \<open>The plugin prepares\<close>

text \<open>The plugin has a workplace for the handle it gave out, and the engine is in state \<open>a\<close>.\<close>

definition kws_prepared ::
  "'a kenv \<Rightarrow> (nat \<Rightarrow> nat) \<Rightarrow> (nat \<Rightarrow> nat) \<Rightarrow> int \<Rightarrow> PluginConfig \<Rightarrow> 'a \<Rightarrow> DataInfo \<Rightarrow> 'a KWSPlugin \<Rightarrow> bool" where
  "kws_prepared k mean std h c a out p \<longleftrightarrow> out = handle_block h \<and> kws_handle k mean std h c p (replicate 14400 0, a)"

text \<open>
  The engine loads the model under a handle that is not in use, with the blocks of \<open>c\<close>; the plugin's
  files are there.
\<close>

definition kws_loads ::
  "'a kenv \<Rightarrow> string list \<Rightarrow> string list \<Rightarrow> int \<Rightarrow> PluginConfig \<Rightarrow> 'a KWSPlugin \<Rightarrow> 'a \<Rightarrow> bool" where
  "kws_loads k ms ss h c p a \<longleftrightarrow> fe_converter (ke_feature k) \<and> norm_files (ke_feature k) ms ss \<and> sm_find (kp_handles p) h = None \<and>
     (\<exists>a0. (case kp_adapter p of None \<Rightarrow> ke_nnie k | Some a \<Rightarrow> Some a) = Some a0 \<and>
        ea_Init (ke_ops k) KWS_MODEL_PATH a0 = (RETCODE_SUCCESS, h, a)) \<and>
     ea_GetInputAddr (ke_ops k) h MODEL_INPUT_NODE_ID a = (RETCODE_SUCCESS, pc_inputAddr c, pc_inputSize c) \<and>
     ea_GetOutputAddr (ke_ops k) h MODEL_OUTPUT_NODE_ID a = (RETCODE_SUCCESS, pc_outputAddr c, pc_outputSize c)"

abbreviation kws_mean :: "'a kenv \<Rightarrow> string list \<Rightarrow> nat \<Rightarrow> nat" where
  "kws_mean k xs \<equiv> numbers (fe_float (ke_feature k)) xs"

lemma kws_prepares:
  assumes ok: "kws_plugin_ok k c" and l: "kws_loads k ms ss h c p a"
  shows "prepares (KWS_plugin k config0) inp p (kws_prepared k (kws_mean k ms) (kws_mean k ss) h c a)"
  unfolding prepares_def
proof
  fix t
  obtain a0 where l': "fe_converter (ke_feature k)" "norm_files (ke_feature k) ms ss" "sm_find (kp_handles p) h = None"
      "(case kp_adapter p of None \<Rightarrow> ke_nnie k | Some a \<Rightarrow> Some a) = Some a0" "ea_Init (ke_ops k) KWS_MODEL_PATH a0 = (RETCODE_SUCCESS, h, a)"
      "ea_GetInputAddr (ke_ops k) h MODEL_INPUT_NODE_ID a = (RETCODE_SUCCESS, pc_inputAddr c, pc_inputSize c)"
      "ea_GetOutputAddr (ke_ops k) h MODEL_OUTPUT_NODE_ID a = (RETCODE_SUCCESS, pc_outputAddr c, pc_outputSize c)"
    using l by (auto simp: kws_loads_def)
  have e: "sound_env (ke_mem k)" "copy_env 64000 (ke_mem k)" "roomy_env (room 16) (ke_mem k)"
    using ok by (auto simp: kws_plugin_ok_def roomy_env_def room_def)
  obtain out w where r: "KWS_Prepare k config0 t inp empty_DataInfo p =
      Some (RETCODE_SUCCESS, out, p\<lparr>kp_adapter := Some a, kp_handles := sm_put h w (kp_handles p)\<rparr>)"
      "di_data out = Some (message [PVal (handle_bytes h)])" "di_length out = int (length (message [PVal (handle_bytes h)]))"
      "pc_inputAddr (kw_config w) = pc_inputAddr c" "pc_inputSize (kw_config w) = pc_inputSize c"
      "pc_outputAddr (kw_config w) = pc_outputAddr c" "pc_outputSize (kw_config w) = pc_outputSize c"
      "workplace_ready (fe_float (ke_feature k)) (kws_mean k ms) (kws_mean k ss) (replicate 14400 0) w"
    using KWS_Prepare_ready [OF e(1,2) l'(1) e(3) l'(2,4,5,3,6,7), of config0 t inp] by blast
  have "kw_config w = c" using r(4-7) by simp
  then have "kws_prepared k (kws_mean k ms) (kws_mean k ss) h c a out (p\<lparr>kp_adapter := Some a, kp_handles := sm_put h w (kp_handles p)\<rparr>)"
    using r(2,3,8) by (simp add: kws_prepared_def handle_block_def kws_handle_def sm_find_put)
  moreover have "out = handle_block h" using r(2,3) by (cases out) (simp add: handle_block_def)
  then have "data_ok out" by (simp add: handle_block_ok)
  moreover have "po_Prepare (KWS_plugin k config0) t inp empty_DataInfo p =
      (RETCODE_SUCCESS, out, p\<lparr>kp_adapter := Some a, kp_handles := sm_put h w (kp_handles p)\<rparr>)"
    using r(1) by (simp add: KWS_plugin_def defined_def)
  ultimately show "\<exists>out p'. po_Prepare (KWS_plugin k config0) t inp empty_DataInfo p = (RETCODE_SUCCESS, out, p') \<and> data_ok out \<and>
      kws_prepared k (kws_mean k ms) (kws_mean k ss) h c a out p'"
    by blast
qed

section \<open>The SDK\<close>

lemma kws_created:
  assumes new: "ks_kwsHandle s = INVALID_KWS_HANDLE" and init: "KwsSdk_InitComponents e s = (KWS_RETCODE_SUCCESS, s1)"
      "ks_clientInfo s1 = ci"
    and mem: "kws_memory lim (se_mem e)" and h: "intptr h" and aie: "se_aie e = aie_client (sk_env sk) rounds"
    and o: "stack_offered sk items cap size0 rounds ci kws_algorithmInfo w"
    and p: "prepares (sk_ops sk) empty_DataInfo (ex_algs (sv_exec (fst (snd w))) (sk_plugin sk)) (kws_prepared k mean std h c a)"
  shows "\<exists>ci' w1 p. KwsSdk_Create e s w = Some (KWS_RETCODE_SUCCESS, s1\<lparr>ks_clientInfo := ci', ks_kwsHandle := h\<rparr>, w1) \<and>
    stack_ready sk items cap size0 ci' kws_algorithmInfo w1 p \<and> kws_handle k mean std h c p (replicate 14400 0, a)"
proof -
  obtain ci' w1 w2 p where r: "ao_Init (se_aie e) ''kws config description'' ci kws_algorithmInfo w = Some (RETCODE_SUCCESS, ci', w1)"
      "ci_clientId ci' \<noteq> INVALID_CLIENT_ID"
      "ao_Prepare (se_aie e) ci' kws_algorithmInfo empty_DataInfo empty_DataInfo w1 = Some (RETCODE_SUCCESS, handle_block h, w2)"
      "kws_handle k mean std h c p (replicate 14400 0, a)" "stack_ready sk items cap size0 ci' kws_algorithmInfo w2 p"
    using stack_opens [OF o p, of "''kws config description''"] unfolding aie kws_prepared_def by blast
  have "roomy_env 16 (se_mem e)" using mem by (auto simp: kws_memory_def roomy_env_def room_def)
  note dec = handle_block_decoded [OF this, of h]
  show ?thesis
    using new init r dec handle_read_decoded [OF h, of _ "[]"]
    by (intro exI [of _ ci'] exI [of _ w2] exI [of _ p]) (simp add: KwsSdk_Create_def Let_def)
qed

text \<open>The callback has no part in setting up the components; nor have the ids of the client.\<close>

lemma InitComponents_callback:
  "KwsSdk_InitComponents e (s\<lparr>ks_callback := b\<rparr>) =
     (fst (KwsSdk_InitComponents e s), (snd (KwsSdk_InitComponents e s))\<lparr>ks_callback := b\<rparr>)"
  by (simp add: KwsSdk_InitComponents_def Let_def split: option.split prod.split)

lemma InitComponents_clientInfo: "KwsSdk_InitComponents e s = (r, s1) \<Longrightarrow> ks_clientInfo s1 = ks_clientInfo s"
  by (auto simp: KwsSdk_InitComponents_def Let_def split: option.splits prod.splits if_splits)

lemma no_events: "ks_events (KWSSdkImpl_new\<lparr>ks_callback := b\<rparr>) = []"
  by (simp add: KWSSdkImpl_new_def)

text \<open>C11. Keyword spotting from nothing to the last answer, through the whole system: in a process without
  a session an application creates the SDK's object, sets its callback, and hands over its sound in
  arrays of any lengths, in as many calls as it likes. Creating connects the process, has the plugin
  loaded into an engine and prepared, and takes the handle of the model it loaded; it and each of the
  calls return success. All in all, for each of the 3360-sample windows, every 3200 samples, of the
  whole sound in a row, in order, the features of the window go through the client, the IPC, the
  service and the engine's queue to the plugin, which normalises them and appends them to those of
  the windows before, with zeros before the first; the model is invoked once, on the last 4000
  integers of that history; and the callback gets the model's output. Afterwards the two processes
  are ready for more sound. Provided the MFCC processor computes features that can be converted, the
  IPC library and the engine do what they document, allocation and the system calls succeed and the
  messages fit.\<close>

theorem kws_sound_from_start:
  assumes sdk: "pcm_env (se_mem e)" "kws_memory lim (se_mem e)" "se_iterator e" "se_aie e = aie_client (sk_env sk) rounds"
    and mo: "mfcc_computes (se_mfcc e) (convertible (fe_float (ke_feature k)) (kws_mean k ms) (kws_mean k ss)) f"
      "mf_new (se_mfcc e) = Some mf0" "mf_Init (se_mfcc e) InitMFCCConfiguration mf0 = (RETCODE_SUCCESS, mf)"
    and h: "intptr h" "h \<noteq> INVALID_KWS_HANDLE"
    and plugin: "kws_plugin_ok k c" "kws_engine (ke_ops k) h c brain" "sk_ops sk = KWS_plugin k config0" "24 + 4 * pc_outputSize c \<le> lim"
      "kws_loads k ms ss h c (ex_algs (sv_exec (fst (snd w))) (sk_plugin sk)) a"
    and start: "stack_offered sk items cap size0 rounds (fresh_ClientInfo CLIENT_VERSION_KWS) kws_algorithmInfo w"
    and xs: "\<forall>x \<in> set xs. x \<noteq> [] \<and> length x < SZ"
  shows "\<exists>s1 w1 s2 vs mf' st' w2. KwsSdk_Create e KWSSdkImpl_new w = Some (KWS_RETCODE_SUCCESS, s1, w1) \<and>
    kws_calls e xs (snd (KWS_SetCallback True s1)) w1 = Some (replicate (length xs) KWS_RETCODE_SUCCESS, s2, w2) \<and>
    all_windows (window_step f (kws_answer (kws_ints (fe_float (ke_feature k)) (kws_mean k ms) (kws_mean k ss)) brain (pc_outputSize c)))
      (map (\<lambda>j. take 3360 (drop (j * 3200) (concat xs)))
        [0..<if length (concat xs) < 3360 then 0 else (length (concat xs) - 3360) div 3200 + 1])
      (mf, replicate 14400 0, a) = (vs, mf', st') \<and>
    ks_events s2 = map OnResult vs \<and>
    (\<exists>p. stack_ready sk items cap size0 (ks_clientInfo s2) kws_algorithmInfo w2 p \<and>
       kws_handle k (kws_mean k ms) (kws_mean k ss) h c p st')"
proof -
  let ?s = "KWSSdkImpl_new\<lparr>ks_callback := True\<rparr>"
  define s0 where "s0 = snd (KwsSdk_InitComponents e KWSSdkImpl_new)"
  have good: "prepares (sk_ops sk) empty_DataInfo (ex_algs (sv_exec (fst (snd w))) (sk_plugin sk))
      (kws_prepared k (kws_mean k ms) (kws_mean k ss) h c a)"
    unfolding plugin(3) by (rule kws_prepares [OF plugin(1,5)])
  have ops: "kws_operations k (sk_ops sk)" unfolding plugin(3) by (rule KWS_plugin_operations)
  note serve = kws_sound_through_service [OF sdk mo h _ plugin(1,2) ops plugin(4) _ _ xs, of ?s]
  have init: "KwsSdk_InitComponents e KWSSdkImpl_new = (KWS_RETCODE_SUCCESS, s0)"
    using kws_components [OF sdk(1,3) mo(2,3), of KWSSdkImpl_new] by (auto simp: s0_def)
  then have init2: "KwsSdk_InitComponents e ?s = (KWS_RETCODE_SUCCESS, s0\<lparr>ks_callback := True\<rparr>)"
    by (simp add: InitComponents_callback)
  have ci: "ks_clientInfo s0 = fresh_ClientInfo CLIENT_VERSION_KWS"
    using InitComponents_clientInfo [OF init] by (simp add: KWSSdkImpl_new_def)
  obtain ci' w1 p where create: "KwsSdk_Create e KWSSdkImpl_new w =
        Some (KWS_RETCODE_SUCCESS, s0\<lparr>ks_clientInfo := ci', ks_kwsHandle := h\<rparr>, w1)"
      "stack_ready sk items cap size0 ci' kws_algorithmInfo w1 p"
      "kws_handle k (kws_mean k ms) (kws_mean k ss) h c p (replicate 14400 0, a)"
    using kws_created [OF _ init ci sdk(2) h(1) sdk(4) start good] by (auto simp: KWSSdkImpl_new_def)
  have cb: "snd (KWS_SetCallback True (s0\<lparr>ks_clientInfo := ci', ks_kwsHandle := h\<rparr>)) =
      s0\<lparr>ks_callback := True, ks_kwsHandle := h, ks_clientInfo := ci'\<rparr>"
    by (simp add: KWS_SetCallback_def)
  have on: "ks_callback ?s" by simp
  obtain s1 s2 vs mf' st' w2 p' where r: "KwsSdk_InitComponents e ?s = (KWS_RETCODE_SUCCESS, s1)"
      "kws_calls e xs (s1\<lparr>ks_kwsHandle := h, ks_clientInfo := ci'\<rparr>) w1 = Some (replicate (length xs) KWS_RETCODE_SUCCESS, s2, w2)"
      "all_windows (window_step f (kws_answer (kws_ints (fe_float (ke_feature k)) (kws_mean k ms) (kws_mean k ss)) brain (pc_outputSize c)))
        (map (\<lambda>j. take 3360 (drop (j * 3200) (concat xs)))
          [0..<if length (concat xs) < 3360 then 0 else (length (concat xs) - 3360) div 3200 + 1])
        (mf, replicate 14400 0, a) = (vs, mf', st')"
      "ks_events s2 = map OnResult vs" "ks_clientInfo s2 = ci'"
      "stack_ready sk items cap size0 ci' kws_algorithmInfo w2 p'" "kws_handle k (kws_mean k ms) (kws_mean k ss) h c p' st'"
    using serve [OF on create(2,3)] unfolding no_events append_Nil by (elim exE conjE) (rule that)
  have "s1 = s0\<lparr>ks_callback := True\<rparr>" using r(1) init2 by simp
  then show ?thesis using create(1) cb r(2-7) by (intro exI conjI) (assumption | simp del: upt_Suc)+
qed

section \<open>An example\<close>

text \<open>
  A processor whose features are zero, the two processes at their start, and the plugin whose model
  copies the first three integers of its window: two windows in two calls.
\<close>

definition zero_mfcc :: "unit mfcc_ops" where
  "zero_mfcc = \<lparr>mf_new = Some (), mf_Init = \<lambda>_ m. (0, m), mf_Process = \<lambda>_ m. (0, array_of (replicate 400 [0, 0]), m)\<rparr>"

definition kws_stack :: "(io_item list, byte list KWSPlugin) stack" where
  "kws_stack = starting_stack (KWS_plugin demo_kenv \<lparr>pc_inputSize = 0, pc_outputSize = 0, pc_inputAddr = 0, pc_outputAddr = 0\<rparr>)"

definition demo_senv ::
  "((io_item list, byte list KWSPlugin server) client \<times> byte list KWSPlugin server \<times> shmsys, unit) KwsSdk.senv" where
  "demo_senv = \<lparr>se_mem = copying_env, se_aie = aie_client (sk_env kws_stack) [1], se_mfcc = zero_mfcc, se_iterator = True\<rparr>"

lemma int_convertible: "length xs = 400 \<Longrightarrow> widths 2 xs \<Longrightarrow> convertible int_floats mean std xs"
proof -
  have "in_type INT32 (sint w)" for w :: "32 word"
    using sint_ge [of w] sint_less [of w] by (simp add: in_type_def)
  then show "length xs = 400 \<Longrightarrow> widths 2 xs \<Longrightarrow> convertible int_floats mean std xs"
    by (simp add: convertible_def features_to_def feature_int_def int_floats_def widths_def)
qed

theorem kws_sound_from_start_witness:
  "\<exists>s1 w1 s2 v1 v2 w2. KwsSdk_Create demo_senv KWSSdkImpl_new (starting_world KWSPlugin_new) = Some (KWS_RETCODE_SUCCESS, s1, w1) \<and>
    kws_calls demo_senv [replicate 3000 1, replicate 3560 2] (snd (KWS_SetCallback True s1)) w1 =
      Some ([KWS_RETCODE_SUCCESS, KWS_RETCODE_SUCCESS], s2, w2) \<and>
    ks_events s2 = [OnResult v1, OnResult v2]"
proof -
  let ?f = "\<lambda>(m :: unit) (samples :: int list). (replicate 400 [0, 0 :: byte], m)"
  let ?c = "\<lparr>pc_inputSize = 4000, pc_outputSize = 3, pc_inputAddr = 64, pc_outputAddr = 128\<rparr> :: PluginConfig"
  let ?config0 = "\<lparr>pc_inputSize = 0, pc_outputSize = 0, pc_inputAddr = 0, pc_outputAddr = 0\<rparr> :: PluginConfig"
  let ?brain = "\<lambda>(a :: byte list) win. (take 12 win, win)" and ?ones = "replicate 40 ''1''"
  let ?w = "starting_world KWSPlugin_new :: (io_item list, byte list KWSPlugin server) client \<times> byte list KWSPlugin server \<times> shmsys"
  have fe: "ke_mem demo_kenv = copying_env" "fe_float (ke_feature demo_kenv) = int_floats" "ke_ops demo_kenv = copy_engine" "ke_response demo_kenv"
    by (simp_all add: demo_kenv_def)
  have e: "pcm_env (se_mem demo_senv)" "kws_memory 1000 (se_mem demo_senv)" "se_iterator demo_senv"
      "se_aie demo_senv = aie_client (sk_env kws_stack) [1]"
    by (simp_all add: demo_senv_def pcm_env_def kws_memory_def copying_env_def sound_env_def roomy_env_def total_env_def copy_env_def)
  have m: "mfcc_computes (se_mfcc demo_senv) (convertible (fe_float (ke_feature demo_kenv)) (kws_mean demo_kenv ?ones) (kws_mean demo_kenv ?ones)) ?f"
      "mf_new (se_mfcc demo_senv) = Some ()" "mf_Init (se_mfcc demo_senv) InitMFCCConfiguration () = (RETCODE_SUCCESS, ())"
    using int_convertible [of "replicate 400 [0, 0]"] unfolding fe by (simp_all add: mfcc_computes_def demo_senv_def zero_mfcc_def widths_def)
  have h: "intptr 7" "7 \<noteq> INVALID_KWS_HANDLE" by (simp_all add: intptr_def)
  have cp: "copy_env 64000 copying_env" by (simp add: copying_env_def copy_env_def total_env_def)
  have g: "kws_plugin_ok demo_kenv ?c" "kws_engine (ke_ops demo_kenv) 7 ?c ?brain" "sk_ops kws_stack = KWS_plugin demo_kenv ?config0"
      "24 + 4 * pc_outputSize ?c \<le> 1000"
    unfolding fe(3) by (auto simp: kws_plugin_ok_def fe cp kws_engine_def copy_engine_def kws_stack_def starting_stack_def)
  have l: "kws_loads demo_kenv ?ones ?ones 7 ?c (ex_algs (sv_exec (fst (snd ?w))) (sk_plugin kws_stack)) []"
    using demo_files
    by (simp add: kws_loads_def starting_world_def server_init_def exec_init_def KWSPlugin_new_def demo_kenv_def copy_engine_def)
  have s: "stack_offered kws_stack (\<lambda>io. io) (\<lambda>io. 100 - length io) (\<lambda>_. 1) [1] (fresh_ClientInfo CLIENT_VERSION_KWS) kws_algorithmInfo ?w"
    unfolding kws_stack_def
    by (rule starting_offered) (simp_all add: served_algorithms_def fresh_ClientInfo_def kws_algorithmInfo_def sync_AlgorithmInfo_def KWS_plugin_def
        KWS_GetInferMode_def GetAlgorithmIdByType_def ALGORITHM_TYPE_ID_LIST_def)
  have xs: "\<forall>x \<in> set [replicate 3000 1, replicate 3560 (2 :: int)]. x \<noteq> [] \<and> length x < SZ" by simp
  have n: "length (concat [replicate 3000 1, replicate 3560 (2 :: int)]) = 6560" by simp
  have two: "[0..<if 6560 < (3360 :: nat) then 0 else (6560 - 3360) div 3200 + 1] = [0, 1]" by (simp add: upt_rec)
  obtain s1 w1 s2 vs mf' st' w2 where run: "KwsSdk_Create demo_senv KWSSdkImpl_new ?w = Some (KWS_RETCODE_SUCCESS, s1, w1)"
      "kws_calls demo_senv [replicate 3000 1, replicate 3560 2] (snd (KWS_SetCallback True s1)) w1 =
        Some (replicate (length [replicate 3000 1, replicate 3560 (2 :: int)]) KWS_RETCODE_SUCCESS, s2, w2)"
      "all_windows (window_step ?f (kws_answer (kws_ints (fe_float (ke_feature demo_kenv)) (kws_mean demo_kenv ?ones) (kws_mean demo_kenv ?ones)) ?brain
          (pc_outputSize ?c)))
        (map (\<lambda>j. take 3360 (drop (j * 3200) (concat [replicate 3000 1, replicate 3560 2]))) [0, 1]) ((), replicate 14400 0, []) = (vs, mf', st')"
      "ks_events s2 = map OnResult vs"
    using kws_sound_from_start [OF e m h g l s xs] unfolding n two by blast
  have "length vs = 2" using run(3) by (auto simp: case_prod_unfold Let_def)
  then obtain v1 v2 where "vs = [v1, v2]" by (auto simp: length_Suc_conv numeral_2_eq_2)
  then show ?thesis
    using run(1,2,4) by (intro exI [of _ s1] exI [of _ w1] exI [of _ s2] exI [of _ v1] exI [of _ v2] exI [of _ w2]) simp
qed

end
