(* ===== verification/PosixThread.thy ===== *)
theory PosixThread
  imports Threads
begin

text \<open>
  The creation of a POSIX thread (threadpool/source/aie_thread_unix.cpp) and the small queries of
  a thread object. The attribute calls of the threads library are a parameter; what
  \<open>Threads\<close> takes as \<open>create\<close> is \<open>CreateOneThread\<close> with the attributes of \<open>StartThread\<close>.
\<close>

section \<open>Attributes and creation\<close>

abbreviation (input) THREAD_SCOPE_PROCESS :: int where "THREAD_SCOPE_PROCESS \<equiv> 1"
abbreviation (input) THREAD_SCOPE_SYSTEM :: int where "THREAD_SCOPE_SYSTEM \<equiv> 2"

record PthreadAttr =
  at_stackSize :: nat
  at_scope :: int

text \<open>
  The library's attribute object: the functions that set it change it or refuse, and the code
  looks at the answer of \<open>pthread_attr_init\<close> only. \<open>pt_create\<close> returns an error number and the handle.
\<close>

record 'a pthread_ops =
  pt_attr_init :: "int \<times> 'a"
  pt_setscope :: "bool \<Rightarrow> 'a \<Rightarrow> 'a"
  pt_setstacksize :: "nat \<Rightarrow> 'a \<Rightarrow> 'a"
  pt_setjoinable :: "'a \<Rightarrow> 'a"
  pt_create :: "'a \<Rightarrow> int \<times> nat"

definition InitThread :: "bool \<Rightarrow> nat \<Rightarrow> retcode \<times> nat" where
  "InitThread memset_ok tr = (if \<not> memset_ok then (RETCODE_FAILURE, tr) else (RETCODE_SUCCESS, 0))"

definition GetThreadIdUnix :: "nat \<Rightarrow> nat" where
  "GetThreadIdUnix tr = tr"

text \<open>\<open>kill tid\<close> is what \<open>pthread_kill (tid, 0)\<close> returns.\<close>

abbreviation (input) ESRCH :: int where "ESRCH \<equiv> 3"

definition IsThreadRunning :: "(nat \<Rightarrow> int) \<Rightarrow> nat \<Rightarrow> bool" where
  "IsThreadRunning kill tid \<longleftrightarrow> kill tid \<noteq> ESRCH"

definition InitThreadAttr :: "PthreadAttr \<Rightarrow> PthreadAttr" where
  "InitThreadAttr attr = attr\<lparr>at_stackSize := THREAD_DEFAULT_STACK_SIZE, at_scope := THREAD_SCOPE_SYSTEM\<rparr>"

definition SetThreadAttrStackSize :: "nat \<Rightarrow> PthreadAttr \<Rightarrow> PthreadAttr" where
  "SetThreadAttrStackSize n attr = attr\<lparr>at_stackSize := n\<rparr>"

definition SetThreadAttrScope :: "int \<Rightarrow> PthreadAttr \<Rightarrow> PthreadAttr" where
  "SetThreadAttrScope scope attr = attr\<lparr>at_scope := scope\<rparr>"

definition CreateOneThread :: "'a pthread_ops \<Rightarrow> nat \<Rightarrow> PthreadAttr option \<Rightarrow> int \<times> nat" where
  "CreateOneThread pt tr attr =
     (let (retCode, pa) = pt_attr_init pt in
      if retCode \<noteq> 0 then (retCode, tr)
      else
        (let pa1 = (case attr of
                      Some t \<Rightarrow> if at_scope t = THREAD_SCOPE_PROCESS then pt_setscope pt True pa else pt_setscope pt False pa
                    | None \<Rightarrow> pt_setscope pt False pa);
             pa2 = (case attr of
                      Some t \<Rightarrow> if at_stackSize t > 0 then pt_setstacksize pt (at_stackSize t) pa1 else pa1
                    | None \<Rightarrow> pa1) in
         pt_create pt (pt_setjoinable pt pa2)))"

text \<open>The attributes of \<open>StartThread\<close>, whose local variable starts with any content.\<close>

definition start_attr :: "PthreadAttr \<Rightarrow> nat option \<Rightarrow> PthreadAttr option" where
  "start_attr junk stackSize = map_option (\<lambda>n. SetThreadAttrStackSize n (InitThreadAttr junk)) stackSize"

definition thread_create :: "'a pthread_ops \<Rightarrow> PthreadAttr \<Rightarrow> nat \<Rightarrow> nat option \<Rightarrow> int \<times> nat" where
  "thread_create pt junk tr stackSize = CreateOneThread pt tr (start_attr junk stackSize)"

section \<open>Queries of a thread\<close>

definition Thread_Status :: "Thread \<Rightarrow> ThreadStatus" where
  "Thread_Status t = th_status t"

definition Thread_GetWorker :: "Thread \<Rightarrow> nat option" where
  "Thread_GetWorker t = th_worker t"

definition Thread_IsRunning :: "Thread \<Rightarrow> bool" where
  "Thread_IsRunning t = th_running t"

text \<open>\<open>hung w\<close> is what the worker's own \<open>isHung\<close> answers.\<close>

definition Thread_IsHung :: "(nat \<Rightarrow> bool) \<Rightarrow> Thread \<Rightarrow> bool" where
  "Thread_IsHung hung t = (case th_worker t of None \<Rightarrow> False | Some w \<Rightarrow> hung w)"

definition IWorker_dtor :: "IWorker \<Rightarrow> IWorker" where
  "IWorker_dtor w = w\<lparr>wk_thread := None\<rparr>"

section \<open>What a started thread gets\<close>

text \<open>
  Whatever the local attribute held, the library is asked for system scope, for the stack size
  when one in range was given, and for a joinable thread.
\<close>

lemma thread_create_attributes:
  assumes "pt_attr_init pt = (0, pa)"
  shows "thread_create pt junk tr stackSize =
    pt_create pt (pt_setjoinable pt
      (case stackSize of
         Some n \<Rightarrow> if n > 0 then pt_setstacksize pt n (pt_setscope pt False pa) else pt_setscope pt False pa
       | None \<Rightarrow> pt_setscope pt False pa))"
  using assms
  by (simp add: thread_create_def CreateOneThread_def start_attr_def InitThreadAttr_def SetThreadAttrStackSize_def
      split: option.splits)

text \<open>A thread starts with the stack of its worker, where that is in range, else with its own.\<close>

lemma StartThread0_stack:
  assumes "ts_threads s a = Some t" and "th_status t \<noteq> RUNNING" and "th_worker t = Some w" and "ts_workers s w = Some x"
    and "THREAD_MIN_STACK_SIZE \<le> wk_stackSize x" and "wk_stackSize x < THREAD_MAX_STACK_SIZE"
    and "pt_attr_init pt = (0, pa)"
    and "pt_create pt (pt_setjoinable pt (pt_setstacksize pt (wk_stackSize x) (pt_setscope pt False pa))) = (0, h)"
  shows "\<exists>s'. Thread_StartThread0 (thread_create pt junk (th_handle t)) a s = Some (True, s') \<and>
    ts_threads s' a = Some (t\<lparr>th_handle := h, th_running := True, th_status := RUNNING\<rparr>)"
  using assms
  by (simp add: Thread_StartThread0_def thread_attr_def thread_create_attributes upd_thread_def)

text \<open>The liveness query of the thread object is the one of the library.\<close>

lemma IsActive_posix:
  "IsActive (IsThreadRunning kill) t \<longleftrightarrow> Thread_Status t = RUNNING \<and> kill (GetThreadIdUnix (th_handle t)) \<noteq> ESRCH"
  by (simp add: IsActive_def IsThreadRunning_def Thread_Status_def GetThreadId_def GetThreadIdUnix_def)

text \<open>
  A body that has ended by itself is never joined: the stop finds the thread inactive and keeps
  its handle, which the next start overwrites.
\<close>

lemma ended_thread_not_joined:
  assumes "Thread_body initialize acts a s = Some (True, uninit, s')" and "ts_threads s a = Some t" and "th_handle t = h"
  shows "\<exists>t'. ts_threads s' a = Some t' \<and> th_handle t' = h \<and> Thread_StopThread alive ends t' = Some t' \<and>
    Thread_StopThread_timeout alive ends timeOut t' = (True, t')"
proof -
  have run: "ts_threads (snd (Run_loop acts w x)) = ts_threads x" for w x
    by (induction acts w x rule: Run_loop.induct) (simp_all add: upd_worker_def)
  have "ts_threads s' a = Some (t\<lparr>th_status := STOPPED\<rparr>)"
    using assms(1,2) run
    by (auto simp: Thread_body_def upd_thread_def split: option.splits if_splits prod.splits) (metis snd_conv)+
  then show ?thesis
    using assms(3) by (simp add: Thread_StopThread_def Thread_StopThread_timeout_def IsActive_def)
qed

end
