(* ===== verification/Clock.thy ===== *)
theory Clock
  imports AieBase
begin

text \<open>
  Time as the program measures it (services/common/platform/time): the wall clock
  \<open>std::chrono::system_clock\<close>, here in nanoseconds since the epoch, which can be set. What the clock
  shows is an argument. \<open>duration_cast\<close> truncates towards zero.
\<close>

section \<open>The clock and the elapser\<close>

definition duration_cast :: "int \<Rightarrow> int \<Rightarrow> int" where
  "duration_cast unit d = (if d < 0 then - ((- d) div unit) else d div unit)"

abbreviation (input) NS_PER_US :: int where "NS_PER_US \<equiv> 1000"
abbreviation (input) NS_PER_MS :: int where "NS_PER_MS \<equiv> 1000000"
abbreviation (input) NS_PER_SEC :: int where "NS_PER_SEC \<equiv> 1000000000"

definition GetCurTimeSec :: "int \<Rightarrow> int" where
  "GetCurTimeSec now = duration_cast NS_PER_SEC now"

definition GetCurTimeMillSec :: "int \<Rightarrow> int" where
  "GetCurTimeMillSec now = duration_cast NS_PER_MS now"

record TimeElapser =
  te_startTime :: int

definition TimeElapser_Reset :: "int \<Rightarrow> TimeElapser \<Rightarrow> TimeElapser" where
  "TimeElapser_Reset now te = te\<lparr>te_startTime := now\<rparr>"

definition TimeElapser_new :: "int \<Rightarrow> TimeElapser" where
  "TimeElapser_new now = TimeElapser_Reset now \<lparr>te_startTime = 0\<rparr>"

definition GetStartTime :: "TimeElapser \<Rightarrow> int" where
  "GetStartTime te = duration_cast NS_PER_US (te_startTime te)"

definition ElapseMicro :: "int \<Rightarrow> TimeElapser \<Rightarrow> int" where
  "ElapseMicro now te = duration_cast NS_PER_US (now - te_startTime te)"

definition ElapseMilli :: "int \<Rightarrow> TimeElapser \<Rightarrow> int" where
  "ElapseMilli now te = duration_cast NS_PER_MS (now - te_startTime te)"

definition ElapseSec :: "int \<Rightarrow> TimeElapser \<Rightarrow> int" where
  "ElapseSec now te = duration_cast NS_PER_SEC (now - te_startTime te)"

section \<open>The timed stop of a thread\<close>

text \<open>
  The loop of \<open>Thread::StopThread(timeOut)\<close>: each observation is whether the thread is still running and
  what the clock shows. The result is whether it runs when the loop ends, \<open>None\<close> while it goes on.
\<close>

fun stop_wait :: "TimeElapser \<Rightarrow> int \<Rightarrow> (bool \<times> int) list \<Rightarrow> bool option" where
  "stop_wait te timeOut [] = None"
| "stop_wait te timeOut ((running, now) # obs) =
     (if running \<and> swrap 32 (ElapseMilli now te) < timeOut then stop_wait te timeOut obs else Some running)"

lemma duration_cast_mono:
  assumes "0 < unit" and "a \<le> b"
  shows "duration_cast unit a \<le> duration_cast unit b"
proof (cases "a < 0 \<and> 0 \<le> b")
  case True
  then have "0 \<le> (- a) div unit" "0 \<le> b div unit"
    using assms(1) by (simp_all add: pos_imp_zdiv_nonneg_iff)
  then show ?thesis using True by (simp add: duration_cast_def)
next
  case False
  then show ?thesis using assms by (auto simp: duration_cast_def zdiv_mono1)
qed

lemma duration_cast_mult:
  assumes "0 < unit"
  shows "duration_cast unit (n * unit) = n"
proof (cases "n < 0")
  case True
  have "(- (n * unit)) div unit = ((- n) * unit) div unit" by simp
  also have "\<dots> = - n" using assms by (intro nonzero_mult_div_cancel_right) simp
  finally show ?thesis using True assms by (simp add: duration_cast_def mult_less_0_iff)
next
  case False
  then show ?thesis using assms by (auto simp: duration_cast_def mult_less_0_iff)
qed

text \<open>
  The wait ends with the first observation at or after the deadline, as long as the milliseconds
  fit an \<open>int32_t\<close> (some 24 days); what follows that observation is not looked at.
\<close>

lemma stop_wait_ends:
  assumes "(running, now) \<in> set obs" and "te_startTime te + timeOut * NS_PER_MS \<le> now"
    and "now < te_startTime te + 2 ^ 31 * NS_PER_MS" and "0 \<le> timeOut"
  shows "stop_wait te timeOut obs \<noteq> None"
proof -
  let ?m = "ElapseMilli now te"
  have lo: "timeOut \<le> ?m"
    using duration_cast_mono [of NS_PER_MS "timeOut * NS_PER_MS" "now - te_startTime te"] assms(2)
    by (simp add: ElapseMilli_def duration_cast_mult)
  have "?m < 2 ^ 31"
    using assms(2-4) by (auto simp: ElapseMilli_def duration_cast_def)
  then have "swrap 32 ?m = ?m" using lo assms(4) by (intro swrap_id) simp_all
  then have stop: "\<not> swrap 32 ?m < timeOut" using lo by simp
  show ?thesis
    using assms(1)
  proof (induction obs)
    case (Cons ob obs)
    then show ?case using stop by (cases ob) auto
  qed simp
qed

text \<open>A clock that is set back holds the caller for as long as the thread runs, whatever the time-out.\<close>

lemma stop_wait_clock_set_back:
  assumes "\<forall>(running, now) \<in> set obs. running \<and> te_startTime te - 2 ^ 31 * NS_PER_MS \<le> now \<and> now \<le> te_startTime te"
    and "0 < timeOut"
  shows "stop_wait te timeOut obs = None"
  using assms
proof (induction obs)
  case (Cons ob obs)
  obtain running now where ob: "ob = (running, now)" by fastforce
  let ?m = "ElapseMilli now te"
  have now: "running" "te_startTime te - 2 ^ 31 * NS_PER_MS \<le> now" "now \<le> te_startTime te"
    using Cons.prems(1) ob by auto
  have "?m \<le> 0" "- (2 ^ 31) \<le> ?m"
    using duration_cast_mono [of NS_PER_MS "now - te_startTime te" "0 * NS_PER_MS"]
      duration_cast_mono [of NS_PER_MS "(- (2 ^ 31)) * NS_PER_MS" "now - te_startTime te"] now
    unfolding ElapseMilli_def duration_cast_mult [OF zero_less_numeral] by simp_all
  moreover from this have "swrap 32 ?m = ?m" by (intro swrap_id) simp_all
  ultimately show ?case using Cons ob now(1) by simp
qed simp

end
