(* ===== verification/QueueThreads.thy ===== *)
theory QueueThreads
  imports QueuePool "HOL-Library.Sublist"
begin

text \<open>
  The ring buffer under two threads (queuepool/queue.inl has no lock): one that pushes, as the
  caller of an engine, and one that pops, its worker. An operation is taken apart into its
  accesses to shared memory, which the threads make in any order. The counters and positions are
  atomic; the accesses to the slots are not, so that two threads must not meet in one.
\<close>

section \<open>The accesses of the two operations\<close>

text \<open>
  Where the pushing thread stands: what it does next. The last access but one of \<open>PushBack\<close> makes the
  slot readable, the last one counts it.
\<close>

datatype 'a push_pc =
    PushCheck 'a
  | PushTake 'a
  | PushPos 'a
  | PushNode 'a nat
  | PushFill 'a nat
  | PushCount 'a
  | PushEnd retcode

fun push_step :: "'a push_pc \<Rightarrow> 'a Queue \<Rightarrow> ('a push_pc \<times> 'a Queue) option" where
  "push_step (PushCheck x) q =
     Some (if q_writeAbleCount q = 0 then PushEnd RETCODE_QUEUE_FULL else PushTake x, q)"
| "push_step (PushTake x) q = Some (PushPos x, q\<lparr>q_writeAbleCount := sz_dec (q_writeAbleCount q)\<rparr>)"
| "push_step (PushPos x) q =
     (if q_totalNum q = 0 then None
      else Some (PushNode x (q_pushPos q mod q_totalNum q), q\<lparr>q_pushPos := sz_inc (q_pushPos q)\<rparr>))"
| "push_step (PushNode x k) q =
     (case q_queue q of
        None \<Rightarrow> None
      | Some nodes \<Rightarrow>
          if length nodes \<le> k then None
          else Some (PushFill x k, q\<lparr>q_queue := Some (nodes[k := (nodes ! k)\<lparr>qn_node := Some x\<rparr>])\<rparr>))"
| "push_step (PushFill x k) q =
     (case q_queue q of
        None \<Rightarrow> None
      | Some nodes \<Rightarrow>
          if length nodes \<le> k then None
          else Some (PushCount x, q\<lparr>q_queue := Some (nodes[k := (nodes ! k)\<lparr>qn_empty := False\<rparr>])\<rparr>))"
| "push_step (PushCount x) q = Some (PushEnd RETCODE_SUCCESS, q\<lparr>q_readAbleCount := sz_inc (q_readAbleCount q)\<rparr>)"
| "push_step (PushEnd r) q = None"

datatype 'a pop_pc =
    PopCheck
  | PopTake
  | PopPos
  | PopTest nat
  | PopBack
  | PopAdvance nat
  | PopRead nat
  | PopFree nat "'a option"
  | PopCount "'a option"
  | PopEnd retcode "'a option"

text \<open>\<open>++popPos_\<close> comes after the test of the slot; the slot is read and given up after that.\<close>

fun pop_step :: "'a pop_pc \<Rightarrow> 'a Queue \<Rightarrow> ('a pop_pc \<times> 'a Queue) option" where
  "pop_step PopCheck q = Some (if q_readAbleCount q = 0 then PopEnd RETCODE_QUEUE_EMPTY None else PopTake, q)"
| "pop_step PopTake q = Some (PopPos, q\<lparr>q_readAbleCount := sz_dec (q_readAbleCount q)\<rparr>)"
| "pop_step PopPos q = (if q_totalNum q = 0 then None else Some (PopTest (q_popPos q mod q_totalNum q), q))"
| "pop_step (PopTest k) q =
     (case q_queue q of
        None \<Rightarrow> None
      | Some nodes \<Rightarrow>
          if length nodes \<le> k then None
          else Some (if qn_empty (nodes ! k) then PopBack else PopAdvance k, q))"
| "pop_step PopBack q = Some (PopEnd RETCODE_QUEUE_NODE_INVALID None, q\<lparr>q_readAbleCount := sz_inc (q_readAbleCount q)\<rparr>)"
| "pop_step (PopAdvance k) q = Some (PopRead k, q\<lparr>q_popPos := sz_inc (q_popPos q)\<rparr>)"
| "pop_step (PopRead k) q =
     (case q_queue q of
        None \<Rightarrow> None
      | Some nodes \<Rightarrow> if length nodes \<le> k then None else Some (PopFree k (qn_node (nodes ! k)), q))"
| "pop_step (PopFree k m) q =
     (case q_queue q of
        None \<Rightarrow> None
      | Some nodes \<Rightarrow>
          if length nodes \<le> k then None
          else Some (PopCount m, q\<lparr>q_queue := Some (nodes[k := (nodes ! k)\<lparr>qn_empty := True\<rparr>])\<rparr>))"
| "pop_step (PopCount m) q = Some (PopEnd RETCODE_SUCCESS m, q\<lparr>q_writeAbleCount := sz_inc (q_writeAbleCount q)\<rparr>)"
| "pop_step (PopEnd r m) q = None"

text \<open>A thread that is alone runs through its operation.\<close>

fun push_run :: "nat \<Rightarrow> 'a push_pc \<times> 'a Queue \<Rightarrow> (retcode \<times> 'a Queue) option" where
  "push_run n (PushEnd r, q) = Some (r, q)"
| "push_run 0 (p, q) = None"
| "push_run (Suc n) (p, q) = (case push_step p q of None \<Rightarrow> None | Some s \<Rightarrow> push_run n s)"

fun pop_run :: "nat \<Rightarrow> 'a pop_pc \<times> 'a Queue \<Rightarrow> (retcode \<times> 'a option \<times> 'a Queue) option" where
  "pop_run n (PopEnd r m, q) = Some (r, m, q)"
| "pop_run 0 (p, q) = None"
| "pop_run (Suc n) (p, q) = (case pop_step p q of None \<Rightarrow> None | Some s \<Rightarrow> pop_run n s)"

lemma QueueNode_written: "r\<lparr>qn_node := x, qn_empty := b\<rparr> = \<lparr>qn_empty = b, qn_node = x\<rparr>"
  by (cases r) simp

lemma push_alone: "push_run 6 (PushCheck x, q) = PushBack x q"
  by (auto simp: PushBack_def numeral_eq_Suc Let_def nth_list_update not_le QueueNode_written split: option.splits)

lemma pop_alone: "pop_run 8 (PopCheck, q) = PopFront q"
  by (auto simp: PopFront_def numeral_eq_Suc Let_def not_le split: option.splits)

section \<open>One thread that pushes and one that pops\<close>

text \<open>
  \<open>ss_in\<close>: the messages of the pushes that returned success, \<open>ss_out\<close>: what the pops delivered, each
  in the order of the returns; \<open>ss_codes\<close>: the return codes of the pops.
\<close>

record 'a spsc =
  ss_queue :: "'a Queue"
  ss_push :: "'a push_pc"
  ss_pop :: "'a pop_pc"
  ss_in :: "'a list"
  ss_out :: "'a option list"
  ss_codes :: "retcode list"

definition spsc_init :: "nat \<Rightarrow> 'a spsc" where
  "spsc_init n = \<lparr>ss_queue = Queue_new True n, ss_push = PushEnd RETCODE_SUCCESS, ss_pop = PopEnd RETCODE_QUEUE_EMPTY None,
     ss_in = [], ss_out = [], ss_codes = []\<rparr>"

fun pushed :: "'a push_pc \<Rightarrow> 'a list" where
  "pushed (PushCount x) = [x]"
| "pushed _ = []"

fun popped :: "'a pop_pc \<Rightarrow> 'a option list" where
  "popped (PopCount m) = [m]"
| "popped _ = []"

fun pop_code :: "'a pop_pc \<Rightarrow> retcode list" where
  "pop_code (PopEnd r m) = [r]"
| "pop_code _ = []"

inductive spsc_step :: "'a spsc \<Rightarrow> 'a spsc \<Rightarrow> bool" where
  call_push: "ss_push s = PushEnd r \<Longrightarrow> spsc_step s (s\<lparr>ss_push := PushCheck x\<rparr>)"
| push: "push_step (ss_push s) (ss_queue s) = Some (p, q) \<Longrightarrow>
    spsc_step s (s\<lparr>ss_push := p, ss_queue := q, ss_in := ss_in s @ pushed (ss_push s)\<rparr>)"
| call_pop: "ss_pop s = PopEnd r m \<Longrightarrow> spsc_step s (s\<lparr>ss_pop := PopCheck\<rparr>)"
| pop: "pop_step (ss_pop s) (ss_queue s) = Some (c, q) \<Longrightarrow>
    spsc_step s (s\<lparr>ss_pop := c, ss_queue := q, ss_out := ss_out s @ popped (ss_pop s), ss_codes := ss_codes s @ pop_code c\<rparr>)"

inductive_cases spsc_stepE: "spsc_step s s'"

text \<open>A schedule, run: the first two start an operation, the others let a thread make its next access.\<close>

datatype 'a move = CallPush 'a | CallPop | Push1 | Pop1

fun move_step :: "'a move \<Rightarrow> 'a spsc \<Rightarrow> 'a spsc option" where
  "move_step (CallPush x) s = (case ss_push s of PushEnd r \<Rightarrow> Some (s\<lparr>ss_push := PushCheck x\<rparr>) | _ \<Rightarrow> None)"
| "move_step CallPop s = (case ss_pop s of PopEnd r m \<Rightarrow> Some (s\<lparr>ss_pop := PopCheck\<rparr>) | _ \<Rightarrow> None)"
| "move_step Push1 s =
     map_option (\<lambda>(p, q). s\<lparr>ss_push := p, ss_queue := q, ss_in := ss_in s @ pushed (ss_push s)\<rparr>)
       (push_step (ss_push s) (ss_queue s))"
| "move_step Pop1 s =
     map_option (\<lambda>(c, q). s\<lparr>ss_pop := c, ss_queue := q, ss_out := ss_out s @ popped (ss_pop s),
                            ss_codes := ss_codes s @ pop_code c\<rparr>)
       (pop_step (ss_pop s) (ss_queue s))"

fun spsc_run :: "'a move list \<Rightarrow> 'a spsc \<Rightarrow> 'a spsc option" where
  "spsc_run [] s = Some s"
| "spsc_run (m # ms) s = (case move_step m s of None \<Rightarrow> None | Some s' \<Rightarrow> spsc_run ms s')"

lemma move_step_sound: "move_step m s = Some s' \<Longrightarrow> spsc_step s s'"
  by (cases m) (auto split: push_pc.splits pop_pc.splits intro: spsc_step.intros)

lemma spsc_run_sound: "spsc_run ms s = Some s' \<Longrightarrow> spsc_step\<^sup>*\<^sup>* s s'"
proof (induction ms arbitrary: s)
  case (Cons m ms)
  then show ?case by (auto split: option.splits intro: converse_rtranclp_into_rtranclp dest!: move_step_sound)
qed simp

section \<open>The window of readable slots\<close>

text \<open>The messages from number \<open>h\<close> on are in their slots.\<close>

definition slots_ok :: "nat \<Rightarrow> 'a QueueNode list \<Rightarrow> nat \<Rightarrow> 'a list \<Rightarrow> bool" where
  "slots_ok n nodes h hist \<longleftrightarrow> length nodes = n \<and> h \<le> length hist \<and> length hist \<le> h + n \<and>
     (\<forall>i. h \<le> i \<longrightarrow> i < length hist \<longrightarrow> nodes ! (i mod n) = \<lparr>qn_empty = False, qn_node = Some (hist ! i)\<rparr>)"

lemma window_inj:
  assumes "h \<le> i" "i < h + n" "h \<le> j" "j < h + n" "i mod n = j mod (n::nat)"
  shows "i = j"
proof -
  have e: "h + (i - h) = i" "h + (j - h) = j" and l: "i - h < n" "j - h < n" using assms(1-4) by simp_all
  have "i - h = j - h"
  proof (cases "i \<le> j")
    case True
    show ?thesis by (rule slot_inj_le [of h _ n]) (unfold e, use assms(5) True l in simp_all)
  next
    case False
    show ?thesis by (rule slot_inj_le [of h _ n, symmetric]) (unfold e, use assms(5) False l in simp_all)
  qed
  then show ?thesis using e by metis
qed

lemma slots_room:
  assumes "slots_ok n nodes h hist" and "length hist < h + n"
  shows "slots_ok n (nodes[length hist mod n := y]) h hist"
proof -
  have "length hist mod n \<noteq> i mod n" if "h \<le> i" "i < length hist" for i
    using that assms window_inj [of h "length hist" n i] by (auto simp: slots_ok_def)
  then show ?thesis using assms by (auto simp: slots_ok_def)
qed

lemma slots_push:
  assumes "slots_ok n nodes h hist" and "length hist < h + n" and "qn_node (nodes ! (length hist mod n)) = Some x"
  shows "slots_ok n (nodes[length hist mod n := (nodes ! (length hist mod n))\<lparr>qn_empty := False\<rparr>]) h (hist @ [x])"
proof -
  let ?k = "length hist mod n"
  have n: "0 < n" using assms(1,2) by (auto simp: slots_ok_def)
  have "?k \<noteq> i mod n" if "h \<le> i" "i < length hist" for i
    using that assms window_inj [of h "length hist" n i] by (auto simp: slots_ok_def)
  moreover have "(nodes ! ?k)\<lparr>qn_empty := False\<rparr> = \<lparr>qn_empty = False, qn_node = Some x\<rparr>"
    using assms(3) by (cases "nodes ! ?k") simp
  ultimately show ?thesis
    using assms n by (auto simp: slots_ok_def nth_append less_Suc_eq)
qed

lemma slots_head:
  "slots_ok n nodes h hist \<Longrightarrow> h < length hist \<Longrightarrow> nodes ! (h mod n) = \<lparr>qn_empty = False, qn_node = Some (hist ! h)\<rparr>"
  by (simp add: slots_ok_def)

lemma slots_pop:
  assumes "slots_ok n nodes h hist" and "h < length hist"
  shows "slots_ok n (nodes[h mod n := y]) (Suc h) hist"
proof -
  have "h mod n \<noteq> i mod n" if "Suc h \<le> i" "i < length hist" for i
    using that assms window_inj [of h h n i] by (auto simp: slots_ok_def)
  then show ?thesis using assms by (auto simp: slots_ok_def)
qed

section \<open>The invariant\<close>

text \<open>What the counters and positions miss of the window while an operation is under way.\<close>

fun push_claims :: "'a push_pc \<Rightarrow> nat" where
  "push_claims (PushPos x) = 1"
| "push_claims (PushNode x k) = 1"
| "push_claims (PushFill x k) = 1"
| "push_claims _ = 0"

fun push_ahead :: "'a push_pc \<Rightarrow> nat" where
  "push_ahead (PushNode x k) = 1"
| "push_ahead (PushFill x k) = 1"
| "push_ahead _ = 0"

fun pop_claims :: "'a pop_pc \<Rightarrow> nat" where
  "pop_claims PopPos = 1"
| "pop_claims (PopTest k) = 1"
| "pop_claims PopBack = 1"
| "pop_claims (PopAdvance k) = 1"
| "pop_claims (PopRead k) = 1"
| "pop_claims (PopFree k m) = 1"
| "pop_claims _ = 0"

fun pop_ahead :: "'a pop_pc \<Rightarrow> nat" where
  "pop_ahead (PopRead k) = 1"
| "pop_ahead (PopFree k m) = 1"
| "pop_ahead _ = 0"

text \<open>What a thread knows at the place where it stands.\<close>

fun push_knows :: "nat \<Rightarrow> 'a Queue \<Rightarrow> 'a list \<Rightarrow> 'a push_pc \<Rightarrow> bool" where
  "push_knows n q hist (PushTake x) \<longleftrightarrow> 0 < q_writeAbleCount q"
| "push_knows n q hist (PushNode x k) \<longleftrightarrow> k = length hist mod n"
| "push_knows n q hist (PushFill x k) \<longleftrightarrow> k = length hist mod n \<and> qn_node (the (q_queue q) ! k) = Some x"
| "push_knows n q hist _ \<longleftrightarrow> True"

fun pop_knows :: "nat \<Rightarrow> 'a Queue \<Rightarrow> 'a list \<Rightarrow> nat \<Rightarrow> 'a pop_pc \<Rightarrow> bool" where
  "pop_knows n q hist h PopTake \<longleftrightarrow> 0 < q_readAbleCount q"
| "pop_knows n q hist h (PopTest k) \<longleftrightarrow> k = h mod n"
| "pop_knows n q hist h PopBack \<longleftrightarrow> False"
| "pop_knows n q hist h (PopAdvance k) \<longleftrightarrow> k = h mod n"
| "pop_knows n q hist h (PopRead k) \<longleftrightarrow> k = h mod n"
| "pop_knows n q hist h (PopFree k m) \<longleftrightarrow> k = h mod n \<and> m = Some (hist ! h)"
| "pop_knows n q hist h _ \<longleftrightarrow> True"

definition queue_ok :: "nat \<Rightarrow> 'a Queue \<Rightarrow> 'a push_pc \<Rightarrow> 'a pop_pc \<Rightarrow> 'a list \<Rightarrow> nat \<Rightarrow> bool" where
  "queue_ok n q p c hist h \<longleftrightarrow> q_totalNum q = n \<and> (\<exists>nodes. q_queue q = Some nodes \<and> slots_ok n nodes h hist) \<and>
     q_pushPos q = (length hist + push_ahead p) mod SZ \<and> q_popPos q = (h + pop_ahead c) mod SZ \<and>
     q_readAbleCount q + pop_claims c + length (pushed p) + h = length hist \<and>
     q_writeAbleCount q + push_claims p + length (popped c) + length hist = n + h \<and>
     push_knows n q hist p \<and> pop_knows n q hist h c"

lemma sz_inc_mod: "sz_inc (k mod 18446744073709551616) = Suc k mod 18446744073709551616"
  by (simp add: sz_inc_def mod_Suc_eq)

lemma pop_knows_mono:
  "pop_knows n q hist h c \<Longrightarrow> q_readAbleCount q \<le> q_readAbleCount q' \<Longrightarrow> pop_claims c = 0 \<or> h < length hist \<Longrightarrow>
     pop_knows n q' (hist @ ys) h c"
  by (cases c) (auto simp: nth_append)

lemma push_knows_mono:
  assumes "push_knows n q hist p" and "q_writeAbleCount q \<le> q_writeAbleCount q'"
    and "push_claims p = 0 \<or> qn_node (the (q_queue q') ! (length hist mod n)) = qn_node (the (q_queue q) ! (length hist mod n))"
  shows "push_knows n q' hist p"
  using assms by (cases p) auto

lemma queue_ok_push:
  assumes ok: "queue_ok n q p c hist h" and n: "0 < n" "n dvd SZ" "n < SZ" and step: "push_step p q = Some (p', q')"
  shows "queue_ok n q' p' c (hist @ pushed p') h"
proof -
  obtain nodes where nodes: "q_queue q = Some nodes" "slots_ok n nodes h hist"
    using ok by (auto simp: queue_ok_def)
  have pos: "q_totalNum q = n" "q_pushPos q = (length hist + push_ahead p) mod SZ" "q_popPos q = (h + pop_ahead c) mod SZ"
    and cnt: "q_readAbleCount q + pop_claims c + length (pushed p) + h = length hist"
      "q_writeAbleCount q + push_claims p + length (popped c) + length hist = n + h"
    and knows: "push_knows n q hist p" "pop_knows n q hist h c"
    using ok by (auto simp: queue_ok_def)
  have len: "length nodes = n" "h \<le> length hist" "length hist \<le> h + n" using nodes(2) by (simp_all add: slots_ok_def)
  have c: "pop_knows n q1 (hist @ ys) h c" if "q_readAbleCount q \<le> q_readAbleCount q1" for q1 ys
    using pop_knows_mono [OF knows(2) that] cnt(1) by fastforce
  note facts = pos cnt nodes len
  show ?thesis
  proof (cases p)
    case (PushCheck x)
    then show ?thesis using step facts c [of q "[]"] by (auto simp: queue_ok_def)
  next
    case (PushTake x)
    then have "sz_dec (q_writeAbleCount q) = q_writeAbleCount q - 1" "0 < q_writeAbleCount q"
      using knows(1) cnt n len by (simp_all add: sz_counts)
    then show ?thesis using PushTake step facts c [of q' "[]"] by (auto simp: queue_ok_def)
  next
    case (PushPos x)
    then show ?thesis
      using step facts n c [of q' "[]"] by (auto simp: queue_ok_def sz_inc_mod mod_mod_cancel)
  next
    case (PushNode x k)
    then have k: "k = length hist mod n" "k < n" "length hist < h + n" using knows(1) cnt n by simp_all
    then show ?thesis
      using PushNode step facts c [of q' "[]"] slots_room [OF nodes(2) k(3)]
      by (auto simp: queue_ok_def split: if_splits)
  next
    case (PushFill x k)
    then have k: "k = length hist mod n" "k < n" "length hist < h + n" "qn_node (nodes ! (length hist mod n)) = Some x"
      using knows(1) cnt n nodes by auto
    then show ?thesis
      using PushFill step facts c [of q' "[x]"] slots_push [OF nodes(2) k(3,4)]
      by (auto simp: queue_ok_def split: if_splits)
  next
    case (PushCount x)
    then have "sz_inc (q_readAbleCount q) = q_readAbleCount q + 1" using cnt n len by (simp add: sz_counts)
    then show ?thesis using PushCount step facts c [of q' "[]"] by (auto simp: queue_ok_def)
  next
    case (PushEnd r)
    then show ?thesis using step by simp
  qed
qed

text \<open>The number of the next message to read.\<close>

fun popping :: "'a pop_pc \<Rightarrow> nat" where
  "popping (PopCount m) = 1"
| "popping _ = 0"

lemma queue_ok_pop:
  assumes ok: "queue_ok n q p c hist h" and n: "0 < n" "n dvd SZ" "n < SZ" and step: "pop_step c q = Some (c', q')"
  shows "queue_ok n q' p c' hist (h + popping c') \<and> popped c' = map Some (take (popping c') (drop h hist))"
proof -
  obtain nodes where nodes: "q_queue q = Some nodes" "slots_ok n nodes h hist"
    using ok by (auto simp: queue_ok_def)
  have pos: "q_totalNum q = n" "q_pushPos q = (length hist + push_ahead p) mod SZ" "q_popPos q = (h + pop_ahead c) mod SZ"
    and cnt: "q_readAbleCount q + pop_claims c + length (pushed p) + h = length hist"
      "q_writeAbleCount q + push_claims p + length (popped c) + length hist = n + h"
    and knows: "push_knows n q hist p" "pop_knows n q hist h c"
    using ok by (auto simp: queue_ok_def)
  have len: "length nodes = n" "h \<le> length hist" "length hist \<le> h + n" using nodes(2) by (simp_all add: slots_ok_def)
  have pk: "push_knows n q1 hist p" if "q_writeAbleCount q \<le> q_writeAbleCount q1" "q_queue q1 = q_queue q" for q1
    using push_knows_mono [OF knows(1) that(1)] that(2) by simp
  note facts = pos cnt nodes len
  show ?thesis
  proof (cases c)
    case PopCheck
    then show ?thesis using step facts knows by (auto simp: queue_ok_def)
  next
    case PopTake
    then have "sz_dec (q_readAbleCount q) = q_readAbleCount q - 1" "0 < q_readAbleCount q"
      using knows(2) cnt n len by (simp_all add: sz_counts)
    then show ?thesis using PopTake step facts pk [of q'] by (auto simp: queue_ok_def)
  next
    case PopPos
    then show ?thesis using step facts n knows by (auto simp: queue_ok_def mod_mod_cancel)
  next
    case (PopTest k)
    then have "h < length hist" "k = h mod n" "k < n" using cnt knows(2) n by simp_all
    then show ?thesis
      using PopTest step facts knows(1) slots_head [OF nodes(2)] by (auto simp: queue_ok_def split: if_splits)
  next
    case PopBack
    then show ?thesis using knows(2) by simp
  next
    case (PopAdvance k)
    then show ?thesis using step facts pk [of q'] knows(2) by (auto simp: queue_ok_def sz_inc_mod)
  next
    case (PopRead k)
    then have "h < length hist" "k = h mod n" "k < n" using cnt knows(2) n by simp_all
    then show ?thesis
      using PopRead step facts knows(1) slots_head [OF nodes(2)] by (auto simp: queue_ok_def split: if_splits)
  next
    case (PopFree k m)
    then have k: "h < length hist" "k = h mod n" "k < n" "m = Some (hist ! h)" using cnt knows(2) n by simp_all
    define nodes1 where "nodes1 = nodes[h mod n := (nodes ! (h mod n))\<lparr>qn_empty := True\<rparr>]"
    have q': "q' = q\<lparr>q_queue := Some nodes1\<rparr>" "c' = PopCount m"
      using PopFree step nodes k len by (simp_all add: nodes1_def)
    have "qn_node (nodes1 ! (length hist mod n)) = qn_node (nodes ! (length hist mod n))"
      using len n by (simp add: nodes1_def nth_list_update)
    then have "push_knows n q' hist p" using knows(1) nodes(1) by (intro push_knows_mono [OF knows(1)]) (simp_all add: q')
    moreover have "slots_ok n nodes1 (Suc h) hist" unfolding nodes1_def by (rule slots_pop [OF nodes(2) k(1)])
    moreover have "take 1 (drop h hist) = [hist ! h]" using k(1) by (simp add: take_Suc_conv_app_nth flip: Cons_nth_drop_Suc)
    ultimately show ?thesis using PopFree facts k by (simp add: queue_ok_def q')
  next
    case (PopCount m)
    then have "sz_inc (q_writeAbleCount q) = q_writeAbleCount q + 1" using cnt n len by (simp add: sz_counts)
    then show ?thesis using PopCount step facts pk [of q'] by (auto simp: queue_ok_def)
  next
    case (PopEnd r m)
    then show ?thesis using step by simp
  qed
qed

section \<open>Two threads share a bounded queue\<close>

definition spsc_inv :: "nat \<Rightarrow> 'a spsc \<Rightarrow> bool" where
  "spsc_inv n s \<longleftrightarrow>
     (\<exists>hist h. queue_ok n (ss_queue s) (ss_push s) (ss_pop s) hist h \<and> hist = ss_in s @ pushed (ss_push s) \<and>
        ss_out s @ popped (ss_pop s) = map Some (take h hist) \<and> h = length (ss_out s) + popping (ss_pop s)) \<and>
     set (ss_codes s) \<subseteq> {RETCODE_SUCCESS, RETCODE_QUEUE_EMPTY}"

lemma spsc_inv_init: "0 < n \<Longrightarrow> spsc_inv n (spsc_init n)"
  by (simp add: spsc_inv_def spsc_init_def queue_ok_def slots_ok_def Queue_new_def)

lemma pop_codes:
  "pop_step c q = Some (c', q') \<Longrightarrow> c \<noteq> PopBack \<Longrightarrow> set (pop_code c') \<subseteq> {RETCODE_SUCCESS, RETCODE_QUEUE_EMPTY}"
  by (cases c) (auto split: if_splits option.splits)

lemma length_popped: "length (popped c) = popping c"
  by (cases c) simp_all

lemma spsc_inv_step:
  assumes "spsc_step s s'" and "spsc_inv n s" and n: "0 < n" "n dvd SZ" "n < SZ"
  shows "spsc_inv n s'"
proof -
  obtain h where ok: "queue_ok n (ss_queue s) (ss_push s) (ss_pop s) (ss_in s @ pushed (ss_push s)) h"
    and out: "ss_out s @ popped (ss_pop s) = map Some (take h (ss_in s @ pushed (ss_push s)))"
    and h: "h = length (ss_out s) + popping (ss_pop s)"
    and codes: "set (ss_codes s) \<subseteq> {RETCODE_SUCCESS, RETCODE_QUEUE_EMPTY}"
    using assms(2) by (auto simp: spsc_inv_def)
  have le: "h \<le> length (ss_in s @ pushed (ss_push s))" using ok by (auto simp: queue_ok_def slots_ok_def)
  show ?thesis
    using assms(1)
  proof (cases rule: spsc_step.cases)
    case (call_push r x)
    then show ?thesis using ok out h codes by (auto simp: spsc_inv_def queue_ok_def)
  next
    case (push p q)
    have "queue_ok n q p (ss_pop s) ((ss_in s @ pushed (ss_push s)) @ pushed p) h"
      by (rule queue_ok_push [OF ok n push(2)])
    then show ?thesis using push(1) out h codes le by (auto simp: spsc_inv_def intro!: exI [of _ h])
  next
    case (call_pop r m)
    then show ?thesis using ok out h codes by (auto simp: spsc_inv_def queue_ok_def)
  next
    case (pop c q)
    let ?h = "h + popping c" and ?hist = "ss_in s @ pushed (ss_push s)"
    have ok': "queue_ok n q (ss_push s) c ?hist ?h" and pd: "popped c = map Some (take (popping c) (drop h ?hist))"
      using queue_ok_pop [OF ok n pop(2)] by blast+
    have "ss_pop s \<noteq> PopBack" using ok by (auto simp: queue_ok_def)
    then have "set (pop_code c) \<subseteq> {RETCODE_SUCCESS, RETCODE_QUEUE_EMPTY}" by (rule pop_codes [OF pop(2)])
    moreover have "(ss_out s @ popped (ss_pop s)) @ popped c = map Some (take ?h ?hist)"
      unfolding out pd by (simp only: take_add map_append)
    moreover have "?h = length (ss_out s @ popped (ss_pop s)) + popping c" using h by (simp add: length_popped)
    ultimately show ?thesis using pop(1) ok' codes unfolding spsc_inv_def by (intro conjI exI [of _ ?hist] exI [of _ ?h]) simp_all
  qed
qed

lemma spsc_reach_inv:
  assumes "spsc_step\<^sup>*\<^sup>* (spsc_init n) s" and "0 < n" and "n dvd SZ" and "n < SZ"
  shows "spsc_inv n s"
  using assms(1)
  by (induction rule: rtranclp_induct) (auto intro: spsc_inv_init spsc_inv_step assms(2-4))

text \<open>The slot a thread is about to access.\<close>

fun push_slot_of :: "'a push_pc \<Rightarrow> nat option" where
  "push_slot_of (PushNode x k) = Some k"
| "push_slot_of (PushFill x k) = Some k"
| "push_slot_of _ = None"

fun pop_slot_of :: "'a pop_pc \<Rightarrow> nat option" where
  "pop_slot_of (PopTest k) = Some k"
| "pop_slot_of (PopRead k) = Some k"
| "pop_slot_of (PopFree k m) = Some k"
| "pop_slot_of _ = None"

lemma queue_ok_apart:
  assumes "queue_ok n q p c hist h" and "0 < n" and "push_slot_of p = Some k"
  shows "pop_slot_of c \<noteq> Some k"
proof -
  have "length hist mod n = k" "push_claims p = 1" using assms(1,3) by (cases p; simp add: queue_ok_def)+
  moreover have "h mod n = k" "pop_claims c = 1" if "pop_slot_of c = Some k"
    using assms(1) that by (cases c; simp add: queue_ok_def)+
  ultimately show ?thesis
    using window_inj [of h "length hist" n h] assms(1,2) by (auto simp: queue_ok_def)
qed

lemma mod_bound: "0 < n \<Longrightarrow> (n \<le> x mod n) = False" for n :: nat
  by (simp add: not_le)

lemma queue_ok_defined:
  assumes "queue_ok n q p c hist h" and "0 < n"
  shows "(\<exists>r. p = PushEnd r) \<or> push_step p q \<noteq> None" and "(\<exists>r m. c = PopEnd r m) \<or> pop_step c q \<noteq> None"
proof -
  obtain nodes where q: "q_totalNum q = n" "q_queue q = Some nodes" "length nodes = n"
    and knows: "push_knows n q hist p" "pop_knows n q hist h c"
    using assms(1) by (auto simp: queue_ok_def slots_ok_def)
  show "(\<exists>r. p = PushEnd r) \<or> push_step p q \<noteq> None"
    using q knows(1) assms(2) by (cases p) (simp_all add: mod_bound)
  show "(\<exists>r m. c = PopEnd r m) \<or> pop_step c q \<noteq> None"
    using q knows(2) assms(2) by (cases c) (simp_all add: mod_bound)
qed

text \<open>C12. However the accesses of a pushing and a popping thread interleave on a queue whose capacity divides
  2^64: the pops have delivered the first messages pushed, each once and in order, possibly one
  whose push has not returned; a pop never meets an invalid node; no access is outside the nodes
  and the threads are never about to access the same slot, so that there is no race on one; at most
  the capacity is counted, and when both threads are between operations the counters tell the messages
  that are in the queue.\<close>

theorem queue_two_threads:
  assumes "spsc_step\<^sup>*\<^sup>* (spsc_init n) s" and "0 < n" and "n dvd 2 ^ 64" and "n < 2 ^ 64"
  shows "ss_out s = map Some (take (length (ss_out s)) (ss_in s @ pushed (ss_push s))) \<and>
    set (ss_codes s) \<subseteq> {RETCODE_SUCCESS, RETCODE_QUEUE_EMPTY} \<and>
    ((\<exists>r. ss_push s = PushEnd r) \<or> push_step (ss_push s) (ss_queue s) \<noteq> None) \<and>
    ((\<exists>r m. ss_pop s = PopEnd r m) \<or> pop_step (ss_pop s) (ss_queue s) \<noteq> None) \<and>
    (\<forall>k. \<not> (push_slot_of (ss_push s) = Some k \<and> pop_slot_of (ss_pop s) = Some k)) \<and>
    Queue_Count (ss_queue s) \<le> n \<and>
    (\<forall>r r' m. ss_push s = PushEnd r \<and> ss_pop s = PopEnd r' m \<longrightarrow>
       length (ss_out s) + q_readAbleCount (ss_queue s) = length (ss_in s) \<and>
       q_readAbleCount (ss_queue s) + q_writeAbleCount (ss_queue s) = n)"
proof -
  obtain h where ok: "queue_ok n (ss_queue s) (ss_push s) (ss_pop s) (ss_in s @ pushed (ss_push s)) h"
    and out: "ss_out s @ popped (ss_pop s) = map Some (take h (ss_in s @ pushed (ss_push s)))"
    and h: "h = length (ss_out s) + popping (ss_pop s)"
    and codes: "set (ss_codes s) \<subseteq> {RETCODE_SUCCESS, RETCODE_QUEUE_EMPTY}"
    using spsc_reach_inv [OF assms] by (auto simp: spsc_inv_def)
  have "ss_out s = take (length (ss_out s)) (map Some (take h (ss_in s @ pushed (ss_push s))))"
    unfolding out [symmetric] by simp
  moreover have "length (ss_out s) \<le> h" using h by simp
  ultimately have "ss_out s = map Some (take (length (ss_out s)) (ss_in s @ pushed (ss_push s)))"
    by (simp only: take_map take_take min.absorb1)
  moreover have "Queue_Count (ss_queue s) \<le> n" using ok by (auto simp: queue_ok_def slots_ok_def Queue_Count_def)
  moreover have "length (ss_out s) + q_readAbleCount (ss_queue s) = length (ss_in s) \<and>
      q_readAbleCount (ss_queue s) + q_writeAbleCount (ss_queue s) = n"
    if "ss_push s = PushEnd r" "ss_pop s = PopEnd r' m" for r r' m
    using ok h that by (auto simp: queue_ok_def)
  ultimately show ?thesis
    using codes queue_ok_defined [OF ok assms(2)] queue_ok_apart [OF ok assms(2)] by blast
qed

text \<open>A push of 8 and the pop of 7 under way at once.\<close>

definition some_schedule :: "nat move list" where
  "some_schedule = [CallPush 7, Push1, Push1, Push1, Push1, Push1, Push1, CallPush 8, CallPop, Push1, Pop1, Pop1, Push1, Push1,
      Pop1, Pop1, Push1, Pop1, Push1, Pop1, Pop1, Pop1]"

lemma some_schedule_runs:
  "map_option (\<lambda>s. (ss_out s, ss_in s, ss_push s)) (spsc_run some_schedule (spsc_init 2)) = Some ([Some 7], [7], PushCount 8)"
proof -
  have "replicate 2 x = [x, x]" for x :: "nat QueueNode" by (simp add: numeral_2_eq_2)
  then show ?thesis by (simp add: some_schedule_def spsc_init_def Queue_new_def sz_inc_def sz_dec_def)
qed

lemma queue_two_threads_witness:
  "\<exists>s. spsc_run some_schedule (spsc_init 2) = Some s \<and> length (ss_out s) = 1 \<and>
     ss_out s = map Some (take (length (ss_out s)) (ss_in s @ pushed (ss_push s))) \<and>
     ss_in s @ pushed (ss_push s) = [7, 8]"
proof -
  obtain s where s: "spsc_run some_schedule (spsc_init 2) = Some s" "ss_out s = [Some 7]" "ss_in s = [7]" "ss_push s = PushCount 8"
    using some_schedule_runs by (auto simp: map_option_eq_Some)
  have "(2::nat) dvd 2 ^ 64" by simp
  then have "ss_out s = map Some (take (length (ss_out s)) (ss_in s @ pushed (ss_push s)))"
    using queue_two_threads [OF spsc_run_sound [OF s(1)]] by simp
  with s show ?thesis by simp
qed

text \<open>
  The counters do not make the queue safe for two pushing threads: both pass the test for the last
  free place, the second message overwrites the first, and the number of free places wraps around.
\<close>

fun two_pushers :: "bool list \<Rightarrow> 'a push_pc \<Rightarrow> 'a push_pc \<Rightarrow> 'a Queue \<Rightarrow> ('a push_pc \<times> 'a push_pc \<times> 'a Queue) option" where
  "two_pushers [] a b q = Some (a, b, q)"
| "two_pushers (first # sched) a b q =
     (if first then (case push_step a q of None \<Rightarrow> None | Some (a', q') \<Rightarrow> two_pushers sched a' b q')
      else (case push_step b q of None \<Rightarrow> None | Some (b', q') \<Rightarrow> two_pushers sched a b' q'))"

lemma two_pushers_overwrite:
  "\<exists>q. two_pushers [True, False, True, True, True, True, True, False, False, False, False, False]
       (PushCheck 7) (PushCheck 8) (Queue_new True 1) = Some (PushEnd RETCODE_SUCCESS, PushEnd RETCODE_SUCCESS, q) \<and>
     Queue_Count q = 2 \<and> q_writeAbleCount q = 2 ^ 64 - 1 \<and>
     q_queue q = Some [\<lparr>qn_empty = False, qn_node = Some (8::nat)\<rparr>]"
  by (simp add: Queue_new_def Queue_Count_def sz_inc_def sz_dec_def)

end
