(* ===== verification/PoolThreads.thy ===== *)
theory PoolThreads
  imports QueuePool
begin

text \<open>
  The queue pool under threads (queuepool/queue_pool.inl): the mutex of the pool covers its list only
  while a queue is taken or put, not the count of busy queues and not the test whether the list is
  empty. Any number of threads go through \<open>Pop\<close> and \<open>Push\<close>, access by access, in any order. In
  this program \<open>Pop\<close> is called by \<open>CreateEngine\<close> only, under the manager's write lock, so that one
  thread at a time is in \<open>Pop\<close>, and any number of engines give their queues back meanwhile; with
  two threads in \<open>Pop\<close> the pool breaks.
\<close>

section \<open>Threads in the pool\<close>

text \<open>Where a thread stands in \<open>Pop\<close>, by the access it makes next; and how a queue is held.\<close>

datatype popping = PopOut | PopAdd | PopLook | PopNew | PopFirst

datatype holding = Free | Using | Giving | Returning

record 'a pool_run =
  pr_pool :: "'a QueuePool"
  pr_pop :: "nat \<Rightarrow> popping"
  pr_hold :: "nat \<Rightarrow> holding"

text \<open>What the caller of \<open>Pop\<close> gets is held by it.\<close>

definition handed_out :: "nat option \<Rightarrow> (nat \<Rightarrow> holding) \<Rightarrow> (nat \<Rightarrow> holding)" where
  "handed_out r h = (case r of None \<Rightarrow> h | Some a \<Rightarrow> h(a := Using))"

text \<open>
  \<open>one\<close>: the callers of \<open>Pop\<close> are under a lock. The holder of a queue uses it until it gives it back;
  the users of one queue are those of \<open>QueueThreads\<close>.
\<close>

inductive pool_step :: "bool \<Rightarrow> 'a pool_run \<Rightarrow> 'a pool_run \<Rightarrow> bool" for one where
  pop_full: "pr_pop s i = PopOut \<Longrightarrow> Pop_busy (pr_pool s) \<Longrightarrow> pool_step one s s"
| pop_test: "(one \<longrightarrow> (\<forall>j. pr_pop s j = PopOut)) \<Longrightarrow> pr_pop s i = PopOut \<Longrightarrow> \<not> Pop_busy (pr_pool s) \<Longrightarrow>
    pool_step one s (s\<lparr>pr_pop := (pr_pop s)(i := PopAdd)\<rparr>)"
| pop_add: "pr_pop s i = PopAdd \<Longrightarrow>
    pool_step one s (s\<lparr>pr_pool := Pop_count (pr_pool s), pr_pop := (pr_pop s)(i := PopLook)\<rparr>)"
| pop_look: "pr_pop s i = PopLook \<Longrightarrow>
    pool_step one s (s\<lparr>pr_pop := (pr_pop s)(i := if Pop_empty (pr_pool s) then PopNew else PopFirst)\<rparr>)"
| pop_make: "pr_pop s i = PopNew \<Longrightarrow> Pop_make alloc nodes (pr_pool s) = (r, p') \<Longrightarrow>
    pool_step one s (s\<lparr>pr_pool := p', pr_pop := (pr_pop s)(i := PopOut), pr_hold := handed_out r (pr_hold s)\<rparr>)"
| pop_take: "pr_pop s i = PopFirst \<Longrightarrow> Pop_take (pr_pool s) = Some (a, p') \<Longrightarrow>
    pool_step one s (s\<lparr>pr_pool := p', pr_pop := (pr_pop s)(i := PopOut), pr_hold := handed_out (Some a) (pr_hold s)\<rparr>)"
| push_test: "pr_hold s a = Using \<Longrightarrow> \<not> Push_idle (pr_pool s) \<Longrightarrow>
    pool_step one s (s\<lparr>pr_hold := (pr_hold s)(a := Giving)\<rparr>)"
| push_count: "pr_hold s a = Giving \<Longrightarrow>
    pool_step one s (s\<lparr>pr_pool := Push_count (pr_pool s), pr_hold := (pr_hold s)(a := Returning)\<rparr>)"
| push_give: "pr_hold s a = Returning \<Longrightarrow> Push_give (Some a) (pr_pool s) = Some p' \<Longrightarrow>
    pool_step one s (s\<lparr>pr_pool := p', pr_hold := (pr_hold s)(a := Free)\<rparr>)"
| work: "pr_hold s a = Using \<Longrightarrow> qp_heap (pr_pool s) a = Some q \<Longrightarrow> run_ops PushBack PopFront ops q = Some (os, q') \<Longrightarrow>
    pool_step one s (s\<lparr>pr_pool := (pr_pool s)\<lparr>qp_heap := (qp_heap (pr_pool s))(a \<mapsto> q')\<rparr>\<rparr>)"

definition pool_start :: "nat \<Rightarrow> 'a pool_run" where
  "pool_start n = \<lparr>pr_pool = QueuePool_new n, pr_pop = (\<lambda>_. PopOut), pr_hold = (\<lambda>_. Free)\<rparr>"

inductive pool_reach :: "bool \<Rightarrow> nat \<Rightarrow> 'a pool_run \<Rightarrow> bool" for one n where
  start: "pool_reach one n (pool_start n)"
| step: "pool_reach one n s \<Longrightarrow> pool_step one s s' \<Longrightarrow> pool_reach one n s'"

section \<open>Counting\<close>

definition at :: "('b \<Rightarrow> bool) \<Rightarrow> (nat \<Rightarrow> 'b) \<Rightarrow> nat set" where "at P f = {i. P (f i)}"



abbreviation in_Pop :: "(nat \<Rightarrow> popping) \<Rightarrow> nat set" where "in_Pop \<equiv> at (\<lambda>x. x \<noteq> PopOut)"
abbreviation adding :: "(nat \<Rightarrow> popping) \<Rightarrow> nat set" where "adding \<equiv> at (\<lambda>x. x = PopAdd)"
abbreviation added :: "(nat \<Rightarrow> popping) \<Rightarrow> nat set" where "added \<equiv> at (\<lambda>x. x = PopLook \<or> x = PopNew \<or> x = PopFirst)"
abbreviation taking :: "(nat \<Rightarrow> popping) \<Rightarrow> nat set" where "taking \<equiv> at (\<lambda>x. x = PopFirst)"



section \<open>The invariant\<close>


definition free_queue :: "nat \<Rightarrow> 'a Queue option \<Rightarrow> bool" where
  "free_queue n q0 \<longleftrightarrow> good_queue n q0 \<and> ring_abs (the q0) = []"




lemma at_mono: "(\<And>x. P x \<Longrightarrow> Q x) \<Longrightarrow> at P f \<subseteq> at Q f"
  by (auto simp: at_def)

lemma finite_at: "finite (in_Pop f) \<Longrightarrow> finite (adding f) \<and> finite (added f) \<and> finite (taking f)"
  using at_mono [of "\<lambda>x. x = PopAdd" "\<lambda>x. x \<noteq> PopOut" f] at_mono [of "\<lambda>x. x = PopFirst" "\<lambda>x. x \<noteq> PopOut" f]
    at_mono [of "\<lambda>x. x = PopLook \<or> x = PopNew \<or> x = PopFirst" "\<lambda>x. x \<noteq> PopOut" f] finite_subset by blast








section \<open>Every access keeps it\<close>






lemma give_good:
  assumes "good_queue n (qp_heap p a)"
  shows "\<exists>q. Push_give (Some a) p = Some (p\<lparr>qp_heap := (qp_heap p)(a \<mapsto> q), qp_queues := qp_queues p @ [a]\<rparr>) \<and> free_queue n (Some q)"
proof -
  obtain q where q: "qp_heap p a = Some q" "ring_inv q" "q_totalNum q = n" using assms by (auto simp: good_queue_def)
  then obtain q' where "Queue_Reset q = Some q'" "ring_inv q'" "ring_abs q' = []" "q_totalNum q' = n"
    using Queue_Reset_ring [OF q(2)] by auto
  then show ?thesis using q(1) by (intro exI [of _ q']) (simp add: Push_give_def free_queue_def good_queue_def)
qed





section \<open>One thread in Pop\<close>


text \<open>
  The witness: a queue is out, one thread has found the list empty and makes another one, and
  meanwhile the first is being given back.
\<close>

definition pool_demo :: "int pool_run" where
  "pool_demo = \<lparr>pr_pool = (QueuePool_new 64)\<lparr>qp_busyQueueNum := 1, qp_heap := [0 \<mapsto> Queue_new True 64], qp_next := 1\<rparr>,
     pr_pop = (\<lambda>_. PopOut), pr_hold = (\<lambda>_. Free)(0 := Using)\<rparr>"

text \<open>Thread \<open>i\<close> goes through \<open>Pop\<close> alone and makes a queue.\<close>

lemma pool_demo_reach: "pool_reach one 64 pool_demo"
proof -
  let ?s0 = "pool_start 64 :: int pool_run"
  let ?s1 = "?s0\<lparr>pr_pop := (pr_pop ?s0)(0 := PopAdd)\<rparr>"
  let ?s2 = "?s1\<lparr>pr_pool := Pop_count (pr_pool ?s1), pr_pop := (pr_pop ?s1)(0 := PopLook)\<rparr>"
  let ?s3 = "?s2\<lparr>pr_pop := (pr_pop ?s2)(0 := if Pop_empty (pr_pool ?s2) then PopNew else PopFirst)\<rparr>"
  have "pool_reach one 64 ?s1"
    by (rule pool_reach.step [OF pool_reach.start], rule pop_test) (simp_all add: pool_start_def Pop_busy_def QueuePool_new_def)
  then have "pool_reach one 64 ?s2" by (rule pool_reach.step, intro pop_add) simp
  then have r3: "pool_reach one 64 ?s3" by (rule pool_reach.step, intro pop_look) simp
  obtain p' where m: "Pop_make True True (pr_pool ?s3) = (Some 0, p')"
      "p' = (QueuePool_new 64)\<lparr>qp_busyQueueNum := 1, qp_heap := [0 \<mapsto> Queue_new True 64], qp_next := 1\<rparr>"
    by (simp add: Pop_make_def Pop_count_def pool_start_def QueuePool_new_def sz_counts)
  have "pool_reach one 64 (?s3\<lparr>pr_pool := p', pr_pop := (pr_pop ?s3)(0 := PopOut), pr_hold := handed_out (Some 0) (pr_hold ?s3)\<rparr>)"
    by (rule pool_reach.step [OF r3], rule pop_make [OF _ m(1)])
      (simp add: Pop_empty_def Pop_count_def pool_start_def QueuePool_new_def)
  moreover have "?s3\<lparr>pr_pool := p', pr_pop := (pr_pop ?s3)(0 := PopOut), pr_hold := handed_out (Some 0) (pr_hold ?s3)\<rparr> = pool_demo"
    by (simp add: pool_demo_def m(2) handed_out_def pool_start_def fun_upd_idem)
  ultimately show ?thesis by simp
qed


section \<open>Two threads in Pop\<close>

text \<open>
  Without a lock around \<open>Pop\<close>: two threads pass the test before either is counted, and the count
  goes over its limit; and two threads find one queue in the list, so that the second takes the
  first queue of an empty list.
\<close>

lemma two_pops_over_limit:
  fixes s :: "'a pool_run"
  assumes "pool_reach False n s" and "qp_busyQueueNum (pr_pool s) = 9" and "i \<noteq> j" and "pr_pop s i = PopOut" and "pr_pop s j = PopOut"
  shows "\<exists>s' :: 'a pool_run. pool_reach False n s' \<and> QueuePool_BusyQueueNum (pr_pool s') = Suc MAX_QUEUE_COUNT"
proof -
  let ?s1 = "s\<lparr>pr_pop := (pr_pop s)(i := PopAdd)\<rparr>"
  let ?s2 = "?s1\<lparr>pr_pop := (pr_pop ?s1)(j := PopAdd)\<rparr>"
  let ?s3 = "?s2\<lparr>pr_pool := Pop_count (pr_pool ?s2), pr_pop := (pr_pop ?s2)(i := PopLook)\<rparr>"
  let ?s4 = "?s3\<lparr>pr_pool := Pop_count (pr_pool ?s3), pr_pop := (pr_pop ?s3)(j := PopLook)\<rparr>"
  have "pool_reach False n ?s1" by (rule pool_reach.step [OF assms(1)], rule pop_test) (use assms in \<open>simp_all add: Pop_busy_def\<close>)
  then have "pool_reach False n ?s2" by (rule pool_reach.step, intro pop_test) (use assms in \<open>simp_all add: Pop_busy_def\<close>)
  then have "pool_reach False n ?s3" by (rule pool_reach.step, intro pop_add) (use assms in simp)
  then have "pool_reach False n ?s4" by (rule pool_reach.step, intro pop_add) (use assms in simp)
  moreover have "QueuePool_BusyQueueNum (pr_pool ?s4) = Suc MAX_QUEUE_COUNT"
    using assms(2) by (simp add: Pop_count_def QueuePool_BusyQueueNum_def sz_counts)
  ultimately show ?thesis by blast
qed

lemma two_pops_empty_list:
  "\<exists>s :: int pool_run. pool_reach False 64 s \<and> pr_pop s 2 = PopFirst \<and> Pop_take (pr_pool s) = None"
proof -
  let ?a = "pool_demo\<lparr>pr_hold := (pr_hold pool_demo)(0 := Giving)\<rparr>"
  let ?b = "?a\<lparr>pr_pool := Push_count (pr_pool ?a), pr_hold := (pr_hold ?a)(0 := Returning)\<rparr>"
  have d: "qp_queues (pr_pool pool_demo) = []" "qp_busyQueueNum (pr_pool pool_demo) = 1" "pr_hold pool_demo 0 = Using"
    "pr_pop pool_demo i = PopOut" "qp_heap (pr_pool pool_demo) 0 = Some (Queue_new True 64)" for i
    by (simp_all add: pool_demo_def QueuePool_new_def)
  have "pool_reach False 64 ?a" by (rule pool_reach.step [OF pool_demo_reach], rule push_test) (simp_all add: d Push_idle_def)
  then have rb: "pool_reach False 64 ?b" by (rule pool_reach.step, intro push_count) simp
  have "good_queue 64 (qp_heap (pr_pool ?b) 0)"
    using Queue_new_ring [where 'a = int, of 64] d(5) by (simp add: Push_count_def good_queue_def dvd_eq_mod_eq_0)
  then obtain q where g: "Push_give (Some 0) (pr_pool ?b) = Some ((pr_pool ?b)\<lparr>qp_heap := (qp_heap (pr_pool ?b))(0 \<mapsto> q),
      qp_queues := qp_queues (pr_pool ?b) @ [0]\<rparr>)"
    using give_good by blast
  define c where "c = ?b\<lparr>pr_pool := (pr_pool ?b)\<lparr>qp_heap := (qp_heap (pr_pool ?b))(0 \<mapsto> q),
      qp_queues := qp_queues (pr_pool ?b) @ [0]\<rparr>, pr_hold := (pr_hold ?b)(0 := Free)\<rparr>"
  have rc: "pool_reach False 64 c" unfolding c_def by (rule pool_reach.step [OF rb], rule push_give [OF _ g]) simp
  have c: "qp_queues (pr_pool c) = [0]" "qp_busyQueueNum (pr_pool c) = 0" "pr_pop c i = PopOut" for i
    by (simp_all add: c_def Push_count_def d sz_counts)
  let ?s1 = "c\<lparr>pr_pop := (pr_pop c)(1 := PopAdd)\<rparr>"
  let ?s2 = "?s1\<lparr>pr_pool := Pop_count (pr_pool ?s1), pr_pop := (pr_pop ?s1)(1 := PopLook)\<rparr>"
  let ?s3 = "?s2\<lparr>pr_pop := (pr_pop ?s2)(1 := if Pop_empty (pr_pool ?s2) then PopNew else PopFirst)\<rparr>"
  let ?s4 = "?s3\<lparr>pr_pop := (pr_pop ?s3)(2 := PopAdd)\<rparr>"
  let ?s5 = "?s4\<lparr>pr_pool := Pop_count (pr_pool ?s4), pr_pop := (pr_pop ?s4)(2 := PopLook)\<rparr>"
  let ?s6 = "?s5\<lparr>pr_pop := (pr_pop ?s5)(2 := if Pop_empty (pr_pool ?s5) then PopNew else PopFirst)\<rparr>"
  have "pool_reach False 64 ?s1" by (rule pool_reach.step [OF rc], rule pop_test) (simp_all add: c Pop_busy_def)
  then have "pool_reach False 64 ?s2" by (rule pool_reach.step, intro pop_add) simp
  then have "pool_reach False 64 ?s3" by (rule pool_reach.step, intro pop_look) simp
  then have "pool_reach False 64 ?s4"
    by (rule pool_reach.step, intro pop_test) (simp_all add: c Pop_busy_def Pop_count_def sz_counts)
  then have "pool_reach False 64 ?s5" by (rule pool_reach.step, intro pop_add) simp
  then have r6: "pool_reach False 64 ?s6" by (rule pool_reach.step, intro pop_look) simp
  have t: "Pop_take (pr_pool ?s6) = Some (0, (pr_pool ?s6)\<lparr>qp_queues := []\<rparr>)"
    by (simp add: Pop_take_def Pop_count_def c)
  let ?s7 = "?s6\<lparr>pr_pool := (pr_pool ?s6)\<lparr>qp_queues := []\<rparr>, pr_pop := (pr_pop ?s6)(1 := PopOut),
    pr_hold := handed_out (Some 0) (pr_hold ?s6)\<rparr>"
  have "pool_reach False 64 ?s7"
    by (rule pool_reach.step [OF r6], rule pop_take [OF _ t]) (simp add: Pop_empty_def Pop_count_def c)
  moreover have "pr_pop ?s7 2 = PopFirst" by (simp add: Pop_empty_def Pop_count_def c)
  moreover have "Pop_take (pr_pool ?s7) = None" by (simp add: Pop_take_def)
  ultimately show ?thesis by blast
qed

end
