(* ===== verification/AudioLoader.thy ===== *)
theory AudioLoader
  imports Feature StdMap
begin

text \<open>
  The audio loader of services/common/platform/os_wrapper/audio_loader: the wrapper of one
  decoder, the table of decoders by handler, and the conversions of formats and rates. The codec
  library is a parameter that passes its own state; the enumerations of the media library are
  parameters too. A write outside the caller's block is undefined, \<open>None\<close>. The wrapper's mutex
  makes its operations atomic.
\<close>

section \<open>Codes, streams and the codec library\<close>

abbreviation (input) AUDIO_SUCCESS :: retcode where "AUDIO_SUCCESS \<equiv> 0"
abbreviation (input) AUDIO_NO_KEY :: retcode where "AUDIO_NO_KEY \<equiv> 1001"
abbreviation (input) AUDIO_ILLEGAL_TYPE :: retcode where "AUDIO_ILLEGAL_TYPE \<equiv> 1002"
abbreviation (input) AUDIO_NULL_CODER :: retcode where "AUDIO_NULL_CODER \<equiv> 1003"
abbreviation (input) AUDIO_INIT_FAILURE :: retcode where "AUDIO_INIT_FAILURE \<equiv> 1004"
abbreviation (input) AUDIO_CONVERT_FAILURE :: retcode where "AUDIO_CONVERT_FAILURE \<equiv> 1005"
abbreviation (input) AUDIO_INVALID_OPERATION :: retcode where "AUDIO_INVALID_OPERATION \<equiv> 1006"

abbreviation (input) INVALID_HANDLER :: int where "INVALID_HANDLER \<equiv> - 1"
abbreviation (input) CONVERT_AAC_TO_PCM :: int where "CONVERT_AAC_TO_PCM \<equiv> 1000"
abbreviation (input) AUDIO_AUDIO_POINT_NUM :: nat where "AUDIO_AUDIO_POINT_NUM \<equiv> 1024"
abbreviation (input) DECODE_TIMEOUT_MS :: nat where "DECODE_TIMEOUT_MS \<equiv> 100"
abbreviation (input) CODER_NAME :: string where "CODER_NAME \<equiv> ''codec.aac.decoder.wrapper''"

record CoderConfig =
  cc_bitRate :: nat
  cc_sampleRate :: nat
  cc_channelCount :: nat
  cc_audioFormat :: int
  cc_bitWidth :: int

record CoderStream =
  cs_buffer :: "byte list option"
  cs_size :: nat

text \<open>
  The library: \<open>co_create name bufSize\<close> is \<open>CodecCreate\<close> with the mime type, the buffer size and the
  codec type as attributes, and returns the handle it leaves behind; \<open>co_dequeInput\<close> and
  \<open>co_dequeueOutput\<close> return the index of a buffer, the latter with its address and length.
\<close>

record 's codec =
  co_sysInit :: "'s \<Rightarrow> 's"
  co_init :: "'s \<Rightarrow> 's"
  co_deinit :: "'s \<Rightarrow> 's"
  co_create :: "string \<Rightarrow> nat \<Rightarrow> 's \<Rightarrow> retcode \<times> nat option \<times> 's"
  co_start :: "nat \<Rightarrow> 's \<Rightarrow> retcode \<times> 's"
  co_stop :: "nat \<Rightarrow> 's \<Rightarrow> retcode \<times> 's"
  co_destroy :: "nat \<Rightarrow> 's \<Rightarrow> 's"
  co_dequeInput :: "nat \<Rightarrow> nat \<Rightarrow> 's \<Rightarrow> retcode \<times> nat \<times> 's"
  co_queueInput :: "nat \<Rightarrow> nat \<Rightarrow> CoderStream \<Rightarrow> nat \<Rightarrow> 's \<Rightarrow> retcode \<times> 's"
  co_dequeueOutput :: "nat \<Rightarrow> nat \<Rightarrow> 's \<Rightarrow> retcode \<times> nat \<times> CoderStream \<times> 's"
  co_queueOutput :: "nat \<Rightarrow> nat \<Rightarrow> nat \<Rightarrow> 's \<Rightarrow> 's"

section \<open>The conversions of \<open>AudioUtils\<close>\<close>

record media =
  md_formats :: "int list"
  md_profiles :: "int list"
  md_rates :: "nat list"
  md_48000 :: nat
  md_mono :: int
  md_stereo :: int

text \<open>\<open>md_formats\<close> lists AAC_LC, AAC_HE_V1, AAC_HE_V2, AAC_LD, AAC_ELD; \<open>md_profiles\<close> their profiles.\<close>

definition IsAudioCoderFormatSupported :: "media \<Rightarrow> int \<Rightarrow> bool" where
  "IsAudioCoderFormatSupported md format = (\<not> (format < hd (md_formats md) \<or> format > last (md_formats md)))"

definition GetProfileFromAudioCoderFormat :: "media \<Rightarrow> int \<Rightarrow> int" where
  "GetProfileFromAudioCoderFormat md format =
     (case map_of (zip (md_formats md) (md_profiles md)) format of
        None \<Rightarrow> hd (md_profiles md)
      | Some p \<Rightarrow> p)"

definition ConvertSampleRateForCoder :: "media \<Rightarrow> nat \<Rightarrow> nat" where
  "ConvertSampleRateForCoder md sampleRate = (if List.member (md_rates md) sampleRate then sampleRate else md_48000 md)"

definition ConvertSoundModeForCoder :: "media \<Rightarrow> nat \<Rightarrow> int" where
  "ConvertSoundModeForCoder md channelCount =
     (if channelCount = 1 then md_mono md else if channelCount = 2 then md_stereo md else md_mono md)"

section \<open>DecoderWrapper\<close>

record DecoderWrapper =
  dw_codeHandle :: "nat option"
  dw_bufSize :: nat
  dw_started :: bool

definition DecoderWrapper_new :: DecoderWrapper where
  "DecoderWrapper_new = \<lparr>dw_codeHandle = None, dw_bufSize = AUDIO_AUDIO_POINT_NUM, dw_started = False\<rparr>"

text \<open>\<open>memset_s\<close> clears the attributes, which are as large as it is told.\<close>

definition Decoder_InitCodecAttr ::
  "'s codec \<Rightarrow> DecoderWrapper \<Rightarrow> 's \<Rightarrow> retcode \<times> DecoderWrapper \<times> 's" where
  "Decoder_InitCodecAttr c d s =
     (if dw_codeHandle d \<noteq> None then (AUDIO_INIT_FAILURE, d, s)
      else
        (let (ret, h, s1) = co_create c CODER_NAME (dw_bufSize d) s;
             d1 = d\<lparr>dw_codeHandle := h\<rparr> in
         if ret \<noteq> AUDIO_SUCCESS then (AUDIO_INIT_FAILURE, d1, s1) else (AUDIO_SUCCESS, d1, s1)))"

definition Decoder_Initialize ::
  "media \<Rightarrow> 's codec \<Rightarrow> CoderConfig \<Rightarrow> DecoderWrapper \<Rightarrow> 's \<Rightarrow> retcode \<times> DecoderWrapper \<times> 's" where
  "Decoder_Initialize md c input d s =
     (if \<not> IsAudioCoderFormatSupported md (cc_audioFormat input) then (AUDIO_INIT_FAILURE, d, s)
      else
        (let (ret, d1, s1) = Decoder_InitCodecAttr c d s in
         if ret \<noteq> AUDIO_SUCCESS then (AUDIO_INIT_FAILURE, d1, s1) else (AUDIO_SUCCESS, d1, s1)))"

definition Decoder_Start :: "'s codec \<Rightarrow> DecoderWrapper \<Rightarrow> 's \<Rightarrow> retcode \<times> DecoderWrapper \<times> 's" where
  "Decoder_Start c d s =
     (if dw_started d then (AUDIO_SUCCESS, d, s)
      else
        (case dw_codeHandle d of
           None \<Rightarrow> (AUDIO_NULL_CODER, d, s)
         | Some h \<Rightarrow>
             (let (ret, s1) = co_start c h s in
              if ret \<noteq> AUDIO_SUCCESS then (ret, d, s1) else (ret, d\<lparr>dw_started := True\<rparr>, s1))))"

definition Decoder_PushSourceStream ::
  "'s codec \<Rightarrow> CoderStream \<Rightarrow> DecoderWrapper \<Rightarrow> 's \<Rightarrow> retcode \<times> 's" where
  "Decoder_PushSourceStream c stream d s =
     (if \<not> dw_started d then (AUDIO_CONVERT_FAILURE, s)
      else
        (case dw_codeHandle d of
           None \<Rightarrow> (AUDIO_NULL_CODER, s)
         | Some h \<Rightarrow>
             (let (ret, i, s1) = co_dequeInput c h DECODE_TIMEOUT_MS s in
              if ret \<noteq> AUDIO_SUCCESS then (ret, s1)
              else co_queueInput c h i stream DECODE_TIMEOUT_MS s1)))"

text \<open>
  The copy of the decoder's block into the caller's, told that the destination is as large as
  the source.
\<close>

definition pcm_copy :: "cenv \<Rightarrow> byte list \<Rightarrow> byte list \<Rightarrow> nat \<Rightarrow> (bool \<times> byte list) option" where
  "pcm_copy e dest src n =
     (if \<not> memcpy_eok e n n then Some (False, dest)
      else if n \<le> length src \<and> n \<le> length dest then Some (True, take n src @ drop n dest)
      else None)"

definition Decoder_PullCodedStream ::
  "cenv \<Rightarrow> 's codec \<Rightarrow> CoderStream \<Rightarrow> DecoderWrapper \<Rightarrow> 's \<Rightarrow> (retcode \<times> CoderStream \<times> 's) option" where
  "Decoder_PullCodedStream e c outStream d s =
     (if \<not> dw_started d then Some (AUDIO_INVALID_OPERATION, outStream, s)
      else
        (case cs_buffer outStream of
           None \<Rightarrow> Some (AUDIO_INVALID_OPERATION, outStream, s)
         | Some dest \<Rightarrow>
             if cs_size outStream = 0 then Some (AUDIO_INVALID_OPERATION, outStream, s)
             else
               (case dw_codeHandle d of
                  None \<Rightarrow> Some (AUDIO_NULL_CODER, outStream, s)
                | Some h \<Rightarrow>
                    (let (ret, i, pcm, s1) = co_dequeueOutput c h DECODE_TIMEOUT_MS s in
                     if ret \<noteq> AUDIO_SUCCESS then Some (AUDIO_CONVERT_FAILURE, outStream, s1)
                     else
                       (case cs_buffer pcm of
                          None \<Rightarrow> Some (AUDIO_CONVERT_FAILURE, outStream, s1)
                        | Some src \<Rightarrow>
                            if cs_size pcm = 0 then Some (AUDIO_CONVERT_FAILURE, outStream, s1)
                            else
                              map_option
                                (\<lambda>(ok, dest1).
                                   (if ok then AUDIO_SUCCESS else AUDIO_INVALID_OPERATION,
                                    \<lparr>cs_buffer = Some dest1, cs_size = cs_size pcm\<rparr>,
                                    co_queueOutput c h i DECODE_TIMEOUT_MS s1))
                                (pcm_copy e dest src (cs_size pcm)))))))"

definition Decoder_Stop :: "'s codec \<Rightarrow> DecoderWrapper \<Rightarrow> 's \<Rightarrow> retcode \<times> DecoderWrapper \<times> 's" where
  "Decoder_Stop c d s =
     (if \<not> dw_started d then (AUDIO_SUCCESS, d, s)
      else
        (case dw_codeHandle d of
           None \<Rightarrow> (AUDIO_SUCCESS, d, s)
         | Some h \<Rightarrow>
             (let (ret, s1) = co_stop c h s in
              if ret \<noteq> AUDIO_SUCCESS then (AUDIO_INVALID_OPERATION, d, s1)
              else (AUDIO_SUCCESS, d\<lparr>dw_codeHandle := None\<rparr>, co_destroy c h s1))))"

section \<open>AudioWrapper\<close>

record AudioWrapper =
  aw_coders :: "(int \<times> DecoderWrapper) list"
  aw_hasInitCodec :: bool
  aw_needCodec :: bool

definition AudioWrapper_new :: "'s codec \<Rightarrow> 's \<Rightarrow> AudioWrapper \<times> 's" where
  "AudioWrapper_new c s = (\<lparr>aw_coders = [], aw_hasInitCodec = False, aw_needCodec = True\<rparr>, co_sysInit c s)"

definition Audio_SetCodecMode :: "bool \<Rightarrow> AudioWrapper \<Rightarrow> AudioWrapper" where
  "Audio_SetCodecMode needCodec w = w\<lparr>aw_needCodec := needCodec\<rparr>"

text \<open>\<open>adr\<close>: the address of the decoder \<open>AIE_NEW\<close> makes. \<open>emplace\<close> keeps an entry that is there.\<close>

definition Audio_InitAudioDecoder :: "int option \<Rightarrow> int \<Rightarrow> AudioWrapper \<Rightarrow> int \<times> AudioWrapper" where
  "Audio_InitAudioDecoder adr handler w =
     (case adr of
        None \<Rightarrow> (handler, w)
      | Some a \<Rightarrow>
          (a, if sm_find (aw_coders w) a = None then w\<lparr>aw_coders := sm_put a DecoderWrapper_new (aw_coders w)\<rparr> else w))"

definition Audio_Init ::
  "'s codec \<Rightarrow> int option \<Rightarrow> int \<Rightarrow> int \<Rightarrow> AudioWrapper \<Rightarrow> 's \<Rightarrow> retcode \<times> int \<times> AudioWrapper \<times> 's" where
  "Audio_Init c adr typeId handler w s =
     (if handler \<noteq> INVALID_HANDLER then (AUDIO_INIT_FAILURE, handler, w, s)
      else
        (let (w1, s1) = (if aw_needCodec w \<and> \<not> aw_hasInitCodec w then (w\<lparr>aw_hasInitCodec := True\<rparr>, co_init c s)
                         else (w, s)) in
         if typeId = CONVERT_AAC_TO_PCM then
           (let (h, w2) = Audio_InitAudioDecoder adr handler w1 in (AUDIO_SUCCESS, h, w2, s1))
         else (AUDIO_ILLEGAL_TYPE, handler, w1, s1)))"

text \<open>\<open>CodecDeinit\<close> when the library was initialised.\<close>

definition audio_deinit :: "'s codec \<Rightarrow> AudioWrapper \<Rightarrow> 's \<Rightarrow> AudioWrapper \<times> 's" where
  "audio_deinit c w s =
     (if aw_needCodec w \<and> aw_hasInitCodec w then (w\<lparr>aw_hasInitCodec := False\<rparr>, co_deinit c s) else (w, s))"

text \<open>The decoders in the order of iteration of the unordered map.\<close>

fun stop_all :: "'s codec \<Rightarrow> DecoderWrapper list \<Rightarrow> 's \<Rightarrow> 's" where
  "stop_all c [] s = s"
| "stop_all c (d # ds) s = stop_all c ds (snd (snd (Decoder_Stop c d s)))"

definition Audio_Release :: "'s codec \<Rightarrow> DecoderWrapper list \<Rightarrow> AudioWrapper \<Rightarrow> 's \<Rightarrow> AudioWrapper \<times> 's" where
  "Audio_Release c order w s = audio_deinit c (w\<lparr>aw_coders := []\<rparr>) (stop_all c order s)"

definition Audio_Deinit :: "'s codec \<Rightarrow> int \<Rightarrow> AudioWrapper \<Rightarrow> 's \<Rightarrow> retcode \<times> AudioWrapper \<times> 's" where
  "Audio_Deinit c handler w s =
     (case sm_find (aw_coders w) handler of
        None \<Rightarrow> (AUDIO_NO_KEY, w, s)
      | Some d \<Rightarrow>
          (let (ret, _, s1) = Decoder_Stop c d s;
               w1 = w\<lparr>aw_coders := sm_erase handler (aw_coders w)\<rparr>;
               (w2, s2) = (if aw_coders w1 = [] then audio_deinit c w1 s1 else (w1, s1)) in
           (ret, w2, s2)))"

definition Audio_SetConfig ::
  "media \<Rightarrow> 's codec \<Rightarrow> int \<Rightarrow> CoderConfig \<Rightarrow> AudioWrapper \<Rightarrow> 's \<Rightarrow> retcode \<times> AudioWrapper \<times> 's" where
  "Audio_SetConfig md c handler config w s =
     (case sm_find (aw_coders w) handler of
        None \<Rightarrow> (AUDIO_NO_KEY, w, s)
      | Some d \<Rightarrow>
          (let (ret, d1, s1) = Decoder_Initialize md c config d s in
           (ret, w\<lparr>aw_coders := sm_put handler d1 (aw_coders w)\<rparr>, s1)))"

definition Audio_StartCodec :: "'s codec \<Rightarrow> int \<Rightarrow> AudioWrapper \<Rightarrow> 's \<Rightarrow> retcode \<times> AudioWrapper \<times> 's" where
  "Audio_StartCodec c handler w s =
     (case sm_find (aw_coders w) handler of
        None \<Rightarrow> (AUDIO_NO_KEY, w, s)
      | Some d \<Rightarrow>
          (let (ret, d1, s1) = Decoder_Start c d s;
               w1 = w\<lparr>aw_coders := sm_put handler d1 (aw_coders w)\<rparr> in
           if ret \<noteq> AUDIO_SUCCESS then (AUDIO_CONVERT_FAILURE, w1, s1) else (AUDIO_SUCCESS, w1, s1)))"

definition Audio_Convert ::
  "cenv \<Rightarrow> 's codec \<Rightarrow> int \<Rightarrow> CoderStream \<Rightarrow> CoderStream \<Rightarrow> AudioWrapper \<Rightarrow> 's \<Rightarrow> (retcode \<times> CoderStream \<times> 's) option" where
  "Audio_Convert e c handler source converted w s =
     (case sm_find (aw_coders w) handler of
        None \<Rightarrow> Some (AUDIO_NO_KEY, converted, s)
      | Some d \<Rightarrow>
          (let (ret, s1) = Decoder_PushSourceStream c source d s in
           if ret \<noteq> AUDIO_SUCCESS then Some (AUDIO_CONVERT_FAILURE, converted, s1)
           else Decoder_PullCodedStream e c converted d s1))"

section \<open>What the table keeps\<close>

text \<open>A decoder that is started has a codec, and the library is initialised while there are decoders.\<close>

definition decoder_ok :: "DecoderWrapper \<Rightarrow> bool" where
  "decoder_ok d \<longleftrightarrow> (dw_started d \<longrightarrow> dw_codeHandle d \<noteq> None)"

definition audio_ok :: "AudioWrapper \<Rightarrow> bool" where
  "audio_ok w \<longleftrightarrow> sm_ok (aw_coders w) \<and> (\<forall>k d. sm_find (aw_coders w) k = Some d \<longrightarrow> decoder_ok d) \<and>
     (aw_coders w \<noteq> [] \<longrightarrow> aw_hasInitCodec w)"

text \<open>The operations on the table, of a wrapper whose codec mode is never changed.\<close>

inductive audio_step :: "media \<Rightarrow> 's codec \<Rightarrow> AudioWrapper \<times> 's \<Rightarrow> AudioWrapper \<times> 's \<Rightarrow> bool"
  for md :: media and c :: "'s codec" where
  as_init: "Audio_Init c adr typeId handler w s = (ret, h, w', s') \<Longrightarrow> audio_step md c (w, s) (w', s')"
| as_config: "Audio_SetConfig md c handler config w s = (ret, w', s') \<Longrightarrow> audio_step md c (w, s) (w', s')"
| as_start: "Audio_StartCodec c handler w s = (ret, w', s') \<Longrightarrow> audio_step md c (w, s) (w', s')"
| as_deinit: "Audio_Deinit c handler w s = (ret, w', s') \<Longrightarrow> audio_step md c (w, s) (w', s')"
| as_release: "Audio_Release c order w s = (w', s') \<Longrightarrow> audio_step md c (w, s) (w', s')"

definition create_gives_handle :: "'s codec \<Rightarrow> bool" where
  "create_gives_handle c \<longleftrightarrow>
     (\<forall>n b s ret h s'. co_create c n b s = (ret, h, s') \<longrightarrow> ret = AUDIO_SUCCESS \<longrightarrow> h \<noteq> None)"

lemma decoder_ok_new [simp]: "decoder_ok DecoderWrapper_new"
  by (simp add: decoder_ok_def DecoderWrapper_new_def)

lemma Decoder_Initialize_ok:
  "Decoder_Initialize md c config d s = (ret, d', s') \<Longrightarrow> decoder_ok d \<Longrightarrow> decoder_ok d'"
  by (auto simp: Decoder_Initialize_def Decoder_InitCodecAttr_def decoder_ok_def Let_def split: if_splits prod.splits)

lemma Decoder_Start_ok: "Decoder_Start c d s = (ret, d', s') \<Longrightarrow> decoder_ok d \<Longrightarrow> decoder_ok d'"
  by (auto simp: Decoder_Start_def decoder_ok_def Let_def split: if_splits prod.splits option.splits)

lemma audio_ok_put:
  "audio_ok w \<Longrightarrow> decoder_ok d \<Longrightarrow> aw_hasInitCodec w \<Longrightarrow> audio_ok (w\<lparr>aw_coders := sm_put k d (aw_coders w)\<rparr>)"
  by (auto simp: audio_ok_def sm_put_ok sm_find_put split: if_splits)

lemma audio_ok_erase: "audio_ok w \<Longrightarrow> aw_hasInitCodec w \<Longrightarrow> audio_ok (w\<lparr>aw_coders := sm_erase k (aw_coders w)\<rparr>)"
  by (auto simp: audio_ok_def sm_erase_ok sm_find_erase split: if_splits)

lemma audio_ok_entry: "audio_ok w \<Longrightarrow> sm_find (aw_coders w) k = Some d \<Longrightarrow> decoder_ok d \<and> aw_hasInitCodec w"
  by (auto simp: audio_ok_def)

lemma audio_ok_deinit: "aw_coders w = [] \<Longrightarrow> audio_ok (fst (audio_deinit c w s))"
  by (simp add: audio_deinit_def audio_ok_def)

lemma Audio_InitAudioDecoder_ok:
  "Audio_InitAudioDecoder adr h w = (h', w') \<Longrightarrow> audio_ok w \<Longrightarrow> aw_hasInitCodec w \<Longrightarrow> audio_ok w' \<and> aw_needCodec w' = aw_needCodec w"
  by (auto simp: Audio_InitAudioDecoder_def audio_ok_put split: option.splits if_splits)

lemma audio_ok_flag: "audio_ok w \<Longrightarrow> audio_ok (w\<lparr>aw_hasInitCodec := True\<rparr>)"
  by (simp add: audio_ok_def)

lemma audio_step_ok:
  assumes "audio_step md c (w, s) (w', s')" and "audio_ok w" and "aw_needCodec w"
  shows "audio_ok w' \<and> aw_needCodec w'"
  using assms
proof (cases rule: audio_step.cases)
  case (as_init adr typeId handler ret h)
  then show ?thesis
    using assms(2,3) audio_ok_flag [OF assms(2)]
    by (auto simp: Audio_Init_def split: if_splits prod.splits dest!: Audio_InitAudioDecoder_ok)
next
  case (as_config handler config ret)
  then show ?thesis
    using assms(2,3)
    by (auto simp: Audio_SetConfig_def split: option.splits prod.splits
             dest: audio_ok_entry Decoder_Initialize_ok intro!: audio_ok_put)
next
  case (as_start handler ret)
  then show ?thesis
    using assms(2,3)
    by (auto simp: Audio_StartCodec_def Let_def split: option.splits prod.splits if_splits
             dest: audio_ok_entry Decoder_Start_ok intro!: audio_ok_put)
next
  case (as_deinit handler ret)
  show ?thesis
  proof (cases "sm_find (aw_coders w) handler")
    case None
    then show ?thesis using as_deinit assms(2,3) by (simp add: Audio_Deinit_def)
  next
    case (Some d)
    note e = audio_ok_entry [OF assms(2) Some]
    show ?thesis
      using as_deinit Some e assms(2,3) audio_ok_erase [OF assms(2), of handler]
      by (auto simp: Audio_Deinit_def Let_def audio_deinit_def audio_ok_def split: prod.splits if_splits)
  qed
next
  case (as_release order)
  then show ?thesis using assms(3) by (auto simp: Audio_Release_def audio_deinit_def audio_ok_def split: if_splits)
qed

text \<open>
  In every state the table reaches with its codec mode unchanged, the library is initialised
  while a decoder exists, and a started decoder has its codec.
\<close>

lemma audio_table_kept:
  assumes "(audio_step md c)\<^sup>*\<^sup>* (AudioWrapper_new c s) (w, s')"
  shows "audio_ok w"
proof -
  have "audio_ok (fst p) \<and> aw_needCodec (fst p)" if "(audio_step md c)\<^sup>*\<^sup>* (AudioWrapper_new c s) p" for p
    using that
  proof (induction rule: rtranclp_induct)
    case base
    show ?case by (simp add: AudioWrapper_new_def audio_ok_def)
  next
    case (step y z)
    then show ?case by (cases y; cases z) (auto dest: audio_step_ok)
  qed
  from this [OF assms] show ?thesis by simp
qed

section \<open>Conversion and release\<close>

text \<open>
  A conversion with a started decoder hands over what the codec decoded when the caller's block
  can hold it; the block's declared size plays no part in that, and a longer result is written
  past its end.
\<close>

lemma Audio_Convert_result:
  assumes "sm_find (aw_coders w) k = Some d" and "dw_started d" and "dw_codeHandle d = Some h"
    and "co_dequeInput c h DECODE_TIMEOUT_MS s = (AUDIO_SUCCESS, i, s1)"
    and "co_queueInput c h i source DECODE_TIMEOUT_MS s1 = (AUDIO_SUCCESS, s2)"
    and "co_dequeueOutput c h DECODE_TIMEOUT_MS s2 = (AUDIO_SUCCESS, j, \<lparr>cs_buffer = Some pcm, cs_size = n\<rparr>, s3)"
    and "0 < n" and "n \<le> length pcm" and "memcpy_eok e n n" and "0 < cap"
  shows "Audio_Convert e c k source \<lparr>cs_buffer = Some block, cs_size = cap\<rparr> w s =
    (if n \<le> length block
     then Some (AUDIO_SUCCESS, \<lparr>cs_buffer = Some (take n pcm @ drop n block), cs_size = n\<rparr>,
                co_queueOutput c h j DECODE_TIMEOUT_MS s3)
     else None)"
  using assms by (simp add: Audio_Convert_def Decoder_PushSourceStream_def Decoder_PullCodedStream_def pcm_copy_def)

text \<open>What stopping and giving up an entry does to the table and the library.\<close>

lemma Audio_Deinit_entry:
  assumes "sm_ok (aw_coders w)" and "sm_find (aw_coders w) k = Some d" and "aw_needCodec w" and "aw_hasInitCodec w"
    and "Decoder_Stop c d s = (ret, d1, s1)"
  obtains w' where "Audio_Deinit c k w s = (ret, w', if aw_coders w' = [] then co_deinit c s1 else s1)"
    and "aw_coders w' = sm_erase k (aw_coders w)" and "sm_find (aw_coders w') k = None"
proof (cases "sm_erase k (aw_coders w) = []")
  case True
  show ?thesis
    by (rule that [of "w\<lparr>aw_coders := [], aw_hasInitCodec := False\<rparr>"])
       (use True assms in \<open>simp_all add: Audio_Deinit_def audio_deinit_def Let_def\<close>)
next
  case False
  show ?thesis
    by (rule that [of "w\<lparr>aw_coders := sm_erase k (aw_coders w)\<rparr>"])
       (use False assms in \<open>simp_all add: Audio_Deinit_def Let_def sm_find_erase\<close>)
qed

text \<open>
  A started codec is stopped and destroyed; one that was only configured is left to itself, and so
  is one that could not be stopped: the decoder that knows its handle goes all the same.
\<close>

lemma Decoder_Stop_calls:
  "dw_started d \<Longrightarrow> dw_codeHandle d = Some h \<Longrightarrow> co_stop c h s = (AUDIO_SUCCESS, s1) \<Longrightarrow>
     Decoder_Stop c d s = (AUDIO_SUCCESS, d\<lparr>dw_codeHandle := None\<rparr>, co_destroy c h s1)"
  "\<not> dw_started d \<Longrightarrow> Decoder_Stop c d s = (AUDIO_SUCCESS, d, s)"
  "dw_started d \<Longrightarrow> dw_codeHandle d = Some h \<Longrightarrow> co_stop c h s = (r, s1) \<Longrightarrow> r \<noteq> AUDIO_SUCCESS \<Longrightarrow>
     Decoder_Stop c d s = (AUDIO_INVALID_OPERATION, d, s1)"
  by (simp_all add: Decoder_Stop_def)

lemmas Audio_Deinit_started = Audio_Deinit_entry [OF _ _ _ _ Decoder_Stop_calls(1)]
lemmas Audio_Deinit_not_started = Audio_Deinit_entry [OF _ _ _ _ Decoder_Stop_calls(2)]
lemmas Audio_Deinit_stop_fails = Audio_Deinit_entry [OF _ _ _ _ Decoder_Stop_calls(3)]

text \<open>\<open>Stop\<close> leaves \<open>started_\<close> set: a second \<open>Start\<close> reports success without a codec.\<close>

lemma Start_after_Stop:
  assumes "dw_started d" and "dw_codeHandle d = Some h" and "co_stop c h s = (AUDIO_SUCCESS, s1)"
    and "Decoder_Stop c d s = (r, d1, s2)"
  shows "Decoder_Start c d1 s2 = (AUDIO_SUCCESS, d1, s2)"
    and "Decoder_PushSourceStream c stream d1 s2 = (AUDIO_NULL_CODER, s2)"
  using assms by (auto simp: Decoder_Stop_def Decoder_Start_def Decoder_PushSourceStream_def)

text \<open>\<open>Init\<close> reports success when the decoder could not be allocated.\<close>

lemma Audio_Init_no_memory:
  "fst (Audio_Init c None CONVERT_AAC_TO_PCM INVALID_HANDLER w s) = AUDIO_SUCCESS"
  "fst (snd (Audio_Init c None CONVERT_AAC_TO_PCM INVALID_HANDLER w s)) = INVALID_HANDLER"
  by (auto simp: Audio_Init_def Audio_InitAudioDecoder_def)

text \<open>From the creation of a handler to a decoder that converts.\<close>

lemma audio_session_ready:
  assumes "audio_ok w" and "aw_needCodec w" and "sm_find (aw_coders w) a = None"
    and "IsAudioCoderFormatSupported md (cc_audioFormat config)"
    and "\<And>s. \<exists>s'. co_create c CODER_NAME AUDIO_AUDIO_POINT_NUM s = (AUDIO_SUCCESS, Some h, s')"
    and "\<And>s. \<exists>s'. co_start c h s = (AUDIO_SUCCESS, s')"
  obtains w1 s1 w2 s2 w3 s3 d where
    "Audio_Init c (Some a) CONVERT_AAC_TO_PCM INVALID_HANDLER w s = (AUDIO_SUCCESS, a, w1, s1)"
    and "Audio_SetConfig md c a config w1 s1 = (AUDIO_SUCCESS, w2, s2)"
    and "Audio_StartCodec c a w2 s2 = (AUDIO_SUCCESS, w3, s3)"
    and "sm_find (aw_coders w3) a = Some d" and "dw_started d" and "dw_codeHandle d = Some h"
proof -
  obtain w1 s1 where 1: "Audio_Init c (Some a) CONVERT_AAC_TO_PCM INVALID_HANDLER w s = (AUDIO_SUCCESS, a, w1, s1)"
    and f1: "sm_find (aw_coders w1) a = Some DecoderWrapper_new"
    using assms(2,3) by (cases "aw_hasInitCodec w") (auto simp: Audio_Init_def Audio_InitAudioDecoder_def sm_find_put)
  obtain s2 where "co_create c CODER_NAME AUDIO_AUDIO_POINT_NUM s1 = (AUDIO_SUCCESS, Some h, s2)"
    using assms(5) by blast
  then obtain w2 where 2: "Audio_SetConfig md c a config w1 s1 = (AUDIO_SUCCESS, w2, s2)"
    and f2: "sm_find (aw_coders w2) a = Some (DecoderWrapper_new\<lparr>dw_codeHandle := Some h\<rparr>)"
    using f1 assms(4)
    by (auto simp: Audio_SetConfig_def Decoder_Initialize_def Decoder_InitCodecAttr_def DecoderWrapper_new_def sm_find_put)
  obtain s3 where "co_start c h s2 = (AUDIO_SUCCESS, s3)"
    using assms(6) by blast
  then obtain w3 where 3: "Audio_StartCodec c a w2 s2 = (AUDIO_SUCCESS, w3, s3)"
    and f3: "sm_find (aw_coders w3) a = Some (DecoderWrapper_new\<lparr>dw_codeHandle := Some h, dw_started := True\<rparr>)"
    using f2 by (auto simp: Audio_StartCodec_def Decoder_Start_def DecoderWrapper_new_def sm_find_put)
  show ?thesis
    using that [OF 1 2 3 f3] by simp
qed

section \<open>A codec that copies\<close>

text \<open>Its state: the handles in use and the bytes put in.\<close>

definition copying_codec :: "(nat list \<times> byte list) codec" where
  "copying_codec =
     \<lparr>co_sysInit = (\<lambda>s. s), co_init = (\<lambda>s. s), co_deinit = (\<lambda>s. s),
      co_create = (\<lambda>n b (hs, q). (AUDIO_SUCCESS, Some (length hs), (length hs # hs, q))),
      co_start = (\<lambda>h s. (AUDIO_SUCCESS, s)), co_stop = (\<lambda>h s. (AUDIO_SUCCESS, s)),
      co_destroy = (\<lambda>h (hs, q). (remove1 h hs, q)),
      co_dequeInput = (\<lambda>h t s. (AUDIO_SUCCESS, 0, s)),
      co_queueInput = (\<lambda>h i x t (hs, q). (AUDIO_SUCCESS, (hs, case cs_buffer x of None \<Rightarrow> q | Some b \<Rightarrow> take (cs_size x) b))),
      co_dequeueOutput = (\<lambda>h t (hs, q). (AUDIO_SUCCESS, 0, \<lparr>cs_buffer = Some q, cs_size = length q\<rparr>, (hs, q))),
      co_queueOutput = (\<lambda>h i t s. s)\<rparr>"

definition some_media :: media where
  "some_media = \<lparr>md_formats = [0, 1, 2, 3, 4], md_profiles = [10, 11, 12, 13, 14], md_rates = [8000, 48000],
     md_48000 = 48000, md_mono = 0, md_stereo = 1\<rparr>"

definition some_config :: CoderConfig where
  "some_config = \<lparr>cc_bitRate = 0, cc_sampleRate = 48000, cc_channelCount = 1, cc_audioFormat = 0, cc_bitWidth = 16\<rparr>"

lemmas session_defs = AudioWrapper_new_def copying_codec_def Audio_Init_def Audio_InitAudioDecoder_def Audio_SetConfig_def
  Decoder_Initialize_def Decoder_InitCodecAttr_def IsAudioCoderFormatSupported_def some_media_def some_config_def
  Audio_StartCodec_def Decoder_Start_def DecoderWrapper_new_def Audio_Convert_def Decoder_PushSourceStream_def
  Decoder_PullCodedStream_def pcm_copy_def Audio_Deinit_def Decoder_Stop_def audio_deinit_def

text \<open>A configured decoder that was never started leaves its codec behind.\<close>

lemma configured_codec_leaks:
  "(let (w, s) = AudioWrapper_new copying_codec ([], []);
        (_, h, w, s) = Audio_Init copying_codec (Some 64) CONVERT_AAC_TO_PCM INVALID_HANDLER w s;
        (_, w, s) = Audio_SetConfig some_media copying_codec h some_config w s;
        (ret, w, s) = Audio_Deinit copying_codec h w s in (ret, aw_coders w, fst s)) = (AUDIO_SUCCESS, [], [0])"
  by (simp add: session_defs)

text \<open>Two bytes decoded into a block of one.\<close>

lemma long_result_overflows:
  "(let (w, s) = AudioWrapper_new copying_codec ([], []);
        (_, h, w, s) = Audio_Init copying_codec (Some 64) CONVERT_AAC_TO_PCM INVALID_HANDLER w s;
        (_, w, s) = Audio_SetConfig some_media copying_codec h some_config w s;
        (_, w, s) = Audio_StartCodec copying_codec h w s in
      Audio_Convert copying_env copying_codec h \<lparr>cs_buffer = Some [1, 2], cs_size = 2\<rparr>
        \<lparr>cs_buffer = Some [0], cs_size = 1\<rparr> w s) = None"
  by (simp add: session_defs copying_env_def)

end
