(* ===== verification/FileOperation.thy ===== *)
theory FileOperation
  imports EncDec
begin

text \<open>
  The file helpers of services/common/utils/file_operation: the size of a file and its content.
  The functions of the standard library are a parameter that passes the state of the file
  system; a read past the caller's buffer is undefined, \<open>None\<close>.
\<close>

section \<open>The functions\<close>

text \<open>
  \<open>so_fread f size count\<close> returns what it stores in the buffer and the number of items;
  \<open>so_seekEnd\<close> and \<open>so_seekStart\<close> are the two calls of \<open>fseek\<close>.
\<close>

record 's stdio =
  so_fopen :: "string \<Rightarrow> 's \<Rightarrow> nat option \<times> 's"
  so_seekEnd :: "nat \<Rightarrow> 's \<Rightarrow> int \<times> 's"
  so_seekStart :: "nat \<Rightarrow> 's \<Rightarrow> int \<times> 's"
  so_ftell :: "nat \<Rightarrow> 's \<Rightarrow> int"
  so_fread :: "nat \<Rightarrow> nat \<Rightarrow> nat \<Rightarrow> 's \<Rightarrow> byte list \<times> nat \<times> 's"
  so_fclose :: "nat \<Rightarrow> 's \<Rightarrow> int \<times> 's"

abbreviation (input) FILE_OPERATION_SUCCESS :: int where "FILE_OPERATION_SUCCESS \<equiv> 0"

definition GetFileSize :: "'s stdio \<Rightarrow> string \<Rightarrow> int \<Rightarrow> 's \<Rightarrow> retcode \<times> int \<times> 's" where
  "GetFileSize io fileName fileSize s =
     (case so_fopen io fileName s of
        (None, s1) \<Rightarrow> (RETCODE_FAILURE, fileSize, s1)
      | (Some fp, s1) \<Rightarrow>
          (let (sought, s2) = so_seekEnd io fp s1 in
           if sought \<noteq> FILE_OPERATION_SUCCESS then (RETCODE_FAILURE, fileSize, snd (so_fclose io fp s2))
           else
             (let fileSize1 = so_ftell io fp s2 in
              if fileSize1 \<le> 0 then (RETCODE_FAILURE, fileSize1, snd (so_fclose io fp s2))
              else
                (let (sought1, s3) = so_seekStart io fp s2 in
                 if sought1 \<noteq> FILE_OPERATION_SUCCESS then (RETCODE_FAILURE, fileSize1, snd (so_fclose io fp s3))
                 else
                   (let (closed, s4) = so_fclose io fp s3 in
                    if closed \<noteq> FILE_OPERATION_SUCCESS then (RETCODE_FAILURE, fileSize1, s4)
                    else (RETCODE_SUCCESS, fileSize1, s4))))))"

definition ReadFile ::
  "'s stdio \<Rightarrow> string \<Rightarrow> int \<Rightarrow> int \<Rightarrow> byte list option \<Rightarrow> 's \<Rightarrow> (retcode \<times> byte list option \<times> 's) option" where
  "ReadFile io fileName fileSize countNumber buffer s =
     (case buffer of
        None \<Rightarrow> Some (RETCODE_FAILURE, buffer, s)
      | Some block \<Rightarrow>
          (case so_fopen io fileName s of
             (None, s1) \<Rightarrow> Some (RETCODE_FAILURE, buffer, s1)
           | (Some fp, s1) \<Rightarrow>
               (let (bs, n, s2) = so_fread io fp (nat (fileSize mod 2 ^ 64)) (nat (countNumber mod 2 ^ 64)) s1;
                    readNumber = swrap 32 (int n) in
                if length block < length bs then None
                else
                  (let buffer1 = Some (bs @ drop (length bs) block) in
                   if readNumber \<noteq> countNumber then Some (RETCODE_FAILURE, buffer1, snd (so_fclose io fp s2))
                   else
                     (let (closed, s3) = so_fclose io fp s2 in
                      if closed \<noteq> FILE_OPERATION_SUCCESS then Some (RETCODE_FAILURE, buffer1, s3)
                      else Some (RETCODE_SUCCESS, buffer1, s3))))))"

section \<open>No stream is left open\<close>

text \<open>
  What the standard says of the streams in use: \<open>fopen\<close> adds one, \<open>fclose\<close> takes it away
  whatever it returns, and the others change nothing.
\<close>

definition stdio_laws :: "'s stdio \<Rightarrow> ('s \<Rightarrow> nat set) \<Rightarrow> bool" where
  "stdio_laws io opened \<longleftrightarrow>
     (\<forall>name s s1. so_fopen io name s = (None, s1) \<longrightarrow> opened s1 = opened s) \<and>
     (\<forall>name s s1 fp. so_fopen io name s = (Some fp, s1) \<longrightarrow> fp \<notin> opened s \<and> opened s1 = insert fp (opened s)) \<and>
     (\<forall>fp s. opened (snd (so_seekEnd io fp s)) = opened s \<and> opened (snd (so_seekStart io fp s)) = opened s) \<and>
     (\<forall>fp a b s. opened (snd (snd (so_fread io fp a b s))) = opened s) \<and>
     (\<forall>fp s. opened (snd (so_fclose io fp s)) = opened s - {fp})"

lemma stdio_lawsD:
  assumes "stdio_laws io opened"
  shows "so_fopen io name s = (None, s1) \<Longrightarrow> opened s1 = opened s"
    and "so_fopen io name s = (Some fp, s1) \<Longrightarrow> fp \<notin> opened s \<and> opened s1 = insert fp (opened s)"
    and "so_seekEnd io fp s = (r, s1) \<Longrightarrow> opened s1 = opened s"
    and "so_seekStart io fp s = (r, s1) \<Longrightarrow> opened s1 = opened s"
    and "so_fread io fp a b s = (bs, n, s1) \<Longrightarrow> opened s1 = opened s"
    and "so_fclose io fp s = (r, s1) \<Longrightarrow> opened s1 = opened s - {fp}"
    and "opened (snd (so_fclose io fp s)) = opened s - {fp}"
  using assms unfolding stdio_laws_def by (metis snd_conv)+

lemma GetFileSize_closes:
  assumes "stdio_laws io opened" and "GetFileSize io name n s = (ret, n', s')"
  shows "opened s' = opened s"
proof (cases "so_fopen io name s")
  case (Pair a s1)
  then show ?thesis
  proof (cases a)
    case None
    then show ?thesis using assms Pair by (auto simp: GetFileSize_def dest: stdio_lawsD(1))
  next
    case (Some fp)
    then show ?thesis
      using assms(2) Pair stdio_lawsD(2) [OF assms(1), of name s fp s1]
      by (auto simp: GetFileSize_def Let_def stdio_lawsD(7) [OF assms(1)] split: prod.splits if_splits
               dest!: stdio_lawsD(3) [OF assms(1)] stdio_lawsD(4) [OF assms(1)] stdio_lawsD(6) [OF assms(1)])
  qed
qed

lemma ReadFile_closes:
  assumes "stdio_laws io opened" and "ReadFile io name n k buffer s = Some (ret, buffer', s')"
  shows "opened s' = opened s"
proof (cases buffer)
  case None
  then show ?thesis using assms(2) by (simp add: ReadFile_def)
next
  case (Some block)
  obtain a s1 where p: "so_fopen io name s = (a, s1)" by fastforce
  show ?thesis
  proof (cases a)
    case None
    then show ?thesis using assms p \<open>buffer = Some block\<close> by (auto simp: ReadFile_def dest: stdio_lawsD(1))
  next
    case (Some fp)
    then show ?thesis
      using assms(2) p \<open>buffer = Some block\<close> stdio_lawsD(2) [OF assms(1), of name s fp s1]
      by (auto simp: ReadFile_def Let_def stdio_lawsD(7) [OF assms(1)] split: prod.splits if_splits
               dest!: stdio_lawsD(5) [OF assms(1)] stdio_lawsD(6) [OF assms(1)])
  qed
qed

text \<open>The number of items read passes through an \<open>int\<close>: more than \<open>INT_MAX\<close> items are never read.\<close>

lemma ReadFile_count_bound:
  assumes "ReadFile io name n k buffer s = Some (RETCODE_SUCCESS, buffer', s')"
  shows "k \<le> INT_MAX"
proof -
  obtain m where "swrap 32 (int m) = k"
    using assms by (auto simp: ReadFile_def Let_def split: option.splits prod.splits if_splits)
  then show ?thesis by (auto simp: swrap_def)
qed

text \<open>A read that succeeds leaves what the file held at the front of the buffer and the remainder as it was.\<close>

lemma ReadFile_content:
  assumes "so_fopen io name s = (Some fp, s1)" and "0 \<le> k" and "k \<le> INT_MAX" and "0 \<le> n" and "n < 2 ^ 63"
    and "so_fread io fp (nat n) (nat k) s1 = (bs, nat k, s2)" and "so_fclose io fp s2 = (0, s3)"
    and "length bs \<le> length block"
  shows "ReadFile io name n k (Some block) s = Some (RETCODE_SUCCESS, Some (bs @ drop (length bs) block), s3)"
proof -
  have "n mod 2 ^ 64 = n" "k mod 2 ^ 64 = k" using assms(2-5) by simp_all
  moreover have "swrap 32 k = k" using assms(2,3) by (simp add: swrap_def)
  ultimately show ?thesis using assms by (simp add: ReadFile_def)
qed

text \<open>A file system of one file, with the streams in use and the position.\<close>

definition one_file :: "byte list \<Rightarrow> (nat list \<times> nat) stdio" where
  "one_file bs =
     \<lparr>so_fopen = (\<lambda>name (fs, p). if fs = [] then (Some 0, ([0], 0)) else (None, (fs, p))),
      so_seekEnd = (\<lambda>f (fs, p). (0, (fs, length bs))), so_seekStart = (\<lambda>f (fs, p). (0, (fs, 0))),
      so_ftell = (\<lambda>f (fs, p). int p),
      so_fread = (\<lambda>f a b (fs, p). (take (a * b) (drop p bs), if a = 0 then 0 else min b ((length bs - p) div a), (fs, p))),
      so_fclose = (\<lambda>f (fs, p). (0, (removeAll f fs, p)))\<rparr>"

lemma one_file_laws: "stdio_laws (one_file bs) (set \<circ> fst)"
  by (auto simp: stdio_laws_def one_file_def split: if_splits)

lemma file_is_read:
  "GetFileSize (one_file [1, 2, 3]) ''f'' 0 ([], 0) = (RETCODE_SUCCESS, 3, ([], 0))"
  "ReadFile (one_file [1, 2, 3]) ''f'' 3 1 (Some [0, 0, 0, 9]) ([], 0) = Some (RETCODE_SUCCESS, Some [1, 2, 3, 9], ([], 0))"
  by (simp_all add: GetFileSize_def ReadFile_def one_file_def swrap_def)

end
