(* ===== verification/Guard.thy ===== *)
theory Guard
  imports Main
begin

text \<open>
  Ownership (utils/aie_guard.h, inf_cast_impl.h, aie_macros.h): the scope guards, which free what a
  pointer variable or a pointer points to at the end of a block, and the creation and destruction
  of the object behind an interface. Freeing a block that is gone, or in another way than it was
  allocated, is \<open>None\<close>.
\<close>

section \<open>Blocks and pointer variables\<close>

datatype allocator = ByNew | ByNewArray | ByMalloc

record owned_blocks =
  ob_var :: "nat \<Rightarrow> nat option"
  ob_block :: "nat \<Rightarrow> allocator option"
  ob_next :: nat

definition delete_block :: "allocator \<Rightarrow> nat \<Rightarrow> owned_blocks \<Rightarrow> owned_blocks option" where
  "delete_block how a s = (if ob_block s a = Some how then Some (s\<lparr>ob_block := (ob_block s)(a := None)\<rparr>) else None)"

definition set_var :: "nat \<Rightarrow> nat option \<Rightarrow> owned_blocks \<Rightarrow> owned_blocks" where
  "set_var v x s = s\<lparr>ob_var := (ob_var s)(v := x)\<rparr>"

text \<open>\<open>new (std::nothrow)\<close>: \<open>ok\<close> tells whether there is memory.\<close>

definition AIE_NEW :: "bool \<Rightarrow> nat \<Rightarrow> owned_blocks \<Rightarrow> owned_blocks" where
  "AIE_NEW ok v s =
     (if \<not> ok then set_var v None s
      else set_var v (Some (ob_next s)) (s\<lparr>ob_block := (ob_block s)(ob_next s \<mapsto> ByNew), ob_next := Suc (ob_next s)\<rparr>))"

definition AIE_DELETE :: "nat \<Rightarrow> owned_blocks \<Rightarrow> owned_blocks option" where
  "AIE_DELETE v s = (case ob_var s v of None \<Rightarrow> Some s | Some a \<Rightarrow> map_option (set_var v None) (delete_block ByNew a s))"

definition AIE_DELETE_ARRAY :: "nat \<Rightarrow> owned_blocks \<Rightarrow> owned_blocks option" where
  "AIE_DELETE_ARRAY v s = (case ob_var s v of None \<Rightarrow> Some s | Some a \<Rightarrow> map_option (set_var v None) (delete_block ByNewArray a s))"

section \<open>The class behind an interface\<close>

text \<open>The overloads of \<open>Create\<close> differ in the arguments of the constructor. The result is the pointer.\<close>

definition InfCast_Create :: "bool \<Rightarrow> owned_blocks \<Rightarrow> nat option \<times> owned_blocks" where
  "InfCast_Create ok s =
     (if \<not> ok then (None, s)
      else (Some (ob_next s), s\<lparr>ob_block := (ob_block s)(ob_next s \<mapsto> ByNew), ob_next := Suc (ob_next s)\<rparr>))"

text \<open>\<open>pc\<close> is a variable of the function; what \<open>pi\<close> refers to is set to null.\<close>

definition InfCast_Destroy :: "nat \<Rightarrow> owned_blocks \<Rightarrow> owned_blocks option" where
  "InfCast_Destroy pi0 s =
     (case ob_var s pi0 of
        None \<Rightarrow> Some (set_var pi0 None s)
      | Some a \<Rightarrow> map_option (set_var pi0 None) (delete_block ByNew a s))"

definition InfCast_Ref :: "nat option \<Rightarrow> owned_blocks \<Rightarrow> nat option" where
  "InfCast_Ref p s = (case p of None \<Rightarrow> None | Some a \<Rightarrow> if ob_block s a = None then None else Some a)"

section \<open>The guards\<close>

text \<open>A guard of a pointer variable keeps a reference to it.\<close>

record RefGuard =
  rg_t :: nat
  rg_isValid :: bool

definition RefGuard_new :: "nat \<Rightarrow> RefGuard" where "RefGuard_new v = \<lparr>rg_t = v, rg_isValid = True\<rparr>"

definition PointerGuard_dtor :: "RefGuard \<Rightarrow> owned_blocks \<Rightarrow> owned_blocks option" where
  "PointerGuard_dtor g s =
     (if ob_var s (rg_t g) = None \<or> \<not> rg_isValid g then Some s
      else map_option (set_var (rg_t g) None) (AIE_DELETE (rg_t g) s))"

definition PointerGuard_Detach :: "RefGuard \<Rightarrow> RefGuard" where "PointerGuard_Detach g = g\<lparr>rg_isValid := False\<rparr>"

definition ArrayPointerGuard_dtor :: "RefGuard \<Rightarrow> owned_blocks \<Rightarrow> owned_blocks option" where
  "ArrayPointerGuard_dtor g s =
     (if ob_var s (rg_t g) = None \<or> \<not> rg_isValid g then Some s
      else map_option (set_var (rg_t g) None) (AIE_DELETE_ARRAY (rg_t g) s))"

definition ArrayPointerGuard_Detach :: "RefGuard \<Rightarrow> RefGuard" where "ArrayPointerGuard_Detach g = g\<lparr>rg_isValid := False\<rparr>"

text \<open>\<open>destroy\<close> is \<open>T::Destroy\<close>.\<close>

definition ResGuard_dtor :: "(nat \<Rightarrow> owned_blocks \<Rightarrow> owned_blocks option) \<Rightarrow> RefGuard \<Rightarrow> owned_blocks \<Rightarrow> owned_blocks option" where
  "ResGuard_dtor destroy g s =
     (if ob_var s (rg_t g) = None \<or> \<not> rg_isValid g then Some s
      else map_option (set_var (rg_t g) None) (destroy (rg_t g) s))"

definition ResGuard_Detach :: "RefGuard \<Rightarrow> RefGuard" where "ResGuard_Detach g = g\<lparr>rg_isValid := False\<rparr>"

text \<open>A guard of a block from \<open>malloc\<close> keeps the pointer itself, which can be set later.\<close>

record MallocPointerGuard =
  mg_t :: "nat option"
  mg_isValid :: bool

definition MallocPointerGuard_empty :: MallocPointerGuard where "MallocPointerGuard_empty = \<lparr>mg_t = None, mg_isValid = True\<rparr>"

definition MallocPointerGuard_new :: "nat option \<Rightarrow> MallocPointerGuard" where
  "MallocPointerGuard_new t = \<lparr>mg_t = t, mg_isValid = True\<rparr>"

definition MallocPointerGuard_dtor :: "MallocPointerGuard \<Rightarrow> owned_blocks \<Rightarrow> owned_blocks option" where
  "MallocPointerGuard_dtor g s =
     (case mg_t g of None \<Rightarrow> Some s | Some a \<Rightarrow> if \<not> mg_isValid g then Some s else delete_block ByMalloc a s)"

definition setPointer :: "nat option \<Rightarrow> MallocPointerGuard \<Rightarrow> MallocPointerGuard" where
  "setPointer t g = g\<lparr>mg_t := t, mg_isValid := True\<rparr>"

definition MallocPointerGuard_Detach :: "MallocPointerGuard \<Rightarrow> MallocPointerGuard" where
  "MallocPointerGuard_Detach g = g\<lparr>mg_isValid := False\<rparr>"

section \<open>What a guard of a variable does\<close>

text \<open>
  What the end of such a guard's block does: the block the variable points to then, if it was
  allocated in the guard's way, is freed and the variable null; with a null variable, or detached,
  nothing happens; a block that is gone already is freed twice.
\<close>

locale scope_guard =
  fixes dtor :: "RefGuard \<Rightarrow> owned_blocks \<Rightarrow> owned_blocks option" and how :: allocator
  assumes armed: "rg_isValid g \<Longrightarrow> ob_var s (rg_t g) = Some a \<Longrightarrow>
      dtor g s = map_option (set_var (rg_t g) None) (delete_block how a s)"
    and unarmed: "\<not> rg_isValid g \<or> ob_var s (rg_t g) = None \<Longrightarrow> dtor g s = Some s"
begin

text \<open>What the variable points to at the end is freed, whatever it pointed to at the beginning.\<close>

lemma guard_frees:
  assumes "ob_var s v = Some a" and "ob_block s a = Some how"
  shows "\<exists>s'. dtor (RefGuard_new v) s = Some s' \<and> ob_var s' v = None \<and> ob_block s' a = None \<and>
    (\<forall>w. w \<noteq> v \<longrightarrow> ob_var s' w = ob_var s w) \<and> (\<forall>b. b \<noteq> a \<longrightarrow> ob_block s' b = ob_block s b)"
  using armed [of "RefGuard_new v" s a] assms by (auto simp: RefGuard_new_def delete_block_def set_var_def)

text \<open>Two guards of one variable free its block once; of two variables with the same pointer, twice.\<close>

lemma same_variable:
  assumes "dtor (RefGuard_new v) s = Some s1"
  shows "dtor (RefGuard_new v) s1 = Some s1"
proof -
  have "ob_var s1 v = None"
  proof (cases "ob_var s v")
    case None
    then show ?thesis using assms unarmed [of "RefGuard_new v" s] by (simp add: RefGuard_new_def)
  next
    case (Some a)
    then show ?thesis using assms armed [of "RefGuard_new v" s a] by (auto simp: RefGuard_new_def set_var_def delete_block_def split: if_splits)
  qed
  then show ?thesis by (intro unarmed) (simp add: RefGuard_new_def)
qed

lemma two_variables:
  assumes "v \<noteq> w" and "ob_var s v = Some a" and "ob_var s w = Some a" and "dtor (RefGuard_new v) s = Some s1"
  shows "dtor (RefGuard_new w) s1 = None"
proof -
  have "s1 = set_var v None (s\<lparr>ob_block := (ob_block s)(a := None)\<rparr>)"
    using armed [of "RefGuard_new v" s a] assms(2,4) by (auto simp: RefGuard_new_def delete_block_def split: if_splits)
  then show ?thesis
    using armed [of "RefGuard_new w" s1 a] assms(1,3) by (simp add: RefGuard_new_def set_var_def delete_block_def)
qed

end

interpretation pointer_guard: scope_guard PointerGuard_dtor ByNew
  by unfold_locales (auto simp: PointerGuard_dtor_def AIE_DELETE_def set_var_def delete_block_def)

interpretation array_guard: scope_guard ArrayPointerGuard_dtor ByNewArray
  by unfold_locales (auto simp: ArrayPointerGuard_dtor_def AIE_DELETE_ARRAY_def set_var_def delete_block_def)

interpretation res_guard: scope_guard "ResGuard_dtor InfCast_Destroy" ByNew
  by unfold_locales (auto simp: ResGuard_dtor_def InfCast_Destroy_def set_var_def delete_block_def)

text \<open>A detached guard of a request leaves it to the new owner: the queue, when a task was sent.\<close>

lemma detached_guard_keeps: "ResGuard_dtor destroy (ResGuard_Detach g) s = Some s"
  by (simp add: ResGuard_dtor_def ResGuard_Detach_def)

text \<open>An object behind an interface: created, used and destroyed; its block is gone and nothing else changed.\<close>

lemma created_and_destroyed:
  assumes "InfCast_Create ok s = (Some a, s1)" and "ob_block s (ob_next s) = None" and "ob_var s v = None"
  shows "InfCast_Ref (Some a) s1 = Some a \<and>
    (\<exists>s2. InfCast_Destroy v (set_var v (Some a) s1) = Some s2 \<and> ob_block s2 = ob_block s \<and> ob_var s2 = ob_var s \<and>
       InfCast_Ref (Some a) s2 = None)"
  using assms by (auto simp: InfCast_Create_def InfCast_Ref_def InfCast_Destroy_def delete_block_def set_var_def split: if_splits)

section \<open>What a guard of a block does\<close>

text \<open>
  The guard frees the block it was made or last set for, and leaves the variables as they are: the one
  the pointer came from is dangling afterwards, and a second guard of the block frees it twice.
\<close>

lemma malloc_guard_frees:
  assumes "ob_block s a = Some ByMalloc"
  shows "\<exists>s'. MallocPointerGuard_dtor (MallocPointerGuard_new (Some a)) s = Some s' \<and> ob_block s' a = None \<and> ob_var s' = ob_var s \<and>
    (\<forall>b. b \<noteq> a \<longrightarrow> ob_block s' b = ob_block s b) \<and> MallocPointerGuard_dtor (MallocPointerGuard_new (Some a)) s' = None"
  using assms by (simp add: MallocPointerGuard_dtor_def MallocPointerGuard_new_def delete_block_def)

text \<open>
  Setting a pointer arms the guard again and forgets the block before: that one is never freed by
  it.
\<close>

lemma setPointer_forgets:
  assumes "ob_block s a = Some ByMalloc" and "ob_block s b = Some ByMalloc" and "a \<noteq> b"
    and "g = MallocPointerGuard_new (Some a) \<or> g = MallocPointerGuard_Detach (MallocPointerGuard_new (Some a))"
  shows "\<exists>s'. MallocPointerGuard_dtor (setPointer (Some b) g) s = Some s' \<and> ob_block s' b = None \<and> ob_block s' a = Some ByMalloc"
  using assms by (auto simp: MallocPointerGuard_dtor_def setPointer_def delete_block_def)

end
