(* ===== verification/Spec2Isabelle.thy ===== *)
theory Spec2Isabelle
  imports EncDec Sync EngineRefs EndToEnd IcStart KwsStart
    PosixThread Clock QueueThreads PoolThreads AudioLoader FileOperation Guard
begin

text \<open>
  Verification development for the AI engine service, the sources under services/ and the
  interfaces under interfaces/kits. Paths in the theories are relative to the repository.

  \<^bold>\<open>The program.\<close> Applications run inference through two SDKs, for keyword
  spotting and for image classification (services/client/algorithm_sdk). An SDK opens a session
  with the client library (client_executor: client_factory.cpp), which keeps the sessions of the
  process and one connection to the server. A call of a session becomes an IPC request:
  sa_client_proxy.cpp parcels its parameters, a long block through a System V shared memory
  segment (os_wrapper/ipc). On the server sa_server.c reads the request, finds the client's
  adapter (adapter_wrapper.cpp, sa_server_adapter.cpp) and calls the server executor
  (server/server_executor). The executor has one engine per algorithm and version, with the plugin
  the plugin manager loaded (server/plugin_manager), a queue from the queue pool and a thread from
  the thread pool. Synchronous requests wait on a notifier for the engine's worker; asynchronous
  ones leave a future, whose response goes back through a listener, the records of the client's
  listener thread (client_listener_handler.cpp) and a message to the client process, where
  async_handler.cpp calls the session's callback. Parameters and results inside a message are
  serialised by utils/encdec. The plugins (server/plugin) run a model through an engine adapter;
  keyword spotting puts its features through a normaliser, a converter and a sliding window
  (os_wrapper/feature).

  \<^bold>\<open>How it is modelled.\<close> A class is a record with a field per member, its
  methods functions with the names of the code (prefixed by the class where two classes share
  one), an enumeration a datatype. Objects shared by pointer are in stores, maps from addresses,
  and an operation that would use a null or deleted object, access memory outside a block, read a
  variable that was never written, free a block twice or call a method of another class is
  \<open>None\<close>. What a function can fail at (the allocation of its objects, the singletons it asks for, threads,
  segments, the dynamic loader) is an environment record that is an argument of it, and the
  branches the source has for these failures are in the model. Not a branch is a null pool of
  threads where the thread at hand came from it (the end of \<open>CloseAiServer\<close> and of
  \<open>StopAsyncProcessThread\<close>), nor a null \<open>FutureFactory\<close> in \<open>OnEvent\<close>,
  for the task's future came from it. Identifiers, sequence numbers, transaction ids and the
  reference counts wrap at their width (\<open>swrap\<close>, words), \<open>size_t\<close> is \<open>nat\<close>
  modulo \<open>2 ^ 64\<close>, bytes and floats are words; return codes, lengths and options that are only
  passed on or compared are plain integers. A critical section under a mutex is one step; where
  threads meet in between, the operation is split there: the condition variable of the
  reader-writer lock, the wait of a synchronous execution, the rounds of the connection's thread
  and the listener threads; the queue, which has no lock, and the pool of queues, whose lock
  covers only a part of it, are split at each access to shared memory. An operation that waits is
  \<open>None\<close> while it waits for ever.

  \<^bold>\<open>The theories.\<close>

  \<^item> \<open>AieBase\<close> (protocol, constants, struct_definition): return codes, the
    shared structures, the wrapping counters, and the loop that looks for an unused identifier,
    with its locale \<open>id_space\<close> (interpreted for sequence ids, client ids and session
    ids). \<open>StdMap\<close>: ordered dictionaries and the locale \<open>dictionary\<close>.
    \<open>LendingPool\<close>: the locale \<open>lending_pool\<close> of the two pools.
  \<^item> \<open>Guard\<close> (aie_guard.h, inf_cast_impl.h, aie_macros.h): who frees what; the
    locale \<open>scope_guard\<close> of the guards of a pointer variable. The functions that use
    a guard have what it frees written out.
  \<^item> \<open>EncDec\<close> (utils/encdec, plugin_helper.cpp): the growing buffer, the
    decoder with its bounds checks. The encoder writes exactly the message of its parameters or
    fails; the decoder is safe on any bytes and accepts only canonical messages; decoding undoes
    encoding (C1-C3).
  \<^item> \<open>QueuePool\<close> (platform/queuepool): the ring buffer refines a bounded queue
    (C4); the pool by its accesses. \<open>PoolThreads\<close>: the pool lends each queue to one holder
    with one thread in \<open>Pop\<close> and any number in \<open>Push\<close> (C5), and what two threads in
    \<open>Pop\<close> would do to it. \<open>QueueThreads\<close>: the queue
    without a lock, access by access, under one pushing and one popping thread (C12), and what two
    pushing threads would do to it. \<open>Sync\<close> (semaphore, event, lock): notifier (C6),
    exclusion of the reader-writer lock and absence of lost wake-ups over all interleavings (C7,
    C8). \<open>Threads\<close>, \<open>PosixThread\<close>, \<open>Clock\<close>
    (platform/threadpool, platform/time): threads, their pool (C9, C10), the attributes a thread
    is created with, the timed stop.
  \<^item> \<open>PluginManager\<close> (plugin_manager, dl_operation): which libraries are
    opened, the cache of plugins (C13). \<open>DataChannel\<close> (data_channel): requests and
    responses. \<open>Futures\<close> (future.cpp, future_factory.cpp): fresh sequence ids and the
    matching of responses (C14, C15).
  \<^item> \<open>ServerExecutor\<close>, \<open>EngineProofs\<close>, \<open>EngineRefs\<close>
    (server_executor): tasks, handlers, workers, engines and their manager. A synchronous call
    gets its own answer (C16), also when its transaction is stopped meanwhile, for the waiting
    caller keeps the engine (C17); the reference counts, as long as no transaction is started
    twice (C18), and what goes wrong otherwise (C19, C20).
  \<^item> \<open>Ipc\<close> (os_wrapper/ipc and the parcelling of sa_client_proxy.cpp and
    sa_server.c): segments (C21), the round trip of a request (C22), the length limit (C23).
  \<^item> \<open>ServerAdapter\<close>, \<open>AdapterWrapper\<close>,
    \<open>ServerAsync\<close>, \<open>SaServer\<close> (server/communication_adapter): adapters,
    their transaction ids (C24), the records of the listener threads (C25), client ids (C26), the
    service functions. \<open>ServerProofs\<close> and \<open>ServerReach\<close>: what holds in
    every reachable state (C27); \<open>AsyncDelivery\<close>: a removed client's thread (C28) and
    the delivery of responses.
  \<^item> \<open>SaClientProxy\<close>, \<open>ClientExecutor\<close>,
    \<open>ClientProofs\<close> (services/client): the proxy's requests, the connection, the
    sessions and their callbacks (C32-C34), and a server that died while sessions are open (C35). \<open>Remote\<close>: client and server together, a
    remote call does what the local one does; C31. \<open>SyncRemote\<close>: a
    synchronous execution from the client's session to the plugin and back (C30).
    \<open>EndToEnd\<close>: an asynchronous result from the plugin to the application (C36).
  \<^item> \<open>Feature\<close>, \<open>FeatureNorm\<close> (os_wrapper/feature): the sliding
    window is the window of the stream (C37), the converter and the normaliser.
    \<open>EngineAdapter\<close>, \<open>KwsPlugin\<close>, \<open>KwsProofs\<close> (plugin/asr):
    what the model is run on (C38). \<open>IcPlugin\<close>, \<open>IcProofs\<close> (plugin/cv):
    the best scores.
  \<^item> \<open>PcmIterator\<close>, \<open>PcmProofs\<close>, \<open>SdkClient\<close>,
    \<open>KwsSdk\<close>, \<open>KwsSdkProofs\<close>, \<open>IcSdk\<close>,
    \<open>IcSdkProofs\<close> (algorithm_sdk): the windows cut from arrays of any length (C40),
    the SDKs over a service that answers.
  \<^item> \<open>Stack\<close>, \<open>KwsStack\<close>, \<open>IcStack\<close>: the
    whole system. The locale \<open>plugin_service\<close> states what an SDK needs of a call of
    the client - it has the result of the plugin, and leaves a world that stands for the
    plugin's new state -; its instance is the client, IPC, service, executor and engine of this
    repository. \<open>Connecting\<close>, \<open>Opening\<close>: from the first
    call on, the connection is made, the client added, the algorithm loaded and its engine
    started, so that the session is open on both sides (C29). \<open>KwsStart\<close>,
    \<open>IcStart\<close>: with that, from the creation of an SDK's object the sound of an
    application reaches the model of the keyword spotting plugin, and its image that of the image
    classification plugin, and the callbacks get what the models compute (C11, C39).
  \<^item> \<open>AudioLoader\<close> (os_wrapper/audio_loader): decoders and their table; a
    started decoder has a codec, the library is initialised while there are decoders, what a
    conversion writes and what a release leaves. \<open>FileOperation\<close>
    (utils/file_operation): no stream stays open.

  \<^bold>\<open>Loops.\<close> Loops over data are recursive functions with their termination
  shown. Loops that may not end are \<open>while_option\<close> (the search for an identifier) or
  \<open>partial_function (option)\<close> (the loops of the SDKs), and that they end is shown
  where a property needs it. Waits run over a list of observations of the other threads; a list
  that ends is a wait that goes on. There is no fuel.

  \<^bold>\<open>What is assumed.\<close> Parameters stand for code that is not in the repository:
  the IPC library (\<open>ipc_ops\<close>: what is written is read back in order), System V shared
  memory and memory allocation (\<open>shmenv\<close>, \<open>cenv\<close>: which calls succeed),
  dlopen and realpath, pthreads, the service manager that carries a request to the service
  (\<open>rpc\<close>), the plugin behind \<open>IPlugin\<close> (\<open>plug_ops\<close>), the
  inference engine (\<open>adapter_ops\<close>), the MFCC processor, the arithmetic of
  \<open>float\<close>, the heap algorithms of the standard library (laws in
  \<open>sorting_heap_laws\<close>), the codec library, stdio. The laws a property needs are
  hypotheses of it, each with an instance in its witness. The machine is a 64-bit little-endian
  one, although \<open>std::min\<close> in ic_sdk_impl.cpp takes its arguments at one type only
  where \<open>size_t\<close> has 32 bits; the sizes it compares are far below that bound.

  \<^bold>\<open>Not modelled.\<close> Accesses without a lock outside of the queue and its pool; the
  operations of the engine manager and of the service interleaved within one another, which are
  taken one after another but for the wait of a synchronous execution; memory exhaustion inside
  the containers of the standard library. The registration of the service (the
  end of sa_server.c, start_server.c), a table for the service manager; logging and the
  singleton macro (GetInstance and ReleaseInstance are in the models that need them);
  get_config_ini.py, run by the build. The MFCC, filter bank, logarithm and noise processors and
  the card rectification SDK are headers without sources here, as is the adapter of the inference
  engine. Tests and sample plugins are not part of the service.
\<close>

end
